(* ===== verification/Prelude.thy ===== *)
theory Prelude
  imports Main "HOL-Library.Char_ord" "HOL-Library.List_Lexorder" "HOL-Library.Sublist"
begin

text \<open>
  Shared vocabulary of the development: Python exceptions as a sum type, the result and
  state-passing combinators that sequence checks the way the scripts do, the string
  operations of \<open>str\<close> and \<open>bytes\<close> the scripts call, decimal numerals, and the regular
  expressions of \<open>re.fullmatch\<close>.

  Text. A Python \<open>str\<close> is represented by its UTF-8 bytes, a \<open>bytes\<close> object by its bytes;
  both are \<^typ>\<open>string\<close>. Decoding and encoding are therefore the identity here, the order of
  strings is the order of code points, and every offset the scripts compute falls on an ASCII
  character. Case mapping is ASCII case mapping.
\<close>

named_theorems result_simps \<open>evaluation of the error-carrying combinators\<close>
named_theorems result_elims \<open>inversion of successful results\<close>
named_theorems text_simps \<open>facts about the string operations\<close>

section \<open>Errors as values\<close>

text \<open>
  One constructor per exception class the scripts raise or catch. \<open>VersionError\<close> is a subclass
  of \<open>ValueError\<close>; \<open>GitHubError\<close> and \<open>AmbiguousCreate\<close> are subclasses of \<open>ReleaseError\<close>.
\<close>

datatype pyerror =
    VersionError string
  | ReleaseError string
  | GitHubError string bool
  | AmbiguousCreate string
  | ValueError string
  | TypeError string
  | KeyError string
  | IndexError
  | AttributeError string
  | OSError string
  | OverflowError string

type_synonym 'a result = "pyerror + 'a"

fun is_value_error :: "pyerror \<Rightarrow> bool" where
  "is_value_error (ValueError _) = True"
| "is_value_error (VersionError _) = True"
| "is_value_error _ = False"

fun is_release_error :: "pyerror \<Rightarrow> bool" where
  "is_release_error (ReleaseError _) = True"
| "is_release_error (GitHubError _ _) = True"
| "is_release_error (AmbiguousCreate _) = True"
| "is_release_error _ = False"

definition rbind :: "'a result \<Rightarrow> ('a \<Rightarrow> 'b result) \<Rightarrow> 'b result" where
  "rbind m f = (case m of Inl e \<Rightarrow> Inl e | Inr x \<Rightarrow> f x)"

definition ensure :: "bool \<Rightarrow> pyerror \<Rightarrow> unit result" where
  "ensure c e = (if c then Inr () else Inl e)"

primrec rmap :: "('a \<Rightarrow> 'b result) \<Rightarrow> 'a list \<Rightarrow> 'b list result" where
  "rmap f [] = Inr []"
| "rmap f (x # xs) = rbind (f x) (\<lambda>y. rbind (rmap f xs) (\<lambda>ys. Inr (y # ys)))"

primrec riter :: "('a \<Rightarrow> unit result) \<Rightarrow> 'a list \<Rightarrow> unit result" where
  "riter f [] = Inr ()"
| "riter f (x # xs) = rbind (f x) (\<lambda>_. riter f xs)"

primrec rfold :: "('s \<Rightarrow> 'a \<Rightarrow> 's result) \<Rightarrow> 's \<Rightarrow> 'a list \<Rightarrow> 's result" where
  "rfold f s [] = Inr s"
| "rfold f s (x # xs) = rbind (f s x) (\<lambda>s'. rfold f s' xs)"

lemma rbind_simps [simp, result_simps]:
  "rbind (Inl e) f = Inl e"
  "rbind (Inr x) f = f x"
  by (simp_all add: rbind_def)

lemma rbind_Inr_iff [result_elims]: "rbind m f = Inr y \<longleftrightarrow> (\<exists>x. m = Inr x \<and> f x = Inr y)"
  by (cases m) auto

lemma rbind_Inl_iff: "rbind m f = Inl e \<longleftrightarrow> m = Inl e \<or> (\<exists>x. m = Inr x \<and> f x = Inl e)"
  by (cases m) auto

lemma rbind_assoc: "rbind (rbind m f) g = rbind m (\<lambda>x. rbind (f x) g)"
  by (cases m) auto

lemma ensure_simps [simp, result_simps]:
  "ensure True e = Inr ()"
  "ensure False e = Inl e"
  by (simp_all add: ensure_def)

lemma ensure_Inr_iff [simp, result_elims]: "ensure c e = Inr u \<longleftrightarrow> c"
  by (simp add: ensure_def)

lemma ensure_Inl_iff [simp]: "ensure c e = Inl d \<longleftrightarrow> \<not> c \<and> d = e"
  by (auto simp: ensure_def)

lemma riter_Inr_iff [simp, result_elims]:
  "riter f xs = Inr u \<longleftrightarrow> (\<forall>x \<in> set xs. f x = Inr ())"
  by (induction xs) (auto simp: rbind_Inr_iff)

lemma rmap_Inr_length: "rmap f xs = Inr ys \<Longrightarrow> length ys = length xs"
  by (induction xs arbitrary: ys) (auto simp: rbind_Inr_iff)

lemma rmap_Inr_nth: "rmap f xs = Inr ys \<Longrightarrow> i < length xs \<Longrightarrow> f (xs ! i) = Inr (ys ! i)"
proof (induction xs arbitrary: ys i)
  case Nil
  then show ?case by simp
next
  case (Cons x xs)
  then obtain y zs where "f x = Inr y" "rmap f xs = Inr zs" "ys = y # zs"
    by (auto simp: rbind_Inr_iff)
  with Cons show ?case by (cases i) auto
qed

lemma rmap_Inr_mem: "rmap f xs = Inr ys \<Longrightarrow> x \<in> set xs \<Longrightarrow> \<exists>y \<in> set ys. f x = Inr y"
  by (metis in_set_conv_nth rmap_Inr_length rmap_Inr_nth)

lemma rmap_Inr_map: "(\<And>x. x \<in> set xs \<Longrightarrow> f x = Inr (g x)) \<Longrightarrow> rmap f xs = Inr (map g xs)"
  by (induction xs) auto

section \<open>State passing\<close>

text \<open>
  Scripts that talk to the outside (the \<open>gh\<close> executable, the clock) are functions from a world
  to a result and a new world. The world is a type variable: what the outside answers is a
  parameter.
\<close>

type_synonym ('w, 'a) io = "'w \<Rightarrow> 'a result \<times> 'w"

definition ireturn :: "'a \<Rightarrow> ('w, 'a) io" where
  "ireturn x w = (Inr x, w)"

definition ilift :: "'a result \<Rightarrow> ('w, 'a) io" where
  "ilift r w = (r, w)"

definition ibind :: "('w, 'a) io \<Rightarrow> ('a \<Rightarrow> ('w, 'b) io) \<Rightarrow> ('w, 'b) io" where
  "ibind m f w = (case m w of (Inl e, w') \<Rightarrow> (Inl e, w') | (Inr x, w') \<Rightarrow> f x w')"

lemma ireturn_apply [simp, result_simps]: "ireturn x w = (Inr x, w)"
  by (simp add: ireturn_def)

lemma ilift_apply [simp, result_simps]: "ilift r w = (r, w)"
  by (simp add: ilift_def)

lemma ibind_Inr_iff [result_elims]:
  "ibind m f w = (Inr y, w') \<longleftrightarrow> (\<exists>x v. m w = (Inr x, v) \<and> f x v = (Inr y, w'))"
  by (auto simp: ibind_def split: prod.splits sum.splits)

lemma ibind_lift [simp, result_simps]:
  "ibind (ilift (Inl e)) f w = (Inl e, w)"
  "ibind (ilift (Inr x)) f w = f x w"
  by (simp_all add: ibind_def)

section \<open>String operations\<close>

definition is_digit :: "char \<Rightarrow> bool" where
  "is_digit c \<longleftrightarrow> 48 \<le> (of_char c :: nat) \<and> (of_char c :: nat) \<le> 57"

definition is_lower :: "char \<Rightarrow> bool" where
  "is_lower c \<longleftrightarrow> 97 \<le> (of_char c :: nat) \<and> (of_char c :: nat) \<le> 122"

definition is_upper :: "char \<Rightarrow> bool" where
  "is_upper c \<longleftrightarrow> 65 \<le> (of_char c :: nat) \<and> (of_char c :: nat) \<le> 90"

definition is_hex :: "char \<Rightarrow> bool" where
  "is_hex c \<longleftrightarrow> is_digit c \<or> (97 \<le> (of_char c :: nat) \<and> (of_char c :: nat) \<le> 102)"

text \<open>\<open>str.isspace\<close> on ASCII: tab, newline, vertical tab, form feed, return, space and the
  four information separators.\<close>

definition is_space :: "char \<Rightarrow> bool" where
  "is_space c \<longleftrightarrow> (of_char c :: nat) = 32
     \<or> (9 \<le> (of_char c :: nat) \<and> (of_char c :: nat) \<le> 13)
     \<or> (28 \<le> (of_char c :: nat) \<and> (of_char c :: nat) \<le> 31)"

definition lower_char :: "char \<Rightarrow> char" where
  "lower_char c = (if is_upper c then char_of ((of_char c :: nat) + 32) else c)"

definition lower :: "string \<Rightarrow> string" where
  "lower s = map lower_char s"

text \<open>\<open>str.split(sep)\<close> for a one-character separator, and the inverse \<open>sep.join\<close>.\<close>

primrec split_on :: "'a \<Rightarrow> 'a list \<Rightarrow> 'a list list" where
  "split_on c [] = [[]]"
| "split_on c (x # xs) =
     (if x = c then [] # split_on c xs
      else (case split_on c xs of [] \<Rightarrow> [[x]] | y # ys \<Rightarrow> (x # y) # ys))"

primrec join_with :: "'a list \<Rightarrow> 'a list list \<Rightarrow> 'a list" where
  "join_with sep [] = []"
| "join_with sep (x # xs) = (if xs = [] then x else x @ sep @ join_with sep xs)"

definition lstrip_by :: "('a \<Rightarrow> bool) \<Rightarrow> 'a list \<Rightarrow> 'a list" where
  "lstrip_by p s = dropWhile p s"

definition rstrip_by :: "('a \<Rightarrow> bool) \<Rightarrow> 'a list \<Rightarrow> 'a list" where
  "rstrip_by p s = rev (dropWhile p (rev s))"

definition strip_by :: "('a \<Rightarrow> bool) \<Rightarrow> 'a list \<Rightarrow> 'a list" where
  "strip_by p s = rstrip_by p (lstrip_by p s)"

abbreviation strip :: "string \<Rightarrow> string" where
  "strip \<equiv> strip_by is_space"

lemma split_on_not_Nil [simp, text_simps]: "split_on c xs \<noteq> []"
  by (induction xs) (auto split: list.splits)

lemma split_on_no_sep [text_simps]: "c \<notin> set xs \<Longrightarrow> split_on c xs = [xs]"
  by (induction xs) auto

lemma split_on_append_sep [text_simps]:
  "c \<notin> set xs \<Longrightarrow> split_on c (xs @ c # ys) = xs # split_on c ys"
  by (induction xs) auto

lemma split_on_parts: "p \<in> set (split_on c xs) \<Longrightarrow> c \<notin> set p \<and> set p \<subseteq> set xs"
proof (induction xs arbitrary: p)
  case Nil
  then show ?case by simp
next
  case (Cons x xs)
  obtain y ys where s: "split_on c xs = y # ys"
    by (cases "split_on c xs") auto
  have IH: "c \<notin> set q \<and> set q \<subseteq> set xs" if "q \<in> set (y # ys)" for q
    using Cons.IH that unfolding s by blast
  have "p = [] \<or> p \<in> set (y # ys) \<or> (x \<noteq> c \<and> p = x # y)"
    using Cons.prems s by (auto split: if_splits)
  then show ?case
    using IH [of p] IH [of y] by auto
qed

lemma join_split [text_simps]: "join_with [c] (split_on c xs) = xs"
proof (induction xs)
  case Nil
  then show ?case by simp
next
  case (Cons x xs)
  then show ?case by (cases "split_on c xs") auto
qed

lemma set_strip_by: "set (strip_by p s) \<subseteq> set s"
  unfolding strip_by_def rstrip_by_def lstrip_by_def
  by (metis set_dropWhileD set_rev subsetI)

lemma strip_by_none [text_simps]: "(\<And>c. c \<in> set s \<Longrightarrow> \<not> p c) \<Longrightarrow> strip_by p s = s"
proof -
  assume a: "\<And>c. c \<in> set s \<Longrightarrow> \<not> p c"
  have "dropWhile p s = s"
    using a by (cases s) auto
  moreover have "dropWhile p (rev s) = rev s"
    using a by (cases "rev s") (auto simp: rev_eq_Cons_iff)
  ultimately show ?thesis
    by (simp add: strip_by_def lstrip_by_def rstrip_by_def)
qed

end
