(* ===== verification/Regex.thy ===== *)
theory Regex
  imports Prelude
begin

text \<open>
  The scripts validate almost every external string with \<open>re.fullmatch\<close>. This theory gives
  those patterns a syntax (\<open>rx\<close>), a reference meaning (\<open>lang\<close>: the set of strings a pattern
  matches completely) and the executable matcher \<open>fullmatch\<close> by derivatives, proved equal to
  the reference. Patterns are then written as in the source.
\<close>

datatype rx =
    Empty
  | Eps
  | Cls "char \<Rightarrow> bool"
  | Seq rx rx
  | Alt rx rx
  | Star rx

inductive_set star_of :: "string set \<Rightarrow> string set" for A where
  star_Nil: "[] \<in> star_of A"
| star_app: "u \<in> A \<Longrightarrow> v \<in> star_of A \<Longrightarrow> u @ v \<in> star_of A"

primrec lang :: "rx \<Rightarrow> string set" where
  "lang Empty = {}"
| "lang Eps = {[]}"
| "lang (Cls p) = {[c] | c. p c}"
| "lang (Seq r s) = {u @ v | u v. u \<in> lang r \<and> v \<in> lang s}"
| "lang (Alt r s) = lang r \<union> lang s"
| "lang (Star r) = star_of (lang r)"

section \<open>The matcher\<close>

primrec nullable :: "rx \<Rightarrow> bool" where
  "nullable Empty = False"
| "nullable Eps = True"
| "nullable (Cls p) = False"
| "nullable (Seq r s) = (nullable r \<and> nullable s)"
| "nullable (Alt r s) = (nullable r \<or> nullable s)"
| "nullable (Star r) = True"

text \<open>Simplifying constructors keep the derivatives small.\<close>

fun mk_seq :: "rx \<Rightarrow> rx \<Rightarrow> rx" where
  "mk_seq Empty s = Empty"
| "mk_seq Eps s = s"
| "mk_seq r s = Seq r s"

fun mk_alt :: "rx \<Rightarrow> rx \<Rightarrow> rx" where
  "mk_alt Empty s = s"
| "mk_alt r Empty = r"
| "mk_alt r s = Alt r s"

primrec deriv :: "char \<Rightarrow> rx \<Rightarrow> rx" where
  "deriv c Empty = Empty"
| "deriv c Eps = Empty"
| "deriv c (Cls p) = (if p c then Eps else Empty)"
| "deriv c (Seq r s) =
     (if nullable r then mk_alt (mk_seq (deriv c r) s) (deriv c s)
      else mk_seq (deriv c r) s)"
| "deriv c (Alt r s) = mk_alt (deriv c r) (deriv c s)"
| "deriv c (Star r) = mk_seq (deriv c r) (Star r)"

primrec fullmatch :: "rx \<Rightarrow> string \<Rightarrow> bool" where
  "fullmatch r [] = nullable r"
| "fullmatch r (c # cs) = fullmatch (deriv c r) cs"

lemma nullable_lang: "nullable r \<longleftrightarrow> [] \<in> lang r"
  by (induction r) (auto intro: star_of.intros)

lemma lang_mk_seq [simp]: "lang (mk_seq r s) = lang (Seq r s)"
  by (cases r) auto

lemma lang_mk_alt [simp]: "lang (mk_alt r s) = lang (Alt r s)"
  by (cases "(r, s)" rule: mk_alt.cases) auto

lemma star_of_Cons:
  assumes "w \<in> star_of A" and "w = c # x"
  shows "\<exists>u v. x = u @ v \<and> c # u \<in> A \<and> v \<in> star_of A"
  using assms
proof (induction arbitrary: c x rule: star_of.induct)
  case star_Nil
  then show ?case by simp
next
  case (star_app u v)
  then show ?case
    by (cases u) (auto intro: star_of.intros)
qed

lemma lang_deriv: "lang (deriv c r) = {w. c # w \<in> lang r}"
proof (induction r)
  case (Seq r s)
  have "c # w \<in> lang (Seq r s) \<longleftrightarrow>
      (\<exists>u v. w = u @ v \<and> c # u \<in> lang r \<and> v \<in> lang s) \<or> ([] \<in> lang r \<and> c # w \<in> lang s)" for w
    by (auto simp: Cons_eq_append_conv)
  with Seq show ?case
    by (auto simp: nullable_lang)
next
  case (Star r)
  have "c # w \<in> star_of (lang r) \<longleftrightarrow>
      (\<exists>u v. w = u @ v \<and> c # u \<in> lang r \<and> v \<in> star_of (lang r))" for w
    using star_of_Cons [of "c # w" "lang r" c w] star_app [of "c # _" "lang r"] by fastforce
  with Star show ?case by auto
qed auto

theorem fullmatch_lang: "fullmatch r s \<longleftrightarrow> s \<in> lang r"
  by (induction s arbitrary: r) (auto simp: nullable_lang lang_deriv)

declare fullmatch.simps [simp del]

section \<open>Derived patterns\<close>

definition Lit :: "char \<Rightarrow> rx" where
  "Lit c = Cls (\<lambda>d. d = c)"

primrec Word :: "string \<Rightarrow> rx" where
  "Word [] = Eps"
| "Word (c # cs) = (if cs = [] then Lit c else Seq (Lit c) (Word cs))"

definition Opt :: "rx \<Rightarrow> rx" where
  "Opt r = Alt r Eps"

definition Plus :: "rx \<Rightarrow> rx" where
  "Plus r = Seq r (Star r)"

primrec Rep :: "nat \<Rightarrow> rx \<Rightarrow> rx" where
  "Rep 0 r = Eps"
| "Rep (Suc n) r = Seq r (Rep n r)"

primrec UpTo :: "nat \<Rightarrow> rx \<Rightarrow> rx" where
  "UpTo 0 r = Eps"
| "UpTo (Suc n) r = Opt (Seq r (UpTo n r))"

primrec AnyOf :: "rx list \<Rightarrow> rx" where
  "AnyOf [] = Empty"
| "AnyOf (r # rs) = (if rs = [] then r else Alt r (AnyOf rs))"

primrec SeqOf :: "rx list \<Rightarrow> rx" where
  "SeqOf [] = Eps"
| "SeqOf (r # rs) = (if rs = [] then r else Seq r (SeqOf rs))"

lemma lang_Lit [simp]: "lang (Lit c) = {[c]}"
  by (auto simp: Lit_def)

lemma lang_Word [simp]: "lang (Word w) = {w}"
  by (induction w) auto

lemma lang_Opt [simp]: "lang (Opt r) = insert [] (lang r)"
  by (auto simp: Opt_def)

lemma lang_AnyOf [simp]: "lang (AnyOf rs) = (\<Union>r \<in> set rs. lang r)"
  by (induction rs) auto

lemma SeqOf_iff:
  "w \<in> lang (SeqOf rs) \<longleftrightarrow> (\<exists>us. w = concat us \<and> list_all2 (\<lambda>u r. u \<in> lang r) us rs)"
proof (induction rs arbitrary: w)
  case Nil
  then show ?case by simp
next
  case (Cons r rs)
  have "w \<in> lang (SeqOf (r # rs)) \<longleftrightarrow> (\<exists>u v. w = u @ v \<and> u \<in> lang r \<and> v \<in> lang (SeqOf rs))"
    by (cases rs) auto
  then show ?case
    by (auto simp: Cons.IH list_all2_Cons2 intro: exI [of _ "_ # _"])
qed

declare SeqOf.simps [simp del]

lemma SeqOfI: "list_all2 (\<lambda>u r. u \<in> lang r) us rs \<Longrightarrow> concat us \<in> lang (SeqOf rs)"
  by (auto simp: SeqOf_iff)

lemmas SeqOf_simps = SeqOf_iff list_all2_Cons2

lemma Seq_Cls_lang [simp]:
  "[] \<notin> lang (Seq (Cls p) r)"
  "c # w \<in> lang (Seq (Cls p) r) \<longleftrightarrow> p c \<and> w \<in> lang r"
  by (simp, auto, rule exI [of _ "[c]"], simp)

lemma star_of_Cls: "star_of {[c] | c. p c} = {w. \<forall>c \<in> set w. p c}"
proof (intro set_eqI iffI)
  fix w
  assume "w \<in> star_of {[c] | c. p c}"
  then show "w \<in> {w. \<forall>c \<in> set w. p c}"
    by (induction rule: star_of.induct) auto
next
  fix w
  assume "w \<in> {w. \<forall>c \<in> set w. p c}"
  then show "w \<in> star_of {[c] | c. p c}"
  proof (induction w)
    case Nil
    show ?case by (rule star_Nil)
  next
    case (Cons c w)
    then have "[c] @ w \<in> star_of {[c] | c. p c}"
      by (intro star_app) auto
    then show ?case by simp
  qed
qed

lemma lang_Star_Cls [simp]: "lang (Star (Cls p)) = {w. \<forall>c \<in> set w. p c}"
  by (simp add: star_of_Cls)

lemma lang_Plus_Cls [simp]: "lang (Plus (Cls p)) = {w. w \<noteq> [] \<and> (\<forall>c \<in> set w. p c)}"
proof -
  have "w \<in> lang (Plus (Cls p)) \<longleftrightarrow> w \<noteq> [] \<and> (\<forall>c \<in> set w. p c)" for w
    by (cases w) (simp_all add: Plus_def star_of_Cls del: lang.simps(4))
  then show ?thesis by blast
qed

lemma lang_Rep_Cls [simp]: "lang (Rep n (Cls p)) = {w. length w = n \<and> (\<forall>c \<in> set w. p c)}"
proof (induction n)
  case 0
  show ?case by auto
next
  case (Suc n)
  have "w \<in> lang (Rep (Suc n) (Cls p)) \<longleftrightarrow> length w = Suc n \<and> (\<forall>c \<in> set w. p c)" for w
    by (cases w) (auto simp add: Suc simp del: lang.simps(4))
  then show ?case by blast
qed

lemma lang_UpTo_Cls [simp]: "lang (UpTo n (Cls p)) = {w. length w \<le> n \<and> (\<forall>c \<in> set w. p c)}"
proof (induction n)
  case 0
  show ?case by auto
next
  case (Suc n)
  have "w \<in> lang (UpTo (Suc n) (Cls p)) \<longleftrightarrow> length w \<le> Suc n \<and> (\<forall>c \<in> set w. p c)" for w
    by (cases w) (auto simp add: Suc simp del: lang.simps(4))
  then show ?case by blast
qed

end
