(* ===== verification/Decimal.thy ===== *)
theory Decimal
  imports Regex
begin

text \<open>
  Python integers printed by \<open>str\<close> and read back by \<open>int\<close>, the numeral patterns
  \<open>[1-9]\d*\<close> and \<open>(?:0|[1-9]\d*)\<close>, and the round trip between the two.
\<close>

definition digit_char :: "nat \<Rightarrow> char" where
  "digit_char n = char_of (48 + n)"

fun nat_str :: "nat \<Rightarrow> string" where
  "nat_str n = (if n < 10 then [digit_char n] else nat_str (n div 10) @ [digit_char (n mod 10)])"

declare nat_str.simps [simp del]

definition int_str :: "int \<Rightarrow> string" where
  "int_str i = (if i < 0 then CHR ''-'' # nat_str (nat (- i)) else nat_str (nat i))"

definition dec_val :: "string \<Rightarrow> nat" where
  "dec_val s = foldl (\<lambda>a c. 10 * a + ((of_char c :: nat) - 48)) 0 s"

definition positive_numeral :: rx where
  "positive_numeral = Seq (Cls (\<lambda>c. is_digit c \<and> c \<noteq> CHR ''0'')) (Star (Cls is_digit))"

definition numeral_rx :: rx where
  "numeral_rx = Alt (Lit (CHR ''0'')) positive_numeral"

lemma of_char_digit_char [simp]: "n < 10 \<Longrightarrow> (of_char (digit_char n) :: nat) = 48 + n"
  by (simp add: digit_char_def)

lemma is_digit_digit_char [simp]: "n < 10 \<Longrightarrow> is_digit (digit_char n)"
  by (simp add: is_digit_def)

lemma digit_char_numerals [simp]:
  "digit_char 0 = CHR ''0''" "digit_char (Suc 0) = CHR ''1''" "digit_char 2 = CHR ''2''"
  "digit_char 3 = CHR ''3''" "digit_char 4 = CHR ''4''" "digit_char 5 = CHR ''5''"
  "digit_char 6 = CHR ''6''" "digit_char 7 = CHR ''7''" "digit_char 8 = CHR ''8''"
  "digit_char 9 = CHR ''9''"
  by code_simp+

lemma digit_char_0_iff: "n < 10 \<Longrightarrow> digit_char n = CHR ''0'' \<longleftrightarrow> n = 0"
proof -
  assume n: "n < 10"
  have "digit_char n = CHR ''0'' \<longleftrightarrow> (of_char (digit_char n) :: nat) = of_char (CHR ''0'')"
    by (simp only: of_char_eq_iff)
  with n show ?thesis by simp
qed

lemma nat_str_not_Nil [simp]: "nat_str n \<noteq> []"
  by (subst nat_str.simps) simp

lemma nat_str_digits: "c \<in> set (nat_str n) \<Longrightarrow> is_digit c"
proof (induction n arbitrary: c rule: nat_str.induct)
  case (1 n)
  show ?case
  proof (cases "n < 10")
    case True
    with "1.prems" show ?thesis by (simp add: nat_str.simps [of n])
  next
    case False
    with "1.prems" have "c \<in> set (nat_str (n div 10)) \<or> c = digit_char (n mod 10)"
      by (auto simp: nat_str.simps [of n])
    with "1.IH" [OF False] show ?thesis by auto
  qed
qed

lemma dec_val_snoc: "dec_val (s @ [c]) = 10 * dec_val s + ((of_char c :: nat) - 48)"
  by (simp add: dec_val_def)

lemma dec_val_nat_str [simp]: "dec_val (nat_str n) = n"
proof (induction n rule: nat_str.induct)
  case (1 n)
  show ?case
  proof (cases "n < 10")
    case True
    then show ?thesis by (simp add: nat_str.simps [of n] dec_val_def)
  next
    case False
    with "1.IH" show ?thesis
      by (simp add: nat_str.simps [of n] dec_val_snoc)
  qed
qed

lemma nat_str_inject [simp]: "nat_str m = nat_str n \<longleftrightarrow> m = n"
  by (metis dec_val_nat_str)

lemma int_str_nonneg: "0 \<le> i \<Longrightarrow> int_str i = nat_str (nat i)"
  by (simp add: int_str_def)

lemma hd_nat_str: "0 < n \<Longrightarrow> hd (nat_str n) \<noteq> CHR ''0''"
proof (induction n rule: nat_str.induct)
  case (1 n)
  show ?case
  proof (cases "n < 10")
    case True
    with "1.prems" show ?thesis
      by (simp add: nat_str.simps [of n] digit_char_0_iff)
  next
    case False
    with "1.IH" show ?thesis
      by (simp add: nat_str.simps [of n])
  qed
qed

lemma positive_numeral_iff:
  "fullmatch positive_numeral s \<longleftrightarrow>
     s \<noteq> [] \<and> hd s \<noteq> CHR ''0'' \<and> (\<forall>c \<in> set s. is_digit c)"
  by (cases s) (auto simp: fullmatch_lang positive_numeral_def star_of_Cls simp del: lang.simps(4))

lemma positive_numeral_nat_str: "fullmatch positive_numeral (nat_str n) \<longleftrightarrow> 0 < n"
proof (cases "n = 0")
  case True
  then show ?thesis
    by (simp add: positive_numeral_iff nat_str.simps digit_char_0_iff)
next
  case False
  then show ?thesis
    using hd_nat_str [of n] nat_str_digits [of _ n] by (auto simp: positive_numeral_iff)
qed

lemma numeral_rx_iff:
  "fullmatch numeral_rx s \<longleftrightarrow> s = ''0'' \<or> fullmatch positive_numeral s"
  by (simp add: fullmatch_lang numeral_rx_def)

lemma numeral_rx_digits: "fullmatch numeral_rx s \<Longrightarrow> s \<noteq> [] \<and> (\<forall>c \<in> set s. is_digit c)"
  by (auto simp: numeral_rx_iff positive_numeral_iff is_digit_def)

lemma foldl_dec_pos:
  "(0 < a \<or> (s \<noteq> [] \<and> hd s \<noteq> CHR ''0'' \<and> is_digit (hd s))) \<Longrightarrow>
     0 < foldl (\<lambda>a c. 10 * a + ((of_char c :: nat) - 48)) a s"
proof (induction s arbitrary: a)
  case Nil
  then show ?case by simp
next
  case (Cons c s)
  have "0 < 10 * a + ((of_char c :: nat) - 48)"
  proof (cases "0 < a")
    case True
    then show ?thesis by simp
  next
    case False
    with Cons.prems have "c \<noteq> CHR ''0''" and "is_digit c" by auto
    moreover have "(of_char c :: nat) \<noteq> of_char (CHR ''0'')"
      using \<open>c \<noteq> CHR ''0''\<close> by (simp only: of_char_eq_iff not_False_eq_True)
    ultimately show ?thesis by (simp add: is_digit_def)
  qed
  then have "0 < 10 * a + ((of_char c :: nat) - 48) \<or>
      (s \<noteq> [] \<and> hd s \<noteq> CHR ''0'' \<and> is_digit (hd s))" by blast
  from Cons.IH [OF this] show ?case by simp
qed

lemma dec_val_positive: "fullmatch positive_numeral s \<Longrightarrow> 0 < dec_val s"
  unfolding dec_val_def
  by (rule foldl_dec_pos) (auto simp: positive_numeral_iff)

text \<open>A numeral accepted by the pattern is the canonical print of its value.\<close>

lemma nat_str_step:
  "0 < n \<Longrightarrow> d < 10 \<Longrightarrow> nat_str (10 * n + d) = nat_str n @ [digit_char d]"
  by (subst nat_str.simps) simp

lemma digit_char_of: "is_digit c \<Longrightarrow> digit_char ((of_char c :: nat) - 48) = c"
  by (simp add: digit_char_def is_digit_def)

lemma nat_str_foldl:
  "0 < a \<Longrightarrow> (\<forall>c \<in> set s. is_digit c) \<Longrightarrow>
     nat_str (foldl (\<lambda>a c. 10 * a + ((of_char c :: nat) - 48)) a s) = nat_str a @ s"
proof (induction s arbitrary: a)
  case Nil
  then show ?case by simp
next
  case (Cons c s)
  have d: "(of_char c :: nat) - 48 < 10"
    using Cons.prems by (auto simp: is_digit_def)
  have "nat_str (10 * a + ((of_char c :: nat) - 48)) = nat_str a @ [c]"
    using Cons.prems d by (simp add: nat_str_step digit_char_of)
  with Cons show ?case by simp
qed

lemma nat_str_dec_val: "fullmatch positive_numeral s \<Longrightarrow> nat_str (dec_val s) = s"
proof -
  assume p: "fullmatch positive_numeral s"
  then obtain c t where s: "s = c # t" and c: "is_digit c" "c \<noteq> CHR ''0''"
    and t: "\<forall>c \<in> set t. is_digit c"
    by (cases s) (auto simp: positive_numeral_iff)
  let ?d = "(of_char c :: nat) - 48"
  have "fullmatch positive_numeral [c]"
    using c by (simp add: positive_numeral_iff)
  from dec_val_positive [OF this] have pos: "0 < ?d"
    by (simp add: dec_val_def)
  have d: "?d < 10" using c by (auto simp: is_digit_def)
  have "nat_str ?d = [c]"
    using c d by (simp add: nat_str.simps [of ?d] digit_char_of)
  with nat_str_foldl [OF pos t] show ?thesis
    by (simp add: dec_val_def s)
qed

end
