(* ===== verification/CanonicalJson.thy ===== *)
theory CanonicalJson
  imports PyValue
begin

text \<open>
  The two JSON encoders of the release toolkit. \<open>version_plan.json_bytes\<close> writes the canonical
  form (sorted keys, no whitespace, ASCII only, no NaN) under every identity digest;
  \<open>release_control.json_bytes\<close> writes the indented form of manifests and request bodies.
  The canonical form is proved to determine the value: two values without floats over ASCII
  text have the same bytes exactly when they agree up to the order of dictionary keys.
\<close>

section \<open>Strings\<close>

definition hex_digit :: "nat \<Rightarrow> char" where
  "hex_digit n = (if n < 10 then char_of (48 + n) else char_of (87 + n))"

definition u_escape :: "nat \<Rightarrow> string" where
  "u_escape n = CHR 0x5C # CHR ''u'' #
     [hex_digit (n div 4096 mod 16), hex_digit (n div 256 mod 16),
      hex_digit (n div 16 mod 16), hex_digit (n mod 16)]"

text \<open>\<open>ensure_ascii\<close>: code points outside the basic plane become a surrogate pair.\<close>

definition code_escape :: "nat \<Rightarrow> string" where
  "code_escape n =
     (if n < 65536 then u_escape n
      else u_escape (55296 + (n - 65536) div 1024 mod 1024) @
           u_escape (56320 + (n - 65536) mod 1024))"

definition json_char :: "char \<Rightarrow> string" where
  "json_char c =
     (if c = CHR 0x22 then [CHR 0x5C, CHR 0x22]
      else if c = CHR 0x5C then [CHR 0x5C, CHR 0x5C]
      else if c = CHR 0x0A then [CHR 0x5C, CHR ''n'']
      else if c = CHR 0x0D then [CHR 0x5C, CHR ''r'']
      else if c = CHR 0x09 then [CHR 0x5C, CHR ''t'']
      else if c = CHR 0x0C then [CHR 0x5C, CHR ''f'']
      else if c = CHR 0x08 then [CHR 0x5C, CHR ''b'']
      else if 32 \<le> (of_char c :: nat) \<and> (of_char c :: nat) \<le> 126 then [c]
      else u_escape (of_char c))"

fun json_chars :: "string \<Rightarrow> string" where
  "json_chars [] = []"
| "json_chars (c # cs) =
     (let n = (of_char c :: nat) in
      if n < 128 then json_char c @ json_chars cs
      else (case cs of
          [] \<Rightarrow> []
        | c2 # cs2 \<Rightarrow>
            if n < 224 then code_escape ((n - 192) * 64 + (of_char c2 - 128)) @ json_chars cs2
            else (case cs2 of
                [] \<Rightarrow> []
              | c3 # cs3 \<Rightarrow>
                  if n < 240
                  then code_escape ((n - 224) * 4096 + (of_char c2 - 128) * 64
                         + (of_char c3 - 128)) @ json_chars cs3
                  else (case cs3 of
                      [] \<Rightarrow> []
                    | c4 # cs4 \<Rightarrow>
                        code_escape ((n - 240) * 262144 + (of_char c2 - 128) * 4096
                          + (of_char c3 - 128) * 64 + (of_char c4 - 128)) @ json_chars cs4))))"

definition json_str :: "string \<Rightarrow> string" where
  "json_str s = CHR 0x22 # json_chars s @ [CHR 0x22]"

section \<open>The compact encoder\<close>

fun enc_float :: "pylib \<Rightarrow> pyfloat \<Rightarrow> string" where
  "enc_float L (Infinite neg) = (if neg then ''-Infinity'' else ''Infinity'')"
| "enc_float L Not_a_number = ''NaN''"
| "enc_float L f = float_repr L f"

text \<open>\<open>sort_keys=True\<close>, at every level.\<close>

fun sort_keys :: "pyval \<Rightarrow> pyval"
and sort_keys_list :: "pyval list \<Rightarrow> pyval list"
and sort_keys_items :: "(string \<times> pyval) list \<Rightarrow> (string \<times> pyval) list" where
  "sort_keys (PList xs) = PList (sort_keys_list xs)"
| "sort_keys (PDict d) = PDict (sort_key fst (sort_keys_items d))"
| "sort_keys v = v"
| "sort_keys_list [] = []"
| "sort_keys_list (x # xs) = sort_keys x # sort_keys_list xs"
| "sort_keys_items [] = []"
| "sort_keys_items ((k, v) # d) = (k, sort_keys v) # sort_keys_items d"

fun enc :: "pylib \<Rightarrow> pyval \<Rightarrow> string"
and enc_list :: "pylib \<Rightarrow> pyval list \<Rightarrow> string"
and enc_items :: "pylib \<Rightarrow> (string \<times> pyval) list \<Rightarrow> string" where
  "enc L PNone = ''null''"
| "enc L (PBool b) = (if b then ''true'' else ''false'')"
| "enc L (PInt i) = int_str i"
| "enc L (PFloat f) = enc_float L f"
| "enc L (PStr s) = json_str s"
| "enc L (PList xs) = CHR ''['' # enc_list L xs @ '']''"
| "enc L (PDict d) = CHR ''{'' # enc_items L d @ ''}''"
| "enc_list L [] = []"
| "enc_list L (x # xs) = enc L x @ (if xs = [] then [] else CHR '','' # enc_list L xs)"
| "enc_items L [] = []"
| "enc_items L ((k, v) # d) =
     json_str k @ CHR '':'' # enc L v @ (if d = [] then [] else CHR '','' # enc_items L d)"

fun all_finite :: "pyval \<Rightarrow> bool"
and all_finite_list :: "pyval list \<Rightarrow> bool"
and all_finite_items :: "(string \<times> pyval) list \<Rightarrow> bool" where
  "all_finite (PFloat f) = (case f of Finite m e \<Rightarrow> True | _ \<Rightarrow> False)"
| "all_finite (PList xs) = all_finite_list xs"
| "all_finite (PDict d) = all_finite_items d"
| "all_finite v = True"
| "all_finite_list [] = True"
| "all_finite_list (x # xs) = (all_finite x \<and> all_finite_list xs)"
| "all_finite_items [] = True"
| "all_finite_items ((k, v) # d) = (all_finite v \<and> all_finite_items d)"

text \<open>\<open>version_plan.json_bytes\<close>: \<open>allow_nan=False\<close> raises on NaN and infinities.\<close>

definition json_bytes :: "pylib \<Rightarrow> pyval \<Rightarrow> string result" where
  "json_bytes L v =
     (if all_finite v then Inr (enc L (sort_keys v))
      else Inl (ValueError ''Out of range float values are not JSON compliant''))"

section \<open>The indented encoder\<close>

definition indent_line :: "nat \<Rightarrow> string" where
  "indent_line n = CHR 0x0A # replicate (2 * n) (CHR '' '')"

fun dump :: "pylib \<Rightarrow> nat \<Rightarrow> pyval \<Rightarrow> string"
and dump_list :: "pylib \<Rightarrow> nat \<Rightarrow> pyval list \<Rightarrow> string"
and dump_items :: "pylib \<Rightarrow> nat \<Rightarrow> (string \<times> pyval) list \<Rightarrow> string" where
  "dump L n (PList xs) =
     (if xs = [] then ''[]''
      else CHR ''['' # indent_line (Suc n) @ dump_list L (Suc n) xs @ indent_line n @ '']'')"
| "dump L n (PDict d) =
     (if d = [] then ''{}''
      else CHR ''{'' # indent_line (Suc n) @ dump_items L (Suc n) d @ indent_line n @ ''}'')"
| "dump L n v = enc L v"
| "dump_list L n [] = []"
| "dump_list L n (x # xs) =
     dump L n x @ (if xs = [] then [] else CHR '','' # indent_line n @ dump_list L n xs)"
| "dump_items L n [] = []"
| "dump_items L n ((k, v) # d) =
     json_str k @ '': '' @ dump L n v
       @ (if d = [] then [] else CHR '','' # indent_line n @ dump_items L n d)"

text \<open>\<open>release_control.json_bytes\<close>.\<close>

definition rc_json_bytes :: "pylib \<Rightarrow> pyval \<Rightarrow> string" where
  "rc_json_bytes L v = dump L 0 (sort_keys v) @ [CHR 0x0A]"

section \<open>The canonical encoding determines the value\<close>

definition ascii :: "string \<Rightarrow> bool" where
  "ascii s \<longleftrightarrow> (\<forall>c \<in> set s. (of_char c :: nat) < 128)"

fun plain :: "pyval \<Rightarrow> bool"
and plain_list :: "pyval list \<Rightarrow> bool"
and plain_items :: "(string \<times> pyval) list \<Rightarrow> bool" where
  "plain (PFloat f) = False"
| "plain (PStr s) = ascii s"
| "plain (PList xs) = plain_list xs"
| "plain (PDict d) = plain_items d"
| "plain PNone = True"
| "plain (PBool b) = True"
| "plain (PInt i) = True"
| "plain_list [] = True"
| "plain_list (x # xs) = (plain x \<and> plain_list xs)"
| "plain_items [] = True"
| "plain_items ((k, v) # d) = (ascii k \<and> plain v \<and> plain_items d)"

definition hex_val :: "char \<Rightarrow> nat" where
  "hex_val c = (if (of_char c :: nat) < 58 then of_char c - 48 else of_char c - 87)"

fun unesc :: "string \<Rightarrow> (char \<times> string) option" where
  "unesc [] = None"
| "unesc (c # x) =
     (if c \<noteq> CHR 0x5C then (if c = CHR 0x22 then None else Some (c, x))
      else (case x of
          [] \<Rightarrow> None
        | d # y \<Rightarrow>
            if d = CHR 0x22 \<or> d = CHR 0x5C then Some (d, y)
            else if d = CHR ''n'' then Some (CHR 0x0A, y)
            else if d = CHR ''r'' then Some (CHR 0x0D, y)
            else if d = CHR ''t'' then Some (CHR 0x09, y)
            else if d = CHR ''f'' then Some (CHR 0x0C, y)
            else if d = CHR ''b'' then Some (CHR 0x08, y)
            else Some (char_of (hex_val (y ! 0) * 4096 + hex_val (y ! 1) * 256
                   + hex_val (y ! 2) * 16 + hex_val (y ! 3)), drop 4 y)))"

lemma hex_val_digit [simp]: "n < 16 \<Longrightarrow> hex_val (hex_digit n) = n"
  by (simp add: hex_val_def hex_digit_def)

lemma unesc_json_char:
  assumes "(of_char c :: nat) < 128"
  shows "unesc (json_char c @ x) = Some (c, x)"
proof -
  have n: "(of_char c :: nat) div 4096 = 0" "(of_char c :: nat) div 256 = 0"
    "(of_char c :: nat) div 16 mod 16 * 16 + of_char c mod 16 = of_char c"
    using assms by simp_all
  show ?thesis
    by (simp add: json_char_def u_escape_def n)
qed

lemma json_chars_ascii:
  "(of_char c :: nat) < 128 \<Longrightarrow> json_chars (c # cs) = json_char c @ json_chars cs"
  by simp

lemma json_chars_prefix_free:
  "ascii s \<Longrightarrow> ascii t \<Longrightarrow> json_chars s @ CHR 0x22 # r = json_chars t @ CHR 0x22 # r' \<Longrightarrow>
     s = t \<and> r = r'"
proof (induction s arbitrary: t)
  case Nil
  show ?case
  proof (cases t)
    case Nil
    with \<open>json_chars [] @ _ = _\<close> show ?thesis by simp
  next
    case (Cons d t')
    with Nil.prems have "unesc (CHR 0x22 # r) = Some (d, json_chars t' @ CHR 0x22 # r')"
      by (simp add: ascii_def unesc_json_char)
    then show ?thesis by simp
  qed
next
  case (Cons c s)
  have c: "unesc (json_chars (c # s) @ CHR 0x22 # r) = Some (c, json_chars s @ CHR 0x22 # r)"
    using Cons.prems(1) by (simp add: ascii_def unesc_json_char)
  show ?case
  proof (cases t)
    case Nil
    with Cons.prems c have "unesc (CHR 0x22 # r') = Some (c, json_chars s @ CHR 0x22 # r)"
      by simp
    then show ?thesis by simp
  next
    case t: (Cons d t')
    with Cons.prems have "unesc (json_chars t @ CHR 0x22 # r') = Some (d, json_chars t' @ CHR 0x22 # r')"
      by (simp add: ascii_def unesc_json_char)
    with c Cons.prems(3) have "c = d" and "json_chars s @ CHR 0x22 # r = json_chars t' @ CHR 0x22 # r'"
      by simp_all
    moreover have "ascii s" "ascii t'"
      using Cons.prems t by (simp_all add: ascii_def)
    ultimately show ?thesis
      using Cons.IH [of t'] t by simp
  qed
qed

lemma json_str_prefix_free:
  "ascii s \<Longrightarrow> ascii t \<Longrightarrow> json_str s @ r = json_str t @ r' \<Longrightarrow> s = t \<and> r = r'"
  using json_chars_prefix_free [of s t r r'] by (simp add: json_str_def)

declare json_chars.simps [simp del]

text \<open>An encoded value is followed by nothing or by a delimiter.\<close>

definition delim :: "string \<Rightarrow> bool" where
  "delim r \<longleftrightarrow> r = [] \<or> hd r \<in> {CHR '','', CHR '']'', CHR ''}''}"

definition int_char :: "char \<Rightarrow> bool" where
  "int_char c \<longleftrightarrow> is_digit c \<or> c = CHR ''-''"

lemma int_char_simps [simp]:
  "\<not> int_char (CHR 0x22)" "\<not> int_char (CHR ''['')" "\<not> int_char (CHR ''{'')"
  "\<not> int_char (CHR ''n'')" "\<not> int_char (CHR ''t'')" "\<not> int_char (CHR ''f'')"
  "\<not> int_char (CHR '','')" "\<not> int_char (CHR '']'')" "\<not> int_char (CHR ''}'')"
  by (simp_all add: int_char_def is_digit_def)

lemma int_str_chars: "\<forall>c \<in> set (int_str i). int_char c"
  using nat_str_digits by (auto simp: int_str_def int_char_def)

lemma int_str_Cons: "\<exists>c cs. int_str i = c # cs \<and> int_char c"
proof (cases "int_str i")
  case Nil
  then show ?thesis by (simp add: int_str_def split: if_splits)
next
  case (Cons c cs)
  then show ?thesis using int_str_chars [of i] by auto
qed

lemma int_str_inject: "int_str i = int_str j \<longleftrightarrow> i = j"
proof -
  have "hd (nat_str n) \<noteq> CHR ''-''" for n
  proof -
    have "is_digit (hd (nat_str n))" by (rule nat_str_digits [of _ n]) simp
    then show ?thesis by (auto simp: is_digit_def)
  qed
  then have "CHR ''-'' # x \<noteq> nat_str n" and "nat_str n \<noteq> CHR ''-'' # x" for x n
    by (metis list.sel(1))+
  then show ?thesis by (auto simp: int_str_def)
qed

lemma delim_takeWhile: "delim r \<Longrightarrow> takeWhile int_char r = []"
  by (cases r) (auto simp: delim_def)

lemma int_str_prefix_free:
  assumes "delim r" "delim s" "int_str i @ r = int_str j @ s"
  shows "i = j \<and> r = s"
proof -
  have "takeWhile int_char (int_str k @ q) = int_str k" if "delim q" for k q
    using int_str_chars [of k] that by (simp add: takeWhile_append2 delim_takeWhile)
  then have "int_str i = int_str j"
    using assms by metis
  with assms(3) show ?thesis
    by (simp add: int_str_inject)
qed

text \<open>The first byte of an encoded value.\<close>

lemma enc_hd:
  "plain v \<Longrightarrow> \<exists>c cs. enc L v = c # cs \<and>
     (case v of PNone \<Rightarrow> c = CHR ''n'' | PBool b \<Rightarrow> c = (if b then CHR ''t'' else CHR ''f'')
       | PInt i \<Rightarrow> int_char c | PStr s \<Rightarrow> c = CHR 0x22 | PList xs \<Rightarrow> c = CHR ''[''
       | PDict d \<Rightarrow> c = CHR ''{'' | PFloat f \<Rightarrow> False)"
  using int_str_Cons by (cases v) (auto simp: json_str_def)

lemma enc_hd_not_close: "plain v \<Longrightarrow> enc L v @ r \<noteq> CHR '']'' # s"
  using enc_hd [of v L] by (cases v) (auto split: if_splits)

lemma enc_kind:
  assumes "plain w" "enc L w @ s = c # x"
  shows "c = CHR 0x22 \<Longrightarrow> \<exists>u. w = PStr u" "c = CHR ''['' \<Longrightarrow> \<exists>ys. w = PList ys"
    "c = CHR ''{'' \<Longrightarrow> \<exists>e. w = PDict e" "int_char c \<Longrightarrow> \<exists>j. w = PInt j"
    "c = CHR ''n'' \<Longrightarrow> w = PNone" "c = CHR ''t'' \<Longrightarrow> w = PBool True"
    "c = CHR ''f'' \<Longrightarrow> w = PBool False"
proof -
  obtain d cs where e: "enc L w = d # cs" and
    k: "case w of PNone \<Rightarrow> d = CHR ''n'' | PBool b \<Rightarrow> d = (if b then CHR ''t'' else CHR ''f'')
       | PInt i \<Rightarrow> int_char d | PStr s \<Rightarrow> d = CHR 0x22 | PList xs \<Rightarrow> d = CHR ''[''
       | PDict d' \<Rightarrow> d = CHR ''{'' | PFloat f \<Rightarrow> False"
    using enc_hd [OF assms(1), of L] by blast
  have "d = c" using e assms(2) by simp
  with k show "c = CHR 0x22 \<Longrightarrow> \<exists>u. w = PStr u" "c = CHR ''['' \<Longrightarrow> \<exists>ys. w = PList ys"
    "c = CHR ''{'' \<Longrightarrow> \<exists>e. w = PDict e" "int_char c \<Longrightarrow> \<exists>j. w = PInt j"
    "c = CHR ''n'' \<Longrightarrow> w = PNone" "c = CHR ''t'' \<Longrightarrow> w = PBool True"
    "c = CHR ''f'' \<Longrightarrow> w = PBool False"
    by (cases w; auto split: if_splits)+
qed

lemma enc_prefix_free:
  "plain v \<Longrightarrow> plain w \<Longrightarrow> delim r \<Longrightarrow> delim s \<Longrightarrow> enc L v @ r = enc L w @ s \<Longrightarrow> v = w \<and> r = s"
  "plain_list xs \<Longrightarrow> plain_list ys \<Longrightarrow>
     enc_list L xs @ CHR '']'' # r = enc_list L ys @ CHR '']'' # s \<Longrightarrow> xs = ys \<and> r = s"
  "plain_items d \<Longrightarrow> plain_items e \<Longrightarrow>
     enc_items L d @ CHR ''}'' # r = enc_items L e @ CHR ''}'' # s \<Longrightarrow> d = e \<and> r = s"
proof (induction v and xs and d arbitrary: w r s and ys r s and e r s rule: plain_plain_list_plain_items.induct)
  case (1 f)
  then show ?case by simp
next
  case (2 t)
  obtain u where "w = PStr u"
    using enc_kind [OF "2.prems"(2) "2.prems"(5) [symmetric, unfolded enc.simps json_str_def append_Cons]]
    by blast
  with 2 show ?case using json_str_prefix_free [of t u r s] by simp
next
  case (3 xs)
  obtain ys where "w = PList ys"
    using enc_kind [OF "3.prems"(2) "3.prems"(5) [symmetric, unfolded enc.simps json_str_def append_Cons]]
    by blast
  with "3.prems" "3.IH" [of ys r s] show ?case by simp
next
  case (4 d)
  obtain e where "w = PDict e"
    using enc_kind [OF "4.prems"(2) "4.prems"(5) [symmetric, unfolded enc.simps json_str_def append_Cons]]
    by blast
  with "4.prems" "4.IH" [of e r s] show ?case by simp
next
  case 5
  then have "enc L w @ s = CHR ''n'' # ''ull'' @ r" by simp
  from enc_kind(5) [OF "5.prems"(2) this] 5 show ?case by simp
next
  case (6 b)
  show ?case
  proof (cases b)
    case True
    with 6 have "enc L w @ s = CHR ''t'' # ''rue'' @ r" by simp
    from enc_kind(6) [OF "6.prems"(2) this] 6 True show ?thesis by simp
  next
    case False
    with 6 have "enc L w @ s = CHR ''f'' # ''alse'' @ r" by simp
    from enc_kind(7) [OF "6.prems"(2) this] 6 False show ?thesis by simp
  qed
next
  case (7 i)
  obtain c cs where c: "int_str i = c # cs" "int_char c" using int_str_Cons by blast
  then have "enc L w @ s = c # cs @ r" using "7.prems"(5) by simp
  from enc_kind(4) [OF "7.prems"(2) this] c obtain j where "w = PInt j" by blast
  with 7 show ?case using int_str_prefix_free [of r s i j] by simp
next
  case 8
  then show ?case
    using enc_hd_not_close by (cases ys) (auto dest: sym)
next
  case (9 x xs)
  show ?case
  proof (cases ys)
    case Nil
    with 9 show ?thesis using enc_hd_not_close by auto
  next
    case (Cons y ys')
    let ?t = "\<lambda>zs q. (if zs = [] then [] else CHR '','' # enc_list L zs) @ CHR '']'' # q"
    have "x = y \<and> ?t xs r = ?t ys' s"
      using "9.prems" Cons by (intro "9.IH"(1)) (auto simp: delim_def)
    then show ?thesis
      using "9.prems" Cons "9.IH"(2) [of ys' r s] by (auto split: if_splits)
  qed
next
  case 10
  then show ?case
    by (cases e) (auto simp: json_str_def)
next
  case (11 k v d)
  show ?case
  proof (cases e)
    case Nil
    with 11 show ?thesis by (simp add: json_str_def)
  next
    case (Cons kw e')
    obtain k' w where kw: "kw = (k', w)" by fastforce
    let ?t = "\<lambda>zs q. (if zs = [] then [] else CHR '','' # enc_items L zs) @ CHR ''}'' # q"
    have asc: "ascii k" "ascii k'"
      using "11.prems"(1,2) Cons kw by simp_all
    have eq: "json_str k @ CHR '':'' # enc L v @ ?t d r = json_str k' @ CHR '':'' # enc L w @ ?t e' s"
      using "11.prems"(3) Cons kw by simp
    have *: "k = k'" "enc L v @ ?t d r = enc L w @ ?t e' s"
      using json_str_prefix_free [OF asc eq] by simp_all
    have "v = w \<and> ?t d r = ?t e' s"
      using "11.prems" Cons kw *(2) by (intro "11.IH"(1)) (auto simp: delim_def)
    then show ?thesis
      using "11.prems" Cons kw *(1) "11.IH"(2) [of e' r s] by (auto split: if_splits)
  qed
qed

lemma plain_items_iff: "plain_items d \<longleftrightarrow> (\<forall>(k, v) \<in> set d. ascii k \<and> plain v)"
  by (induction d) auto

lemma plain_sort_keys [simp]:
  "plain (sort_keys v) = plain v"
  "plain_list (sort_keys_list xs) = plain_list xs"
  "plain_items (sort_keys_items d) = plain_items d"
  by (induction v and xs and d rule: sort_keys_sort_keys_list_sort_keys_items.induct)
     (auto simp: plain_items_iff)

lemma all_finite_plain [simp]:
  "plain v \<Longrightarrow> all_finite v"
  "plain_list xs \<Longrightarrow> all_finite_list xs"
  "plain_items d \<Longrightarrow> all_finite_items d"
  by (induction v and xs and d rule: plain_plain_list_plain_items.induct) auto

lemma json_bytes_inject:
  assumes "plain v" "plain w"
  shows "json_bytes L v = json_bytes L w \<longleftrightarrow> sort_keys v = sort_keys w"
  using enc_prefix_free(1) [of "sort_keys v" "sort_keys w" "[]" "[]" L] assms
  by (auto simp: json_bytes_def delim_def)

end
