(* ===== verification/JsonParse.thy ===== *)
theory JsonParse
  imports CanonicalJson "HOL-Library.Multiset"
begin

text \<open>
  \<open>json.loads\<close> and \<open>JSONDecoder.raw_decode\<close> of the standard library, as the scripts use them, and
  \<open>release_control.parse_json\<close>, which rejects duplicate fields. Reading back what
  \<open>release_control.json_bytes\<close> wrote gives the value that was written. A scan is bounded by the
  length of its input: the fuel argument only makes the recursion structural, and more fuel than
  bytes never changes the result.

  Python's recursion limit and the detection of UTF-16 and UTF-32 input are left out.
\<close>

section \<open>UTF-8\<close>

definition is_cont :: "char \<Rightarrow> bool" where
  "is_cont c \<longleftrightarrow> 128 \<le> (of_char c :: nat) \<and> (of_char c :: nat) \<le> 191"

text \<open>\<open>bytes.decode("utf-8")\<close> succeeds; \<open>surrogatepass\<close> also admits encoded surrogates.\<close>

fun utf8_ok :: "bool \<Rightarrow> string \<Rightarrow> bool" where
  "utf8_ok surrogatepass [] = True"
| "utf8_ok surrogatepass (c # cs) =
     (let n = (of_char c :: nat) in
      if n < 128 then utf8_ok surrogatepass cs
      else (case cs of
          [] \<Rightarrow> False
        | c2 # cs2 \<Rightarrow>
            let m = (of_char c2 :: nat) in
            if 194 \<le> n \<and> n \<le> 223 then is_cont c2 \<and> utf8_ok surrogatepass cs2
            else (case cs2 of
                [] \<Rightarrow> False
              | c3 # cs3 \<Rightarrow>
                  if 224 \<le> n \<and> n \<le> 239
                  then is_cont c2 \<and> is_cont c3 \<and> (n = 224 \<longrightarrow> 160 \<le> m)
                    \<and> (n = 237 \<longrightarrow> m < 160 \<or> surrogatepass) \<and> utf8_ok surrogatepass cs3
                  else (case cs3 of
                      [] \<Rightarrow> False
                    | c4 # cs4 \<Rightarrow>
                        240 \<le> n \<and> n \<le> 244 \<and> is_cont c2 \<and> is_cont c3 \<and> is_cont c4
                          \<and> (n = 240 \<longrightarrow> 144 \<le> m) \<and> (n = 244 \<longrightarrow> m \<le> 143)
                          \<and> utf8_ok surrogatepass cs4))))"

definition utf8_encode :: "nat \<Rightarrow> string" where
  "utf8_encode n =
     (if n < 128 then [char_of n]
      else if n < 2048 then [char_of (192 + n div 64), char_of (128 + n mod 64)]
      else if n < 65536
      then [char_of (224 + n div 4096), char_of (128 + n div 64 mod 64), char_of (128 + n mod 64)]
      else [char_of (240 + n div 262144), char_of (128 + n div 4096 mod 64),
            char_of (128 + n div 64 mod 64), char_of (128 + n mod 64)])"

section \<open>Tokens\<close>

definition json_space :: "char \<Rightarrow> bool" where
  "json_space c \<longleftrightarrow> c \<in> {CHR '' '', CHR 0x09, CHR 0x0A, CHR 0x0D}"

definition skip_ws :: "string \<Rightarrow> string" where
  "skip_ws s = dropWhile json_space s"

definition hex_value :: "char \<Rightarrow> nat option" where
  "hex_value c =
     (let n = (of_char c :: nat) in
      if 48 \<le> n \<and> n \<le> 57 then Some (n - 48)
      else if 97 \<le> n \<and> n \<le> 102 then Some (n - 87)
      else if 65 \<le> n \<and> n \<le> 70 then Some (n - 55)
      else None)"

definition hex4 :: "string \<Rightarrow> (nat \<times> string) option" where
  "hex4 s =
     (case s of
        a # b # c # d # r \<Rightarrow>
          (case (hex_value a, hex_value b, hex_value c, hex_value d) of
             (Some w, Some x, Some y, Some z) \<Rightarrow> Some (w * 4096 + x * 256 + y * 16 + z, r)
           | _ \<Rightarrow> None)
      | _ \<Rightarrow> None)"

definition simple_escape :: "char \<Rightarrow> char option" where
  "simple_escape c =
     (if c = CHR 0x22 then Some (CHR 0x22)
      else if c = CHR 0x5C then Some (CHR 0x5C)
      else if c = CHR ''/'' then Some (CHR ''/'')
      else if c = CHR ''b'' then Some (CHR 0x08)
      else if c = CHR ''f'' then Some (CHR 0x0C)
      else if c = CHR ''n'' then Some (CHR 0x0A)
      else if c = CHR ''r'' then Some (CHR 0x0D)
      else if c = CHR ''t'' then Some (CHR 0x09)
      else None)"

text \<open>The low half of a surrogate pair, when it follows as an escape of its own.\<close>

definition low_half :: "string \<Rightarrow> (nat \<times> string) option" where
  "low_half s =
     (case s of
        a # b # t \<Rightarrow>
          if a = CHR 0x5C \<and> b = CHR ''u'' then
            (case hex4 t of
               Some (n, r) \<Rightarrow> if 56320 \<le> n \<and> n \<le> 57343 then Some (n, r) else None
             | None \<Rightarrow> None)
          else None
      | _ \<Rightarrow> None)"

text \<open>\<open>uXXXX\<close> after the backslash: the code point and the rest.\<close>

definition u_decode :: "string \<Rightarrow> (nat \<times> string) option" where
  "u_decode s =
     (case hex4 s of
        None \<Rightarrow> None
      | Some (n, r) \<Rightarrow>
          if 55296 \<le> n \<and> n \<le> 56319 then
            (case low_half r of
               Some (m, r') \<Rightarrow> Some (65536 + (n - 55296) * 1024 + (m - 56320), r')
             | None \<Rightarrow> Some (n, r))
          else Some (n, r))"

lemma hex4_length: "hex4 s = Some (n, r) \<Longrightarrow> length r < length s"
  by (auto simp: hex4_def split: list.splits option.splits)

lemma low_half_length: "low_half s = Some (n, r) \<Longrightarrow> length r < length s"
  by (auto simp: low_half_def split: list.splits option.splits if_splits dest: hex4_length)

lemma u_decode_length: "u_decode s = Some (n, r) \<Longrightarrow> length r < length s"
  by (fastforce simp: u_decode_def split: option.splits if_splits dest: hex4_length low_half_length)

text \<open>\<open>scanstring\<close>, strict: the decoded text and what follows the closing quote.\<close>

function scan_chars :: "string \<Rightarrow> (string \<times> string) result" where
  "scan_chars [] = Inl (ValueError ''Unterminated string'')"
| "scan_chars (c # cs) =
     (if c = CHR 0x22 then Inr ([], cs)
      else if c = CHR 0x5C then
        (case cs of
           [] \<Rightarrow> Inl (ValueError ''Unterminated string'')
         | e # es \<Rightarrow>
             if e = CHR ''u'' then
               (case u_decode es of
                  None \<Rightarrow> Inl (ValueError ''Invalid escape'')
                | Some (n, r) \<Rightarrow>
                    rbind (scan_chars r) (\<lambda>(t, r'). Inr (utf8_encode n @ t, r')))
             else
               (case simple_escape e of
                  None \<Rightarrow> Inl (ValueError ''Invalid escape'')
                | Some d \<Rightarrow> rbind (scan_chars es) (\<lambda>(t, r'). Inr (d # t, r'))))
      else if (of_char c :: nat) < 32 then Inl (ValueError ''Invalid control character'')
      else rbind (scan_chars cs) (\<lambda>(t, r'). Inr (c # t, r')))"
  by pat_completeness auto
termination
  by (relation "measure length") (auto dest: u_decode_length)

text \<open>The fraction and the exponent of a number, empty when the input has none.\<close>

definition number_frac :: "string \<Rightarrow> string" where
  "number_frac r =
     (case r of
        [] \<Rightarrow> []
      | c # r' \<Rightarrow>
          let ds = takeWhile is_digit r' in if c = CHR ''.'' \<and> ds \<noteq> [] then c # ds else [])"

definition number_sign :: "string \<Rightarrow> string" where
  "number_sign r = (case r of [] \<Rightarrow> [] | d # _ \<Rightarrow> if d \<in> {CHR ''+'', CHR ''-''} then [d] else [])"

definition number_expo :: "string \<Rightarrow> string" where
  "number_expo r =
     (case r of
        [] \<Rightarrow> []
      | c # r' \<Rightarrow>
          let sg = number_sign r'; ds = takeWhile is_digit (drop (length sg) r')
          in if c \<in> {CHR ''e'', CHR ''E''} \<and> ds \<noteq> [] then c # sg @ ds else [])"

text \<open>\<open>int(...)\<close> refuses more than 4300 digits.\<close>

definition scan_number :: "pylib \<Rightarrow> string \<Rightarrow> (pyval \<times> string) result" where
  "scan_number L s =
     (let neg = prefix ''-'' s; body = (if neg then tl s else s);
          digits = (if prefix ''0'' body then ''0'' else takeWhile is_digit body);
          r = drop (length digits) body; frac = number_frac r;
          r2 = drop (length frac) r; expo = number_expo r2; r3 = drop (length expo) r2
      in if digits = [] then Inl (ValueError ''Expecting value'')
      else if frac = [] \<and> expo = [] then
        (if length digits > 4300
         then Inl (ValueError ''Exceeds the limit for integer string conversion'')
         else Inr (PInt ((if neg then - 1 else 1) * int (dec_val digits)), r3))
      else Inr (PFloat (float_parse L ((if neg then ''-'' else []) @ digits @ frac @ expo)), r3))"

text \<open>A literal at the head of the input.\<close>

definition scan_literal :: "string \<Rightarrow> (pyval \<times> string) option" where
  "scan_literal s =
     (if prefix ''null'' s then Some (PNone, drop 4 s)
      else if prefix ''true'' s then Some (PBool True, drop 4 s)
      else if prefix ''false'' s then Some (PBool False, drop 5 s)
      else None)"

definition scan_constant :: "string \<Rightarrow> (string \<times> string) option" where
  "scan_constant s =
     (if prefix ''NaN'' s then Some (''NaN'', drop 3 s)
      else if prefix ''Infinity'' s then Some (''Infinity'', drop 8 s)
      else if prefix ''-Infinity'' s then Some (''-Infinity'', drop 9 s)
      else None)"

section \<open>Values\<close>

text \<open>The \<open>object_pairs_hook\<close> and \<open>parse_constant\<close> arguments of the decoder.\<close>

record json_opts =
  pairs_hook :: "(string \<times> pyval) list \<Rightarrow> (string \<times> pyval) list result"
  const_hook :: "string \<Rightarrow> pyval result"

text \<open>\<open>dict(pairs)\<close>: a later value replaces an earlier one in place.\<close>

fun dict_set :: "(string \<times> pyval) list \<Rightarrow> string \<Rightarrow> pyval \<Rightarrow> (string \<times> pyval) list" where
  "dict_set [] k v = [(k, v)]"
| "dict_set ((k', v') # d) k v = (if k' = k then (k, v) # d else (k', v') # dict_set d k v)"

definition dict_pairs :: "(string \<times> pyval) list \<Rightarrow> (string \<times> pyval) list" where
  "dict_pairs pairs = foldl (\<lambda>d (k, v). dict_set d k v) [] pairs"

definition float_constant :: "string \<Rightarrow> pyval result" where
  "float_constant name =
     Inr (PFloat (if name = ''NaN'' then Not_a_number else Infinite (name = ''-Infinity'')))"

definition plain_opts :: json_opts where
  "plain_opts = \<lparr>pairs_hook = (\<lambda>pairs. Inr (dict_pairs pairs)), const_hook = float_constant\<rparr>"

definition out_of_fuel :: pyerror where
  "out_of_fuel = ValueError ''out of fuel''"

text \<open>The next character after whitespace, and a quoted string.\<close>

definition next_token :: "string \<Rightarrow> string \<Rightarrow> (char \<times> string) result" where
  "next_token message s =
     (case skip_ws s of [] \<Rightarrow> Inl (ValueError message) | c # r \<Rightarrow> Inr (c, r))"

definition quoted :: "string \<Rightarrow> (string \<times> string) result" where
  "quoted s =
     (case s of
        [] \<Rightarrow> Inl (ValueError ''Expecting property name enclosed in double quotes'')
      | c # cs \<Rightarrow>
          if c = CHR 0x22 then scan_chars cs
          else Inl (ValueError ''Expecting property name enclosed in double quotes''))"

definition scan_atom :: "pylib \<Rightarrow> json_opts \<Rightarrow> string \<Rightarrow> (pyval \<times> string) result" where
  "scan_atom L opts s =
     (case scan_literal s of
        Some vr \<Rightarrow> Inr vr
      | None \<Rightarrow>
          (case scan_constant s of
             Some (name, r) \<Rightarrow> rbind (const_hook opts name) (\<lambda>v. Inr (v, r))
           | None \<Rightarrow> scan_number L s))"

text \<open>\<open>scan_once\<close>: one value at the head of the input, with the rest of the input.\<close>

fun scan :: "pylib \<Rightarrow> json_opts \<Rightarrow> nat \<Rightarrow> string \<Rightarrow> (pyval \<times> string) result"
and scan_members :: "pylib \<Rightarrow> json_opts \<Rightarrow> nat \<Rightarrow> string \<Rightarrow> ((string \<times> pyval) list \<times> string) result"
and scan_elems :: "pylib \<Rightarrow> json_opts \<Rightarrow> nat \<Rightarrow> string \<Rightarrow> (pyval list \<times> string) result" where
  "scan L opts 0 s = Inl out_of_fuel"
| "scan L opts (Suc n) [] = Inl (ValueError ''Expecting value'')"
| "scan L opts (Suc n) (c # cs) =
     (if c = CHR 0x22 then rbind (scan_chars cs) (\<lambda>(t, r). Inr (PStr t, r))
      else if c = CHR ''{'' then
        rbind (next_token ''Expecting property name enclosed in double quotes'' cs) (\<lambda>(d, r).
        rbind (if d = CHR ''}'' then Inr ([], r) else scan_members L opts n (d # r)) (\<lambda>(pairs, r').
        rbind (pairs_hook opts pairs) (\<lambda>items. Inr (PDict items, r'))))
      else if c = CHR ''['' then
        rbind (next_token ''Expecting value'' cs) (\<lambda>(d, r).
        rbind (if d = CHR '']'' then Inr ([], r) else scan_elems L opts n (d # r)) (\<lambda>(xs, r').
        Inr (PList xs, r')))
      else scan_atom L opts (c # cs))"
| "scan_members L opts 0 s = Inl out_of_fuel"
| "scan_members L opts (Suc n) s =
     rbind (quoted s) (\<lambda>(k, r1).
     rbind (next_token ''Expecting colon delimiter'' r1) (\<lambda>(c, r2).
     rbind (ensure (c = CHR '':'') (ValueError ''Expecting colon delimiter'')) (\<lambda>_.
     rbind (scan L opts n (skip_ws r2)) (\<lambda>(v, r3).
     rbind (next_token ''Expecting comma delimiter'' r3) (\<lambda>(e, r4).
     if e = CHR ''}'' then Inr ([(k, v)], r4)
     else if e = CHR '','' then
       rbind (scan_members L opts n (skip_ws r4)) (\<lambda>(d, r5). Inr ((k, v) # d, r5))
     else Inl (ValueError ''Expecting comma delimiter''))))))"
| "scan_elems L opts 0 s = Inl out_of_fuel"
| "scan_elems L opts (Suc n) s =
     rbind (scan L opts n s) (\<lambda>(v, r1).
     rbind (next_token ''Expecting comma delimiter'' r1) (\<lambda>(e, r2).
     if e = CHR '']'' then Inr ([v], r2)
     else if e = CHR '','' then
       rbind (scan_elems L opts n (skip_ws r2)) (\<lambda>(xs, r3). Inr (v # xs, r3))
     else Inl (ValueError ''Expecting comma delimiter'')))"

declare scan.simps(3) [simp del] scan_members.simps(2) [simp del] scan_elems.simps(2) [simp del]

text \<open>\<open>raw_decode\<close>, and \<open>json.loads\<close> on text and on bytes (where a byte order mark is dropped).\<close>

definition raw_decode :: "pylib \<Rightarrow> json_opts \<Rightarrow> string \<Rightarrow> (pyval \<times> string) result" where
  "raw_decode L opts s = scan L opts (Suc (2 * length s)) s"

definition loads_text :: "pylib \<Rightarrow> json_opts \<Rightarrow> string \<Rightarrow> pyval result" where
  "loads_text L opts s =
     rbind (raw_decode L opts (skip_ws s)) (\<lambda>(v, r).
     if skip_ws r = [] then Inr v else Inl (ValueError ''Extra data''))"

definition BOM :: string where
  "BOM = [CHR 0xEF, CHR 0xBB, CHR 0xBF]"

definition loads_bytes :: "pylib \<Rightarrow> json_opts \<Rightarrow> string \<Rightarrow> pyval result" where
  "loads_bytes L opts s =
     (if \<not> utf8_ok True s then Inl (ValueError ''invalid utf-8'')
      else loads_text L opts (if prefix BOM s then drop 3 s else s))"

section \<open>\<open>release_control.parse_json\<close>\<close>

fun no_duplicates :: "(string \<times> pyval) list \<Rightarrow> (string \<times> pyval) list \<Rightarrow> (string \<times> pyval) list result" where
  "no_duplicates result [] = Inr result"
| "no_duplicates result ((k, v) # pairs) =
     rbind (ensure (\<not> dhas result k) (ReleaseError ''Duplicate JSON field'')) (\<lambda>_.
     no_duplicates (result @ [(k, v)]) pairs)"

definition strict_opts :: json_opts where
  "strict_opts = \<lparr>pairs_hook = no_duplicates [], const_hook = float_constant\<rparr>"

definition parse_json :: "pylib \<Rightarrow> string \<Rightarrow> pyval result" where
  "parse_json L data =
     (case loads_bytes L strict_opts data of
        Inr v \<Rightarrow> Inr v
      | Inl e \<Rightarrow> if is_value_error e then Inl (ReleaseError ''Invalid JSON'') else Inl e)"

section \<open>Every scan consumes input, and fuel beyond the input is irrelevant\<close>

lemma scan_chars_length: "scan_chars s = Inr (t, r) \<Longrightarrow> length r < length s"
proof (induction s arbitrary: t r rule: scan_chars.induct)
  case 1
  then show ?case by simp
next
  case (2 c cs)
  show ?case
  proof (cases "c = CHR 0x22")
    case True
    with "2.prems" show ?thesis by simp
  next
    case nq: False
    show ?thesis
    proof (cases "c = CHR 0x5C")
      case False
      with nq "2.prems" "2.IH"(3) show ?thesis
        by (fastforce simp: rbind_Inr_iff split: if_splits)
    next
      case True
      with nq "2.prems" obtain e es where cs: "cs = e # es" by (cases cs) auto
      show ?thesis
      proof (cases "e = CHR ''u''")
        case eu: True
        with True nq "2.prems" cs obtain n r1 t1 where
          u: "u_decode es = Some (n, r1)" and s: "scan_chars r1 = Inr (t1, r)"
          by (auto simp: rbind_Inr_iff split: option.splits)
        have "length r < length r1" using "2.IH"(1) [OF nq True cs eu u _ s] by simp
        with u_decode_length [OF u] cs show ?thesis by simp
      next
        case ne: False
        with True nq "2.prems" cs obtain d t1 where
          d: "simple_escape e = Some d" and s: "scan_chars es = Inr (t1, r)"
          by (auto simp: rbind_Inr_iff split: option.splits)
        from "2.IH"(2) [OF nq True cs ne d s] cs show ?thesis by simp
      qed
    qed
  qed
qed

lemma skip_ws_length: "length (skip_ws s) \<le> length s"
  by (simp add: skip_ws_def length_dropWhile_le)

lemma skip_ws_Cons_length: "skip_ws s = c # r \<Longrightarrow> length r < length s"
  using skip_ws_length [of s] by simp

lemma next_token_length: "next_token m s = Inr (c, r) \<Longrightarrow> length r < length s"
  using skip_ws_length [of s] by (auto simp: next_token_def split: list.splits)

lemma drop_0_twice: "\<exists>i j. x = drop i (drop j x)"
  by (intro exI [of _ 0]) simp

lemma scan_number_length:
  assumes "scan_number L s = Inr (v, r)"
  shows "length r < length s"
proof -
  define body where "body = (if prefix ''-'' s then tl s else s)"
  define digits where "digits = (if prefix ''0'' body then ''0'' else takeWhile is_digit body)"
  have "digits \<noteq> []" and r: "\<exists>i j. r = drop i (drop j (drop (length digits) body))"
    using assms unfolding scan_number_def Let_def body_def [symmetric] digits_def [symmetric]
    by (auto split: if_splits simp del: drop_drop intro: drop_0_twice)
  moreover have "body \<noteq> []" using \<open>digits \<noteq> []\<close> by (auto simp: digits_def split: if_splits)
  moreover have "length body \<le> length s" by (simp add: body_def)
  ultimately show ?thesis by (cases digits; cases body) auto
qed

lemma scan_atom_length:
  assumes "scan_atom L opts s = Inr (v, r)"
  shows "length r < length s"
proof -
  have "scan_literal s = Some (v, r) \<or> (\<exists>name. scan_constant s = Some (name, r))
      \<or> scan_number L s = Inr (v, r)"
    using assms by (auto simp: scan_atom_def rbind_Inr_iff split: option.splits)
  then show ?thesis
    using scan_number_length
    by (auto simp: scan_literal_def scan_constant_def split: if_splits elim!: prefixE)
qed

lemma quoted_length: "quoted s = Inr (k, r) \<Longrightarrow> length r < length s"
  by (auto simp: quoted_def split: list.splits if_splits dest: scan_chars_length)

lemmas token_lengths = scan_chars_length next_token_length scan_atom_length quoted_length

lemma scan_length:
  "scan L opts n s = Inr (v, r) \<Longrightarrow> length r < length s"
  "scan_members L opts n s = Inr (d, r) \<Longrightarrow> length r < length s"
  "scan_elems L opts n s = Inr (xs, r) \<Longrightarrow> length r < length s"
proof (induction n arbitrary: s v r d xs)
  case 0
  { case 1 then show ?case by simp next
    case 2 then show ?case by simp next
    case 3 then show ?case by simp }
next
  case (Suc n)
  { case 1
    then obtain c cs where s: "s = c # cs" by (cases s) auto
    from 1 [unfolded s] consider t where "scan_chars cs = Inr (t, r)"
      | m e r1 where "next_token m cs = Inr (e, r1)"
          "r = r1 \<or> (\<exists>d. scan_members L opts n (e # r1) = Inr (d, r))
           \<or> (\<exists>xs. scan_elems L opts n (e # r1) = Inr (xs, r))"
      | "scan_atom L opts s = Inr (v, r)"
      unfolding s scan.simps by (auto simp: rbind_Inr_iff split: if_splits)
    then show ?case
    proof cases
      case 1
      then show ?thesis using scan_chars_length s by fastforce
    next
      case 2
      then have "length r \<le> Suc (length r1)" using Suc.IH(2,3) [of "e # r1"] by fastforce
      with next_token_length [OF 2(1)] s show ?thesis by simp
    next
      case 3
      then show ?thesis by (rule scan_atom_length)
    qed
  next
    case 2
    then obtain k c m1 m2 r1 r2 r3 w e r4 where
      s: "quoted s = Inr (k, r1)" "next_token m1 r1 = Inr (c, r2)"
         "scan L opts n (skip_ws r2) = Inr (w, r3)" "next_token m2 r3 = Inr (e, r4)"
      and alt: "r = r4 \<or> (\<exists>d'. scan_members L opts n (skip_ws r4) = Inr (d', r))"
      by (fastforce simp: scan_members.simps(2) rbind_Inr_iff split: if_splits)
    have "length r \<le> length r4"
      using alt Suc.IH(2) skip_ws_length [of r4] by fastforce
    moreover have "length r4 < length s"
      using quoted_length [OF s(1)] next_token_length [OF s(2)] Suc.IH(1) [OF s(3)]
        next_token_length [OF s(4)] skip_ws_length [of r2] by simp
    ultimately show ?case by simp
  next
    case 3
    then obtain r1 m w e r2 where
      s: "scan L opts n s = Inr (w, r1)" "next_token m r1 = Inr (e, r2)"
      and alt: "r = r2 \<or> (\<exists>d'. scan_elems L opts n (skip_ws r2) = Inr (d', r))"
      by (fastforce simp: scan_elems.simps(2) rbind_Inr_iff split: if_splits)
    have "length r \<le> length r2"
      using alt Suc.IH(3) skip_ws_length [of r2] by fastforce
    with Suc.IH(1) [OF s(1)] next_token_length [OF s(2)] show ?case by simp }
qed

lemma rbind_cong_Inr: "m = m' \<Longrightarrow> (\<And>x. m' = Inr x \<Longrightarrow> f x = g x) \<Longrightarrow> rbind m f = rbind m' g"
  by (cases m) auto

lemma scan_fuel_Suc:
  "2 * length s < n \<Longrightarrow> scan L opts (Suc n) s = scan L opts n s"
  "2 * length s < n \<Longrightarrow> scan_members L opts (Suc n) s = scan_members L opts n s"
  "Suc (2 * length s) < n \<Longrightarrow> scan_elems L opts (Suc n) s = scan_elems L opts n s"
proof (induction n arbitrary: s)
  case 0
  { case 1 then show ?case by simp next
    case 2 then show ?case by simp next
    case 3 then show ?case by simp }
next
  case (Suc n)
  { case 1
    show ?case
    proof (cases s)
      case Nil
      then show ?thesis by simp
    next
      case (Cons c cs)
      have "scan_members L opts (Suc n) (d # r) = scan_members L opts n (d # r)"
           "scan_elems L opts (Suc n) (d # r) = scan_elems L opts n (d # r)"
        if "next_token m cs = Inr (d, r)" for m d r
        using next_token_length [OF that] Suc.IH(2,3) [of "d # r"] 1 Cons by simp_all
      then show ?thesis
        unfolding Cons scan.simps
        by (intro if_cong refl rbind_cong_Inr)
             (auto intro!: rbind_cong_Inr)
    qed
  next
    case 2
    have IH1: "scan L opts (Suc n) (skip_ws r2) = scan L opts n (skip_ws r2)"
      if "quoted s = Inr (k, r1)" "next_token m r1 = Inr (d, r2)" for m k r1 d r2
      using Suc.IH(1) [of "skip_ws r2"] 2 quoted_length [OF that(1)]
        next_token_length [OF that(2)] skip_ws_length [of r2] by simp
    have IH2: "scan_members L opts (Suc n) (skip_ws r4) = scan_members L opts n (skip_ws r4)"
      if "quoted s = Inr (k, r1)" "next_token m r1 = Inr (d, r2)"
        "scan L opts n (skip_ws r2) = Inr (w, r3)" "next_token m' r3 = Inr (e, r4)"
      for k m r1 d r2 w r3 m' e r4
      using Suc.IH(2) [of "skip_ws r4"] 2 quoted_length [OF that(1)]
        next_token_length [OF that(2)] skip_ws_length [of r2] scan_length(1) [OF that(3)]
        next_token_length [OF that(4)] skip_ws_length [of r4] by simp
    show ?case
      unfolding scan_members.simps(2) [of L opts "Suc n" s] scan_members.simps(2) [of L opts n s]
      by (intro rbind_cong_Inr refl)
         (auto simp: IH1 IH2 intro!: rbind_cong_Inr)
  next
    case 3
    have IH1: "scan L opts (Suc n) s = scan L opts n s"
      using Suc.IH(1) 3 by simp
    have IH2: "scan_elems L opts (Suc n) (skip_ws r2) = scan_elems L opts n (skip_ws r2)"
      if "scan L opts n s = Inr (w, r1)" "next_token m r1 = Inr (e, r2)" for w r1 m e r2
      using Suc.IH(3) [of "skip_ws r2"] 3 scan_length(1) [OF that(1)]
        next_token_length [OF that(2)] skip_ws_length [of r2] by simp
    show ?case
      unfolding scan_elems.simps(2) [of L opts "Suc n" s] scan_elems.simps(2) [of L opts n s]
      by (intro rbind_cong_Inr IH1) (auto simp: IH2 intro!: rbind_cong_Inr) }
qed

lemma scan_fuel: "2 * length s < n \<Longrightarrow> scan L opts n s = raw_decode L opts s"
proof (induction n)
  case 0
  then show ?case by simp
next
  case (Suc n)
  then show ?case
    using scan_fuel_Suc(1) [of s n L opts] by (cases "n = 2 * length s") (auto simp: raw_decode_def)
qed

text \<open>The decoder without fuel.\<close>

definition decode_members :: "pylib \<Rightarrow> json_opts \<Rightarrow> string \<Rightarrow> ((string \<times> pyval) list \<times> string) result" where
  "decode_members L opts s = scan_members L opts (Suc (2 * length s)) s"

definition decode_elems :: "pylib \<Rightarrow> json_opts \<Rightarrow> string \<Rightarrow> (pyval list \<times> string) result" where
  "decode_elems L opts s = scan_elems L opts (Suc (Suc (2 * length s))) s"

lemma members_fuel: "2 * length s < n \<Longrightarrow> scan_members L opts n s = decode_members L opts s"
proof (induction n)
  case (Suc n)
  then show ?case
    using scan_fuel_Suc(2) [of s n L opts] by (cases "n = 2 * length s") (auto simp: decode_members_def)
qed simp

lemma elems_fuel: "Suc (2 * length s) < n \<Longrightarrow> scan_elems L opts n s = decode_elems L opts s"
proof (induction n)
  case (Suc n)
  then show ?case
    using scan_fuel_Suc(3) [of s n L opts]
    by (cases "n = Suc (2 * length s)") (auto simp: decode_elems_def)
qed simp

lemma raw_decode_Cons:
  "raw_decode L opts (c # cs) =
     (if c = CHR 0x22 then rbind (scan_chars cs) (\<lambda>(t, r). Inr (PStr t, r))
      else if c = CHR ''{'' then
        rbind (next_token ''Expecting property name enclosed in double quotes'' cs) (\<lambda>(d, r).
        rbind (if d = CHR ''}'' then Inr ([], r) else decode_members L opts (d # r)) (\<lambda>(pairs, r').
        rbind (pairs_hook opts pairs) (\<lambda>items. Inr (PDict items, r'))))
      else if c = CHR ''['' then
        rbind (next_token ''Expecting value'' cs) (\<lambda>(d, r).
        rbind (if d = CHR '']'' then Inr ([], r) else decode_elems L opts (d # r)) (\<lambda>(xs, r').
        Inr (PList xs, r')))
      else scan_atom L opts (c # cs))"
proof -
  have "scan_members L opts (2 * length (c # cs)) (d # r) = decode_members L opts (d # r)"
       "scan_elems L opts (2 * length (c # cs)) (d # r) = decode_elems L opts (d # r)"
    if "next_token m cs = Inr (d, r)" for m d r
    using next_token_length [OF that] by (auto intro!: members_fuel elems_fuel)
  then show ?thesis
    unfolding raw_decode_def scan.simps(3) by (intro if_cong refl rbind_cong_Inr) auto
qed

lemma decode_members_eq:
  "decode_members L opts s =
     rbind (quoted s) (\<lambda>(k, r1).
     rbind (next_token ''Expecting colon delimiter'' r1) (\<lambda>(c, r2).
     rbind (ensure (c = CHR '':'') (ValueError ''Expecting colon delimiter'')) (\<lambda>_.
     rbind (raw_decode L opts (skip_ws r2)) (\<lambda>(v, r3).
     rbind (next_token ''Expecting comma delimiter'' r3) (\<lambda>(e, r4).
     if e = CHR ''}'' then Inr ([(k, v)], r4)
     else if e = CHR '','' then
       rbind (decode_members L opts (skip_ws r4)) (\<lambda>(d, r5). Inr ((k, v) # d, r5))
     else Inl (ValueError ''Expecting comma delimiter''))))))"
proof -
  have 1: "scan L opts (2 * length s) (skip_ws r2) = raw_decode L opts (skip_ws r2)"
    if "quoted s = Inr (k, r1)" "next_token m r1 = Inr (c, r2)" for k r1 m c r2
    using quoted_length [OF that(1)] next_token_length [OF that(2)] skip_ws_length [of r2]
    by (intro scan_fuel) simp
  have 2: "scan_members L opts (2 * length s) (skip_ws r4) = decode_members L opts (skip_ws r4)"
    if "quoted s = Inr (k, r1)" "next_token m r1 = Inr (c, r2)"
      "raw_decode L opts (skip_ws r2) = Inr (w, r3)" "next_token m' r3 = Inr (e, r4)"
    for k r1 m c r2 w r3 m' e r4
    using quoted_length [OF that(1)] next_token_length [OF that(2)] skip_ws_length [of r2]
      scan_length(1) [OF that(3) [unfolded raw_decode_def]] next_token_length [OF that(4)]
      skip_ws_length [of r4] by (intro members_fuel) simp
  show ?thesis
    unfolding decode_members_def [of L opts s] scan_members.simps(2)
    by (intro rbind_cong_Inr refl) (auto simp: 1 2 intro!: rbind_cong_Inr)
qed

lemma decode_elems_eq:
  "decode_elems L opts s =
     rbind (raw_decode L opts s) (\<lambda>(v, r1).
     rbind (next_token ''Expecting comma delimiter'' r1) (\<lambda>(e, r2).
     if e = CHR '']'' then Inr ([v], r2)
     else if e = CHR '','' then
       rbind (decode_elems L opts (skip_ws r2)) (\<lambda>(xs, r3). Inr (v # xs, r3))
     else Inl (ValueError ''Expecting comma delimiter'')))"
proof -
  have "scan_elems L opts (Suc (2 * length s)) (skip_ws r2) = decode_elems L opts (skip_ws r2)"
    if "raw_decode L opts s = Inr (w, r1)" "next_token m r1 = Inr (e, r2)" for w r1 m e r2
    using scan_length(1) [OF that(1) [unfolded raw_decode_def]] next_token_length [OF that(2)]
      skip_ws_length [of r2] by (intro elems_fuel) simp
  then show ?thesis
    unfolding decode_elems_def [of L opts s] scan_elems.simps(2) raw_decode_def [symmetric]
    by (intro rbind_cong_Inr refl) (auto intro!: rbind_cong_Inr)
qed

section \<open>Reading back what was written\<close>

lemma hex_value_digit [simp]: "n < 16 \<Longrightarrow> hex_value (hex_digit n) = Some n"
  by (auto simp: hex_value_def hex_digit_def Let_def)

lemma four_digits:
  fixes n :: nat
  assumes "n < 65536"
  shows "n div 4096 mod 16 * 4096 + n div 256 mod 16 * 256 + n div 16 mod 16 * 16 + n mod 16 = n"
proof -
  have d: "n div 256 = n div 16 div 16" "n div 4096 = n div 16 div 16 div 16"
    by (simp_all add: div_mult2_eq [symmetric])
  have "n div 16 div 16 div 16 < 16"
    using assms by (simp add: div_mult2_eq [symmetric] less_mult_imp_div_less)
  then have m: "n div 16 div 16 div 16 mod 16 = n div 16 div 16 div 16" by simp
  show ?thesis
    unfolding d m using div_mult_mod_eq [of n 16] div_mult_mod_eq [of "n div 16" 16]
      div_mult_mod_eq [of "n div 16 div 16" 16] by linarith
qed

lemma hex4_u_escape: "n < 65536 \<Longrightarrow> hex4 (drop 2 (u_escape n) @ r) = Some (n, r)"
  using four_digits [of n] by (simp add: hex4_def u_escape_def)

lemma scan_u_escape:
  assumes "n < 128"
  shows "scan_chars (u_escape n @ x) = rbind (scan_chars x) (\<lambda>(t, r). Inr (char_of n # t, r))"
proof -
  define ds where "ds = drop 2 (u_escape n)"
  have "u_decode (ds @ x) = Some (n, x)"
    using assms hex4_u_escape [of n x] by (simp add: u_decode_def ds_def)
  moreover have u: "u_escape n @ x = CHR 0x5C # CHR ''u'' # ds @ x"
    by (simp add: u_escape_def ds_def)
  ultimately show ?thesis using assms unfolding u by (simp add: utf8_encode_def)
qed

lemma scan_json_char:
  assumes "(of_char c :: nat) < 128"
  shows "scan_chars (json_char c @ x) = rbind (scan_chars x) (\<lambda>(t, r). Inr (c # t, r))"
proof (cases "c \<in> {CHR 0x22, CHR 0x5C, CHR 0x0A, CHR 0x0D, CHR 0x09, CHR 0x0C, CHR 0x08}")
  case True
  then show ?thesis by (auto simp: json_char_def simple_escape_def)
next
  case False
  then show ?thesis
    using assms scan_u_escape [OF assms, of x] by (auto simp: json_char_def)
qed

lemma scan_json_chars: "ascii s \<Longrightarrow> scan_chars (json_chars s @ CHR 0x22 # r) = Inr (s, r)"
proof (induction s)
  case Nil
  then show ?case by (simp add: json_chars.simps)
next
  case (Cons c s)
  have "scan_chars (json_chars (c # s) @ CHR 0x22 # r)
      = scan_chars (json_char c @ (json_chars s @ CHR 0x22 # r))"
    using Cons.prems by (simp add: ascii_def json_chars.simps)
  also have "\<dots> = Inr (c # s, r)"
    using Cons by (subst scan_json_char) (simp_all add: ascii_def)
  finally show ?case .
qed

lemma skip_ws_simps [simp]:
  "skip_ws [] = []"
  "skip_ws (c # s) = (if json_space c then skip_ws s else c # s)"
  by (simp_all add: skip_ws_def)

lemma skip_ws_indent [simp]: "skip_ws (indent_line n @ s) = skip_ws s"
proof -
  have "dropWhile json_space (replicate k (CHR '' '') @ s) = dropWhile json_space s" for k
    by (rule dropWhile_append2) (auto simp: json_space_def)
  then show ?thesis by (simp add: indent_line_def skip_ws_def json_space_def)
qed

text \<open>What may follow a number so that the scanner stops there.\<close>

definition stops :: "string \<Rightarrow> bool" where
  "stops r \<longleftrightarrow> (case r of [] \<Rightarrow> True | c # _ \<Rightarrow> \<not> is_digit c \<and> c \<notin> {CHR ''.'', CHR ''e'', CHR ''E''})"

definition small_int :: "int \<Rightarrow> bool" where
  "small_int i \<longleftrightarrow> length (nat_str (nat \<bar>i\<bar>)) \<le> 4300"

lemma stops_number: "stops r \<Longrightarrow> number_frac r = [] \<and> number_expo r = []"
  by (auto simp: stops_def number_frac_def number_expo_def Let_def split: list.splits)

lemma nat_str_0: "nat_str 0 = ''0''"
  by (subst nat_str.simps) simp

lemma prefix_zero_nat_str: "prefix ''0'' (nat_str n @ r) \<longleftrightarrow> n = 0"
proof (cases "n = 0")
  case True
  then show ?thesis by (simp add: nat_str_0)
next
  case False
  then show ?thesis using hd_nat_str [of n] by (cases "nat_str n") auto
qed

lemma takeWhile_nat_str:
  assumes "stops r"
  shows "takeWhile is_digit (nat_str n @ r) = nat_str n"
proof -
  have "takeWhile is_digit (nat_str n @ r) = nat_str n @ takeWhile is_digit r"
    by (intro takeWhile_append2) (auto dest: nat_str_digits)
  also have "takeWhile is_digit r = []"
    using assms by (auto simp: stops_def split: list.splits)
  finally show ?thesis by simp
qed

lemma not_minus_nat_str: "\<not> prefix ''-'' (nat_str n @ r)"
proof -
  obtain c cs where "nat_str n = c # cs" by (cases "nat_str n") auto
  moreover have "is_digit c" using nat_str_digits [of c n] \<open>nat_str n = c # cs\<close> by simp
  ultimately show ?thesis by (auto simp: is_digit_def)
qed

lemma scan_number_int:
  assumes "stops r" "small_int i"
  shows "scan_number L (int_str i @ r) = Inr (PInt i, r)"
proof -
  define n where "n = nat \<bar>i\<bar>"
  have digits: "(if prefix ''0'' (nat_str n @ r) then ''0'' else takeWhile is_digit (nat_str n @ r)) = nat_str n"
    using takeWhile_nat_str [OF assms(1), of n] by (simp add: prefix_zero_nat_str nat_str_0)
  have body: "(if prefix ''-'' (int_str i @ r) then tl (int_str i @ r) else int_str i @ r) = nat_str n @ r"
    using not_minus_nat_str [of n r] by (auto simp: int_str_def n_def)
  have sign: "prefix ''-'' (int_str i @ r) \<longleftrightarrow> i < 0"
    using not_minus_nat_str [of n r] by (auto simp: int_str_def n_def)
  have "(if i < 0 then - 1 else 1) * int n = i" by (simp add: n_def)
  moreover have "\<not> 4300 < length (nat_str n)" using assms(2) by (simp add: small_int_def n_def)
  ultimately show ?thesis
    unfolding scan_number_def Let_def body digits
    using stops_number [OF assms(1)] by (simp add: sign)
qed

text \<open>Values without floats over ASCII text, with distinct keys and integers Python reads back.\<close>

fun clean :: "pyval \<Rightarrow> bool"
and clean_list :: "pyval list \<Rightarrow> bool"
and clean_items :: "(string \<times> pyval) list \<Rightarrow> bool" where
  "clean (PFloat f) = False"
| "clean (PStr s) = ascii s"
| "clean (PList xs) = clean_list xs"
| "clean (PDict d) = (distinct (map fst d) \<and> clean_items d)"
| "clean PNone = True"
| "clean (PBool b) = True"
| "clean (PInt i) = small_int i"
| "clean_list [] = True"
| "clean_list (x # xs) = (clean x \<and> clean_list xs)"
| "clean_items [] = True"
| "clean_items ((k, v) # d) = (ascii k \<and> clean v \<and> clean_items d)"

lemma scan_atom_int:
  assumes "stops r" "small_int i"
  shows "scan_atom L opts (int_str i @ r) = Inr (PInt i, r)"
proof -
  obtain c cs where c: "int_str i = c # cs" "int_char c" using int_str_Cons by blast
  have "\<not> prefix ''-Infinity'' (int_str i @ r)"
  proof (cases "i < 0")
    case True
    obtain d ds where d: "nat_str (nat (- i)) = d # ds" by (cases "nat_str (nat (- i))") auto
    then have "is_digit d" using nat_str_digits [of d "nat (- i)"] by simp
    with True d show ?thesis by (auto simp: int_str_def is_digit_def)
  next
    case False
    then have "int_str i @ r = nat_str (nat i) @ r" by (simp add: int_str_def)
    moreover have "prefix ''-'' s" if "prefix ''-Infinity'' s" for s :: string
      by (rule prefix_order.trans [OF _ that]) simp
    ultimately show ?thesis
      using not_minus_nat_str [of "nat i" r] by (simp only:) blast
  qed
  moreover have "c \<noteq> CHR ''n'' \<and> c \<noteq> CHR ''t'' \<and> c \<noteq> CHR ''f'' \<and> c \<noteq> CHR ''N'' \<and> c \<noteq> CHR ''I''"
    using c(2) by (auto simp: int_char_def is_digit_def)
  ultimately have "scan_literal (int_str i @ r) = None" "scan_constant (int_str i @ r) = None"
    using c(1) by (auto simp: scan_literal_def scan_constant_def)
  then show ?thesis using scan_number_int [OF assms] by (simp add: scan_atom_def)
qed

lemma raw_decode_int:
  assumes "stops r" "small_int i"
  shows "raw_decode L opts (int_str i @ r) = Inr (PInt i, r)"
proof -
  obtain c cs where c: "int_str i = c # cs" "int_char c" using int_str_Cons by blast
  then have "c \<notin> {CHR 0x22, CHR ''{'', CHR ''[''}" by (auto simp: int_char_def is_digit_def)
  then have "raw_decode L opts (int_str i @ r) = scan_atom L opts (int_str i @ r)"
    using c(1) by (auto simp: raw_decode_Cons)
  then show ?thesis using scan_atom_int [OF assms] by simp
qed

lemma raw_decode_str: "ascii t \<Longrightarrow> raw_decode L opts (json_str t @ r) = Inr (PStr t, r)"
  by (simp add: json_str_def raw_decode_Cons scan_json_chars)

lemma quoted_json_str: "ascii k \<Longrightarrow> quoted (json_str k @ r) = Inr (k, r)"
  by (simp add: json_str_def quoted_def scan_json_chars)

text \<open>The first byte of an indented value: never whitespace, never a closing bracket.\<close>

lemma dump_Cons:
  "clean v \<Longrightarrow> \<exists>c cs. dump L n v = c # cs \<and> \<not> json_space c \<and> c \<noteq> CHR '']''"
  using int_str_Cons
  by (cases v) (fastforce simp: json_str_def json_space_def int_char_def is_digit_def)+

lemma skip_ws_dump:
  assumes "clean v"
  shows "skip_ws (dump L n v @ r) = dump L n v @ r"
proof -
  obtain c cs where "dump L n v = c # cs" "\<not> json_space c" using dump_Cons [OF assms] by blast
  then show ?thesis by simp
qed

lemma stops_indent [simp]: "stops (indent_line n @ r)"
  by (simp add: stops_def indent_line_def is_digit_def)

definition keeps_distinct :: "json_opts \<Rightarrow> bool" where
  "keeps_distinct opts \<longleftrightarrow> (\<forall>d. distinct (map fst d) \<longrightarrow> pairs_hook opts d = Inr d)"

lemma next_token_simp: "next_token m s = (case skip_ws s of [] \<Rightarrow> Inl (ValueError m) | c # r \<Rightarrow> Inr (c, r))"
  by (simp add: next_token_def)

lemma json_space_simps [simp]:
  "\<not> json_space (CHR 0x22)" "\<not> json_space (CHR '']'')" "\<not> json_space (CHR ''}'')"
  "\<not> json_space (CHR '':'')" "\<not> json_space (CHR '','')" "json_space (CHR '' '')"
  "json_space (CHR 0x0A)"
  by (simp_all add: json_space_def)

lemma stops_close [simp]: "stops (CHR '']'' # r)" "stops (CHR ''}'' # r)" "stops (CHR '','' # r)"
  by (simp_all add: stops_def is_digit_def)

lemma raw_decode_dump_atom:
  "raw_decode L opts (''null'' @ r) = Inr (PNone, r)"
  "raw_decode L opts (''true'' @ r) = Inr (PBool True, r)"
  "raw_decode L opts (''false'' @ r) = Inr (PBool False, r)"
  by (simp_all add: raw_decode_Cons scan_atom_def scan_literal_def)

lemma raw_decode_list:
  assumes "clean x" "decode_elems L opts (dump_list L (Suc n) (x # xs) @ indent_line n @ CHR '']'' # r) = Inr (x # xs, r)"
  shows "raw_decode L opts (dump L n (PList (x # xs)) @ r) = Inr (PList (x # xs), r)"
proof -
  obtain c cs where c: "dump_list L (Suc n) (x # xs) = c # cs" "\<not> json_space c" "c \<noteq> CHR '']''"
    using dump_Cons [OF assms(1), of L "Suc n"] by auto
  show ?thesis
    using assms(2) c by (simp add: raw_decode_Cons next_token_simp del: dump_list.simps)
qed

lemma raw_decode_dict:
  assumes "keeps_distinct opts" "distinct (map fst (x # d))"
    "decode_members L opts (dump_items L (Suc n) (x # d) @ indent_line n @ CHR ''}'' # r) = Inr (x # d, r)"
  shows "raw_decode L opts (dump L n (PDict (x # d)) @ r) = Inr (PDict (x # d), r)"
proof -
  obtain cs where c: "dump_items L (Suc n) (x # d) = CHR 0x22 # cs"
    by (cases x) (simp add: json_str_def)
  have h: "pairs_hook opts (x # d) = Inr (x # d)"
    using assms(1,2) unfolding keeps_distinct_def by blast
  show ?thesis
    using assms(3) c h by (simp add: raw_decode_Cons next_token_simp del: dump_items.simps)
qed

lemma raw_decode_dump:
  "clean v \<Longrightarrow> keeps_distinct opts \<Longrightarrow> stops r \<Longrightarrow> raw_decode L opts (dump L n v @ r) = Inr (v, r)"
  "clean_list xs \<Longrightarrow> keeps_distinct opts \<Longrightarrow> xs \<noteq> [] \<Longrightarrow>
     decode_elems L opts (dump_list L n xs @ indent_line m @ CHR '']'' # r) = Inr (xs, r)"
  "clean_items d \<Longrightarrow> keeps_distinct opts \<Longrightarrow> d \<noteq> [] \<Longrightarrow>
     decode_members L opts (dump_items L n d @ indent_line m @ CHR ''}'' # r) = Inr (d, r)"
proof (induction v and xs and d arbitrary: n r and n m r and n m r rule: clean_clean_list_clean_items.induct)
  case (1 f)
  then show ?case by simp
next
  case (2 s)
  then show ?case by (simp add: raw_decode_str)
next
  case (3 xs)
  show ?case
  proof (cases xs)
    case Nil
    then show ?thesis by (simp add: raw_decode_Cons next_token_simp)
  next
    case (Cons x ys)
    with 3 show ?thesis using raw_decode_list [of x L opts n ys r] by (metis clean.simps(3) clean_list.simps(2) list.distinct(1))
  qed
next
  case (4 d)
  show ?case
  proof (cases d)
    case Nil
    with 4 show ?thesis by (simp add: raw_decode_Cons next_token_simp keeps_distinct_def)
  next
    case (Cons x e)
    with 4 show ?thesis using raw_decode_dict [of opts x e L n r] by (metis clean.simps(4) list.distinct(1))
  qed
next
  case 5
  then show ?case using raw_decode_dump_atom by simp
next
  case (6 b)
  then show ?case using raw_decode_dump_atom by simp
next
  case (7 i)
  then show ?case by (simp add: raw_decode_int)
next
  case 8
  then show ?case by simp
next
  case (9 x xs)
  show ?case
  proof (cases xs)
    case Nil
    with 9 show ?thesis by (subst decode_elems_eq) (simp add: next_token_simp)
  next
    case (Cons y ys)
    with 9 have "decode_elems L opts (dump_list L n xs @ indent_line m @ CHR '']'' # r) = Inr (xs, r)"
      by simp
    moreover have "skip_ws (dump_list L n xs @ s) = dump_list L n xs @ s" for s
      using 9 Cons skip_ws_dump [of y L n] by simp
    ultimately show ?thesis
      using 9 Cons by (subst decode_elems_eq) (simp add: next_token_simp del: dump_list.simps(2) add: dump_list.simps(2) [of L n x])
  qed
next
  case 10
  then show ?case by simp
next
  case (11 k v d)
  show ?case
  proof (cases d)
    case Nil
    with 11 show ?thesis
      by (subst decode_members_eq) (simp add: next_token_simp quoted_json_str skip_ws_dump)
  next
    case (Cons y ys)
    with 11 have "decode_members L opts (dump_items L n d @ indent_line m @ CHR ''}'' # r) = Inr (d, r)"
      by simp
    moreover have "skip_ws (dump_items L n d @ s) = dump_items L n d @ s" for s
      using Cons by (cases y) (simp add: json_str_def)
    ultimately show ?thesis
      using 11 Cons by (subst decode_members_eq)
        (simp add: next_token_simp quoted_json_str skip_ws_dump del: dump_items.simps(2) add: dump_items.simps(2) [of L n k])
  qed
qed

lemma ascii_list_simps [simp]:
  "ascii []" "ascii (c # s) \<longleftrightarrow> (of_char c :: nat) < 128 \<and> ascii s"
  "ascii (s @ t) \<longleftrightarrow> ascii s \<and> ascii t"
  by (auto simp: ascii_def)

lemma utf8_ok_ascii: "ascii s \<Longrightarrow> utf8_ok b s"
  by (induction s) simp_all

lemma hex_digit_ascii: "n < 16 \<Longrightarrow> (of_char (hex_digit n) :: nat) < 128"
  by (simp add: hex_digit_def)

lemma json_char_ascii: "(of_char c :: nat) < 128 \<Longrightarrow> ascii (json_char c)"
  by (auto simp: json_char_def u_escape_def intro!: hex_digit_ascii)

lemma json_chars_stay_ascii: "ascii s \<Longrightarrow> ascii (json_chars s)"
proof (induction s)
  case (Cons c s)
  then show ?case by (simp add: json_chars.simps json_char_ascii)
qed (simp add: json_chars.simps)

lemma int_str_ascii: "ascii (int_str i)"
proof -
  have "ascii (nat_str n)" for n
    using nat_str_digits [of _ n] by (fastforce simp: ascii_def is_digit_def)
  then show ?thesis by (simp add: int_str_def)
qed

lemma indent_ascii [simp]: "ascii (indent_line n)"
  by (simp add: indent_line_def) (simp add: ascii_def)

lemma dump_ascii:
  "clean v \<Longrightarrow> ascii (dump L n v)"
  "clean_list xs \<Longrightarrow> ascii (dump_list L n xs)"
  "clean_items d \<Longrightarrow> ascii (dump_items L n d)"
  by (induction v and xs and d arbitrary: n and n and n rule: clean_clean_list_clean_items.induct)
     (simp_all add: json_str_def json_chars_stay_ascii int_str_ascii)

lemma map_fst_sort_keys_items [simp]: "map fst (sort_keys_items d) = map fst d"
  by (induction d) auto

lemma distinct_sort_keys [simp]:
  "distinct (map fst (sort_key fst d)) = distinct (map fst d)"
  by (metis mset_map mset_sort mset_eq_imp_distinct_iff)

lemma clean_items_iff: "clean_items d \<longleftrightarrow> (\<forall>(k, v) \<in> set d. ascii k \<and> clean v)"
  by (induction d) auto

lemma clean_sort_keys [simp]:
  "clean v \<Longrightarrow> clean (sort_keys v)"
  "clean_list xs \<Longrightarrow> clean_list (sort_keys_list xs)"
  "clean_items d \<Longrightarrow> clean_items (sort_keys_items d)"
  by (induction v and xs and d rule: clean_clean_list_clean_items.induct)
     (simp_all, simp add: clean_items_iff)

lemma no_duplicates_distinct:
  "distinct (map fst (acc @ d)) \<Longrightarrow> no_duplicates acc d = Inr (acc @ d)"
proof (induction d arbitrary: acc)
  case (Cons kv d)
  then show ?case by (cases kv) (auto simp: dhas_def)
qed simp

lemma keeps_distinct_strict: "keeps_distinct strict_opts"
  unfolding keeps_distinct_def strict_opts_def
  using no_duplicates_distinct [of "[]"] by simp

lemma parse_json_dump:
  assumes "clean v"
  shows "parse_json L (rc_json_bytes L v) = Inr (sort_keys v)"
proof -
  let ?s = "rc_json_bytes L v"
  have c: "clean (sort_keys v)" using assms by simp
  have a: "ascii ?s" using dump_ascii(1) [OF c] by (simp add: rc_json_bytes_def)
  then have b: "\<not> prefix BOM ?s"
    by (cases ?s) (auto simp: BOM_def)
  have "skip_ws ?s = ?s" using skip_ws_dump [OF c] by (simp add: rc_json_bytes_def)
  moreover have "raw_decode L strict_opts ?s = Inr (sort_keys v, [CHR 0x0A])"
    unfolding rc_json_bytes_def
    by (rule raw_decode_dump(1) [OF c keeps_distinct_strict]) (simp add: stops_def is_digit_def)
  ultimately have "loads_text L strict_opts ?s = Inr (sort_keys v)"
    by (simp add: loads_text_def)
  with a b show ?thesis by (simp add: parse_json_def loads_bytes_def utf8_ok_ascii)
qed

text \<open>C7: what \<open>release_control.json_bytes\<close> writes, \<open>parse_json\<close> reads back: the value with its
  dictionary keys in sorted order, for every value without floats over ASCII text with distinct keys.\<close>

theorem parse_json_bytes:
  assumes "clean v"
  shows "parse_json L (rc_json_bytes L v) = Inr (sort_keys v)"
  using assms by (rule parse_json_dump)

theorem parse_json_bytes_witness:
  "parse_json demo_lib (rc_json_bytes demo_lib
      (PDict [(''b'', PInt (- 12)), (''a'', PList [PStr [CHR 0x0A, CHR 0x22], PNone])])) =
     Inr (PDict [(''a'', PList [PStr [CHR 0x0A, CHR 0x22], PNone]), (''b'', PInt (- 12))])"
proof -
  let ?v = "PDict [(''b'', PInt (- 12)), (''a'', PList [PStr [CHR 0x0A, CHR 0x22], PNone])]"
  have "clean ?v" by (simp add: small_int_def nat_str.simps)
  moreover have "sort_keys ?v = PDict [(''a'', PList [PStr [CHR 0x0A, CHR 0x22], PNone]), (''b'', PInt (- 12))]"
    by code_simp
  ultimately show ?thesis using parse_json_bytes [of ?v demo_lib] by simp
qed

end
