(* ===== verification/VersionPlan.thy ===== *)
theory VersionPlan
  imports CanonicalJson
begin

text \<open>
  \<open>scripts/version_plan.py\<close>, the pure part: version identities, the owned-version policy, the
  frozen release plan, its digest and its projections into package and platform versions.
  Definitions follow the order of the file. Policies and declarations are Python values; a
  validated plan is the record \<open>plan\<close>, whose dictionary is \<open>plan_json\<close>. Parts of an error
  message that Python interpolates are left out of the message.
\<close>

section \<open>Patterns and constants\<close>

definition require :: "bool \<Rightarrow> string \<Rightarrow> unit result" where
  "require condition message = ensure condition (VersionError message)"

definition BASE :: rx where
  "BASE = SeqOf [numeral_rx, Lit (CHR ''.''), numeral_rx, Lit (CHR ''.''), numeral_rx]"

definition SHA :: rx where
  "SHA = Rep 40 (Cls is_hex)"

definition SHA256_HEX :: rx where
  "SHA256_HEX = Rep 64 (Cls is_hex)"

definition NIGHTLY :: rx where
  "NIGHTLY = SeqOf [Rep 14 (Cls is_digit), Lit (CHR ''.''), positive_numeral,
     Lit (CHR ''.''), positive_numeral]"

definition FORMATS :: "string list" where
  "FORMATS = [''json'', ''toml'', ''cargo-lock'', ''uv-lock'', ''npm-lock'', ''text'',
     ''python'', ''plist'', ''pbxproj'']"

definition VALUES :: "string list" where
  "VALUES = [''base'', ''full'', ''package'', ''build'', ''apple-build'']"

definition ARTIFACT_FORMATS :: "string list" where
  "ARTIFACT_FORMATS = [''oci'', ''json'', ''wheel'', ''sdist'', ''npm-tar'', ''ipa'', ''plist'',
     ''tar-text'', ''tar-toml'', ''tar-json'', ''zip-json'']"

definition CHANNELS :: "string list" where
  "CHANNELS = [''nightly'', ''beta'', ''rc'', ''stable'']"

definition PROMOTIONS :: "string list" where
  "PROMOTIONS = [''promote-bytes'', ''final-build'']"

definition digest :: "pylib \<Rightarrow> string \<Rightarrow> string" where
  "digest L value = sha256 L value"

definition policy_digest :: "pylib \<Rightarrow> pyval \<Rightarrow> string result" where
  "policy_digest L policy = rbind (json_bytes L policy) (\<lambda>b. Inr (digest L b))"

section \<open>Declarations\<close>

definition as_str :: "pyval \<Rightarrow> string" where
  "as_str v = (case v of PStr s \<Rightarrow> s | _ \<Rightarrow> [])"

definition field_of :: "pyval \<Rightarrow> string list result" where
  "field_of value =
     (case value of
        PStr s \<Rightarrow>
          (let result = split_on (CHR ''.'') s in
           rbind (require (\<forall>part \<in> set result. part \<noteq> [])
             ''Dotted fields cannot contain empty segments; use a string array'') (\<lambda>_.
           Inr result))
      | PList items \<Rightarrow>
          rbind (require (items \<noteq> [] \<and> (\<forall>item \<in> set items. is_str item))
            ''Field must be a dotted string or a nonempty string array'') (\<lambda>_.
          Inr (map as_str items))
      | _ \<Rightarrow> Inl (VersionError ''Field must be a dotted string or a nonempty string array''))"

text \<open>The returned list is the path's components.\<close>

definition relative :: "pyval \<Rightarrow> string list result" where
  "relative value =
     (case value of
        PStr s \<Rightarrow>
          rbind (require (s \<noteq> [] \<and> CHR 0x5C \<notin> set s \<and> CHR 0x00 \<notin> set s)
            ''Path must be a relative POSIX path'') (\<lambda>_.
          rbind (require (\<not> prefix ''/'' s
              \<and> (\<forall>part \<in> set (split_on (CHR ''/'') s). part \<notin> {'''', ''.'', ''..'', ''.git''}))
            ''Unsafe version path'') (\<lambda>_.
          Inr (split_on (CHR ''/'') s)))
      | _ \<Rightarrow> Inl (VersionError ''Path must be a relative POSIX path''))"

definition single_line :: "string \<Rightarrow> bool" where
  "single_line s \<longleftrightarrow> CHR 0x0D \<notin> set s \<and> CHR 0x0A \<notin> set s \<and> CHR 0x00 \<notin> set s"

definition artifact_declaration :: "(string \<times> pyval) list \<Rightarrow> unit result" where
  "artifact_declaration item =
     rbind (ditem item ''format'') (\<lambda>kind.
     rbind (require (kind = PStr ''oci'' \<longrightarrow> dhas item ''field'' \<and> \<not> dhas item ''package'')
       ''OCI artifact requires an exact config field and no package selector'') (\<lambda>_.
     rbind
       (if kind \<in> PStr ` {''tar-text'', ''tar-toml'', ''tar-json'', ''zip-json''}
        then rbind (require (dhas item ''member'')
               ''Archive field verification requires an exact member'') (\<lambda>_.
             rbind (relative (dget item ''member'' PNone)) (\<lambda>_. Inr ()))
        else require (\<not> dhas item ''member'') ''format does not accept member'') (\<lambda>_.
     require (kind = PStr ''tar-text'' \<longrightarrow> \<not> dhas item ''field'' \<and> \<not> dhas item ''package'')
       ''Text artifact has no field or package selector'')))"

definition input_declaration :: "(string \<times> pyval) list \<Rightarrow> unit result" where
  "input_declaration item =
     rbind (ditem item ''format'') (\<lambda>kind.
     rbind (require (kind \<in> PStr ` {''json'', ''toml'', ''python'', ''plist'', ''pbxproj''}
         \<longrightarrow> dhas item ''field'') ''format requires an explicit field'') (\<lambda>_.
     rbind (require (kind \<in> PStr ` {''cargo-lock'', ''uv-lock'', ''npm-lock'', ''pbxproj''}
         \<longrightarrow> dhas item ''package'') ''format requires an explicit owned package selector'') (\<lambda>_.
     rbind (require (kind \<in> PStr ` {''text'', ''cargo-lock'', ''uv-lock'', ''npm-lock''}
         \<longrightarrow> \<not> dhas item ''field'') ''format does not accept field'') (\<lambda>_.
     require (kind \<in> PStr ` {''text'', ''python'', ''plist''} \<longrightarrow> \<not> dhas item ''package'')
       ''format does not accept package''))))"

definition check_declaration :: "bool \<Rightarrow> pyval \<Rightarrow> (string \<times> pyval) list result" where
  "check_declaration artifact v =
     rbind (dict_of v ''Version declarations must be objects'') (\<lambda>item.
     rbind (require (\<forall>k \<in> fst ` set item. k \<in> {''path'', ''format'', ''field'', ''package'',
           ''value'', ''prefix'', ''ecosystem''} \<or> (artifact \<and> k = ''member''))
       ''Unsupported version declaration fields'') (\<lambda>_.
     rbind (in_strs (dget item ''format'' PNone) (if artifact then ARTIFACT_FORMATS else FORMATS)) (\<lambda>ok.
     rbind (require ok ''Unsupported version format'') (\<lambda>_.
     rbind (if dhas item ''path'' then rbind (relative (dget item ''path'' PNone)) (\<lambda>_. Inr ())
            else require artifact ''Version input requires path'') (\<lambda>_.
     rbind (in_strs (dget item ''value'' (PStr ''package'')) VALUES) (\<lambda>ok.
     rbind (require ok ''Unsupported version projection'') (\<lambda>_.
     rbind (in_strs (dget item ''ecosystem'' (PStr ''semver'')) [''semver'', ''pep440'']) (\<lambda>ok.
     rbind (require ok ''Unsupported package version ecosystem'') (\<lambda>_.
     rbind (require (case dget item ''prefix'' (PStr '''') of PStr s \<Rightarrow> single_line s | _ \<Rightarrow> False)
       ''Invalid version prefix'') (\<lambda>_.
     rbind (if dhas item ''field'' then rbind (field_of (dget item ''field'' PNone)) (\<lambda>_. Inr ())
            else Inr ()) (\<lambda>_.
     rbind (require (dhas item ''package'' \<longrightarrow>
         (case dget item ''package'' PNone of PStr s \<Rightarrow> s \<noteq> [] \<and> single_line s | _ \<Rightarrow> False))
       ''Invalid owned package selector'') (\<lambda>_.
     rbind (if artifact then artifact_declaration item else input_declaration item) (\<lambda>_.
     Inr item)))))))))))))"

section \<open>Policy\<close>

definition receipt_name :: rx where
  "receipt_name = SeqOf [Word ''release-inputs-'',
     Plus (Cls (\<lambda>c. is_upper c \<or> is_lower c \<or> is_digit c \<or> c \<in> {CHR ''.'', CHR ''_'', CHR ''-''})),
     Word ''.json'']"

definition required_build_receipts :: "(string \<times> pyval) list \<Rightarrow> string list option result" where
  "required_build_receipts config =
     (case map_of config ''required_build_receipts'' of
        None \<Rightarrow> Inr None
      | Some (PList names) \<Rightarrow>
          rbind (require (names \<noteq> [] \<and> (\<forall>name \<in> set names.
              case name of PStr s \<Rightarrow> fullmatch receipt_name s \<and> s \<noteq> ''release-inputs-fuzz.json''
                         | _ \<Rightarrow> False))
            ''required_build_receipts must be nonempty ASCII package receipt filenames'') (\<lambda>_.
          rbind (require (distinct (map as_str names))
            ''required_build_receipts contains duplicate filenames'') (\<lambda>_.
          Inr (Some (map as_str names))))
      | Some _ \<Rightarrow>
          Inl (VersionError
            ''required_build_receipts must be nonempty ASCII package receipt filenames''))"

type_synonym selector = "string \<times> string \<times> string list \<times> string option"

definition selector_of :: "(string \<times> pyval) list \<Rightarrow> selector result" where
  "selector_of item =
     rbind (if dhas item ''field'' then field_of (dget item ''field'' PNone) else Inr []) (\<lambda>field.
     Inr (as_str (dget item ''path'' PNone), as_str (dget item ''format'' PNone), field,
          map_option as_str (map_of item ''package'')))"

fun check_files :: "selector list \<Rightarrow> pyval list \<Rightarrow> (string \<times> pyval) list list result" where
  "check_files selectors [] = Inr []"
| "check_files selectors (v # vs) =
     rbind (check_declaration False v) (\<lambda>item.
     rbind (selector_of item) (\<lambda>selector.
     rbind (require (selector \<notin> set selectors) ''Duplicate version selector'') (\<lambda>_.
     rbind (check_files (selector # selectors) vs) (\<lambda>items.
     Inr (item # items)))))"

text \<open>The validated \<open>versioning\<close> section, as the rest of the module reads it.\<close>

record config =
  cfg_promotion :: string
  cfg_floor :: "int option"
  cfg_files :: "(string \<times> pyval) list list"
  cfg_artifacts :: "(string \<times> pyval) list list"
  cfg_receipts :: "string list option"

definition validate_policy :: "pyval \<Rightarrow> config result" where
  "validate_policy policy =
     rbind (dict_of policy ''Policy must be an object'') (\<lambda>p.
     rbind (dict_of (dget p ''versioning'' PNone) ''Policy requires versioning'') (\<lambda>config.
     rbind (require (\<forall>k \<in> fst ` set config. k \<in> {''schema'', ''promotion'', ''files'', ''artifacts'',
         ''required_build_receipts'', ''build_number_floor'', ''toolkit_revision''})
       ''Unsupported versioning fields'') (\<lambda>_.
     rbind (require (dget config ''schema'' PNone = PInt 1) ''Unsupported versioning schema'') (\<lambda>_.
     rbind (in_strs (dget config ''promotion'' PNone) PROMOTIONS) (\<lambda>ok.
     rbind (require ok ''Unsupported promotion profile'') (\<lambda>_.
     rbind (require (case map_of config ''build_number_floor'' of None \<Rightarrow> True
           | Some (PInt n) \<Rightarrow> 0 \<le> n \<and> n < 2100000000 | Some _ \<Rightarrow> False)
       ''Native build number floor must be an integer in 0..2099999999'') (\<lambda>_.
     rbind (require (case dget config ''files'' PNone of PList xs \<Rightarrow> xs \<noteq> [] | _ \<Rightarrow> False)
       ''Policy requires explicit version files'') (\<lambda>_.
     rbind (required_build_receipts config) (\<lambda>receipts.
     rbind (check_files [] (case dget config ''files'' PNone of PList xs \<Rightarrow> xs | _ \<Rightarrow> [])) (\<lambda>files.
     rbind (case dget config ''artifacts'' (PList []) of PList xs \<Rightarrow> Inr xs
            | _ \<Rightarrow> Inl (VersionError ''Artifact declarations must be an array'')) (\<lambda>artifacts.
     rbind (rmap (check_declaration True) artifacts) (\<lambda>artifacts.
     rbind (require (case map_of config ''toolkit_revision'' of None \<Rightarrow> True
           | Some (PStr s) \<Rightarrow> fullmatch SHA s | Some _ \<Rightarrow> False)
       ''Toolkit revision must be a pinned SHA'') (\<lambda>_.
     Inr \<lparr>cfg_promotion = as_str (dget config ''promotion'' PNone),
          cfg_floor = (case map_of config ''build_number_floor'' of Some (PInt n) \<Rightarrow> Some n | _ \<Rightarrow> None),
          cfg_files = files, cfg_artifacts = artifacts, cfg_receipts = receipts\<rparr>)))))))))))))"

section \<open>Identity\<close>

text \<open>\<open>datetime.strptime(stamp, "%Y%m%d%H%M%S")\<close> on fourteen digits.\<close>

definition leap_year :: "nat \<Rightarrow> bool" where
  "leap_year y \<longleftrightarrow> (4 dvd y \<and> \<not> 100 dvd y) \<or> 400 dvd y"

definition days_in_month :: "nat \<Rightarrow> nat \<Rightarrow> nat" where
  "days_in_month y m =
     (if m = 2 then (if leap_year y then 29 else 28)
      else if m \<in> {4, 6, 9, 11} then 30 else 31)"

definition utc_stamp :: "string \<Rightarrow> bool" where
  "utc_stamp s \<longleftrightarrow>
     (let y = dec_val (take 4 s); m = dec_val (take 2 (drop 4 s)); d = dec_val (take 2 (drop 6 s));
          h = dec_val (take 2 (drop 8 s)); mi = dec_val (take 2 (drop 10 s));
          sec = dec_val (take 2 (drop 12 s))
      in 1 \<le> y \<and> 1 \<le> m \<and> m \<le> 12 \<and> 1 \<le> d \<and> d \<le> days_in_month y m \<and> h \<le> 23 \<and> mi \<le> 59 \<and> sec \<le> 59)"

datatype seq = NoSeq | SeqNum int | SeqStamp string

fun seq_val :: "seq \<Rightarrow> pyval" where
  "seq_val NoSeq = PNone"
| "seq_val (SeqNum n) = PInt n"
| "seq_val (SeqStamp s) = PStr s"

definition identity_of :: "pyval \<Rightarrow> pyval \<Rightarrow> pyval \<Rightarrow> string result" where
  "identity_of base channel sequence =
     rbind (require (case base of PStr b \<Rightarrow> fullmatch BASE b | _ \<Rightarrow> False)
       ''Base version must be strict X.Y.Z without prefix or suffix'') (\<lambda>_.
     rbind (in_strs channel CHANNELS) (\<lambda>ok.
     rbind (require ok ''Unsupported release channel'') (\<lambda>_.
     let b = as_str base; c = as_str channel in
     if c = ''stable'' then
       rbind (require (sequence = PNone) ''Stable must not have a sequence'') (\<lambda>_. Inr b)
     else if c = ''nightly'' then
       rbind (require (case sequence of PStr s \<Rightarrow> fullmatch NIGHTLY s | _ \<Rightarrow> False)
         ''Nightly requires frozen UTCtimestamp.run.attempt suffix'') (\<lambda>_.
       rbind (require (utc_stamp (hd (split_on (CHR ''.'') (as_str sequence))))
         ''Invalid nightly UTC timestamp'') (\<lambda>_.
       Inr (b @ ''-'' @ c @ ''.'' @ as_str sequence)))
     else
       (case sequence of
          PInt n \<Rightarrow>
            rbind (require (n > 0) ''Beta/RC sequence must be a positive integer'') (\<lambda>_.
            Inr (b @ ''-'' @ c @ ''.'' @ int_str n))
        | _ \<Rightarrow> Inl (VersionError ''Beta/RC sequence must be a positive integer'')))))"

section \<open>Projections\<close>

record plan =
  schema_version :: int
  base_version :: string
  version :: string
  channel :: string
  sequence :: seq
  tag :: string
  source_sha :: string
  build_number :: "int option"
  policy_sha256 :: string
  promotion :: string

definition build_val :: "int option \<Rightarrow> pyval" where
  "build_val b = (case b of None \<Rightarrow> PNone | Some n \<Rightarrow> PInt n)"

definition plan_items :: "plan \<Rightarrow> (string \<times> pyval) list" where
  "plan_items p =
     [(''schema_version'', PInt (schema_version p)),
      (''base_version'', PStr (base_version p)),
      (''version'', PStr (version p)),
      (''channel'', PStr (channel p)),
      (''sequence'', seq_val (sequence p)),
      (''tag'', PStr (tag p)),
      (''source_sha'', PStr (source_sha p)),
      (''build_number'', build_val (build_number p)),
      (''policy_sha256'', PStr (policy_sha256 p)),
      (''promotion'', PStr (promotion p))]"

definition plan_json :: "plan \<Rightarrow> pyval" where
  "plan_json p = PDict (plan_items p)"

record projection =
  prj_base :: string
  prj_full :: string
  prj_package :: string
  prj_build :: "int option"
  prj_apple :: "string option"

definition nightly_package :: "string \<Rightarrow> string \<Rightarrow> string result" where
  "nightly_package base stamp =
     (case split_on (CHR ''.'') stamp of
        [_, run, attempt] \<Rightarrow>
          (let number = int (dec_val run) * 1000000 + int (dec_val attempt) in
           rbind (require (int (dec_val attempt) < 1000000 \<and> number \<le> 2 ^ 64 - 2)
             ''Nightly run or attempt is too large for PEP 440 projection'') (\<lambda>_.
           Inr (base @ ''.dev'' @ int_str number)))
      | _ \<Rightarrow> Inl (ValueError ''not enough values to unpack''))"

definition seq_str :: "seq \<Rightarrow> string" where
  "seq_str s = (case s of SeqNum n \<Rightarrow> int_str n | SeqStamp t \<Rightarrow> t | NoSeq \<Rightarrow> ''None'')"

definition package_version :: "plan \<Rightarrow> string \<Rightarrow> string result" where
  "package_version plan ecosystem =
     (if channel plan = ''rc'' \<and> promotion plan = ''promote-bytes'' then Inr (base_version plan)
      else if ecosystem = ''pep440'' then
        (if channel plan = ''beta'' then Inr (base_version plan @ ''b'' @ seq_str (sequence plan))
         else if channel plan = ''rc'' then Inr (base_version plan @ ''rc'' @ seq_str (sequence plan))
         else if channel plan = ''nightly''
         then (case sequence plan of SeqStamp s \<Rightarrow> nightly_package (base_version plan) s
               | _ \<Rightarrow> Inl (AttributeError ''split''))
         else Inr (version plan))
      else Inr (version plan))"

definition apple_build :: "int option \<Rightarrow> string option" where
  "apple_build build =
     (case build of
        None \<Rightarrow> None
      | Some b \<Rightarrow>
          if 0 < b \<and> b \<le> 99990000 then
            (let n = b - 1 in
             Some (int_str (n div 10000 + 1) @ ''.'' @ int_str (n div 100 mod 100) @ ''.''
               @ int_str (n mod 100)))
          else None)"

definition projections :: "plan \<Rightarrow> pyval \<Rightarrow> projection result" where
  "projections plan ecosystem =
     rbind (in_strs ecosystem [''semver'', ''pep440'']) (\<lambda>ok.
     rbind (require ok ''Unsupported package ecosystem'') (\<lambda>_.
     rbind (package_version plan (as_str ecosystem)) (\<lambda>package.
     Inr \<lparr>prj_base = base_version plan, prj_full = version plan, prj_package = package,
          prj_build = build_number plan, prj_apple = apple_build (build_number plan)\<rparr>)))"

definition projection_item :: "projection \<Rightarrow> pyval \<Rightarrow> pyval result" where
  "projection_item r kind =
     (if kind = PStr ''base'' then Inr (PStr (prj_base r))
      else if kind = PStr ''full'' then Inr (PStr (prj_full r))
      else if kind = PStr ''package'' then Inr (PStr (prj_package r))
      else if kind = PStr ''build'' then Inr (build_val (prj_build r))
      else if kind = PStr ''apple-build''
      then Inr (case prj_apple r of None \<Rightarrow> PNone | Some s \<Rightarrow> PStr s)
      else if hashable kind then Inl (KeyError ''projection'')
      else Inl (TypeError ''unhashable type''))"

definition projected_value :: "plan \<Rightarrow> (string \<times> pyval) list \<Rightarrow> pyval result" where
  "projected_value plan item =
     rbind (projections plan (dget item ''ecosystem'' (PStr ''semver''))) (\<lambda>r.
     rbind (projection_item r (dget item ''value'' (PStr ''package''))) (\<lambda>result.
     rbind (require (result \<noteq> PNone)
       ''Projection requires a valid allocated native build number'') (\<lambda>_.
     let prefix = dget item ''prefix'' (PStr []) in
     if truthy prefix then
       (case prefix of
          PStr q \<Rightarrow> Inr (PStr (q @ (case result of PStr s \<Rightarrow> s | PInt n \<Rightarrow> int_str n | _ \<Rightarrow> [])))
        | _ \<Rightarrow> Inl (TypeError ''unsupported operand''))
     else Inr result)))"

section \<open>Plans\<close>

definition build_ok :: "int option \<Rightarrow> bool" where
  "build_ok b = (case b of None \<Rightarrow> True | Some n \<Rightarrow> 0 < n \<and> n \<le> 2100000000)"

definition above_floor :: "int option \<Rightarrow> config \<Rightarrow> bool" where
  "above_floor b config =
     (case b of None \<Rightarrow> True
      | Some n \<Rightarrow> n > (case cfg_floor config of None \<Rightarrow> 0 | Some f \<Rightarrow> f))"

definition create_plan ::
  "pylib \<Rightarrow> string \<Rightarrow> string \<Rightarrow> seq \<Rightarrow> string \<Rightarrow> pyval \<Rightarrow> int option \<Rightarrow> plan result" where
  "create_plan L base chan sq sha policy build =
     rbind (validate_policy policy) (\<lambda>config.
     rbind (identity_of (PStr base) (PStr chan) (seq_val sq)) (\<lambda>ver.
     rbind (require (fullmatch SHA sha) ''Source SHA must be a full lowercase commit SHA'') (\<lambda>_.
     rbind (require (build_ok build)
       ''Build number must be a positive integer no greater than 2100000000'') (\<lambda>_.
     rbind (require (above_floor build config)
       ''Build number must exceed the declared migration floor'') (\<lambda>_.
     rbind (policy_digest L policy) (\<lambda>pd.
     let plan = \<lparr>schema_version = 1, base_version = base, version = ver, channel = chan,
           sequence = sq, tag = ''v'' @ ver, source_sha = sha,
           build_number = build, policy_sha256 = pd, promotion = cfg_promotion config\<rparr> in
     rbind (riter (\<lambda>item. rbind (projected_value plan item) (\<lambda>_. Inr ())) (cfg_files config)) (\<lambda>_.
     Inr plan)))))))"

definition as_seq :: "pyval \<Rightarrow> seq" where
  "as_seq v = (case v of PInt n \<Rightarrow> SeqNum n | PStr s \<Rightarrow> SeqStamp s | _ \<Rightarrow> NoSeq)"

definition as_build :: "pyval \<Rightarrow> int option" where
  "as_build v = (case v of PInt n \<Rightarrow> Some n | _ \<Rightarrow> None)"

text \<open>The typed view of a dictionary whose fields have passed every check below.\<close>

definition plan_of :: "(string \<times> pyval) list \<Rightarrow> plan" where
  "plan_of d =
     \<lparr>schema_version = 1, base_version = as_str (dget d ''base_version'' PNone),
      version = as_str (dget d ''version'' PNone), channel = as_str (dget d ''channel'' PNone),
      sequence = as_seq (dget d ''sequence'' PNone), tag = as_str (dget d ''tag'' PNone),
      source_sha = as_str (dget d ''source_sha'' PNone),
      build_number = as_build (dget d ''build_number'' PNone),
      policy_sha256 = as_str (dget d ''policy_sha256'' PNone),
      promotion = as_str (dget d ''promotion'' PNone)\<rparr>"

definition plan_keys :: "string list" where
  "plan_keys = [''schema_version'', ''base_version'', ''version'', ''channel'', ''sequence'', ''tag'',
     ''source_sha'', ''build_number'', ''policy_sha256'', ''promotion'']"

definition validate_plan_fields :: "pyval \<Rightarrow> plan result" where
  "validate_plan_fields v =
     rbind (dict_of v ''Release plan must be an object'') (\<lambda>d.
     rbind (require (fst ` set d = set plan_keys) ''Unexpected or missing release-plan fields'') (\<lambda>_.
     rbind (require (dget d ''schema_version'' PNone = PInt 1) ''Unsupported release-plan schema'') (\<lambda>_.
     rbind (identity_of (dget d ''base_version'' PNone) (dget d ''channel'' PNone)
              (dget d ''sequence'' PNone)) (\<lambda>ver.
     rbind (require (dget d ''version'' PNone = PStr ver \<and> dget d ''tag'' PNone = PStr (''v'' @ ver))
       ''Release version/tag/sequence disagree'') (\<lambda>_.
     rbind (require (case dget d ''source_sha'' PNone of PStr s \<Rightarrow> fullmatch SHA s | _ \<Rightarrow> False)
       ''Invalid plan source SHA'') (\<lambda>_.
     rbind (require (case dget d ''policy_sha256'' PNone of PStr s \<Rightarrow> fullmatch SHA256_HEX s | _ \<Rightarrow> False)
       ''Invalid policy digest'') (\<lambda>_.
     rbind (in_strs (dget d ''promotion'' PNone) PROMOTIONS) (\<lambda>ok.
     rbind (require ok ''Invalid plan promotion profile'') (\<lambda>_.
     rbind (require (case dget d ''build_number'' PNone of PNone \<Rightarrow> True
           | PInt n \<Rightarrow> 0 < n \<and> n \<le> 2100000000 | _ \<Rightarrow> False) ''Invalid native build number'') (\<lambda>_.
     Inr (plan_of d)))))))))))"

definition check_plan_policy :: "pylib \<Rightarrow> plan \<Rightarrow> pyval \<Rightarrow> unit result" where
  "check_plan_policy L plan policy =
     rbind (validate_policy policy) (\<lambda>config.
     rbind (policy_digest L policy) (\<lambda>pd.
     rbind (require (policy_sha256 plan = pd) ''Release plan policy digest mismatch'') (\<lambda>_.
     rbind (require (promotion plan = cfg_promotion config) ''Release plan promotion policy mismatch'') (\<lambda>_.
     rbind (require (above_floor (build_number plan) config)
       ''Plan build number does not exceed the declared migration floor'') (\<lambda>_.
     riter (\<lambda>item. rbind (projected_value plan item) (\<lambda>_. Inr ())) (cfg_files config))))))"

definition validate_plan ::
  "pylib \<Rightarrow> pyval \<Rightarrow> pyval option \<Rightarrow> string option \<Rightarrow> plan result" where
  "validate_plan L v policy sha =
     rbind (validate_plan_fields v) (\<lambda>plan.
     rbind (case policy of None \<Rightarrow> Inr () | Some pol \<Rightarrow> check_plan_policy L plan pol) (\<lambda>_.
     rbind (case sha of None \<Rightarrow> Inr ()
            | Some s \<Rightarrow> require (source_sha plan = s) ''Release plan source SHA mismatch'') (\<lambda>_.
     Inr plan)))"

definition plan_digest :: "pylib \<Rightarrow> pyval \<Rightarrow> string result" where
  "plan_digest L v =
     rbind (validate_plan L v None None) (\<lambda>_.
     rbind (json_bytes L v) (\<lambda>b. Inr (digest L b)))"

fun effective_entries :: "string list \<Rightarrow> pyval list \<Rightarrow> (string \<times> string) list result" where
  "effective_entries seen [] = Inr []"
| "effective_entries seen (item # items) =
     rbind (pitem item ''path'') (\<lambda>path.
     rbind (relative path) (\<lambda>_.
     rbind (require (as_str path \<notin> set seen) ''Duplicate effective input path'') (\<lambda>_.
     rbind (pitem item ''after_sha256'') (\<lambda>after.
     rbind (case after of PStr s \<Rightarrow> require (fullmatch SHA256_HEX s) ''Invalid effective input digest''
            | _ \<Rightarrow> Inl (TypeError ''expected string or bytes-like object'')) (\<lambda>_.
     rbind (effective_entries (as_str path # seen) items) (\<lambda>rest.
     Inr ((as_str path, as_str after) # rest)))))))"

definition effective_inputs_digest :: "pylib \<Rightarrow> pyval list \<Rightarrow> string result" where
  "effective_inputs_digest L evidence =
     rbind (effective_entries [] evidence) (\<lambda>entries.
     rbind (json_bytes L (PList (map (\<lambda>(path, sha).
         PDict [(''path'', PStr path), (''sha256'', PStr sha)]) (sort_key fst entries)))) (\<lambda>b.
     Inr (digest L b)))"

end
