(* ===== verification/GitHubClient.thy ===== *)
theory GitHubClient
  imports JsonParse VersionPlan
begin

text \<open>
  The GitHub client of \<open>scripts/release_control.py\<close>: request validation against the allowlist of
  routes, the \<open>gh\<close> command line, the framing of HTTP responses, the retry rules of reads, and
  the typed errors. The \<open>gh\<close> executable and the clock are the parameter \<open>gh_env\<close>: what a
  subprocess answers depends on everything that happened before.
\<close>

section \<open>Checks and patterns\<close>

definition rc_require :: "bool \<Rightarrow> string \<Rightarrow> unit result" where
  "rc_require condition message = ensure condition (ReleaseError message)"

lemma rc_require_Inr_iff [simp]: "rc_require c m = Inr u \<longleftrightarrow> c"
  by (simp add: rc_require_def)

lemma rc_require_True [simp]: "rc_require True m = Inr ()"
  by (simp add: rc_require_def)

lemma rc_require_False [simp]: "rc_require False m = Inl (ReleaseError m)"
  by (simp add: rc_require_def)

definition TAG_RE :: rx where
  "TAG_RE = SeqOf [Lit (CHR ''v''), BASE,
     Opt (AnyOf [SeqOf [Lit (CHR ''-''), AnyOf [Word ''beta'', Word ''rc''], Lit (CHR ''.''), positive_numeral],
       SeqOf [Word ''-nightly.'', NIGHTLY]])]"

definition ref_segment :: rx where
  "ref_segment = Plus (AnyOf [Cls (\<lambda>c. is_upper c \<or> is_lower c \<or> is_digit c
       \<or> c \<in> {CHR ''_'', CHR ''.'', CHR ''~'', CHR ''-''}),
     SeqOf [Lit (CHR ''%''), Rep 2 (Cls (\<lambda>c. is_digit c \<or> (65 \<le> (of_char c :: nat) \<and> (of_char c :: nat) \<le> 70)))]])"

definition API_PATHS :: "string \<Rightarrow> rx list option" where
  "API_PATHS method =
     (if method = ''GET'' then Some
       [AnyOf [Eps, Word ''tags'', Word ''releases'', Word ''environments/release''],
        SeqOf [Word ''releases/'', AnyOf [SeqOf [positive_numeral, Opt (Word ''/assets'')],
          SeqOf [Word ''assets/'', positive_numeral]]],
        SeqOf [Word ''releases/tags/'', TAG_RE],
        SeqOf [Word ''git/ref/tags/'', TAG_RE],
        SeqOf [Word ''actions/runs/'', positive_numeral, Opt (AnyOf [Word ''/artifacts'',
          SeqOf [Word ''/attempts/'', positive_numeral, Word ''/jobs'']])],
        SeqOf [Word ''actions/runs/'', positive_numeral, Word ''/attempts/'', positive_numeral],
        SeqOf [Word ''actions/artifacts/'', positive_numeral, Word ''/zip''],
        SeqOf [Word ''contents/.release-policy.json?ref='', SHA],
        SeqOf [Word ''contents/CHANGELOG.md?ref='', SHA],
        SeqOf [Word ''contents/.github?ref='', SHA],
        Word ''contents/release-version-state.json?ref=release-version-state'',
        Word ''git/ref/heads/release-version-state'',
        SeqOf [Word ''git/ref/heads/'', ref_segment],
        SeqOf [Word ''actions/workflows/release-pipeline.yml/runs?branch='', ref_segment,
          Word ''&event=push&head_sha='', SHA, Word ''&per_page=100''],
        SeqOf [Word ''compare/'', SHA, Word ''...'', ref_segment]]
      else if method = ''POST'' then Some [AnyOf [Word ''git/refs'', Word ''releases'']]
      else if method = ''PATCH'' then Some [SeqOf [Word ''releases/'', positive_numeral]]
      else if method = ''PUT'' then Some [Word ''contents/release-version-state.json'']
      else None)"

definition NAME_RE :: rx where
  "NAME_RE = SeqOf [Cls (\<lambda>c. is_upper c \<or> is_lower c \<or> is_digit c),
     UpTo 199 (Cls (\<lambda>c. is_upper c \<or> is_lower c \<or> is_digit c
       \<or> c \<in> {CHR ''.'', CHR ''_'', CHR ''+'', CHR ''-''}))]"

definition REPO_RE :: rx where
  "REPO_RE =
     (let start = Cls (\<lambda>c. is_upper c \<or> is_lower c \<or> is_digit c);
          more = Star (Cls (\<lambda>c. is_upper c \<or> is_lower c \<or> is_digit c \<or> c \<in> {CHR ''_'', CHR ''.'', CHR ''-''}))
      in SeqOf [start, more, Lit (CHR ''/''), start, more])"

definition API_READ_ATTEMPTS :: nat where "API_READ_ATTEMPTS = 3"
definition API_READ_TIMEOUT :: int where "API_READ_TIMEOUT = 30"
definition API_BINARY_READ_TIMEOUT :: int where "API_BINARY_READ_TIMEOUT = 120"

definition rc_version :: "string \<Rightarrow> string result" where
  "rc_version value =
     rbind (rc_require (fullmatch BASE value) ''Version must be strict X.Y.Z without leading zeros'') (\<lambda>_.
     Inr value)"

text \<open>\<open>int\<close> and \<open>str\<close> refuse conversions of more than 4300 digits.\<close>

definition positive :: "pyval \<Rightarrow> int result" where
  "positive value =
     (case value of
        PStr s \<Rightarrow>
          rbind (rc_require (fullmatch positive_numeral s) ''Invalid identifier'') (\<lambda>_.
          if length s > 4300 then Inl (ValueError ''Exceeds the limit for integer string conversion'')
          else Inr (int (dec_val s)))
      | PInt i \<Rightarrow>
          if \<not> small_int i then Inl (ValueError ''Exceeds the limit for integer string conversion'')
          else rbind (rc_require (fullmatch positive_numeral (int_str i)) ''Invalid identifier'') (\<lambda>_. Inr i)
      | _ \<Rightarrow> Inl (ReleaseError ''Invalid identifier''))"

section \<open>HTTP framing\<close>

definition CR :: char where "CR = CHR 0x0D"
definition LF :: char where "LF = CHR 0x0A"

text \<open>\<open>bytes.splitlines\<close>: LF, CR and CR LF end a line; a final line break adds no empty line.\<close>

fun byte_lines :: "string \<Rightarrow> string \<Rightarrow> string list" where
  "byte_lines acc [] = (if acc = [] then [] else [rev acc])"
| "byte_lines acc [c] = (if c = LF \<or> c = CR then [rev acc] else [rev (c # acc)])"
| "byte_lines acc (c # d # s) =
     (if c = CR \<and> d = LF then rev acc # byte_lines [] s
      else if c = LF \<or> c = CR then rev acc # byte_lines [] (d # s)
      else byte_lines (c # acc) (d # s))"

definition line_break :: "string \<Rightarrow> string option" where
  "line_break s =
     (case s of
        c # r \<Rightarrow>
          if c = LF then Some r
          else if c = CR then (case r of d # r' \<Rightarrow> if d = LF then Some r' else None | [] \<Rightarrow> None)
          else None
      | [] \<Rightarrow> None)"

definition blank_line :: "string \<Rightarrow> string option" where
  "blank_line s = (case line_break s of Some r \<Rightarrow> line_break r | None \<Rightarrow> None)"

text \<open>The text before the first empty line, and the text after it.\<close>

fun split_head :: "string \<Rightarrow> (string \<times> string) option" where
  "split_head [] = None"
| "split_head (c # cs) =
     (case blank_line (c # cs) of
        Some r \<Rightarrow> Some ([], r)
      | None \<Rightarrow> (case split_head cs of Some (h, r) \<Rightarrow> Some (c # h, r) | None \<Rightarrow> None))"

definition not_eol :: "char \<Rightarrow> bool" where
  "not_eol c \<longleftrightarrow> c \<noteq> CR \<and> c \<noteq> LF"

definition http_version :: rx where
  "http_version = AnyOf [SeqOf [Word ''1.'', Cls (\<lambda>c. c \<in> {CHR ''0'', CHR ''1''})],
     SeqOf [Lit (CHR ''2''), Opt (Word ''.0'')]]"

definition status_line :: rx where
  "status_line = SeqOf [Word ''HTTP/'', http_version, Lit (CHR '' ''),
     Cls (\<lambda>c. 49 \<le> (of_char c :: nat) \<and> (of_char c :: nat) \<le> 53), Rep 2 (Cls is_digit),
     Opt (SeqOf [Lit (CHR '' ''), Star (Cls not_eol)])]"

definition header_line :: rx where
  "header_line = SeqOf [Plus (Cls (\<lambda>c. is_upper c \<or> is_lower c \<or> is_digit c
       \<or> c \<in> set ''!#$%&'' \<or> c = CHR 0x27 \<or> c \<in> set ''*+.^_`|~-'')), Lit (CHR '':''), Star (Cls not_eol)]"

definition status_number :: "string \<Rightarrow> nat" where
  "status_number line = dec_val (take 3 (tl (dropWhile (\<lambda>c. c \<noteq> CHR '' '') line)))"

definition github_error :: "string \<Rightarrow> pyerror" where
  "github_error message = GitHubError message False"

definition github_http_head :: "string \<Rightarrow> (nat \<times> string) result" where
  "github_http_head data =
     (case split_head data of
        None \<Rightarrow> Inl (github_error ''GitHub response headers are missing or truncated'')
      | Some (head, body) \<Rightarrow>
          (case byte_lines [] head of
             line # rest \<Rightarrow>
               if fullmatch status_line line \<and> (\<forall>h \<in> set rest. fullmatch header_line h)
               then Inr (status_number line, body)
               else Inl (github_error ''GitHub response headers are invalid'')
           | [] \<Rightarrow> Inl (github_error ''GitHub response headers are invalid'')))"

lemma line_break_length: "line_break s = Some r \<Longrightarrow> length r < length s"
  by (auto simp: line_break_def split: list.splits if_splits)

lemma blank_line_length: "blank_line s = Some r \<Longrightarrow> length r < length s"
  by (auto simp: blank_line_def split: option.splits dest!: line_break_length)

lemma split_head_length: "split_head s = Some (h, r) \<Longrightarrow> length r < length s"
  by (induction s arbitrary: h r) (auto split: option.splits dest!: blank_line_length)

lemma github_http_head_length: "github_http_head s = Inr (n, r) \<Longrightarrow> length r < length s"
  by (auto simp: github_http_head_def split: option.splits list.splits if_splits dest: split_head_length)

lemma raw_decode_length: "raw_decode L opts s = Inr (v, r) \<Longrightarrow> length r < length s"
  unfolding raw_decode_def by (rule scan_length)

definition success :: "nat \<Rightarrow> bool" where
  "success status \<longleftrightarrow> 200 \<le> status \<and> status < 300"

text \<open>
  The page loop of \<open>github_http_response\<close>. The offset \<open>position\<close> is the remaining text. A page is
  located by \<open>raw_decode\<close> and then read again strictly.
\<close>

function http_pages :: "pylib \<Rightarrow> nat \<Rightarrow> string \<Rightarrow> pyval list \<Rightarrow> (nat \<times> string) result" where
  "http_pages L status s pages =
     (if \<not> success status then Inr (status, [])
      else
        let s1 = skip_ws s in
        case raw_decode L plain_opts s1 of
          Inl e \<Rightarrow> Inl (github_error ''GitHub response page is invalid or truncated'')
        | Inr (_, s2) \<Rightarrow>
            (case parse_json L (take (length s1 - length s2) s1) of
               Inl e \<Rightarrow> Inl (github_error ''GitHub response page is invalid or truncated'')
             | Inr page \<Rightarrow>
                 let s3 = skip_ws s2 in
                 if s3 = [] then Inr (status, rc_json_bytes L (PList (pages @ [page])))
                 else
                   (case github_http_head s3 of
                      Inl e \<Rightarrow> Inl e
                    | Inr (status', s4) \<Rightarrow> http_pages L status' s4 (pages @ [page]))))"
  by pat_completeness auto
termination
proof (relation "measure (\<lambda>(L, status, s, pages). length s)", goal_cases)
  case 1
  then show ?case by simp
next
  case (2 L status s pages s1 v v' s2 page s3 h status' s4)
  have "length s4 < length s3" using 2 github_http_head_length by blast
  moreover have "length s2 < length s1" using 2 raw_decode_length by blast
  moreover have "length s3 \<le> length s2" "length s1 \<le> length s" using 2 skip_ws_length by blast+
  ultimately show ?case by simp
qed

definition github_http_response :: "pylib \<Rightarrow> string \<Rightarrow> bool \<Rightarrow> (nat \<times> string) result" where
  "github_http_response L stdout paginated =
     rbind (github_http_head stdout) (\<lambda>(status, body).
     if paginated then http_pages L status body [] else Inr (status, body))"

section \<open>The \<open>gh\<close> process\<close>

record completed =
  returncode :: int
  stdout :: string
  stderr :: string

text \<open>How a subprocess call ends: it completes, it exceeds its time limit with partial output, or
  it cannot be started.\<close>

datatype outcome = Completed completed | TimeoutExpired string string | NotStarted

record call =
  argv :: "string list"
  stdin :: "string option"
  limit :: "int option"

text \<open>\<open>subprocess.run\<close> and the pause before retry number \<open>n\<close>.\<close>

record 'w gh_env =
  run :: "call \<Rightarrow> 'w \<Rightarrow> outcome \<times> 'w"
  pause :: "nat \<Rightarrow> 'w \<Rightarrow> 'w"

definition irun :: "'w gh_env \<Rightarrow> call \<Rightarrow> ('w, outcome) io" where
  "irun E c w =
     (case run E c w of
        (NotStarted, w') \<Rightarrow> (Inl (OSError ''gh''), w')
      | (r, w') \<Rightarrow> (Inr r, w'))"

section \<open>Responses\<close>

definition response :: "completed \<Rightarrow> (nat \<times> string) option \<Rightarrow> string result" where
  "response result http =
     (let status = map_option fst http;
          body = (case http of Some (_, b) \<Rightarrow> b | None \<Rightarrow> stdout result) in
      if (case status of Some s \<Rightarrow> (returncode result = 0) \<noteq> success s | None \<Rightarrow> False)
      then Inl (github_error ''GitHub HTTP status and CLI result disagree'')
      else if returncode result \<noteq> 0
      then Inl (GitHubError (strip (stderr result)) (status = Some 404))
      else Inr body)"

text \<open>\<open>re.search\<close>: the pattern matches somewhere.\<close>

definition search :: "rx \<Rightarrow> string \<Rightarrow> bool" where
  "search r s \<longleftrightarrow> fullmatch (SeqOf [Star (Cls (\<lambda>_. True)), r, Star (Cls (\<lambda>_. True))]) s"

definition contains_any :: "string list \<Rightarrow> string \<Rightarrow> bool" where
  "contains_any words s \<longleftrightarrow> (\<exists>w \<in> set words. sublist w s)"

text \<open>Patterns that end in \<open>(?:x|$)\<close> or start in \<open>(?:^|x)\<close> are matched on the text with an end
  marker that the class admits.\<close>

definition byte_space :: "char \<Rightarrow> bool" where
  "byte_space c \<longleftrightarrow> (of_char c :: nat) = 32 \<or> (9 \<le> (of_char c :: nat) \<and> (of_char c :: nat) \<le> 13)"

definition word_char :: "char \<Rightarrow> bool" where
  "word_char c \<longleftrightarrow> is_upper c \<or> is_lower c \<or> is_digit c \<or> c = CHR ''_''"

definition denied_status :: rx where
  "denied_status = AnyOf [Word ''401'', Word ''403'', Word ''404'', Word ''429'']"

definition denied_read_diagnostic :: "string \<Rightarrow> bool \<Rightarrow> bool" where
  "denied_read_diagnostic err include_status =
     (let s = lower err in
      contains_any [''authentication'', ''authenticate'', ''authorization'', ''unauthorised'',
        ''unauthorized'', ''credentials'', ''forbidden'', ''permission denied'', ''access denied'',
        ''rate limit'', ''not found'', ''x509'', ''certificate''] s
      \<or> (include_status \<and> search (SeqOf [Word ''http'',
           Star (Cls (\<lambda>c. c \<in> {CHR '' '', CHR ''/'', CHR '':''})), denied_status,
           Cls (\<lambda>c. \<not> is_digit c)]) (s @ [LF])))"

definition transient_read_failure :: "completed \<Rightarrow> bool" where
  "transient_read_failure result =
     (let s = lower (stderr result) in
      returncode result = 1 \<and> \<not> denied_read_diagnostic (stderr result) True
      \<and> (search (SeqOf [Cls (\<lambda>c. \<not> word_char c), Word ''eof'', Cls byte_space]) (LF # s @ [LF])
         \<or> contains_any [''connection reset by peer'', ''i/o timeout'', ''tls handshake timeout'',
              ''context deadline exceeded'', ''client.timeout exceeded'',
              ''server closed idle connection'', ''use of closed network connection''] s))"

definition denied_partial_read :: "string \<Rightarrow> string \<Rightarrow> bool \<Rightarrow> bool" where
  "denied_partial_read out err paginated =
     (let head = (case split_head out of Some (h, body) \<Rightarrow> take (length out - length body) out | None \<Rightarrow> out);
          out' = (if paginated then out
                  else case github_http_head head of Inr _ \<Rightarrow> head | Inl _ \<Rightarrow> out)
      in denied_read_diagnostic err True
         \<or> search (SeqOf [Lit LF, Word ''HTTP/'', http_version, Lit (CHR '' ''), denied_status,
              Cls byte_space]) (LF # out' @ [LF]))"

section \<open>Reads\<close>

text \<open>\<open>None\<close> means that another attempt is allowed.\<close>

definition completed_read :: "pylib \<Rightarrow> completed \<Rightarrow> bool \<Rightarrow> bool \<Rightarrow> string option result" where
  "completed_read L result paginated final_attempt =
     (let transport = transient_read_failure result in
      case github_http_response L (stdout result) paginated of
        Inl e \<Rightarrow>
          if \<not> transport \<or> denied_partial_read (stdout result) (stderr result) paginated \<or> final_attempt
          then Inl e else Inr None
      | Inr (status, body) \<Rightarrow>
          if returncode result = 1
             \<and> ((status \<in> {500, 502, 503, 504} \<and> \<not> denied_read_diagnostic (stderr result) False)
                \<or> (success status \<and> transport))
             \<and> \<not> final_attempt
          then Inr None
          else rbind (response result (Some (status, body))) (\<lambda>b. Inr (Some b)))"

text \<open>\<open>list.index\<close> on a value that is present.\<close>

definition after_flag :: "string \<Rightarrow> string list \<Rightarrow> string option" where
  "after_flag flag xs =
     (case dropWhile (\<lambda>x. x \<noteq> flag) xs of _ # y # _ \<Rightarrow> Some y | _ \<Rightarrow> None)"

definition read_only_command :: "string list \<Rightarrow> bool" where
  "read_only_command command \<longleftrightarrow>
     take 2 command = [''gh'', ''api''] \<and> count_list command ''--method'' = 1
     \<and> after_flag ''--method'' command = Some ''GET'' \<and> ''--input'' \<notin> set command"

text \<open>The loop over the attempts that are left; \<open>attempt\<close> counts from 0.\<close>

fun read_attempts ::
  "pylib \<Rightarrow> 'w gh_env \<Rightarrow> string list \<Rightarrow> bool \<Rightarrow> int \<Rightarrow> nat \<Rightarrow> nat \<Rightarrow> ('w, string) io" where
  "read_attempts L E command paginated timeout attempt 0 =
     ilift (Inl (ValueError ''GET retry loop must return or raise''))"
| "read_attempts L E command paginated timeout attempt (Suc left) =
     (let final_attempt = (left = 0);
          again = (\<lambda>w. read_attempts L E command paginated timeout (Suc attempt) left (pause E attempt w)) in
      ibind (irun E \<lparr>argv = command, stdin = None, limit = Some timeout\<rparr>) (\<lambda>r.
      case r of
        Completed result \<Rightarrow>
          ibind (ilift (completed_read L result paginated final_attempt)) (\<lambda>content.
          case content of Some c \<Rightarrow> ireturn c | None \<Rightarrow> again)
      | TimeoutExpired out err \<Rightarrow>
          if denied_partial_read out err paginated \<or> final_attempt
          then ilift (Inl (github_error ''read timed out''))
          else again
      | NotStarted \<Rightarrow> ilift (Inl (OSError ''gh''))))"

definition read_get :: "pylib \<Rightarrow> 'w gh_env \<Rightarrow> string list \<Rightarrow> bool \<Rightarrow> int \<Rightarrow> ('w, string) io" where
  "read_get L E command paginated timeout =
     ibind (ilift (rc_require (read_only_command command) ''Retries require a read-only GET'')) (\<lambda>_.
     read_attempts L E command paginated timeout 0 API_READ_ATTEMPTS)"

definition metadata_read :: "pylib \<Rightarrow> 'w gh_env \<Rightarrow> string list \<Rightarrow> bool \<Rightarrow> ('w, string) io" where
  "metadata_read L E command paginated = read_get L E command paginated API_READ_TIMEOUT"

section \<open>Requests\<close>

text \<open>\<open>urllib.parse.unquote\<close>.\<close>

fun unquote :: "string \<Rightarrow> string" where
  "unquote (c # a # b # s) =
     (if c = CHR ''%'' then
        (case (hex_value a, hex_value b) of
           (Some x, Some y) \<Rightarrow> char_of (x * 16 + y) # unquote s
         | _ \<Rightarrow> c # unquote (a # b # s))
      else c # unquote (a # b # s))"
| "unquote s = s"

definition traversal_free :: "string \<Rightarrow> bool" where
  "traversal_free path \<longleftrightarrow>
     (\<forall>part \<in> set (split_on (CHR ''/'') (unquote path)). part \<noteq> ''.'' \<and> part \<noteq> ''..'')"

type_synonym jobject = "(string \<times> pyval) list"

definition check_request :: "string \<Rightarrow> string \<Rightarrow> jobject option \<Rightarrow> string \<Rightarrow> unit result" where
  "check_request path method body mode =
     rbind (rc_require (API_PATHS method \<noteq> None) ''Unsupported API method'') (\<lambda>_.
     rbind (rc_require (\<exists>p \<in> set (case API_PATHS method of Some ps \<Rightarrow> ps | None \<Rightarrow> []). fullmatch p path)
       ''Unsupported API endpoint'') (\<lambda>_.
     rbind (rc_require (traversal_free path) ''API endpoint cannot traverse repository paths'') (\<lambda>_.
     rbind (rc_require ((method = ''GET'' \<and> body = None)
         \<or> (method \<in> {''POST'', ''PATCH'', ''PUT''} \<and> body \<noteq> None)) ''API body does not match its method'') (\<lambda>_.
     rbind (if method = ''PUT'' then
              (case body of
                 Some b \<Rightarrow> rc_require (dget b ''branch'' PNone = PStr ''release-version-state''
                   \<and> fst ` set b \<subseteq> {''branch'', ''content'', ''message'', ''sha''})
                   ''Ledger writes must target the dedicated state branch''
               | None \<Rightarrow> Inl (AttributeError ''get''))
            else Inr ()) (\<lambda>_.
     rc_require (mode \<in> {''json'', ''pages'', ''asset''} \<and> (mode = ''json'' \<or> method = ''GET''))
       ''Invalid API mode'')))))"

definition mode_args :: "string \<Rightarrow> string list" where
  "mode_args mode =
     (if mode = ''pages'' then [''--paginate'', ''--jq'', ''tojson'']
      else if mode = ''asset'' then [''-H'', ''Accept: application/octet-stream'']
      else [])"

definition endpoint_of :: "string \<Rightarrow> string \<Rightarrow> string \<Rightarrow> string" where
  "endpoint_of base path mode =
     (let endpoint = rstrip_by (\<lambda>c. c = CHR ''/'') (base @ ''/'' @ path) in
      if mode = ''pages'' then
        endpoint @ (if CHR ''?'' \<in> set endpoint then ''&'' else ''?'') @ ''per_page=''
          @ (if suffix ''/jobs'' path then ''20'' else ''100'')
      else endpoint)"

definition request_command :: "string \<Rightarrow> string \<Rightarrow> string \<Rightarrow> jobject option \<Rightarrow> string \<Rightarrow> string list" where
  "request_command base path method body mode =
     [''gh'', ''api'', ''--hostname'', ''github.com'', ''--include'', ''--method'', method]
       @ mode_args mode @ (if body = None then [] else [''--input'', ''-''])
       @ [''--'', endpoint_of base path mode]"

definition write_once :: "pylib \<Rightarrow> 'w gh_env \<Rightarrow> call \<Rightarrow> ('w, string) io" where
  "write_once L E c =
     ibind (irun E c) (\<lambda>r.
     case r of
       Completed result \<Rightarrow>
         ibind (ilift (github_http_response L (stdout result) False)) (\<lambda>http.
         ilift (response result (Some http)))
     | _ \<Rightarrow> ilift (Inl (OSError ''timeout'')))"

definition gh_request ::
  "pylib \<Rightarrow> 'w gh_env \<Rightarrow> string \<Rightarrow> string \<Rightarrow> string \<Rightarrow> jobject option \<Rightarrow> string \<Rightarrow> ('w, string) io" where
  "gh_request L E base path method body mode =
     ibind (ilift (check_request path method body mode)) (\<lambda>_.
     let command = request_command base path method body mode in
     if method = ''GET'' then
       (if mode = ''asset'' \<or> suffix ''/zip'' path
        then read_get L E command False API_BINARY_READ_TIMEOUT
        else metadata_read L E command (mode = ''pages''))
     else write_once L E \<lparr>argv = command,
            stdin = map_option (\<lambda>b. rc_json_bytes L (PDict b)) body, limit = None\<rparr>)"

section \<open>The client\<close>

text \<open>
  \<open>GitHub\<close> and its subclass differ in \<open>request\<close> only; the other methods call it through \<open>self\<close>.
\<close>

record 'w client =
  repo :: string
  request :: "string \<Rightarrow> string \<Rightarrow> jobject option \<Rightarrow> string \<Rightarrow> ('w, string) io"

definition github :: "pylib \<Rightarrow> 'w gh_env \<Rightarrow> string \<Rightarrow> 'w client" where
  "github L E r = \<lparr>repo = r, request = gh_request L E (''repos/'' @ r)\<rparr>"

definition api :: "pylib \<Rightarrow> 'w client \<Rightarrow> string \<Rightarrow> string \<Rightarrow> jobject option \<Rightarrow> ('w, pyval) io" where
  "api L gh path method body =
     ibind (request gh path method body ''json'') (\<lambda>raw.
     if strip_by byte_space raw = [] then ireturn PNone else ilift (parse_json L raw))"

definition optional :: "pylib \<Rightarrow> 'w client \<Rightarrow> string \<Rightarrow> ('w, pyval) io" where
  "optional L gh path w =
     (case api L gh path ''GET'' None w of
        (Inl (GitHubError m True), w') \<Rightarrow> (Inr PNone, w')
      | r \<Rightarrow> r)"

definition page_values :: "string option \<Rightarrow> pyval \<Rightarrow> pyval list result" where
  "page_values field page =
     (let values = (case (field, page) of (Some f, PDict d) \<Rightarrow> dget d f PNone | _ \<Rightarrow> page) in
      case values of PList xs \<Rightarrow> Inr xs | _ \<Rightarrow> Inl (ReleaseError ''Invalid paginated records''))"

definition pages :: "pylib \<Rightarrow> 'w client \<Rightarrow> string \<Rightarrow> string option \<Rightarrow> ('w, pyval list) io" where
  "pages L gh path field =
     ibind (request gh path ''GET'' None ''pages'') (\<lambda>raw.
     ibind (ilift (parse_json L raw)) (\<lambda>v.
     case v of
       PList ps \<Rightarrow> ibind (ilift (rmap (page_values field) ps)) (\<lambda>vs. ireturn (concat vs))
     | _ \<Rightarrow> ilift (Inl (ReleaseError ''Invalid pagination response''))))"

definition binary :: "'w client \<Rightarrow> string \<Rightarrow> ('w, string) io" where
  "binary gh path =
     (if fullmatch (SeqOf [Word ''actions/artifacts/'', positive_numeral, Word ''/zip'']) path
      then request gh path ''GET'' None ''json''
      else
        ibind (ilift (rc_require (fullmatch (SeqOf [Word ''releases/assets/'', positive_numeral]) path)
          ''Unsupported binary download endpoint'')) (\<lambda>_.
        request gh path ''GET'' None ''asset''))"

section \<open>What a request does\<close>

text \<open>
  An environment that answers each call as an arbitrary function of all calls so far, and keeps the
  calls: every behaviour of \<open>gh\<close>, of the network and of GitHub is one such function.
\<close>

definition recorded :: "(call list \<Rightarrow> outcome) \<Rightarrow> call list gh_env" where
  "recorded respond = \<lparr>run = (\<lambda>c w. (respond (w @ [c]), w @ [c])), pause = (\<lambda>_ w. w)\<rparr>"

definition good_reply :: "pylib \<Rightarrow> bool \<Rightarrow> outcome \<Rightarrow> string \<Rightarrow> bool" where
  "good_reply L paginated r body \<longleftrightarrow>
     (case r of
        Completed result \<Rightarrow> returncode result = 0
          \<and> (case github_http_response L (stdout result) paginated of
               Inr (status, b) \<Rightarrow> success status \<and> b = body | Inl _ \<Rightarrow> False)
      | _ \<Rightarrow> False)"

lemma irun_recorded:
  "irun (recorded respond) c w = (case respond (w @ [c]) of
      NotStarted \<Rightarrow> (Inl (OSError ''gh''), w @ [c]) | r \<Rightarrow> (Inr r, w @ [c]))"
  by (simp add: irun_def recorded_def split: outcome.splits)

lemma response_Inr:
  "response result (Some (status, body)) = Inr b \<longleftrightarrow> returncode result = 0 \<and> success status \<and> b = body"
  by (auto simp: response_def Let_def)

lemma completed_read_Some:
  assumes "completed_read L result paginated final = Inr (Some b)"
  shows "good_reply L paginated (Completed result) b"
  using assms
  by (auto simp: completed_read_def good_reply_def Let_def rbind_Inr_iff response_Inr
      split: sum.splits if_splits)

lemma completed_read_final: "completed_read L result paginated True \<noteq> Inr None"
  by (auto simp: completed_read_def Let_def rbind_Inr_iff split: sum.splits)

lemma read_attempts_recorded:
  "read_attempts L (recorded respond) command paginated t a n w = (r, w') \<Longrightarrow>
     \<exists>k \<le> n. w' = w @ replicate k \<lparr>argv = command, stdin = None, limit = Some t\<rparr>
       \<and> (\<forall>b. r = Inr b \<longrightarrow> 0 < k \<and> good_reply L paginated (respond w') b)"
proof (induction n arbitrary: a w)
  case 0
  then show ?case by (intro exI [of _ 0]) auto
next
  case (Suc n)
  let ?c = "\<lparr>argv = command, stdin = None, limit = Some t\<rparr>"
  let ?w = "w @ [?c]"
  have pause: "pause (recorded respond) a = (\<lambda>w. w)" by (simp add: recorded_def)
  show ?case
  proof (cases "read_attempts L (recorded respond) command paginated t (Suc a) n ?w = (r, w')")
    case True
    from Suc.IH [OF this] obtain k where "k \<le> n" "w' = ?w @ replicate k ?c"
      "\<forall>b. r = Inr b \<longrightarrow> 0 < k \<and> good_reply L paginated (respond w') b" by blast
    then show ?thesis by (intro exI [of _ "Suc k"]) auto
  next
    case False
    with Suc.prems have "w' = ?w \<and> (\<forall>b. r = Inr b \<longrightarrow> good_reply L paginated (respond ?w) b)"
      by (auto simp: ibind_def irun_recorded Let_def pause
          split: outcome.splits sum.splits option.splits if_splits prod.splits dest: completed_read_Some)
    then show ?thesis by (intro exI [of _ 1]) auto
  qed
qed

lemma read_get_recorded:
  assumes "read_get L (recorded respond) command paginated t w = (r, w')"
  shows "\<exists>k \<le> 3. w' = w @ replicate k \<lparr>argv = command, stdin = None, limit = Some t\<rparr>
    \<and> (\<forall>b. r = Inr b \<longrightarrow> 0 < k \<and> good_reply L paginated (respond w') b)"
proof (cases "read_only_command command")
  case True
  with assms have "read_attempts L (recorded respond) command paginated t 0 3 w = (r, w')"
    by (simp add: read_get_def API_READ_ATTEMPTS_def del: read_attempts.simps)
  then show ?thesis by (rule read_attempts_recorded)
next
  case False
  with assms show ?thesis by (intro exI [of _ 0]) (auto simp: read_get_def)
qed

lemma write_once_recorded:
  "write_once L (recorded respond) c w = (r, w') \<Longrightarrow>
     w' = w @ [c] \<and> (\<forall>b. r = Inr b \<longrightarrow> good_reply L False (respond w') b)"
  by (auto simp: write_once_def ibind_def irun_recorded good_reply_def response_Inr
      split: outcome.splits sum.splits prod.splits)

text \<open>
  C8: for every behaviour of the outside, one request makes at most three calls when it reads and
  at most one when it writes; all of them are the same command, on the checked endpoint of one
  repository; a read sends no input; a request that fails its checks makes no call; and bytes are
  returned only from the last call, which exited with 0 and a 2xx status.
\<close>

theorem request_calls:
  assumes "gh_request L (recorded respond) base path method body mode [] = (r, calls)"
  shows "\<exists>k c. calls = replicate k c \<and> k \<le> (if method = ''GET'' then 3 else 1)
    \<and> argv c = request_command base path method body mode
    \<and> (0 < k \<longrightarrow> check_request path method body mode = Inr ())
    \<and> (method = ''GET'' \<longrightarrow> stdin c = None)
    \<and> (\<forall>b. r = Inr b \<longrightarrow> 0 < k \<and>
         good_reply L (mode = ''pages'' \<and> \<not> suffix ''/zip'' path) (respond calls) b)"
proof (cases "check_request path method body mode")
  case (Inl e)
  with assms have "calls = [] \<and> r = Inl e" by (simp add: gh_request_def)
  then show ?thesis
    by (intro exI [of _ 0] exI [of _ "\<lparr>argv = request_command base path method body mode,
          stdin = None, limit = None\<rparr>"]) auto
next
  case (Inr u)
  let ?cmd = "request_command base path method body mode"
  show ?thesis
  proof (cases "method = ''GET''")
    case True
    have "\<exists>t. read_get L (recorded respond) ?cmd (mode = ''pages'' \<and> \<not> suffix ''/zip'' path) t [] = (r, calls)"
      using assms Inr True
      by (auto simp: gh_request_def metadata_read_def Let_def split: if_splits)
    then obtain t where
      "read_get L (recorded respond) ?cmd (mode = ''pages'' \<and> \<not> suffix ''/zip'' path) t [] = (r, calls)" ..
    from read_get_recorded [OF this] obtain k where
      "k \<le> 3" "calls = replicate k \<lparr>argv = ?cmd, stdin = None, limit = Some t\<rparr>"
      "\<forall>b. r = Inr b \<longrightarrow> 0 < k \<and> good_reply L (mode = ''pages'' \<and> \<not> suffix ''/zip'' path) (respond calls) b"
      by auto
    with True Inr show ?thesis
      by (intro exI [of _ k] exI [of _ "\<lparr>argv = ?cmd, stdin = None, limit = Some t\<rparr>"]) simp
  next
    case False
    let ?c = "\<lparr>argv = ?cmd, stdin = map_option (\<lambda>b. rc_json_bytes L (PDict b)) body, limit = None\<rparr>"
    have "write_once L (recorded respond) ?c [] = (r, calls)"
      using assms Inr False by (simp add: gh_request_def)
    from write_once_recorded [OF this]
    have "calls = [?c]" "\<forall>b. r = Inr b \<longrightarrow> good_reply L False (respond calls) b" by auto
    moreover have "mode = ''json''"
      using Inr False by (auto simp: check_request_def rbind_Inr_iff split: if_splits)
    ultimately show ?thesis
      using False Inr by (intro exI [of _ 1] exI [of _ ?c]) simp
  qed
qed

definition demo_respond :: "call list \<Rightarrow> outcome" where
  "demo_respond calls =
     (if length calls = 1
      then Completed \<lparr>returncode = 1, stdout = ''HTTP/2 503'' @ [LF, LF], stderr = ''gh: HTTP 503''\<rparr>
      else Completed \<lparr>returncode = 0, stdout = ''HTTP/2.0 200 OK'' @ [LF, LF] @ ''{}'', stderr = []\<rparr>)"

lemma demo_request:
  "gh_request demo_lib (recorded demo_respond) ''repos/o/r'' ''releases'' ''GET'' None ''json'' [] =
     (Inr ''{}'', replicate 2 \<lparr>argv = request_command ''repos/o/r'' ''releases'' ''GET'' None ''json'',
        stdin = None, limit = Some 30\<rparr>)"
  by code_simp

theorem request_calls_witness:
  "\<exists>calls. gh_request demo_lib (recorded demo_respond) ''repos/o/r'' ''releases'' ''GET'' None ''json'' [] = (Inr ''{}'', calls)
     \<and> length calls \<le> 3 \<and> good_reply demo_lib False (demo_respond calls) ''{}''"
  using demo_request request_calls [OF demo_request] by auto

end
