(* ===== verification/ChangeScope.thy ===== *)
theory ChangeScope
  imports JsonParse GitHubClient
begin

text \<open>
  \<open>scripts/change_scope.py\<close>: may a change skip the full checks? Only when every record of the Git
  diff adds, deletes or modifies an ordinary documentation file. Definitions follow the file; the
  \<open>git\<close> process is the parameter \<open>run_git\<close> from an argument vector to its output.
\<close>

section \<open>Constants\<close>

definition REVISION :: rx where
  "REVISION = Rep 40 (Cls is_hex)"

definition DOCUMENT_NAMES :: "string list" where
  "DOCUMENT_NAMES = [''readme'', ''changelog'', ''contributing'', ''security'', ''releasing'', ''code_of_conduct'']"

definition PROTECTED_PARTS :: "string list" where
  "PROTECTED_PARTS = [''src'', ''source'', ''sources'', ''test'', ''tests'', ''testdata'', ''fixtures'',
     ''__tests__'', ''snapshots'', ''resources'', ''assets'', ''templates'', ''scripts'', ''script'',
     ''tools'', ''ci'', ''workflows'', ''actions'', ''hooks'', ''bin'', ''lib'', ''app'', ''apps'',
     ''build'', ''dist'', ''target'', ''config'', ''configs'', ''configuration'', ''dependencies'',
     ''deps'', ''packages'', ''package'', ''packaging'', ''node_modules'', ''gradle'', ''cmake'',
     ''docker'', ''deploy'', ''deployment'', ''migrations'', ''charts'', ''helm'', ''k8s'', ''vendor-bin'']"

definition MAX_DIFF_BYTES :: int where
  "MAX_DIFF_BYTES = 8 * 1024 * 1024"

record decision =
  dec_run :: bool
  dec_reason :: string

definition decision :: "bool \<Rightarrow> string \<Rightarrow> decision" where
  "decision r reason = \<lparr>dec_run = r, dec_reason = reason\<rparr>"

section \<open>Paths\<close>

text \<open>\<open>PurePosixPath(path).parts\<close> of a relative path, \<open>str\<close>, \<open>suffix\<close> and \<open>stem\<close>.\<close>

definition path_parts :: "string \<Rightarrow> string list" where
  "path_parts path = filter (\<lambda>p. p \<noteq> [] \<and> p \<noteq> ''.'') (split_on (CHR ''/'') path)"

definition path_str :: "string \<Rightarrow> string" where
  "path_str path = (if path_parts path = [] then ''.'' else join_with ''/'' (path_parts path))"

definition path_name :: "string \<Rightarrow> string" where
  "path_name path = (if path_parts path = [] then [] else last (path_parts path))"

text \<open>The part of a name from its last dot on, unless the dot is the first or the last character.\<close>

definition name_suffix :: "string \<Rightarrow> string" where
  "name_suffix name =
     (let ext = rev (takeWhile (\<lambda>c. c \<noteq> CHR ''.'') (rev name)); i = length name - length ext
      in if ext \<noteq> [] \<and> 1 < i then CHR ''.'' # ext else [])"

definition name_stem :: "string \<Rightarrow> string" where
  "name_stem name = take (length name - length (name_suffix name)) name"

definition literal_path :: "string \<Rightarrow> bool" where
  "literal_path path \<longleftrightarrow>
     path \<noteq> [] \<and> CHR 0x5C \<notin> set path \<and> CHR 0x00 \<notin> set path
     \<and> \<not> prefix ''/'' path \<and> path_str path = path \<and> path_parts path \<noteq> []
     \<and> ''..'' \<notin> set (path_parts path) \<and> set path \<inter> {CHR ''*'', CHR ''?'', CHR ''[''} = {}"

definition document_name :: "string \<Rightarrow> bool" where
  "document_name path \<longleftrightarrow> literal_path path \<and> lower (name_suffix (path_name path)) \<in> {''.md'', ''.rst''}"

definition documentation_path :: "string \<Rightarrow> string list \<Rightarrow> bool" where
  "documentation_path path explicit \<longleftrightarrow>
     document_name path \<and>
     (let parts = map lower (path_parts path) in
      \<not> (\<exists>part \<in> set (butlast parts). prefix ''.'' part \<or> part \<in> set PROTECTED_PARTS)
      \<and> \<not> prefix ''.'' (last parts)
      \<and> (path \<in> set explicit
         \<or> (length parts = 1 \<and> lower (name_stem (path_name path)) \<in> set DOCUMENT_NAMES)
         \<or> (length parts > 1 \<and> hd parts = ''docs'')))"

text \<open>The checks on values of unknown type: anything but a string is not a path.\<close>

definition is_literal_path :: "pyval \<Rightarrow> bool" where
  "is_literal_path v = (case v of PStr s \<Rightarrow> literal_path s | _ \<Rightarrow> False)"

definition is_document_name :: "pyval \<Rightarrow> bool" where
  "is_document_name v = (case v of PStr s \<Rightarrow> document_name s | _ \<Rightarrow> False)"

section \<open>Revisions\<close>

definition zero_sha :: string where
  "zero_sha = replicate 40 (CHR ''0'')"

definition check_revision :: "pyval \<Rightarrow> string result" where
  "check_revision v =
     (case v of
        PStr s \<Rightarrow> if fullmatch REVISION s \<and> s \<noteq> zero_sha then Inr s
          else Inl (ValueError ''Expected nonzero full commit SHA'')
      | _ \<Rightarrow> Inl (ValueError ''Expected nonzero full commit SHA''))"

definition event_revisions :: "string \<Rightarrow> pyval \<Rightarrow> (string \<times> string \<times> string) result" where
  "event_revisions event_name event =
     (if \<not> is_dict event then Inl (TypeError ''Invalid event object'')
      else
        rbind
          (if event_name = ''pull_request'' then
             rbind (pitem event ''pull_request'') (\<lambda>pull.
             rbind (pitem pull ''base'') (\<lambda>b. rbind (pitem b ''sha'') (\<lambda>base.
             rbind (pitem pull ''head'') (\<lambda>h. rbind (pitem h ''sha'') (\<lambda>head.
             Inr (base, head, ''...''))))))
           else if event_name = ''merge_group'' then
             rbind (pitem event ''merge_group'') (\<lambda>group.
             rbind (pitem group ''base_sha'') (\<lambda>base.
             rbind (pitem group ''head_sha'') (\<lambda>head.
             Inr (base, head, ''..''))))
           else
             rbind (pitem event ''before'') (\<lambda>base.
             rbind (pitem event ''after'') (\<lambda>head.
             Inr (base, head, ''..'')))) (\<lambda>(base, head, separator).
        rbind (check_revision base) (\<lambda>b.
        rbind (check_revision head) (\<lambda>h.
        Inr (b, h, separator)))))"

section \<open>Git\<close>

type_synonym git_runner = "string list \<Rightarrow> string result"

definition diff_range :: rx where
  "diff_range = SeqOf [REVISION, Lit (CHR ''.''), Lit (CHR ''.''), Opt (Lit (CHR ''.'')), REVISION]"

definition git :: "git_runner \<Rightarrow> string \<Rightarrow> string \<Rightarrow> string result" where
  "git run_git operation revision =
     (if operation = ''shallow'' \<and> revision = [] then
        run_git [''git'', ''rev-parse'', ''--is-shallow-repository'']
      else if operation = ''commit-type'' then
        (if fullmatch REVISION revision then run_git [''git'', ''cat-file'', ''-t'', ''--'', revision]
         else Inl (ValueError ''Expected one exact object ID''))
      else if operation = ''diff'' then
        (if fullmatch diff_range revision then
           run_git [''git'', ''diff'', ''--raw'', ''--no-abbrev'', ''-z'', ''--no-renames'', ''--no-ext-diff'',
             ''--no-textconv'', ''--no-relative'', ''--ignore-submodules=none'', ''--end-of-options'',
             revision, ''--'']
         else Inl (ValueError ''Expected an exact two-commit range''))
      else Inl (ValueError ''Unsupported Git read operation''))"

section \<open>Diffs\<close>

text \<open>\<open>bytes.split()\<close>.\<close>

primrec split_by :: "(char \<Rightarrow> bool) \<Rightarrow> string \<Rightarrow> string list" where
  "split_by p [] = [[]]"
| "split_by p (x # xs) =
     (if p x then [] # split_by p xs
      else (case split_by p xs of [] \<Rightarrow> [[x]] | y # ys \<Rightarrow> (x # y) # ys))"

definition byte_words :: "string \<Rightarrow> string list" where
  "byte_words s = filter (\<lambda>w. w \<noteq> []) (split_by byte_space s)"

definition expected_modes :: "string \<Rightarrow> (string \<times> string) option" where
  "expected_modes status =
     (if status = ''A'' then Some (''000000'', ''100644'')
      else if status = ''D'' then Some (''100644'', ''000000'')
      else if status = ''M'' then Some (''100644'', ''100644'')
      else None)"

definition decode_ascii :: "string \<Rightarrow> string result" where
  "decode_ascii s = (if ascii s then Inr s else Inl (ValueError ''invalid ascii''))"

definition classify_record :: "string \<Rightarrow> string \<Rightarrow> string list \<Rightarrow> string list \<Rightarrow> decision option result" where
  "classify_record header raw_path explicit required =
     (case byte_words header of
        [before, after, old_hash, new_hash, status] \<Rightarrow>
          if \<not> prefix '':'' before then Inr (Some (decision True ''invalid-diff''))
          else
            rbind (decode_ascii old_hash) (\<lambda>old.
            if \<not> fullmatch REVISION old then Inr (Some (decision True ''invalid-diff''))
            else
              rbind (decode_ascii new_hash) (\<lambda>new.
              if \<not> fullmatch REVISION new then Inr (Some (decision True ''invalid-diff''))
              else if expected_modes status \<noteq> Some (tl before, after)
              then Inr (Some (decision True ''non-regular-or-mode-change''))
              else if \<not> utf8_ok False raw_path then Inl (ValueError ''invalid utf-8'')
              else if raw_path \<in> set required then Inr (Some (decision True ''required-path-change''))
              else if \<not> documentation_path raw_path explicit
              then Inr (Some (decision True ''non-documentation-change''))
              else Inr None))
      | _ \<Rightarrow> Inr (Some (decision True ''invalid-diff'')))"

fun classify_records :: "string list \<Rightarrow> string list \<Rightarrow> string list \<Rightarrow> decision result" where
  "classify_records explicit required (header # raw_path # records) =
     rbind (classify_record header raw_path explicit required) (\<lambda>r.
     case r of Some d \<Rightarrow> Inr d | None \<Rightarrow> classify_records explicit required records)"
| "classify_records explicit required _ = Inr (decision False ''documentation-only'')"

definition NUL :: char where "NUL = CHR 0x00"

definition classify_diff :: "string \<Rightarrow> string list \<Rightarrow> string list \<Rightarrow> decision result" where
  "classify_diff raw explicit required =
     (if raw = [] then Inr (decision True ''empty-diff'')
      else if int (length raw) > MAX_DIFF_BYTES \<or> last raw \<noteq> NUL then Inr (decision True ''invalid-diff'')
      else
        let records = split_on NUL (butlast raw) in
        if odd (length records) then Inr (decision True ''invalid-diff'')
        else classify_records explicit required records)"

section \<open>Classification\<close>

definition catch_git :: "decision result \<Rightarrow> decision" where
  "catch_git r = (case r of Inr d \<Rightarrow> d | Inl e \<Rightarrow> decision True ''git-error'')"

definition strs :: "pyval list \<Rightarrow> string list" where
  "strs vs = map as_str vs"

definition classify ::
  "git_runner \<Rightarrow> string \<Rightarrow> pyval \<Rightarrow> pyval \<Rightarrow> pyval \<Rightarrow> bool \<Rightarrow> decision" where
  "classify run_git event_name event documentation_paths required_paths force =
     (if force then decision True ''forced''
      else if event_name \<notin> {''pull_request'', ''merge_group'', ''push''} then decision True ''unsupported-event''
      else
        (case documentation_paths of
           PList docs \<Rightarrow>
             if \<not> (\<forall>p \<in> set docs. is_document_name p) then decision True ''invalid-documentation-paths''
             else
               (case required_paths of
                  PList reqs \<Rightarrow>
                    if \<not> (\<forall>p \<in> set reqs. is_literal_path p) then decision True ''invalid-required-paths''
                    else
                      (case event_revisions event_name event of
                         Inl e \<Rightarrow> decision True ''invalid-revisions''
                       | Inr (base, head, separator) \<Rightarrow>
                           catch_git
                             (rbind (git run_git ''shallow'' []) (\<lambda>shallow.
                              if strip_by byte_space shallow \<noteq> ''false'' then Inr (decision True ''incomplete-history'')
                              else
                                rbind (git run_git ''commit-type'' base) (\<lambda>bt.
                                if strip_by byte_space bt \<noteq> ''commit'' then Inr (decision True ''invalid-revisions'')
                                else
                                  rbind (git run_git ''commit-type'' head) (\<lambda>ht.
                                  if strip_by byte_space ht \<noteq> ''commit'' then Inr (decision True ''invalid-revisions'')
                                  else
                                    rbind (git run_git ''diff'' (base @ separator @ head)) (\<lambda>raw.
                                    classify_diff raw (strs docs) (strs reqs)))))))
                | _ \<Rightarrow> decision True ''invalid-required-paths'')
         | _ \<Rightarrow> decision True ''invalid-documentation-paths''))"

text \<open>Only \<open>TypeError\<close> and \<open>ValueError\<close> can be raised here, and both are caught.\<close>

definition json_paths :: "pylib \<Rightarrow> string \<Rightarrow> string list \<Rightarrow> pyval list result" where
  "json_paths L value repeated =
     rbind (loads_text L plain_opts value) (\<lambda>paths.
     case paths of PList xs \<Rightarrow> Inr (map PStr repeated @ xs)
     | _ \<Rightarrow> Inl (TypeError ''Expected an array of exact paths''))"

record scope_args =
  arg_event_name :: string
  arg_documentation_path :: "string list"
  arg_documentation_paths_json :: string
  arg_require_path :: "string list"
  arg_required_paths_json :: string
  arg_force :: bool

definition from_arguments :: "pylib \<Rightarrow> git_runner \<Rightarrow> string result \<Rightarrow> scope_args \<Rightarrow> decision" where
  "from_arguments L run_git event_file args =
     (if arg_force args \<or> arg_event_name args \<notin> {''pull_request'', ''merge_group'', ''push''}
      then classify run_git (arg_event_name args) PNone (PList []) (PList []) (arg_force args)
      else
        (case json_paths L (arg_documentation_paths_json args) (arg_documentation_path args) of
           Inl e \<Rightarrow> decision True ''invalid-documentation-paths''
         | Inr docs \<Rightarrow>
             (case json_paths L (arg_required_paths_json args) (arg_require_path args) of
                Inl e \<Rightarrow> decision True ''invalid-required-paths''
              | Inr reqs \<Rightarrow>
                  (case rbind event_file (loads_text L plain_opts) of
                     Inl e \<Rightarrow> decision True ''invalid-event-file''
                   | Inr event \<Rightarrow> classify run_git (arg_event_name args) event (PList docs) (PList reqs) False))))"

section \<open>Only documentation is skipped\<close>

fun pairs_of :: "'a list \<Rightarrow> ('a \<times> 'a) list" where
  "pairs_of (a # b # r) = (a, b) # pairs_of r"
| "pairs_of _ = []"

text \<open>The raw form of a diff: every header and every path ends in NUL.\<close>

definition raw_record :: "string \<times> string \<Rightarrow> string" where
  "raw_record hp = fst hp @ [NUL] @ snd hp @ [NUL]"

definition raw_diff :: "(string \<times> string) list \<Rightarrow> string" where
  "raw_diff recs = concat (map raw_record recs)"

text \<open>An ordinary file that was added, deleted or modified, with full object names.\<close>

definition regular_change :: "string \<Rightarrow> bool" where
  "regular_change header \<longleftrightarrow>
     (\<exists>before after old new status. byte_words header = [CHR '':'' # before, after, old, new, status]
        \<and> fullmatch REVISION old \<and> fullmatch REVISION new
        \<and> (before, after, status) \<in> {(''000000'', ''100644'', ''A''), (''100644'', ''000000'', ''D''), (''100644'', ''100644'', ''M'')})"

lemma classify_record_run: "classify_record h p explicit required = Inr (Some d) \<Longrightarrow> dec_run d"
  by (auto simp: classify_record_def decision_def rbind_Inr_iff split: list.splits if_splits)

lemma classify_record_None:
  assumes "classify_record h p explicit required = Inr None"
  shows "regular_change h \<and> p \<notin> set required \<and> documentation_path p explicit"
proof -
  obtain before after old new status where w: "byte_words h = [before, after, old, new, status]"
    using assms by (auto simp: classify_record_def split: list.splits)
  have c: "prefix '':'' before" "fullmatch REVISION old" "fullmatch REVISION new"
    "expected_modes status = Some (tl before, after)" "p \<notin> set required" "documentation_path p explicit"
    using assms by (auto simp: classify_record_def w rbind_Inr_iff decode_ascii_def split: if_splits)
  from c(1) obtain b where "before = CHR '':'' # b" by (auto simp: prefix_def)
  with w c show ?thesis
    unfolding regular_change_def by (auto simp: expected_modes_def split: if_splits)
qed

lemma classify_records_skip:
  "classify_records explicit required records = Inr d \<Longrightarrow> \<not> dec_run d \<Longrightarrow>
     \<forall>(h, p) \<in> set (pairs_of records). regular_change h \<and> p \<notin> set required \<and> documentation_path p explicit"
proof (induction explicit required records rule: classify_records.induct)
  case (1 explicit required h p records)
  have "classify_record h p explicit required = Inr None"
  proof (cases "classify_record h p explicit required")
    case (Inr x)
    then show ?thesis using 1(2,3) classify_record_run [of h p explicit required] by (cases x) auto
  qed (use 1(2) in simp)
  with 1 classify_record_None show ?case by (simp add: rbind_Inr_iff)
qed simp_all

lemma join_pairs:
  "even (length records) \<Longrightarrow> records \<noteq> [] \<Longrightarrow> join_with [NUL] records @ [NUL] = raw_diff (pairs_of records)"
proof (induction records rule: pairs_of.induct)
  case (1 a b r)
  then show ?case by (cases "r = []") (simp_all add: raw_diff_def raw_record_def)
qed simp_all

lemma classify_diff_skip:
  assumes "classify_diff raw explicit required = Inr d" "\<not> dec_run d"
  shows "\<exists>recs. recs \<noteq> [] \<and> raw = raw_diff recs \<and> (\<forall>(h, p) \<in> set recs.
    NUL \<notin> set h \<and> NUL \<notin> set p \<and> regular_change h \<and> p \<notin> set required \<and> documentation_path p explicit)"
proof -
  let ?rs = "split_on NUL (butlast raw)"
  have c: "raw \<noteq> []" "last raw = NUL" "even (length ?rs)"
    "classify_records explicit required ?rs = Inr d"
    using assms by (auto simp: classify_diff_def decision_def Let_def split: if_splits)
  have "raw = join_with [NUL] ?rs @ [NUL]"
    using c(1,2) by (metis append_butlast_last_id join_split)
  then have raw: "raw = raw_diff (pairs_of ?rs)"
    using join_pairs [OF c(3)] by simp
  moreover have "pairs_of ?rs \<noteq> []"
    using raw c(1) by (auto simp: raw_diff_def)
  moreover have "set (pairs_of xs) \<subseteq> set xs \<times> set xs" for xs :: "string list"
    by (induction xs rule: pairs_of.induct) auto
  then have "NUL \<notin> set h \<and> NUL \<notin> set p" if "(h, p) \<in> set (pairs_of ?rs)" for h p
    using that split_on_parts [of _ NUL "butlast raw"] by blast
  ultimately show ?thesis
    using classify_records_skip [OF c(4) assms(2)] by blast
qed

lemma documentation_path_unprotected:
  assumes "documentation_path p explicit"
  shows "\<forall>part \<in> set (butlast (path_parts p)). lower part \<notin> set PROTECTED_PARTS"
  using assms by (auto simp: documentation_path_def Let_def map_butlast [symmetric])

lemma check_revision_Inr:
  "check_revision v = Inr s \<longleftrightarrow> v = PStr s \<and> fullmatch REVISION s \<and> s \<noteq> zero_sha"
  by (auto simp: check_revision_def split: pyval.splits)

lemma event_revisions_full:
  assumes "event_revisions event_name event = Inr (base, head, separator)"
  shows "fullmatch REVISION base \<and> base \<noteq> zero_sha \<and> fullmatch REVISION head \<and> head \<noteq> zero_sha
    \<and> separator = (if event_name = ''pull_request'' then ''...'' else ''..'')"
  using assms
  by (auto simp: event_revisions_def rbind_Inr_iff check_revision_Inr split: if_splits)

lemma documentation_path_kind:
  assumes "documentation_path p explicit"
  shows "lower (name_suffix (path_name p)) \<in> {''.md'', ''.rst''}
    \<and> (p \<in> set explicit \<or> lower (hd (path_parts p)) = ''docs''
       \<or> (length (path_parts p) = 1 \<and> lower (name_stem (path_name p)) \<in> set DOCUMENT_NAMES))"
proof -
  have "path_parts p \<noteq> []" using assms by (auto simp: documentation_path_def document_name_def literal_path_def)
  then have "hd (map lower (path_parts p)) = lower (hd (path_parts p))" by (simp add: hd_map)
  then show ?thesis
    using assms by (auto simp: documentation_path_def document_name_def Let_def)
qed

text \<open>What Git says of the history and of one commit: the clone is complete, the object is a commit.\<close>

definition complete_history :: "git_runner \<Rightarrow> bool" where
  "complete_history run_git \<longleftrightarrow>
     (\<exists>s. run_git [''git'', ''rev-parse'', ''--is-shallow-repository''] = Inr s \<and> strip_by byte_space s = ''false'')"

definition is_commit :: "git_runner \<Rightarrow> string \<Rightarrow> bool" where
  "is_commit run_git sha \<longleftrightarrow>
     (\<exists>t. run_git [''git'', ''cat-file'', ''-t'', ''--'', sha] = Inr t \<and> strip_by byte_space t = ''commit'')"

lemma git_shallow: "git run_git ''shallow'' [] = run_git [''git'', ''rev-parse'', ''--is-shallow-repository'']"
  by (simp add: git_def)

lemma git_commit_type: "git run_git ''commit-type'' r = Inr t \<Longrightarrow> run_git [''git'', ''cat-file'', ''-t'', ''--'', r] = Inr t"
  by (simp add: git_def split: if_splits)

text \<open>
  C14: a change skips the full checks only when nothing forces them, the event is supported, its
  base and head are full nonzero revisions that Git knows as commits of a clone that is not shallow,
  and the Git diff between these two commits is a nonempty list of records that each add, delete or
  modify an ordinary file. Every changed path is a Markdown or reStructuredText document that is
  listed, lies under \<open>docs\<close> or is a well-known document of the root, that the policy does not
  require checks for and that has no protected directory. The listed and the required paths are
  literal ones.
\<close>

theorem skip_only_documentation:
  assumes "\<not> dec_run (classify run_git event_name event docs reqs force)"
  shows "\<not> force \<and> event_name \<in> {''pull_request'', ''merge_group'', ''push''} \<and>
    (\<exists>base head separator raw recs D R. event_revisions event_name event = Inr (base, head, separator)
      \<and> fullmatch REVISION base \<and> base \<noteq> zero_sha \<and> fullmatch REVISION head \<and> head \<noteq> zero_sha
      \<and> complete_history run_git \<and> is_commit run_git base \<and> is_commit run_git head
      \<and> git run_git ''diff'' (base @ separator @ head) = Inr raw
      \<and> separator = (if event_name = ''pull_request'' then ''...'' else ''..'')
      \<and> raw = raw_diff recs \<and> recs \<noteq> []
      \<and> docs = PList D \<and> (\<forall>d \<in> set D. is_document_name d)
      \<and> reqs = PList R \<and> (\<forall>r \<in> set R. is_literal_path r)
      \<and> (\<forall>(h, p) \<in> set recs. regular_change h \<and> documentation_path p (strs D) \<and> p \<notin> set (strs R)
           \<and> lower (name_suffix (path_name p)) \<in> {''.md'', ''.rst''}
           \<and> (p \<in> set (strs D) \<or> lower (hd (path_parts p)) = ''docs''
              \<or> (length (path_parts p) = 1 \<and> lower (name_stem (path_name p)) \<in> set DOCUMENT_NAMES))
           \<and> (\<forall>part \<in> set (butlast (path_parts p)). lower part \<notin> set PROTECTED_PARTS)))"
proof -
  obtain D R base head separator raw d s bt ht where
    c: "\<not> force" "event_name \<in> {''pull_request'', ''merge_group'', ''push''}"
      "docs = PList D" "\<forall>d \<in> set D. is_document_name d" "reqs = PList R" "\<forall>r \<in> set R. is_literal_path r"
      "event_revisions event_name event = Inr (base, head, separator)"
      "git run_git ''shallow'' [] = Inr s" "strip_by byte_space s = ''false''"
      "git run_git ''commit-type'' base = Inr bt" "strip_by byte_space bt = ''commit''"
      "git run_git ''commit-type'' head = Inr ht" "strip_by byte_space ht = ''commit''"
      "git run_git ''diff'' (base @ separator @ head) = Inr raw"
      "classify_diff raw (strs D) (strs R) = Inr d" "\<not> dec_run d"
    using assms
    by (auto simp: classify_def catch_git_def decision_def rbind_Inr_iff
        split: if_splits pyval.splits sum.splits)
  have g: "complete_history run_git" "is_commit run_git base" "is_commit run_git head"
    using c(8-13) git_commit_type by (auto simp: complete_history_def is_commit_def git_shallow)
  from classify_diff_skip [OF c(15,16)] obtain recs where
    r: "recs \<noteq> []" "raw = raw_diff recs" "\<forall>(h, p) \<in> set recs. regular_change h \<and> p \<notin> set (strs R) \<and> documentation_path p (strs D)"
    by blast
  have paths: "\<forall>(h, p) \<in> set recs. regular_change h \<and> documentation_path p (strs D) \<and> p \<notin> set (strs R)
           \<and> lower (name_suffix (path_name p)) \<in> {''.md'', ''.rst''}
           \<and> (p \<in> set (strs D) \<or> lower (hd (path_parts p)) = ''docs''
              \<or> (length (path_parts p) = 1 \<and> lower (name_stem (path_name p)) \<in> set DOCUMENT_NAMES))
           \<and> (\<forall>part \<in> set (butlast (path_parts p)). lower part \<notin> set PROTECTED_PARTS)"
    using r(3) documentation_path_kind documentation_path_unprotected by (fastforce simp only: split_paired_all split_conv)
  show ?thesis
    using c event_revisions_full [OF c(7)] g r paths
    by (intro conjI exI [of _ base] exI [of _ head] exI [of _ separator] exI [of _ raw] exI [of _ recs]
        exI [of _ D] exI [of _ R]) (blast+)
qed

definition demo_header :: string where
  "demo_header = '':100644 100644 '' @ replicate 40 (CHR ''a'') @ '' '' @ replicate 40 (CHR ''b'') @ '' M''"

definition demo_git :: git_runner where
  "demo_git args =
     (if args = [''git'', ''rev-parse'', ''--is-shallow-repository''] then Inr (''false'' @ [LF])
      else if take 2 args = [''git'', ''cat-file''] then Inr (''commit'' @ [LF])
      else Inr (raw_diff [(demo_header, ''docs/Guide.md'')]))"

definition demo_push :: pyval where
  "demo_push = PDict [(''before'', PStr (replicate 40 (CHR ''1''))), (''after'', PStr (replicate 40 (CHR ''2'')))]"

lemma demo_skip: "classify demo_git ''push'' demo_push (PList []) (PList []) False = decision False ''documentation-only''"
  by code_simp

theorem skip_only_documentation_witness:
  "complete_history demo_git \<and> is_commit demo_git (replicate 40 (CHR ''1'')) \<and>
   (\<exists>recs. recs \<noteq> [] \<and> git demo_git ''diff'' (replicate 40 (CHR ''1'') @ ''..'' @ replicate 40 (CHR ''2'')) = Inr (raw_diff recs))"
proof -
  have "\<not> dec_run (classify demo_git ''push'' demo_push (PList []) (PList []) False)"
    by (simp add: demo_skip decision_def)
  from skip_only_documentation [OF this] obtain base head separator recs where
    e: "event_revisions ''push'' demo_push = Inr (base, head, separator)"
    and g: "complete_history demo_git" "is_commit demo_git base"
      "git demo_git ''diff'' (base @ separator @ head) = Inr (raw_diff recs)" "recs \<noteq> []"
    by blast
  have "event_revisions ''push'' demo_push = Inr (replicate 40 (CHR ''1''), replicate 40 (CHR ''2''), ''..'')"
    by code_simp
  with e g show ?thesis by auto
qed

end
