(* ===== verification/ReleaseValidation.thy ===== *)
theory ReleaseValidation
  imports ChangeScope
begin

text \<open>
  \<open>scripts/release_validation.py\<close>: which validators a release channel runs, and the gate that
  accepts their results. A gate that passes has seen every selected job succeed and exactly the
  unselected jobs skipped.
\<close>

definition value_require :: "bool \<Rightarrow> string \<Rightarrow> unit result" where
  "value_require c m = ensure c (ValueError m)"

lemma value_require_simps [simp]:
  "value_require c m = Inr u \<longleftrightarrow> c" "value_require True m = Inr ()" "value_require False m = Inl (ValueError m)"
  by (simp_all add: value_require_def)

definition workflow_name :: rx where
  "workflow_name = SeqOf [Plus (Cls (\<lambda>c. is_upper c \<or> is_lower c \<or> is_digit c \<or> c \<in> {CHR ''_'', CHR ''-''})),
     Word ''.y'', Opt (Lit (CHR ''a'')), Word ''ml'']"

definition reserved_workflows :: "string list" where
  "reserved_workflows = [''release-quality-gate.yml'', ''quality-gate.yml'', ''release-pipeline.yml'', ''release-build.yml'']"

definition local_validator :: "pyval \<Rightarrow> bool" where
  "local_validator v = (case v of PStr s \<Rightarrow> fullmatch workflow_name s \<and> s \<notin> set reserved_workflows | _ \<Rightarrow> False)"

definition channel_workflows :: "jobject \<Rightarrow> pyval list option result" where
  "channel_workflows policy =
     (case map_of policy ''channel_validation_workflows'' of
        None \<Rightarrow> Inr None
      | Some config \<Rightarrow>
          rbind (value_require
            ((case config of PDict c \<Rightarrow> fst ` set c = {''beta''} | _ \<Rightarrow> False)
             \<and> dget policy ''mode'' (PStr ''release'') = PStr ''release''
             \<and> dget policy ''ci_execution'' (PStr ''github'') = PStr ''github''
             \<and> dget policy ''single_entry_ci'' PNone = PBool True
             \<and> is_dict (dget policy ''versioning'' PNone))
            ''channel_validation_workflows requires versioned single-entry releases and only beta'') (\<lambda>_.
          rbind (pitem config ''beta'') (\<lambda>names.
          (case names of
             PList ns \<Rightarrow>
               rbind (value_require (ns \<noteq> [] \<and> (\<forall>n \<in> set ns. local_validator n) \<and> distinct ns)
                 ''Beta validation requires unique, nonempty local validator filenames'') (\<lambda>_.
               Inr (Some ns))
           | _ \<Rightarrow> Inl (ValueError ''Beta validation requires unique, nonempty local validator filenames'')))))"

definition validation_channel :: "string \<Rightarrow> bool" where
  "validation_channel c \<longleftrightarrow> c \<in> {''nightly'', ''beta'', ''rc'', ''stable''}"

definition profile :: "jobject \<Rightarrow> string \<Rightarrow> pyval result" where
  "profile policy chan =
     rbind (channel_workflows policy) (\<lambda>beta.
     case beta of
       None \<Rightarrow> Inr PNone
     | Some names \<Rightarrow>
         rbind (value_require (validation_channel chan) ''Unknown release validation channel'') (\<lambda>_.
         rbind (if chan = ''beta'' then Inr (PList names) else ditem policy ''validation_workflows'') (\<lambda>ws.
         Inr (PDict [(''schema'', PInt 1), (''channel'', PStr chan), (''workflows'', ws)]))))"

text \<open>The code points of a string, and how many items an iterable has.\<close>

function code_points :: "string \<Rightarrow> string list" where
  "code_points [] = []"
| "code_points (c # cs) = (c # takeWhile is_cont cs) # code_points (dropWhile is_cont cs)"
  by pat_completeness auto
termination
  by (relation "measure length") (auto simp: le_imp_less_Suc length_dropWhile_le)

definition iter_length :: "pyval \<Rightarrow> nat result" where
  "iter_length v =
     (case v of PList xs \<Rightarrow> Inr (length xs) | PDict d \<Rightarrow> Inr (length d) | PStr s \<Rightarrow> Inr (length (code_points s))
      | _ \<Rightarrow> Inl (TypeError ''not iterable''))"

definition iter_items :: "pyval \<Rightarrow> pyval list result" where
  "iter_items v =
     (case v of PList xs \<Rightarrow> Inr xs | PDict d \<Rightarrow> Inr (map (\<lambda>kv. PStr (fst kv)) d)
      | PStr s \<Rightarrow> Inr (map PStr (code_points s)) | _ \<Rightarrow> Inl (TypeError ''not iterable''))"

definition set_all :: "jobject \<Rightarrow> string list \<Rightarrow> string \<Rightarrow> jobject" where
  "set_all d names v = foldl (\<lambda>d k. dict_set d k (PStr v)) d names"

definition coverage_name :: "pyval \<Rightarrow> string result" where
  "coverage_name report =
     rbind (pitem report ''name'') (\<lambda>n.
     case n of PStr s \<Rightarrow> Inr (''coverage-'' @ s) | _ \<Rightarrow> Inl (TypeError ''can only concatenate str''))"

definition expected_results :: "jobject \<Rightarrow> string \<Rightarrow> jobject result" where
  "expected_results policy chan =
     rbind (channel_workflows policy) (\<lambda>beta.
     (case beta of
        None \<Rightarrow> Inl (ValueError ''Release validation needs an explicit policy and known channel'')
      | Some names \<Rightarrow>
          rbind (value_require (validation_channel chan)
            ''Release validation needs an explicit policy and known channel'') (\<lambda>_.
          let full = (if chan = ''beta'' then ''skipped'' else ''success'');
              quick = (if chan = ''beta'' then ''success'' else ''skipped'');
              r0 = set_all [] [''scope'', ''workflow-contracts'', ''release-contracts''] ''success'' in
          rbind (ditem policy ''validation_workflows'') (\<lambda>ws.
          rbind (iter_length ws) (\<lambda>n.
          let r1 = set_all r0 (map (\<lambda>i. ''check-'' @ nat_str i) [0..<n]) full;
              r2 = set_all r1 (map (\<lambda>i. ''beta-check-'' @ nat_str i) [0..<length names]) quick in
          rbind (pget (dget policy ''coverage'' (PDict [])) ''reports'' (PList [])) (\<lambda>reports.
          rbind (iter_items reports) (\<lambda>rs.
          rbind (rmap coverage_name rs) (\<lambda>cs.
          Inr (set_all r2 cs full)))))))))"

definition job_result :: "jobject \<Rightarrow> string \<Rightarrow> pyval result" where
  "job_result results name = rbind (ditem results name) (\<lambda>r. pget r ''result'' PNone)"

definition check_results :: "jobject \<Rightarrow> string \<Rightarrow> pyval \<Rightarrow> unit result" where
  "check_results policy chan results_value =
     rbind (expected_results policy chan) (\<lambda>expected.
     case results_value of
       PDict results \<Rightarrow>
         rbind (value_require (fst ` set results = fst ` set expected)
           ''Release validation job inventory differs'') (\<lambda>_.
         rbind (ditem results ''scope'') (\<lambda>scope.
         rbind (pget scope ''outputs'' (PDict [])) (\<lambda>outputs.
         rbind (pget outputs ''run'' PNone) (\<lambda>r.
         rbind (value_require (r = PStr ''true'') ''Release validation scope must run real checks'') (\<lambda>_.
         rbind (rmap (\<lambda>nr. rbind (pget (snd nr) ''result'' PNone) (\<lambda>got.
             rbind (ditem expected (fst nr)) (\<lambda>want. Inr (got = want)))) results) (\<lambda>oks.
         value_require (\<forall>ok \<in> set oks. ok) ''Release validation did not pass''))))))
     | _ \<Rightarrow> Inl (TypeError ''results''))"

text \<open>The event name, and the event file of a manual dispatch.\<close>

definition event_channel :: "pylib \<Rightarrow> string option \<Rightarrow> string result \<Rightarrow> pyval result" where
  "event_channel L event event_file =
     (if event = Some ''workflow_dispatch'' then
        rbind event_file (\<lambda>t. rbind (loads_text L plain_opts t) (\<lambda>e.
        rbind (pget e ''inputs'' (PDict [])) (\<lambda>i. pget i ''channel'' PNone)))
      else Inr (if event = Some ''push'' then PStr ''beta'' else if event = Some ''schedule'' then PStr ''nightly'' else PNone))"

definition check_event :: "pylib \<Rightarrow> string option \<Rightarrow> string result \<Rightarrow> string \<Rightarrow> unit result" where
  "check_event L event event_file chan =
     rbind (event_channel L event event_file) (\<lambda>expected.
     value_require (validation_channel chan \<and> expected = PStr chan)
       ''Validation channel differs from the release event'')"

text \<open>\<open>str(x)\<close> of anything but a string never starts like a job name.\<close>

definition name_text :: "pyval \<Rightarrow> string" where
  "name_text v = (case v of PStr s \<Rightarrow> s | _ \<Rightarrow> [])"

definition jobs_named :: "(pyval \<Rightarrow> bool) \<Rightarrow> pyval list \<Rightarrow> pyval list result" where
  "jobs_named p jobs =
     rbind (rmap (\<lambda>job. pget job ''name'' PNone) jobs) (\<lambda>names.
     Inr (map fst (filter (\<lambda>jn. p (snd jn)) (zip jobs names))))"

definition succeeded_at :: "string \<Rightarrow> pyval \<Rightarrow> bool" where
  "succeeded_at sha job =
     (case job of
        PDict d \<Rightarrow> dget d ''head_sha'' PNone = PStr sha \<and> dget d ''status'' PNone = PStr ''completed''
          \<and> dget d ''conclusion'' PNone = PStr ''success''
      | _ \<Rightarrow> False)"

definition check_run_jobs :: "pyval list \<Rightarrow> string \<Rightarrow> string \<Rightarrow> unit result" where
  "check_run_jobs jobs chan sha =
     rbind (jobs_named (\<lambda>n. prefix ''checks / Validation profile ('' (name_text n)) jobs) (\<lambda>markers.
     rbind (value_require (length markers = 1)
       ''Release validation must have exactly one channel profile'') (\<lambda>_.
     riter (\<lambda>name.
       rbind (jobs_named (\<lambda>n. n = PStr name) jobs) (\<lambda>matches.
       value_require (length matches = 1 \<and> (\<forall>m \<in> set matches. succeeded_at sha m))
         ''Release validation profile and CI gate must succeed at the source SHA''))
       [''checks / CI gate'', ''checks / Validation profile ('' @ chan @ '')'']))"

section \<open>A gate that passes\<close>

lemma map_of_dict_set: "map_of (dict_set d k v) k' = (if k' = k then Some v else map_of d k')"
  by (induction d k v rule: dict_set.induct) auto

lemma set_all_Cons: "set_all d (k # ks) v = set_all (dict_set d k (PStr v)) ks v"
  by (simp add: set_all_def)

lemma map_of_set_all:
  "map_of (set_all d names v) k = (if k \<in> set names then Some (PStr v) else map_of d k)"
  by (induction names arbitrary: d) (auto simp: set_all_Cons map_of_dict_set, simp_all add: set_all_def)

lemma dict_keys: "fst ` set d = dom (map_of d)"
  by (simp add: dom_map_of_conv_image_fst)

text \<open>
  The jobs of the policy, each with the text of its report or the index of its validator, and the
  result a job must show. A coverage job is named after the report at its position.
\<close>

definition coverage_jobs :: "jobject \<Rightarrow> string list \<Rightarrow> bool" where
  "coverage_jobs policy cs \<longleftrightarrow>
     (\<exists>reports rs. pget (dget policy ''coverage'' (PDict [])) ''reports'' (PList []) = Inr reports
        \<and> iter_items reports = Inr rs
        \<and> list_all2 (\<lambda>r c. \<exists>d s. r = PDict d \<and> map_of d ''name'' = Some (PStr s) \<and> c = ''coverage-'' @ s) rs cs)"

definition beta_validators :: "jobject \<Rightarrow> pyval list \<Rightarrow> bool" where
  "beta_validators policy names \<longleftrightarrow>
     (\<exists>c. map_of policy ''channel_validation_workflows'' = Some (PDict c) \<and> map_of c ''beta'' = Some (PList names))
     \<and> names \<noteq> [] \<and> distinct names \<and> (\<forall>n \<in> set names. local_validator n)"

definition shows_result :: "jobject \<Rightarrow> string \<Rightarrow> string \<Rightarrow> bool" where
  "shows_result results job want \<longleftrightarrow>
     job \<in> fst ` set results \<and>
     (\<forall>r. (job, r) \<in> set results \<longrightarrow> (\<exists>d. r = PDict d \<and> dget d ''result'' PNone = PStr want))"

lemma coverage_name_Inr:
  "coverage_name r = Inr c \<longleftrightarrow> (\<exists>d s. r = PDict d \<and> map_of d ''name'' = Some (PStr s) \<and> c = ''coverage-'' @ s)"
proof
  assume "coverage_name r = Inr c"
  then obtain n where "pitem r ''name'' = Inr n" "(case n of PStr s \<Rightarrow> Inr (''coverage-'' @ s) | _ \<Rightarrow> Inl (TypeError ''can only concatenate str'')) = Inr c"
    by (auto simp: coverage_name_def rbind_Inr_iff)
  then show "\<exists>d s. r = PDict d \<and> map_of d ''name'' = Some (PStr s) \<and> c = ''coverage-'' @ s"
    by (cases r; cases n) (auto simp: pitem_def ditem_def split: option.splits)
qed (auto simp: coverage_name_def pitem_def ditem_def)

lemma dom_first_of:
  "dom (\<lambda>j. if j \<in> A then Some a else if j \<in> B then Some b else if j \<in> C then Some c else if j \<in> D then Some d else None)
     = D \<union> C \<union> B \<union> A"
  by (auto split: if_splits)

lemma rmap_Inr_all2: "rmap f xs = Inr ys \<longleftrightarrow> list_all2 (\<lambda>x y. f x = Inr y) xs ys"
  by (induction xs arbitrary: ys) (auto simp: rbind_Inr_iff list_all2_Cons1)

lemma channel_workflows_beta:
  "channel_workflows policy = Inr (Some names) \<Longrightarrow> beta_validators policy names"
  by (auto simp: channel_workflows_def beta_validators_def rbind_Inr_iff pitem_def ditem_def
      split: option.splits pyval.splits)

lemma all2_coverage:
  "list_all2 (\<lambda>r c. \<exists>d s. r = PDict d \<and> map_of d ''name'' = Some (PStr s) \<and> c = ''coverage-'' @ s) rs cs
     \<Longrightarrow> c \<in> set cs \<Longrightarrow> prefix ''coverage-'' c"
  by (induction rs cs rule: list_all2_induct) auto

text \<open>What the policy and the channel want of each group of jobs.\<close>

lemma expected_results_map:
  assumes "expected_results policy chan = Inr expected"
  defines "full \<equiv> (if chan = ''beta'' then ''skipped'' else ''success'')"
    and "quick \<equiv> (if chan = ''beta'' then ''success'' else ''skipped'')"
  shows "\<exists>ws n names cs. beta_validators policy names \<and> validation_channel chan
    \<and> map_of policy ''validation_workflows'' = Some ws \<and> iter_length ws = Inr n \<and> coverage_jobs policy cs
    \<and> dom (map_of expected) = {''scope'', ''workflow-contracts'', ''release-contracts''}
        \<union> (\<lambda>i. ''check-'' @ nat_str i) ` {..<n} \<union> (\<lambda>i. ''beta-check-'' @ nat_str i) ` {..<length names} \<union> set cs
    \<and> (\<forall>job \<in> {''scope'', ''workflow-contracts'', ''release-contracts''}. map_of expected job = Some (PStr ''success''))
    \<and> (\<forall>i < n. map_of expected (''check-'' @ nat_str i) = Some (PStr full))
    \<and> (\<forall>i < length names. map_of expected (''beta-check-'' @ nat_str i) = Some (PStr quick))
    \<and> (\<forall>c \<in> set cs. map_of expected c = Some (PStr full))"
proof -
  obtain names ws n reports rs cs where
    c: "channel_workflows policy = Inr (Some names)" "validation_channel chan"
      "map_of policy ''validation_workflows'' = Some ws" "iter_length ws = Inr n"
      "pget (dget policy ''coverage'' (PDict [])) ''reports'' (PList []) = Inr reports"
      "iter_items reports = Inr rs" "rmap coverage_name rs = Inr cs"
    and e: "expected = set_all (set_all (set_all (set_all [] [''scope'', ''workflow-contracts'', ''release-contracts''] ''success'')
        (map (\<lambda>i. ''check-'' @ nat_str i) [0..<n]) full) (map (\<lambda>i. ''beta-check-'' @ nat_str i) [0..<length names]) quick) cs full"
    using assms(1) unfolding full_def quick_def
    by (auto simp: expected_results_def rbind_Inr_iff Let_def split: option.splits)
  have l: "list_all2 (\<lambda>r c. \<exists>d s. r = PDict d \<and> map_of d ''name'' = Some (PStr s) \<and> c = ''coverage-'' @ s) rs cs"
    using c(7) by (simp add: rmap_Inr_all2 coverage_name_Inr)
  have cov: "coverage_jobs policy cs" using c(5,6) l by (auto simp: coverage_jobs_def)
  have pre: "prefix ''coverage-'' k" if "k \<in> set cs" for k by (rule all2_coverage [OF l that])
  have m: "map_of expected job = (if job \<in> set cs then Some (PStr full)
      else if job \<in> (\<lambda>i. ''beta-check-'' @ nat_str i) ` {..<length names} then Some (PStr quick)
      else if job \<in> (\<lambda>i. ''check-'' @ nat_str i) ` {..<n} then Some (PStr full)
      else if job \<in> {''scope'', ''workflow-contracts'', ''release-contracts''} then Some (PStr ''success'') else None)" for job
    unfolding e map_of_set_all by (simp add: atLeast0LessThan)
  have not_cs: "''check-'' @ k \<notin> set cs" "''beta-check-'' @ k \<notin> set cs" "''scope'' \<notin> set cs"
    "''workflow-contracts'' \<notin> set cs" "''release-contracts'' \<notin> set cs" for k
    using pre by fastforce+
  have d: "dom (map_of expected) = {''scope'', ''workflow-contracts'', ''release-contracts''}
        \<union> (\<lambda>i. ''check-'' @ nat_str i) ` {..<n} \<union> (\<lambda>i. ''beta-check-'' @ nat_str i) ` {..<length names} \<union> set cs"
    by (simp only: ext [of "map_of expected", OF m] dom_first_of)
  have contracts: "\<forall>job \<in> {''scope'', ''workflow-contracts'', ''release-contracts''}. map_of expected job = Some (PStr ''success'')"
    by (auto simp: m not_cs)
  have checks: "\<forall>i < n. map_of expected (''check-'' @ nat_str i) = Some (PStr full)"
    by (auto simp: m not_cs [simplified])
  have betas: "\<forall>i < length names. map_of expected (''beta-check-'' @ nat_str i) = Some (PStr quick)"
    by (auto simp: m not_cs [simplified])
  have covs: "\<forall>c \<in> set cs. map_of expected c = Some (PStr full)"
    by (simp add: m)
  show ?thesis
    by (rule exI [of _ ws], rule exI [of _ n], rule exI [of _ names], rule exI [of _ cs])
       (intro conjI channel_workflows_beta [OF c(1)] c(2-4) cov d contracts checks betas covs)
qed

text \<open>
  C15: when the gate accepts a result set, its jobs are exactly the scope, the two contract checks,
  one check per validator of the policy, one beta check per beta validator of the policy and one
  job per coverage report of the policy. Scope and contracts succeeded. On the beta channel every
  beta check succeeded and every full check and coverage job was skipped; on every other channel it
  is the other way round. The change scope demanded real checks.
\<close>

theorem gate_sound:
  assumes "check_results policy chan v = Inr ()"
  shows "\<exists>results ws n names cs. v = PDict results \<and> validation_channel chan
    \<and> beta_validators policy names \<and> coverage_jobs policy cs
    \<and> map_of policy ''validation_workflows'' = Some ws \<and> iter_length ws = Inr n
    \<and> fst ` set results = {''scope'', ''workflow-contracts'', ''release-contracts''}
        \<union> (\<lambda>i. ''check-'' @ nat_str i) ` {..<n} \<union> (\<lambda>i. ''beta-check-'' @ nat_str i) ` {..<length names} \<union> set cs
    \<and> (\<forall>job \<in> {''scope'', ''workflow-contracts'', ''release-contracts''}. shows_result results job ''success'')
    \<and> (\<forall>i < n. shows_result results (''check-'' @ nat_str i) (if chan = ''beta'' then ''skipped'' else ''success''))
    \<and> (\<forall>i < length names. shows_result results (''beta-check-'' @ nat_str i) (if chan = ''beta'' then ''success'' else ''skipped''))
    \<and> (\<forall>c \<in> set cs. shows_result results c (if chan = ''beta'' then ''skipped'' else ''success''))
    \<and> (\<exists>s out. map_of results ''scope'' = Some (PDict s) \<and> dget s ''outputs'' (PDict []) = PDict out
         \<and> dget out ''run'' PNone = PStr ''true'')"
proof -
  obtain expected results scope outputs oks where
    c: "expected_results policy chan = Inr expected" "v = PDict results"
      "fst ` set results = fst ` set expected" "map_of results ''scope'' = Some scope"
      "pget scope ''outputs'' (PDict []) = Inr outputs" "pget outputs ''run'' PNone = Inr (PStr ''true'')"
      "rmap (\<lambda>nr. rbind (pget (snd nr) ''result'' PNone) (\<lambda>got.
             rbind (ditem expected (fst nr)) (\<lambda>want. Inr (got = want)))) results = Inr oks"
      "\<forall>ok \<in> set oks. ok"
    using assms by (cases v) (auto simp: check_results_def rbind_Inr_iff)
  have each: "shows_result results job want" if "map_of expected job = Some (PStr want)" for job want
  proof -
    have "job \<in> fst ` set results" using that c(3) by (metis domI dict_keys)
    moreover have "\<exists>d. r = PDict d \<and> dget d ''result'' PNone = PStr want" if r: "(job, r) \<in> set results" for r
      using rmap_Inr_mem [OF c(7) r] c(8) \<open>map_of expected job = _\<close>
      by (auto simp: rbind_Inr_iff pget_def split: pyval.splits)
    ultimately show ?thesis by (simp add: shows_result_def)
  qed
  have scope: "\<exists>s out. map_of results ''scope'' = Some (PDict s) \<and> dget s ''outputs'' (PDict []) = PDict out
      \<and> dget out ''run'' PNone = PStr ''true''"
    using c(4-6) by (auto simp: pget_def split: pyval.splits)
  from expected_results_map [OF c(1)] obtain ws n names cs where
    p: "beta_validators policy names" "validation_channel chan" "map_of policy ''validation_workflows'' = Some ws"
      "iter_length ws = Inr n" "coverage_jobs policy cs"
    and d: "dom (map_of expected) = {''scope'', ''workflow-contracts'', ''release-contracts''}
        \<union> (\<lambda>i. ''check-'' @ nat_str i) ` {..<n} \<union> (\<lambda>i. ''beta-check-'' @ nat_str i) ` {..<length names} \<union> set cs"
    and j: "\<forall>job \<in> {''scope'', ''workflow-contracts'', ''release-contracts''}. map_of expected job = Some (PStr ''success'')"
      "\<forall>i < n. map_of expected (''check-'' @ nat_str i) = Some (PStr (if chan = ''beta'' then ''skipped'' else ''success''))"
      "\<forall>i < length names. map_of expected (''beta-check-'' @ nat_str i) = Some (PStr (if chan = ''beta'' then ''success'' else ''skipped''))"
      "\<forall>c \<in> set cs. map_of expected c = Some (PStr (if chan = ''beta'' then ''skipped'' else ''success''))"
    by (elim exE conjE) (rule that)
  have keys: "fst ` set results = {''scope'', ''workflow-contracts'', ''release-contracts''}
        \<union> (\<lambda>i. ''check-'' @ nat_str i) ` {..<n} \<union> (\<lambda>i. ''beta-check-'' @ nat_str i) ` {..<length names} \<union> set cs"
    using d c(3) unfolding dict_keys by (rule trans [rotated])
  have shown: "\<forall>job \<in> {''scope'', ''workflow-contracts'', ''release-contracts''}. shows_result results job ''success''"
    "\<forall>i < n. shows_result results (''check-'' @ nat_str i) (if chan = ''beta'' then ''skipped'' else ''success'')"
    "\<forall>i < length names. shows_result results (''beta-check-'' @ nat_str i) (if chan = ''beta'' then ''success'' else ''skipped'')"
    "\<forall>c \<in> set cs. shows_result results c (if chan = ''beta'' then ''skipped'' else ''success'')"
    by (rule ballI, rule each, rule bspec [OF j(1)], assumption)
       (intro allI impI, rule each, rule j(2) [rule_format], assumption,
        intro allI impI, rule each, rule j(3) [rule_format], assumption,
        rule ballI, rule each, rule bspec [OF j(4)], assumption)
  show ?thesis
    by (rule exI [of _ results], rule exI [of _ ws], rule exI [of _ n], rule exI [of _ names], rule exI [of _ cs])
       (intro conjI c(2) p keys shown scope)
qed

definition demo_gate_policy :: jobject where
  "demo_gate_policy =
     [(''channel_validation_workflows'', PDict [(''beta'', PList [PStr ''beta-tests.yml''])]),
      (''single_entry_ci'', PBool True), (''versioning'', PDict []),
      (''validation_workflows'', PList [PStr ''tests.yml''])]"

definition demo_results :: pyval where
  "demo_results =
     PDict [(''scope'', PDict [(''result'', PStr ''success''), (''outputs'', PDict [(''run'', PStr ''true'')])]),
       (''workflow-contracts'', PDict [(''result'', PStr ''success'')]),
       (''release-contracts'', PDict [(''result'', PStr ''success'')]),
       (''check-0'', PDict [(''result'', PStr ''success'')]),
       (''beta-check-0'', PDict [(''result'', PStr ''skipped'')])]"

theorem gate_sound_witness:
  "check_results demo_gate_policy ''rc'' demo_results = Inr ()
   \<and> (\<exists>results. demo_results = PDict results \<and> shows_result results ''check-0'' ''success''
        \<and> shows_result results ''beta-check-0'' ''skipped'')"
proof -
  have g: "check_results demo_gate_policy ''rc'' demo_results = Inr ()" by code_simp
  from gate_sound [OF g] obtain ws n names results where
    r: "demo_results = PDict results" "map_of demo_gate_policy ''validation_workflows'' = Some ws" "iter_length ws = Inr n"
      "beta_validators demo_gate_policy names" "\<forall>i < n. shows_result results (''check-'' @ nat_str i) ''success''"
      "\<forall>i < length names. shows_result results (''beta-check-'' @ nat_str i) ''skipped''"
    by auto
  have "n = 1" using r(2,3) by (auto simp: demo_gate_policy_def iter_length_def)
  moreover have "0 < length names" using r(4) by (simp add: beta_validators_def)
  moreover have "nat_str 0 = ''0''" by code_simp
  ultimately have "shows_result results ''check-0'' ''success''" "shows_result results ''beta-check-0'' ''skipped''"
    using r(5,6) by fastforce+
  with g r(1) show ?thesis by blast
qed

end
