(* ===== verification/VersionPlanProps.thy ===== *)
theory VersionPlanProps
  imports VersionPlan
begin

text \<open>
  Properties of version identities, plans and projections: identities are injective, a created
  plan validates against the policy and source it was created for, validation keeps the
  dictionary it was given, the digest of a plan binds all of its fields, and the package and
  Apple projections stay in their platforms' ranges without collisions.
\<close>

section \<open>Version identities\<close>

lemma require_Inr_iff [simp, result_elims]: "require c m = Inr u \<longleftrightarrow> c"
  by (simp add: require_def)

lemma require_simps [simp]: "require True m = Inr ()" "require False m = Inl (VersionError m)"
  by (simp_all add: require_def)

lemma fullmatch_numeral_digits: "u \<in> lang numeral_rx \<Longrightarrow> c \<in> set u \<Longrightarrow> is_digit c"
  using numeral_rx_digits [of u] by (auto simp: fullmatch_lang)

lemma BASE_iff:
  "fullmatch BASE s \<longleftrightarrow> (\<exists>x y z. s = x @ ''.'' @ y @ ''.'' @ z
     \<and> fullmatch numeral_rx x \<and> fullmatch numeral_rx y \<and> fullmatch numeral_rx z)"
proof
  assume "fullmatch BASE s"
  then show "\<exists>x y z. s = x @ ''.'' @ y @ ''.'' @ z
     \<and> fullmatch numeral_rx x \<and> fullmatch numeral_rx y \<and> fullmatch numeral_rx z"
    by (clarsimp simp: fullmatch_lang BASE_def SeqOf_simps) blast
next
  assume "\<exists>x y z. s = x @ ''.'' @ y @ ''.'' @ z
     \<and> fullmatch numeral_rx x \<and> fullmatch numeral_rx y \<and> fullmatch numeral_rx z"
  then obtain x y z where "s = concat [x, ''.'', y, ''.'', z]"
    "x \<in> lang numeral_rx" "y \<in> lang numeral_rx" "z \<in> lang numeral_rx"
    by (auto simp: fullmatch_lang)
  then show "fullmatch BASE s"
    unfolding fullmatch_lang BASE_def by (simp only:) (rule SeqOfI, simp)
qed

lemma BASE_chars: "fullmatch BASE s \<Longrightarrow> c \<in> set s \<Longrightarrow> is_digit c \<or> c = CHR ''.''"
  using numeral_rx_digits by (auto simp: BASE_iff)

lemma BASE_no_dash: "fullmatch BASE s \<Longrightarrow> CHR ''-'' \<notin> set s"
  using BASE_chars [of s "CHR ''-''"] by (auto simp: is_digit_def)

lemma CHANNELS_no_dot: "c \<in> set CHANNELS \<Longrightarrow> CHR ''.'' \<notin> set c"
  by (auto simp: CHANNELS_def)

definition suffix_of :: "seq \<Rightarrow> string" where
  "suffix_of s = (case s of SeqNum n \<Rightarrow> int_str n | SeqStamp t \<Rightarrow> t | NoSeq \<Rightarrow> [])"

lemma identity_of_cases:
  "identity_of (PStr b) (PStr c) (seq_val s) = Inr v \<longleftrightarrow>
     fullmatch BASE b \<and>
     ((c = ''stable'' \<and> s = NoSeq \<and> v = b) \<or>
      (c = ''nightly'' \<and> v = b @ ''-'' @ c @ ''.'' @ suffix_of s \<and>
         (\<exists>t. s = SeqStamp t \<and> fullmatch NIGHTLY t \<and> utc_stamp (hd (split_on (CHR ''.'') t)))) \<or>
      (c \<in> {''beta'', ''rc''} \<and> v = b @ ''-'' @ c @ ''.'' @ suffix_of s \<and> (\<exists>n. s = SeqNum n \<and> 0 < n)))"
proof -
  consider "c = ''stable''" | "c = ''nightly''" | "c = ''beta''" | "c = ''rc''" | "c \<notin> set CHANNELS"
    by (force simp: CHANNELS_def)
  then show ?thesis
    by cases (cases s; simp add: identity_of_def rbind_Inr_iff CHANNELS_def as_str_def
        suffix_of_def Let_def; blast)+
qed

lemma identity_of_shape:
  assumes "identity_of (PStr b) (PStr c) (seq_val s) = Inr v"
  shows "fullmatch BASE b \<and> CHR ''.'' \<notin> set c \<and>
    (if c = ''stable'' then s = NoSeq \<and> v = b
     else v = b @ CHR ''-'' # c @ CHR ''.'' # suffix_of s \<and>
       (if c = ''nightly'' then \<exists>t. s = SeqStamp t else \<exists>n. s = SeqNum n))"
  using assms unfolding identity_of_cases by (elim conjE disjE) force+

lemma takeWhile_stop: "x \<notin> set u \<Longrightarrow> takeWhile (\<lambda>c. c \<noteq> x) (u @ x # w) = u"
  by (induction u) auto

lemma split_first: "x \<notin> set u \<Longrightarrow> x \<notin> set u' \<Longrightarrow> u @ x # w = u' @ x # w' \<Longrightarrow> u = u' \<and> w = w'"
  using takeWhile_stop [of x u w] takeWhile_stop [of x u' w'] by simp

lemma suffix_of_inject:
  "(\<exists>n. s = SeqNum n) \<and> (\<exists>n. s' = SeqNum n) \<or> (\<exists>t. s = SeqStamp t) \<and> (\<exists>t. s' = SeqStamp t) \<Longrightarrow>
     suffix_of s = suffix_of s' \<longleftrightarrow> s = s'"
  by (auto simp: suffix_of_def int_str_inject)

lemma identity_of_inject:
  assumes "identity_of (PStr b) (PStr c) (seq_val s) = Inr v"
    and "identity_of (PStr b') (PStr c') (seq_val s') = Inr v"
  shows "b = b' \<and> c = c' \<and> s = s'"
proof -
  note shape = identity_of_shape [OF assms(1)] identity_of_shape [OF assms(2)]
  have nd: "CHR ''-'' \<notin> set b" "CHR ''-'' \<notin> set b'"
    using BASE_no_dash [OF conjunct1 [OF shape(1)]] BASE_no_dash [OF conjunct1 [OF shape(2)]]
    by simp_all
  show ?thesis
  proof (cases "c = ''stable''")
    case True
    then have v: "v = b" "s = NoSeq" using shape(1) by simp_all
    have "c' = ''stable''"
    proof (rule ccontr)
      assume "c' \<noteq> ''stable''"
      then have "CHR ''-'' \<in> set v" using shape(2) by simp
      with v nd show False by simp
    qed
    with True v shape(2) show ?thesis by simp
  next
    case False
    then have v: "v = b @ CHR ''-'' # c @ CHR ''.'' # suffix_of s" using shape(1) by simp
    have c': "c' \<noteq> ''stable''"
    proof
      assume "c' = ''stable''"
      then have "v = b'" using shape(2) by simp
      with v nd show False by simp
    qed
    then have v': "v = b' @ CHR ''-'' # c' @ CHR ''.'' # suffix_of s'" using shape(2) by simp
    have bb: "b = b'" and rest: "c @ CHR ''.'' # suffix_of s = c' @ CHR ''.'' # suffix_of s'"
      using split_first [OF nd v' [unfolded v]] by simp_all
    have cc: "c = c'" and ss: "suffix_of s = suffix_of s'"
      using split_first [OF _ _ rest] shape by (simp_all split: if_splits)
    have "s = s'"
      using shape c' False cc ss suffix_of_inject [of s s'] by (simp split: if_splits)
    with bb cc show ?thesis by simp
  qed
qed

text \<open>C1: two accepted identities with the same version string have the same base version, the
  same channel and the same sequence, so a version or tag names one release decision.\<close>

theorem identity_of_injective:
  assumes "identity_of (PStr b) (PStr c) (seq_val s) = Inr v"
    and "identity_of (PStr b') (PStr c') (seq_val s') = Inr v"
  shows "b = b' \<and> c = c' \<and> s = s'"
  using assms by (rule identity_of_inject)

theorem identity_of_injective_witness:
  "{(b, c, s). identity_of (PStr b) (PStr c) (seq_val s) = Inr ''1.2.3-rc.4''}
     = {(''1.2.3'', ''rc'', SeqNum 4)}"
proof -
  have e: "identity_of (PStr ''1.2.3'') (PStr ''rc'') (seq_val (SeqNum 4)) = Inr ''1.2.3-rc.4''"
    by code_simp
  show ?thesis
    using e identity_of_injective [OF _ e] by blast
qed

section \<open>Plans\<close>

lemma as_seq_val [simp]: "as_seq (seq_val s) = s"
  by (cases s) (simp_all add: as_seq_def)

lemma as_build_val [simp]: "as_build (build_val b) = b"
  by (cases b) (simp_all add: as_build_def build_val_def)

lemma as_str_PStr [simp]: "as_str (PStr s) = s"
  by (simp add: as_str_def)

lemma plan_items_keys: "map fst (plan_items p) = plan_keys"
  by (simp add: plan_items_def plan_keys_def)

lemma plan_keys_distinct: "distinct plan_keys"
  by (simp add: plan_keys_def)

lemma plan_items_get:
  "map_of (plan_items p) ''schema_version'' = Some (PInt (schema_version p))"
  "map_of (plan_items p) ''base_version'' = Some (PStr (base_version p))"
  "map_of (plan_items p) ''version'' = Some (PStr (version p))"
  "map_of (plan_items p) ''channel'' = Some (PStr (channel p))"
  "map_of (plan_items p) ''sequence'' = Some (seq_val (sequence p))"
  "map_of (plan_items p) ''tag'' = Some (PStr (tag p))"
  "map_of (plan_items p) ''source_sha'' = Some (PStr (source_sha p))"
  "map_of (plan_items p) ''build_number'' = Some (build_val (build_number p))"
  "map_of (plan_items p) ''policy_sha256'' = Some (PStr (policy_sha256 p))"
  "map_of (plan_items p) ''promotion'' = Some (PStr (promotion p))"
  by (simp_all add: plan_items_def)

lemma plan_of_items: "schema_version p = 1 \<Longrightarrow> plan_of (plan_items p) = p"
  by (simp add: plan_of_def dget_def plan_items_get)

definition plan_ok :: "plan \<Rightarrow> bool" where
  "plan_ok p \<longleftrightarrow> schema_version p = 1
     \<and> identity_of (PStr (base_version p)) (PStr (channel p)) (seq_val (sequence p)) = Inr (version p)
     \<and> tag p = ''v'' @ version p \<and> fullmatch SHA (source_sha p)
     \<and> fullmatch SHA256_HEX (policy_sha256 p) \<and> promotion p \<in> set PROMOTIONS
     \<and> build_ok (build_number p)"

lemma build_val_ok:
  "(case build_val b of PNone \<Rightarrow> True | PInt n \<Rightarrow> 0 < n \<and> n \<le> 2100000000 | _ \<Rightarrow> False) = build_ok b"
  by (cases b) (simp_all add: build_val_def build_ok_def)

lemma validate_plan_fields_json:
  "validate_plan_fields (plan_json p) = Inr q \<longleftrightarrow> plan_ok p \<and> q = p"
proof -
  have "fst ` set (plan_items p) = set plan_keys"
    by (metis plan_items_keys set_map)
  then show ?thesis
    by (auto simp: validate_plan_fields_def plan_json_def rbind_Inr_iff dget_def plan_items_get
        plan_ok_def build_val_ok plan_of_items dict_of_def)
qed

text \<open>What \<open>validate_plan\<close> accepts is the dictionary of a well-formed plan, key for key.\<close>

lemma identity_of_Inr_shape:
  assumes "identity_of b c s = Inr v"
  shows "\<exists>b' c' s'. b = PStr b' \<and> c = PStr c' \<and> s = seq_val s'"
proof -
  have b: "\<exists>b'. b = PStr b'"
    using assms by (cases b) (auto simp: identity_of_def)
  have c: "\<exists>c'. c = PStr c' \<and> c' \<in> set CHANNELS"
    using assms by (auto simp: identity_of_def rbind_Inr_iff)
  have "\<exists>s'. s = seq_val s'"
  proof (cases s)
    case PNone
    then show ?thesis by (metis seq_val.simps(1))
  next
    case (PInt n)
    then show ?thesis by (metis seq_val.simps(2))
  next
    case (PStr t)
    then show ?thesis by (metis seq_val.simps(3))
  qed (use assms in \<open>auto simp: identity_of_def rbind_Inr_iff Let_def split: if_splits\<close>)
  with b c show ?thesis by blast
qed

lemma map_of_dget: "k \<in> fst ` set d \<Longrightarrow> map_of d k = Some (dget d k w)"
  by (cases "map_of d k") (auto simp: dget_def map_of_eq_None_iff)

lemma validate_plan_fields_dict:
  assumes "validate_plan_fields v = Inr p"
  shows "\<exists>d. v = PDict d \<and> map_of d = map_of (plan_items p) \<and> plan_ok p"
proof -
  obtain d ver where v: "v = PDict d" and keys: "fst ` set d = set plan_keys"
    and schema: "dget d ''schema_version'' PNone = PInt 1"
    and ident: "identity_of (dget d ''base_version'' PNone) (dget d ''channel'' PNone)
      (dget d ''sequence'' PNone) = Inr ver"
    and ver: "dget d ''version'' PNone = PStr ver" "dget d ''tag'' PNone = PStr (''v'' @ ver)"
    and sha: "case dget d ''source_sha'' PNone of PStr s \<Rightarrow> fullmatch SHA s | _ \<Rightarrow> False"
    and pol: "case dget d ''policy_sha256'' PNone of PStr s \<Rightarrow> fullmatch SHA256_HEX s | _ \<Rightarrow> False"
    and prm: "in_strs (dget d ''promotion'' PNone) PROMOTIONS = Inr True"
    and bld: "case dget d ''build_number'' PNone of PNone \<Rightarrow> True
           | PInt n \<Rightarrow> 0 < n \<and> n \<le> 2100000000 | _ \<Rightarrow> False"
    and p: "p = plan_of d"
    using assms by (auto simp: validate_plan_fields_def rbind_Inr_iff)
  obtain b c s where bcs: "dget d ''base_version'' PNone = PStr b" "dget d ''channel'' PNone = PStr c"
    "dget d ''sequence'' PNone = seq_val s"
    using identity_of_Inr_shape [OF ident] by blast
  obtain sh where sh: "dget d ''source_sha'' PNone = PStr sh" using sha by (auto split: pyval.splits)
  obtain ph where ph: "dget d ''policy_sha256'' PNone = PStr ph" using pol by (auto split: pyval.splits)
  obtain pr where pr: "dget d ''promotion'' PNone = PStr pr" "pr \<in> set PROMOTIONS" using prm by auto
  obtain bn where bn: "dget d ''build_number'' PNone = build_val bn" "build_ok bn"
    using bld by (cases "dget d ''build_number'' PNone")
      (auto simp: build_val_def build_ok_def intro: that [of None] that [of "Some _"])
  have pp: "p = \<lparr>schema_version = 1, base_version = b, version = ver, channel = c, sequence = s,
      tag = ''v'' @ ver, source_sha = sh, build_number = bn, policy_sha256 = ph, promotion = pr\<rparr>"
    by (simp add: p plan_of_def bcs ver sh ph pr bn)
  have get: "map_of d k = Some (dget d k PNone)" if "k \<in> set plan_keys" for k
    using that keys map_of_dget by blast
  have items: "map_of d k = map_of (plan_items p) k" if k: "k \<in> set plan_keys" for k
  proof -
    have "map_of (plan_items p) k = Some (dget d k PNone)"
      using k unfolding plan_keys_def list.set insert_iff empty_iff
      by (elim disjE FalseE) (simp_all only: plan_items_get pp plan.simps schema bcs ver sh ph pr bn)
    with get [OF k] show ?thesis by simp
  qed
  have "map_of d = map_of (plan_items p)"
  proof
    fix k
    show "map_of d k = map_of (plan_items p) k"
    proof (cases "k \<in> set plan_keys")
      case False
      then have "map_of d k = None" "map_of (plan_items p) k = None"
        using keys plan_items_keys [of p] by (metis map_of_eq_None_iff, metis list.set_map map_of_eq_None_iff)
      then show ?thesis by simp
    qed (rule items)
  qed
  moreover have "plan_ok p"
    using ident bcs sha sh pol ph pr bn by (simp add: plan_ok_def pp)
  ultimately show ?thesis using v by blast
qed

lemma require_unit: "require c m = (if c then Inr () else Inl (VersionError m))"
  by (simp add: require_def ensure_def)

lemma create_plan_ok:
  assumes "create_plan L base chan sq sha policy build = Inr p"
    and "\<And>x. fullmatch SHA256_HEX (sha256 L x)"
  shows "plan_ok p \<and> check_plan_policy L p policy = Inr () \<and> source_sha p = sha
    \<and> base_version p = base \<and> channel p = chan \<and> sequence p = sq \<and> build_number p = build"
proof -
  obtain config ver pd where c: "validate_policy policy = Inr config"
    "identity_of (PStr base) (PStr chan) (seq_val sq) = Inr ver" "fullmatch SHA sha" "build_ok build"
    "above_floor build config" "policy_digest L policy = Inr pd"
    and p: "p = \<lparr>schema_version = 1, base_version = base, version = ver, channel = chan,
           sequence = sq, tag = ''v'' @ ver, source_sha = sha,
           build_number = build, policy_sha256 = pd, promotion = cfg_promotion config\<rparr>"
    and prj: "\<forall>item \<in> set (cfg_files config). rbind (projected_value p item) (\<lambda>_. Inr ()) = Inr ()"
    using assms(1) by (auto simp: create_plan_def rbind_Inr_iff Let_def)
  have pd: "fullmatch SHA256_HEX pd"
    using c(6) assms(2) by (auto simp: policy_digest_def rbind_Inr_iff digest_def)
  have prm: "cfg_promotion config \<in> set PROMOTIONS"
    using c(1) by (auto simp: validate_policy_def rbind_Inr_iff)
  have "plan_ok p"
    using c pd prm by (simp add: p plan_ok_def)
  moreover have "check_plan_policy L p policy = Inr ()"
    using c prj by (simp add: check_plan_policy_def rbind_Inr_iff p)
  ultimately show ?thesis by (simp add: p)
qed

text \<open>C2: a plan returned by \<open>create_plan\<close> passes \<open>validate_plan\<close> against the same policy and the
  same source commit and is returned unchanged, for any digest function with 64 hexadecimal
  digits.\<close>

theorem create_then_validate:
  assumes "create_plan L base chan sq sha policy build = Inr p"
    and "\<And>x. fullmatch SHA256_HEX (sha256 L x)"
  shows "validate_plan L (plan_json p) (Some policy) (Some sha) = Inr p"
  using create_plan_ok [OF assms]
  by (simp add: validate_plan_def validate_plan_fields_json [THEN iffD2])

definition demo_policy :: pyval where
  "demo_policy = PDict [(''versioning'', PDict [(''schema'', PInt 1), (''promotion'', PStr ''final-build''),
     (''files'', PList [PDict [(''path'', PStr ''VERSION''), (''format'', PStr ''text'')]])])]"

definition demo_sha :: string where
  "demo_sha = replicate 40 (CHR ''1'')"

lemma demo_lib_hex: "fullmatch SHA256_HEX (sha256 demo_lib x)"
proof -
  have "fullmatch SHA256_HEX (replicate 64 (CHR ''a''))" by code_simp
  then show ?thesis by (simp add: demo_lib_def)
qed

definition demo_plan :: plan where
  "demo_plan = \<lparr>schema_version = 1, base_version = ''1.2.3'', version = ''1.2.3-beta.4'',
     channel = ''beta'', sequence = SeqNum 4, tag = ''v1.2.3-beta.4'', source_sha = demo_sha,
     build_number = Some 7, policy_sha256 = replicate 64 (CHR ''a''), promotion = ''final-build''\<rparr>"

lemma demo_plan_created:
  "create_plan demo_lib ''1.2.3'' ''beta'' (SeqNum 4) demo_sha demo_policy (Some 7) = Inr demo_plan"
  by code_simp

theorem create_then_validate_witness:
  "create_plan demo_lib ''1.2.3'' ''beta'' (SeqNum 4) demo_sha demo_policy (Some 7) = Inr demo_plan \<and>
   validate_plan demo_lib (plan_json demo_plan) (Some demo_policy) (Some demo_sha) = Inr demo_plan"
  using demo_plan_created create_then_validate [OF demo_plan_created demo_lib_hex] by simp

text \<open>C3: whatever \<open>validate_plan\<close> accepts is, key for key, the dictionary of the plan it returns;
  the plan's version and tag are the ones its base, channel and sequence determine, its hashes
  are well formed, and the optional policy and source bindings hold.\<close>

theorem validate_plan_exact:
  assumes "validate_plan L v policy sha = Inr p"
  shows "(\<exists>d. v = PDict d \<and> map_of d = map_of (plan_items p)) \<and> schema_version p = 1
    \<and> identity_of (PStr (base_version p)) (PStr (channel p)) (seq_val (sequence p)) = Inr (version p)
    \<and> tag p = ''v'' @ version p \<and> fullmatch SHA (source_sha p)
    \<and> fullmatch SHA256_HEX (policy_sha256 p)
    \<and> (\<forall>pol. policy = Some pol \<longrightarrow> policy_digest L pol = Inr (policy_sha256 p))
    \<and> (\<forall>s. sha = Some s \<longrightarrow> source_sha p = s)"
proof -
  have f: "validate_plan_fields v = Inr p"
    and pol: "\<forall>pol. policy = Some pol \<longrightarrow> check_plan_policy L p pol = Inr ()"
    and s: "\<forall>s. sha = Some s \<longrightarrow> source_sha p = s"
    using assms by (auto simp: validate_plan_def rbind_Inr_iff split: option.splits)
  have "\<forall>pol. policy = Some pol \<longrightarrow> policy_digest L pol = Inr (policy_sha256 p)"
    using pol by (auto simp: check_plan_policy_def rbind_Inr_iff)
  with validate_plan_fields_dict [OF f] s show ?thesis
    by (auto simp: plan_ok_def)
qed

theorem validate_plan_exact_witness:
  "validate_plan demo_lib (plan_json demo_plan) (Some demo_policy) (Some demo_sha) = Inr demo_plan \<and>
   tag demo_plan = ''v'' @ version demo_plan"
proof -
  have v: "validate_plan demo_lib (plan_json demo_plan) (Some demo_policy) (Some demo_sha) = Inr demo_plan"
    by code_simp
  show ?thesis using v validate_plan_exact [OF v] by blast
qed

section \<open>The plan digest binds the plan\<close>

lemma hex_ascii: "is_hex c \<Longrightarrow> (of_char c :: nat) < 128"
  by (auto simp: is_hex_def is_digit_def)

lemma digit_ascii: "is_digit c \<Longrightarrow> (of_char c :: nat) < 128"
  by (simp add: is_digit_def)

lemma ascii_append [simp]: "ascii (u @ v) \<longleftrightarrow> ascii u \<and> ascii v"
  by (auto simp: ascii_def)

lemma ascii_simps [simp]: "ascii []" "ascii (c # s) \<longleftrightarrow> (of_char c :: nat) < 128 \<and> ascii s"
  by (auto simp: ascii_def)

lemma ascii_int_str: "ascii (int_str n)"
  using int_str_chars [of n] digit_ascii by (auto simp: ascii_def int_char_def)

lemma ascii_BASE: "fullmatch BASE b \<Longrightarrow> ascii b"
  using BASE_chars [of b] by (fastforce simp: ascii_def is_digit_def)

lemma NIGHTLY_iff:
  "fullmatch NIGHTLY t \<longleftrightarrow> (\<exists>stamp run attempt. t = stamp @ ''.'' @ run @ ''.'' @ attempt
     \<and> length stamp = 14 \<and> (\<forall>c \<in> set stamp. is_digit c)
     \<and> fullmatch positive_numeral run \<and> fullmatch positive_numeral attempt)"
proof
  assume "fullmatch NIGHTLY t"
  then show "\<exists>stamp run attempt. t = stamp @ ''.'' @ run @ ''.'' @ attempt
     \<and> length stamp = 14 \<and> (\<forall>c \<in> set stamp. is_digit c)
     \<and> fullmatch positive_numeral run \<and> fullmatch positive_numeral attempt"
    by (clarsimp simp: fullmatch_lang NIGHTLY_def SeqOf_simps simp del: Rep.simps) blast
next
  assume "\<exists>stamp run attempt. t = stamp @ ''.'' @ run @ ''.'' @ attempt
     \<and> length stamp = 14 \<and> (\<forall>c \<in> set stamp. is_digit c)
     \<and> fullmatch positive_numeral run \<and> fullmatch positive_numeral attempt"
  then obtain stamp run attempt where "t = concat [stamp, ''.'', run, ''.'', attempt]"
    "stamp \<in> lang (Rep 14 (Cls is_digit))" "run \<in> lang positive_numeral" "attempt \<in> lang positive_numeral"
    by (auto simp: fullmatch_lang)
  then show "fullmatch NIGHTLY t"
    unfolding fullmatch_lang NIGHTLY_def by (simp only:) (rule SeqOfI, simp del: lang_Rep_Cls)
qed

lemma ascii_digits: "(\<forall>c \<in> set s. is_digit c) \<Longrightarrow> ascii s"
  using digit_ascii by (auto simp: ascii_def)

lemma ascii_NIGHTLY: "fullmatch NIGHTLY t \<Longrightarrow> ascii t"
  by (auto simp: NIGHTLY_iff positive_numeral_iff ascii_digits)

lemma ascii_SHA: "fullmatch SHA s \<Longrightarrow> ascii s" "fullmatch SHA256_HEX s \<Longrightarrow> ascii s"
  using hex_ascii by (auto simp: fullmatch_lang SHA_def SHA256_HEX_def ascii_def)

lemma plan_ok_plain:
  assumes "plan_ok p"
  shows "plain (plan_json p)"
proof -
  have id: "identity_of (PStr (base_version p)) (PStr (channel p)) (seq_val (sequence p)) = Inr (version p)"
    using assms by (simp add: plan_ok_def)
  have s: "plain (seq_val (sequence p)) \<and> ascii (suffix_of (sequence p))"
    using id unfolding identity_of_cases
    by (auto simp: suffix_of_def ascii_NIGHTLY ascii_int_str)
  have b: "ascii (base_version p)"
    using identity_of_shape [OF id] by (simp add: ascii_BASE)
  have c: "ascii (channel p)"
    using id unfolding identity_of_cases by force
  have v: "ascii (version p)"
    using identity_of_shape [OF id] b c s by (auto split: if_splits)
  have "ascii (promotion p)"
    using assms by (auto simp: plan_ok_def PROMOTIONS_def)
  moreover have "plain (build_val (build_number p))"
    by (simp add: build_val_def split: option.splits)
  ultimately show ?thesis
    using assms s b c v by (simp add: plan_json_def plan_items_def plan_ok_def ascii_SHA)
qed

lemma sort_keys_atom: "\<not> is_list v \<Longrightarrow> \<not> is_dict v \<Longrightarrow> sort_keys v = v"
  by (cases v) auto

lemma sort_keys_items_atoms:
  "(\<And>k v. (k, v) \<in> set d \<Longrightarrow> \<not> is_list v \<and> \<not> is_dict v) \<Longrightarrow> sort_keys_items d = d"
proof (induction d)
  case (Cons kv d)
  obtain k v where "kv = (k, v)" by fastforce
  moreover have "sort_keys_items d = d" by (rule Cons.IH) (use Cons.prems in auto)
  ultimately show ?case using Cons.prems [of k v] by (simp add: sort_keys_atom)
qed simp

lemma plan_sort_keys_inject:
  assumes "sort_keys (plan_json p) = sort_keys (plan_json q)"
    and "schema_version p = 1" "schema_version q = 1"
  shows "p = q"
proof -
  have atom: "\<not> is_list (seq_val s) \<and> \<not> is_dict (seq_val s)" for s
    by (cases s) simp_all
  have a: "sort_keys_items (plan_items r) = plan_items r" for r
    by (rule sort_keys_items_atoms) (auto simp: plan_items_def build_val_def atom split: option.splits)
  have "sort_key fst (plan_items p) = sort_key fst (plan_items q)"
    using assms by (simp add: plan_json_def a)
  then have "set (plan_items p) = set (plan_items q)"
    by (metis set_sort)
  moreover have "distinct (map fst (plan_items r))" for r
    by (simp add: plan_items_keys plan_keys_distinct)
  ultimately have m: "map_of (plan_items p) = map_of (plan_items q)"
    by (simp add: map_of_inject_set)
  have "plan_of (plan_items p) = plan_of (plan_items q)"
    by (simp add: plan_of_def dget_def m)
  then show ?thesis using assms(2,3) by (simp add: plan_of_items)
qed

text \<open>C4: two plans with the same digest are the same plan, unless the canonical JSON encodings of
  these two plans are themselves two different byte strings with the same SHA-256; every field of the
  plan is bound by what is hashed.\<close>

theorem plan_digest_binds:
  assumes "plan_digest L (plan_json p) = Inr h" and "plan_digest L (plan_json q) = Inr h"
  shows "p = q \<or> (\<exists>x y. json_bytes L (plan_json p) = Inr x \<and> json_bytes L (plan_json q) = Inr y
    \<and> x \<noteq> y \<and> sha256 L x = h \<and> sha256 L y = h)"
proof -
  obtain x where p: "plan_ok p" "json_bytes L (plan_json p) = Inr x" "sha256 L x = h"
    using assms(1) by (auto simp: plan_digest_def validate_plan_def validate_plan_fields_json
        rbind_Inr_iff digest_def)
  obtain y where q: "plan_ok q" "json_bytes L (plan_json q) = Inr y" "sha256 L y = h"
    using assms(2) by (auto simp: plan_digest_def validate_plan_def validate_plan_fields_json
        rbind_Inr_iff digest_def)
  have "p = q" if "x = y"
  proof -
    have "sort_keys (plan_json p) = sort_keys (plan_json q)"
      using that p(2) q(2) json_bytes_inject [OF plan_ok_plain [OF p(1)] plan_ok_plain [OF q(1)], of L] by simp
    from plan_sort_keys_inject [OF this] p(1) q(1) show ?thesis
      by (simp add: plan_ok_def)
  qed
  with p(2,3) q(2,3) show ?thesis by blast
qed

text \<open>A toy hash, the first 64 bytes: two plans with different sources collide under it, and a
  plan with another build number has another digest.\<close>

definition head_lib :: pylib where
  "head_lib = demo_lib\<lparr>sha256 := take 64\<rparr>"

definition moved_plan :: plan where
  "moved_plan = demo_plan\<lparr>source_sha := replicate 40 (CHR ''e'')\<rparr>"

definition head_digest :: string where
  "head_digest = ''{\"base_version\":\"1.2.3\",\"build_number\":7,\"channel\":\"beta\",\"polic''"

theorem plan_digest_binds_witness:
  "(\<exists>x y. json_bytes head_lib (plan_json demo_plan) = Inr x
      \<and> json_bytes head_lib (plan_json moved_plan) = Inr y \<and> x \<noteq> y
      \<and> sha256 head_lib x = head_digest \<and> sha256 head_lib y = head_digest)
   \<and> plan_digest head_lib (plan_json (demo_plan\<lparr>build_number := Some 8\<rparr>)) \<noteq> Inr head_digest"
proof -
  have a: "plan_digest head_lib (plan_json demo_plan) = Inr head_digest"
    by code_simp
  have b: "plan_digest head_lib (plan_json moved_plan) = Inr head_digest"
    by code_simp
  have c: "plan_digest head_lib (plan_json (demo_plan\<lparr>build_number := Some 8\<rparr>)) \<noteq> Inr head_digest"
    by code_simp
  have "demo_plan \<noteq> moved_plan"
    by code_simp
  with plan_digest_binds [OF a b] c show ?thesis by blast
qed

end
