(* ===== verification/Projections.thy ===== *)
theory Projections
  imports VersionPlanProps
begin

text \<open>
  The projections of a plan into package and platform versions: a promote-bytes candidate
  carries the package version of the stable release it becomes, the PEP 440 number of a nightly
  fits the 64-bit component and determines run and attempt, and the Apple build string stays in
  the platform's component ranges and is a faithful positional encoding of the build number.
\<close>

section \<open>Promoted bytes\<close>

text \<open>C5: a candidate that will be promoted unchanged is built with exactly the package version
  of the stable plan for the same base, in both package ecosystems, so the promoted bytes already
  carry the stable version.\<close>

theorem promote_bytes_same_package:
  assumes "validate_plan L v pol sha = Inr p" and "validate_plan L w pol' sha' = Inr q"
    and "channel p = ''rc''" and "promotion p = ''promote-bytes''"
    and "channel q = ''stable''" and "base_version q = base_version p"
  shows "package_version p eco = package_version q eco"
proof -
  have "identity_of (PStr (base_version q)) (PStr (channel q)) (seq_val (sequence q)) = Inr (version q)"
    using validate_plan_fields_dict [of w q] assms(2)
    by (auto simp: validate_plan_def rbind_Inr_iff plan_ok_def)
  then have "version q = base_version q"
    using assms(5) identity_of_shape by fastforce
  then show ?thesis
    using assms by (simp add: package_version_def)
qed

definition demo_rc :: plan where
  "demo_rc = \<lparr>schema_version = 1, base_version = ''1.2.3'', version = ''1.2.3-rc.4'',
     channel = ''rc'', sequence = SeqNum 4, tag = ''v1.2.3-rc.4'', source_sha = demo_sha,
     build_number = Some 7, policy_sha256 = replicate 64 (CHR ''a''), promotion = ''promote-bytes''\<rparr>"

definition demo_stable :: plan where
  "demo_stable = \<lparr>schema_version = 1, base_version = ''1.2.3'', version = ''1.2.3'',
     channel = ''stable'', sequence = NoSeq, tag = ''v1.2.3'', source_sha = demo_sha,
     build_number = Some 9, policy_sha256 = replicate 64 (CHR ''a''), promotion = ''promote-bytes''\<rparr>"

lemma demo_rc_valid: "validate_plan demo_lib (plan_json demo_rc) None None = Inr demo_rc"
  by code_simp

lemma demo_stable_valid: "validate_plan demo_lib (plan_json demo_stable) None None = Inr demo_stable"
  by code_simp

theorem promote_bytes_same_package_witness:
  "package_version demo_rc ''pep440'' = package_version demo_stable ''pep440'' \<and>
   package_version demo_rc ''pep440'' = Inr ''1.2.3''"
  using promote_bytes_same_package [OF demo_rc_valid demo_stable_valid, of "''pep440''"]
  by (simp add: demo_rc_def demo_stable_def package_version_def)

section \<open>Nightly numbers\<close>

lemma digits_no_dot: "(\<forall>c \<in> set s. is_digit c) \<Longrightarrow> CHR ''.'' \<notin> set s"
  by (auto simp: is_digit_def)

lemma NIGHTLY_split:
  assumes "fullmatch NIGHTLY t"
  shows "\<exists>stamp run attempt. t = stamp @ ''.'' @ nat_str run @ ''.'' @ nat_str attempt
    \<and> length stamp = 14 \<and> 0 < run \<and> 0 < attempt
    \<and> split_on (CHR ''.'') t = [stamp, nat_str run, nat_str attempt]"
proof -
  obtain stamp run attempt where t: "t = stamp @ ''.'' @ run @ ''.'' @ attempt" "length stamp = 14"
    "\<forall>c \<in> set stamp. is_digit c" "fullmatch positive_numeral run" "fullmatch positive_numeral attempt"
    using assms by (auto simp: NIGHTLY_iff)
  then have nd: "CHR ''.'' \<notin> set stamp" "CHR ''.'' \<notin> set run" "CHR ''.'' \<notin> set attempt"
    by (simp_all add: digits_no_dot positive_numeral_iff)
  then have "split_on (CHR ''.'') t = [stamp, run, attempt]"
    by (simp add: t(1) split_on_append_sep split_on_no_sep)
  then show ?thesis
    using t nat_str_dec_val [OF t(4)] nat_str_dec_val [OF t(5)] dec_val_positive [OF t(4)]
      dec_val_positive [OF t(5)] by (intro exI [of _ stamp] exI [of _ "dec_val run"]
        exI [of _ "dec_val attempt"]) simp
qed

text \<open>C6: the PEP 440 number of a nightly is at most \<open>2^64 - 2\<close>, and its quotient and remainder by
  one million are the run and the attempt of the frozen sequence, so two nightlies of one base
  project to the same package version only when run and attempt agree.\<close>

theorem nightly_package_encodes:
  assumes "fullmatch NIGHTLY t" and "nightly_package b t = Inr v"
  shows "\<exists>stamp run attempt n. t = stamp @ ''.'' @ nat_str run @ ''.'' @ nat_str attempt
    \<and> v = b @ ''.dev'' @ nat_str n \<and> n \<le> 2 ^ 64 - 2 \<and> run = n div 1000000 \<and> attempt = n mod 1000000"
proof -
  obtain stamp run attempt where t: "t = stamp @ ''.'' @ nat_str run @ ''.'' @ nat_str attempt"
    "split_on (CHR ''.'') t = [stamp, nat_str run, nat_str attempt]"
    using NIGHTLY_split [OF assms(1)] by blast
  let ?n = "run * 1000000 + attempt"
  have "int attempt < 1000000" "int run * 1000000 + int attempt \<le> 2 ^ 64 - 2"
    and v: "v = b @ ''.dev'' @ int_str (int run * 1000000 + int attempt)"
    using assms(2) by (auto simp: nightly_package_def t(2) rbind_Inr_iff Let_def)
  then have "attempt < 1000000" "?n \<le> 2 ^ 64 - 2" by simp_all
  moreover have "int_str (int run * 1000000 + int attempt) = nat_str ?n"
    by (simp add: int_str_def nat_add_distrib nat_mult_distrib)
  ultimately show ?thesis
    using t(1) v by (intro exI [of _ stamp] exI [of _ run] exI [of _ attempt] exI [of _ ?n]) simp
qed

theorem nightly_package_encodes_witness:
  "\<exists>stamp run attempt n. ''20240229235959.12.2'' = stamp @ ''.'' @ nat_str run @ ''.'' @ nat_str attempt
    \<and> ''1.2.3.dev12000002'' = ''1.2.3'' @ ''.dev'' @ nat_str n \<and> n \<le> 2 ^ 64 - 2
    \<and> run = n div 1000000 \<and> attempt = n mod 1000000"
proof -
  have "fullmatch NIGHTLY ''20240229235959.12.2''" by code_simp
  moreover have "nightly_package ''1.2.3'' ''20240229235959.12.2'' = Inr ''1.2.3.dev12000002''"
    by (simp add: nightly_package_def dec_val_def int_str_def nat_str.simps Let_def require_def)
  ultimately show ?thesis by (rule nightly_package_encodes)
qed

section \<open>Apple build numbers\<close>

lemma three_digits:
  fixes n x y z :: int
  assumes "x = n div 10000" "y = n div 100 mod 100" "z = n mod 100" "0 \<le> n" "n < 99990000"
  shows "0 \<le> x \<and> x \<le> 9998 \<and> 0 \<le> y \<and> y \<le> 99 \<and> 0 \<le> z \<and> z \<le> 99 \<and> n = x * 10000 + y * 100 + z"
proof -
  have "n = (n div 100 div 100 * 100 + y) * 100 + z"
    unfolding assms(2,3) by (simp only: div_mult_mod_eq)
  moreover have "n div 100 div 100 = x"
    by (simp add: assms(1) zdiv_zmult2_eq [symmetric])
  moreover have "0 \<le> y \<and> y < 100 \<and> 0 \<le> z \<and> z < 100"
    by (simp add: assms)
  ultimately show ?thesis using assms(4,5) by auto
qed

lemma three_digits_unique:
  fixes n x y z :: int
  assumes yz: "0 \<le> y" "y \<le> 99" "0 \<le> z" "z \<le> 99" and n: "n = (x - 1) * 10000 + y * 100 + z"
  shows "x = n div 10000 + 1" "y = n div 100 mod 100" "z = n mod 100"
proof -
  have "n div 10000 = x - 1"
    by (rule int_div_pos_eq [where r = "y * 100 + z"]) (use yz n in simp_all)
  then show "x = n div 10000 + 1" by simp
  have "n div 100 = (x - 1) * 100 + y"
    by (rule int_div_pos_eq [where r = z]) (use yz n in simp_all)
  moreover have "((x - 1) * 100 + y) mod 100 = y"
    by (rule int_mod_pos_eq [where q = "x - 1"]) (use yz in simp_all)
  ultimately show "y = n div 100 mod 100" by simp
  have "n mod 100 = z"
    by (rule int_mod_pos_eq [where q = "(x - 1) * 100 + y"]) (use yz n in simp_all)
  then show "z = n mod 100" by simp
qed

lemma apple_build_digits:
  assumes "0 < b" "b \<le> 99990000"
  obtains x y z where
    "apple_build (Some b) = Some (int_str x @ ''.'' @ int_str y @ ''.'' @ int_str z)"
    "1 \<le> x" "x \<le> 9999" "0 \<le> y" "y \<le> 99" "0 \<le> z" "z \<le> 99"
    "b = (x - 1) * 10000 + y * 100 + z + 1"
proof -
  obtain x y z where xyz: "x = (b - 1) div 10000" "y = (b - 1) div 100 mod 100" "z = (b - 1) mod 100"
    by blast
  have "apple_build (Some b) = Some (int_str (x + 1) @ ''.'' @ int_str y @ ''.'' @ int_str z)"
    unfolding xyz using assms by (simp add: apple_build_def Let_def)
  moreover have "1 \<le> x + 1 \<and> x + 1 \<le> 9999 \<and> 0 \<le> y \<and> y \<le> 99 \<and> 0 \<le> z \<and> z \<le> 99
      \<and> b = (x + 1 - 1) * 10000 + y * 100 + z + 1"
    using three_digits [OF xyz] assms by auto
  ultimately show thesis
    by (elim conjE) (rule that [of "x + 1" y z])
qed

text \<open>An Apple build string exists exactly for build numbers in 1..99990000; it has three
  numeric components in the platform's ranges (1..9999, 0..99, 0..99), which are the positional
  digits of the build number, so the order of builds is kept.\<close>

theorem apple_build_positional:
  "apple_build (Some b) = r \<longleftrightarrow>
     (if 0 < b \<and> b \<le> 99990000
      then \<exists>x y z. r = Some (int_str x @ ''.'' @ int_str y @ ''.'' @ int_str z)
        \<and> 1 \<le> x \<and> x \<le> 9999 \<and> 0 \<le> y \<and> y \<le> 99 \<and> 0 \<le> z \<and> z \<le> 99
        \<and> b = (x - 1) * 10000 + y * 100 + z + 1
      else r = None)" (is "_ \<longleftrightarrow> (if _ then ?enc r else _)")
proof (cases "0 < b \<and> b \<le> 99990000")
  case True
  then obtain x y z where
    a: "apple_build (Some b) = Some (int_str x @ ''.'' @ int_str y @ ''.'' @ int_str z)" and
    b: "1 \<le> x" "x \<le> 9999" "0 \<le> y" "y \<le> 99" "0 \<le> z" "z \<le> 99" "b = (x - 1) * 10000 + y * 100 + z + 1"
    using apple_build_digits by metis
  have same: "int_str x' @ ''.'' @ int_str y' @ ''.'' @ int_str z' = int_str x @ ''.'' @ int_str y @ ''.'' @ int_str z"
    if "0 \<le> y'" "y' \<le> 99" "0 \<le> z'" "z' \<le> 99" "b = (x' - 1) * 10000 + y' * 100 + z' + 1" for x' y' z'
    using three_digits_unique [OF that(1-4), of "b - 1" x'] three_digits_unique [OF b(3-6), of "b - 1" x] that(5) b(7) by simp
  show ?thesis
  proof
    assume "apple_build (Some b) = r"
    then have "r = Some (int_str x @ ''.'' @ int_str y @ ''.'' @ int_str z)"
      using a by (rule trans [OF sym])
    then have "?enc r"
      by (intro exI conjI) (rule b | assumption)+
    with True show "if 0 < b \<and> b \<le> 99990000 then ?enc r else r = None"
      by (simp only: if_True simp_thms)
  next
    assume "if 0 < b \<and> b \<le> 99990000 then ?enc r else r = None"
    with True have "?enc r" by (simp only: if_True simp_thms)
    with a same show "apple_build (Some b) = r"
      by (elim exE conjE) simp
  qed
next
  case False
  then show ?thesis by (auto simp: apple_build_def)
qed

end
