(* ===== verification/ReleaseTags.thy ===== *)
theory ReleaseTags
  imports GitHubClient Projections
begin

text \<open>
  Tag allocation of \<open>scripts/release_control.py\<close>: \<open>ensure_absent\<close>, \<open>next_sequence\<close> and
  \<open>candidate_tag\<close>. A sequence number that \<open>next_sequence\<close> returns is larger than every number
  GitHub lists for the same base and channel.
\<close>

text \<open>\<open>urllib.parse.quote(s, safe='')\<close>.\<close>

definition unreserved :: "char \<Rightarrow> bool" where
  "unreserved c \<longleftrightarrow> is_upper c \<or> is_lower c \<or> is_digit c \<or> c \<in> {CHR ''_'', CHR ''.'', CHR ''-'', CHR ''~''}"

definition upper_hex :: "nat \<Rightarrow> char" where
  "upper_hex n = (if n < 10 then char_of (48 + n) else char_of (55 + n))"

definition quote :: "string \<Rightarrow> string" where
  "quote s = concat (map (\<lambda>c. if unreserved c then [c]
     else [CHR ''%'', upper_hex (of_char c div 16), upper_hex (of_char c mod 16)]) s)"

definition is_none :: "pyval \<Rightarrow> bool" where
  "is_none v \<longleftrightarrow> v = PNone"

definition ensure_absent :: "pylib \<Rightarrow> 'w client \<Rightarrow> string \<Rightarrow> ('w, unit) io" where
  "ensure_absent L gh tagname =
     ibind (optional L gh (''git/ref/tags/'' @ quote tagname)) (\<lambda>ref.
     ibind (ilift (rc_require (is_none ref) ''Tag already exists'')) (\<lambda>_.
     ibind (optional L gh (''releases/tags/'' @ quote tagname)) (\<lambda>release.
     ibind (ilift (rc_require (is_none release) ''Release already exists'')) (\<lambda>_.
     ibind (pages L gh ''releases'' None) (\<lambda>releases.
     ibind (ilift (rmap (\<lambda>r. pget r ''tag_name'' PNone) releases)) (\<lambda>names.
     ilift (rc_require (PStr tagname \<notin> set names) ''Draft release already exists'')))))))"

text \<open>\<open>tag.startswith(prefix)\<close> fails on a tag that is not a string.\<close>

definition tag_text :: "pyval \<Rightarrow> string result" where
  "tag_text v = (case v of PStr s \<Rightarrow> Inr s | _ \<Rightarrow> Inl (AttributeError ''startswith''))"

definition sequence_number :: "string \<Rightarrow> string \<Rightarrow> nat list result" where
  "sequence_number pre t =
     (if prefix pre t \<and> fullmatch positive_numeral (drop (length pre) t) then
        (if length (drop (length pre) t) > 4300
         then Inl (ValueError ''Exceeds the limit for integer string conversion'')
         else Inr [dec_val (drop (length pre) t)])
      else Inr [])"

definition max_default :: "nat \<Rightarrow> nat list \<Rightarrow> nat" where
  "max_default d xs = (if xs = [] then d else Max (set xs))"

definition next_sequence :: "pylib \<Rightarrow> 'w client \<Rightarrow> string \<Rightarrow> string \<Rightarrow> ('w, nat) io" where
  "next_sequence L gh base chan =
     ibind (ilift (rc_require (chan \<in> {''beta'', ''rc''}) ''Sequence only applies to beta and rc'')) (\<lambda>_.
     ibind (ilift (rc_version base)) (\<lambda>b.
     let pre = ''v'' @ b @ ''-'' @ chan @ ''.'' in
     ibind (pages L gh ''tags'' None) (\<lambda>tags.
     ibind (ilift (rmap (\<lambda>t. pget t ''name'' (PStr [])) tags)) (\<lambda>names.
     ibind (pages L gh ''releases'' None) (\<lambda>releases.
     ibind (ilift (rmap (\<lambda>r. pget r ''tag_name'' (PStr [])) releases)) (\<lambda>rnames.
     ibind (ilift (rmap (\<lambda>v. rbind (tag_text v) (sequence_number pre)) (names @ rnames))) (\<lambda>numbers.
     ireturn (max_default 0 (concat numbers) + 1))))))))"

definition candidate_tag ::
  "pylib \<Rightarrow> 'w client \<Rightarrow> string \<Rightarrow> string \<Rightarrow> int \<Rightarrow> int \<Rightarrow> pyval \<Rightarrow> string \<Rightarrow> ('w, string) io" where
  "candidate_tag L gh chan base run_id attempt sq now =
     ibind (ilift (rc_version base)) (\<lambda>b.
     let pre = ''v'' @ b @ ''-'' @ chan @ ''.'' in
     if chan = ''nightly'' then
       ibind (ilift (rc_require (is_none sq) ''Nightly tags do not accept a sequence'')) (\<lambda>_.
       ireturn (pre @ now @ ''.'' @ int_str run_id @ ''.'' @ int_str attempt))
     else
       ibind (ilift (rc_require (chan \<in> {''beta'', ''rc''}) ''Invalid candidate channel'')) (\<lambda>_.
       if is_none sq then ibind (next_sequence L gh base chan) (\<lambda>n. ireturn (pre @ nat_str n))
       else ibind (ilift (positive sq)) (\<lambda>n. ireturn (pre @ int_str n))))"

section \<open>The next sequence is unused\<close>

lemma max_default_ge: "x \<in> set xs \<Longrightarrow> x \<le> max_default d xs"
  by (auto simp: max_default_def)

lemma sequence_number_own:
  assumes "sequence_number pre (pre @ nat_str n) = Inr xs" "0 < n"
  shows "xs = [n]"
  using assms by (auto simp: sequence_number_def positive_numeral_nat_str split: if_splits)

lemma rmap_sequence:
  assumes "rmap (\<lambda>v. rbind (tag_text v) (sequence_number pre)) vs = Inr numbers"
    and "PStr (pre @ nat_str n) \<in> set vs" "0 < n"
  shows "n \<in> set (concat numbers)"
proof -
  obtain i where i: "i < length vs" "vs ! i = PStr (pre @ nat_str n)"
    using assms(2) by (auto simp: in_set_conv_nth)
  have "sequence_number pre (pre @ nat_str n) = Inr (numbers ! i)"
    using rmap_Inr_nth [OF assms(1) i(1)] i(2) by (simp add: tag_text_def)
  then have "numbers ! i = [n]" using sequence_number_own assms(3) by blast
  then show ?thesis
    using i(1) rmap_Inr_length [OF assms(1)] by (force simp: in_set_conv_nth)
qed

text \<open>
  the sequence \<open>next_sequence\<close> returns is positive and larger than the number of every tag and
  every release, drafts included, that GitHub lists for the same base and channel.
\<close>

lemma next_sequence_unused:
  assumes run: "next_sequence L gh base chan w = (Inr n, w')"
    and tags: "pages L gh ''tags'' None w = (Inr ts, w1)"
    and rels: "pages L gh ''releases'' None w1 = (Inr rs, w2)"
    and listed: "PDict t \<in> set ts \<and> dget t ''name'' (PStr []) = PStr (''v'' @ base @ ''-'' @ chan @ ''.'' @ nat_str m)
      \<or> PDict t \<in> set rs \<and> dget t ''tag_name'' (PStr []) = PStr (''v'' @ base @ ''-'' @ chan @ ''.'' @ nat_str m)"
  shows "m < n"
proof (cases "m = 0")
  case True
  with run show ?thesis
    by (auto simp: next_sequence_def ibind_Inr_iff)
next
  case False
  let ?pre = "''v'' @ base @ ''-'' @ chan @ ''.''"
  obtain names rnames numbers where
    n: "rmap (\<lambda>t. pget t ''name'' (PStr [])) ts = Inr names"
       "rmap (\<lambda>r. pget r ''tag_name'' (PStr [])) rs = Inr rnames"
       "rmap (\<lambda>v. rbind (tag_text v) (sequence_number ?pre)) (names @ rnames) = Inr numbers"
       "n = max_default 0 (concat numbers) + 1"
    using run tags rels
    by (auto simp: next_sequence_def rc_version_def ibind_Inr_iff rbind_Inr_iff Let_def)
  have "PStr (?pre @ nat_str m) \<in> set (names @ rnames)"
    using listed rmap_Inr_mem [OF n(1), of "PDict t"] rmap_Inr_mem [OF n(2), of "PDict t"]
    by (auto simp: pget_def)
  from rmap_sequence [OF n(3) this] False have "m \<in> set (concat numbers)" by simp
  then have "m \<le> max_default 0 (concat numbers)" by (rule max_default_ge)
  with n(4) show ?thesis by simp
qed

text \<open>A repository with one tag and one draft, for evaluation.\<close>

definition demo_client :: "unit client" where
  "demo_client = \<lparr>repo = ''o/r'', request = (\<lambda>path method body mode w.
     (Inr (if path = ''tags'' then ''[[{'' @ json_str ''name'' @ '':'' @ json_str ''v1.2.3-rc.2'' @ ''}]]''
           else if path = ''releases'' then ''[[{'' @ json_str ''tag_name'' @ '':'' @ json_str ''v1.2.3-rc.4'' @ ''}]]''
           else []), w))\<rparr>"

lemma demo_pages:
  "pages demo_lib demo_client ''tags'' None () = (Inr [PDict [(''name'', PStr ''v1.2.3-rc.2'')]], ())"
  "pages demo_lib demo_client ''releases'' None () = (Inr [PDict [(''tag_name'', PStr ''v1.2.3-rc.4'')]], ())"
  by code_simp+

lemma next_sequence_unused_witness:
  "next_sequence demo_lib demo_client ''1.2.3'' ''rc'' () = (Inr 5, ()) \<and> (4 :: nat) < 5"
proof -
  have r: "next_sequence demo_lib demo_client ''1.2.3'' ''rc'' () = (Inr 5, ())" by code_simp
  have "nat_str 4 = ''4''" by (simp add: nat_str.simps)
  then show ?thesis
    using r next_sequence_unused [OF r demo_pages, of "[(''tag_name'', PStr ''v1.2.3-rc.4'')]" 4]
    by (simp add: dget_def)
qed

end
