(* ===== verification/Base64.thy ===== *)
theory Base64
  imports Prelude
begin

text \<open>
  \<open>base64.b64encode\<close> and \<open>base64.b64decode(..., validate=True)\<close> of the standard library, which
  carry the version ledger through GitHub's contents API. Decoding inverts encoding.
\<close>

definition b64_char :: "nat \<Rightarrow> char" where
  "b64_char n =
     (if n < 26 then char_of (65 + n)
      else if n < 52 then char_of (71 + n)
      else if n < 62 then char_of (n - 4)
      else if n = 62 then CHR ''+'' else CHR ''/'')"

definition b64_val :: "char \<Rightarrow> nat option" where
  "b64_val c =
     (let n = (of_char c :: nat) in
      if 65 \<le> n \<and> n \<le> 90 then Some (n - 65)
      else if 97 \<le> n \<and> n \<le> 122 then Some (n - 71)
      else if 48 \<le> n \<and> n \<le> 57 then Some (n + 4)
      else if c = CHR ''+'' then Some 62
      else if c = CHR ''/'' then Some 63
      else None)"

fun b64encode :: "string \<Rightarrow> string" where
  "b64encode [] = []"
| "b64encode [a] =
     (let n = (of_char a :: nat) in [b64_char (n div 4), b64_char (n mod 4 * 16), CHR ''='', CHR ''=''])"
| "b64encode [a, b] =
     (let n = (of_char a :: nat); m = (of_char b :: nat)
      in [b64_char (n div 4), b64_char (n mod 4 * 16 + m div 16), b64_char (m mod 16 * 4), CHR ''=''])"
| "b64encode (a # b # c # r) =
     (let n = (of_char a :: nat); m = (of_char b :: nat); k = (of_char c :: nat)
      in b64_char (n div 4) # b64_char (n mod 4 * 16 + m div 16) # b64_char (m mod 16 * 4 + k div 64)
           # b64_char (k mod 64) # b64encode r)"

definition b64_error :: pyerror where
  "b64_error = ValueError ''Invalid base64-encoded string''"

text \<open>Padding only ends the last quantum; the unused low bits of that quantum are ignored.\<close>

fun b64decode :: "string \<Rightarrow> string result" where
  "b64decode [] = Inr []"
| "b64decode (a # b # c # d # r) =
     (case (b64_val a, b64_val b) of
        (Some w, Some x) \<Rightarrow>
          if r = [] \<and> c = CHR ''='' \<and> d = CHR ''='' then Inr [char_of (w * 4 + x div 16)]
          else (case b64_val c of
              None \<Rightarrow> Inl b64_error
            | Some y \<Rightarrow>
                if r = [] \<and> d = CHR ''=''
                then Inr [char_of (w * 4 + x div 16), char_of (x mod 16 * 16 + y div 4)]
                else (case b64_val d of
                    None \<Rightarrow> Inl b64_error
                  | Some z \<Rightarrow>
                      rbind (b64decode r) (\<lambda>t.
                      Inr (char_of (w * 4 + x div 16) # char_of (x mod 16 * 16 + y div 4)
                        # char_of (y mod 4 * 64 + z) # t))))
      | _ \<Rightarrow> Inl b64_error)"
| "b64decode _ = Inl b64_error"

lemma b64_val_char [simp]:
  assumes "n < 64"
  shows "b64_val (b64_char n) = Some n"
proof -
  consider "n < 26" | "26 \<le> n" "n < 52" | "52 \<le> n" "n < 62" | "n = 62" | "n = 63"
    using assms by linarith
  then show ?thesis
    by cases (simp_all add: b64_val_def b64_char_def Let_def, linarith)
qed

lemma b64_char_not_pad [simp]:
  assumes "n < 64"
  shows "b64_char n \<noteq> CHR ''=''"
  using b64_val_char [OF assms] by (auto simp: b64_val_def)

lemma byte_bound: "(of_char c :: nat) < 256"
  by simp

lemma first_byte [simp]: "x < 16 \<Longrightarrow> char_of ((of_char a :: nat) div 4 * 4 + (of_char a mod 4 * 16 + x) div 16) = a"
proof -
  assume "x < 16"
  then have "(of_char a mod 4 * 16 + x) div 16 = (of_char a :: nat) mod 4" by simp
  then show ?thesis by simp
qed

theorem b64_roundtrip: "b64decode (b64encode s) = Inr s"
proof (induction s rule: b64encode.induct)
  case 1
  then show ?case by simp
next
  case (2 a)
  have "(of_char a :: nat) div 4 < 64" "(of_char a :: nat) mod 4 * 16 < 64"
    using byte_bound [of a] by linarith+
  then show ?case using first_byte [of 0 a] by (simp add: Let_def)
next
  case (3 a b)
  have "(of_char a :: nat) div 4 < 64" "(of_char a :: nat) mod 4 * 16 + of_char b div 16 < 64"
    "(of_char b :: nat) mod 16 * 4 < 64" "(of_char b :: nat) div 16 < 16"
    using byte_bound [of a] byte_bound [of b] by linarith+
  then show ?case by (simp add: Let_def)
next
  case (4 a b c r)
  have "(of_char a :: nat) div 4 < 64" "(of_char a :: nat) mod 4 * 16 + of_char b div 16 < 64"
    "(of_char b :: nat) mod 16 * 4 + of_char c div 64 < 64" "(of_char b :: nat) div 16 < 16"
    "(of_char c :: nat) mod 64 < 64" "(of_char c :: nat) div 64 < 4"
    using byte_bound [of a] byte_bound [of b] byte_bound [of c] by linarith+
  then show ?case using 4 by (simp add: Let_def)
qed

end
