(* ===== verification/ReleaseState.thy ===== *)
theory ReleaseState
  imports ReleaseTags Base64
begin

text \<open>
  \<open>scripts/release_state.py\<close>: the version ledger, a JSON file on a branch of its own that GitHub
  updates by compare and swap on the blob's SHA. A reservation gives an Actions run its immutable
  plan and a fresh build number; the start of a publication consumes that number by raising the
  publication floor.

  The ledger dictionary is the record \<open>ledger\<close>. A reservation's plan has passed \<open>validate_plan\<close>, so
  the record \<open>plan\<close> determines its dictionary up to the order of keys; keys the code does not know
  are kept in \<open>extra\<close>.
\<close>

section \<open>Paths and data\<close>

definition BRANCH :: string where "BRANCH = ''release-version-state''"
definition FILE :: string where "FILE = ''release-version-state.json''"
definition READ_PATH :: string where "READ_PATH = ''contents/'' @ FILE @ ''?ref='' @ BRANCH"
definition WRITE_PATH :: string where "WRITE_PATH = ''contents/'' @ FILE"
definition REF_PATH :: string where "REF_PATH = ''git/ref/heads/'' @ BRANCH"

text \<open>\<open>_Reservation\<close> and \<open>_Ledger\<close>. The key \<open>parent\<close> may be absent.\<close>

record reservation =
  res_plan :: plan
  res_parent :: "pyval option"
  res_extra :: jobject

record ledger =
  counter :: int
  publication_floor :: int
  plans :: "(string \<times> reservation) list"
  extra :: jobject

definition empty_ledger :: ledger where
  "empty_ledger = \<lparr>counter = 0, publication_floor = 0, plans = [], extra = []\<rparr>"

definition reservation_json :: "reservation \<Rightarrow> pyval" where
  "reservation_json r =
     PDict ((''plan'', plan_json (res_plan r))
       # (case res_parent r of None \<Rightarrow> [] | Some v \<Rightarrow> [(''parent'', v)]) @ res_extra r)"

definition ledger_json :: "ledger \<Rightarrow> pyval" where
  "ledger_json st =
     PDict ([(''schema'', PInt 1), (''counter'', PInt (counter st)),
       (''publication_floor'', PInt (publication_floor st)),
       (''plans'', PDict (map (\<lambda>(k, r). (k, reservation_json r)) (plans st)))] @ extra st)"

section \<open>The state client\<close>

text \<open>\<open>StateGitHub.request\<close>: two reads and one write of its own, everything else inherited.\<close>

definition state_request ::
  "pylib \<Rightarrow> 'w gh_env \<Rightarrow> string \<Rightarrow> string \<Rightarrow> string \<Rightarrow> jobject option \<Rightarrow> string \<Rightarrow> ('w, string) io" where
  "state_request L E base path method body mode =
     (let is_read = (method = ''GET'' \<and> path \<in> {READ_PATH, REF_PATH} \<and> body = None);
          is_write = (method = ''PUT'' \<and> path = WRITE_PATH \<and> body \<noteq> None) in
      if \<not> (is_read \<or> is_write) then gh_request L E base path method body mode
      else
        ibind (ilift (rc_require (mode = ''json'') ''Ledger API supports only JSON'')) (\<lambda>_.
        ibind (ilift
          (case body of
             Some b \<Rightarrow>
               rbind (rc_require (dget b ''branch'' PNone = PStr BRANCH) ''Ledger write branch mismatch'') (\<lambda>_.
               rc_require (fst ` set b \<subseteq> {''branch'', ''content'', ''message'', ''sha''}) ''Invalid ledger write'')
           | None \<Rightarrow> Inr ())) (\<lambda>_.
        let input = (case body of None \<Rightarrow> False | Some b \<Rightarrow> b \<noteq> []) in
        write_once L E
          \<lparr>argv = [''gh'', ''api'', ''--hostname'', ''github.com'', ''--include'', ''--method'', method]
             @ (if input then [''--input'', ''-''] else []) @ [''--'', base @ ''/'' @ path],
           stdin = (if input then map_option (\<lambda>b. rc_json_bytes L (PDict b)) body else None),
           limit = None\<rparr>)))"

definition state_github :: "pylib \<Rightarrow> 'w gh_env \<Rightarrow> string \<Rightarrow> 'w client" where
  "state_github L E r = \<lparr>repo = r, request = state_request L E (''repos/'' @ r)\<rparr>"

section \<open>Reading and writing\<close>

definition as_int :: "pyval \<Rightarrow> int" where
  "as_int v = (case v of PInt i \<Rightarrow> i | _ \<Rightarrow> 0)"

definition int_at_least :: "int \<Rightarrow> pyval \<Rightarrow> bool" where
  "int_at_least n v = (case v of PInt i \<Rightarrow> n \<le> i | _ \<Rightarrow> False)"

text \<open>One iteration of the loop over \<open>state["plans"]\<close>; comparing \<open>None\<close> with an integer raises.\<close>

definition read_reservation :: "int \<Rightarrow> string \<times> pyval \<Rightarrow> (string \<times> reservation) result" where
  "read_reservation bound kv =
     (case kv of (key, record) \<Rightarrow>
       rbind (positive (PStr key)) (\<lambda>_.
       rbind (rc_require (is_dict record) ''Invalid version reservation'') (\<lambda>_.
       let d = (case record of PDict d \<Rightarrow> d | _ \<Rightarrow> []) in
       rbind (validate_plan_fields (dget d ''plan'' PNone)) (\<lambda>p.
       rbind (case build_number p of
                None \<Rightarrow> Inl (TypeError ''unorderable types'')
              | Some b \<Rightarrow> rc_require (b \<le> bound) ''Ledger counter moved backwards'') (\<lambda>_.
       Inr (key, \<lparr>res_plan = p, res_parent = map_of d ''parent'',
         res_extra = filter (\<lambda>(k, v). k \<notin> {''plan'', ''parent''}) d\<rparr>))))))"

definition parse_ledger :: "pyval \<Rightarrow> ledger result" where
  "parse_ledger v =
     (case v of
        PDict d \<Rightarrow>
          rbind (rc_require (dget d ''schema'' PNone = PInt 1) ''Unsupported version ledger schema'') (\<lambda>_.
          rbind (rc_require (int_at_least 0 (dget d ''counter'' PNone)) ''Invalid ledger counter'') (\<lambda>_.
          let c = as_int (dget d ''counter'' PNone); f = as_int (dget d ''publication_floor'' PNone) in
          rbind (rc_require (int_at_least 0 (dget d ''publication_floor'' PNone) \<and> f \<le> c)
            ''Invalid ledger publication floor'') (\<lambda>_.
          (case dget d ''plans'' PNone of
             PDict ps \<Rightarrow>
               rbind (rmap (read_reservation c) ps) (\<lambda>rs.
               Inr \<lparr>counter = c, publication_floor = f, plans = rs,
                 extra = filter (\<lambda>(k, v). k \<notin> {''schema'', ''counter'', ''publication_floor'', ''plans''}) d\<rparr>)
           | _ \<Rightarrow> Inl (ReleaseError ''Invalid ledger plans'')))))
      | _ \<Rightarrow> Inl (ReleaseError ''Unsupported version ledger schema''))"

text \<open>The contents response: the decoded ledger and the blob's SHA.\<close>

definition decode_content :: "pylib \<Rightarrow> pyval \<Rightarrow> (ledger \<times> string) result" where
  "decode_content L content =
     (case content of
        PDict c \<Rightarrow>
          rbind (rc_require (dget c ''type'' PNone = PStr ''file'' \<and> dget c ''encoding'' PNone = PStr ''base64'')
            ''Ledger must be a regular JSON file'') (\<lambda>_.
          rbind (ditem c ''content'') (\<lambda>text.
          rbind (case text of PStr t \<Rightarrow> b64decode (filter (\<lambda>x. \<not> is_space x) t)
                 | _ \<Rightarrow> Inl (AttributeError ''split'')) (\<lambda>raw.
          rbind (rc_require (length raw \<le> 4000000)
            ''Ledger requires compaction before another allocation'') (\<lambda>_.
          rbind (parse_json L raw) (\<lambda>v.
          rbind (parse_ledger v) (\<lambda>st.
          case dget c ''sha'' (PStr []) of
            PStr sha \<Rightarrow> rbind (rc_require (fullmatch SHA sha) ''Invalid ledger blob SHA'') (\<lambda>_. Inr (st, sha))
          | _ \<Rightarrow> Inl (TypeError ''expected string or bytes-like object'')))))))
      | _ \<Rightarrow> Inl (AttributeError ''get''))"

definition read_state :: "pylib \<Rightarrow> 'w client \<Rightarrow> ('w, ledger \<times> string option) io" where
  "read_state L gh =
     ibind (optional L gh READ_PATH) (\<lambda>content.
     if content = PNone then
       ibind (optional L gh REF_PATH) (\<lambda>ref.
       ibind (ilift (rc_require (is_none ref)
         ''Version ledger is missing from its existing branch; restore it from history'')) (\<lambda>_.
       ireturn (empty_ledger, None)))
     else ibind (ilift (decode_content L content)) (\<lambda>(st, sha). ireturn (st, Some sha)))"

definition write_body :: "pylib \<Rightarrow> ledger \<Rightarrow> string option \<Rightarrow> jobject" where
  "write_body L st previous =
     [(''branch'', PStr BRANCH), (''message'', PStr ''Reserve release version plan''),
      (''content'', PStr (b64encode (rc_json_bytes L (ledger_json st))))]
       @ (case previous of None \<Rightarrow> [] | Some sha \<Rightarrow> if sha = [] then [] else [(''sha'', PStr sha)])"

definition write_state :: "pylib \<Rightarrow> 'w client \<Rightarrow> ledger \<Rightarrow> string option \<Rightarrow> ('w, unit) io" where
  "write_state L gh st previous =
     ibind (api L gh WRITE_PATH ''PUT'' (Some (write_body L st previous))) (\<lambda>_. ireturn ())"

section \<open>Reservations\<close>

definition reserved_numbers :: "ledger \<Rightarrow> string \<Rightarrow> string \<Rightarrow> nat list" where
  "reserved_numbers st base chan =
     map (\<lambda>(k, r). case sequence (res_plan r) of SeqNum n \<Rightarrow> nat n | _ \<Rightarrow> 0)
       (filter (\<lambda>(k, r). base_version (res_plan r) = base \<and> channel (res_plan r) = chan) (plans st))"

definition parent_of :: "reservation \<Rightarrow> pyval" where
  "parent_of r = (case res_parent r of None \<Rightarrow> PNone | Some v \<Rightarrow> v)"

text \<open>A run that has its reservation gets the same plan again, for the same inputs only.\<close>

definition retry_plan ::
  "pylib \<Rightarrow> reservation \<Rightarrow> pyval \<Rightarrow> string \<Rightarrow> string \<Rightarrow> string \<Rightarrow> pyval \<Rightarrow> plan result" where
  "retry_plan L r policy base chan sha parent =
     rbind (validate_plan L (plan_json (res_plan r)) (Some policy) (Some sha)) (\<lambda>p.
     rbind (rc_require (base_version p = base \<and> channel p = chan)
       ''Run already reserved a different release identity'') (\<lambda>_.
     rbind (rc_require (py_eq (parent_of r) parent) ''Run already reserved a different RC'') (\<lambda>_.
     Inr p)))"

definition choose_sequence ::
  "pylib \<Rightarrow> 'w client \<Rightarrow> ledger \<Rightarrow> string \<Rightarrow> string \<Rightarrow> int \<Rightarrow> int \<Rightarrow> string \<Rightarrow> ('w, seq) io" where
  "choose_sequence L gh st base chan run_id attempt now =
     (if chan \<in> {''beta'', ''rc''} then
        ibind (next_sequence L gh base chan) (\<lambda>n.
        ireturn (SeqNum (int (max n (max_default 0 (reserved_numbers st base chan) + 1)))))
      else if chan = ''nightly'' then
        ireturn (SeqStamp (now @ ''.'' @ int_str run_id @ ''.'' @ int_str attempt))
      else ireturn NoSeq)"

text \<open>\<open>policy["versioning"].get("build_number_floor", 0)\<close> and the next build number.\<close>

definition next_build :: "ledger \<Rightarrow> pyval \<Rightarrow> int result" where
  "next_build st policy =
     rbind (pitem policy ''versioning'') (\<lambda>config.
     rbind (pget config ''build_number_floor'' (PInt 0)) (\<lambda>f.
     rbind (rc_require (int_at_least 0 f) ''Invalid native build counter floor'') (\<lambda>_.
     Inr (max (counter st) (as_int f) + 1))))"

definition add_reservation :: "ledger \<Rightarrow> string \<Rightarrow> plan \<Rightarrow> pyval \<Rightarrow> int \<Rightarrow> ledger" where
  "add_reservation st run_key p parent number =
     st\<lparr>counter := number,
        plans := plans st @ [(run_key, \<lparr>res_plan = p, res_parent = Some parent, res_extra = []\<rparr>)]\<rparr>"

definition ensure_branch :: "pylib \<Rightarrow> 'w client \<Rightarrow> string \<Rightarrow> ('w, unit) io" where
  "ensure_branch L gh sha =
     ibind (optional L gh REF_PATH) (\<lambda>ref.
     if is_none ref then
       ibind (api L gh ''git/refs'' ''POST'' (Some [(''ref'', PStr (''refs/heads/'' @ BRANCH)), (''sha'', PStr sha)]))
         (\<lambda>_. ireturn ())
     else ireturn ())"

definition allocate_plan ::
  "pylib \<Rightarrow> 'w client \<Rightarrow> ledger \<Rightarrow> pyval \<Rightarrow> string \<Rightarrow> string \<Rightarrow> string \<Rightarrow> int \<Rightarrow> int \<Rightarrow> string \<Rightarrow> pyval
     \<Rightarrow> ('w, plan \<times> ledger) io" where
  "allocate_plan L gh st policy base chan sha run_id attempt now parent =
     ibind (choose_sequence L gh st base chan run_id attempt now) (\<lambda>sq.
     ibind (ilift (next_build st policy)) (\<lambda>number.
     ibind (ilift (create_plan L base chan sq sha policy (Some number))) (\<lambda>p.
     ibind (ensure_absent L gh (tag p)) (\<lambda>_.
     ibind (ensure_branch L gh sha) (\<lambda>_.
     ireturn (p, add_reservation st (int_str run_id) p parent number))))))"

definition reserve_plan ::
  "pylib \<Rightarrow> 'w client \<Rightarrow> pyval \<Rightarrow> string \<Rightarrow> string \<Rightarrow> string \<Rightarrow> int \<Rightarrow> int \<Rightarrow> string \<Rightarrow> pyval \<Rightarrow> ('w, plan) io" where
  "reserve_plan L gh policy base chan sha run_id attempt now parent =
     ibind (ilift (positive (PInt run_id))) (\<lambda>rid.
     ibind (read_state L gh) (\<lambda>(st, previous).
     case map_of (plans st) (int_str rid) of
       Some r \<Rightarrow> ilift (retry_plan L r policy base chan sha parent)
     | None \<Rightarrow>
         ibind (allocate_plan L gh st policy base chan sha run_id attempt now parent) (\<lambda>(p, st').
         ibind (write_state L gh st' previous) (\<lambda>_.
         ireturn p))))"

section \<open>Publication\<close>

definition published_tags :: "pyval list \<Rightarrow> pyval list result" where
  "published_tags releases =
     rbind (rmap (\<lambda>r.
       rbind (pget r ''draft'' PNone) (\<lambda>d.
       if d = PBool False
       then rbind (pget r ''tag_name'' PNone) (\<lambda>t.
            if hashable t then Inr [t] else Inl (TypeError ''unhashable type''))
       else Inr [])) releases) (\<lambda>ts. Inr (concat ts))"

definition build_of :: "plan \<Rightarrow> int result" where
  "build_of p = (case build_number p of Some b \<Rightarrow> Inr b | None \<Rightarrow> Inl (TypeError ''unorderable types''))"

definition build_int :: "plan \<Rightarrow> int" where
  "build_int p = (case build_number p of Some b \<Rightarrow> b | None \<Rightarrow> 0)"

definition is_published :: "pyval list \<Rightarrow> reservation \<Rightarrow> bool" where
  "is_published published r \<longleftrightarrow> PStr (tag (res_plan r)) \<in> set published"

text \<open>\<open>record == {"plan": plan, "parent": parent}\<close>.\<close>

definition same_reservation :: "reservation \<Rightarrow> plan \<Rightarrow> pyval \<Rightarrow> bool" where
  "same_reservation r p parent \<longleftrightarrow>
     res_plan r = p \<and> res_extra r = [] \<and>
     (case res_parent r of None \<Rightarrow> False | Some v \<Rightarrow> py_eq v parent)"

definition check_reservation :: "pylib \<Rightarrow> 'w client \<Rightarrow> ledger \<Rightarrow> pyval \<Rightarrow> int \<Rightarrow> pyval \<Rightarrow> ('w, plan) io" where
  "check_reservation L gh st plan_value run_id parent =
     ibind (ilift (validate_plan L plan_value None None)) (\<lambda>p.
     ibind (ilift (positive (PInt run_id))) (\<lambda>rid.
     ibind (ilift (rc_require (case map_of (plans st) (int_str rid) of
         Some r \<Rightarrow> same_reservation r p parent | None \<Rightarrow> False)
       ''Version reservation differs from build plan'')) (\<lambda>_.
     ibind (ilift (build_of p)) (\<lambda>b.
     ibind (ilift (rc_require (b > publication_floor st)
       ''Build number has already reached or fallen below the publication floor'')) (\<lambda>_.
     ibind (pages L gh ''releases'' None) (\<lambda>releases.
     ibind (ilift (published_tags releases)) (\<lambda>published.
     ibind (ilift (rc_require (\<not> (\<exists>kr \<in> set (plans st). is_published published (snd kr)
         \<and> build_int (res_plan (snd kr)) \<ge> b))
       ''A package with this or a newer build number was already published'')) (\<lambda>_.
     ireturn p))))))))"

definition verify_reservation :: "pylib \<Rightarrow> 'w client \<Rightarrow> pyval \<Rightarrow> int \<Rightarrow> pyval \<Rightarrow> ('w, unit) io" where
  "verify_reservation L gh plan_value run_id parent =
     ibind (read_state L gh) (\<lambda>(st, _).
     ibind (check_reservation L gh st plan_value run_id parent) (\<lambda>_. ireturn ()))"

definition check_promotion_order :: "pylib \<Rightarrow> 'w client \<Rightarrow> ledger \<Rightarrow> pyval \<Rightarrow> ('w, plan) io" where
  "check_promotion_order L gh st plan_value =
     ibind (ilift (validate_plan L plan_value None None)) (\<lambda>p.
     ibind (ilift (rc_require (channel p = ''rc'' \<and> promotion p = ''promote-bytes'')
       ''Byte promotion requires a promote-bytes RC plan'')) (\<lambda>_.
     ibind (ilift (rc_require (length (filter (\<lambda>(k, r). res_plan r = p) (plans st)) = 1)
       ''Accepted RC has no unique durable version reservation'')) (\<lambda>_.
     ibind (ilift (build_of p)) (\<lambda>b.
     ibind (ilift (rc_require (b \<ge> publication_floor st)
       ''Accepted RC build number is below the publication floor'')) (\<lambda>_.
     ibind (pages L gh ''releases'' None) (\<lambda>releases.
     ibind (ilift (published_tags releases)) (\<lambda>published.
     ibind (ilift (rc_require (PStr (tag p) \<in> set published) ''Accepted RC is no longer published'')) (\<lambda>_.
     ibind (ilift (rc_require (\<not> (\<exists>kr \<in> set (plans st). tag (res_plan (snd kr)) \<noteq> tag p
         \<and> is_published published (snd kr) \<and> build_int (res_plan (snd kr)) > b))
       ''A newer native build was published after the accepted RC'')) (\<lambda>_.
     ireturn p)))))))))"

definition verify_promotion_order :: "pylib \<Rightarrow> 'w client \<Rightarrow> pyval \<Rightarrow> ('w, unit) io" where
  "verify_promotion_order L gh plan_value =
     ibind (read_state L gh) (\<lambda>(st, _).
     ibind (check_promotion_order L gh st plan_value) (\<lambda>_. ireturn ()))"

definition begin_publication ::
  "pylib \<Rightarrow> 'w client \<Rightarrow> pyval \<Rightarrow> int \<Rightarrow> pyval \<Rightarrow> pyval \<Rightarrow> ('w, string) io" where
  "begin_publication L gh plan_value run_id parent flag =
     ibind (ilift (positive (PInt run_id))) (\<lambda>_.
     ibind (ilift (rc_require (flag \<in> {PBool True, PBool False}) ''Invalid publication promotion flag'')) (\<lambda>_.
     ibind (read_state L gh) (\<lambda>(st, previous).
     ibind (if flag = PBool True then check_promotion_order L gh st plan_value
            else check_reservation L gh st plan_value run_id parent) (\<lambda>p.
     let st' = st\<lparr>publication_floor := build_int p\<rparr> in
     ibind (write_state L gh st' previous) (\<lambda>_.
     ireturn (rc_json_bytes L (ledger_json st')))))))"

end
