(* ===== verification/ReleaseFuzz.thy ===== *)
theory ReleaseFuzz
  imports ReleaseValidation ReleaseState
begin

text \<open>
  \<open>scripts/release_fuzz.py\<close>, the part that decides: the opt-in configuration, the fuzz manifest and
  its budget, the job check of a release run, and the evidence an RC's report must carry. The file
  system is a parameter: \<open>confined\<close> says whether a path resolves inside the source tree.
\<close>

section \<open>Configuration\<close>

definition MANIFEST_PATH :: string where "MANIFEST_PATH = ''.github/fuzz.json''"
definition FUZZ_JOB :: string where "FUZZ_JOB = ''fuzz / RC fuzzing''"
definition REPORT :: string where "REPORT = ''fuzz-report.json''"

definition is_sha :: "pyval \<Rightarrow> bool" where
  "is_sha v = (case v of PStr s \<Rightarrow> fullmatch SHA s | _ \<Rightarrow> False)"

definition configuration :: "jobject \<Rightarrow> jobject option result" where
  "configuration policy =
     (case dget policy ''fuzzing'' PNone of
        PNone \<Rightarrow> Inr None
      | PDict value \<Rightarrow>
          rbind (value_require (fst ` set value = {''toolkit_ref''} \<and> is_sha (dget value ''toolkit_ref'' PNone)
              \<and> dget policy ''visibility'' (PStr ''public'') = PStr ''public''
              \<and> dget policy ''mode'' PNone = PStr ''release''
              \<and> dget policy ''ci_execution'' (PStr ''github'') = PStr ''github''
              \<and> is_dict (dget policy ''versioning'' PNone))
            ''Fuzzing requires public versioned hosted releases and a pinned toolkit_ref'') (\<lambda>_.
          Inr (Some value))
      | _ \<Rightarrow> Inl (ValueError ''Fuzzing requires public versioned hosted releases and a pinned toolkit_ref''))"

definition fuzz_path :: rx where
  "fuzz_path = Plus (Cls (\<lambda>c. is_upper c \<or> is_lower c \<or> is_digit c \<or> c \<in> {CHR ''_'', CHR ''.'', CHR ''/'', CHR ''-''}))"

definition fuzz_relative :: "pyval \<Rightarrow> string result" where
  "fuzz_relative value =
     (case value of
        PStr s \<Rightarrow>
          rbind (value_require (fullmatch fuzz_path s) ''Fuzz paths must be literal relative paths'') (\<lambda>_.
          rbind (value_require (s = ''.'' \<or> (\<not> prefix ''/'' s
              \<and> (\<forall>p \<in> set (split_on (CHR ''/'') s). p \<notin> {'''', ''.'', ''..''})))
            ''Fuzz path escapes the source tree'') (\<lambda>_.
          Inr s))
      | _ \<Rightarrow> Inl (ValueError ''Fuzz paths must be literal relative paths''))"

definition argument_ok :: "pyval \<Rightarrow> bool" where
  "argument_ok v = (case v of PStr s \<Rightarrow> s \<noteq> [] \<and> length (code_points s) \<le> 2048 \<and> (\<forall>c \<in> set s. 32 \<le> (of_char c :: nat)) | _ \<Rightarrow> False)"

definition fuzz_argv :: "pyval \<Rightarrow> string list result" where
  "fuzz_argv value =
     (case value of
        PList vs \<Rightarrow>
          rbind (value_require (1 \<le> length vs \<and> length vs \<le> 64 \<and> (\<forall>v \<in> set vs. argument_ok v))
            ''Fuzz commands must be nonempty bounded argument arrays'') (\<lambda>_.
          Inr (strs vs))
      | _ \<Rightarrow> Inl (ValueError ''Fuzz commands must be nonempty bounded argument arrays''))"

section \<open>The manifest\<close>

definition list_within :: "nat \<Rightarrow> nat \<Rightarrow> pyval \<Rightarrow> bool" where
  "list_within lo hi v = (case v of PList xs \<Rightarrow> lo \<le> length xs \<and> length xs \<le> hi | _ \<Rightarrow> False)"

definition items_of :: "pyval \<Rightarrow> pyval list" where
  "items_of v = (case v of PList xs \<Rightarrow> xs | _ \<Rightarrow> [])"

definition validate_manifest_shape :: "pyval \<Rightarrow> jobject result" where
  "validate_manifest_shape v =
     (case v of
        PDict data \<Rightarrow>
          rbind (value_require (fst ` set data \<subseteq> {''schema'', ''language'', ''setup'', ''targets'', ''go-version-file'',
               ''preflight'', ''preflight-paths''} \<and> dget data ''schema'' PNone = PInt 1) ''Invalid fuzz manifest'') (\<lambda>_.
          rbind (in_strs (dget data ''language'' PNone) [''go'', ''rust'', ''python'', ''javascript'', ''c'', ''jvm'']) (\<lambda>ok.
          rbind (value_require (ok \<and> list_within 0 16 (dget data ''setup'' PNone)
               \<and> list_within 1 12 (dget data ''targets'' PNone)) ''Invalid fuzz manifest'') (\<lambda>_.
          Inr data)))
      | _ \<Rightarrow> Inl (ValueError ''Invalid fuzz manifest''))"

definition target_name :: rx where
  "target_name = SeqOf [Cls is_lower, UpTo 49 (Cls (\<lambda>c. is_lower c \<or> is_digit c \<or> c = CHR ''-''))]"

definition module_rx :: rx where
  "module_rx = SeqOf [Cls (\<lambda>c. is_upper c \<or> is_lower c \<or> c = CHR ''_''),
     Star (Cls (\<lambda>c. word_char c \<or> c \<in> {CHR ''.'', CHR ''-''}))]"

definition function_rx :: rx where
  "function_rx = SeqOf [Cls (\<lambda>c. is_upper c \<or> is_lower c \<or> c = CHR ''_''), Star (Cls (\<lambda>c. word_char c \<or> c = CHR ''.''))]"

definition matches_str :: "rx \<Rightarrow> pyval \<Rightarrow> bool" where
  "matches_str r v = (case v of PStr s \<Rightarrow> fullmatch r s | _ \<Rightarrow> False)"

definition instrumentation_ok :: "pyval \<Rightarrow> bool" where
  "instrumentation_ok v =
     (case v of
        PDict d \<Rightarrow> fst ` set d = {''module'', ''functions''} \<and> matches_str module_rx (dget d ''module'' PNone)
          \<and> list_within 1 32 (dget d ''functions'' PNone)
          \<and> (\<forall>f \<in> set (items_of (dget d ''functions'' PNone)). matches_str function_rx f)
      | _ \<Rightarrow> False)"

definition reserved_flags :: "string list" where
  "reserved_flags = [''-fuzztime'', ''-fuzzminimizetime'', ''-parallel'', ''-timeout'', ''-max_total_time'',
     ''-rss_limit_mb'', ''-artifact_prefix'', ''-runs'', ''-jobs'', ''-workers'']"

definition flag_of :: "string \<Rightarrow> string" where
  "flag_of arg = takeWhile (\<lambda>c. c \<noteq> CHR ''='') arg"

type_synonym confinement = "string \<Rightarrow> bool"

definition check_confined :: "confinement \<Rightarrow> pyval \<Rightarrow> unit result" where
  "check_confined confined v =
     rbind (fuzz_relative v) (\<lambda>p. value_require (confined p) ''Fuzz path resolves outside source'')"

text \<open>The names seen so far, with the target's name added.\<close>

definition validate_target :: "confinement \<Rightarrow> pyval \<Rightarrow> string list \<Rightarrow> string list result" where
  "validate_target confined v names =
     (case v of
        PDict target \<Rightarrow>
          rbind (value_require (fst ` set target \<subseteq> {''name'', ''engine'', ''command'', ''seconds'', ''cwd'', ''corpus'', ''instrumentation''}
               \<and> matches_str target_name (dget target ''name'' PNone) \<and> as_str (dget target ''name'' PNone) \<notin> set names)
             ''Invalid, duplicated or unbounded fuzz target'') (\<lambda>_.
          rbind (in_strs (dget target ''engine'' PNone) [''go'', ''libfuzzer'', ''atheris'']) (\<lambda>ok.
          rbind (value_require (ok \<and> int_at_least 1 (dget target ''seconds'' PNone) \<and> as_int (dget target ''seconds'' PNone) \<le> 120)
             ''Invalid, duplicated or unbounded fuzz target'') (\<lambda>_.
          rbind (fuzz_argv (dget target ''command'' PNone)) (\<lambda>command.
          rbind (check_confined confined (dget target ''cwd'' (PStr ''.''))) (\<lambda>_.
          rbind (if dhas target ''corpus'' then check_confined confined (dget target ''corpus'' PNone) else Inr ()) (\<lambda>_.
          rbind (if dhas target ''instrumentation'' then
               rbind (value_require (dget target ''engine'' PNone = PStr ''atheris''
                   \<and> list_within 1 32 (dget target ''instrumentation'' PNone))
                 ''Instrumentation declarations require bounded Atheris functions'') (\<lambda>_.
               value_require (\<forall>d \<in> set (items_of (dget target ''instrumentation'' PNone)). instrumentation_ok d)
                 ''Invalid production instrumentation declaration'')
             else Inr ()) (\<lambda>_.
          rbind (value_require (\<forall>arg \<in> set command. flag_of arg \<notin> set reserved_flags)
             ''Fuzz target cannot override runner limits'') (\<lambda>_.
          Inr (names @ [as_str (dget target ''name'' PNone)])))))))))
      | _ \<Rightarrow> Inl (ValueError ''Invalid, duplicated or unbounded fuzz target''))"

definition target_seconds :: "pyval \<Rightarrow> int" where
  "target_seconds v = (case v of PDict d \<Rightarrow> as_int (dget d ''seconds'' PNone) | _ \<Rightarrow> 0)"

definition check_list :: "nat \<Rightarrow> string \<Rightarrow> (pyval \<Rightarrow> unit result) \<Rightarrow> pyval \<Rightarrow> unit result" where
  "check_list hi message f v =
     rbind (value_require (list_within 0 hi v) message) (\<lambda>_. riter f (items_of v))"

text \<open>\<open>manifest(root)\<close> on the bytes of the file; \<open>regular\<close> says which paths are plain files.\<close>

definition fuzz_manifest :: "pylib \<Rightarrow> confinement \<Rightarrow> confinement \<Rightarrow> string \<Rightarrow> jobject result" where
  "fuzz_manifest L confined regular raw =
     rbind (value_require (int (length raw) \<le> 65536) ''Fuzz manifest is too large'') (\<lambda>_.
     rbind (loads_bytes L plain_opts raw) (\<lambda>v.
     rbind (validate_manifest_shape v) (\<lambda>data.
     rbind (riter (\<lambda>c. rbind (fuzz_argv c) (\<lambda>_. Inr ())) (items_of (dget data ''setup'' PNone))) (\<lambda>_.
     rbind (check_list 16 ''Preflight commands must be a bounded list'' (\<lambda>c. rbind (fuzz_argv c) (\<lambda>_. Inr ()))
       (dget data ''preflight'' (PList []))) (\<lambda>_.
     rbind (check_list 128 ''Preflight paths must be a bounded list'' (check_confined confined)
       (dget data ''preflight-paths'' (PList []))) (\<lambda>_.
     rbind (if dhas data ''go-version-file'' then
          rbind (value_require (dget data ''language'' PNone = PStr ''go'') ''go-version-file is only valid for Go'') (\<lambda>_.
          rbind (check_confined confined (dget data ''go-version-file'' PNone)) (\<lambda>_.
          value_require (regular (as_str (dget data ''go-version-file'' PNone)))
            ''go-version-file must be an existing regular file without symlinks''))
        else Inr ()) (\<lambda>_.
     rbind (rfold (\<lambda>names t. validate_target confined t names) [] (items_of (dget data ''targets'' PNone))) (\<lambda>_.
     rbind (value_require (sum_list (map target_seconds (items_of (dget data ''targets'' PNone))) \<le> 600)
       ''Fuzz campaign budget exceeds ten minutes'') (\<lambda>_.
     Inr data)))))))))"

section \<open>Runs\<close>

text \<open>\<open>str(x)\<close> of a scalar; the text of a list or a dictionary is never the rest of a Git ref,
  which has neither brackets nor spaces.\<close>

definition scalar_text :: "pylib \<Rightarrow> pyval \<Rightarrow> string option" where
  "scalar_text L v =
     (case v of PStr s \<Rightarrow> Some s | PNone \<Rightarrow> Some ''None'' | PBool b \<Rightarrow> Some (if b then ''True'' else ''False'')
      | PInt i \<Rightarrow> Some (int_str i) | PFloat f \<Rightarrow> Some (float_repr L f) | _ \<Rightarrow> None)"

definition event_contract :: "pylib \<Rightarrow> pyval \<Rightarrow> string \<Rightarrow> string \<Rightarrow> string \<Rightarrow> string \<Rightarrow> unit result" where
  "event_contract L event event_name ref repository sha =
     rbind (pget event ''repository'' (PDict [])) (\<lambda>rp.
     rbind (value_require (event_name = ''workflow_dispatch'')
       ''Fuzz campaigns require a public default-branch RC dispatch'') (\<lambda>_.
     rbind (pget event ''inputs'' (PDict [])) (\<lambda>inputs.
     rbind (pget inputs ''channel'' PNone) (\<lambda>c.
     rbind (value_require (c = PStr ''rc'') ''Fuzz campaigns require a public default-branch RC dispatch'') (\<lambda>_.
     (case rp of
        PDict r \<Rightarrow>
          value_require (dget r ''private'' PNone = PBool False \<and> dget r ''full_name'' PNone = PStr repository
            \<and> map_option (\<lambda>b. ''refs/heads/'' @ b) (scalar_text L (dget r ''default_branch'' PNone)) = Some ref \<and> fullmatch SHA sha)
            ''Fuzz campaigns require a public default-branch RC dispatch''
      | _ \<Rightarrow> Inl (AttributeError ''get'')))))))"

definition check_fuzz_jobs :: "pyval list \<Rightarrow> string \<Rightarrow> string \<Rightarrow> unit result" where
  "check_fuzz_jobs jobs chan sha =
     rbind (jobs_named (\<lambda>n. n = PStr FUZZ_JOB) jobs) (\<lambda>matches.
     if chan = ''rc'' then
       value_require (length matches = 1 \<and> (\<forall>m \<in> set matches. succeeded_at sha m))
         ''RC requires one successful fuzz job at the exact source SHA''
     else
       value_require (\<forall>m \<in> set matches. pget m ''conclusion'' PNone = Inr (PStr ''skipped''))
         ''Fuzzing must not run outside RC'')"

definition fuzz_profile :: "jobject \<Rightarrow> string \<Rightarrow> pyval result" where
  "fuzz_profile policy chan =
     rbind (configuration policy) (\<lambda>config.
     case config of
       None \<Rightarrow> Inr PNone
     | Some c \<Rightarrow>
         if chan \<noteq> ''rc'' then Inr PNone
         else Inr (PDict ([(''schema'', PInt 1), (''channel'', PStr ''rc''), (''manifest'', PStr MANIFEST_PATH)] @ c)))"

section \<open>Evidence\<close>

definition inventory_ok :: "pyval list \<Rightarrow> pyval list \<Rightarrow> bool" where
  "inventory_ok targets configured \<longleftrightarrow>
     list_all2 (\<lambda>t c. case (t, c) of
        (PDict d, PDict e) \<Rightarrow> is_int (dget d ''seconds'' PNone) \<and> dget d ''exit_code'' PNone = PInt 0
          \<and> dget d ''name'' PNone = dget e ''name'' PNone \<and> dget d ''seconds'' PNone = dget e ''seconds'' PNone
      | _ \<Rightarrow> False) targets configured"

definition verify_target_inventory :: "pyval \<Rightarrow> pyval list \<Rightarrow> unit result" where
  "verify_target_inventory targets configured =
     (case targets of
        PList ts \<Rightarrow> value_require (inventory_ok ts configured) ''Fuzz report target inventory mismatch''
      | _ \<Rightarrow> Inl (ValueError ''Fuzz report target inventory mismatch''))"

definition declared_functions :: "jobject \<Rightarrow> (pyval \<times> pyval) list" where
  "declared_functions target =
     concat (map (\<lambda>item. case item of
         PDict d \<Rightarrow> map (\<lambda>f. (dget d ''module'' PNone, f)) (items_of (dget d ''functions'' PNone)) | _ \<Rightarrow> [])
       (items_of (dget target ''instrumentation'' (PList []))))"

definition positive_int :: "pyval \<Rightarrow> bool" where
  "positive_int v = int_at_least 1 v"

definition verify_python_proof :: "pyval \<Rightarrow> jobject \<Rightarrow> unit result" where
  "verify_python_proof proof_value target =
     (let expected = declared_functions target in
      case proof_value of
        PDict p \<Rightarrow>
          rbind (value_require (dget p ''target'' PNone = dget target ''name'' PNone \<and> expected \<noteq> [])
            ''Python instrumentation evidence differs from declared functions'') (\<lambda>_.
          rbind (value_require (dget p ''engine'' PNone = PStr ''atheris'' \<and> positive_int (dget p ''executions'' PNone))
            ''Python preflight evidence requires positive engine execution metrics'') (\<lambda>_.
          rbind (value_require (is_list (dget p ''instrumentation'' PNone)
              \<and> (\<forall>i \<in> set (items_of (dget p ''instrumentation'' PNone)). is_dict i))
            ''Malformed Python instrumentation evidence'') (\<lambda>_.
          value_require (map (\<lambda>i. case i of PDict d \<Rightarrow> (dget d ''module'' PNone, dget d ''function'' PNone) | _ \<Rightarrow> (PNone, PNone))
              (items_of (dget p ''instrumentation'' PNone)) = expected)
            ''Python instrumentation evidence differs from declared functions'')))
      | _ \<Rightarrow> Inl (ValueError ''Python instrumentation evidence differs from declared functions''))"

definition metrics_ok :: "pyval \<Rightarrow> pyval \<Rightarrow> bool" where
  "metrics_ok t c =
     (case (t, c) of
        (PDict d, PDict e) \<Rightarrow> dget d ''engine'' PNone = dget e ''engine'' PNone \<and> positive_int (dget d ''executions'' PNone)
      | _ \<Rightarrow> False)"

definition as_dict :: "pyval \<Rightarrow> jobject" where
  "as_dict v = (case v of PDict d \<Rightarrow> d | _ \<Rightarrow> [])"

definition verify_preflight_evidence :: "jobject \<Rightarrow> jobject \<Rightarrow> unit result" where
  "verify_preflight_evidence data config =
     (let targets = items_of (dget config ''targets'' PNone) in
      if dget data ''schema'' PNone = PInt 1 then
        value_require (\<not> (truthy (dget config ''preflight'' PNone)
            \<or> (\<exists>t \<in> set targets. truthy (dget (as_dict t) ''instrumentation'' PNone))))
          ''Declared preflight evidence requires a schema-2 fuzz report''
      else
        (case dget data ''preflight'' PNone of
           PDict evidence \<Rightarrow>
             rbind (value_require (py_eq (dget evidence ''commands'' PNone)
                 (PInt (int (length (items_of (dget config ''preflight'' (PList []))))))) 
               ''Fuzz report preflight command inventory mismatch'') (\<lambda>_.
             rbind (value_require (\<forall>tc \<in> set (zip (items_of (dget data ''targets'' PNone)) targets). metrics_ok (fst tc) (snd tc))
               ''Fuzz report requires positive engine execution metrics'') (\<lambda>_.
             if dget config ''language'' PNone \<noteq> PStr ''python'' then Inr ()
             else
               (case dget evidence ''python_targets'' PNone of
                  PList proofs \<Rightarrow>
                    rbind (value_require (length proofs = length targets)
                      ''Fuzz report requires Python instrumentation evidence'') (\<lambda>_.
                    riter (\<lambda>pt. verify_python_proof (fst pt) (as_dict (snd pt))) (zip proofs targets))
                | _ \<Rightarrow> Inl (ValueError ''Fuzz report requires Python instrumentation evidence''))))
         | _ \<Rightarrow> Inl (ValueError ''Fuzz report preflight command inventory mismatch'')))"

text \<open>\<open>verify_report\<close> on the parsed report, then on the files of the two directories.\<close>

definition verify_report_data ::
  "pylib \<Rightarrow> jobject \<Rightarrow> jobject \<Rightarrow> string \<Rightarrow> string \<Rightarrow> string \<Rightarrow> int \<Rightarrow> int \<Rightarrow> unit result" where
  "verify_report_data L data config raw repository sha run_id attempt =
     rbind (value_require (dget data ''schema'' PNone \<in> {PInt 1, PInt 2}
         \<and> dget data ''repository'' PNone = PStr repository \<and> dget data ''source_sha'' PNone = PStr sha
         \<and> dget data ''run_id'' PNone = PInt run_id \<and> dget data ''run_attempt'' PNone = PInt attempt
         \<and> dget data ''channel'' PNone = PStr ''rc'' \<and> dget data ''private'' PNone = PBool False
         \<and> dget data ''manifest_sha256'' PNone = PStr (sha256 L raw)
         \<and> dget data ''status'' PNone = PStr ''passed'' \<and> dget data ''network'' PNone = PStr ''isolated'')
       ''Fuzz report identity or outcome mismatch'') (\<lambda>_.
     rbind (verify_target_inventory (dget data ''targets'' (PList [])) (items_of (dget config ''targets'' PNone))) (\<lambda>_.
     verify_preflight_evidence data config))"

definition verify_report ::
  "pylib \<Rightarrow> confinement \<Rightarrow> confinement \<Rightarrow> string \<Rightarrow> string \<Rightarrow> string \<Rightarrow> string \<Rightarrow> int \<Rightarrow> int \<Rightarrow> unit result" where
  "verify_report L confined regular report raw repository sha run_id attempt =
     rbind (loads_bytes L plain_opts report) (\<lambda>v.
     rbind (fuzz_manifest L confined regular raw) (\<lambda>config.
     (case v of
        PDict data \<Rightarrow> verify_report_data L data config raw repository sha run_id attempt
      | _ \<Rightarrow> Inl (AttributeError ''get''))))"

text \<open>\<open>split_receipts\<close>: the fuzz receipt apart from the toolchain receipts.\<close>

definition receipt_named :: "string \<Rightarrow> pyval \<Rightarrow> bool" where
  "receipt_named n r = (case r of PDict d \<Rightarrow> dget d ''name'' PNone = PStr n | _ \<Rightarrow> False)"

definition receipt_artifacts :: "pyval \<Rightarrow> pyval list result" where
  "receipt_artifacts r =
     rbind (pitem r ''inputs'') (\<lambda>inputs.
     rbind (pget inputs ''artifacts'' (PList [])) (\<lambda>artifacts.
     rbind (iter_items artifacts) (\<lambda>as. rmap (\<lambda>a. pget a ''name'' PNone) as)))"

definition split_receipts :: "pyval list \<Rightarrow> (pyval list \<times> pyval list) result" where
  "split_receipts receipts =
     rbind (rmap (\<lambda>r. pitem r ''name'') receipts) (\<lambda>_.
     let validation = filter (receipt_named ''release-inputs-fuzz.json'') receipts in
     (case validation of
        [r] \<Rightarrow>
          rbind (receipt_artifacts r) (\<lambda>names.
          rbind (value_require (names = [PStr REPORT]) ''Fuzz validation receipt must cover exactly the RC report'') (\<lambda>_.
          Inr (filter (\<lambda>r. \<not> (\<exists>x \<in> set validation. r = x \<or> py_eq r x)) receipts, validation)))
      | _ \<Rightarrow> Inl (ValueError ''Fuzz validation receipt must cover exactly the RC report'')))"

definition validate_python_preflight :: "jobject \<Rightarrow> unit result" where
  "validate_python_preflight data =
     value_require (\<not> (dget data ''language'' PNone = PStr ''python''
         \<and> (\<exists>t \<in> set (items_of (dget data ''targets'' PNone)).
              dget (as_dict t) ''engine'' PNone \<noteq> PStr ''atheris''
              \<or> length (items_of (dget (as_dict t) ''command'' PNone)) < 2
              \<or> \<not> truthy (dget (as_dict t) ''instrumentation'' PNone))))
       ''Python preflight requires Atheris scripts with production instrumentation declarations''"

end
