(* ===== verification/FuzzRun.thy ===== *)
theory FuzzRun
  imports ReleaseFuzz
begin

text \<open>
  The runner of \<open>scripts/release_fuzz.py\<close>: bounded corpus copies, the work an engine reports in its
  log, the commands of the campaign and of the deterministic preflight, and \<open>campaign\<close> itself with
  the report it writes whatever happens. Processes, the clock, the file system and the Go cache are
  fields of the environment record \<open>fuzz_env\<close>. The theorem of the component is that a report a
  campaign writes as passed is one \<open>verify_report\<close> accepts.
\<close>

section \<open>Corpus\<close>

definition CORPUS_FILES :: int where "CORPUS_FILES = 10000"
definition CORPUS_BYTES :: int where "CORPUS_BYTES = 67108864"
definition RUN_LOG :: string where "RUN_LOG = ''run.log''"

datatype entry = Regular int | Symlink | Special | Directory "(string \<times> entry) list"

definition by_name :: "(string \<times> 'a) list \<Rightarrow> (string \<times> 'a) list" where
  "by_name xs = sort_key fst xs"

definition regular_entries :: "(string \<times> entry) list \<Rightarrow> (string \<times> int) list" where
  "regular_entries es = by_name (concat (map (\<lambda>(n, e). case e of Regular k \<Rightarrow> [(n, k)] | _ \<Rightarrow> []) es))"

definition sub_directories :: "(string \<times> entry) list \<Rightarrow> (string \<times> (string \<times> entry) list) list" where
  "sub_directories es = by_name (concat (map (\<lambda>(n, e). case e of Directory d \<Rightarrow> [(n, d)] | _ \<Rightarrow> []) es))"

lemma sub_directories_size:
  "(n, d) \<in> set (sub_directories es) \<Longrightarrow> size_list (size_prod (\<lambda>_. 0) size) d < size_list (size_prod (\<lambda>_. 0) size) es"
proof -
  assume "(n, d) \<in> set (sub_directories es)"
  then have m: "(n, Directory d) \<in> set es"
    by (auto simp: sub_directories_def by_name_def split: entry.splits)
  then have "size_prod (\<lambda>_. 0) size (n, Directory d) \<le> size_list (size_prod (\<lambda>_. 0) size) es"
    by (induction es) auto
  then show ?thesis by simp
qed

text \<open>The walk is a generator: what it yields in order, an exception where it raises one.\<close>

function corpus_files :: "bool \<Rightarrow> string \<Rightarrow> (string \<times> entry) list \<Rightarrow> (string \<times> int) result list" where
  "corpus_files required pre es =
     (if required \<and> (\<exists>e \<in> set es. snd e = Symlink)
      then [Inl (ValueError ''Declared preflight corpus must not contain symlinks'')]
      else map (\<lambda>(n, k). Inr (pre @ n, k)) (regular_entries es)
        @ concat (map (\<lambda>(n, d). corpus_files required (pre @ n @ ''/'') d) (sub_directories es)))"
  by pat_completeness auto
termination
  by (relation "measure (\<lambda>(_, _, es). size_list (size_prod (\<lambda>_. 0) size) es)")
     (auto dest: sub_directories_size)

declare corpus_files.simps [simp del]

record corpus_stats =
  cs_files :: int
  cs_bytes :: int
  cs_truncated :: bool

definition no_corpus :: corpus_stats where
  "no_corpus = \<lparr>cs_files = 0, cs_bytes = 0, cs_truncated = False\<rparr>"

section \<open>The environment\<close>

text \<open>\<open>fz_process\<close> gives the exit code, none when the timeout expired and the group was killed,
  and the elapsed time; the clock counts nanoseconds.\<close>

record 'w fuzz_env =
  fz_which :: "string \<Rightarrow> string option"
  fz_abspath :: "string \<Rightarrow> string"
  fz_environ :: "string \<Rightarrow> string option"
  fz_uid :: nat
  fz_gid :: nat
  fz_toolkit :: string
  fz_confined :: "string \<Rightarrow> bool"
  fz_regular :: "string \<Rightarrow> bool"
  fz_alnum :: "string \<Rightarrow> bool"
  fz_process :: "string list \<Rightarrow> string \<Rightarrow> string \<Rightarrow> int \<Rightarrow> 'w \<Rightarrow> (int option \<times> pyfloat) \<times> 'w"
  fz_clock :: "'w \<Rightarrow> int \<times> 'w"
  fz_mkdir :: "string \<Rightarrow> 'w \<Rightarrow> unit result \<times> 'w"
  fz_tree :: "string \<Rightarrow> 'w \<Rightarrow> (string \<times> entry) list option"
  fz_copy :: "string \<Rightarrow> string \<Rightarrow> 'w \<Rightarrow> 'w"
  fz_log :: "string \<Rightarrow> 'w \<Rightarrow> string"
  fz_file :: "string \<Rightarrow> 'w \<Rightarrow> string option"
  fz_write :: "string \<Rightarrow> string \<Rightarrow> 'w \<Rightarrow> 'w"
  fz_regressions :: "string \<Rightarrow> string \<Rightarrow> 'w \<Rightarrow> 'w"
  fz_gocache :: "string \<Rightarrow> 'w \<Rightarrow> string result \<times> 'w"
  fz_head :: "string \<Rightarrow> 'w \<Rightarrow> string result \<times> 'w"

fun retain_loop ::
  "'w fuzz_env \<Rightarrow> string \<Rightarrow> string \<Rightarrow> bool \<Rightarrow> corpus_stats \<Rightarrow> (string \<times> int) result list \<Rightarrow> ('w, corpus_stats) io" where
  "retain_loop E source destination required st [] =
     ilift (if required \<and> cs_files st = 0
       then Inl (ValueError ''Declared preflight corpus must contain at least one regular seed file'') else Inr st)"
| "retain_loop E source destination required st (Inl e # rest) = ilift (Inl e)"
| "retain_loop E source destination required st (Inr (path, k) # rest) =
     (if cs_files st \<ge> CORPUS_FILES \<or> cs_bytes st + k > CORPUS_BYTES then ireturn (st\<lparr>cs_truncated := True\<rparr>)
      else (\<lambda>w. retain_loop E source destination required
        (st\<lparr>cs_files := cs_files st + 1, cs_bytes := cs_bytes st + k\<rparr>) rest
        (fz_copy E (source @ ''/'' @ path) (destination @ ''/'' @ path) w)))"

definition retain_corpus :: "'w fuzz_env \<Rightarrow> string \<Rightarrow> string \<Rightarrow> bool \<Rightarrow> ('w, corpus_stats) io" where
  "retain_corpus E source destination required w =
     (case fz_mkdir E destination w of
        (Inl e, w') \<Rightarrow> (Inl e, w')
      | (Inr _, w') \<Rightarrow>
          (case fz_tree E source w' of
             None \<Rightarrow>
               if required then (Inl (ValueError ''Declared preflight corpus must be an existing directory without symlinks''), w')
               else (Inr no_corpus, w')
           | Some es \<Rightarrow> retain_loop E source destination required no_corpus (corpus_files required [] es) w'))"

definition stats_json :: "corpus_stats \<Rightarrow> pyval" where
  "stats_json st = PDict [(''files'', PInt (cs_files st)), (''bytes'', PInt (cs_bytes st)), (''truncated'', PBool (cs_truncated st))]"

section \<open>Engine logs\<close>

text \<open>The bytes of the white space at the front of a text, as \<open>\\s\<close> of a \<open>str\<close> pattern sees it.\<close>

definition unicode_space :: "nat list list" where
  "unicode_space = [[0xC2, 0x85], [0xC2, 0xA0], [0xE1, 0x9A, 0x80], [0xE2, 0x80, 0xA8], [0xE2, 0x80, 0xA9],
     [0xE2, 0x80, 0xAF], [0xE2, 0x81, 0x9F], [0xE3, 0x80, 0x80]] @ map (\<lambda>k. [0xE2, 0x80, k]) [0x80..<0x8B]"

definition space_width :: "string \<Rightarrow> nat" where
  "space_width s =
     (case s of
        [] \<Rightarrow> 0
      | c # _ \<Rightarrow>
          if is_space c then 1
          else (case filter (\<lambda>u. prefix (map char_of u) s) unicode_space of [] \<Rightarrow> 0 | u # _ \<Rightarrow> length u))"

function skip_spaces :: "string \<Rightarrow> string" where
  "skip_spaces s = (if space_width s = 0 then s else skip_spaces (drop (space_width s) s))"
  by pat_completeness auto
termination
proof (relation "measure length")
  fix s :: string assume a: "space_width s \<noteq> 0"
  then have "s \<noteq> []" by (auto simp: space_width_def)
  with a show "(drop (space_width s) s, s) \<in> measure length" by simp
qed simp

declare skip_spaces.simps [simp del]

text \<open>A label, white space and ASCII digits: the digits and what follows.\<close>

definition match_number :: "string \<Rightarrow> string \<Rightarrow> (string \<times> string) option" where
  "match_number label s =
     (if prefix label s then
        (let r = skip_spaces (drop (length label) s); ds = takeWhile is_digit r in
         if ds = [] then None else Some (ds, drop (length ds) r))
      else None)"

text \<open>The lazy dots of \<open>fuzz:.*?execs:\<close>: the first place on the same line.\<close>

primrec lazily :: "(string \<Rightarrow> 'a option) \<Rightarrow> string \<Rightarrow> 'a option" where
  "lazily m [] = m []"
| "lazily m (c # cs) =
     (case m (c # cs) of Some x \<Rightarrow> Some x | None \<Rightarrow> if c = LF then None else lazily m cs)"

definition match_go :: "string \<Rightarrow> string \<Rightarrow> (string \<times> string) option" where
  "match_go before s =
     (if prefix ''fuzz:'' s then lazily (match_number ''execs:'') (drop 5 s) else None)"

definition match_runs :: "string \<Rightarrow> string \<Rightarrow> (string \<times> string) option" where
  "match_runs before s =
     (if prefix ''Done '' s then
        (let r = drop 5 s; ds = takeWhile is_digit r; t = drop (length ds) r in
         if ds \<noteq> [] \<and> prefix '' runs in'' t then Some (ds, drop 8 t) else None)
      else None)"

definition match_interesting :: "string \<Rightarrow> string \<Rightarrow> (string \<times> string) option" where
  "match_interesting before s = match_number ''new interesting:'' s"

text \<open>A word boundary: the code point before, whose last byte comes first in \<open>before\<close>.\<close>

definition word_before :: "(string \<Rightarrow> bool) \<Rightarrow> string \<Rightarrow> bool" where
  "word_before alnum before =
     (case before of
        [] \<Rightarrow> False
      | c # _ \<Rightarrow>
          if (of_char c :: nat) < 128 then word_char c
          else alnum (rev (takeWhile is_cont before @ take 1 (dropWhile is_cont before))))"

definition match_coverage :: "(string \<Rightarrow> bool) \<Rightarrow> string \<Rightarrow> string \<Rightarrow> ((string \<times> string) \<times> string) option" where
  "match_coverage alnum before s =
     (if word_before alnum before then None
      else
        (case match_number ''cov:'' s of
           None \<Rightarrow> None
         | Some (edges, r) \<Rightarrow>
             if skip_spaces r = r then None
             else
               (case match_number ''ft:'' (skip_spaces r) of
                  None \<Rightarrow> None
                | Some (features, t) \<Rightarrow> Some ((edges, features), t))))"

text \<open>\<open>re.findall\<close>: matches from left to right, each after the end of the one before.\<close>

function findall :: "(string \<Rightarrow> string \<Rightarrow> ('a \<times> string) option) \<Rightarrow> string \<Rightarrow> string \<Rightarrow> 'a list" where
  "findall m before [] = []"
| "findall m before (c # cs) =
     (case m before (c # cs) of
        Some (x, r) \<Rightarrow>
          if length r < length (c # cs)
          then x # findall m (rev (take (length (c # cs) - length r) (c # cs)) @ before) r else []
      | None \<Rightarrow> findall m (c # before) cs)"
  by pat_completeness auto
termination
  by (relation "measure (\<lambda>(_, _, s). length s)") auto

definition int_text :: "string \<Rightarrow> int result" where
  "int_text ds =
     (if length ds > 4300 then Inl (ValueError ''Exceeds the limit for integer string conversion'')
      else Inr (int (dec_val ds)))"

definition execution_counts :: "string \<Rightarrow> string \<Rightarrow> string list" where
  "execution_counts engine log =
     (if engine = ''go'' then findall match_go [] log else findall match_runs [] log)"

definition exercised :: "string \<Rightarrow> string \<Rightarrow> bool result" where
  "exercised engine log =
     (case dropWhile (\<lambda>ds. length ds \<le> 4300 \<and> dec_val ds = 0) (execution_counts engine log) of
       [] \<Rightarrow> Inr False
     | ds # _ \<Rightarrow> rbind (int_text ds) (\<lambda>n. Inr (n > 0)))"

definition engine_metrics :: "(string \<Rightarrow> bool) \<Rightarrow> string \<Rightarrow> string \<Rightarrow> jobject result" where
  "engine_metrics alnum engine log =
     rbind (rmap int_text (execution_counts engine log)) (\<lambda>counts.
     let metrics = [(''engine'', PStr engine), (''executions'', PInt (foldl max 0 counts))] in
     if engine = ''go'' then
       (case findall match_interesting [] log of
          [] \<Rightarrow> Inr metrics
        | ds \<Rightarrow> rbind (int_text (last ds)) (\<lambda>n. Inr (metrics @ [(''new_interesting'', PInt n)])))
     else
       (case findall (match_coverage alnum) [] log of
          [] \<Rightarrow> Inr metrics
        | cs \<Rightarrow>
            rbind (int_text (fst (last cs))) (\<lambda>edges.
            rbind (int_text (snd (last cs))) (\<lambda>features.
            Inr (metrics @ [(''coverage_edges'', PInt edges), (''coverage_features'', PInt features)])))))"

section \<open>Processes\<close>

definition passed_variables :: "string list" where
  "passed_variables = [''PATH'', ''HOME'', ''GOROOT'', ''GOPATH'', ''GOCACHE'', ''GOMODCACHE'', ''GOTOOLCHAIN'',
     ''RUSTUP_HOME'', ''CARGO_HOME'', ''LD_LIBRARY_PATH'', ''PYTHONPATH'', ''JAVA_HOME'']"

definition sub_path :: "string \<Rightarrow> string \<Rightarrow> string" where
  "sub_path root p = (if p = ''.'' then root else if prefix ''/'' p then p else root @ ''/'' @ p)"

definition isolated_command :: "'w fuzz_env \<Rightarrow> string \<Rightarrow> string list \<Rightarrow> string list result" where
  "isolated_command E cwd command =
     (case command of
        [] \<Rightarrow> Inl IndexError
      | program # arguments \<Rightarrow>
          (case (if CHR ''/'' \<in> set program then Some (fz_abspath E (sub_path cwd program)) else fz_which E program) of
             None \<Rightarrow> Inl (ValueError (''Fuzz executable is unavailable: '' @ program))
           | Some executable \<Rightarrow>
               let environment = concat (map (\<lambda>k. case fz_environ E k of None \<Rightarrow> [] | Some v \<Rightarrow> [k @ ''='' @ v]) passed_variables) in
               Inr ([''sudo'', ''-n'', ''unshare'', ''--net'', ''--setgid='' @ nat_str (fz_gid E),
                 ''--setuid='' @ nat_str (fz_uid E), ''--'', ''/usr/bin/env'', ''-i''] @ environment
                 @ [''GOMEMLIMIT=1536MiB'', executable] @ arguments)))"

definition execute :: "'w fuzz_env \<Rightarrow> string list \<Rightarrow> string \<Rightarrow> string \<Rightarrow> int \<Rightarrow> bool \<Rightarrow> ('w, int \<times> pyfloat) io" where
  "execute E command cwd output timeout isolated w =
     (case (if isolated then isolated_command E cwd command else Inr command) of
        Inl e \<Rightarrow> (Inl e, w)
      | Inr c \<Rightarrow>
          (case fz_process E c cwd output timeout w of
             ((code, elapsed), w') \<Rightarrow> (Inr (case code of None \<Rightarrow> 124 | Some k \<Rightarrow> k, elapsed), w')))"

definition confined_path :: "'w fuzz_env \<Rightarrow> string \<Rightarrow> string \<Rightarrow> string result" where
  "confined_path E root p =
     rbind (value_require (fz_confined E p) ''Fuzz path resolves outside source'') (\<lambda>_. Inr (sub_path root p))"

definition parent_path :: "string \<Rightarrow> string" where
  "parent_path p = rev (drop 1 (dropWhile (\<lambda>c. c \<noteq> CHR ''/'') (rev p)))"

definition go_module_directory :: "'w fuzz_env \<Rightarrow> string \<Rightarrow> pyval \<Rightarrow> string result" where
  "go_module_directory E root value =
     rbind (fuzz_relative value) (\<lambda>p.
     rbind (confined_path E root p) (\<lambda>version_file.
     rbind (value_require (fz_regular E p) ''go-version-file must be an existing regular file without symlinks'') (\<lambda>_.
     Inr (parent_path version_file))))"

definition retain_go_diagnostics ::
  "'w fuzz_env \<Rightarrow> string \<Rightarrow> string \<Rightarrow> string \<Rightarrow> pyval \<Rightarrow> ('w, corpus_stats) io" where
  "retain_go_diagnostics E root cwd target_dir go_version_file =
     (\<lambda>w. ibind (ilift (if truthy go_version_file then go_module_directory E root go_version_file else Inr cwd)) (\<lambda>go_cwd.
       ibind (fz_gocache E go_cwd) (\<lambda>cache.
       retain_corpus E (strip cache @ ''/fuzz'') (target_dir @ ''/go-generated-corpus'') False))
       (fz_regressions E cwd target_dir w))"

section \<open>One target\<close>

definition prepare_corpus :: "'w fuzz_env \<Rightarrow> string \<Rightarrow> jobject \<Rightarrow> string \<Rightarrow> string \<Rightarrow> ('w, unit) io" where
  "prepare_corpus E root target corpus message =
     (if dhas target ''corpus'' then
        ibind (ilift (confined_path E root (as_str (dget target ''corpus'' PNone)))) (\<lambda>source.
        ibind (retain_corpus E source corpus True) (\<lambda>retained.
        ilift (value_require (\<not> cs_truncated retained) message)))
      else fz_mkdir E corpus)"

definition target_command :: "jobject \<Rightarrow> string \<Rightarrow> string list" where
  "target_command target target_dir =
     (let seconds = as_int (dget target ''seconds'' PNone) in
      strs (items_of (dget target ''command'' PNone))
      @ (if dget target ''engine'' PNone = PStr ''go'' then
           [''-fuzztime='' @ int_str seconds @ ''s'', ''-fuzzminimizetime=10s'', ''-parallel=2'',
            ''-timeout='' @ int_str (seconds + 60) @ ''s'']
         else
           [''-max_total_time='' @ int_str seconds, ''-timeout=10'', ''-rss_limit_mb=2048'',
            ''-artifact_prefix='' @ target_dir @ ''/'', target_dir @ ''/corpus'']))"

definition run_target :: "'w fuzz_env \<Rightarrow> string \<Rightarrow> string \<Rightarrow> pyval \<Rightarrow> jobject \<Rightarrow> ('w, jobject) io" where
  "run_target E root output go_version_file target =
     (let name = as_str (dget target ''name'' PNone); seconds = as_int (dget target ''seconds'' PNone);
          engine = as_str (dget target ''engine'' PNone); target_dir = output @ ''/'' @ name in
      ibind (fz_mkdir E target_dir) (\<lambda>_.
      ibind (prepare_corpus E root target (target_dir @ ''/corpus'')
        ''Committed fuzz corpus exceeds the bounded input budget'') (\<lambda>_.
      ibind (ilift (confined_path E root (as_str (dget target ''cwd'' (PStr ''.''))))) (\<lambda>cwd.
      ibind (execute E (target_command target target_dir) cwd (target_dir @ ''/'' @ RUN_LOG) (seconds + 300) True) (\<lambda>(code, elapsed).
      ibind (\<lambda>w. (engine_metrics (fz_alnum E) engine (fz_log E (target_dir @ ''/'' @ RUN_LOG) w), w)) (\<lambda>metrics.
      let exit_code = (if code = 0 \<and> dget metrics ''executions'' PNone = PInt 0 then 125 else code) in
      ibind (if engine = ''go'' then
          ibind (retain_go_diagnostics E root cwd target_dir go_version_file) (\<lambda>st.
          ireturn (metrics @ [(''generated_corpus'', stats_json st)]))
        else ireturn metrics) (\<lambda>ms.
      ireturn ([(''name'', PStr name), (''seconds'', PInt seconds), (''exit_code'', PInt exit_code),
        (''elapsed_seconds'', PFloat elapsed)] @ ms))))))))"

section \<open>The deterministic preflight\<close>

definition bounded_preflight ::
  "'w fuzz_env \<Rightarrow> string list \<Rightarrow> string \<Rightarrow> string \<Rightarrow> int \<Rightarrow> bool \<Rightarrow> int \<Rightarrow> ('w, int \<times> pyfloat) io" where
  "bounded_preflight E command cwd log maximum isolated deadline w =
     (case fz_clock E w of
        (now, w') \<Rightarrow>
          let remaining = (deadline - now) div 1000000000 in
          if remaining \<le> 0 then (Inl (ValueError ''Deterministic preflight exceeded its four-minute budget''), w')
          else execute E command cwd log (min maximum remaining) isolated w')"

definition replay_command :: "'w fuzz_env \<Rightarrow> string \<Rightarrow> string \<Rightarrow> jobject \<Rightarrow> string list" where
  "replay_command E root target_dir target =
     (let command = strs (items_of (dget target ''command'' PNone)) in
      [hd command, fz_toolkit E @ ''/fuzz_python_preflight.py'', ''--root'', root, ''--target'', as_str (dget target ''name'' PNone),
       ''--output'', target_dir @ ''/instrumentation.json'', ''--''] @ tl command
      @ [''-runs=0'', ''-timeout=10'', ''-rss_limit_mb=2048'', ''-artifact_prefix='' @ target_dir @ ''/'', target_dir @ ''/corpus''])"

text \<open>\<open>{**a, **b}\<close>.\<close>

definition dict_update :: "jobject \<Rightarrow> jobject \<Rightarrow> jobject" where
  "dict_update a b = foldl (\<lambda>d kv. dict_set d (fst kv) (snd kv)) a b"

definition replay_python_target ::
  "pylib \<Rightarrow> 'w fuzz_env \<Rightarrow> string \<Rightarrow> string \<Rightarrow> jobject \<Rightarrow> int \<Rightarrow> ('w, pyval) io" where
  "replay_python_target L E root output target deadline =
     (let name = as_str (dget target ''name'' PNone); target_dir = output @ ''/'' @ name;
          report = target_dir @ ''/instrumentation.json'' in
      ibind (fz_mkdir E target_dir) (\<lambda>_.
      ibind (prepare_corpus E root target (target_dir @ ''/corpus'')
        ''Committed preflight corpus exceeds the bounded input budget'') (\<lambda>_.
      ibind (ilift (confined_path E root (as_str (dget target ''cwd'' (PStr ''.''))))) (\<lambda>cwd.
      ibind (bounded_preflight E (replay_command E root target_dir target) cwd (target_dir @ ''/'' @ RUN_LOG) 90 True deadline) (\<lambda>(code, _).
      ibind (\<lambda>w. (case fz_file E report w of
            Some raw \<Rightarrow> (if code = 0 then Inr raw else Inl (ValueError (''Deterministic Python preflight failed: '' @ name)))
          | None \<Rightarrow> Inl (ValueError (''Deterministic Python preflight failed: '' @ name)), w)) (\<lambda>raw.
      ibind (\<lambda>w. (engine_metrics (fz_alnum E) ''atheris'' (fz_log E (target_dir @ ''/'' @ RUN_LOG) w), w)) (\<lambda>metrics.
      ibind (ilift (value_require (dget metrics ''executions'' PNone \<noteq> PInt 0)
        (''Python preflight requires positive engine execution metrics: '' @ name))) (\<lambda>_.
      ibind (ilift (loads_text L plain_opts raw)) (\<lambda>v.
      (case v of
         PDict d \<Rightarrow>
           (\<lambda>w. (Inr (PDict (dict_update d metrics)), fz_write E report (dump L 0 (PDict (dict_update d metrics)) @ [LF]) w))
       | _ \<Rightarrow> ilift (Inl (TypeError ''not a mapping''))))))))))))"

fun preflight_python ::
  "pylib \<Rightarrow> 'w fuzz_env \<Rightarrow> string \<Rightarrow> string \<Rightarrow> int \<Rightarrow> (string \<times> string) list \<Rightarrow> pyval list \<Rightarrow> pyval list \<Rightarrow> ('w, pyval list) io" where
  "preflight_python L E root output deadline interpreters proofs [] = ireturn proofs"
| "preflight_python L E root output deadline interpreters proofs (t # ts) =
     (let target = as_dict t; command = strs (items_of (dget target ''command'' PNone)) in
      ibind (ilift (value_require (dget target ''engine'' PNone = PStr ''atheris'' \<and> length command \<ge> 2)
        ''Python preflight requires Atheris script targets'')) (\<lambda>_.
      ibind (ilift (confined_path E root (as_str (dget target ''cwd'' (PStr ''.''))))) (\<lambda>cwd.
      let key = (cwd, hd command) in
      ibind (if key \<in> set interpreters then ireturn interpreters
        else ibind (bounded_preflight E [hd command, ''-m'', ''pip'', ''check''] cwd
               (output @ ''/pip-check-'' @ nat_str (length interpreters) @ ''.log'') 60 True deadline) (\<lambda>(code, _).
             ilift (if code \<noteq> 0 then Inl (ValueError ''Fuzz dependency environment failed pip check'')
               else Inr (interpreters @ [key])))) (\<lambda>seen.
      ibind (replay_python_target L E root output target deadline) (\<lambda>p.
      preflight_python L E root output deadline seen (proofs @ [p]) ts)))))"

text \<open>A numbered list of commands, each of which has to succeed.\<close>

fun run_numbered :: "(nat \<Rightarrow> string list \<Rightarrow> ('w, int) io) \<Rightarrow> (nat \<Rightarrow> int \<Rightarrow> string) \<Rightarrow> nat \<Rightarrow> pyval list \<Rightarrow> ('w, unit) io" where
  "run_numbered f message i [] = ireturn ()"
| "run_numbered f message i (c # cs) =
     ibind (f i (strs (items_of c))) (\<lambda>code.
     if code \<noteq> 0 then ilift (Inl (ValueError (message i code))) else run_numbered f message (Suc i) cs)"

definition first_of :: "('w, 'a \<times> 'b) io \<Rightarrow> ('w, 'a) io" where
  "first_of m = ibind m (\<lambda>(a, _). ireturn a)"

definition run_preflight :: "pylib \<Rightarrow> 'w fuzz_env \<Rightarrow> string \<Rightarrow> string \<Rightarrow> jobject \<Rightarrow> bool \<Rightarrow> ('w, jobject) io" where
  "run_preflight L E root output data setup =
     (let python = (dget data ''language'' PNone = PStr ''python'');
          commands = items_of (dget data ''preflight'' (PList [])) in
      ibind (ilift (validate_python_preflight data)) (\<lambda>_.
      ibind (fz_mkdir E output) (\<lambda>_.
      ibind (\<lambda>w. case fz_clock E w of (now, w') \<Rightarrow> (Inr (now + 240000000000), w')) (\<lambda>deadline.
      ibind (if setup \<and> python then
          run_numbered (\<lambda>i c. first_of (bounded_preflight E c root (output @ ''/setup-'' @ nat_str i @ ''.log'') 180 False deadline))
            (\<lambda>i code. ''Preflight dependency setup '' @ nat_str i @ '' failed with '' @ int_str code) 0 (items_of (dget data ''setup'' PNone))
        else ireturn ()) (\<lambda>_.
      ibind (if python then preflight_python L E root output deadline [] [] (items_of (dget data ''targets'' PNone))
        else ireturn []) (\<lambda>proofs.
      ibind (run_numbered (\<lambda>i c. first_of (bounded_preflight E c root (output @ ''/command-'' @ nat_str i @ ''.log'') 90 True deadline))
          (\<lambda>i code. ''Deterministic preflight command '' @ nat_str i @ '' failed with '' @ int_str code) 0 commands) (\<lambda>_.
      let evidence = [(''python_targets'', PList proofs), (''commands'', PInt (int (length commands)))] in
      (\<lambda>w. (Inr evidence, fz_write E (output @ ''/preflight-report.json'') (dump L 0 (PDict evidence) @ [LF]) w)))))))))"

section \<open>The campaign\<close>

text \<open>The target reports so far are kept when a target raises.\<close>

fun campaign_targets ::
  "'w fuzz_env \<Rightarrow> string \<Rightarrow> string \<Rightarrow> pyval \<Rightarrow> pyval list \<Rightarrow> pyval list \<Rightarrow> 'w \<Rightarrow> (unit result \<times> pyval list) \<times> 'w" where
  "campaign_targets E root output gofile acc [] w = ((Inr (), acc), w)"
| "campaign_targets E root output gofile acc (t # ts) w =
     (case run_target E root output gofile (as_dict t) w of
        (Inl e, w') \<Rightarrow> ((Inl e, acc), w')
      | (Inr r, w') \<Rightarrow> campaign_targets E root output gofile (acc @ [PDict r]) ts w')"

text \<open>What the \<open>try\<close> block adds to the report, and how it ends.\<close>

definition campaign_body ::
  "pylib \<Rightarrow> 'w fuzz_env \<Rightarrow> string \<Rightarrow> string \<Rightarrow> jobject \<Rightarrow> 'w \<Rightarrow> (unit result \<times> jobject option \<times> pyval list) \<times> 'w" where
  "campaign_body L E root output data w =
     (case run_numbered (\<lambda>i c. first_of (execute E c root (output @ ''/setup-'' @ nat_str i @ ''.log'') 600 False))
         (\<lambda>i code. ''Fuzz build/setup '' @ nat_str i @ '' failed with '' @ int_str code) 0 (items_of (dget data ''setup'' PNone)) w of
        (Inl e, w1) \<Rightarrow> ((Inl e, None, []), w1)
      | (Inr _, w1) \<Rightarrow>
          (case run_preflight L E root (output @ ''/preflight'') data False w1 of
             (Inl e, w2) \<Rightarrow> ((Inl e, None, []), w2)
           | (Inr evidence, w2) \<Rightarrow>
               (case campaign_targets E root output (dget data ''go-version-file'' PNone) [] (items_of (dget data ''targets'' PNone)) w2 of
                  ((Inl e, ts), w3) \<Rightarrow> ((Inl e, Some evidence, ts), w3)
                | ((Inr _, ts), w3) \<Rightarrow>
                    ((if \<exists>t \<in> set ts. truthy (dget (as_dict t) ''exit_code'' PNone)
                      then Inl (ValueError ''One or more fuzz targets failed; inspect diagnostics'') else Inr (),
                      Some evidence, ts), w3))))"

record fuzz_context =
  fc_event :: string
  fc_event_name :: string
  fc_ref :: string
  fc_repository :: string
  fc_sha :: string
  fc_run_id :: int
  fc_attempt :: int

definition campaign_report :: "pylib \<Rightarrow> fuzz_context \<Rightarrow> string \<Rightarrow> string \<Rightarrow> bool \<Rightarrow> jobject option \<Rightarrow> pyval list \<Rightarrow> jobject" where
  "campaign_report L C actual raw passed evidence targets =
     [(''schema'', PInt 2), (''repository'', PStr (fc_repository C)), (''source_sha'', PStr actual),
      (''run_id'', PInt (fc_run_id C)), (''run_attempt'', PInt (fc_attempt C)), (''channel'', PStr ''rc''),
      (''private'', PBool False), (''network'', PStr ''isolated''), (''status'', PStr (if passed then ''passed'' else ''failed'')),
      (''manifest_sha256'', PStr (sha256 L raw)), (''targets'', PList targets)]
     @ (case evidence of None \<Rightarrow> [] | Some e \<Rightarrow> [(''preflight'', PDict e)])"

text \<open>The report the campaign leaves behind, none when it stops before its directory exists.\<close>

definition campaign ::
  "pylib \<Rightarrow> 'w fuzz_env \<Rightarrow> fuzz_context \<Rightarrow> string \<Rightarrow> string \<Rightarrow> string \<Rightarrow> 'w \<Rightarrow> (unit result \<times> jobject option) \<times> 'w" where
  "campaign L E C root output raw w =
     (case rbind (loads_text L plain_opts (fc_event C)) (\<lambda>event.
           rbind (event_contract L event (fc_event_name C) (fc_ref C) (fc_repository C) (fc_sha C)) (\<lambda>_.
           rbind (fuzz_manifest L (fz_confined E) (fz_regular E) raw) (\<lambda>data.
           rbind (validate_python_preflight data) (\<lambda>_. Inr data)))) of
        Inl e \<Rightarrow> ((Inl e, None), w)
      | Inr data \<Rightarrow>
          (case fz_head E root w of
             (Inl e, w1) \<Rightarrow> ((Inl e, None), w1)
           | (Inr out, w1) \<Rightarrow>
               if strip out \<noteq> fc_sha C then ((Inl (ValueError ''Fuzz checkout differs from RC source''), None), w1)
               else
                 (case fz_mkdir E output w1 of
                    (Inl e, w2) \<Rightarrow> ((Inl e, None), w2)
                  | (Inr _, w2) \<Rightarrow>
                      (case campaign_body L E root output data w2 of
                         ((r, evidence, ts), w3) \<Rightarrow>
                           let report = campaign_report L C (strip out) raw (r = Inr ()) evidence ts in
                           ((r, Some report), fz_write E (output @ ''/'' @ REPORT) (dump L 0 (PDict report) @ [LF]) w3)))))"

section \<open>When ordinary CI runs the preflight\<close>

definition preflight_changed_paths :: "git_runner \<Rightarrow> string \<Rightarrow> pyval \<Rightarrow> string list result" where
  "preflight_changed_paths run_git event_name event =
     rbind (event_revisions event_name event) (\<lambda>(base, head, separator).
     rbind (value_require (fullmatch SHA base \<and> fullmatch SHA head)
       ''Git revisions must be full object IDs with a fixed range separator'') (\<lambda>_.
     rbind (run_git [''git'', ''diff'', ''--name-only'', ''-z'', ''--no-renames'', ''--no-ext-diff'', base @ separator @ head, ''--'']) (\<lambda>raw.
     rmap (\<lambda>p. if utf8_ok False p then Inr p else Inl (ValueError ''invalid utf-8''))
       (filter (\<lambda>p. p \<noteq> []) (split_on NUL raw)))))"

definition caught_preflight :: "pyerror \<Rightarrow> bool" where
  "caught_preflight e \<longleftrightarrow> is_value_error e \<or> (case e of KeyError _ \<Rightarrow> True | OSError _ \<Rightarrow> True | _ \<Rightarrow> False)"

definition toolkit_paths :: "string list" where
  "toolkit_paths = [''.github/fuzz.json'', ''.github/requirements-fuzz.txt'', ''.release-policy.json'', ''scripts/change_scope.py'',
     ''scripts/release_fuzz.py'', ''scripts/fuzz_python_preflight.py'', ''.github/workflows'']"

definition preflight_needed ::
  "git_runner \<Rightarrow> pyval \<Rightarrow> string option \<Rightarrow> string option \<Rightarrow> jobject \<Rightarrow> bool result" where
  "preflight_needed run_git event repository event_name data =
     rbind (pget event ''repository'' (PDict [])) (\<lambda>r.
     rbind (pget r ''private'' PNone) (\<lambda>private.
     rbind (pget r ''full_name'' PNone) (\<lambda>full_name.
     rbind (value_require (private = PBool False \<and> full_name = (case repository of None \<Rightarrow> PNone | Some s \<Rightarrow> PStr s))
       ''Hosted fuzz preflight requires a public repository'') (\<lambda>_.
     (case event_name of
        None \<Rightarrow> Inr False
      | Some name \<Rightarrow>
          if name \<notin> {''pull_request'', ''merge_group'', ''push''} then Inr False
          else
            let required = strs (items_of (dget data ''preflight-paths'' (PList []))) in
            if required = [] \<or> ''.'' \<in> set required then Inr True
            else
              (case preflight_changed_paths run_git name event of
                 Inl e \<Rightarrow> if caught_preflight e then Inr True else Inl e
               | Inr changed \<Rightarrow>
                   Inr (\<exists>p \<in> set changed. \<exists>wanted \<in> set (required @ toolkit_paths). p = wanted \<or> prefix (wanted @ ''/'') p)))))))"

section \<open>Accepted manifests are bounded\<close>

definition bounded_target :: "pyval \<Rightarrow> bool" where
  "bounded_target v \<longleftrightarrow>
     (\<exists>d name engine n command. v = PDict d \<and> dget d ''name'' PNone = PStr name \<and> dget d ''engine'' PNone = PStr engine
        \<and> dget d ''seconds'' PNone = PInt n \<and> 1 \<le> n \<and> n \<le> 120
        \<and> dget d ''command'' PNone = PList (map PStr command) \<and> command \<noteq> []
        \<and> (\<forall>arg \<in> set command. flag_of arg \<notin> set reserved_flags))"

lemma fuzz_argv_Inr: "fuzz_argv v = Inr c \<Longrightarrow> v = PList (map PStr c) \<and> c \<noteq> []"
proof -
  assume a: "fuzz_argv v = Inr c"
  then obtain vs where v: "v = PList vs" and "1 \<le> length vs" and ok: "\<forall>x \<in> set vs. argument_ok x" and c: "c = strs vs"
    by (cases v) (auto simp: fuzz_argv_def rbind_Inr_iff)
  have "map (PStr \<circ> as_str) vs = map id vs"
    by (rule map_cong) (use ok in \<open>auto simp: argument_ok_def as_str_def split: pyval.splits\<close>)
  with v c \<open>1 \<le> length vs\<close> show ?thesis by (auto simp: strs_def)
qed

lemma validate_target_Inr:
  assumes "validate_target confined v names = Inr names'"
  shows "bounded_target v \<and> (\<exists>name. names' = names @ [name] \<and> name \<notin> set names \<and> dget (as_dict v) ''name'' PNone = PStr name)"
proof -
  obtain d where v: "v = PDict d"
    using assms by (cases v) (simp_all add: validate_target_def)
  obtain command where
    m: "matches_str target_name (dget d ''name'' PNone)" "as_str (dget d ''name'' PNone) \<notin> set names"
    and e: "in_strs (dget d ''engine'' PNone) [''go'', ''libfuzzer'', ''atheris''] = Inr True"
    and s: "int_at_least 1 (dget d ''seconds'' PNone)" "as_int (dget d ''seconds'' PNone) \<le> 120"
    and c: "fuzz_argv (dget d ''command'' PNone) = Inr command" "\<forall>arg \<in> set command. flag_of arg \<notin> set reserved_flags"
    and n: "names' = names @ [as_str (dget d ''name'' PNone)]"
    using assms unfolding v validate_target_def pyval.case rbind_Inr_iff value_require_simps by auto
  obtain name where name: "dget d ''name'' PNone = PStr name"
    using m by (cases "dget d ''name'' PNone") (simp_all add: matches_str_def)
  obtain engine where engine: "dget d ''engine'' PNone = PStr engine"
    using e unfolding in_strs_True_iff by blast
  obtain k where k: "dget d ''seconds'' PNone = PInt k"
    using s by (cases "dget d ''seconds'' PNone") (simp_all add: int_at_least_def)
  have "bounded_target v"
    unfolding bounded_target_def
    using v name engine k s c fuzz_argv_Inr [OF c(1)] by (auto simp: int_at_least_def as_int_def)
  then show ?thesis using v name m n by (simp add: as_dict_def as_str_def)
qed

lemma validate_targets_Inr:
  "rfold (\<lambda>names t. validate_target confined t names) names ts = Inr names' \<Longrightarrow> distinct names \<Longrightarrow>
     (\<forall>t \<in> set ts. bounded_target t) \<and> distinct names' \<and>
     (\<exists>more. names' = names @ more \<and> map (\<lambda>t. dget (as_dict t) ''name'' PNone) ts = map PStr more)"
proof (induction ts arbitrary: names)
  case Nil
  then show ?case by simp
next
  case (Cons t ts)
  from Cons.prems obtain ns where v: "validate_target confined t names = Inr ns"
    and r: "rfold (\<lambda>names t. validate_target confined t names) ns ts = Inr names'"
    by (auto simp: rbind_Inr_iff)
  from validate_target_Inr [OF v] obtain name where
    n: "bounded_target t" "ns = names @ [name]" "name \<notin> set names" "dget (as_dict t) ''name'' PNone = PStr name"
    by blast
  with Cons.prems have "distinct ns" by simp
  from Cons.IH [OF r this] n show ?case by auto
qed

text \<open>A target that declares instrumentation declares at least one function.\<close>

lemma validate_target_declares:
  assumes "validate_target confined t names = Inr names'" "truthy (dget (as_dict t) ''instrumentation'' PNone)"
  shows "declared_functions (as_dict t) \<noteq> []"
proof -
  obtain d where t: "t = PDict d"
    using assms(1) by (cases t) (simp_all add: validate_target_def)
  have h: "dhas d ''instrumentation''"
    using assms(2) by (auto simp: t as_dict_def dget_def dhas_def dict_keys split: option.splits)
  have "list_within 1 32 (dget d ''instrumentation'' PNone)"
    and ok: "\<forall>x \<in> set (items_of (dget d ''instrumentation'' PNone)). instrumentation_ok x"
    using assms(1) h unfolding t validate_target_def pyval.case rbind_Inr_iff value_require_simps by (auto simp: rbind_Inr_iff)
  then obtain x xs where x: "dget d ''instrumentation'' PNone = PList (x # xs)"
    by (cases "dget d ''instrumentation'' PNone") (auto simp: list_within_def Suc_le_length_iff)
  with ok have "instrumentation_ok x" by (simp add: items_of_def)
  then obtain e f fs where "x = PDict e" "dget e ''functions'' PNone = PList (f # fs)"
    by (cases x; cases "dget (as_dict x) ''functions'' PNone")
       (auto simp: instrumentation_ok_def as_dict_def list_within_def Suc_le_length_iff)
  moreover have "dget d ''instrumentation'' (PList []) = PList (x # xs)"
    using x h by (auto simp: dget_def dhas_def split: option.splits)
  ultimately show ?thesis
    by (simp add: t as_dict_def declared_functions_def items_of_def)
qed

lemma validate_targets_each:
  "rfold (\<lambda>names t. validate_target confined t names) names ts = Inr names' \<Longrightarrow> t \<in> set ts \<Longrightarrow>
     \<exists>ns ns'. validate_target confined t ns = Inr ns'"
  by (induction ts arbitrary: names) (auto simp: rbind_Inr_iff)

lemma python_targets_declare:
  assumes "fuzz_manifest L confined regular raw = Inr data" "validate_python_preflight data = Inr ()"
    "dget data ''language'' PNone = PStr ''python''" "t \<in> set (items_of (dget data ''targets'' PNone))"
  shows "declared_functions (as_dict t) \<noteq> []"
proof -
  have "\<exists>names. rfold (\<lambda>names t. validate_target confined t names) [] (items_of (dget data ''targets'' PNone)) = Inr names"
    using assms(1) unfolding fuzz_manifest_def rbind_Inr_iff value_require_simps by auto
  with validate_targets_each assms(4) obtain ns ns' where "validate_target confined t ns = Inr ns'" by blast
  moreover have "truthy (dget (as_dict t) ''instrumentation'' PNone)"
    using assms(2-4) by (auto simp: validate_python_preflight_def)
  ultimately show ?thesis by (rule validate_target_declares)
qed

definition accepted_manifest :: "jobject \<Rightarrow> bool" where
  "accepted_manifest data \<longleftrightarrow>
     (\<exists>ts names. dget data ''targets'' PNone = PList ts \<and> 1 \<le> length ts \<and> length ts \<le> 12
        \<and> map (\<lambda>t. dget (as_dict t) ''name'' PNone) ts = map PStr names \<and> distinct names
        \<and> (\<forall>t \<in> set ts. bounded_target t) \<and> sum_list (map target_seconds ts) \<le> 600)
     \<and> list_within 0 16 (dget data ''preflight'' (PList []))"

lemma fuzz_manifest_accepted: "fuzz_manifest L confined regular raw = Inr data \<Longrightarrow> accepted_manifest data"
proof -
  assume a: "fuzz_manifest L confined regular raw = Inr data"
  obtain v names where
    sh: "validate_manifest_shape v = Inr data"
    and pf: "check_list 16 ''Preflight commands must be a bounded list'' (\<lambda>c. rbind (fuzz_argv c) (\<lambda>_. Inr ()))
       (dget data ''preflight'' (PList [])) = Inr ()"
    and ts: "rfold (\<lambda>names t. validate_target confined t names) [] (items_of (dget data ''targets'' PNone)) = Inr names"
    and sum: "sum_list (map target_seconds (items_of (dget data ''targets'' PNone))) \<le> 600"
    using a unfolding fuzz_manifest_def rbind_Inr_iff value_require_simps by auto
  have "list_within 1 12 (dget data ''targets'' PNone)"
    using sh by (cases v) (auto simp: validate_manifest_shape_def rbind_Inr_iff)
  then obtain xs where xs: "dget data ''targets'' PNone = PList xs" "1 \<le> length xs" "length xs \<le> 12"
    by (cases "dget data ''targets'' PNone") (simp_all add: list_within_def)
  have items: "items_of (PList xs) = xs" by (simp add: items_of_def)
  have "list_within 0 16 (dget data ''preflight'' (PList []))"
    using pf by (auto simp: check_list_def rbind_Inr_iff)
  moreover from validate_targets_Inr [OF ts] have
    "(\<forall>t \<in> set xs. bounded_target t) \<and> distinct names \<and> map (\<lambda>t. dget (as_dict t) ''name'' PNone) xs = map PStr names"
    unfolding xs(1) items by simp
  ultimately show ?thesis
    unfolding accepted_manifest_def using xs sum items by auto
qed

section \<open>A passed campaign is accepted evidence\<close>

lemma foldl_max_ge: "(a::int) \<le> foldl max a xs"
  by (induction xs arbitrary: a) (auto intro: order_trans [OF max.cobounded1])

lemma engine_metrics_Inr:
  assumes "engine_metrics alnum engine log = Inr m"
  shows "\<exists>n rest. m = (''engine'', PStr engine) # (''executions'', PInt n) # rest \<and> 0 \<le> n
    \<and> fst ` set rest \<subseteq> {''new_interesting'', ''coverage_edges'', ''coverage_features''}"
proof -
  from assms obtain counts rest where "m = [(''engine'', PStr engine), (''executions'', PInt (foldl max 0 counts))] @ rest"
      "fst ` set rest \<subseteq> {''new_interesting'', ''coverage_edges'', ''coverage_features''}"
    unfolding engine_metrics_def
    by (auto simp: rbind_Inr_iff Let_def split: if_splits list.splits)
  with foldl_max_ge [of 0 counts] show ?thesis by auto
qed

text \<open>An update \<open>{**a, **b}\<close> has the last entry of \<open>b\<close>, else the entry of \<open>a\<close>.\<close>

lemma map_of_dict_update:
  "map_of (dict_update a b) k = (case map_of (rev b) k of Some v \<Rightarrow> Some v | None \<Rightarrow> map_of a k)"
proof (induction b arbitrary: a)
  case (Cons kv b)
  have "dict_update a (kv # b) = dict_update (dict_set a (fst kv) (snd kv)) b"
    by (simp add: dict_update_def)
  then show ?case
    by (cases kv) (auto simp: Cons.IH map_of_dict_set map_add_def split: option.splits)
qed (simp add: dict_update_def)

lemma dict_update_metrics:
  assumes "engine_metrics alnum engine log = Inr m" "dget m ''executions'' PNone \<noteq> PInt 0"
  shows "dget (dict_update d m) ''engine'' PNone = PStr engine \<and> positive_int (dget (dict_update d m) ''executions'' PNone)"
proof -
  from engine_metrics_Inr [OF assms(1)] obtain n rest where
    m: "m = (''engine'', PStr engine) # (''executions'', PInt n) # rest" "0 \<le> n"
    and r: "fst ` set rest \<subseteq> {''new_interesting'', ''coverage_edges'', ''coverage_features''}" by blast
  have "map_of (rev rest) ''engine'' = None" "map_of (rev rest) ''executions'' = None"
    using r by (auto simp: map_of_eq_None_iff)
  moreover have "n \<noteq> 0" using assms(2) by (simp add: m dget_def)
  ultimately show ?thesis
    using m(2) by (simp add: m(1) dget_def map_of_dict_update positive_int_def int_at_least_def map_add_def)
qed

text \<open>What a target's report says, and that success means work was done.\<close>

definition reported :: "jobject \<Rightarrow> jobject \<Rightarrow> bool" where
  "reported target r \<longleftrightarrow>
     (\<exists>k n. dget r ''name'' PNone = PStr (as_str (dget target ''name'' PNone))
        \<and> dget r ''seconds'' PNone = PInt (as_int (dget target ''seconds'' PNone))
        \<and> dget r ''engine'' PNone = PStr (as_str (dget target ''engine'' PNone))
        \<and> dget r ''exit_code'' PNone = PInt k \<and> dget r ''executions'' PNone = PInt n \<and> 0 \<le> n \<and> (k = 0 \<longrightarrow> n \<noteq> 0))"

lemma run_target_reported:
  assumes "run_target E root output gofile target w = (Inr r, w')"
  shows "reported target r"
proof -
  obtain code elapsed m rest log where
    em: "engine_metrics (fz_alnum E) (as_str (dget target ''engine'' PNone)) log = Inr m"
    and r: "r = [(''name'', PStr (as_str (dget target ''name'' PNone))), (''seconds'', PInt (as_int (dget target ''seconds'' PNone))),
        (''exit_code'', PInt (if code = 0 \<and> dget m ''executions'' PNone = PInt 0 then 125 else code)),
        (''elapsed_seconds'', PFloat elapsed)] @ m @ rest"
    using assms unfolding run_target_def Let_def ibind_Inr_iff
    by (auto simp: ibind_Inr_iff split: if_splits prod.splits) fastforce+
  from engine_metrics_Inr [OF em] obtain n tail where
    m: "m = (''engine'', PStr (as_str (dget target ''engine'' PNone))) # (''executions'', PInt n) # tail" "0 \<le> n"
    by blast
  show ?thesis
    unfolding reported_def r m(1) using m(2) by (auto simp: dget_def)
qed

lemma campaign_targets_reported:
  "campaign_targets E root output gofile acc ts w = ((Inr (), acc'), w') \<Longrightarrow>
     \<exists>rs. acc' = acc @ map PDict rs \<and> list_all2 (\<lambda>t r. reported (as_dict t) r) ts rs"
proof (induction ts arbitrary: acc w)
  case Nil
  then show ?case by simp
next
  case (Cons t ts)
  then obtain r v where r: "run_target E root output gofile (as_dict t) w = (Inr r, v)"
    and c: "campaign_targets E root output gofile (acc @ [PDict r]) ts v = ((Inr (), acc'), w')"
    by (auto split: prod.splits sum.splits)
  from Cons.IH [OF c] obtain rs where "acc' = (acc @ [PDict r]) @ map PDict rs"
      "list_all2 (\<lambda>t r. reported (as_dict t) r) ts rs" by blast
  with run_target_reported [OF r] show ?case
    by (intro exI [of _ "r # rs"]) simp
qed

lemma run_preflight_evidence:
  assumes "run_preflight L E root output data setup w = (Inr e, w')"
  shows "dget e ''commands'' PNone = PInt (int (length (items_of (dget data ''preflight'' (PList [])))))"
  using assms unfolding run_preflight_def Let_def ibind_Inr_iff
  by (auto simp: dget_def)

text \<open>Each Python proof the preflight returns names the engine and counts executions.\<close>

definition engine_proof :: "pyval \<Rightarrow> bool" where
  "engine_proof v \<longleftrightarrow> (\<exists>p. v = PDict p \<and> dget p ''engine'' PNone = PStr ''atheris'' \<and> positive_int (dget p ''executions'' PNone))"

lemma replay_python_proof:
  assumes "replay_python_target L E root output target deadline w = (Inr v, w')"
  shows "engine_proof v"
proof -
  from assms obtain x m log report u u' where
    m: "engine_metrics (fz_alnum E) ''atheris'' log = Inr m" "dget m ''executions'' PNone \<noteq> PInt 0"
    and x: "(case x of
         PDict d \<Rightarrow> (\<lambda>w. (Inr (PDict (dict_update d m)), fz_write E report (dump L 0 (PDict (dict_update d m)) @ [LF]) w))
       | _ \<Rightarrow> ilift (Inl (TypeError ''not a mapping''))) u = (Inr v, u')"
    unfolding replay_python_target_def Let_def ibind_Inr_iff
    by (auto simp: ibind_Inr_iff simp del: dump.simps split: prod.splits)
  from x obtain d where "v = PDict (dict_update d m)" by (cases x) auto
  with dict_update_metrics [OF m] show ?thesis by (simp add: engine_proof_def)
qed

lemma preflight_python_proofs:
  "preflight_python L E root output deadline interpreters proofs ts w = (Inr qs, w') \<Longrightarrow>
     \<exists>ps. qs = proofs @ ps \<and> length ps = length ts \<and> list_all engine_proof ps"
proof (induction ts arbitrary: interpreters proofs w)
  case Nil
  then show ?case by simp
next
  case (Cons t ts)
  then obtain seen p v v' where
    r: "replay_python_target L E root output (as_dict t) deadline v = (Inr p, v')"
    and c: "preflight_python L E root output deadline seen (proofs @ [p]) ts v' = (Inr qs, w')"
    by (auto simp: Let_def ibind_Inr_iff)
  from Cons.IH [OF c] obtain ps where "qs = (proofs @ [p]) @ ps" "length ps = length ts" "list_all engine_proof ps" by blast
  with replay_python_proof [OF r] show ?case
    by (intro exI [of _ "p # ps"]) simp
qed

lemma run_preflight_proofs:
  assumes "run_preflight L E root output data setup w = (Inr e, w')" "dget data ''language'' PNone = PStr ''python''"
  shows "\<exists>ps. dget e ''python_targets'' PNone = PList ps \<and> length ps = length (items_of (dget data ''targets'' PNone))
    \<and> list_all engine_proof ps"
proof -
  from assms obtain ps v v' deadline where
    p: "preflight_python L E root output deadline [] [] (items_of (dget data ''targets'' PNone)) v = (Inr ps, v')"
    and e: "dget e ''python_targets'' PNone = PList ps"
    unfolding run_preflight_def Let_def ibind_Inr_iff
    by (auto simp: dget_def)
  from preflight_python_proofs [OF p] e show ?thesis by auto
qed

text \<open>The replay's own report names the target and lists exactly the functions the manifest declares,
  module by module and in that order.\<close>

definition instrumentation_proved :: "jobject \<Rightarrow> pyval \<Rightarrow> bool" where
  "instrumentation_proved target v \<longleftrightarrow>
     (\<exists>p items. v = PDict p \<and> dget p ''target'' PNone = dget target ''name'' PNone
        \<and> dget p ''instrumentation'' PNone = PList (map PDict items)
        \<and> map (\<lambda>d. (dget d ''module'' PNone, dget d ''function'' PNone)) items = declared_functions target)"

lemma dict_items: "(\<forall>x \<in> set xs. is_dict x) \<longleftrightarrow> (\<exists>ds. xs = map PDict ds)"
proof
  assume "\<forall>x \<in> set xs. is_dict x"
  then have "map (PDict \<circ> as_dict) xs = map id xs"
    by (intro map_cong) (auto simp: as_dict_def split: pyval.splits)
  then show "\<exists>ds. xs = map PDict ds" by (metis list.map_id map_map)
qed auto

lemma verify_python_proof_iff:
  assumes "engine_proof v" "declared_functions target \<noteq> []"
  shows "verify_python_proof v target = Inr () \<longleftrightarrow> instrumentation_proved target v"
proof -
  obtain p where p: "v = PDict p" "dget p ''engine'' PNone = PStr ''atheris''" "positive_int (dget p ''executions'' PNone)"
    using assms(1) by (auto simp: engine_proof_def)
  show ?thesis
    unfolding verify_python_proof_def instrumentation_proved_def Let_def p(1) pyval.case rbind_Inr_iff value_require_simps
    using p assms(2)
    by (cases "dget p ''instrumentation'' PNone")
       (auto simp: items_of_def dict_items comp_def)
qed

lemma reported_inventory:
  assumes "list_all2 (\<lambda>t r. reported (as_dict t) r) ts rs" "\<forall>t \<in> set ts. bounded_target t"
    "\<not> (\<exists>t \<in> set (map PDict rs). truthy (dget (as_dict t) ''exit_code'' PNone))"
  shows "inventory_ok (map PDict rs) ts"
    and "\<forall>tc \<in> set (zip (map PDict rs) ts). metrics_ok (fst tc) (snd tc)"
proof -
  have one: "(case (PDict r, t) of (PDict d, PDict e) \<Rightarrow> is_int (dget d ''seconds'' PNone) \<and> dget d ''exit_code'' PNone = PInt 0
          \<and> dget d ''name'' PNone = dget e ''name'' PNone \<and> dget d ''seconds'' PNone = dget e ''seconds'' PNone
      | _ \<Rightarrow> False) \<and> metrics_ok (PDict r) t"
    if "reported (as_dict t) r" "bounded_target t" "\<not> truthy (dget r ''exit_code'' PNone)" for t r
    using that by (auto simp: reported_def bounded_target_def as_dict_def as_str_def as_int_def metrics_ok_def
      positive_int_def int_at_least_def)
  have pt: "i < length rs \<Longrightarrow> reported (as_dict (ts ! i)) (rs ! i) \<and> bounded_target (ts ! i)
      \<and> \<not> truthy (dget (rs ! i) ''exit_code'' PNone)" for i
    using assms by (auto simp: list_all2_conv_all_nth as_dict_def)
  have len: "length ts = length rs" using assms(1) by (simp add: list_all2_lengthD)
  show "inventory_ok (map PDict rs) ts"
    unfolding inventory_ok_def list_all2_conv_all_nth using len pt one by auto
  show "\<forall>tc \<in> set (zip (map PDict rs) ts). metrics_ok (fst tc) (snd tc)"
    using len pt one by (auto simp: set_zip)
qed

text \<open>The report's preflight has one instrumentation proof per target of the manifest.\<close>

definition python_proved :: "jobject \<Rightarrow> jobject \<Rightarrow> bool" where
  "python_proved report config \<longleftrightarrow>
     (\<exists>evidence proofs. dget report ''preflight'' PNone = PDict evidence \<and> dget evidence ''python_targets'' PNone = PList proofs
        \<and> list_all2 (\<lambda>v t. instrumentation_proved (as_dict t) v) proofs (items_of (dget config ''targets'' PNone)))"

lemma campaign_accept:
  assumes c: "campaign L E C root output raw w = ((r, Some report), w')"
    and m: "fuzz_manifest L (fz_confined E) (fz_regular E) raw = Inr config"
  shows "verify_report_data L report config raw (fc_repository C) (fc_sha C) (fc_run_id C) (fc_attempt C) = Inr () \<longleftrightarrow>
    r = Inr () \<and> (if dget config ''language'' PNone = PStr ''python'' then python_proved report config else True)"
proof -
  obtain data out w1 w2 evidence ts where
    d: "fuzz_manifest L (fz_confined E) (fz_regular E) raw = Inr data"
    and vp: "validate_python_preflight data = Inr ()" and head: "strip out = fc_sha C"
    and b: "campaign_body L E root output data w2 = ((r, evidence, ts), w1)"
    and rep: "report = campaign_report L C (fc_sha C) raw (r = Inr ()) evidence ts"
    using c unfolding campaign_def Let_def
    by (auto split: sum.splits prod.splits if_splits simp: rbind_Inr_iff)
  from d m have data: "data = config" by simp
  show ?thesis
  proof (cases "r = Inr ()")
    case False
    then show ?thesis
      by (simp add: rep verify_report_data_def campaign_report_def dget_def rbind_Inr_iff)
  next
    case True
    obtain v1 v2 v3 e where
      p: "run_preflight L E root (output @ ''/preflight'') config False v1 = (Inr e, v2)"
      and t: "campaign_targets E root output (dget config ''go-version-file'' PNone) [] (items_of (dget config ''targets'' PNone)) v2
         = ((Inr (), ts), v3)"
      and z: "\<not> (\<exists>t \<in> set ts. truthy (dget (as_dict t) ''exit_code'' PNone))" and ev: "evidence = Some e"
      using b True unfolding data campaign_body_def by (auto split: sum.splits prod.splits if_splits)
    from fuzz_manifest_accepted [OF m] have bt: "\<forall>t \<in> set (items_of (dget config ''targets'' PNone)). bounded_target t"
      by (auto simp: accepted_manifest_def items_of_def)
    from campaign_targets_reported [OF t] obtain rs where
      ts: "ts = map PDict rs" and rs: "list_all2 (\<lambda>t r. reported (as_dict t) r) (items_of (dget config ''targets'' PNone)) rs"
      by auto
    note inv = reported_inventory [OF rs bt z [unfolded ts]]
    have fields: "dget report ''schema'' PNone = PInt 2" "dget report ''targets'' (PList []) = PList ts"
      "dget report ''targets'' PNone = PList ts" "dget report ''preflight'' PNone = PDict e"
      by (simp_all add: rep ev campaign_report_def dget_def)
    have "verify_preflight_evidence report config = Inr () \<longleftrightarrow>
        (if dget config ''language'' PNone = PStr ''python'' then python_proved report config else True)"
    proof (cases "dget config ''language'' PNone = PStr ''python''")
      case py: True
      from run_preflight_proofs [OF p py] obtain ps where
        ps: "dget e ''python_targets'' PNone = PList ps" "length ps = length (items_of (dget config ''targets'' PNone))"
          "list_all engine_proof ps" by blast
      have decl: "declared_functions (as_dict t) \<noteq> []" if "t \<in> set (items_of (dget config ''targets'' PNone))" for t
        by (rule python_targets_declare [OF d [unfolded data] vp [unfolded data] py that])
      have "verify_python_proof q (as_dict t) = Inr () \<longleftrightarrow> instrumentation_proved (as_dict t) q"
        if "(q, t) \<in> set (zip ps (items_of (dget config ''targets'' PNone)))" for q t
        using set_zip_leftD [OF that] set_zip_rightD [OF that] ps(3) decl
        by (intro verify_python_proof_iff) (simp_all add: list_all_iff)
      then show ?thesis
        unfolding verify_preflight_evidence_def Let_def fields python_proved_def
        using inv py ps run_preflight_evidence [OF p]
        by (auto simp: ts items_of_def as_dict_def list_all2_iff)
    qed (simp add: verify_preflight_evidence_def Let_def fields inv [unfolded] run_preflight_evidence [OF p] ts items_of_def)
    moreover have "verify_target_inventory (PList ts) (items_of (dget config ''targets'' PNone)) = Inr ()"
      using inv by (simp add: verify_target_inventory_def ts)
    ultimately show ?thesis
      unfolding verify_report_data_def fields(2) using True
      by (simp add: rep ev campaign_report_def dget_def)
  qed
qed

lemma target_command_flags:
  assumes "bounded_target t" "prefix ''/'' dir"
  shows "filter (\<lambda>a. flag_of a \<in> set reserved_flags) (target_command (as_dict t) dir)
    = (if dget (as_dict t) ''engine'' PNone = PStr ''go''
       then [''-fuzztime='' @ int_str (target_seconds t) @ ''s'', ''-fuzzminimizetime=10s'', ''-parallel=2'',
             ''-timeout='' @ int_str (target_seconds t + 60) @ ''s'']
       else [''-max_total_time='' @ int_str (target_seconds t), ''-timeout=10'', ''-rss_limit_mb=2048'',
             ''-artifact_prefix='' @ dir @ ''/''])"
proof -
  obtain d command where t: "t = PDict d" and c: "dget d ''command'' PNone = PList (map PStr command)"
    and free: "\<forall>arg \<in> set command. flag_of arg \<notin> set reserved_flags"
    using assms(1) by (auto simp: bounded_target_def)
  have none: "filter (\<lambda>a. flag_of a \<in> set reserved_flags) command = []" using free by (simp add: filter_empty_conv)
  obtain dir' where dir: "dir = CHR ''/'' # dir'" using assms(2) by (cases dir) auto
  have "strs (map PStr command) = command" by (simp add: strs_def as_str_def comp_def)
  then show ?thesis
    by (simp add: target_command_def t as_dict_def c items_of_def Let_def target_seconds_def flag_of_def reserved_flags_def dir
      none [unfolded flag_of_def reserved_flags_def, simplified])
qed

text \<open>
  C17: an accepted fuzz manifest bounds the campaign. It has between one and twelve targets with distinct
  names, each runs between one and 120 seconds, all together at most 600, and the command a target is
  started with carries exactly the runner's own limit flags: no argument of the manifest can set one.
\<close>

theorem fuzz_manifest_bounded:
  assumes "fuzz_manifest L confined regular raw = Inr data"
  shows "\<exists>ts names. dget data ''targets'' PNone = PList ts \<and> 1 \<le> length ts \<and> length ts \<le> 12
    \<and> map (\<lambda>t. dget (as_dict t) ''name'' PNone) ts = map PStr names \<and> distinct names
    \<and> sum_list (map target_seconds ts) \<le> 600
    \<and> (\<forall>t \<in> set ts. 1 \<le> target_seconds t \<and> target_seconds t \<le> 120
       \<and> (\<forall>dir. prefix ''/'' dir \<longrightarrow> filter (\<lambda>a. flag_of a \<in> set reserved_flags) (target_command (as_dict t) dir)
          = (if dget (as_dict t) ''engine'' PNone = PStr ''go''
             then [''-fuzztime='' @ int_str (target_seconds t) @ ''s'', ''-fuzzminimizetime=10s'', ''-parallel=2'',
                   ''-timeout='' @ int_str (target_seconds t + 60) @ ''s'']
             else [''-max_total_time='' @ int_str (target_seconds t), ''-timeout=10'', ''-rss_limit_mb=2048'',
                   ''-artifact_prefix='' @ dir @ ''/''])))"
proof -
  from fuzz_manifest_accepted [OF assms] obtain ts names where
    a: "dget data ''targets'' PNone = PList ts" "1 \<le> length ts" "length ts \<le> 12"
      "map (\<lambda>t. dget (as_dict t) ''name'' PNone) ts = map PStr names" "distinct names"
      "\<forall>t \<in> set ts. bounded_target t" "sum_list (map target_seconds ts) \<le> 600"
    unfolding accepted_manifest_def by blast
  have "1 \<le> target_seconds t \<and> target_seconds t \<le> 120" if "t \<in> set ts" for t
    using a(6) that by (auto simp: bounded_target_def target_seconds_def as_int_def)
  with a target_command_flags show ?thesis by blast
qed


section \<open>Examples\<close>

definition demo_fuzz :: string where
  "demo_fuzz = ''{\"schema\":1,\"language\":\"go\",\"setup\":[],\"targets\":[{\"name\":\"t\",\"engine\":\"go\",\"command\":[\"go\"],\"seconds\":9}]}''"

definition demo_config :: jobject where
  "demo_config = [(''schema'', PInt 1), (''language'', PStr ''go''), (''setup'', PList []), (''targets'', PList
     [PDict [(''name'', PStr ''t''), (''engine'', PStr ''go''), (''command'', PList [PStr ''go'']), (''seconds'', PInt 9)]])]"

definition demo_fuzz_env :: "unit fuzz_env" where
  "demo_fuzz_env = \<lparr>fz_which = (\<lambda>_. Some ''/usr/bin/go''), fz_abspath = (\<lambda>p. p), fz_environ = (\<lambda>_. None), fz_uid = 0, fz_gid = 0,
     fz_toolkit = ''/toolkit'', fz_confined = (\<lambda>_. True), fz_regular = (\<lambda>_. True), fz_alnum = (\<lambda>_. False),
     fz_process = (\<lambda>_ _ _ _ w. ((Some 0, Finite 9 0), w)), fz_clock = (\<lambda>w. (0, w)), fz_mkdir = (\<lambda>_ w. (Inr (), w)),
     fz_tree = (\<lambda>_ _. None), fz_copy = (\<lambda>_ _ w. w), fz_log = (\<lambda>_ _. ''fuzz: 3s, execs: 7''), fz_file = (\<lambda>_ _. None),
     fz_write = (\<lambda>_ _ w. w), fz_regressions = (\<lambda>_ _ w. w), fz_gocache = (\<lambda>_ w. (Inr ''/cache'', w)),
     fz_head = (\<lambda>_ w. (Inr (replicate 40 (CHR ''a'')), w))\<rparr>"

definition demo_fuzz_context :: fuzz_context where
  "demo_fuzz_context = \<lparr>fc_event = ''{\"inputs\":{\"channel\":\"rc\"},\"repository\":{\"private\":false,\"full_name\":\"o/r\",\"default_branch\":\"m\"}}'',
     fc_event_name = ''workflow_dispatch'', fc_ref = ''refs/heads/m'', fc_repository = ''o/r'', fc_sha = replicate 40 (CHR ''a''),
     fc_run_id = 5, fc_attempt = 1\<rparr>"

lemma demo_manifest: "fuzz_manifest demo_lib (\<lambda>_. True) (\<lambda>_. True) demo_fuzz = Inr demo_config"
  by code_simp

lemma demo_campaign:
  "let r = fst (campaign demo_lib demo_fuzz_env demo_fuzz_context ''/s'' ''/o'' demo_fuzz ()) in fst r = Inr () \<and> snd r \<noteq> None"
  by code_simp

theorem fuzz_manifest_bounded_witness:
  "\<exists>ts. dget demo_config ''targets'' PNone = PList ts \<and> sum_list (map target_seconds ts) \<le> 600
     \<and> fuzz_manifest demo_lib (\<lambda>_. True) (\<lambda>_. True) demo_fuzz = Inr demo_config"
  using fuzz_manifest_bounded [OF demo_manifest] demo_manifest by blast


lemma retain_loop_bounds:
  "retain_loop E source destination required st xs w = (Inr st', w') \<Longrightarrow>
     cs_files st \<le> CORPUS_FILES \<Longrightarrow> cs_bytes st \<le> CORPUS_BYTES \<Longrightarrow>
     cs_files st' \<le> CORPUS_FILES \<and> cs_bytes st' \<le> CORPUS_BYTES \<and> (required \<and> \<not> cs_truncated st' \<longrightarrow> cs_files st' \<noteq> 0)"
  by (induction E source destination required st xs arbitrary: w rule: retain_loop.induct)
     (auto split: if_splits)

text \<open>
  Whatever a corpus tree holds, a copy that returns has taken at most 10000 files and 64 MiB, and a
  required corpus that was copied in full is not empty.
\<close>

theorem retain_corpus_bounded:
  assumes "retain_corpus E source destination required w = (Inr st, w')"
  shows "cs_files st \<le> 10000 \<and> cs_bytes st \<le> 67108864 \<and> (required \<and> \<not> cs_truncated st \<longrightarrow> cs_files st \<noteq> 0)"
proof -
  have "cs_files st \<le> CORPUS_FILES \<and> cs_bytes st \<le> CORPUS_BYTES \<and> (required \<and> \<not> cs_truncated st \<longrightarrow> cs_files st \<noteq> 0)"
    using assms unfolding retain_corpus_def
    by (auto split: prod.splits sum.splits option.splits if_splits dest: retain_loop_bounds
      simp: no_corpus_def CORPUS_FILES_def CORPUS_BYTES_def)
  then show ?thesis by (simp add: CORPUS_FILES_def CORPUS_BYTES_def)
qed

definition demo_corpus_env :: "unit fuzz_env" where
  "demo_corpus_env = demo_fuzz_env\<lparr>fz_tree := (\<lambda>_ _. Some [(''a'', Regular 7), (''d'', Directory [(''b'', Regular 5)])])\<rparr>"

theorem retain_corpus_bounded_witness:
  "\<exists>st. retain_corpus demo_corpus_env ''/s'' ''/o'' True () = (Inr st, ()) \<and> cs_files st = 2 \<and> cs_bytes st \<le> 67108864"
proof -
  have r: "retain_corpus demo_corpus_env ''/s'' ''/o'' True () = (Inr \<lparr>cs_files = 2, cs_bytes = 12, cs_truncated = False\<rparr>, ())"
    by code_simp
  from retain_corpus_bounded [OF r] r show ?thesis by auto
qed

end
