(* ===== verification/ReleasePolicy.thy ===== *)
theory ReleasePolicy
  imports FuzzRun Base64
begin

text \<open>
  The policy checks of \<open>scripts/release_control.py\<close>: the repository's identity, the release policy at
  the exact source commit and its snapshot in a manifest, the profiles a channel must have run, and
  the Git facts a publication rests on (ancestry, the workflow tree, the default branch).
\<close>

section \<open>Helpers\<close>

definition WORKFLOW :: string where "WORKFLOW = ''.github/workflows/release-pipeline.yml''"
definition POLICY :: string where "POLICY = ''.release-policy.json''"

definition SHA256_PATTERN :: rx where "SHA256_PATTERN = Rep 64 (Cls is_hex)"

text \<open>\<open>x.lower()\<close> of a value cast to a string.\<close>

definition str_lower :: "pyval \<Rightarrow> string result" where
  "str_lower v = (case v of PStr s \<Rightarrow> Inr (lower s) | _ \<Rightarrow> Inl (AttributeError ''lower''))"

text \<open>\<open>except ValueError as error: raise ReleaseError(str(error))\<close>.\<close>

fun as_release_error :: "'a result \<Rightarrow> 'a result" where
  "as_release_error (Inl (ValueError m)) = Inl (ReleaseError m)"
| "as_release_error (Inl (VersionError m)) = Inl (ReleaseError m)"
| "as_release_error r = r"

lemma as_release_error_Inr [simp]: "as_release_error r = Inr x \<longleftrightarrow> r = Inr x"
  by (cases r rule: as_release_error.cases) auto

text \<open>An f-string field of an API path; the text of a list or a dictionary matches no API path.\<close>

definition path_field :: "pylib \<Rightarrow> pyval \<Rightarrow> string result" where
  "path_field L v = (case scalar_text L v of Some s \<Rightarrow> Inr s | None \<Rightarrow> Inl (ReleaseError ''Unsupported API path''))"

definition as_name :: "pyval \<Rightarrow> string result" where
  "as_name v = (case v of PStr s \<Rightarrow> Inr s | _ \<Rightarrow> Inl (TypeError ''quote_from_bytes() expected bytes''))"

text \<open>The API paths several checks read.\<close>

definition heads_ref :: "string \<Rightarrow> string" where "heads_ref branch = ''refs/heads/'' @ branch"
definition heads_path :: "string \<Rightarrow> string" where "heads_path branch = ''git/ref/heads/'' @ quote branch"
definition compare_path :: "string \<Rightarrow> string \<Rightarrow> string" where "compare_path base head = ''compare/'' @ base @ ''...'' @ head"
definition replacement_path :: "string \<Rightarrow> string \<Rightarrow> string" where
  "replacement_path branch head = ''actions/workflows/release-pipeline.yml/runs?branch='' @ quote branch
     @ ''&event=push&head_sha='' @ head @ ''&per_page=100''"

section \<open>Repository and policy\<close>

definition check_repository :: "string \<Rightarrow> pyval \<Rightarrow> jobject result" where
  "check_repository repository v =
     (case v of
        PDict info \<Rightarrow>
          rbind (str_lower (dget info ''full_name'' (PStr []))) (\<lambda>name.
          rbind (rc_require (name = lower repository) ''Repository identity mismatch'') (\<lambda>_.
          rbind (rc_require (truthy (dget info ''default_branch'' PNone)) ''Repository has no default branch'') (\<lambda>_.
          Inr info)))
      | _ \<Rightarrow> Inl (ReleaseError ''Invalid repository response''))"

definition repository_info :: "pylib \<Rightarrow> 'w client \<Rightarrow> ('w, jobject) io" where
  "repository_info L gh = ibind (api L gh [] ''GET'' None) (\<lambda>v. ilift (check_repository (repo gh) v))"

definition require_fuzzing_policy :: "jobject \<Rightarrow> unit result" where
  "require_fuzzing_policy policy =
     (if dhas policy ''fuzzing'' then as_release_error (rbind (configuration policy) (\<lambda>_. Inr ())) else Inr ())"

definition nonblank :: "pyval \<Rightarrow> bool" where
  "nonblank v = (case v of PStr s \<Rightarrow> strip s \<noteq> [] | _ \<Rightarrow> False)"

definition check_blockers :: "bool \<Rightarrow> jobject \<Rightarrow> string \<Rightarrow> unit result" where
  "check_blockers qualified policy field =
     (case dget policy field (PList []) of
        PList blockers \<Rightarrow>
          rbind (rc_require (\<forall>item \<in> set blockers. nonblank item)
            (''Source policy '' @ field @ '' must be a list of nonempty strings'')) (\<lambda>_.
          rc_require (qualified \<longrightarrow> blockers = [])
            (''Source policy has unresolved '' @ field @ ''; create a new RC after resolving them''))
      | _ \<Rightarrow> Inl (ReleaseError (''Source policy '' @ field @ '' must be a list of nonempty strings'')))"

definition require_release_policy :: "pyval \<Rightarrow> string \<Rightarrow> bool \<Rightarrow> unit result" where
  "require_release_policy v repository qualified =
     (case v of
        PDict policy \<Rightarrow>
          rbind (rc_require (case dget policy ''repository'' PNone of PStr r \<Rightarrow> lower r = lower repository | _ \<Rightarrow> False)
            ''Source policy repository mismatch'') (\<lambda>_.
          rbind (rc_require (dget policy ''mode'' PNone = PStr ''release'') ''Source policy mode must be release'') (\<lambda>_.
          rbind (require_fuzzing_policy policy) (\<lambda>_.
          rbind (if dhas policy ''channel_validation_workflows''
              then as_release_error (rbind (channel_workflows policy) (\<lambda>_. Inr ())) else Inr ()) (\<lambda>_.
          riter (check_blockers qualified policy) [''release_blockers'', ''stable_blockers'']))))
      | _ \<Rightarrow> Inl (ReleaseError ''Source release policy must be an object''))"

definition validation_profile :: "jobject \<Rightarrow> string \<Rightarrow> pyval result" where
  "validation_profile policy chan =
     (if dhas policy ''channel_validation_workflows'' then as_release_error (profile policy chan) else Inr PNone)"

section \<open>Manifest profiles\<close>

text \<open>The asset of a name in a dictionary built from the list: the last one wins.\<close>

definition asset_named :: "(pyval \<times> pyval) list \<Rightarrow> string \<Rightarrow> pyval option" where
  "asset_named assets name = map_of (rev assets) (PStr name)"

definition asset_table :: "pyval \<Rightarrow> (pyval \<times> pyval) list result" where
  "asset_table v =
     rbind (iter_items v) (\<lambda>items.
     rmap (\<lambda>item. rbind (pitem item ''name'') (\<lambda>n.
       if hashable n then Inr (n, item) else Inl (TypeError ''unhashable type''))) items)"

definition channel_of :: "jobject \<Rightarrow> string result" where
  "channel_of manifest =
     rbind (ditem manifest ''channel'') (\<lambda>c. case c of PStr s \<Rightarrow> Inr s | _ \<Rightarrow> Inr [])"

definition validate_fuzz_manifest :: "pylib \<Rightarrow> jobject \<Rightarrow> jobject \<Rightarrow> unit result" where
  "validate_fuzz_manifest L manifest policy =
     (if \<not> dhas policy ''fuzzing'' then Inr ()
      else
        rbind (channel_of manifest) (\<lambda>chan.
        rbind (fuzz_profile policy chan) (\<lambda>expected.
        rbind (rc_require (rc_json_bytes L (dget manifest ''fuzzing_profile'' PNone) = rc_json_bytes L expected)
          ''Manifest fuzzing profile differs from its source policy/channel'') (\<lambda>_.
        if chan = ''rc'' then
          rbind (ditem manifest ''assets'') (\<lambda>v.
          rbind (asset_table v) (\<lambda>assets.
          let receipt = (case asset_named assets ''release-inputs-fuzz.json'' of None \<Rightarrow> PDict [] | Some r \<Rightarrow> r) in
          rbind (if asset_named assets ''fuzz-report.json'' \<noteq> None \<and> truthy receipt
              then rbind (pget receipt ''sha256'' PNone) (\<lambda>h. Inr (py_eq (dget manifest ''validation_receipts'' PNone)
                (PList [PDict [(''name'', PStr ''release-inputs-fuzz.json''), (''sha256'', h)]])))
              else Inr False) (\<lambda>ok.
          rc_require ok ''RC fuzz validation evidence is absent from the immutable asset inventory'')))
        else Inr ()))))"

definition validate_validation_manifest :: "pylib \<Rightarrow> jobject \<Rightarrow> unit result" where
  "validate_validation_manifest L manifest =
     rbind (ditem manifest ''source_policy'') (\<lambda>sp.
     rbind (pitem sp ''data'') (\<lambda>v.
     (case v of
        PDict policy \<Rightarrow>
          rbind (channel_of manifest) (\<lambda>chan.
          rbind (validation_profile policy chan) (\<lambda>expected.
          rbind (rc_require (rc_json_bytes L (dget manifest ''validation_profile'' PNone) = rc_json_bytes L expected)
            ''Manifest validation profile differs from its source policy/channel'') (\<lambda>_.
          validate_fuzz_manifest L manifest policy)))
      | _ \<Rightarrow> Inl (TypeError ''policy is not an object''))))"

section \<open>The policy at a commit\<close>

definition blob_sha :: "pylib \<Rightarrow> string \<Rightarrow> string" where
  "blob_sha L raw = sha1 L (''blob '' @ nat_str (length raw) @ [NUL] @ raw)"

definition policy_snapshot :: "pylib \<Rightarrow> string \<Rightarrow> pyval \<Rightarrow> jobject result" where
  "policy_snapshot L repository v =
     (case v of
        PDict resp \<Rightarrow>
          rbind (rc_require (dget resp ''type'' PNone = PStr ''file'' \<and> dget resp ''path'' PNone = PStr POLICY
              \<and> dget resp ''encoding'' PNone = PStr ''base64'')
            ''Source commit must contain a regular release policy file'') (\<lambda>_.
          (case dget resp ''content'' PNone of
             PStr encoded \<Rightarrow>
               rbind (rc_require (int (length (filter (\<lambda>c. \<not> is_cont c) encoded)) \<le> 400000)
                 ''Invalid or oversized source policy content'') (\<lambda>_.
               rbind (case b64decode (filter (\<lambda>c. \<not> is_space c) encoded) of
                   Inl _ \<Rightarrow> Inl (ReleaseError ''Invalid source policy base64 content'') | Inr raw \<Rightarrow> Inr raw) (\<lambda>raw.
               rbind (rc_require (int (length raw) \<le> 250000 \<and> py_eq (dget resp ''size'' PNone) (PInt (int (length raw))))
                 ''Source policy size mismatch'') (\<lambda>_.
               rbind (rc_require (dget resp ''sha'' PNone = PStr (blob_sha L raw)) ''Source policy Git blob identity mismatch'') (\<lambda>_.
               rbind (parse_json L raw) (\<lambda>data.
               rbind (require_release_policy data repository False) (\<lambda>_.
               Inr [(''schema'', PInt 1), (''path'', PStr POLICY), (''git_blob_sha'', PStr (blob_sha L raw)),
                 (''sha256'', PStr (sha256 L raw)), (''data'', data)]))))))
           | _ \<Rightarrow> Inl (ReleaseError ''Invalid or oversized source policy content'')))
      | _ \<Rightarrow> Inl (ReleaseError ''Source commit must contain a regular release policy file''))"

definition source_policy_snapshot :: "pylib \<Rightarrow> 'w client \<Rightarrow> string \<Rightarrow> ('w, jobject) io" where
  "source_policy_snapshot L gh sha =
     ibind (ilift (rc_require (fullmatch SHA sha) ''Invalid source policy commit SHA'')) (\<lambda>_.
     ibind (api L gh (''contents/'' @ POLICY @ ''?ref='' @ sha) ''GET'' None) (\<lambda>v.
     ilift (policy_snapshot L (repo gh) v)))"

definition validate_policy_snapshot :: "pyval \<Rightarrow> string \<Rightarrow> unit result" where
  "validate_policy_snapshot v repository =
     (case v of
        PDict snapshot \<Rightarrow>
          rbind (rc_require (dget snapshot ''schema'' PNone = PInt 1 \<and> dget snapshot ''path'' PNone = PStr POLICY)
            ''Manifest requires a versioned source policy snapshot'') (\<lambda>_.
          rbind (rc_require (matches_str SHA (dget snapshot ''git_blob_sha'' PNone)
              \<and> matches_str SHA256_PATTERN (dget snapshot ''sha256'' PNone)) ''Invalid source policy snapshot hashes'') (\<lambda>_.
          require_release_policy (dget snapshot ''data'' PNone) repository True))
      | _ \<Rightarrow> Inl (ReleaseError ''Manifest requires a versioned source policy snapshot''))"

definition require_current_fuzzing :: "pylib \<Rightarrow> 'w client \<Rightarrow> jobject \<Rightarrow> string \<Rightarrow> ('w, unit) io" where
  "require_current_fuzzing L gh candidate_policy current_sha =
     ibind (source_policy_snapshot L gh current_sha) (\<lambda>snapshot.
     if dhas (as_dict (dget snapshot ''data'' PNone)) ''fuzzing'' then
       ibind (ilift (configuration candidate_policy)) (\<lambda>config.
       ilift (rc_require (config \<noteq> None) ''Current release policy requires fuzzing; create a new RC after adoption''))
     else ireturn ())"

definition validate_validation_run :: "pylib \<Rightarrow> 'w client \<Rightarrow> jobject \<Rightarrow> jobject \<Rightarrow> string \<Rightarrow> ('w, unit) io" where
  "validate_validation_run L gh source_run policy chan =
     ibind (ilift (validation_profile policy chan)) (\<lambda>expected.
     let has_profile = (expected \<noteq> PNone) in
     if \<not> has_profile \<and> \<not> dhas policy ''fuzzing'' then ireturn ()
     else
       ibind (ilift (positive (dget source_run ''id'' PNone))) (\<lambda>run_id.
       ibind (ilift (positive (dget source_run ''run_attempt'' PNone))) (\<lambda>attempt.
       ibind (pages L gh (''actions/runs/'' @ int_str run_id @ ''/attempts/'' @ int_str attempt @ ''/jobs'') (Some ''jobs'')) (\<lambda>jobs.
       ilift (as_release_error
         (rbind (if has_profile then rbind (ditem source_run ''head_sha'') (\<lambda>sha. check_run_jobs jobs chan (as_str sha)) else Inr ()) (\<lambda>_.
          if dhas policy ''fuzzing'' then rbind (ditem source_run ''head_sha'') (\<lambda>sha. check_fuzz_jobs jobs chan (as_str sha)) else Inr ())))))))"

section \<open>Git facts\<close>

definition check_ancestry :: "pylib \<Rightarrow> 'w client \<Rightarrow> string \<Rightarrow> string \<Rightarrow> ('w, unit) io" where
  "check_ancestry L gh sha default_branch =
     ibind (api L gh (compare_path sha (quote default_branch)) ''GET'' None) (\<lambda>comparison.
     ibind (ilift (pget comparison ''status'' PNone)) (\<lambda>status.
     ibind (ilift (rc_require (status \<in> {PStr ''ahead'', PStr ''identical''})
       ''Source commit is not an ancestor of the current default branch'')) (\<lambda>_.
     ibind (ilift (rbind (pget comparison ''merge_base_commit'' (PDict [])) (\<lambda>b. pget b ''sha'' PNone))) (\<lambda>base.
     ilift (rc_require (base = PStr sha) ''Source/default branch ancestry could not be verified'')))))"

definition workflows_entry :: "pyval \<Rightarrow> bool" where
  "workflows_entry e \<longleftrightarrow> dget (as_dict e) ''name'' PNone = PStr ''workflows''
     \<or> dget (as_dict e) ''path'' PNone = PStr ''.github/workflows''"

definition find_workflow_tree :: "pyval \<Rightarrow> string result" where
  "find_workflow_tree v =
     rbind (rc_require (case v of PList entries \<Rightarrow> length entries < 1000 \<and> (\<forall>e \<in> set entries. is_dict e) | _ \<Rightarrow> False)
       ''Cannot verify the complete source .github directory'') (\<lambda>_.
     (case filter workflows_entry (items_of v) of
        [PDict m] \<Rightarrow>
          rbind (rc_require (dget m ''name'' PNone = PStr ''workflows'' \<and> dget m ''path'' PNone = PStr ''.github/workflows''
              \<and> dget m ''type'' PNone = PStr ''dir'' \<and> matches_str SHA (dget m ''sha'' PNone))
            ''Cannot verify a regular source .github/workflows directory'') (\<lambda>_.
          Inr (as_str (dget m ''sha'' PNone)))
      | _ \<Rightarrow> Inl (ReleaseError ''Cannot verify a regular source .github/workflows directory'')))"

definition workflow_tree :: "pylib \<Rightarrow> 'w client \<Rightarrow> string \<Rightarrow> ('w, string) io" where
  "workflow_tree L gh sha =
     ibind (api L gh (''contents/.github?ref='' @ sha) ''GET'' None) (\<lambda>v. ilift (find_workflow_tree v))"

text \<open>The commit a ref response names, when the response is for that ref and of an accepted type.\<close>

definition ref_commit :: "string \<Rightarrow> string list \<Rightarrow> pyval \<Rightarrow> string option" where
  "ref_commit name types v =
     (case v of
        PDict ref \<Rightarrow>
          (case dget ref ''object'' PNone of
             PDict obj \<Rightarrow>
               (case (dget obj ''type'' PNone, dget obj ''sha'' PNone) of
                  (PStr t, PStr sha) \<Rightarrow>
                    if dget ref ''ref'' PNone = PStr name \<and> t \<in> set types \<and> fullmatch SHA sha then Some sha else None
                | _ \<Rightarrow> None)
           | _ \<Rightarrow> None)
      | _ \<Rightarrow> None)"

definition check_workflow_publication :: "pylib \<Rightarrow> 'w client \<Rightarrow> bool \<Rightarrow> string \<Rightarrow> ('w, unit) io" where
  "check_workflow_publication L gh scope_verified sha =
     ibind (ilift (rc_require (fullmatch SHA sha) ''Invalid release source SHA'')) (\<lambda>_.
     if scope_verified then ireturn ()
     else
       ibind (repository_info L gh) (\<lambda>info.
       ibind (ilift (rbind (ditem info ''default_branch'') as_name)) (\<lambda>branch.
       let path = heads_path branch in
       ibind (api L gh path ''GET'' None) (\<lambda>ref.
       (case ref_commit (heads_ref branch) [''commit''] ref of
          None \<Rightarrow> ilift (Inl (ReleaseError ''Cannot verify default HEAD before release publication''))
        | Some head \<Rightarrow>
            if sha = head then ireturn ()
            else
              ibind (workflow_tree L gh sha) (\<lambda>mine.
              ibind (workflow_tree L gh head) (\<lambda>theirs.
              ibind (ilift (rc_require (mine = theirs) ''Release source workflows differ from current default HEAD; create and accept a new candidate before publication'')) (\<lambda>_.
              ibind (repository_info L gh) (\<lambda>again.
              ibind (ilift (rc_require (dget again ''default_branch'' PNone = PStr branch)
                ''Default branch changed during publication preflight; retry at current HEAD'')) (\<lambda>_.
              ibind (api L gh path ''GET'' None) (\<lambda>ref2.
              ilift (rc_require (py_eq ref2 ref)
                ''Default branch changed during publication preflight; retry at current HEAD''))))))))))))"

section \<open>Snapshots validate\<close>

lemma check_blockers_iff:
  "check_blockers q policy field = Inr () \<longleftrightarrow>
     (\<exists>bs. dget policy field (PList []) = PList bs \<and> (\<forall>b \<in> set bs. nonblank b) \<and> (q \<longrightarrow> bs = []))"
  by (cases "dget policy field (PList [])") (auto simp: check_blockers_def rbind_Inr_iff)

lemma release_policy_qualified:
  assumes "require_release_policy v repository False = Inr ()"
  shows "require_release_policy v repository True = Inr () \<longleftrightarrow>
    dget (as_dict v) ''release_blockers'' (PList []) = PList [] \<and> dget (as_dict v) ''stable_blockers'' (PList []) = PList []"
proof -
  obtain policy where v: "v = PDict policy" using assms by (cases v) (simp_all add: require_release_policy_def)
  have "riter (check_blockers False policy) [''release_blockers'', ''stable_blockers''] = Inr ()"
    using assms by (auto simp: v require_release_policy_def rbind_Inr_iff)
  moreover have "require_release_policy v repository True = Inr () \<longleftrightarrow>
      riter (check_blockers True policy) [''release_blockers'', ''stable_blockers''] = Inr ()"
    using assms by (simp add: v require_release_policy_def rbind_Inr_iff)
  ultimately show ?thesis
    unfolding riter_Inr_iff by (auto simp: v as_dict_def check_blockers_iff)
qed

text \<open>
  The policy snapshot a candidate records is accepted when its manifest is validated, exactly when the
  policy at that commit has no release blocker and no stable blocker left; nothing else of a recorded
  snapshot can be refused later. The two hypotheses state the output format of the hash functions.
\<close>

theorem policy_snapshot_validates:
  assumes "policy_snapshot L repository v = Inr snapshot"
    and "fullmatch SHA (as_str (dget snapshot ''git_blob_sha'' PNone))"
    and "fullmatch SHA256_PATTERN (as_str (dget snapshot ''sha256'' PNone))"
  shows "validate_policy_snapshot (PDict snapshot) repository = Inr () \<longleftrightarrow>
    dget (as_dict (dget snapshot ''data'' PNone)) ''release_blockers'' (PList []) = PList []
    \<and> dget (as_dict (dget snapshot ''data'' PNone)) ''stable_blockers'' (PList []) = PList []"
proof -
  obtain d where d: "v = PDict d" using assms(1) by (cases v) (simp_all add: policy_snapshot_def)
  obtain encoded where e: "dget d ''content'' PNone = PStr encoded"
    using assms(1) unfolding d policy_snapshot_def
    by (cases "dget d ''content'' PNone") (simp_all add: rbind_Inr_iff)
  obtain raw data where
    q: "require_release_policy data repository False = Inr ()"
    and s: "snapshot = [(''schema'', PInt 1), (''path'', PStr POLICY), (''git_blob_sha'', PStr (blob_sha L raw)),
                 (''sha256'', PStr (sha256 L raw)), (''data'', data)]"
    using assms(1) unfolding d policy_snapshot_def pyval.case e rbind_Inr_iff by auto
  from assms(2,3) have "fullmatch SHA (blob_sha L raw)" "fullmatch SHA256_PATTERN (sha256 L raw)"
    by (simp_all add: s dget_def as_str_def)
  then have "validate_policy_snapshot (PDict snapshot) repository = require_release_policy data repository True"
    by (simp add: s validate_policy_snapshot_def dget_def matches_str_def)
  with release_policy_qualified [OF q] show ?thesis
    by (simp add: s dget_def)
qed

end
