(* ===== verification/RunChecks.thy ===== *)
theory RunChecks
  imports ReleasePolicy
begin

text \<open>
  The checks of \<open>scripts/release_control.py\<close> on Actions runs: the provenance of a run, the execution
  a publication belongs to, the Release gate with the timing of rerun attempts, the wait for
  metadata that lags behind, supersession of automatic candidates and closed version cycles.
\<close>

section \<open>Provenance\<close>

definition full_name_of :: "jobject \<Rightarrow> string \<Rightarrow> string result" where
  "full_name_of d field =
     rbind (pget (dget d field (PDict [])) ''full_name'' (PStr [])) str_lower"

definition validate_run_provenance :: "string \<Rightarrow> jobject \<Rightarrow> jobject \<Rightarrow> string \<Rightarrow> int \<Rightarrow> unit result" where
  "validate_run_provenance repository source_run info sha attempt =
     rbind (full_name_of source_run ''repository'') (\<lambda>name.
     rbind (rc_require (name = lower repository) ''Source run belongs to another repository'') (\<lambda>_.
     rbind (full_name_of source_run ''head_repository'') (\<lambda>head.
     rbind (rc_require (head = lower repository) ''Source run comes from another repository'') (\<lambda>_.
     rbind (rc_require (dget source_run ''head_sha'' PNone = PStr sha \<and> fullmatch SHA sha) ''Source run SHA mismatch'') (\<lambda>_.
     rbind (rc_require (dget source_run ''path'' PNone = PStr WORKFLOW) ''Source run uses an unexpected workflow path'') (\<lambda>_.
     rbind (ditem info ''default_branch'') (\<lambda>branch.
     rbind (rc_require (py_eq (dget source_run ''head_branch'' PNone) branch) ''Source run does not target the default branch'') (\<lambda>_.
     rbind (rc_require (dget source_run ''event'' PNone \<in> {PStr ''push'', PStr ''schedule'', PStr ''workflow_dispatch''})
       ''Untrusted source run event'') (\<lambda>_.
     rc_require (py_eq (dget source_run ''run_attempt'' PNone) (PInt attempt))
       ''Source run was rerun; evidence is not from its latest attempt'')))))))))"

section \<open>The execution\<close>

text \<open>The process environment, the local HEAD (exit code and output) and the event file.\<close>

record actions_env =
  ae_var :: "string \<Rightarrow> string option"
  ae_head :: "int \<times> string"
  ae_file :: "string \<Rightarrow> string result"

definition checked_out_sha :: "actions_env \<Rightarrow> string result" where
  "checked_out_sha A =
     rbind (rc_require (fst (ae_head A) = 0) ''Must run from the checked-out release repository'') (\<lambda>_.
     Inr (strip (snd (ae_head A))))"

definition allowed_events :: "string \<Rightarrow> string list result" where
  "allowed_events chan =
     (if chan = ''nightly'' then Inr [''schedule'', ''workflow_dispatch'']
      else if chan = ''beta'' then Inr [''push'', ''workflow_dispatch'']
      else if chan = ''rc'' \<or> chan = ''stable'' then Inr [''workflow_dispatch'']
      else Inl (KeyError chan))"

text \<open>An environment variable against the text of a value.\<close>

definition var_is :: "pylib \<Rightarrow> actions_env \<Rightarrow> string \<Rightarrow> string \<Rightarrow> pyval \<Rightarrow> string \<Rightarrow> bool" where
  "var_is L A name before v after =
     (case scalar_text L v of Some s \<Rightarrow> ae_var A name = Some (before @ s @ after) | None \<Rightarrow> False)"

definition check_dispatch :: "pylib \<Rightarrow> actions_env \<Rightarrow> string \<Rightarrow> unit result" where
  "check_dispatch L A chan =
     (case ae_var A ''GITHUB_EVENT_PATH'' of
        None \<Rightarrow> Inl (ReleaseError ''Missing workflow dispatch event'')
      | Some path \<Rightarrow>
          rbind (rc_require (path \<noteq> []) ''Missing workflow dispatch event'') (\<lambda>_.
          rbind (ae_file A path) (\<lambda>raw.
          rbind (parse_json L raw) (\<lambda>payload.
          (case payload of
             PDict d \<Rightarrow>
               rbind (pget (dget d ''inputs'' (PDict [])) ''channel'' PNone) (\<lambda>c.
               rc_require (c = PStr chan) (''Workflow dispatch input channel must be '' @ chan))
           | _ \<Rightarrow> Inl (ReleaseError (''Workflow dispatch input channel must be '' @ chan)))))))"

definition check_execution :: "pylib \<Rightarrow> actions_env \<Rightarrow> string \<Rightarrow> int \<Rightarrow> string \<Rightarrow> jobject \<Rightarrow> jobject \<Rightarrow> unit result" where
  "check_execution L A repository run_id chan info source_run =
     rbind (rc_require (ae_var A ''GITHUB_ACTIONS'' = Some ''true'')
       ''Publication must run inside GitHub Actions; dispatch the release workflow locally'') (\<lambda>_.
     rbind (rc_require (lower (case ae_var A ''GITHUB_REPOSITORY'' of None \<Rightarrow> [] | Some r \<Rightarrow> r) = lower repository)
       ''Execution repository mismatch'') (\<lambda>_.
     rbind (rc_require (ae_var A ''GITHUB_RUN_ID'' = Some (int_str run_id)) ''Execution run ID mismatch'') (\<lambda>_.
     rbind (rc_require (var_is L A ''GITHUB_RUN_ATTEMPT'' [] (dget source_run ''run_attempt'' PNone) [])
       ''Execution run attempt mismatch'') (\<lambda>_.
     rbind (ditem info ''default_branch'') (\<lambda>branch.
     rbind (rc_require (var_is L A ''GITHUB_REF'' ''refs/heads/'' branch []) ''Dispatch must target the default branch'') (\<lambda>_.
     rbind (ditem info ''full_name'') (\<lambda>full_name.
     rbind (rc_require (case scalar_text L branch of
         Some b \<Rightarrow> var_is L A ''GITHUB_WORKFLOW_REF'' [] full_name (''/'' @ WORKFLOW @ ''@refs/heads/'' @ b) | None \<Rightarrow> False)
       ''Execution workflow mismatch'') (\<lambda>_.
     rbind (checked_out_sha A) (\<lambda>head.
     rbind (rc_require (dget source_run ''head_sha'' PNone = PStr head) ''Checkout does not match the source run SHA'') (\<lambda>_.
     let event = (case ae_var A ''GITHUB_EVENT_NAME'' of None \<Rightarrow> PNone | Some e \<Rightarrow> PStr e) in
     rbind (rc_require (event = dget source_run ''event'' PNone) ''Execution event mismatch'') (\<lambda>_.
     rbind (allowed_events chan) (\<lambda>allowed.
     rbind (rc_require (event \<in> PStr ` set allowed) (''Event cannot publish channel '' @ chan)) (\<lambda>_.
     if event = PStr ''workflow_dispatch'' then check_dispatch L A chan else Inr ())))))))))))))"

section \<open>Timestamps\<close>

text \<open>Microseconds since 1 January of year 1, as \<open>datetime\<close> orders instants.\<close>

definition leap :: "int \<Rightarrow> bool" where
  "leap y \<longleftrightarrow> y mod 4 = 0 \<and> (y mod 100 \<noteq> 0 \<or> y mod 400 = 0)"

definition days_in_month :: "int \<Rightarrow> nat \<Rightarrow> int" where
  "days_in_month y m = (if m = 2 then (if leap y then 29 else 28) else if m \<in> {4, 6, 9, 11} then 30 else 31)"

definition ordinal :: "int \<Rightarrow> nat \<Rightarrow> int \<Rightarrow> int" where
  "ordinal y m d = 365 * (y - 1) + (y - 1) div 4 - (y - 1) div 100 + (y - 1) div 400
     + sum_list (map (days_in_month y) [1..<m]) + d"

definition day_us :: int where "day_us = 86400000000"

definition digits_rx :: "nat \<Rightarrow> rx" where
  "digits_rx n = Rep n (Cls is_digit)"

definition local_rx :: rx where
  "local_rx = SeqOf [digits_rx 4, Word ''-'', digits_rx 2, Word ''-'', digits_rx 2, Word ''T'', digits_rx 2, Word '':'',
     digits_rx 2, Word '':'', digits_rx 2, Opt (SeqOf [Word ''.'', Cls is_digit, UpTo 5 (Cls is_digit)])]"

definition offset_rx :: rx where
  "offset_rx = SeqOf [Cls (\<lambda>c. c = CHR ''+'' \<or> c = CHR ''-''),
     AnyOf [SeqOf [Cls (\<lambda>c. c = CHR ''0'' \<or> c = CHR ''1''), Cls is_digit],
       SeqOf [Lit (CHR ''2''), Cls (\<lambda>c. c \<in> {CHR ''0'', CHR ''1'', CHR ''2'', CHR ''3''})]],
     Word '':'', Cls (\<lambda>c. is_digit c \<and> (of_char c :: nat) \<le> 53), Cls is_digit]"

text \<open>\<open>int(digits)\<close>.\<close>

definition dec_int :: "string \<Rightarrow> int" where
  "dec_int s = foldl (\<lambda>n c. 10 * n + (of_char c - 48)) 0 s"

definition field_at :: "nat \<Rightarrow> nat \<Rightarrow> string \<Rightarrow> int" where
  "field_at i n s = dec_int (take n (drop i s))"

definition micro_of :: "string \<Rightarrow> int" where
  "micro_of s = dec_int (take 6 (drop 20 s @ replicate 6 (CHR ''0'')))"

definition offset_us :: "string \<Rightarrow> int" where
  "offset_us off = (let us = (field_at 1 2 off * 60 + field_at 4 2 off) * 60000000 in if hd off = CHR ''-'' then - us else us)"

definition fields_ok :: "string \<Rightarrow> bool" where
  "fields_ok s \<longleftrightarrow> 1 \<le> field_at 0 4 s \<and> 1 \<le> field_at 5 2 s \<and> field_at 5 2 s \<le> 12 \<and> 1 \<le> field_at 8 2 s
     \<and> field_at 8 2 s \<le> days_in_month (field_at 0 4 s) (nat (field_at 5 2 s))
     \<and> field_at 11 2 s \<le> 23 \<and> field_at 14 2 s \<le> 59 \<and> field_at 17 2 s \<le> 59"

definition local_us :: "string \<Rightarrow> int" where
  "local_us s = ordinal (field_at 0 4 s) (nat (field_at 5 2 s)) (field_at 8 2 s) * day_us
     + ((field_at 11 2 s * 60 + field_at 14 2 s) * 60 + field_at 17 2 s) * 1000000 + micro_of s"

definition malformed :: "string \<Rightarrow> pyerror" where
  "malformed label = ReleaseError (''Missing or malformed '' @ label)"

definition execution_timestamp :: "pyval \<Rightarrow> string \<Rightarrow> int result" where
  "execution_timestamp v label =
     (case v of
        PStr s \<Rightarrow>
          let n = (if suffix ''Z'' s then length s - 1 else length s - 6); local_time = take n s; offset = drop n s in
          rbind (ensure (suffix ''Z'' s \<or> fullmatch offset_rx offset) (malformed label)) (\<lambda>_.
          rbind (ensure (fullmatch local_rx local_time) (malformed label)) (\<lambda>_.
          rbind (ensure (fields_ok local_time) (malformed label)) (\<lambda>_.
          let instant = local_us local_time - (if suffix ''Z'' s then 0 else offset_us offset) in
          rbind (ensure (day_us \<le> instant \<and> instant < (ordinal 9999 12 31 + 1) * day_us)
            (OverflowError ''date value out of range'')) (\<lambda>_.
          Inr instant))))
      | _ \<Rightarrow> Inl (malformed label))"

section \<open>The Release gate\<close>

definition check_step :: "int \<Rightarrow> int \<Rightarrow> pyval \<Rightarrow> unit result" where
  "check_step start finish step =
     (let d = as_dict step in
      rbind (rc_require (dget d ''status'' PNone = PStr ''completed'') ''Successful job has incomplete execution steps'') (\<lambda>_.
      rbind (execution_timestamp (dget d ''started_at'' PNone) ''step start'') (\<lambda>step_start.
      rbind (execution_timestamp (dget d ''completed_at'' PNone) ''step completion'') (\<lambda>step_end.
      rc_require (start \<le> step_start \<and> step_start \<le> step_end \<and> step_end \<le> finish)
        ''Executed step lies outside the current job interval''))))"

definition successful :: "pyval \<Rightarrow> bool" where
  "successful step \<longleftrightarrow> dget (as_dict step) ''conclusion'' PNone = PStr ''success''"

definition require_fresh_job_timing :: "jobject \<Rightarrow> int \<Rightarrow> unit result" where
  "require_fresh_job_timing job boundary =
     rbind (execution_timestamp (dget job ''started_at'' PNone) ''job start'') (\<lambda>start.
     rbind (execution_timestamp (dget job ''completed_at'' PNone) ''job completion'') (\<lambda>finish.
     rbind (rc_require (boundary \<le> start \<and> start \<le> finish) ''Successful job predates the current release attempt'') (\<lambda>_.
     (case dget job ''steps'' PNone of
        PList steps \<Rightarrow>
          rbind (rc_require (steps \<noteq> []) ''Successful job lacks execution steps'') (\<lambda>_.
          rbind (rc_require (\<forall>s \<in> set steps. is_dict s) ''Malformed job execution step'') (\<lambda>_.
          rbind (rc_require (filter successful steps \<noteq> []) ''Successful job lacks successful execution steps'') (\<lambda>_.
          riter (check_step start finish) (filter successful steps))))
      | _ \<Rightarrow> Inl (ReleaseError ''Successful job lacks execution steps'')))))"

definition check_attempt_job :: "string \<Rightarrow> int \<Rightarrow> int \<Rightarrow> pyval \<Rightarrow> unit result" where
  "check_attempt_job sha attempt boundary job =
     (case job of
        PDict d \<Rightarrow>
          if dget d ''status'' PNone \<noteq> PStr ''completed'' \<or> dget d ''conclusion'' PNone \<noteq> PStr ''success'' then Inr ()
          else
            rbind (rc_require (dget d ''head_sha'' PNone = PStr sha \<and> py_eq (dget d ''run_attempt'' PNone) (PInt attempt))
              ''Successful job differs from the current release attempt'') (\<lambda>_.
            require_fresh_job_timing d boundary)
      | _ \<Rightarrow> Inl (AttributeError ''get''))"

definition attempt_path :: "int \<Rightarrow> int \<Rightarrow> string" where
  "attempt_path run_id attempt = ''actions/runs/'' @ int_str run_id @ ''/attempts/'' @ int_str attempt"

definition check_attempt :: "int \<Rightarrow> string \<Rightarrow> int \<Rightarrow> pyval list \<Rightarrow> pyval \<Rightarrow> unit result" where
  "check_attempt run_id sha attempt jobs v =
     (case v of
        PDict detail \<Rightarrow>
          rbind (rc_require (py_eq (dget detail ''id'' PNone) (PInt run_id) \<and> py_eq (dget detail ''run_attempt'' PNone) (PInt attempt)
              \<and> dget detail ''head_sha'' PNone = PStr sha \<and> dget detail ''path'' PNone = PStr WORKFLOW)
            ''Release attempt metadata identity mismatch'') (\<lambda>_.
          rbind (execution_timestamp (dget detail ''run_started_at'' PNone) ''release attempt start'') (\<lambda>boundary.
          riter (check_attempt_job sha attempt boundary) jobs))
      | _ \<Rightarrow> Inl (ReleaseError ''Malformed release attempt metadata''))"

definition require_current_attempt_jobs ::
  "pylib \<Rightarrow> 'w client \<Rightarrow> int \<Rightarrow> string \<Rightarrow> int \<Rightarrow> pyval list \<Rightarrow> ('w, unit) io" where
  "require_current_attempt_jobs L gh run_id sha attempt jobs =
     (if attempt = 1 then ireturn ()
      else
        ibind (api L gh (attempt_path run_id attempt) ''GET'' None) (\<lambda>v.
        ilift (check_attempt run_id sha attempt jobs v)))"

definition gate_failure :: string where
  "gate_failure = ''Exactly one successful, completed Release gate is required; skipped is not a pass''"

definition pending_states :: "string list" where
  "pending_states = [''queued'', ''requested'', ''pending'', ''waiting'', ''in_progress'']"

text \<open>The gate's state as one job list shows it: ready, or not yet.\<close>

definition gate_state :: "string \<Rightarrow> bool \<Rightarrow> pyval list \<Rightarrow> bool result" where
  "gate_state sha allow_pending jobs =
     rbind (jobs_named (\<lambda>n. n = PStr ''Release gate'') jobs) (\<lambda>gates.
     if gates = [] \<and> allow_pending then Inr False
     else
       rbind (rc_require (length gates = 1) gate_failure) (\<lambda>_.
       let gate = as_dict (hd gates) in
       rbind (rc_require (dget gate ''head_sha'' PNone = PStr sha) ''Release gate SHA mismatch'') (\<lambda>_.
       rbind (if allow_pending then in_strs (dget gate ''status'' PNone) pending_states else Inr False) (\<lambda>pending.
       if pending then rbind (rc_require (dget gate ''conclusion'' PNone = PNone) gate_failure) (\<lambda>_. Inr False)
       else
         rbind (rc_require (dget gate ''status'' PNone = PStr ''completed'' \<and> dget gate ''conclusion'' PNone = PStr ''success'')
           gate_failure) (\<lambda>_. Inr True)))))"

definition release_gate_ready :: "pylib \<Rightarrow> 'w client \<Rightarrow> int \<Rightarrow> string \<Rightarrow> int \<Rightarrow> bool \<Rightarrow> ('w, bool) io" where
  "release_gate_ready L gh run_id sha attempt allow_pending =
     ibind (pages L gh (attempt_path run_id attempt @ ''/jobs'') (Some ''jobs'')) (\<lambda>jobs.
     ibind (ilift (gate_state sha allow_pending jobs)) (\<lambda>ready.
     if ready then ibind (require_current_attempt_jobs L gh run_id sha attempt jobs) (\<lambda>_. ireturn True)
     else ireturn False))"

definition validate_run ::
  "pylib \<Rightarrow> 'w client \<Rightarrow> jobject \<Rightarrow> jobject \<Rightarrow> string \<Rightarrow> int \<Rightarrow> bool \<Rightarrow> bool \<Rightarrow> ('w, unit) io" where
  "validate_run L gh source_run info sha attempt completed gate =
     ibind (ilift (validate_run_provenance (repo gh) source_run info sha attempt)) (\<lambda>_.
     ibind (ilift (if completed
         then rc_require (dget source_run ''status'' PNone = PStr ''completed'' \<and> dget source_run ''conclusion'' PNone = PStr ''success'')
           ''Source run has not completed successfully''
         else rc_require (dget source_run ''status'' PNone = PStr ''in_progress'') ''Publication run is not in progress'')) (\<lambda>_.
     if gate then
       ibind (ilift (positive (dget source_run ''id'' PNone))) (\<lambda>run_id.
       ibind (release_gate_ready L gh run_id sha attempt False) (\<lambda>_. ireturn ()))
     else ireturn ()))"

end
