(* ===== verification/Frames.thy ===== *)
theory Frames
  imports RunChecks
begin

text \<open>
  What reading operations leave alone. A frame is a reflexive and transitive relation between the world
  before and after; an operation keeps it when every outcome, errors included, is related to the start.
  A client whose GET requests keep a frame gives it to every operation that only reads. Two frames are
  used: time never runs backwards, and the log of writes does not grow.
\<close>

definition keeps :: "('w \<Rightarrow> 'w \<Rightarrow> bool) \<Rightarrow> ('w, 'a) io \<Rightarrow> bool" where
  "keeps R m \<longleftrightarrow> (\<forall>w. R w (snd (m w)))"

lemma keepsD: "keeps R m \<Longrightarrow> m w = (r, w') \<Longrightarrow> R w w'"
  unfolding keeps_def by (metis snd_conv)

lemma keeps_if: "(b \<Longrightarrow> keeps R m) \<Longrightarrow> (\<not> b \<Longrightarrow> keeps R n) \<Longrightarrow> keeps R (if b then m else n)"
  by simp

lemma keeps_option: "keeps R m \<Longrightarrow> (\<And>x. keeps R (f x)) \<Longrightarrow> keeps R (case v of None \<Rightarrow> m | Some x \<Rightarrow> f x)"
  by (cases v) simp_all

lemma keeps_pair: "(\<And>x y. keeps R (f x y)) \<Longrightarrow> keeps R (case p of (x, y) \<Rightarrow> f x y)"
  by (cases p) simp

locale frame =
  fixes R :: "'w \<Rightarrow> 'w \<Rightarrow> bool"
  assumes frame_refl: "R w w"
    and frame_trans: "R u v \<Longrightarrow> R v w \<Longrightarrow> R u w"
begin

lemma keeps_ireturn: "keeps R (ireturn x)"
  by (simp add: keeps_def frame_refl)

lemma keeps_ilift: "keeps R (ilift r)"
  by (simp add: keeps_def frame_refl)

lemma keeps_here: "keeps R (\<lambda>w. (f w, w))"
  by (simp add: keeps_def frame_refl)

lemma keeps_ibind:
  assumes "keeps R m" "\<And>x. keeps R (f x)"
  shows "keeps R (ibind m f)"
  unfolding keeps_def
proof
  fix w
  obtain r v where m: "m w = (r, v)" by (cases "m w")
  with assms(1) have v: "R w v" by (rule keepsD)
  show "R w (snd (ibind m f w))"
  proof (cases r)
    case (Inl e)
    then show ?thesis using v m by (simp add: ibind_def)
  next
    case (Inr x)
    have "R v (snd (f x v))" using assms(2) unfolding keeps_def by blast
    then show ?thesis using v m Inr frame_trans by (simp add: ibind_def)
  qed
qed

lemmas keeps_rules = keeps_ibind keeps_if keeps_option keeps_pair keeps_ireturn keeps_ilift keeps_here

end

locale reads = frame R for R :: "'w \<Rightarrow> 'w \<Rightarrow> bool" +
  fixes gh :: "'w client"
  assumes request_get: "keeps R (request gh path ''GET'' body mode)"
begin

lemma keeps_api: "keeps R (api L gh path ''GET'' body)"
  unfolding api_def by (intro keeps_rules request_get)

lemma keeps_optional: "keeps R (optional L gh path)"
  unfolding keeps_def
proof
  fix w
  obtain r v where a: "api L gh path ''GET'' None w = (r, v)" by fastforce
  have "snd (optional L gh path w) = v"
    unfolding optional_def a by (auto split: sum.splits pyerror.splits bool.splits)
  with keepsD [OF keeps_api a] show "R w (snd (optional L gh path w))" by simp
qed

lemma keeps_pages: "keeps R (pages L gh path field)"
  unfolding pages_def
  by (intro keeps_rules request_get) (auto intro: keeps_rules split: pyval.splits)

lemma keeps_binary: "keeps R (binary gh path)"
  unfolding binary_def by (intro keeps_rules request_get)

lemmas keeps_reads = keeps_rules keeps_api keeps_optional keeps_pages keeps_binary

lemma keeps_repository_info: "keeps R (repository_info L gh)"
  unfolding repository_info_def by (intro keeps_reads)

lemma keeps_snapshot: "keeps R (source_policy_snapshot L gh sha)"
  unfolding source_policy_snapshot_def by (intro keeps_reads)

lemma keeps_current_fuzzing: "keeps R (require_current_fuzzing L gh policy sha)"
  unfolding require_current_fuzzing_def by (intro keeps_reads keeps_snapshot)

lemma keeps_validation_run: "keeps R (validate_validation_run L gh source_run policy chan)"
  unfolding validate_validation_run_def Let_def by (intro keeps_reads)

lemma keeps_ancestry: "keeps R (check_ancestry L gh sha branch)"
  unfolding check_ancestry_def by (intro keeps_reads)

lemma keeps_workflow_tree: "keeps R (workflow_tree L gh sha)"
  unfolding workflow_tree_def by (intro keeps_reads)

lemma keeps_workflow_publication: "keeps R (check_workflow_publication L gh scope sha)"
  unfolding check_workflow_publication_def Let_def
  by (intro keeps_reads keeps_repository_info keeps_workflow_tree)

lemma keeps_gate: "keeps R (release_gate_ready L gh run_id sha attempt pending)"
  unfolding release_gate_ready_def require_current_attempt_jobs_def by (intro keeps_reads)

lemma keeps_validate_run: "keeps R (validate_run L gh source_run info sha attempt completed gate)"
  unfolding validate_run_def by (intro keeps_reads keeps_gate)

lemma keeps_ensure_absent: "keeps R (ensure_absent L gh tagname)"
  unfolding ensure_absent_def by (intro keeps_reads)

lemma keeps_next_sequence: "keeps R (next_sequence L gh base chan)"
  unfolding next_sequence_def Let_def by (intro keeps_reads)

lemma keeps_candidate_tag: "keeps R (candidate_tag L gh chan base run_id attempt sq now)"
  unfolding candidate_tag_def Let_def by (intro keeps_reads keeps_next_sequence)

lemmas keeps_checks = keeps_reads keeps_repository_info keeps_snapshot keeps_current_fuzzing keeps_validation_run keeps_ancestry
  keeps_workflow_tree keeps_workflow_publication keeps_gate keeps_validate_run keeps_ensure_absent keeps_candidate_tag

end

end
