(* ===== verification/RunWait.thy ===== *)
theory RunWait
  imports Frames
begin

text \<open>
  Waiting and superseding in \<open>scripts/release_control.py\<close>: \<open>wait_for_executing_run\<close> polls until Actions'
  metadata caught up or five minutes have passed, \<open>superseded_candidate\<close> recognises automatic
  candidates with a newer run, \<open>closed_push_cycle\<close> stops betas of a released version. Time is part of
  the world: a request takes some time and a sleep at least what was asked for, so that the loop
  returns is a theorem without assumptions on the clock.
\<close>

section \<open>Polling against a deadline\<close>

text \<open>A step reports an error, a result, or that it has to be tried again.\<close>

partial_function (option) poll ::
  "('w \<Rightarrow> 'a option result \<times> 'w) \<Rightarrow> (int \<Rightarrow> 'w \<Rightarrow> 'w) \<Rightarrow> ('w \<Rightarrow> int) \<Rightarrow> int \<Rightarrow> int \<Rightarrow> 'w \<Rightarrow> ('a result \<times> 'w) option" where
  "poll step sleep now pace deadline w =
     (case step w of
        (Inl e, w') \<Rightarrow> Some (Inl e, w')
      | (Inr (Some x), w') \<Rightarrow> Some (Inr x, w')
      | (Inr None, w') \<Rightarrow> poll step sleep now pace deadline (sleep (min pace (deadline - now w')) w'))"

declare poll.simps [code]

locale polling =
  fixes step :: "'w \<Rightarrow> 'a option result \<times> 'w"
    and sleep :: "int \<Rightarrow> 'w \<Rightarrow> 'w"
    and now :: "'w \<Rightarrow> int"
    and pace :: int
    and deadline :: int
  assumes pace: "0 < pace"
    and step_time: "now w \<le> now (snd (step w))"
    and step_again: "fst (step w) = Inr None \<Longrightarrow> now (snd (step w)) < deadline"
    and step_done: "fst (step w) = Inr (Some x) \<Longrightarrow> now (snd (step w)) < deadline"
    and sleep_time: "0 < d \<Longrightarrow> now w + d \<le> now (sleep d w)"
begin

lemma poll_returns: "\<exists>y. poll step sleep now pace deadline w = Some y"
proof (induction "nat (deadline - now w)" arbitrary: w rule: less_induct)
  case less
  obtain r v where s: "step w = (r, v)" by (cases "step w")
  show ?case
  proof (cases "r = Inr None")
    case False
    then show ?thesis
      by (subst poll.simps) (auto simp: s split: sum.splits option.splits)
  next
    case True
    let ?d = "min pace (deadline - now v)"
    have t: "now w \<le> now v" "now v < deadline"
      using step_time [of w] step_again [of w] s True by simp_all
    then have "0 < ?d" using pace by simp
    from sleep_time [OF this, of v] t have "nat (deadline - now (sleep ?d v)) < nat (deadline - now w)"
      using \<open>0 < ?d\<close> by simp
    from less.hyps [OF this] show ?thesis
      by (subst poll.simps) (simp add: s True)
  qed
qed

lemma poll_result:
  assumes "poll step sleep now pace deadline w = Some (Inr x, w')"
  shows "now w \<le> now w' \<and> now w' < deadline \<and> (\<exists>v. step v = (Inr (Some x), w'))"
  using assms
proof (induction "nat (deadline - now w)" arbitrary: w rule: less_induct)
  case less
  obtain r v where s: "step w = (r, v)" by (cases "step w")
  have p: "(case r of Inl e \<Rightarrow> Some (Inl e, v) | Inr None \<Rightarrow> poll step sleep now pace deadline (sleep (min pace (deadline - now v)) v)
      | Inr (Some y) \<Rightarrow> Some (Inr y, v)) = Some (Inr x, w')"
    using less.prems by (subst (asm) poll.simps) (auto simp: s split: sum.splits option.splits)
  show ?case
  proof (cases "r = Inr None")
    case False
    with p have "r = Inr (Some x)" "w' = v" by (auto split: sum.splits option.splits)
    with s step_time [of w] step_done [of w x] show ?thesis by auto
  next
    case True
    let ?d = "min pace (deadline - now v)"
    have t: "now w \<le> now v" "now v < deadline"
      using step_time [of w] step_again [of w] s True by simp_all
    then have d: "0 < ?d" using pace by simp
    have n: "now v + ?d \<le> now (sleep ?d v)" by (rule sleep_time [OF d])
    have "nat (deadline - now (sleep ?d v)) < nat (deadline - now w)"
      using n t d by simp
    from less.hyps [OF this] p True have "now (sleep ?d v) \<le> now w' \<and> now w' < deadline \<and> (\<exists>v. step v = (Inr (Some x), w'))"
      by simp
    moreover have "now w \<le> now (sleep ?d v)" using n t d by linarith
    ultimately show ?thesis by force
  qed
qed

end

context frame
begin

lemma keeps_poll:
  assumes "keeps R step" "\<And>d w. R w (sleep d w)"
    and "poll step sleep now pace deadline w = Some (r, w')"
  shows "R w w'"
proof -
  have "st = step \<longrightarrow> sl = sleep \<longrightarrow> R w (snd y)" if "poll st sl nw pc dl w = Some y" for st sl nw pc dl w y
    using that
  proof (rule poll.raw_induct [where P = "\<lambda>st sl nw pc dl w y. st = step \<longrightarrow> sl = sleep \<longrightarrow> R w (snd y)", rotated])
    fix again st sl nw pc dl w y
    assume IH: "\<And>st sl nw pc dl w y. again st sl nw pc dl w = Some y \<Longrightarrow> st = step \<longrightarrow> sl = sleep \<longrightarrow> R w (snd y)"
      and y: "(case st w of (Inl e, w') \<Rightarrow> Some (Inl e, w') | (Inr None, w') \<Rightarrow> again st sl nw pc dl (sl (min pc (dl - nw w')) w')
        | (Inr (Some x), w') \<Rightarrow> Some (Inr x, w')) = Some y"
    show "st = step \<longrightarrow> sl = sleep \<longrightarrow> R w (snd y)"
    proof (intro impI)
      assume e: "st = step" "sl = sleep"
      obtain q v where s: "step w = (q, v)" by fastforce
      have v: "R w v" using keepsD [OF assms(1) s] .
      have "R v (snd y)" if "again st sl nw pc dl (sl d v) = Some y" for d
        using IH [OF that] e assms(2) frame_trans by blast
      with y s v e frame_trans frame_refl show "R w (snd y)"
        by (auto split: sum.splits option.splits)
    qed
  qed
  from this [OF assms(3)] show ?thesis by simp
qed

end

section \<open>Time\<close>

text \<open>Nanoseconds of the monotonic clock; how long requests take and sleeps overrun is arbitrary.\<close>

record 'w timing =
  tm_request :: "'w \<Rightarrow> nat"
  tm_overrun :: "'w \<Rightarrow> nat"

definition timed :: "'w timing \<Rightarrow> 'w client \<Rightarrow> ('w \<times> int) client" where
  "timed T gh = \<lparr>repo = repo gh, request = (\<lambda>path method body mode (w, t).
     case request gh path method body mode w of (r, w') \<Rightarrow> (r, (w', t + int (tm_request T w))))\<rparr>"

definition sleep_for :: "'w timing \<Rightarrow> int \<Rightarrow> 'w \<times> int \<Rightarrow> 'w \<times> int" where
  "sleep_for T d wt = (fst wt, snd wt + d + int (tm_overrun T (fst wt)))"

definition EXECUTING_RUN_WAIT_SECONDS :: int where "EXECUTING_RUN_WAIT_SECONDS = 300"
definition second :: int where "second = 1000000000"

section \<open>Waiting for the executing run\<close>

definition executing_run ::
  "pylib \<Rightarrow> actions_env \<Rightarrow> string \<Rightarrow> int \<Rightarrow> string \<Rightarrow> jobject \<Rightarrow> string \<Rightarrow> int \<Rightarrow> pyval \<Rightarrow> jobject result" where
  "executing_run L A repository run_id chan info sha attempt v =
     (case v of
        PDict d \<Rightarrow>
          rbind (rc_require (py_eq (dget d ''id'' PNone) (PInt run_id)) ''Execution run identity mismatch'') (\<lambda>_.
          rbind (check_execution L A repository run_id chan info d) (\<lambda>_.
          rbind (validate_run_provenance repository d info sha attempt) (\<lambda>_.
          rbind (rc_require (dget d ''conclusion'' PNone = PNone) ''Publication run already has a conclusion'') (\<lambda>_.
          Inr d))))
      | _ \<Rightarrow> Inl (AttributeError ''get''))"

definition wait_step ::
  "pylib \<Rightarrow> actions_env \<Rightarrow> ('w \<times> int) client \<Rightarrow> int \<Rightarrow> string \<Rightarrow> jobject \<Rightarrow> string \<Rightarrow> int \<Rightarrow> bool \<Rightarrow> int
     \<Rightarrow> ('w \<times> int, jobject option) io" where
  "wait_step L A gh run_id chan info sha attempt gate deadline =
     ibind (api L gh (''actions/runs/'' @ int_str run_id) ''GET'' None) (\<lambda>v.
     ibind (ilift (executing_run L A (repo gh) run_id chan info sha attempt v)) (\<lambda>d.
     let status = dget d ''status'' PNone in
     ibind (if status = PStr ''in_progress'' then
         (if gate then release_gate_ready L gh run_id sha attempt True else ireturn True)
       else ireturn False) (\<lambda>ready.
     if ready then
       (\<lambda>wt. (if snd wt < deadline then Inr (Some d) else Inl (ReleaseError ''Publication metadata was not ready''), wt))
     else
       ibind (ilift (in_strs status pending_states)) (\<lambda>active.
       ibind (ilift (rc_require active ''Publication run is not active'')) (\<lambda>_.
       (\<lambda>wt. (if deadline - snd wt > 0 then Inr None
         else Inl (ReleaseError (if status = PStr ''in_progress'' then ''Release gate did not become successful''
           else ''Publication run did not become in_progress'')), wt)))))))"

definition wait_for_executing_run ::
  "pylib \<Rightarrow> actions_env \<Rightarrow> 'w timing \<Rightarrow> 'w client \<Rightarrow> int \<Rightarrow> string \<Rightarrow> jobject \<Rightarrow> string \<Rightarrow> int \<Rightarrow> bool
     \<Rightarrow> 'w \<times> int \<Rightarrow> (jobject result \<times> 'w \<times> int) option" where
  "wait_for_executing_run L A T gh run_id chan info sha attempt gate wt =
     (let deadline = snd wt + EXECUTING_RUN_WAIT_SECONDS * second in
      poll (wait_step L A (timed T gh) run_id chan info sha attempt gate deadline)
        (sleep_for T) snd (2 * second) deadline wt)"

section \<open>Every operation of the timed client lets time pass\<close>

definition later :: "'w \<times> int \<Rightarrow> 'w \<times> int \<Rightarrow> bool" where
  "later u v \<longleftrightarrow> snd u \<le> snd v"

lemma request_timed:
  "request (timed T gh) path method body mode wt =
     (case request gh path method body mode (fst wt) of (r, w') \<Rightarrow> (r, (w', snd wt + int (tm_request T (fst wt)))))"
  by (cases wt) (simp add: timed_def)

interpretation clock: reads later "timed T gh" for T :: "'w timing" and gh :: "'w client"
proof
  show "keeps later (request (timed T gh) path ''GET'' body mode)" for path body mode
    by (auto simp: keeps_def later_def request_timed split: prod.splits)
qed (auto simp: later_def)

lemma wait_step_later: "keeps later (wait_step L A (timed T gh) run_id chan info sha attempt gate deadline)"
  unfolding wait_step_def Let_def by (intro clock.keeps_checks)

lemma wait_step_Inr:
  assumes "wait_step L A gh run_id chan info sha attempt gate deadline wt = (Inr r, wt')"
  shows "snd wt' < deadline"
  using assms unfolding wait_step_def Let_def
  by (auto simp: ibind_Inr_iff split: if_splits)

interpretation run_poll: polling "wait_step L A (timed T gh) run_id chan info sha attempt gate deadline"
    "sleep_for T" "snd" "2 * second" deadline
  for L :: pylib and A :: actions_env and T :: "'w timing" and gh :: "'w client" and run_id :: int and chan :: string
    and info :: jobject and sha :: string and attempt :: int and gate :: bool and deadline :: int
proof unfold_locales
  let ?step = "wait_step L A (timed T gh) run_id chan info sha attempt gate deadline"
  fix w :: "'w \<times> int" and d :: int and x
  show "snd w \<le> snd (snd (?step w))" using wait_step_later unfolding keeps_def later_def by blast
  show "fst (?step w) = Inr None \<Longrightarrow> snd (snd (?step w)) < deadline"
    by (cases "?step w") (auto dest: wait_step_Inr)
  show "fst (?step w) = Inr (Some x) \<Longrightarrow> snd (snd (?step w)) < deadline"
    by (cases "?step w") (auto dest: wait_step_Inr)
  show "snd w + d \<le> snd (sleep_for T d w)" by (simp add: sleep_for_def)
  show "0 < 2 * second" by (simp add: second_def)
qed

section \<open>What a wait returns\<close>

definition gate_passed :: "string \<Rightarrow> pyval list \<Rightarrow> bool" where
  "gate_passed sha jobs \<longleftrightarrow>
     (\<exists>d. filter (\<lambda>j. dget (as_dict j) ''name'' PNone = PStr ''Release gate'') jobs = [PDict d]
        \<and> dget d ''head_sha'' PNone = PStr sha \<and> dget d ''status'' PNone = PStr ''completed''
        \<and> dget d ''conclusion'' PNone = PStr ''success'')"

lemma jobs_named_filter:
  assumes "jobs_named p jobs = Inr js"
  shows "js = filter (\<lambda>j. p (dget (as_dict j) ''name'' PNone)) jobs \<and> (\<forall>j \<in> set jobs. is_dict j)"
proof -
  from assms obtain ns where ns: "rmap (\<lambda>j. pget j ''name'' PNone) jobs = Inr ns"
    and js: "js = map fst (filter (\<lambda>jn. p (snd jn)) (zip jobs ns))"
    by (auto simp: jobs_named_def rbind_Inr_iff)
  have one: "pget j ''name'' PNone = Inr n \<Longrightarrow> is_dict j \<and> n = dget (as_dict j) ''name'' PNone" for j n
    by (cases j) (simp_all add: pget_def as_dict_def)
  have dict: "\<forall>j \<in> set jobs. is_dict j"
    using rmap_Inr_mem [OF ns] one by blast
  have "ns = map (\<lambda>j. dget (as_dict j) ''name'' PNone) jobs"
    by (rule nth_equalityI) (use rmap_Inr_length [OF ns] rmap_Inr_nth [OF ns] one in auto)
  then have "js = filter (\<lambda>j. p (dget (as_dict j) ''name'' PNone)) jobs"
    unfolding js by (induction jobs arbitrary: ns) auto
  with dict show ?thesis by blast
qed

lemma gate_state_passed:
  assumes "gate_state sha pending jobs = Inr True"
  shows "gate_passed sha jobs"
proof -
  from assms obtain gates where g: "jobs_named (\<lambda>n. n = PStr ''Release gate'') jobs = Inr gates" and l: "length gates = 1"
    and d: "dget (as_dict (hd gates)) ''head_sha'' PNone = PStr sha" "dget (as_dict (hd gates)) ''status'' PNone = PStr ''completed''"
      "dget (as_dict (hd gates)) ''conclusion'' PNone = PStr ''success''"
    unfolding gate_state_def Let_def by (auto simp: rbind_Inr_iff split: if_splits)
  from l obtain gate where gates: "gates = [gate]" by (auto simp: length_Suc_conv)
  from d(1) gates obtain e where e: "gate = PDict e" by (cases gate) (auto simp: as_dict_def dget_def)
  have f: "filter (\<lambda>j. dget (as_dict j) ''name'' PNone = PStr ''Release gate'') jobs = [PDict e]"
    using jobs_named_filter [OF g] gates e by simp
  have h: "as_dict (hd gates) = e" by (simp add: gates e as_dict_def)
  show ?thesis
    unfolding gate_passed_def by (rule exI [of _ e], intro conjI f) (use d in \<open>simp_all only: h\<close>)
qed

lemma release_gate_ready_True:
  assumes "release_gate_ready L gh run_id sha attempt pending w = (Inr True, w')"
  shows "\<exists>v jobs v'. pages L gh (attempt_path run_id attempt @ ''/jobs'') (Some ''jobs'') v = (Inr jobs, v') \<and> gate_passed sha jobs"
  using assms unfolding release_gate_ready_def
  by (fastforce simp: ibind_Inr_iff split: if_splits dest: gate_state_passed)

lemma wait_step_Some:
  assumes "wait_step L A gh run_id chan info sha attempt gate deadline wt = (Inr (Some d), wt')"
  shows "dget d ''status'' PNone = PStr ''in_progress'' \<and> dget d ''conclusion'' PNone = PNone
    \<and> check_execution L A (repo gh) run_id chan info d = Inr ()
    \<and> validate_run_provenance (repo gh) d info sha attempt = Inr ()
    \<and> (gate \<longrightarrow> (\<exists>v jobs v'. pages L gh (attempt_path run_id attempt @ ''/jobs'') (Some ''jobs'') v = (Inr jobs, v') \<and> gate_passed sha jobs))"
proof -
  from assms obtain u v e x x' where
    e: "executing_run L A (repo gh) run_id chan info sha attempt v = Inr e" and "d = e"
    and st: "dget e ''status'' PNone = PStr ''in_progress''"
    and g: "gate \<longrightarrow> release_gate_ready L gh run_id sha attempt True x = (Inr True, x')"
    unfolding wait_step_def Let_def by (auto simp: ibind_Inr_iff split: if_splits)
  have "dget e ''conclusion'' PNone = PNone \<and> check_execution L A (repo gh) run_id chan info e = Inr ()
      \<and> validate_run_provenance (repo gh) e info sha attempt = Inr ()"
    using e unfolding executing_run_def by (cases v) (auto simp: rbind_Inr_iff)
  moreover have "gate \<longrightarrow> (\<exists>v jobs v'. pages L gh (attempt_path run_id attempt @ ''/jobs'') (Some ''jobs'') v = (Inr jobs, v') \<and> gate_passed sha jobs)"
    using g release_gate_ready_True [of L gh run_id sha attempt True x x'] by blast
  ultimately show ?thesis using st \<open>d = e\<close> by simp
qed

text \<open>
  C18: waiting for the executing run always returns, however long requests take and sleeps overrun. A run
  it returns was read before the five minutes were over, is in progress without a conclusion, belongs
  to this execution, repository, workflow, commit and attempt, and when the gate is asked for, the job
  list of that attempt had exactly one Release gate, completed successfully at that commit.
\<close>

theorem wait_for_executing_run_returns:
  "\<exists>r wt'. wait_for_executing_run L A T gh run_id chan info sha attempt gate wt = Some (r, wt')
     \<and> (\<forall>d. r = Inr d \<longrightarrow> snd wt' < snd wt + 300000000000
        \<and> dget d ''status'' PNone = PStr ''in_progress'' \<and> dget d ''conclusion'' PNone = PNone
        \<and> check_execution L A (repo gh) run_id chan info d = Inr ()
        \<and> validate_run_provenance (repo gh) d info sha attempt = Inr ()
        \<and> (gate \<longrightarrow> (\<exists>v jobs v'. pages L (timed T gh) (attempt_path run_id attempt @ ''/jobs'') (Some ''jobs'') v = (Inr jobs, v')
            \<and> gate_passed sha jobs)))"
proof -
  let ?d = "snd wt + EXECUTING_RUN_WAIT_SECONDS * second"
  have rp: "repo (timed T gh) = repo gh" by (simp add: timed_def)
  obtain r wt' where y: "wait_for_executing_run L A T gh run_id chan info sha attempt gate wt = Some (r, wt')"
    using run_poll.poll_returns [of L A T gh run_id chan info sha attempt gate ?d wt]
    unfolding wait_for_executing_run_def Let_def by auto
  moreover have "snd wt' < snd wt + 300000000000
        \<and> dget d ''status'' PNone = PStr ''in_progress'' \<and> dget d ''conclusion'' PNone = PNone
        \<and> check_execution L A (repo gh) run_id chan info d = Inr ()
        \<and> validate_run_provenance (repo gh) d info sha attempt = Inr ()
        \<and> (gate \<longrightarrow> (\<exists>v jobs v'. pages L (timed T gh) (attempt_path run_id attempt @ ''/jobs'') (Some ''jobs'') v = (Inr jobs, v')
            \<and> gate_passed sha jobs))" if "r = Inr d" for d
  proof -
    from run_poll.poll_result [OF y [unfolded wait_for_executing_run_def Let_def \<open>r = Inr d\<close>]] obtain v where
      "snd wt' < ?d" and s: "wait_step L A (timed T gh) run_id chan info sha attempt gate ?d v = (Inr (Some d), wt')"
      by blast
    with wait_step_Some [OF s, unfolded rp] show ?thesis
      by (simp add: EXECUTING_RUN_WAIT_SECONDS_def second_def)
  qed
  ultimately show ?thesis by blast
qed

section \<open>Supersession\<close>

definition newer_run :: "jobject \<Rightarrow> jobject \<Rightarrow> bool result" where
  "newer_run successor source_run =
     (if dget successor ''event'' PNone \<noteq> PStr ''push'' then Inr False
      else
        rbind (positive (dget successor ''id'' PNone)) (\<lambda>a.
        rbind (positive (dget source_run ''id'' PNone)) (\<lambda>b.
        if \<not> a > b then Inr False
        else
          rbind (positive (dget successor ''run_number'' PNone)) (\<lambda>m.
          rbind (positive (dget source_run ''run_number'' PNone)) (\<lambda>n.
          if \<not> m > n then Inr False
          else in_strs (dget successor ''status'' PNone)
            [''queued'', ''requested'', ''pending'', ''waiting'', ''in_progress'', ''completed''])))))"

definition only_successor :: "pyval \<Rightarrow> jobject result" where
  "only_successor v =
     (case v of
        PDict replacement \<Rightarrow>
          (case dget replacement ''workflow_runs'' PNone of
             PList [successor] \<Rightarrow>
               rbind (rc_require (dget replacement ''total_count'' PNone = PInt 1)
                 ''Default branch advanced without one proven replacement release run; inspect its release workflow and dispatch a fresh run at current HEAD'') (\<lambda>_.
               (case successor of PDict d \<Rightarrow> Inr d | _ \<Rightarrow> Inl (ReleaseError ''Invalid replacement release run'')))
           | _ \<Rightarrow> Inl (ReleaseError ''Default branch advanced without one proven replacement release run; inspect its release workflow and dispatch a fresh run at current HEAD''))
      | _ \<Rightarrow> Inl (ReleaseError ''Default branch advanced without one proven replacement release run; inspect its release workflow and dispatch a fresh run at current HEAD''))"

definition verified_ancestor :: "pyval \<Rightarrow> pyval \<Rightarrow> unit result" where
  "verified_ancestor source v =
     (case v of
        PDict comparison \<Rightarrow>
          rbind (rc_require (dget comparison ''status'' PNone = PStr ''ahead'')
            ''Automatic release source is not a verified ancestor of current default HEAD'') (\<lambda>_.
          rbind (pget (dget comparison ''merge_base_commit'' (PDict [])) ''sha'' PNone) (\<lambda>base.
          rc_require (py_eq base source) ''Automatic release source is not a verified ancestor of current default HEAD''))
      | _ \<Rightarrow> Inl (ReleaseError ''Automatic release source is not a verified ancestor of current default HEAD''))"

definition automatic :: "pyval \<Rightarrow> string \<Rightarrow> bool" where
  "automatic event chan \<longleftrightarrow> (event = PStr ''push'' \<and> chan = ''beta'') \<or> (event = PStr ''schedule'' \<and> chan = ''nightly'')"

definition superseded_candidate ::
  "pylib \<Rightarrow> 'w client \<Rightarrow> jobject \<Rightarrow> jobject \<Rightarrow> string \<Rightarrow> ('w, jobject option) io" where
  "superseded_candidate L gh info source_run chan =
     ibind (ilift (ditem source_run ''event'')) (\<lambda>event.
     ibind (ilift (if hashable event then Inr () else Inl (TypeError ''unhashable type''))) (\<lambda>_.
     if \<not> automatic event chan then ireturn None
     else
       ibind (ilift (ditem info ''default_branch'')) (\<lambda>b.
       ibind (repository_info L gh) (\<lambda>again.
       ibind (ilift (rc_require (py_eq (dget again ''default_branch'' PNone) b)
         ''Default branch changed during this run; dispatch a fresh release'')) (\<lambda>_.
       ibind (ilift (as_name b)) (\<lambda>branch.
       let path = heads_path branch in
       ibind (api L gh path ''GET'' None) (\<lambda>ref.
       (case ref_commit (heads_ref branch) [''commit''] ref of
          None \<Rightarrow> ilift (Inl (ReleaseError ''Cannot verify current default branch for automatic publication''))
        | Some head \<Rightarrow>
            ibind (ilift (ditem source_run ''head_sha'')) (\<lambda>source.
            if source = PStr head then ireturn None
            else
              ibind (ilift (path_field L source)) (\<lambda>source_text.
              ibind (api L gh (compare_path source_text head) ''GET'' None) (\<lambda>comparison.
              ibind (ilift (verified_ancestor source comparison)) (\<lambda>_.
              ibind (api L gh (replacement_path branch head) ''GET'' None) (\<lambda>replacement.
              ibind (ilift (only_successor replacement)) (\<lambda>successor.
              ibind (ilift (positive (dget successor ''run_attempt'' PNone))) (\<lambda>attempt.
              ibind (ilift (validate_run_provenance (repo gh) successor info head attempt)) (\<lambda>_.
              ibind (ilift (newer_run successor source_run)) (\<lambda>newer.
              ibind (ilift (rc_require newer ''Replacement must be a newer automatic run of the default-branch release workflow'')) (\<lambda>_.
              ibind (api L gh path ''GET'' None) (\<lambda>ref2.
              ibind (ilift (rc_require (py_eq ref2 ref)
                ''Default branch changed while verifying replacement; retry at current HEAD'')) (\<lambda>_.
              ibind (ilift (rbind (ditem successor ''id'') (path_field L))) (\<lambda>successor_id.
              ireturn (Some [(''status'', PStr ''superseded''), (''source_sha'', source), (''superseded_by'', PStr head),
                (''successor_run_id'', PStr successor_id),
                (''successor_run_url'', PStr (''https://github.com/'' @ repo gh @ ''/actions/runs/'' @ successor_id))]))))))))))))))))))))))"

context reads
begin

lemma keeps_superseded: "keeps R (superseded_candidate L gh info source_run chan)"
  unfolding superseded_candidate_def Let_def by (intro keeps_checks)

end

section \<open>Closed version cycles\<close>

definition closed_reason :: "string \<Rightarrow> string" where
  "closed_reason tagname = ''Stable tag '' @ tagname @ '' already exists; prepare and merge the next committed base version before creating another beta.''"

definition closed_push_cycle :: "pylib \<Rightarrow> 'w client \<Rightarrow> string \<Rightarrow> string \<Rightarrow> ('w, jobject option) io" where
  "closed_push_cycle L gh base kind =
     (if kind \<noteq> ''push'' then ireturn None
      else
        ibind (ilift (rc_version base)) (\<lambda>b.
        let tagname = ''v'' @ b in
        (\<lambda>w. case api L gh (''git/ref/tags/'' @ quote tagname) ''GET'' None w of
           (Inl (GitHubError m True), w') \<Rightarrow> (Inr None, w')
         | (Inl e, w') \<Rightarrow> (Inl e, w')
         | (Inr ref, w') \<Rightarrow>
             (if ref_commit (''refs/tags/'' @ tagname) [''commit'', ''tag''] ref = None
              then Inl (ReleaseError ''Invalid stable tag response during automatic beta preparation'')
              else Inr (Some [(''status'', PStr ''version-required''), (''channel'', PStr ''beta''), (''version'', PStr base),
                (''build'', PStr ''false''), (''plan_artifact'', PStr []), (''reason'', PStr (closed_reason tagname))]), w'))))"

lemma path_field_positive:
  assumes "positive v = Inr a" "path_field L v = Inr t"
  shows "t = int_str a"
proof (cases v)
  case (PStr s)
  with assms have "fullmatch positive_numeral s" "a = int (dec_val s)" "t = s"
    by (auto simp: positive_def path_field_def scalar_text_def rbind_Inr_iff split: if_splits)
  then show ?thesis by (simp add: int_str_nonneg nat_str_dec_val)
next
  case (PInt i)
  with assms show ?thesis
    by (auto simp: positive_def path_field_def scalar_text_def rbind_Inr_iff split: if_splits)
qed (use assms in \<open>simp_all add: positive_def\<close>)

text \<open>A run of the release workflow of this repository, on this branch and at this commit.\<close>

definition release_run_at :: "string \<Rightarrow> string \<Rightarrow> string \<Rightarrow> jobject \<Rightarrow> bool" where
  "release_run_at repository branch sha d \<longleftrightarrow>
     (\<exists>own head owner_name head_name. dget d ''repository'' (PDict []) = PDict own \<and> dget d ''head_repository'' (PDict []) = PDict head
        \<and> dget own ''full_name'' (PStr []) = PStr owner_name \<and> lower owner_name = lower repository
        \<and> dget head ''full_name'' (PStr []) = PStr head_name \<and> lower head_name = lower repository)
     \<and> dget d ''path'' PNone = PStr WORKFLOW \<and> dget d ''head_branch'' PNone = PStr branch
     \<and> dget d ''head_sha'' PNone = PStr sha \<and> fullmatch SHA sha"

lemma py_eq_text: "py_eq v (PStr s) \<longleftrightarrow> v = PStr s"
  by (cases v) auto

lemma check_repository_Inr: "check_repository repository v = Inr d \<Longrightarrow> v = PDict d"
  by (cases v) (auto simp: check_repository_def rbind_Inr_iff)

lemma full_name_of_Inr:
  "full_name_of d field = Inr n \<longleftrightarrow>
     (\<exists>r s. dget d field (PDict []) = PDict r \<and> dget r ''full_name'' (PStr []) = PStr s \<and> n = lower s)"
  by (auto simp: full_name_of_def rbind_Inr_iff pget_def str_lower_def split: pyval.splits)

lemma provenance_release_run:
  assumes "validate_run_provenance repository d info sha attempt = Inr ()"
    "map_of info ''default_branch'' = Some (PStr branch)"
  shows "release_run_at repository branch sha d"
  using assms
  by (auto simp: validate_run_provenance_def release_run_at_def rbind_Inr_iff full_name_of_Inr py_eq_text)

lemma only_successor_Inr:
  "only_successor v = Inr d \<longleftrightarrow>
     (\<exists>r. v = PDict r \<and> dget r ''total_count'' PNone = PInt 1 \<and> dget r ''workflow_runs'' PNone = PList [PDict d])"
  by (auto simp: only_successor_def rbind_Inr_iff split: pyval.splits list.splits)

lemma verified_ancestor_Inr:
  assumes "verified_ancestor source v = Inr ()"
  shows "\<exists>c m base. v = PDict c \<and> dget c ''status'' PNone = PStr ''ahead''
    \<and> dget c ''merge_base_commit'' (PDict []) = PDict m \<and> dget m ''sha'' PNone = base \<and> py_eq base source"
  using assms by (auto simp: verified_ancestor_def rbind_Inr_iff pget_def split: pyval.splits)

lemma ref_commit_Some:
  "ref_commit name types v = Some sha \<longleftrightarrow>
     (\<exists>d obj t. v = PDict d \<and> dget d ''ref'' PNone = PStr name \<and> dget d ''object'' PNone = PDict obj
        \<and> dget obj ''type'' PNone = PStr t \<and> t \<in> set types \<and> dget obj ''sha'' PNone = PStr sha \<and> fullmatch SHA sha)"
  by (auto simp: ref_commit_def split: pyval.splits)

text \<open>
  C19: a candidate is reported as superseded only with proof, read in five requests of which each
  starts where the one before ended. The repository still has the default branch of the run, and the
  branch's head is not the candidate's commit. The comparison of the two commits says that the head is
  ahead and that their merge base is the candidate's commit. The list of push runs of the release
  workflow at that head counts one run and holds one run: a push run of this repository, workflow,
  branch and head, in a known state, whose run id and run number are larger than the candidate's. A
  last look finds the same branch reference. The report names the head and that run.
\<close>

theorem superseded_candidate_newer:
  assumes "superseded_candidate L gh info source_run chan w = (Inr (Some report), w')"
  shows "\<exists>event branch again d obj source source_text head c m r successor a b k n ref2 status w1 w2 w3 w4.
      map_of source_run ''event'' = Some event \<and> automatic event chan
      \<and> map_of info ''default_branch'' = Some (PStr branch)
      \<and> api L gh [] ''GET'' None w = (Inr (PDict again), w1) \<and> dget again ''default_branch'' PNone = PStr branch
      \<and> api L gh (heads_path branch) ''GET'' None w1 = (Inr (PDict d), w2)
      \<and> dget d ''ref'' PNone = PStr (heads_ref branch) \<and> dget d ''object'' PNone = PDict obj
      \<and> dget obj ''type'' PNone = PStr ''commit'' \<and> dget obj ''sha'' PNone = PStr head \<and> fullmatch SHA head
      \<and> map_of source_run ''head_sha'' = Some source \<and> source \<noteq> PStr head \<and> path_field L source = Inr source_text
      \<and> api L gh (compare_path source_text head) ''GET'' None w2 = (Inr (PDict c), w3)
      \<and> dget c ''status'' PNone = PStr ''ahead'' \<and> dget c ''merge_base_commit'' (PDict []) = PDict m
      \<and> py_eq (dget m ''sha'' PNone) source
      \<and> api L gh (replacement_path branch head) ''GET'' None w3 = (Inr (PDict r), w4)
      \<and> dget r ''total_count'' PNone = PInt 1 \<and> dget r ''workflow_runs'' PNone = PList [PDict successor]
      \<and> release_run_at (repo gh) branch head successor \<and> dget successor ''event'' PNone = PStr ''push''
      \<and> positive (dget successor ''id'' PNone) = Inr a \<and> positive (dget source_run ''id'' PNone) = Inr b \<and> b < a
      \<and> positive (dget successor ''run_number'' PNone) = Inr k \<and> positive (dget source_run ''run_number'' PNone) = Inr n \<and> n < k
      \<and> dget successor ''status'' PNone = PStr status
      \<and> status \<in> {''queued'', ''requested'', ''pending'', ''waiting'', ''in_progress'', ''completed''}
      \<and> api L gh (heads_path branch) ''GET'' None w4 = (Inr ref2, w') \<and> py_eq ref2 (PDict d)
      \<and> report = [(''status'', PStr ''superseded''), (''source_sha'', source), (''superseded_by'', PStr head),
          (''successor_run_id'', PStr (int_str a)),
          (''successor_run_url'', PStr (''https://github.com/'' @ repo gh @ ''/actions/runs/'' @ int_str a))]"
proof -
  have name: "as_name v = Inr n \<longleftrightarrow> v = PStr n" for v n by (cases v) (simp_all add: as_name_def)
  obtain event branch again ref ref2 source source_text head comparison replacement successor attempt successor_id w1 w2 w3 w4 where
    e: "map_of source_run ''event'' = Some event" "automatic event chan"
    and b: "map_of info ''default_branch'' = Some (PStr branch)"
    and i: "repository_info L gh w = (Inr again, w1)" "py_eq (dget again ''default_branch'' PNone) (PStr branch)"
    and r: "api L gh (heads_path branch) ''GET'' None w1 = (Inr ref, w2)" "ref_commit (heads_ref branch) [''commit''] ref = Some head"
    and s: "map_of source_run ''head_sha'' = Some source" "source \<noteq> PStr head" "path_field L source = Inr source_text"
    and c: "api L gh (compare_path source_text head) ''GET'' None w2 = (Inr comparison, w3)" "verified_ancestor source comparison = Inr ()"
    and p: "api L gh (replacement_path branch head) ''GET'' None w3 = (Inr replacement, w4)" "only_successor replacement = Inr successor"
    and v: "validate_run_provenance (repo gh) successor info head attempt = Inr ()"
    and n: "newer_run successor source_run = Inr True"
    and again: "api L gh (heads_path branch) ''GET'' None w4 = (Inr ref2, w')" "py_eq ref2 ref"
    and id: "rbind (ditem successor ''id'') (path_field L) = Inr successor_id"
    and report: "report = [(''status'', PStr ''superseded''), (''source_sha'', source), (''superseded_by'', PStr head),
        (''successor_run_id'', PStr successor_id),
        (''successor_run_url'', PStr (''https://github.com/'' @ repo gh @ ''/actions/runs/'' @ successor_id))]"
    using assms unfolding superseded_candidate_def Let_def
    by (clarsimp simp: ibind_Inr_iff name split: if_splits option.splits)
  have info: "api L gh [] ''GET'' None w = (Inr (PDict again), w1)"
    using i(1) by (auto simp: repository_info_def ibind_Inr_iff dest: check_repository_Inr)
  obtain a b' k n' status where
    q: "dget successor ''event'' PNone = PStr ''push''" "positive (dget successor ''id'' PNone) = Inr a"
      "positive (dget source_run ''id'' PNone) = Inr b'" "b' < a"
      "positive (dget successor ''run_number'' PNone) = Inr k" "positive (dget source_run ''run_number'' PNone) = Inr n'" "n' < k"
    and st: "dget successor ''status'' PNone = PStr status"
      "status \<in> {''queued'', ''requested'', ''pending'', ''waiting'', ''in_progress'', ''completed''}"
    using n unfolding newer_run_def by (auto simp: rbind_Inr_iff in_strs_True_iff split: if_splits)
  from id have "path_field L (dget successor ''id'' PNone) = Inr successor_id"
    by (auto simp: rbind_Inr_iff dget_def)
  with q(2) have sid: "successor_id = int_str a" by (rule path_field_positive)
  obtain d obj where ref: "ref = PDict d" "dget d ''ref'' PNone = PStr (heads_ref branch)" "dget d ''object'' PNone = PDict obj"
      "dget obj ''type'' PNone = PStr ''commit''" "dget obj ''sha'' PNone = PStr head" "fullmatch SHA head"
    using r(2) by (auto simp: ref_commit_Some)
  obtain cd m where cmp: "comparison = PDict cd" "dget cd ''status'' PNone = PStr ''ahead''"
      "dget cd ''merge_base_commit'' (PDict []) = PDict m" "py_eq (dget m ''sha'' PNone) source"
    using verified_ancestor_Inr [OF c(2)] by blast
  obtain rd where rep: "replacement = PDict rd" "dget rd ''total_count'' PNone = PInt 1"
      "dget rd ''workflow_runs'' PNone = PList [PDict successor]"
    using p(2) by (auto simp: only_successor_Inr)
  show ?thesis
    using e b info i(2) [unfolded py_eq_text] r(1) [unfolded ref(1)] ref(2-6) s c(1) [unfolded cmp(1)] cmp(2-4)
      p(1) [unfolded rep(1)] rep(2,3) provenance_release_run [OF v b] q st again [unfolded ref(1)] report [unfolded sid]
    by (intro exI conjI) assumption+
qed

section \<open>Reruns\<close>

definition completed_job :: "jobject \<Rightarrow> bool" where
  "completed_job d \<longleftrightarrow> dget d ''status'' PNone = PStr ''completed'' \<and> dget d ''conclusion'' PNone = PStr ''success''"

definition step_within :: "int \<Rightarrow> int \<Rightarrow> pyval \<Rightarrow> bool" where
  "step_within start finish step \<longleftrightarrow>
     (\<exists>a b. execution_timestamp (dget (as_dict step) ''started_at'' PNone) ''step start'' = Inr a
        \<and> execution_timestamp (dget (as_dict step) ''completed_at'' PNone) ''step completion'' = Inr b
        \<and> start \<le> a \<and> a \<le> b \<and> b \<le> finish)"

lemma fresh_job_timing:
  assumes "require_fresh_job_timing job boundary = Inr ()"
  shows "\<exists>start finish steps. execution_timestamp (dget job ''started_at'' PNone) ''job start'' = Inr start
    \<and> execution_timestamp (dget job ''completed_at'' PNone) ''job completion'' = Inr finish
    \<and> boundary \<le> start \<and> start \<le> finish \<and> dget job ''steps'' PNone = PList steps
    \<and> filter successful steps \<noteq> [] \<and> (\<forall>s \<in> set steps. successful s \<longrightarrow> step_within start finish s)"
proof -
  obtain steps where st: "dget job ''steps'' PNone = PList steps"
    using assms unfolding require_fresh_job_timing_def
    by (cases "dget job ''steps'' PNone") (simp_all add: rbind_Inr_iff)
  from assms obtain start finish where
    t: "execution_timestamp (dget job ''started_at'' PNone) ''job start'' = Inr start"
      "execution_timestamp (dget job ''completed_at'' PNone) ''job completion'' = Inr finish"
      "boundary \<le> start" "start \<le> finish" "filter successful steps \<noteq> []"
    and c: "\<forall>s \<in> set steps. successful s \<longrightarrow> check_step start finish s = Inr ()"
    unfolding require_fresh_job_timing_def st pyval.case rbind_Inr_iff rc_require_Inr_iff riter_Inr_iff by auto
  have "check_step start finish s = Inr () \<Longrightarrow> step_within start finish s" for s
    unfolding check_step_def step_within_def Let_def by (auto simp: rbind_Inr_iff)
  with t c st show ?thesis by blast
qed

text \<open>
  On a rerun no result of an earlier attempt counts. When the jobs of an attempt are accepted, every
  job that is reported as successful is bound to this commit and attempt, started after the attempt
  did, has a successful step, and all its successful steps ran inside the job's own interval.
\<close>

theorem attempt_jobs_fresh:
  assumes "require_current_attempt_jobs L gh run_id sha attempt jobs w = (Inr (), w')" "attempt \<noteq> 1"
  shows "\<exists>detail boundary v. api L gh (attempt_path run_id attempt) ''GET'' None w = (Inr (PDict detail), v)
    \<and> execution_timestamp (dget detail ''run_started_at'' PNone) ''release attempt start'' = Inr boundary
    \<and> (\<forall>d. PDict d \<in> set jobs \<longrightarrow> completed_job d \<longrightarrow>
         dget d ''head_sha'' PNone = PStr sha \<and> py_eq (dget d ''run_attempt'' PNone) (PInt attempt)
         \<and> (\<exists>start finish steps. execution_timestamp (dget d ''started_at'' PNone) ''job start'' = Inr start
              \<and> execution_timestamp (dget d ''completed_at'' PNone) ''job completion'' = Inr finish
              \<and> boundary \<le> start \<and> start \<le> finish \<and> dget d ''steps'' PNone = PList steps
              \<and> filter successful steps \<noteq> [] \<and> (\<forall>s \<in> set steps. successful s \<longrightarrow> step_within start finish s)))"
proof -
  from assms obtain x v where a: "api L gh (attempt_path run_id attempt) ''GET'' None w = (Inr x, v)"
    and c: "check_attempt run_id sha attempt jobs x = Inr ()"
    by (auto simp: require_current_attempt_jobs_def ibind_Inr_iff)
  obtain detail where x: "x = PDict detail" using c by (cases x) (simp_all add: check_attempt_def)
  from c obtain boundary where
    b: "execution_timestamp (dget detail ''run_started_at'' PNone) ''release attempt start'' = Inr boundary"
    and j: "\<forall>job \<in> set jobs. check_attempt_job sha attempt boundary job = Inr ()"
    unfolding x check_attempt_def by (auto simp: rbind_Inr_iff)
  have "dget d ''head_sha'' PNone = PStr sha \<and> py_eq (dget d ''run_attempt'' PNone) (PInt attempt)
      \<and> require_fresh_job_timing d boundary = Inr ()" if "PDict d \<in> set jobs" "completed_job d" for d
    using bspec [OF j that(1)] that(2) by (auto simp: check_attempt_job_def completed_job_def rbind_Inr_iff)
  with a x b fresh_job_timing show ?thesis by metis
qed

end
