(* ===== verification/LedgerProps.thy ===== *)
theory LedgerProps
  imports ReleaseState
begin

text \<open>
  What the version ledger promises. The pure steps of a ledger (\<open>ledger_step\<close>) are the changes that
  \<open>reserve_plan\<close> and \<open>begin_publication\<close> write; any number of runners execute them against one
  remote file that accepts a write only for the blob it was computed from (\<open>system_step\<close>). Whatever
  the interleaving, the remote ledger moves by whole ledger steps, so that build numbers and
  prerelease versions stay unique, counters never move backwards and reservations are never lost.
\<close>

section \<open>Ledger steps\<close>

text \<open>The sequence a reservation takes: above every reserved number for beta and rc, the run's own
  stamp for nightly.\<close>

definition sequence_choice :: "ledger \<Rightarrow> string \<Rightarrow> string \<Rightarrow> int \<Rightarrow> seq \<Rightarrow> bool" where
  "sequence_choice st base chan run_id sq \<longleftrightarrow>
     (if chan \<in> {''beta'', ''rc''}
      then \<exists>n. sq = SeqNum (int n) \<and> (\<forall>m \<in> set (reserved_numbers st base chan). m < n)
      else if chan = ''nightly''
      then \<exists>now attempt. sq = SeqStamp (now @ ''.'' @ int_str run_id @ ''.'' @ int_str attempt)
      else sq = NoSeq)"

inductive ledger_step :: "pylib \<Rightarrow> ledger \<Rightarrow> ledger \<Rightarrow> bool" for L where
  reserve: "0 < run_id \<Longrightarrow> map_of (plans st) (int_str run_id) = None \<Longrightarrow>
    sequence_choice st base chan run_id sq \<Longrightarrow> next_build st policy = Inr number \<Longrightarrow>
    create_plan L base chan sq sha policy (Some number) = Inr p \<Longrightarrow>
    ledger_step L st (add_reservation st (int_str run_id) p parent number)"
| publish: "(k, r) \<in> set (plans st) \<Longrightarrow> build_int (res_plan r) > publication_floor st \<Longrightarrow>
    ledger_step L st (st\<lparr>publication_floor := build_int (res_plan r)\<rparr>)"
| promote: "(k, r) \<in> set (plans st) \<Longrightarrow> channel (res_plan r) = ''rc'' \<Longrightarrow>
    promotion (res_plan r) = ''promote-bytes'' \<Longrightarrow> build_int (res_plan r) \<ge> publication_floor st \<Longrightarrow>
    ledger_step L st (st\<lparr>publication_floor := build_int (res_plan r)\<rparr>)"

inductive_cases ledger_stepE: "ledger_step L st st'"

section \<open>The invariant\<close>

definition res_ok :: "int \<Rightarrow> string \<times> reservation \<Rightarrow> bool" where
  "res_ok bound kr \<longleftrightarrow>
     (let p = res_plan (snd kr) in
      plan_ok p \<and> (\<exists>b. build_number p = Some b \<and> 0 < b \<and> b \<le> bound) \<and> (\<exists>rid > 0. fst kr = int_str rid)
      \<and> (channel p = ''nightly'' \<longrightarrow>
          (\<exists>now attempt. sequence p = SeqStamp (now @ ''.'' @ fst kr @ ''.'' @ int_str attempt))))"

definition plan_list :: "ledger \<Rightarrow> plan list" where
  "plan_list st = map (\<lambda>kr. res_plan (snd kr)) (plans st)"

definition prereleases :: "ledger \<Rightarrow> plan list" where
  "prereleases st = filter (\<lambda>p. channel p \<noteq> ''stable'') (plan_list st)"

definition ledger_inv :: "ledger \<Rightarrow> bool" where
  "ledger_inv st \<longleftrightarrow>
     0 \<le> publication_floor st \<and> publication_floor st \<le> counter st
     \<and> distinct (map fst (plans st)) \<and> (\<forall>kr \<in> set (plans st). res_ok (counter st) kr)
     \<and> distinct (map build_int (plan_list st)) \<and> distinct (map version (prereleases st))"

lemma ledger_inv_empty: "ledger_inv empty_ledger"
  by (simp add: ledger_inv_def empty_ledger_def plan_list_def prereleases_def)

lemma next_build_gt:
  "next_build st policy = Inr n \<Longrightarrow> counter st < n"
  by (auto simp: next_build_def rbind_Inr_iff)

lemma int_str_no_dot: "CHR ''.'' \<notin> set (int_str i)"
  using nat_str_digits [of "CHR ''.''"] by (auto simp: int_str_def is_digit_def)

lemma stamp_run_inject:
  assumes "now @ ''.'' @ int_str r @ ''.'' @ int_str a = now' @ ''.'' @ int_str r' @ ''.'' @ int_str a'"
  shows "int_str r = int_str r'"
proof -
  have "rev (int_str a) @ CHR ''.'' # rev (int_str r) @ CHR ''.'' # rev now
      = rev (int_str a') @ CHR ''.'' # rev (int_str r') @ CHR ''.'' # rev now'"
    using arg_cong [OF assms, of rev] by simp
  from split_first [OF _ _ this] int_str_no_dot
  have "rev (int_str r) @ CHR ''.'' # rev now = rev (int_str r') @ CHR ''.'' # rev now'" by simp
  from split_first [OF _ _ this] int_str_no_dot show ?thesis by simp
qed

lemma plan_ok_version:
  "plan_ok p \<Longrightarrow> plan_ok q \<Longrightarrow> version p = version q \<Longrightarrow>
     base_version p = base_version q \<and> channel p = channel q \<and> sequence p = sequence q"
  using identity_of_inject by (auto simp: plan_ok_def)

lemma plan_ok_channel: "plan_ok p \<Longrightarrow> channel p \<in> {''nightly'', ''beta'', ''rc'', ''stable''}"
  by (auto simp: plan_ok_def identity_of_def rbind_Inr_iff CHANNELS_def)

lemma fresh_version:
  assumes inv: "ledger_inv st" and free: "map_of (plans st) (int_str run_id) = None"
    and sq: "sequence_choice st (base_version p) (channel p) run_id (sequence p)"
    and p: "plan_ok p" "channel p \<noteq> ''stable''" and kr: "kr \<in> set (plans st)"
  shows "version p \<noteq> version (res_plan (snd kr))"
proof
  let ?q = "res_plan (snd kr)"
  assume eq: "version p = version ?q"
  have q: "res_ok (counter st) kr" using inv kr by (auto simp: ledger_inv_def)
  have same: "base_version p = base_version ?q" "channel p = channel ?q" "sequence p = sequence ?q"
    using plan_ok_version [OF p(1) _ eq] q by (auto simp: res_ok_def Let_def)
  show False
  proof (cases "channel p = ''nightly''")
    case True
    then obtain now a where "sequence p = SeqStamp (now @ ''.'' @ int_str run_id @ ''.'' @ int_str a)"
      using sq by (auto simp: sequence_choice_def)
    moreover obtain now' a' rid where "sequence ?q = SeqStamp (now' @ ''.'' @ int_str rid @ ''.'' @ int_str a')"
      "fst kr = int_str rid"
      using q True same by (auto simp: res_ok_def Let_def)
    ultimately have "fst kr = int_str run_id"
      using same(3) stamp_run_inject by (metis seq.inject(2))
    with free kr show False by (force simp: map_of_eq_None_iff)
  next
    case False
    then have "channel p \<in> {''beta'', ''rc''}" using plan_ok_channel [OF p(1)] p(2) by auto
    then obtain n where n: "sequence p = SeqNum (int n)"
      "\<forall>m \<in> set (reserved_numbers st (base_version p) (channel p)). m < n"
      using sq by (auto simp: sequence_choice_def)
    have "n \<in> set (reserved_numbers st (base_version p) (channel p))"
      unfolding reserved_numbers_def set_map set_filter
      using kr n(1) same by (intro image_eqI [of _ _ kr]) (auto split: prod.splits)
    with n(2) show False by blast
  qed
qed

lemma add_reservation_inv:
  assumes hex: "\<And>x. fullmatch SHA256_HEX (sha256 L x)" and inv: "ledger_inv st"
    and run: "0 < run_id" "map_of (plans st) (int_str run_id) = None"
    and sq: "sequence_choice st base chan run_id sq" and nb: "next_build st policy = Inr number"
    and p: "create_plan L base chan sq sha policy (Some number) = Inr p"
  shows "ledger_inv (add_reservation st (int_str run_id) p parent number)"
proof -
  have ok: "plan_ok p" "base_version p = base" "channel p = chan" "sequence p = sq" "build_number p = Some number"
    using create_plan_ok [OF p hex] by simp_all
  have gt: "counter st < number" using nb by (rule next_build_gt)
  have old: "res_ok number kr" "build_int (res_plan (snd kr)) < number" if "kr \<in> set (plans st)" for kr
    using inv that gt unfolding ledger_inv_def res_ok_def Let_def build_int_def
    by (fastforce split: option.splits)+
  have floor: "0 \<le> publication_floor st" "publication_floor st \<le> number" "0 < number"
    using inv gt by (auto simp: ledger_inv_def)
  have new: "res_ok number (int_str run_id, \<lparr>res_plan = p, res_parent = Some parent, res_extra = []\<rparr>)"
    using ok run gt floor sq inv by (auto simp: res_ok_def Let_def sequence_choice_def)
  have fresh: "channel p \<noteq> ''stable'' \<Longrightarrow> version p \<notin> version ` set (prereleases st)"
    using fresh_version [OF inv run(2) _ ok(1)] sq ok
    by (fastforce simp: prereleases_def plan_list_def)
  have "distinct (map fst (plans st) @ [int_str run_id])"
    using inv run(2) by (auto simp: ledger_inv_def map_of_eq_None_iff)
  moreover have "distinct (map build_int (plan_list st) @ [build_int p])"
    using inv old(2) ok(5) by (fastforce simp: ledger_inv_def plan_list_def build_int_def)
  ultimately show ?thesis
    using floor old(1) new fresh inv
    by (auto simp: ledger_inv_def add_reservation_def plan_list_def prereleases_def)
qed

lemma raise_floor_inv:
  assumes "ledger_inv st" "(k, r) \<in> set (plans st)" "publication_floor st \<le> build_int (res_plan r)"
  shows "ledger_inv (st\<lparr>publication_floor := build_int (res_plan r)\<rparr>)"
proof -
  have "res_ok (counter st) (k, r)" using assms(1,2) unfolding ledger_inv_def by blast
  then have "0 < build_int (res_plan r) \<and> build_int (res_plan r) \<le> counter st"
    by (auto simp: res_ok_def Let_def build_int_def)
  with assms show ?thesis
    by (auto simp: ledger_inv_def plan_list_def prereleases_def)
qed

lemma ledger_step_inv:
  assumes "\<And>x. fullmatch SHA256_HEX (sha256 L x)" "ledger_step L st st'" "ledger_inv st"
  shows "ledger_inv st'"
  using assms(2,3) by (cases rule: ledger_step.cases)
    (auto intro: add_reservation_inv [OF assms(1)] raise_floor_inv)

section \<open>Normal form\<close>

text \<open>
  JSON is written with sorted keys, so a ledger that is read back has its reservations, and the
  dictionaries inside them, in the order of their keys.
\<close>

definition sort_items :: "jobject \<Rightarrow> jobject" where
  "sort_items d = sort_key fst (sort_keys_items d)"

definition sort_res :: "reservation \<Rightarrow> reservation" where
  "sort_res r = r\<lparr>res_parent := map_option sort_keys (res_parent r), res_extra := sort_items (res_extra r)\<rparr>"

definition sort_entry :: "string \<times> reservation \<Rightarrow> string \<times> reservation" where
  "sort_entry kr = (fst kr, sort_res (snd kr))"

definition reload :: "ledger \<Rightarrow> ledger" where
  "reload st = st\<lparr>plans := sort_key fst (map sort_entry (plans st)), extra := sort_items (extra st)\<rparr>"

lemma sort_res_simps [simp]: "res_plan (sort_res r) = res_plan r"
  by (simp add: sort_res_def)

lemma sort_entry_simps [simp]: "fst (sort_entry kr) = fst kr" "res_plan (snd (sort_entry kr)) = res_plan (snd kr)"
  by (simp_all add: sort_entry_def)

lemma reload_simps [simp]:
  "counter (reload st) = counter st" "publication_floor (reload st) = publication_floor st"
  "set (plans (reload st)) = sort_entry ` set (plans st)"
  by (simp_all add: reload_def)

lemma insort_key_map: "insort_key f (g x) (map g xs) = map g (insort_key (\<lambda>x. f (g x)) x xs)"
  by (induction xs) auto

lemma sort_key_map: "sort_key f (map g xs) = map g (sort_key (\<lambda>x. f (g x)) xs)"
  by (induction xs) (auto simp: insort_key_map)

lemma sort_keys_items_map: "sort_keys_items d = map (\<lambda>kv. (fst kv, sort_keys (snd kv))) d"
  by (induction d) auto

lemma sort_keys_idem [simp]:
  "sort_keys (sort_keys v) = sort_keys v"
  "sort_keys_list (sort_keys_list xs) = sort_keys_list xs"
  "sort_keys_items (sort_keys_items d) = sort_keys_items d"
proof (induction v and xs and d rule: sort_keys_sort_keys_list_sort_keys_items.induct)
  case (2 d)
  then show ?case
    by (simp add: sort_keys_items_map sort_key_map sort_key_id_if_sorted o_def)
qed simp_all

lemma sort_items_idem [simp]: "sort_items (sort_items d) = sort_items d"
  by (simp add: sort_items_def sort_keys_items_map sort_key_map sort_key_id_if_sorted o_def)

lemma sort_entry_idem [simp]: "sort_entry (sort_entry kr) = sort_entry kr"
  by (simp add: sort_entry_def sort_res_def option.map_comp o_def)

lemma reload_mset:
  "mset (map fst (plans (reload st))) = mset (map fst (plans st))"
  "mset (plan_list (reload st)) = mset (plan_list st)"
  by (simp_all add: reload_def plan_list_def image_mset.compositionality comp_def)

lemma res_ok_sort_entry [simp]: "res_ok n (sort_entry kr) = res_ok n kr"
  by (simp add: res_ok_def)

lemma ledger_inv_reload: "ledger_inv st \<Longrightarrow> ledger_inv (reload st)"
proof -
  assume inv: "ledger_inv st"
  have "distinct (map fst (plans (reload st)))"
    using inv reload_mset(1) mset_eq_imp_distinct_iff unfolding ledger_inv_def by blast
  moreover have "distinct (map build_int (plan_list (reload st)))"
    using inv mset_eq_imp_distinct_iff [of "map build_int (plan_list (reload st))" "map build_int (plan_list st)"]
    by (simp add: reload_mset ledger_inv_def)
  moreover have "distinct (map version (prereleases (reload st)))"
    using inv mset_eq_imp_distinct_iff [of "map version (prereleases (reload st))" "map version (prereleases st)"]
    by (simp add: reload_mset ledger_inv_def prereleases_def)
  ultimately show ?thesis
    using inv by (simp add: ledger_inv_def)
qed

text \<open>What no step undoes.\<close>

definition ledger_le :: "ledger \<Rightarrow> ledger \<Rightarrow> bool" where
  "ledger_le st st' \<longleftrightarrow> counter st \<le> counter st' \<and> publication_floor st \<le> publication_floor st'
     \<and> sort_entry ` set (plans st) \<subseteq> sort_entry ` set (plans st')"

lemma ledger_le_refl [simp]: "ledger_le st st"
  by (simp add: ledger_le_def)

lemma ledger_le_trans: "ledger_le a b \<Longrightarrow> ledger_le b c \<Longrightarrow> ledger_le a c"
  by (auto simp: ledger_le_def)

lemma ledger_le_reload: "ledger_le a b \<Longrightarrow> ledger_le a (reload b)"
  by (auto simp: ledger_le_def image_image)

lemma ledger_step_le: "ledger_step L st st' \<Longrightarrow> ledger_le st st'"
  by (cases rule: ledger_step.cases)
     (auto simp: ledger_le_def add_reservation_def dest: next_build_gt)

section \<open>Runners and the remote file\<close>

text \<open>
  The remote blob with its identity, and what each runner has read. GitHub creates the file only
  when it is absent and replaces it only for the blob identity it still has.
\<close>

record 'h system =
  blob :: "(ledger \<times> 'h) option"
  snapshot :: "nat \<Rightarrow> (ledger \<times> 'h option) option"

definition observe :: "(ledger \<times> 'h) option \<Rightarrow> ledger \<times> 'h option" where
  "observe b = (case b of None \<Rightarrow> (empty_ledger, None) | Some (st, sha) \<Rightarrow> (st, Some sha))"

inductive system_step :: "pylib \<Rightarrow> (ledger \<Rightarrow> 'h) \<Rightarrow> 'h system \<Rightarrow> 'h system \<Rightarrow> bool" for L sha_of where
  fetch: "system_step L sha_of s (s\<lparr>snapshot := (snapshot s)(i := Some (observe (blob s)))\<rparr>)"
| store: "snapshot s i = Some (st, previous) \<Longrightarrow> ledger_step L st st' \<Longrightarrow>
    previous = map_option snd (blob s) \<Longrightarrow>
    system_step L sha_of s (s\<lparr>blob := Some (reload st', sha_of (reload st')), snapshot := (snapshot s)(i := None)\<rparr>)"
| conflict: "snapshot s i = Some (st, previous) \<Longrightarrow> previous \<noteq> map_option snd (blob s) \<Longrightarrow>
    system_step L sha_of s (s\<lparr>snapshot := (snapshot s)(i := None)\<rparr>)"

inductive_cases system_stepE: "system_step L sha_of s s'"

definition initial_system :: "'h system" where
  "initial_system = \<lparr>blob = None, snapshot = (\<lambda>_. None)\<rparr>"

definition remote :: "'h system \<Rightarrow> ledger" where
  "remote s = (case blob s of None \<Rightarrow> empty_ledger | Some (st, _) \<Rightarrow> st)"

text \<open>Every blob identity in the system is that of the ledger beside it.\<close>

definition hashes_match :: "(ledger \<Rightarrow> 'h) \<Rightarrow> 'h system \<Rightarrow> bool" where
  "hashes_match sha_of s \<longleftrightarrow>
     (\<forall>st sha. blob s = Some (st, sha) \<longrightarrow> sha = sha_of st)
     \<and> (\<forall>i st. snapshot s i = Some (st, None) \<longrightarrow> st = empty_ledger)
     \<and> (\<forall>i st sha. snapshot s i = Some (st, Some sha) \<longrightarrow> sha = sha_of st)"

lemma hashes_match_step:
  "system_step L sha_of s s' \<Longrightarrow> hashes_match sha_of s \<Longrightarrow> hashes_match sha_of s'"
  by (cases rule: system_step.cases)
     (auto simp: hashes_match_def observe_def split: option.splits prod.splits if_splits)

lemma system_step_refines:
  assumes "inj sha_of" "hashes_match sha_of s" "system_step L sha_of s s'"
  shows "remote s' = remote s \<or> (\<exists>st'. ledger_step L (remote s) st' \<and> remote s' = reload st')"
  using assms(3)
proof (cases rule: system_step.cases)
  case (store i st previous st')
  have "st = remote s"
  proof (cases "blob s")
    case None
    with store assms(2) show ?thesis by (auto simp: hashes_match_def remote_def)
  next
    case (Some b)
    with store assms(2) have "sha_of st = sha_of (fst b)"
      by (cases b) (auto simp: hashes_match_def)
    with assms(1) Some show ?thesis by (auto simp: remote_def inj_eq split: prod.splits)
  qed
  with store show ?thesis by (auto simp: remote_def)
qed (simp_all add: remote_def)

text \<open>One step keeps the invariant and never undoes anything.\<close>

lemma system_step_inv:
  assumes hex: "\<And>x. fullmatch SHA256_HEX (sha256 L x)" and sha: "inj sha_of"
    and step: "system_step L sha_of s s'" and inv: "hashes_match sha_of s" "ledger_inv (remote s)"
  shows "hashes_match sha_of s' \<and> ledger_inv (remote s') \<and> ledger_le (remote s) (remote s')"
proof -
  have "hashes_match sha_of s'" using hashes_match_step [OF step inv(1)] .
  moreover from system_step_refines [OF sha inv(1) step]
  have "ledger_inv (remote s') \<and> ledger_le (remote s) (remote s')"
  proof
    assume "remote s' = remote s"
    with inv show ?thesis by simp
  next
    assume "\<exists>st'. ledger_step L (remote s) st' \<and> remote s' = reload st'"
    then obtain st' where st': "ledger_step L (remote s) st'" "remote s' = reload st'" by blast
    with ledger_step_inv [OF hex st'(1) inv(2)] ledger_step_le [OF st'(1)] show ?thesis
      by (simp add: ledger_inv_reload ledger_le_reload)
  qed
  ultimately show ?thesis by simp
qed

lemma system_steps_inv:
  assumes hex: "\<And>x. fullmatch SHA256_HEX (sha256 L x)" and sha: "inj sha_of"
    and "(system_step L sha_of)\<^sup>*\<^sup>* s s'" "hashes_match sha_of s" "ledger_inv (remote s)"
  shows "hashes_match sha_of s' \<and> ledger_inv (remote s') \<and> ledger_le (remote s) (remote s')"
  using assms(3)
proof (induction rule: rtranclp_induct)
  case base
  then show ?case using assms(4,5) by simp
next
  case (step t u)
  then show ?case using system_step_inv [OF hex sha step(2)] ledger_le_trans by blast
qed

lemma initial_system_inv: "hashes_match sha_of initial_system \<and> ledger_inv (remote initial_system)"
  using ledger_inv_empty by (simp add: hashes_match_def initial_system_def remote_def)

definition normal :: "ledger \<Rightarrow> bool" where
  "normal st \<longleftrightarrow> (\<forall>kr \<in> set (plans st). sort_entry kr = kr)"

lemma normal_simps [simp]: "normal empty_ledger" "normal (reload st)"
  by (auto simp: normal_def empty_ledger_def)

lemma system_normal:
  assumes "(system_step L sha_of)\<^sup>*\<^sup>* initial_system s"
  shows "normal (remote s)"
  using assms
proof (induction rule: rtranclp_induct)
  case base
  then show ?case by (simp add: initial_system_def remote_def)
next
  case (step t u)
  from step(2) step(3) show ?case
    by (cases rule: system_step.cases) (auto simp: remote_def)
qed

lemma ledger_le_normal:
  "ledger_le a b \<Longrightarrow> normal a \<Longrightarrow> normal b \<Longrightarrow> set (plans a) \<subseteq> set (plans b)"
  by (force simp: ledger_le_def normal_def)

text \<open>
  C9: for any number of runners and any interleaving of their reads, writes and rejected writes,
  the ledger on GitHub keeps its invariant: the publication floor stays between 0 and the counter,
  every run has at most one reservation, every reservation holds a valid plan, all build numbers
  are positive, at most the counter and pairwise distinct, and so are all nightly, beta and rc
  versions. Hypotheses: SHA-256 digests have 64 hexadecimal digits and blob identities do not
  collide.
\<close>

theorem ledger_invariant:
  assumes "\<And>x. fullmatch SHA256_HEX (sha256 L x)" and "inj sha_of"
    and "(system_step L sha_of)\<^sup>*\<^sup>* initial_system s"
  shows "ledger_inv (remote s)"
  using system_steps_inv [OF assms] initial_system_inv by blast

text \<open>
  C10: from every reachable system on, no further run of any length lowers the counter or the
  publication floor of the remote ledger, or drops or changes one of its reservations.
\<close>

theorem ledger_monotone:
  assumes hex: "\<And>x. fullmatch SHA256_HEX (sha256 L x)" and sha: "inj sha_of"
    and start: "(system_step L sha_of)\<^sup>*\<^sup>* initial_system s"
    and more: "(system_step L sha_of)\<^sup>*\<^sup>* s s'"
  shows "counter (remote s) \<le> counter (remote s') \<and> publication_floor (remote s) \<le> publication_floor (remote s')
    \<and> set (plans (remote s)) \<subseteq> set (plans (remote s'))"
proof -
  have inv: "hashes_match sha_of s" "ledger_inv (remote s)"
    using system_steps_inv [OF hex sha start] initial_system_inv by blast+
  have le: "ledger_le (remote s) (remote s')"
    using system_steps_inv [OF hex sha more inv] by simp
  have "normal (remote s)" "normal (remote s')"
    using system_normal [OF start] system_normal [OF rtranclp_trans [OF start more]] by simp_all
  with ledger_le_normal [OF le] show ?thesis
    using le by (simp add: ledger_le_def)
qed

text \<open>Run 12 reserves the first beta of 1.2.3, then starts its publication.\<close>

definition demo_first :: plan where
  "demo_first = demo_plan\<lparr>version := ''1.2.3-beta.1'', sequence := SeqNum 1, tag := ''v1.2.3-beta.1'', build_number := Some 1\<rparr>"

definition demo_reserved :: ledger where
  "demo_reserved = add_reservation empty_ledger ''12'' demo_first PNone 1"

definition demo_published :: ledger where
  "demo_published = demo_reserved\<lparr>publication_floor := 1\<rparr>"

lemma demo_first_created:
  "create_plan demo_lib ''1.2.3'' ''beta'' (SeqNum 1) demo_sha demo_policy (Some 1) = Inr demo_first"
  by code_simp

lemma demo_reserve_step: "ledger_step demo_lib empty_ledger demo_reserved"
proof -
  have "int_str 12 = ''12''" by (simp add: int_str_def nat_str.simps)
  moreover have "next_build empty_ledger demo_policy = Inr 1" by code_simp
  moreover have "sequence_choice empty_ledger ''1.2.3'' ''beta'' 12 (SeqNum 1)"
    by (auto simp: sequence_choice_def reserved_numbers_def empty_ledger_def intro!: exI [of _ 1])
  moreover have "map_of (plans empty_ledger) ''12'' = None" by (simp add: empty_ledger_def)
  ultimately show ?thesis
    using ledger_step.reserve [of 12 empty_ledger "''1.2.3''" "''beta''" "SeqNum 1" demo_policy 1 demo_lib
        demo_sha demo_first PNone] demo_first_created by (simp add: demo_reserved_def)
qed

lemma demo_publish_step: "ledger_step demo_lib (reload demo_reserved) (reload demo_published)"
proof -
  let ?r = "\<lparr>res_plan = demo_first, res_parent = Some PNone, res_extra = []\<rparr>"
  have "(''12'', ?r) \<in> set (plans (reload demo_reserved))"
    by (simp add: demo_reserved_def add_reservation_def empty_ledger_def sort_entry_def sort_res_def sort_items_def)
  moreover have "build_int (res_plan ?r) = 1" by (simp add: build_int_def demo_first_def)
  moreover have "publication_floor (reload demo_reserved) = 0"
    by (simp add: demo_reserved_def add_reservation_def empty_ledger_def)
  moreover have "(reload demo_reserved)\<lparr>publication_floor := 1\<rparr> = reload demo_published"
    by (simp add: demo_published_def reload_def)
  ultimately show ?thesis using ledger_step.publish [of "''12''" ?r "reload demo_reserved" demo_lib] by simp
qed

definition system_at :: "ledger \<Rightarrow> ledger system" where
  "system_at st = \<lparr>blob = Some (reload st, reload st), snapshot = (\<lambda>_. None)\<rparr>"

lemma system_write:
  assumes "ledger_step L (remote s) st'" "snapshot s = (\<lambda>_. None)"
    "\<And>st h. blob s = Some (st, h) \<Longrightarrow> h = id st"
  shows "(system_step L id)\<^sup>*\<^sup>* s (system_at st')"
proof -
  let ?t = "s\<lparr>snapshot := (snapshot s)(0 := Some (observe (blob s)))\<rparr>"
  have "system_step L id s ?t" by (rule system_step.fetch)
  moreover have "system_step L id ?t (?t\<lparr>blob := Some (reload st', id (reload st')),
      snapshot := (snapshot ?t)(0 := None)\<rparr>)"
    using assms(1) by (intro system_step.store [of ?t 0 "remote s" "map_option snd (blob s)"])
      (auto simp: observe_def remote_def split: option.splits)
  moreover have "?t\<lparr>blob := Some (reload st', id (reload st')), snapshot := (snapshot ?t)(0 := None)\<rparr> = system_at st'"
    using assms(2) by (auto simp: system_at_def)
  ultimately show ?thesis by (metis r_into_rtranclp rtranclp_trans)
qed

lemma demo_runs:
  "(system_step demo_lib id)\<^sup>*\<^sup>* initial_system (system_at demo_reserved)"
  "(system_step demo_lib id)\<^sup>*\<^sup>* (system_at demo_reserved) (system_at (reload demo_published))"
proof -
  show "(system_step demo_lib id)\<^sup>*\<^sup>* initial_system (system_at demo_reserved)"
    by (rule system_write) (simp_all add: initial_system_def remote_def demo_reserve_step)
  show "(system_step demo_lib id)\<^sup>*\<^sup>* (system_at demo_reserved) (system_at (reload demo_published))"
    by (rule system_write) (simp_all add: system_at_def remote_def demo_publish_step)
qed

theorem ledger_invariant_witness: "ledger_inv (remote (system_at demo_reserved))"
  using demo_lib_hex inj_on_id demo_runs(1) by (rule ledger_invariant)

theorem ledger_monotone_witness:
  "publication_floor (remote (system_at demo_reserved)) = 0 \<and>
   publication_floor (remote (system_at (reload demo_published))) = 1 \<and>
   set (plans (remote (system_at demo_reserved))) \<subseteq> set (plans (remote (system_at (reload demo_published))))"
  using ledger_monotone [OF demo_lib_hex inj_on_id demo_runs]
  by (simp add: remote_def system_at_def demo_reserved_def demo_published_def add_reservation_def empty_ledger_def)

section \<open>The operations take ledger steps\<close>

lemma positive_PInt: "positive (PInt i) = Inr j \<Longrightarrow> j = i \<and> 0 < i"
proof -
  assume "positive (PInt i) = Inr j"
  then have "j = i" and m: "fullmatch positive_numeral (int_str i)"
    by (auto simp: positive_def rbind_Inr_iff split: if_splits)
  have "0 < i"
  proof (cases "0 \<le> i")
    case True
    with m show ?thesis by (simp add: int_str_nonneg positive_numeral_nat_str)
  next
    case False
    with m show ?thesis by (auto simp: int_str_def positive_numeral_iff is_digit_def)
  qed
  with \<open>j = i\<close> show ?thesis by simp
qed

lemma choose_sequence_choice:
  assumes "choose_sequence L gh st base chan run_id attempt now w = (Inr sq, w')"
  shows "sequence_choice st base chan run_id sq"
proof (cases "chan \<in> {''beta'', ''rc''}")
  case True
  with assms obtain n where
    "sq = SeqNum (int (max n (max_default 0 (reserved_numbers st base chan) + 1)))"
    by (auto simp: choose_sequence_def ibind_Inr_iff)
  moreover have "m < max n (max_default 0 (reserved_numbers st base chan) + 1)"
    if "m \<in> set (reserved_numbers st base chan)" for m
    using max_default_ge [OF that, of 0] by simp
  ultimately show ?thesis
    using True unfolding sequence_choice_def by auto
next
  case False
  with assms show ?thesis
    by (auto simp: choose_sequence_def sequence_choice_def split: if_splits)
qed

lemma map_of_add_reservation:
  "map_of (plans st) k = None \<Longrightarrow>
     map_of (plans (add_reservation st k p parent n)) k = Some \<lparr>res_plan = p, res_parent = Some parent, res_extra = []\<rparr>"
  by (simp add: add_reservation_def map_add_def)

lemma allocate_plan_step:
  assumes run: "allocate_plan L gh st policy base chan sha run_id attempt now parent w = (Inr (p, st'), w')"
    and "0 < run_id" and new: "map_of (plans st) (int_str run_id) = None"
  shows "ledger_step L st st'"
    and "map_of (plans st') (int_str run_id) = Some \<lparr>res_plan = p, res_parent = Some parent, res_extra = []\<rparr>"
    and "base_version p = base" "channel p = chan" "source_sha p = sha"
    and "build_number p = Some (counter st')" "counter st < counter st'"
proof -
  obtain sq number w1 where a: "choose_sequence L gh st base chan run_id attempt now w = (Inr sq, w1)"
    "next_build st policy = Inr number" "create_plan L base chan sq sha policy (Some number) = Inr p"
    "st' = add_reservation st (int_str run_id) p parent number"
    using run by (auto simp: allocate_plan_def ibind_Inr_iff)
  show "ledger_step L st st'"
    unfolding a(4) by (rule ledger_step.reserve [OF assms(2,3) choose_sequence_choice [OF a(1)] a(2,3)])
  show "map_of (plans st') (int_str run_id) = Some \<lparr>res_plan = p, res_parent = Some parent, res_extra = []\<rparr>"
    unfolding a(4) by (rule map_of_add_reservation [OF new])
  show "base_version p = base" "channel p = chan" "source_sha p = sha" "build_number p = Some (counter st')"
    using a(3) unfolding a(4) by (auto simp: create_plan_def rbind_Inr_iff Let_def add_reservation_def)
  show "counter st < counter st'"
    using next_build_gt [OF a(2)] unfolding a(4) by (simp add: add_reservation_def)
qed

lemma retry_plan_same:
  "retry_plan L r policy base chan sha parent = Inr p \<Longrightarrow>
     p = res_plan r \<and> base_version p = base \<and> channel p = chan \<and> source_sha p = sha
     \<and> policy_digest L policy = Inr (policy_sha256 p) \<and> py_eq (parent_of r) parent"
  by (auto simp: retry_plan_def validate_plan_def validate_plan_fields_json check_plan_policy_def
      rbind_Inr_iff)

text \<open>
  C11: when \<open>reserve_plan\<close> returns a plan, it read some ledger; if that ledger already held a
  reservation of this run, the stored plan is returned, it agrees with the base, channel, source
  commit, policy and parent of the call, and nothing else was requested or written; otherwise the
  ledger it wrote back, under the blob SHA it had read, is one ledger step further and binds this run
  to the returned plan with a build number above the old counter.
\<close>

theorem reserve_plan_effect:
  assumes "reserve_plan L gh policy base chan sha run_id attempt now parent w = (Inr p, w')"
  shows "\<exists>st previous w1. read_state L gh w = (Inr (st, previous), w1) \<and>
    base_version p = base \<and> channel p = chan \<and> source_sha p = sha \<and>
    (case map_of (plans st) (int_str run_id) of
       Some r \<Rightarrow> w' = w1 \<and> p = res_plan r \<and> policy_digest L policy = Inr (policy_sha256 p)
         \<and> py_eq (parent_of r) parent
     | None \<Rightarrow> \<exists>st' w2. ledger_step L st st' \<and> write_state L gh st' previous w2 = (Inr (), w')
         \<and> map_of (plans st') (int_str run_id) = Some \<lparr>res_plan = p, res_parent = Some parent, res_extra = []\<rparr>
         \<and> build_number p = Some (counter st') \<and> counter st < counter st')"
proof -
  obtain rid st previous w1 where r: "positive (PInt run_id) = Inr rid"
    "read_state L gh w = (Inr (st, previous), w1)"
    "(case map_of (plans st) (int_str rid) of
       Some r \<Rightarrow> ilift (retry_plan L r policy base chan sha parent)
     | None \<Rightarrow> ibind (allocate_plan L gh st policy base chan sha run_id attempt now parent)
         (\<lambda>(p, st'). ibind (write_state L gh st' previous) (\<lambda>_. ireturn p))) w1 = (Inr p, w')"
    using assms by (auto simp: reserve_plan_def ibind_Inr_iff)
  have rid: "rid = run_id" "0 < run_id" using positive_PInt [OF r(1)] by simp_all
  show ?thesis
  proof (cases "map_of (plans st) (int_str run_id)")
    case None
    with r(3) rid obtain st' w2 where
      a: "allocate_plan L gh st policy base chan sha run_id attempt now parent w1 = (Inr (p, st'), w2)"
      "write_state L gh st' previous w2 = (Inr (), w')"
      by (auto simp: ibind_Inr_iff)
    note s = allocate_plan_step [OF a(1) rid(2) None]
    have "\<exists>st' w2. ledger_step L st st' \<and> write_state L gh st' previous w2 = (Inr (), w')
         \<and> map_of (plans st') (int_str run_id) = Some \<lparr>res_plan = p, res_parent = Some parent, res_extra = []\<rparr>
         \<and> build_number p = Some (counter st') \<and> counter st < counter st'"
      using s(1,2,6,7) a(2) by blast
    with None r(2) s(3-5) show ?thesis
      by (intro exI [of _ st] exI [of _ previous] exI [of _ w1]) simp
  next
    case (Some r')
    with r(3) rid have "retry_plan L r' policy base chan sha parent = Inr p" "w' = w1" by simp_all
    with Some r(2) retry_plan_same show ?thesis
      by (intro exI [of _ st] exI [of _ previous] exI [of _ w1]) simp
  qed
qed

lemma check_reservation_held:
  assumes "check_reservation L gh st plan_value run_id parent w = (Inr p, w')"
  shows "validate_plan L plan_value None None = Inr p"
    and "\<exists>r. (int_str run_id, r) \<in> set (plans st) \<and> res_plan r = p"
    and "build_number p = Some (build_int p)" "publication_floor st < build_int p"
proof -
  obtain rid b where c: "validate_plan L plan_value None None = Inr p" "positive (PInt run_id) = Inr rid"
    "case map_of (plans st) (int_str rid) of Some r \<Rightarrow> same_reservation r p parent | None \<Rightarrow> False"
    "build_of p = Inr b" "publication_floor st < b"
    using assms by (auto simp: check_reservation_def ibind_Inr_iff)
  then show "validate_plan L plan_value None None = Inr p" by simp
  have "rid = run_id" using positive_PInt [OF c(2)] by simp
  with c(3) show "\<exists>r. (int_str run_id, r) \<in> set (plans st) \<and> res_plan r = p"
    by (auto simp: same_reservation_def split: option.splits dest: map_of_SomeD)
  show "build_number p = Some (build_int p)" "publication_floor st < build_int p"
    using c(4,5) by (auto simp: build_of_def build_int_def split: option.splits)
qed

lemma check_promotion_held:
  assumes "check_promotion_order L gh st plan_value w = (Inr p, w')"
  shows "validate_plan L plan_value None None = Inr p"
    and "\<exists>k r. (k, r) \<in> set (plans st) \<and> res_plan r = p"
    and "channel p = ''rc''" "promotion p = ''promote-bytes''"
    and "build_number p = Some (build_int p)" "publication_floor st \<le> build_int p"
proof -
  obtain b where c: "validate_plan L plan_value None None = Inr p" "channel p = ''rc''" "promotion p = ''promote-bytes''"
    "length (filter (\<lambda>(k, r). res_plan r = p) (plans st)) = 1" "build_of p = Inr b" "publication_floor st \<le> b"
    using assms by (auto simp: check_promotion_order_def ibind_Inr_iff)
  then show "validate_plan L plan_value None None = Inr p" "channel p = ''rc''" "promotion p = ''promote-bytes''" by simp_all
  have "filter (\<lambda>(k, r). res_plan r = p) (plans st) \<noteq> []" using c(4) by auto
  then show "\<exists>k r. (k, r) \<in> set (plans st) \<and> res_plan r = p"
    by (auto simp: filter_empty_conv)
  show "build_number p = Some (build_int p)" "publication_floor st \<le> build_int p"
    using c(5,6) by (auto simp: build_of_def build_int_def split: option.splits)
qed

text \<open>
  C12: when \<open>begin_publication\<close> succeeds, it read a ledger that held a reservation of exactly this
  plan and wrote back, under the SHA it had read, the same ledger with the publication floor raised
  to the plan's build number, one ledger step further. The number was above the floor, or, for a
  byte promotion of an rc, not below it. The bytes returned are those of the ledger written.
\<close>

theorem begin_publication_effect:
  assumes "begin_publication L gh plan_value run_id parent flag w = (Inr bytes, w')"
  shows "\<exists>st previous w1 p b w2. read_state L gh w = (Inr (st, previous), w1) \<and>
    validate_plan L plan_value None None = Inr p \<and> build_number p = Some b \<and>
    (flag = PBool True \<and> channel p = ''rc'' \<and> promotion p = ''promote-bytes'' \<and> publication_floor st \<le> b
     \<or> flag = PBool False \<and> publication_floor st < b \<and> (\<exists>r. (int_str run_id, r) \<in> set (plans st) \<and> res_plan r = p)) \<and>
    ledger_step L st (st\<lparr>publication_floor := b\<rparr>) \<and>
    write_state L gh (st\<lparr>publication_floor := b\<rparr>) previous w2 = (Inr (), w') \<and>
    bytes = rc_json_bytes L (ledger_json (st\<lparr>publication_floor := b\<rparr>))"
proof -
  obtain st previous w1 p w2 where r: "read_state L gh w = (Inr (st, previous), w1)"
    and c: "(if flag = PBool True then check_promotion_order L gh st plan_value
         else check_reservation L gh st plan_value run_id parent) w1 = (Inr p, w2)"
    and f: "flag = PBool True \<or> flag = PBool False"
    and wr: "write_state L gh (st\<lparr>publication_floor := build_int p\<rparr>) previous w2 = (Inr (), w')"
      "bytes = rc_json_bytes L (ledger_json (st\<lparr>publication_floor := build_int p\<rparr>))"
    using assms by (auto simp: begin_publication_def ibind_Inr_iff Let_def)
  show ?thesis
  proof (cases "flag = PBool True")
    case True
    with c have "check_promotion_order L gh st plan_value w1 = (Inr p, w2)" by simp
    note h = check_promotion_held [OF this]
    from h(2) obtain k s where "(k, s) \<in> set (plans st)" "res_plan s = p" by blast
    with h have "ledger_step L st (st\<lparr>publication_floor := build_int p\<rparr>)"
      using ledger_step.promote [of k s st L] by simp
    with h True r wr show ?thesis by blast
  next
    case False
    with c have "check_reservation L gh st plan_value run_id parent w1 = (Inr p, w2)" by simp
    note h = check_reservation_held [OF this]
    from h(2) obtain s where "(int_str run_id, s) \<in> set (plans st)" "res_plan s = p" by blast
    with h have "ledger_step L st (st\<lparr>publication_floor := build_int p\<rparr>)"
      using ledger_step.publish [of "int_str run_id" s st L] by simp
    with h False f r wr show ?thesis by blast
  qed
qed

end
