(* ===== verification/LedgerCodec.thy ===== *)
theory LedgerCodec
  imports LedgerProps
begin

text \<open>
  The bytes of the ledger. What \<open>write_state\<close> sends through GitHub's contents API is exactly what
  \<open>read_state\<close> accepts and turns back into the same ledger, in normal form.
\<close>

section \<open>Dictionaries under sorting\<close>

lemma map_of_sort_key: "distinct (map fst d) \<Longrightarrow> map_of (sort_key fst d) = map_of d"
  by (simp add: map_of_inject_set)

lemma map_of_sort_keys_items: "map_of (sort_keys_items d) k = map_option sort_keys (map_of d k)"
  by (induction d) auto

lemma map_of_sort_items: "distinct (map fst d) \<Longrightarrow> map_of (sort_items d) k = map_option sort_keys (map_of d k)"
  by (simp add: sort_items_def map_of_sort_key map_of_sort_keys_items)

lemma dget_sort_items:
  "distinct (map fst d) \<Longrightarrow> map_of d k = Some v \<Longrightarrow> dget (sort_items d) k w = sort_keys v"
  by (simp add: dget_def map_of_sort_items)

lemma filter_sort_items: "filter (\<lambda>(k, v). P k) (sort_items d) = sort_items (filter (\<lambda>(k, v). P k) d)"
proof -
  have "filter (\<lambda>(k, v). P k) (sort_keys_items d) = sort_keys_items (filter (\<lambda>(k, v). P k) d)"
    by (induction d) auto
  then show ?thesis by (simp add: sort_items_def filter_sort)
qed

lemma sort_keys_PDict: "sort_keys (PDict d) = PDict (sort_items d)"
  by (simp add: sort_items_def)

lemma validate_plan_fields_cong:
  assumes "map_of d = map_of e"
  shows "validate_plan_fields (PDict d) = validate_plan_fields (PDict e)"
proof -
  have "dget d k v = dget e k v" for k v using assms by (simp add: dget_def)
  moreover have "fst ` set d = fst ` set e"
    using assms by (metis dom_map_of_conv_image_fst)
  ultimately show ?thesis by (simp add: validate_plan_fields_def dict_of_def plan_of_def)
qed

lemma plan_items_distinct: "distinct (map fst (plan_items p))"
  by (simp add: plan_items_def)

lemma plan_scalars: "sort_keys_items (plan_items p) = plan_items p"
  by (cases "sequence p"; cases "build_number p") (simp_all add: plan_items_def build_val_def)

lemma validate_sorted_plan: "plan_ok p \<Longrightarrow> validate_plan_fields (sort_keys (plan_json p)) = Inr p"
proof -
  assume ok: "plan_ok p"
  have "map_of (sort_items (plan_items p)) = map_of (plan_items p)"
    by (simp add: sort_items_def plan_scalars map_of_sort_key plan_items_distinct)
  from validate_plan_fields_cong [OF this] show ?thesis
    using ok validate_plan_fields_json [of p p] by (simp add: plan_json_def sort_keys_PDict del: sort_keys.simps)
qed

section \<open>Reservations\<close>

definition storable :: "int \<Rightarrow> string \<times> reservation \<Rightarrow> bool" where
  "storable c kr \<longleftrightarrow>
     (\<exists>n. positive (PStr (fst kr)) = Inr n) \<and> plan_ok (res_plan (snd kr))
     \<and> (\<exists>b. build_number (res_plan (snd kr)) = Some b \<and> b \<le> c)
     \<and> ''parent'' \<notin> fst ` set (res_extra (snd kr))"

definition res_items :: "reservation \<Rightarrow> jobject" where
  "res_items r = (''plan'', plan_json (res_plan r))
     # (case res_parent r of None \<Rightarrow> [] | Some v \<Rightarrow> [(''parent'', v)]) @ res_extra r"

lemma reservation_json_items: "reservation_json r = PDict (res_items r)"
  by (simp add: reservation_json_def res_items_def)

lemma filter_none: "(\<And>k v. (k, v) \<in> set d \<Longrightarrow> P k) \<Longrightarrow> filter (\<lambda>(k, v). P k) d = d"
  by (auto intro: filter_True)

lemma res_items_facts:
  assumes "distinct (map fst (res_items r))" "''parent'' \<notin> fst ` set (res_extra r)"
  shows "map_of (res_items r) ''plan'' = Some (plan_json (res_plan r))"
    and "map_of (res_items r) ''parent'' = res_parent r"
    and "filter (\<lambda>(k, v). k \<notin> {''plan'', ''parent''}) (res_items r) = res_extra r"
proof -
  show "map_of (res_items r) ''plan'' = Some (plan_json (res_plan r))" by (simp add: res_items_def)
  have "map_of (res_extra r) ''parent'' = None" using assms(2) by (simp add: map_of_eq_None_iff)
  then show "map_of (res_items r) ''parent'' = res_parent r"
    by (cases "res_parent r") (simp_all add: res_items_def)
  have "filter (\<lambda>(k, v). k \<notin> {''plan'', ''parent''}) (res_extra r) = res_extra r"
  proof (rule filter_none)
    fix k v
    assume "(k, v) \<in> set (res_extra r)"
    then have "k \<in> fst ` set (res_extra r)" by (rule rev_image_eqI) simp
    moreover have "''plan'' \<notin> fst ` set (res_extra r)" using assms(1) by (simp add: res_items_def)
    ultimately show "k \<notin> {''plan'', ''parent''}" using assms(2) by (metis empty_iff insert_iff)
  qed
  then show "filter (\<lambda>(k, v). k \<notin> {''plan'', ''parent''}) (res_items r) = res_extra r"
    by (cases "res_parent r") (simp_all add: res_items_def)
qed

lemma read_reservation_sorted:
  assumes "storable c (k, r)" "distinct (map fst (res_items r))"
  shows "read_reservation c (k, sort_keys (reservation_json r)) = Inr (sort_entry (k, r))"
proof -
  let ?d = "sort_items (res_items r)"
  obtain n b where n: "positive (PStr k) = Inr n" and ok: "plan_ok (res_plan r)"
    and b: "build_number (res_plan r) = Some b" "b \<le> c" and x: "''parent'' \<notin> fst ` set (res_extra r)"
    using assms(1) by (auto simp: storable_def)
  note f = res_items_facts [OF assms(2) x]
  have "dget ?d ''plan'' PNone = sort_keys (plan_json (res_plan r))"
    using f(1) assms(2) by (rule dget_sort_items [rotated])
  moreover have "map_of ?d ''parent'' = map_option sort_keys (res_parent r)"
    using map_of_sort_items [OF assms(2)] f(2) by simp
  moreover have "filter (\<lambda>(k, v). k \<notin> {''plan'', ''parent''}) ?d = sort_items (res_extra r)"
    using filter_sort_items [of "\<lambda>k. k \<notin> {''plan'', ''parent''}"] f(3) by simp
  ultimately show ?thesis
    using n b validate_sorted_plan [OF ok]
    by (simp add: read_reservation_def reservation_json_items sort_keys_PDict sort_entry_def sort_res_def
        Let_def del: sort_keys.simps)
qed

section \<open>The ledger\<close>

definition ledger_items :: "ledger \<Rightarrow> jobject" where
  "ledger_items st =
     [(''schema'', PInt 1), (''counter'', PInt (counter st)),
      (''publication_floor'', PInt (publication_floor st)),
      (''plans'', PDict (map (\<lambda>(k, r). (k, reservation_json r)) (plans st)))] @ extra st"

lemma ledger_json_items: "ledger_json st = PDict (ledger_items st)"
  by (simp add: ledger_json_def ledger_items_def)

definition ledger_keys :: "string list" where
  "ledger_keys = [''schema'', ''counter'', ''publication_floor'', ''plans'']"

lemma ledger_items_extra:
  assumes "distinct (map fst (ledger_items st))"
  shows "filter (\<lambda>(k, v). k \<notin> set ledger_keys) (ledger_items st) = extra st"
proof -
  have d: "set ledger_keys \<inter> fst ` set (extra st) = {}"
    using assms by (auto simp: ledger_items_def ledger_keys_def)
  have "filter (\<lambda>(k, v). k \<notin> set ledger_keys) (extra st) = extra st"
  proof (rule filter_none)
    fix k v
    assume "(k, v) \<in> set (extra st)"
    then have "k \<in> fst ` set (extra st)" by (rule rev_image_eqI) simp
    with d show "k \<notin> set ledger_keys" by blast
  qed
  then show ?thesis by (simp add: ledger_items_def ledger_keys_def)
qed

lemma sort_items_map:
  "sort_items (map (\<lambda>(k, r). (k, f r)) xs) = map (\<lambda>(k, r). (k, sort_keys (f r))) (sort_key fst xs)"
proof -
  have "sort_keys_items (map (\<lambda>(k, r). (k, f r)) xs) = map (\<lambda>(k, r). (k, sort_keys (f r))) xs"
    by (induction xs) auto
  then show ?thesis by (simp add: sort_items_def sort_key_map case_prod_beta)
qed

lemma reload_plans: "plans (reload st) = map sort_entry (sort_key fst (plans st))"
  by (simp add: reload_def sort_key_map)

lemma rmap_map: "rmap f (map g xs) = rmap (\<lambda>x. f (g x)) xs"
  by (induction xs) auto

lemma clean_reservation_distinct:
  assumes "clean (PDict (map (\<lambda>(k, r). (k, reservation_json r)) ps))" "(k, r) \<in> set ps"
  shows "distinct (map fst (res_items r))"
proof -
  have "clean_items (map (\<lambda>(k, r). (k, reservation_json r)) ps)" using assms(1) by simp
  then have "clean (reservation_json r)" using assms(2) by (force simp: clean_items_iff)
  then show ?thesis by (simp add: reservation_json_items)
qed

lemma parse_sorted_ledger:
  assumes clean: "clean (ledger_json st)" and ok: "\<And>kr. kr \<in> set (plans st) \<Longrightarrow> storable (counter st) kr"
    and bounds: "0 \<le> publication_floor st" "publication_floor st \<le> counter st"
  shows "parse_ledger (sort_keys (ledger_json st)) = Inr (reload st)"
proof -
  let ?d = "sort_items (ledger_items st)" and ?ps = "map (\<lambda>(k, r). (k, reservation_json r)) (plans st)"
  have dist: "distinct (map fst (ledger_items st))"
    using clean by (simp add: ledger_json_items)
  have cp: "clean (PDict ?ps)" using clean by (simp add: ledger_json_def)
  have get: "dget ?d k PNone = sort_keys v" if "map_of (ledger_items st) k = Some v" for k v
    using dist that by (rule dget_sort_items)
  have g: "dget ?d ''schema'' PNone = PInt 1" "dget ?d ''counter'' PNone = PInt (counter st)"
    "dget ?d ''publication_floor'' PNone = PInt (publication_floor st)"
    "dget ?d ''plans'' PNone = PDict (sort_items ?ps)"
    by (subst get, simp add: ledger_items_def, simp add: sort_keys_PDict del: sort_keys.simps(2))+
  have "rmap (read_reservation (counter st)) (sort_items ?ps) = Inr (map sort_entry (sort_key fst (plans st)))"
    unfolding sort_items_map rmap_map
  proof (rule rmap_Inr_map)
    fix kr
    assume "kr \<in> set (sort_key fst (plans st))"
    then have kr: "kr \<in> set (plans st)" by simp
    obtain k r where "kr = (k, r)" by fastforce
    with read_reservation_sorted [of "counter st" k r] ok [OF kr] clean_reservation_distinct [OF cp, of k r] kr
    show "read_reservation (counter st) (case kr of (k, r) \<Rightarrow> (k, sort_keys (reservation_json r))) = Inr (sort_entry kr)"
      by simp
  qed
  moreover have "filter (\<lambda>(k, v). k \<notin> {''schema'', ''counter'', ''publication_floor'', ''plans''}) ?d = sort_items (extra st)"
    using filter_sort_items [of "\<lambda>k. k \<notin> set ledger_keys" "ledger_items st"] ledger_items_extra [OF dist]
    by (simp add: ledger_keys_def)
  ultimately have "parse_ledger (PDict ?d) = Inr (st\<lparr>plans := map sort_entry (sort_key fst (plans st)), extra := sort_items (extra st)\<rparr>)"
    using g bounds by (simp add: parse_ledger_def int_at_least_def as_int_def)
  then show ?thesis
    by (simp add: ledger_json_items sort_keys_PDict reload_def sort_key_map del: sort_keys.simps(2))
qed

text \<open>The contents response that GitHub gives for a blob.\<close>

definition content_response :: "string \<Rightarrow> string \<Rightarrow> pyval" where
  "content_response text sha =
     PDict [(''type'', PStr ''file''), (''encoding'', PStr ''base64''), (''content'', PStr text), (''sha'', PStr sha)]"

lemma b64_char_not_space: "n < 64 \<Longrightarrow> \<not> is_space (b64_char n)"
  by (auto simp: b64_char_def is_space_def)

lemma b64encode_no_space: "c \<in> set (b64encode s) \<Longrightarrow> \<not> is_space c"
proof (induction s rule: b64encode.induct)
  case (2 a)
  have "(of_char a :: nat) div 4 < 64" "(of_char a :: nat) mod 4 * 16 < 64"
    using byte_bound [of a] by linarith+
  with 2 show ?case by (auto simp: Let_def b64_char_not_space) (simp add: is_space_def)
next
  case (3 a b)
  have "(of_char a :: nat) div 4 < 64" "(of_char a :: nat) mod 4 * 16 + of_char b div 16 < 64"
    "(of_char b :: nat) mod 16 * 4 < 64"
    using byte_bound [of a] byte_bound [of b] by linarith+
  with 3 show ?case by (auto simp: Let_def b64_char_not_space) (simp add: is_space_def)
next
  case (4 a b c' r)
  have "(of_char a :: nat) div 4 < 64" "(of_char a :: nat) mod 4 * 16 + of_char b div 16 < 64"
    "(of_char b :: nat) mod 16 * 4 + of_char c' div 64 < 64" "(of_char c' :: nat) mod 64 < 64"
    using byte_bound [of a] byte_bound [of b] byte_bound [of c'] by linarith+
  with 4 show ?case by (auto simp: Let_def b64_char_not_space)
qed simp

lemma decode_written:
  assumes "clean (ledger_json st)" and "\<And>kr. kr \<in> set (plans st) \<Longrightarrow> storable (counter st) kr"
    and "0 \<le> publication_floor st" "publication_floor st \<le> counter st"
    and "length (rc_json_bytes L (ledger_json st)) \<le> 4000000" and "fullmatch SHA sha"
    and "map_of (write_body L st previous) ''content'' = Some (PStr text)"
  shows "decode_content L (content_response text sha) = Inr (reload st, sha)"
proof -
  let ?raw = "rc_json_bytes L (ledger_json st)"
  have t: "text = b64encode ?raw" using assms(7) by (simp add: write_body_def)
  have "filter (\<lambda>x. \<not> is_space x) text = text"
    unfolding t using b64encode_no_space by (simp add: filter_id_conv)
  then have "b64decode (filter (\<lambda>x. \<not> is_space x) text) = Inr ?raw"
    using b64_roundtrip t by simp
  moreover have "parse_json L ?raw = Inr (sort_keys (ledger_json st))"
    using parse_json_dump [OF assms(1)] .
  moreover have "parse_ledger (sort_keys (ledger_json st)) = Inr (reload st)"
    using parse_sorted_ledger [OF assms(1-4)] .
  ultimately show ?thesis
    using assms(5,6) by (simp add: decode_content_def content_response_def dget_def ditem_def)
qed

text \<open>
  C13: for a ledger whose reservations hold valid plans with build numbers up to the counter and
  that fits GitHub's size limit, the \<open>content\<close> that \<open>write_state\<close> sends, returned by GitHub under any
  well-formed blob SHA, is accepted by \<open>read_state\<close> and decodes to the same ledger in normal form.
\<close>

theorem ledger_roundtrip:
  assumes "clean (ledger_json st)" and "\<And>kr. kr \<in> set (plans st) \<Longrightarrow> storable (counter st) kr"
    and "0 \<le> publication_floor st" "publication_floor st \<le> counter st"
    and "length (rc_json_bytes L (ledger_json st)) \<le> 4000000" and "fullmatch SHA sha"
    and "map_of (write_body L st previous) ''content'' = Some (PStr text)"
  shows "decode_content L (content_response text sha) = Inr (reload st, sha)"
  using assms by (rule decode_written)

section \<open>A server in memory\<close>

text \<open>The world is the stored content; every blob has the same SHA here.\<close>

definition demo_server :: "string option client" where
  "demo_server = \<lparr>repo = ''o/r'', request = (\<lambda>path method body mode w.
     if method = ''PUT'' then
       (Inr [], case body of None \<Rightarrow> w
          | Some b \<Rightarrow> (case map_of b ''content'' of Some (PStr t) \<Rightarrow> Some t | _ \<Rightarrow> w))
     else if method = ''POST'' then (Inr [], w)
     else if path = ''tags'' \<or> path = ''releases'' then (Inr ''[[]]'', w)
     else if path = REF_PATH \<and> w \<noteq> None then (Inr ''{}'', w)
     else if path = READ_PATH \<and> w \<noteq> None
     then (Inr (rc_json_bytes demo_lib (content_response (the w) demo_sha)), w)
     else (Inl (GitHubError [] True), w))\<rparr>"

definition demo_text :: "ledger \<Rightarrow> string" where
  "demo_text st = b64encode (rc_json_bytes demo_lib (ledger_json st))"

lemma demo_reserved_clean: "clean (ledger_json demo_reserved)" by code_simp

lemma demo_reserved_size: "length (rc_json_bytes demo_lib (ledger_json demo_reserved)) \<le> 4000000"
proof -
  have "length (rc_json_bytes demo_lib (ledger_json demo_reserved)) \<le> 1000" by code_simp
  then show ?thesis by simp
qed

lemma demo_first_ok: "plan_ok demo_first"
  using create_plan_ok [OF demo_first_created demo_lib_hex] by simp

lemma demo_reserved_storable: "kr \<in> set (plans demo_reserved) \<Longrightarrow> storable (counter demo_reserved) kr"
proof -
  have "positive (PStr ''12'') = Inr 12" by code_simp
  moreover have "build_number demo_first = Some 1" by (simp add: demo_first_def)
  moreover assume "kr \<in> set (plans demo_reserved)"
  ultimately show ?thesis
    using demo_first_ok by (auto simp: storable_def demo_reserved_def add_reservation_def empty_ledger_def)
qed

lemma demo_sha_ok: "fullmatch SHA demo_sha" by code_simp

lemmas demo_reserved_facts = demo_reserved_clean demo_reserved_storable

lemma demo_reserved_floor: "0 \<le> publication_floor demo_reserved" "publication_floor demo_reserved \<le> counter demo_reserved"
  by (simp_all add: demo_reserved_def add_reservation_def empty_ledger_def)

theorem ledger_roundtrip_witness:
  "decode_content demo_lib (content_response (demo_text demo_reserved) demo_sha) = Inr (reload demo_reserved, demo_sha)"
  by (rule ledger_roundtrip [OF demo_reserved_facts demo_reserved_floor demo_reserved_size demo_sha_ok, of None])
     (simp_all add: write_body_def demo_text_def)

lemma decode_content_sorted:
  "decode_content L (sort_keys (content_response t sha)) = decode_content L (content_response t sha)"
proof -
  have "sort_keys (content_response t sha) =
      PDict [(''content'', PStr t), (''encoding'', PStr ''base64''), (''sha'', PStr sha), (''type'', PStr ''file'')]"
    by (simp add: content_response_def)
  then show ?thesis by (simp add: decode_content_def content_response_def dget_def ditem_def)
qed

lemma b64encode_ascii: "ascii (b64encode s)"
proof -
  have c: "(of_char (b64_char n) :: nat) < 128" for n
    by (auto simp: b64_char_def)
  show ?thesis
    by (induction s rule: b64encode.induct) (simp_all add: Let_def c)
qed

lemma strip_by_nonempty:
  assumes "c \<in> set s" "\<not> p c"
  shows "strip_by p s \<noteq> []"
proof -
  obtain d r where d: "dropWhile p s = d # r"
    using assms by (cases "dropWhile p s") (auto simp: dropWhile_eq_Nil_conv)
  then have "\<not> p d" using hd_dropWhile [of p s] by simp
  then show ?thesis
    by (auto simp: strip_by_def rstrip_by_def lstrip_by_def d dropWhile_eq_Nil_conv)
qed

lemma demo_read: "read_state demo_lib demo_server (Some (demo_text demo_reserved)) =
   (Inr (reload demo_reserved, Some demo_sha), Some (demo_text demo_reserved))"
proof -
  let ?c = "content_response (demo_text demo_reserved) demo_sha"
  have "clean ?c"
    using b64encode_ascii by (simp add: content_response_def demo_text_def demo_sha_def ascii_def)
  then have p: "parse_json demo_lib (rc_json_bytes demo_lib ?c) = Inr (sort_keys ?c)" by (rule parse_json_dump)
  have "CHR ''{'' \<in> set (rc_json_bytes demo_lib ?c)"
    by (simp add: rc_json_bytes_def content_response_def)
  then have "strip_by byte_space (rc_json_bytes demo_lib ?c) \<noteq> []"
    by (rule strip_by_nonempty) (simp add: byte_space_def)
  with p have "optional demo_lib demo_server READ_PATH (Some (demo_text demo_reserved)) = (Inr (sort_keys ?c), Some (demo_text demo_reserved))"
    by (simp add: optional_def api_def demo_server_def ibind_def READ_PATH_def REF_PATH_def)
  moreover have "decode_content demo_lib (sort_keys ?c) = Inr (reload demo_reserved, demo_sha)"
    unfolding decode_content_sorted
    by (rule decode_written [OF demo_reserved_facts demo_reserved_floor demo_reserved_size demo_sha_ok, of None])
       (simp_all add: write_body_def demo_text_def)
  ultimately show ?thesis
    by (simp add: read_state_def ibind_def content_response_def)
qed

lemma demo_write: "write_state demo_lib demo_server st previous w = (Inr (), Some (demo_text st))"
  by (simp add: write_state_def api_def demo_server_def write_body_def ibind_def demo_text_def
      strip_by_def rstrip_by_def lstrip_by_def)

lemma demo_reserve:
  "reserve_plan demo_lib demo_server demo_policy ''1.2.3'' ''beta'' demo_sha 12 1 ''20240101000000'' PNone None
     = (Inr demo_first, Some (demo_text demo_reserved))"
proof -
  have "read_state demo_lib demo_server None = (Inr (empty_ledger, None), None)" by code_simp
  moreover have "allocate_plan demo_lib demo_server empty_ledger demo_policy ''1.2.3'' ''beta'' demo_sha 12 1
      ''20240101000000'' PNone None = (Inr (demo_first, demo_reserved), None)" by code_simp
  moreover have "positive (PInt 12) = Inr 12" by code_simp
  ultimately show ?thesis
    using demo_write by (simp add: reserve_plan_def ibind_def empty_ledger_def)
qed

theorem reserve_plan_effect_witness:
  "\<exists>st'. ledger_step demo_lib empty_ledger st' \<and> build_number demo_first = Some (counter st')"
proof -
  have r: "read_state demo_lib demo_server None = (Inr (empty_ledger, None), None)" by code_simp
  have "map_of (plans empty_ledger) (int_str 12) = None" by (simp add: empty_ledger_def)
  with reserve_plan_effect [OF demo_reserve] show ?thesis unfolding r by auto
qed

lemma demo_check: "check_reservation demo_lib demo_server (reload demo_reserved) (plan_json demo_first) 12 PNone w
   = (Inr demo_first, w)"
proof -
  have "validate_plan demo_lib (plan_json demo_first) None None = Inr demo_first" by code_simp
  moreover have "positive (PInt 12) = Inr 12" "int_str 12 = ''12''" by code_simp+
  moreover have "pages demo_lib demo_server ''releases'' None w = (Inr [], w)"
  proof -
    have "parse_json demo_lib ''[[]]'' = Inr (PList [PList []])" by code_simp
    then show ?thesis by (simp add: pages_def demo_server_def ibind_def page_values_def)
  qed
  moreover have "plans (reload demo_reserved) = [(''12'', \<lparr>res_plan = demo_first, res_parent = Some PNone, res_extra = []\<rparr>)]"
    by (simp add: reload_plans demo_reserved_def add_reservation_def empty_ledger_def sort_entry_def sort_res_def sort_items_def)
  moreover have "publication_floor (reload demo_reserved) = 0" "build_of demo_first = Inr 1"
    by (simp_all add: demo_reserved_def add_reservation_def empty_ledger_def build_of_def demo_first_def)
  ultimately show ?thesis
    by (simp add: check_reservation_def ibind_def same_reservation_def published_tags_def is_published_def)
qed

theorem begin_publication_effect_witness:
  "\<exists>bytes w'. begin_publication demo_lib demo_server (plan_json demo_first) 12 PNone (PBool False)
      (Some (demo_text demo_reserved)) = (Inr bytes, w')
    \<and> ledger_step demo_lib (reload demo_reserved) ((reload demo_reserved)\<lparr>publication_floor := 1\<rparr>)"
proof -
  have p: "positive (PInt 12) = Inr 12" by code_simp
  obtain bytes w' where r: "begin_publication demo_lib demo_server (plan_json demo_first) 12 PNone (PBool False)
      (Some (demo_text demo_reserved)) = (Inr bytes, w')"
    by (simp add: begin_publication_def ibind_def p demo_read demo_check demo_write Let_def)
  have "validate_plan demo_lib (plan_json demo_first) None None = Inr demo_first" by code_simp
  moreover have "build_number demo_first = Some 1" by (simp add: demo_first_def)
  ultimately show ?thesis
    using r begin_publication_effect [OF r] unfolding demo_read by auto
qed

end
