(* ===== verification/ExampleServer.thy ===== *)
theory ExampleServer
  imports RunWait LedgerCodec
begin

text \<open>
  A server that answers each path with a fixed JSON value, and examples on it: the concrete inputs at
  which the theorems about runs apply.
\<close>

definition serve :: "(string \<times> pyval) list \<Rightarrow> unit client" where
  "serve table = \<lparr>repo = ''o/r'', request = (\<lambda>path method body mode w.
     (case map_of table path of None \<Rightarrow> Inl (GitHubError ''missing'' True) | Some v \<Rightarrow> Inr (rc_json_bytes demo_lib v), w))\<rparr>"

fun container :: "pyval \<Rightarrow> bool" where
  "container (PDict d) = True"
| "container (PList xs) = True"
| "container _ = False"

lemma container_not_blank: "container v \<Longrightarrow> strip_by byte_space (rc_json_bytes demo_lib v) \<noteq> []"
proof (cases v)
  case (PList xs)
  then have "CHR ''['' \<in> set (rc_json_bytes demo_lib v)" by (cases xs) (simp_all add: rc_json_bytes_def)
  then show ?thesis by (rule strip_by_nonempty) (simp add: byte_space_def)
next
  case (PDict d)
  then have "CHR ''{'' \<in> set (rc_json_bytes demo_lib v)"
    by (cases "sort_keys (PDict d)") (simp_all add: rc_json_bytes_def split: list.splits)
  then show ?thesis by (rule strip_by_nonempty) (simp add: byte_space_def)
qed simp_all

lemma api_serve:
  assumes "map_of table path = Some v" "clean v" "container v"
  shows "api demo_lib (serve table) path method body w = (Inr (sort_keys v), w)"
  using assms container_not_blank [OF assms(3)] parse_json_dump [OF assms(2), of demo_lib]
  by (simp add: api_def serve_def ibind_def)

lemma api_serve_missing:
  "map_of table path = None \<Longrightarrow> api demo_lib (serve table) path method body w = (Inl (GitHubError ''missing'' True), w)"
  by (simp add: api_def serve_def ibind_def)

lemma optional_serve:
  assumes "map_of table path = Some v" "clean v" "container v"
  shows "optional demo_lib (serve table) path w = (Inr (sort_keys v), w)"
  by (simp add: optional_def api_serve [OF assms])

lemma optional_serve_missing: "map_of table path = None \<Longrightarrow> optional demo_lib (serve table) path w = (Inr PNone, w)"
  by (simp add: optional_def api_serve_missing)

lemma pages_serve:
  assumes "map_of table path = Some v" "clean v" "sort_keys v = PList ps" "rmap (page_values field) ps = Inr vs"
  shows "pages demo_lib (serve table) path field w = (Inr (concat vs), w)"
  using assms parse_json_dump [OF assms(2), of demo_lib] by (simp add: pages_def serve_def ibind_def)

lemma api_timed:
  "api L (timed T gh) path method body (w, t) =
     (case api L gh path method body w of (r, w') \<Rightarrow> (r, (w', t + int (tm_request T w))))"
  by (auto simp: api_def timed_def ibind_def split: prod.splits sum.splits)

lemma pages_timed:
  "pages L (timed T gh) path field (w, t) =
     (case pages L gh path field w of (r, w') \<Rightarrow> (r, (w', t + int (tm_request T w))))"
  by (auto simp: pages_def timed_def ibind_def split: prod.splits sum.splits pyval.splits)

section \<open>A run in progress\<close>

definition demo_run :: jobject where
  "demo_run = [(''id'', PInt 7), (''repository'', PDict [(''full_name'', PStr ''o/r'')]), (''head_repository'', PDict [(''full_name'', PStr ''o/r'')]),
     (''head_sha'', PStr demo_sha), (''path'', PStr WORKFLOW), (''head_branch'', PStr ''m''), (''event'', PStr ''push''),
     (''run_attempt'', PInt 1), (''run_number'', PInt 3), (''status'', PStr ''in_progress''), (''conclusion'', PNone)]"

definition demo_job :: jobject where
  "demo_job = [(''name'', PStr ''Release gate''), (''head_sha'', PStr demo_sha), (''status'', PStr ''completed''), (''conclusion'', PStr ''success'')]"

definition demo_jobs :: pyval where
  "demo_jobs = PList [PDict [(''jobs'', PList [PDict demo_job])]]"

definition demo_actions :: actions_env where
  "demo_actions = \<lparr>ae_var = map_of [(''GITHUB_ACTIONS'', ''true''), (''GITHUB_REPOSITORY'', ''o/r''), (''GITHUB_RUN_ID'', ''7''),
     (''GITHUB_RUN_ATTEMPT'', ''1''), (''GITHUB_REF'', ''refs/heads/m''), (''GITHUB_WORKFLOW_REF'', ''o/r/'' @ WORKFLOW @ ''@refs/heads/m''),
     (''GITHUB_EVENT_NAME'', ''push'')], ae_head = (0, demo_sha), ae_file = (\<lambda>_. Inl (OSError ''missing''))\<rparr>"

definition demo_info :: jobject where
  "demo_info = [(''full_name'', PStr ''o/r''), (''default_branch'', PStr ''m'')]"

definition demo_timing :: "unit timing" where
  "demo_timing = \<lparr>tm_request = (\<lambda>_. 1), tm_overrun = (\<lambda>_. 1)\<rparr>"

definition demo_table :: "(string \<times> pyval) list" where
  "demo_table = [(''actions/runs/7'', PDict demo_run), (''actions/runs/7/attempts/1/jobs'', demo_jobs)]"

lemma demo_clean: "clean (PDict demo_run)" "clean demo_jobs" "container (PDict demo_run)"
  by code_simp+

definition demo_sorted_run :: jobject where
  "demo_sorted_run = as_dict (sort_keys (PDict demo_run))"

lemma demo_sorted: "sort_keys (PDict demo_run) = PDict demo_sorted_run"
  by (simp add: demo_sorted_run_def as_dict_def)

lemma demo_run_api: "api demo_lib (timed demo_timing (serve demo_table)) ''actions/runs/7'' ''GET'' None ((), t) = (Inr (PDict demo_sorted_run), ((), t + 1))"
  using api_serve [of demo_table "''actions/runs/7''", OF _ demo_clean(1,3), unfolded demo_sorted]
  by (simp add: api_timed demo_timing_def demo_table_def)

lemma demo_executing: "executing_run demo_lib demo_actions ''o/r'' 7 ''beta'' demo_info demo_sha 1 (PDict demo_sorted_run) = Inr demo_sorted_run"
  by code_simp

lemma demo_jobs_pages: "pages demo_lib (timed demo_timing (serve demo_table)) (attempt_path 7 1 @ ''/jobs'') (Some ''jobs'') ((), t)
    = (Inr [sort_keys (PDict demo_job)], ((), t + 1))"
proof -
  have p: "attempt_path 7 1 @ ''/jobs'' = ''actions/runs/7/attempts/1/jobs''" by code_simp
  have s: "sort_keys demo_jobs = PList [PDict [(''jobs'', PList [sort_keys (PDict demo_job)])]]" by code_simp
  have "pages demo_lib (serve demo_table) ''actions/runs/7/attempts/1/jobs'' (Some ''jobs'') () = (Inr [sort_keys (PDict demo_job)], ())"
    using pages_serve [of demo_table "''actions/runs/7/attempts/1/jobs''" demo_jobs, OF _ demo_clean(2) s, of "Some ''jobs''" "[[sort_keys (PDict demo_job)]]" "()"]
    by (simp add: demo_table_def page_values_def dget_def)
  then show ?thesis unfolding p by (simp add: pages_timed demo_timing_def)
qed

lemma demo_gate: "release_gate_ready demo_lib (timed demo_timing (serve demo_table)) 7 demo_sha 1 True ((), t) = (Inr True, ((), t + 1))"
proof -
  have "gate_state demo_sha True [sort_keys (PDict demo_job)] = Inr True" by code_simp
  then show ?thesis
    by (simp add: release_gate_ready_def demo_jobs_pages ibind_def require_current_attempt_jobs_def)
qed

lemma demo_wait:
  "wait_for_executing_run demo_lib demo_actions demo_timing (serve demo_table) 7 ''beta'' demo_info demo_sha 1 True ((), 0)
     = Some (Inr demo_sorted_run, ((), 2))"
proof -
  have i: "''actions/runs/'' @ int_str 7 = ''actions/runs/7''" by code_simp
  have st: "dget demo_sorted_run ''status'' PNone = PStr ''in_progress''" by code_simp
  have rp: "repo (timed demo_timing (serve demo_table)) = ''o/r''" by (simp add: timed_def serve_def)
  have "wait_step demo_lib demo_actions (timed demo_timing (serve demo_table)) 7 ''beta'' demo_info demo_sha 1 True (300 * second) ((), 0)
      = (Inr (Some demo_sorted_run), ((), 2))"
    unfolding wait_step_def i rp
    by (simp add: ibind_def demo_run_api demo_executing st demo_gate second_def Let_def)
  then show ?thesis
    unfolding wait_for_executing_run_def Let_def EXECUTING_RUN_WAIT_SECONDS_def
    by (subst poll.simps) simp
qed

theorem wait_for_executing_run_returns_witness:
  "\<exists>d. wait_for_executing_run demo_lib demo_actions demo_timing (serve demo_table) 7 ''beta'' demo_info demo_sha 1 True ((), 0) = Some (Inr d, ((), 2))
     \<and> dget d ''status'' PNone = PStr ''in_progress''
     \<and> (\<exists>v jobs v'. pages demo_lib (timed demo_timing (serve demo_table)) (attempt_path 7 1 @ ''/jobs'') (Some ''jobs'') v = (Inr jobs, v')
          \<and> gate_passed demo_sha jobs)"
proof -
  note t = wait_for_executing_run_returns [of demo_lib demo_actions demo_timing "serve demo_table" 7 "''beta''" demo_info demo_sha 1 True "((), 0)"]
  from t demo_wait show ?thesis by auto
qed

section \<open>A superseded candidate\<close>

definition demo_head :: string where
  "demo_head = replicate 40 (CHR ''c'')"

definition demo_successor :: jobject where
  "demo_successor = [(''id'', PInt 8), (''repository'', PDict [(''full_name'', PStr ''o/r'')]), (''head_repository'', PDict [(''full_name'', PStr ''o/r'')]),
     (''head_sha'', PStr demo_head), (''path'', PStr WORKFLOW), (''head_branch'', PStr ''m''), (''event'', PStr ''push''),
     (''run_attempt'', PInt 1), (''run_number'', PInt 4), (''status'', PStr ''queued'')]"

definition demo_replies :: "(string \<times> pyval) list" where
  "demo_replies =
     [([], PDict demo_info),
      (heads_path ''m'', PDict [(''ref'', PStr ''refs/heads/m''), (''object'', PDict [(''type'', PStr ''commit''), (''sha'', PStr demo_head)])]),
      (compare_path demo_sha demo_head, PDict [(''status'', PStr ''ahead''), (''merge_base_commit'', PDict [(''sha'', PStr demo_sha)])]),
      (replacement_path ''m'' demo_head, PDict [(''total_count'', PInt 1), (''workflow_runs'', PList [PDict demo_successor])])]"

text \<open>The same server without the detour through bytes.\<close>

definition replies_clean :: "(string \<times> pyval) list \<Rightarrow> bool" where
  "replies_clean table \<longleftrightarrow> (\<forall>v \<in> snd ` set table. clean v \<and> container v)"

definition answer :: "(string \<times> pyval) list \<Rightarrow> string \<Rightarrow> pyval result" where
  "answer table path = (case map_of table path of None \<Rightarrow> Inl (GitHubError ''missing'' True) | Some v \<Rightarrow> Inr (sort_keys v))"

lemma api_answer: "replies_clean table \<Longrightarrow> api demo_lib (serve table) path method body = ilift (answer table path)"
proof
  fix w :: unit
  assume c: "replies_clean table"
  show "api demo_lib (serve table) path method body w = ilift (answer table path) w"
  proof (cases "map_of table path")
    case None
    then show ?thesis by (simp add: api_serve_missing answer_def)
  next
    case (Some v)
    then have "v \<in> snd ` set table" by (force dest: map_of_SomeD)
    with c have "clean v" "container v" by (auto simp: replies_clean_def)
    with Some show ?thesis by (simp add: api_serve answer_def)
  qed
qed

lemma demo_replies_clean: "replies_clean demo_replies" by code_simp

lemma demo_answers:
  "answer demo_replies [] = Inr (sort_keys (PDict demo_info))"
  "answer demo_replies (heads_path ''m'') = Inr (PDict [(''object'', PDict [(''sha'', PStr demo_head), (''type'', PStr ''commit'')]), (''ref'', PStr ''refs/heads/m'')])"
  by code_simp+

theorem superseded_candidate_newer_witness:
  "\<exists>report c m r d. superseded_candidate demo_lib (serve demo_replies) demo_info demo_run ''beta'' () = (Inr (Some report), ())
     \<and> dget c ''merge_base_commit'' (PDict []) = PDict m \<and> py_eq (dget m ''sha'' PNone) (PStr demo_sha)
     \<and> dget r ''total_count'' PNone = PInt 1 \<and> dget r ''workflow_runs'' PNone = PList [PDict d]
     \<and> release_run_at (repo (serve demo_replies)) ''m'' demo_head d \<and> dget d ''event'' PNone = PStr ''push''"
proof -
  have s: "superseded_candidate demo_lib (serve demo_replies) demo_info demo_run ''beta'' () =
    (Inr (Some [(''status'', PStr ''superseded''), (''source_sha'', PStr demo_sha), (''superseded_by'', PStr demo_head),
        (''successor_run_id'', PStr ''8''), (''successor_run_url'', PStr ''https://github.com/o/r/actions/runs/8'')]), ())"
    unfolding superseded_candidate_def repository_info_def api_answer [OF demo_replies_clean]
    by code_simp
  have k: "map_of demo_info ''default_branch'' = Some (PStr ''m'')" "map_of demo_run ''head_sha'' = Some (PStr demo_sha)"
    by code_simp+
  from superseded_candidate_newer [OF s] obtain branch source c m r d head where
    b: "map_of demo_info ''default_branch'' = Some (PStr branch)" and o: "map_of demo_run ''head_sha'' = Some source"
    and f: "dget c ''merge_base_commit'' (PDict []) = PDict m" "py_eq (dget m ''sha'' PNone) source"
      "dget r ''total_count'' PNone = PInt 1" "dget r ''workflow_runs'' PNone = PList [PDict d]"
      "release_run_at (repo (serve demo_replies)) branch head d" "dget d ''event'' PNone = PStr ''push''"
    and h: "PStr demo_head = PStr head"
    by (elim exE conjE) (simp only: list.inject prod.inject)
  have "branch = ''m''" "source = PStr demo_sha" "head = demo_head" using b o h k by simp_all
  with s f show ?thesis by blast
qed

section \<open>A rerun\<close>

definition demo_step :: pyval where
  "demo_step = PDict [(''conclusion'', PStr ''success''), (''status'', PStr ''completed''),
     (''started_at'', PStr ''2024-02-29T12:00:01Z''), (''completed_at'', PStr ''2024-02-29T14:00:02+02:00'')]"

definition demo_fresh_job :: jobject where
  "demo_fresh_job = demo_job @ [(''run_attempt'', PInt 2), (''started_at'', PStr ''2024-02-29T12:00:00Z''),
     (''completed_at'', PStr ''2024-02-29T12:00:09.5Z''), (''steps'', PList [demo_step])]"

definition demo_attempt :: "(string \<times> pyval) list" where
  "demo_attempt = [(attempt_path 7 2, PDict [(''id'', PInt 7), (''run_attempt'', PInt 2), (''head_sha'', PStr demo_sha),
     (''path'', PStr WORKFLOW), (''run_started_at'', PStr ''2024-02-29T11:59:59Z'')])]"

lemma demo_attempt_ok:
  "require_current_attempt_jobs demo_lib (serve demo_attempt) 7 demo_sha 2 [PDict demo_fresh_job] () = (Inr (), ())"
proof -
  have c: "replies_clean demo_attempt" by code_simp
  show ?thesis
    unfolding require_current_attempt_jobs_def api_answer [OF c] by code_simp
qed

theorem attempt_jobs_fresh_witness:
  "\<exists>detail boundary start. api demo_lib (serve demo_attempt) (attempt_path 7 2) ''GET'' None () = (Inr (PDict detail), ())
     \<and> execution_timestamp (dget detail ''run_started_at'' PNone) ''release attempt start'' = Inr boundary
     \<and> execution_timestamp (dget demo_fresh_job ''started_at'' PNone) ''job start'' = Inr start \<and> boundary \<le> start"
proof -
  have "completed_job demo_fresh_job" by code_simp
  with attempt_jobs_fresh [OF demo_attempt_ok] show ?thesis
    by simp blast
qed

section \<open>A policy\<close>

definition demo_policy_text :: string where
  "demo_policy_text = rc_json_bytes demo_lib (PDict [(''repository'', PStr ''o/r''), (''mode'', PStr ''release'')])"

definition demo_policy_reply :: pyval where
  "demo_policy_reply = PDict [(''type'', PStr ''file''), (''path'', PStr POLICY), (''encoding'', PStr ''base64''),
     (''content'', PStr (b64encode demo_policy_text)), (''size'', PInt (int (length demo_policy_text))),
     (''sha'', PStr (blob_sha demo_lib demo_policy_text))]"

theorem policy_snapshot_validates_witness:
  "\<exists>snapshot. policy_snapshot demo_lib ''O/r'' demo_policy_reply = Inr snapshot
     \<and> validate_policy_snapshot (PDict snapshot) ''O/r'' = Inr ()"
proof -
  have s: "policy_snapshot demo_lib ''O/r'' demo_policy_reply = Inr
      [(''schema'', PInt 1), (''path'', PStr POLICY), (''git_blob_sha'', PStr (replicate 40 (CHR ''b''))),
       (''sha256'', PStr (replicate 64 (CHR ''a''))), (''data'', PDict [(''mode'', PStr ''release''), (''repository'', PStr ''o/r'')])]"
    by code_simp
  have h: "fullmatch SHA (replicate 40 (CHR ''b''))" "fullmatch SHA256_PATTERN (replicate 64 (CHR ''a''))"
    by code_simp+
  from policy_snapshot_validates [OF s] s h show ?thesis
    by (simp add: dget_def as_str_def as_dict_def)
qed

end
