(* ===== verification/Changelog.thy ===== *)
theory Changelog
  imports RunChecks
begin

text \<open>
  Release notes in \<open>scripts/release_control.py\<close>: the Markdown scanner that finds the reviewed changelog
  section of a version and the guidance it must contain, and \<open>release_notes\<close>, which reads the changelog
  at the package's commit. Offsets count code points here, so a text is the list of its code points,
  each one the string of its UTF-8 bytes. Masking comments never moves a character.
\<close>

section \<open>Texts as code points\<close>

type_synonym utext = "string list"

definition chars :: "string \<Rightarrow> utext" where
  "chars s = map (\<lambda>c. [c]) s"

definition SP :: string where "SP = '' ''"
definition TAB :: string where "TAB = [CHR 0x09]"
definition RETURN :: string where "RETURN = [CHR 0x0D]"
definition NEWLINE :: string where "NEWLINE = [CHR 0x0A]"
definition TICK :: string where "TICK = [CHR 0x60]"

definition blank_char :: "string \<Rightarrow> bool" where
  "blank_char c \<longleftrightarrow> c \<in> {SP, TAB, RETURN, NEWLINE}"

text \<open>What \<open>str.strip()\<close> removes.\<close>

definition space_points :: "string list" where
  "space_points =
    [[CHR 0xC2, CHR 0x85], [CHR 0xC2, CHR 0xA0], [CHR 0xE1, CHR 0x9A, CHR 0x80], [CHR 0xE2, CHR 0x80, CHR 0x80],
     [CHR 0xE2, CHR 0x80, CHR 0x81], [CHR 0xE2, CHR 0x80, CHR 0x82], [CHR 0xE2, CHR 0x80, CHR 0x83], [CHR 0xE2, CHR
     0x80, CHR 0x84], [CHR 0xE2, CHR 0x80, CHR 0x85], [CHR 0xE2, CHR 0x80, CHR 0x86], [CHR 0xE2, CHR 0x80, CHR
     0x87], [CHR 0xE2, CHR 0x80, CHR 0x88], [CHR 0xE2, CHR 0x80, CHR 0x89], [CHR 0xE2, CHR 0x80, CHR 0x8A], [CHR
     0xE2, CHR 0x80, CHR 0xA8], [CHR 0xE2, CHR 0x80, CHR 0xA9], [CHR 0xE2, CHR 0x80, CHR 0xAF], [CHR 0xE2, CHR
     0x81, CHR 0x9F], [CHR 0xE3, CHR 0x80, CHR 0x80]]"

definition space_char :: "string \<Rightarrow> bool" where
  "space_char c \<longleftrightarrow> (if length c = 1 then is_space (hd c) else c \<in> set space_points)"

definition keepends :: "utext \<Rightarrow> utext list" where
  "keepends s = (let ls = split_on NEWLINE s in
     map (\<lambda>l. l @ [NEWLINE]) (butlast ls) @ (if last ls = [] then [] else [last ls]))"

section \<open>Fences and comments\<close>

definition release_fence :: "utext \<Rightarrow> (string \<times> nat \<times> utext) option" where
  "release_fence line =
     (let content = dropWhile (\<lambda>c. c = SP) line in
      case content of
        [] \<Rightarrow> None
      | marker # _ \<Rightarrow>
          if length line - length content > 3 \<or> marker \<notin> {TICK, ''~''} then None
          else
            let n = length (takeWhile (\<lambda>c. c = marker) content) in
            if n < 3 then None else Some (marker, n, drop n content))"

text \<open>The maximal runs of backticks as (start, end), then for each run the end of the next run of
  the same length.\<close>

function tick_runs :: "nat \<Rightarrow> utext \<Rightarrow> (nat \<times> nat) list" where
  "tick_runs i [] = []"
| "tick_runs i (c # cs) =
     (if c = TICK then
        (let n = Suc (length (takeWhile (\<lambda>c. c = TICK) cs)) in (i, i + n) # tick_runs (i + n) (dropWhile (\<lambda>c. c = TICK) cs))
      else tick_runs (Suc i) cs)"
  by pat_completeness auto
termination
  by (relation "measure (\<lambda>(_, s). length s)") (auto simp: le_imp_less_Suc length_dropWhile_le)

definition pair_run :: "nat \<times> nat \<Rightarrow> (nat \<times> nat) list \<times> (nat \<times> nat) list \<Rightarrow> (nat \<times> nat) list \<times> (nat \<times> nat) list" where
  "pair_run r acc =
     (case r of (start, stop) \<Rightarrow> case acc of (ends, following) \<Rightarrow>
       ((case map_of following (stop - start) of Some e \<Rightarrow> (start, e) # ends | None \<Rightarrow> ends),
        (stop - start, stop) # following))"

definition release_code_span_ends :: "utext \<Rightarrow> (nat \<times> nat) list" where
  "release_code_span_ends line = fst (foldr pair_run (tick_runs 0 line) ([], []))"

lemma tick_runs_after: "(a, b) \<in> set (tick_runs i s) \<Longrightarrow> i \<le> a \<and> a < b"
proof (induction i s arbitrary: a b rule: tick_runs.induct)
  case (2 i c cs)
  then show ?case by (fastforce simp: Let_def split: if_splits)
qed simp

lemma pair_runs_forward:
  "(\<forall>p \<in> set (fst (foldr pair_run (tick_runs i s) ([], []))). fst p < snd p)
   \<and> (\<forall>p \<in> set (snd (foldr pair_run (tick_runs i s) ([], []))). i < snd p)"
proof (induction i s rule: tick_runs.induct)
  case (2 i c cs)
  show ?case
  proof (cases "c = TICK")
    case False
    with 2 show ?thesis by (fastforce dest: Suc_lessD)
  next
    case True
    define n where "n = Suc (length (takeWhile (\<lambda>c. c = TICK) cs))"
    obtain ends following where f: "foldr pair_run (tick_runs (i + n) (dropWhile (\<lambda>c. c = TICK) cs)) ([], []) = (ends, following)"
      by fastforce
    have IH: "\<forall>p \<in> set ends. fst p < snd p" "\<forall>p \<in> set following. i + n < snd p"
      using "2.IH"(1) [OF True n_def] f by simp_all
    have t: "tick_runs i (c # cs) = (i, i + n) # tick_runs (i + n) (dropWhile (\<lambda>c. c = TICK) cs)"
      using True by (simp add: n_def Let_def)
    have "i < e" if "map_of following n = Some e" for e
      using IH(2) that by (fastforce dest: map_of_SomeD)
    moreover have "0 < n" by (simp add: n_def)
    ultimately show ?thesis
      unfolding t using IH f by (fastforce simp: pair_run_def split: option.splits)
  qed
qed simp

lemma code_span_end_after: "map_of (release_code_span_ends line) p = Some e \<Longrightarrow> p < e"
  using pair_runs_forward [of 0 line] unfolding release_code_span_ends_def
  by (fastforce dest: map_of_SomeD)

text \<open>\<open>line.find(sub, position)\<close>.\<close>

definition find_from :: "utext \<Rightarrow> utext \<Rightarrow> nat \<Rightarrow> nat option" where
  "find_from sub line pos =
     (case filter (\<lambda>i. prefix sub (drop i line)) [pos..<Suc (length line)] of [] \<Rightarrow> None | i # _ \<Rightarrow> Some i)"

lemma find_from_ge: "find_from sub line pos = Some i \<Longrightarrow> pos \<le> i \<and> prefix sub (drop i line)"
proof -
  assume "find_from sub line pos = Some i"
  then obtain rest where "filter (\<lambda>i. prefix sub (drop i line)) [pos..<Suc (length line)] = i # rest"
    unfolding find_from_def by (auto split: list.splits simp del: upt_Suc)
  then have "i \<in> set (filter (\<lambda>i. prefix sub (drop i line)) [pos..<Suc (length line)])"
    by (metis list.set_intros(1))
  then show ?thesis by (simp del: upt_Suc)
qed

definition mask_char :: "string \<Rightarrow> string" where
  "mask_char c = (if c \<in> {RETURN, NEWLINE} then c else SP)"

definition segment :: "nat \<Rightarrow> nat \<Rightarrow> utext \<Rightarrow> utext" where
  "segment i j s = take (j - i) (drop i s)"

text \<open>What is visible from a position on, and whether a comment is still open at the end.\<close>

function mask_from :: "utext \<Rightarrow> bool \<Rightarrow> nat \<Rightarrow> utext \<times> bool" where
  "mask_from line comment pos =
     (if length line \<le> pos then ([], comment)
      else if comment then
        (case find_from (chars ''-->'') line pos of
           None \<Rightarrow> (map mask_char (drop pos line), True)
         | Some i \<Rightarrow> (case mask_from line False (i + 3) of (v, c) \<Rightarrow> (map mask_char (segment pos (i + 3) line) @ v, c)))
      else if line ! pos = [CHR 0x5C] then
        (case mask_from line False (pos + 2) of (v, c) \<Rightarrow> (segment pos (pos + 2) line @ v, c))
      else
        (case map_of (release_code_span_ends line) pos of
           Some e \<Rightarrow> (case mask_from line False e of (v, c) \<Rightarrow> (segment pos e line @ v, c))
         | None \<Rightarrow>
             if prefix (chars ''<!--'') (drop pos line) then mask_from line True pos
             else (case mask_from line False (Suc pos) of (v, c) \<Rightarrow> (line ! pos # v, c))))"
  by pat_completeness auto
termination
  by (relation "inv_image (less_than <*lex*> less_than) (\<lambda>(line, comment, pos). (length line - pos, if comment then 0 else 1))")
     (auto dest: code_span_end_after find_from_ge)

declare mask_from.simps [simp del]

definition release_comment_line :: "utext \<Rightarrow> bool \<Rightarrow> utext \<times> bool" where
  "release_comment_line line comment = mask_from line comment 0"

section \<open>Lines, headings and sections\<close>

definition release_fence_closes :: "(string \<times> nat \<times> utext) option \<Rightarrow> string \<times> nat \<Rightarrow> bool" where
  "release_fence_closes candidate fence =
     (case candidate of
        None \<Rightarrow> False
      | Some (m, n, rest) \<Rightarrow> m = fst fence \<and> n \<ge> snd fence \<and> strip_by blank_char rest = [])"

definition opened_fence :: "(string \<times> nat \<times> utext) option \<Rightarrow> (string \<times> nat) option" where
  "opened_fence candidate =
     (case candidate of
        Some (m, n, rest) \<Rightarrow> if m = ''~'' \<or> TICK \<notin> set rest then Some (m, n) else None
      | None \<Rightarrow> None)"

fun release_lines_from :: "(string \<times> nat) option \<Rightarrow> bool \<Rightarrow> utext list \<Rightarrow> (utext \<times> bool \<times> bool) list" where
  "release_lines_from fence comment [] = []"
| "release_lines_from (Some f) comment (line # ls) =
     (let closes = release_fence_closes (release_fence line) f in
      (line, False, \<not> closes) # release_lines_from (if closes then None else Some f) comment ls)"
| "release_lines_from None comment (line # ls) =
     (if \<not> comment \<and> opened_fence (release_fence line) \<noteq> None
      then (line, False, False) # release_lines_from (opened_fence (release_fence line)) comment ls
      else if \<not> comment \<and> (prefix (replicate 4 SP) line \<or> prefix [TAB] line)
      then (line, False, True) # release_lines_from None comment ls
      else (case release_comment_line line comment of (v, c) \<Rightarrow> (v, True, True) # release_lines_from None c ls))"

definition release_lines :: "utext \<Rightarrow> (utext \<times> bool \<times> bool) list" where
  "release_lines s = release_lines_from None False (keepends s)"

definition release_heading_title :: "utext \<Rightarrow> utext" where
  "release_heading_title content =
     (let title = strip_by blank_char content; before = rstrip_by (\<lambda>c. c = ''#'') title in
      if before = [] \<or> last before \<in> {SP, TAB} then rstrip_by (\<lambda>c. c \<in> {SP, TAB}) before else title)"

record heading =
  h_level :: nat
  h_title :: utext
  h_start :: nat
  h_end :: nat

fun headings_from :: "nat \<Rightarrow> (utext \<times> bool \<times> bool) list \<Rightarrow> heading list" where
  "headings_from offset [] = []"
| "headings_from offset ((line, allowed, guidance) # ls) =
     (let indentation = length (takeWhile (\<lambda>c. c = SP) line);
          text = (if indentation \<le> 3 then drop indentation line else line);
          level = length (takeWhile (\<lambda>c. c = ''#'') text);
          rest = headings_from (offset + length line) ls in
      if allowed \<and> 1 \<le> level \<and> level \<le> 6 \<and> (drop level text = [] \<or> blank_char (hd (drop level text)))
      then \<lparr>h_level = level, h_title = release_heading_title (drop level text), h_start = offset, h_end = offset + length line\<rparr> # rest
      else rest)"

definition release_headings :: "utext \<Rightarrow> heading list" where
  "release_headings s = headings_from 0 (release_lines s)"

definition visible_text :: "utext \<Rightarrow> utext" where
  "visible_text s = concat (map fst (release_lines s))"

text \<open>Title, original body and visible body of the sections of a level.\<close>

fun sections_of :: "utext \<Rightarrow> utext \<Rightarrow> nat \<Rightarrow> heading list \<Rightarrow> (utext \<times> utext \<times> utext) list" where
  "sections_of s visible level [] = []"
| "sections_of s visible level (h # hs) =
     (let stop = (case hs of [] \<Rightarrow> length s | h' # _ \<Rightarrow> h_start h') in
      if h_level h = level
      then (h_title h, strip_by space_char (segment (h_end h) stop s), segment (h_end h) stop visible) # sections_of s visible level hs
      else sections_of s visible level hs)"

definition release_sections :: "utext \<Rightarrow> nat \<Rightarrow> (utext \<times> utext \<times> utext) list" where
  "release_sections s level =
     sections_of s (visible_text s) level (filter (\<lambda>h. h_level h \<le> level) (release_headings s))"

section \<open>Guidance\<close>

fun expandtabs_from :: "nat \<Rightarrow> utext \<Rightarrow> utext" where
  "expandtabs_from column [] = []"
| "expandtabs_from column (c # cs) =
     (if c = TAB then replicate (4 - column mod 4) SP @ expandtabs_from (column + (4 - column mod 4)) cs
      else if c \<in> {NEWLINE, RETURN} then c # expandtabs_from 0 cs
      else c # expandtabs_from (Suc column) cs)"

definition ascii_digit :: "string \<Rightarrow> bool" where
  "ascii_digit c \<longleftrightarrow> length c = 1 \<and> is_digit (hd c)"

text \<open>A container marker at the front: whether it is a list item, and what follows.\<close>

definition container_marker :: "utext \<Rightarrow> (bool \<times> utext) option" where
  "container_marker line =
     (case line of
        [] \<Rightarrow> None
      | c # cs \<Rightarrow>
          if c = ''>'' then Some (False, cs)
          else
            let n = length (takeWhile ascii_digit line);
                rest = (if c \<in> {''-'', ''+'', ''*''} then Some cs
                  else if 1 \<le> n \<and> n \<le> 9 \<and> drop n line \<noteq> [] \<and> line ! n \<in> {''.'', '')''} then Some (drop (Suc n) line)
                  else None) in
            (case rest of
               Some r \<Rightarrow> if r = [] \<or> hd r \<in> {SP, TAB} then Some (True, r) else None
             | None \<Rightarrow> None))"

lemma container_marker_length: "container_marker line = Some (b, r) \<Longrightarrow> length r < length line"
  by (auto simp: container_marker_def Let_def split: list.splits if_splits)

function container_from :: "bool \<Rightarrow> utext \<Rightarrow> utext" where
  "container_from list_item line =
     (case container_marker line of
        None \<Rightarrow> if list_item \<and> line \<in> {chars ''[ ]'', chars ''[x]'', chars ''[X]''} then [] else line
      | Some (b, r) \<Rightarrow>
          if length (takeWhile (\<lambda>c. c \<in> {SP, TAB}) r) \<ge> 5 then r
          else container_from b (dropWhile (\<lambda>c. c \<in> {SP, TAB}) r))"
  by pat_completeness auto
termination
proof (relation "measure (\<lambda>(_, line). length line)")
  fix list_item line x b r
  assume "container_marker line = Some x" "(b, r) = x"
  then have "length r < length line" using container_marker_length by blast
  then show "((b, dropWhile (\<lambda>c. c \<in> {SP, TAB}) r), (list_item, line)) \<in> measure (\<lambda>(_, line). length line)"
    using length_dropWhile_le [of "\<lambda>c. c \<in> {SP, TAB}" r] by simp
qed simp

declare container_from.simps [simp del]

definition release_container_content :: "utext \<Rightarrow> utext" where
  "release_container_content line = container_from False (strip_by space_char (expandtabs_from 0 line))"

definition atx_heading :: "utext \<Rightarrow> bool" where
  "atx_heading line \<longleftrightarrow>
     (let sp = length (takeWhile (\<lambda>c. c = SP) line); r = drop sp line; n = length (takeWhile (\<lambda>c. c = ''#'') r) in
      sp \<le> 3 \<and> 1 \<le> n \<and> n \<le> 6 \<and> (drop n r = [] \<or> blank_char (hd (drop n r))))"

definition thematic_break :: "utext \<Rightarrow> bool" where
  "thematic_break line \<longleftrightarrow>
     (let markers = filter (\<lambda>c. c \<noteq> SP \<and> c \<noteq> TAB) (strip_by space_char line) in
      length markers \<ge> 3 \<and> hd markers \<in> {''-'', ''*'', ''_''} \<and> (\<forall>c \<in> set markers. c = hd markers))"

definition guiding_line :: "utext \<times> bool \<times> bool \<Rightarrow> bool" where
  "guiding_line entry =
     (case entry of (line, allowed, guidance) \<Rightarrow>
       guidance \<and> strip_by space_char line \<noteq> [] \<and>
       (\<not> allowed \<or>
        (let content = release_container_content line in
         prefix (replicate 4 SP) content \<or> prefix [TAB] content
         \<or> (content \<noteq> [] \<and> \<not> atx_heading content \<and> \<not> thematic_break content))))"

definition release_has_guidance :: "utext \<Rightarrow> bool" where
  "release_has_guidance s \<longleftrightarrow> (\<exists>entry \<in> set (release_lines s). guiding_line entry)"

definition setext_underline :: "utext \<Rightarrow> bool" where
  "setext_underline line \<longleftrightarrow>
     (let sp = length (takeWhile (\<lambda>c. c = SP) line); r = drop sp line in
      sp \<le> 3 \<and> r \<noteq> [] \<and> hd r \<in> {''='', ''-''} \<and>
      (let t = dropWhile (\<lambda>c. c \<in> {SP, TAB}) (dropWhile (\<lambda>c. c = hd r) r) in
       t \<in> {[], [NEWLINE], [RETURN, NEWLINE]}))"

fun setext_from :: "bool \<Rightarrow> (utext \<times> utext \<times> bool \<times> bool) list \<Rightarrow> bool" where
  "setext_from paragraph [] = False"
| "setext_from paragraph ((raw, line, allowed, guidance) # ls) =
     (if \<not> allowed then setext_from False ls
      else if strip_by space_char line = [] \<and> strip_by space_char raw \<noteq> [] then setext_from paragraph ls
      else if setext_underline line then (if paragraph then True else setext_from False ls)
      else setext_from (strip_by space_char line \<noteq> [] \<and> \<not> atx_heading line) ls)"

definition release_has_setext_heading :: "utext \<Rightarrow> bool" where
  "release_has_setext_heading s = setext_from False (zip (keepends s) (release_lines s))"

section \<open>Release notes\<close>

definition LFLF :: string where "LFLF = [LF, LF]"

definition join_chars :: "utext \<Rightarrow> string" where
  "join_chars s = concat s"

text \<open>\<open>str.replace("\\r\\n", "\\n")\<close>.\<close>

fun unix_newlines :: "string \<Rightarrow> string" where
  "unix_newlines (a # b # s) = (if a = CR \<and> b = LF then LF # unix_newlines s else a # unix_newlines (b # s))"
| "unix_newlines s = s"

definition title_rx :: "string \<Rightarrow> rx" where
  "title_rx base =
     (let gap = Cls (\<lambda>c. c = CHR '' '' \<or> c = CHR 0x09) in
      SeqOf [Word ''['', Word base, Word '']'', Opt (SeqOf [Plus gap, Word ''-'', Plus gap, Plus (Cls (\<lambda>c. c \<noteq> LF))]), Star gap])"

definition decode_changelog :: "pylib \<Rightarrow> pyval \<Rightarrow> string result" where
  "decode_changelog L v =
     (case v of
        PDict resp \<Rightarrow>
          rbind (rc_require (dget resp ''type'' PNone = PStr ''file'' \<and> dget resp ''path'' PNone = PStr ''CHANGELOG.md''
              \<and> dget resp ''encoding'' PNone = PStr ''base64'')
            ''Release notes must be a regular CHANGELOG.md at the source commit'') (\<lambda>_.
          (case dget resp ''content'' PNone of
             PStr encoded \<Rightarrow>
               rbind (rc_require (int (length (filter (\<lambda>c. \<not> is_cont c) encoded)) \<le> 400000)
                 ''Invalid or oversized release notes content'') (\<lambda>_.
               rbind (case b64decode (filter (\<lambda>c. \<not> is_space c) encoded) of
                   Inl _ \<Rightarrow> Inl (ReleaseError ''Invalid release notes encoding'')
                 | Inr raw \<Rightarrow> if utf8_ok False raw then Inr raw else Inl (ReleaseError ''Invalid release notes encoding'')) (\<lambda>raw.
               rbind (rc_require (int (length raw) \<le> 250000 \<and> py_eq (dget resp ''size'' PNone) (PInt (int (length raw))))
                 ''Release notes size mismatch'') (\<lambda>_.
               rbind (rc_require (dget resp ''sha'' PNone = PStr (blob_sha L raw)) ''Release notes Git blob identity mismatch'') (\<lambda>_.
               Inr (unix_newlines raw)))))
           | _ \<Rightarrow> Inl (ReleaseError ''Invalid or oversized release notes content'')))
      | _ \<Rightarrow> Inl (ReleaseError ''Release notes must be a regular CHANGELOG.md at the source commit''))"

definition has_section_guidance :: "(utext \<times> utext \<times> utext) list \<Rightarrow> string \<Rightarrow> bool" where
  "has_section_guidance sections name =
     (case filter (\<lambda>s. fst s = chars name) sections of
        [] \<Rightarrow> False
      | (_, _, body) # _ \<Rightarrow> body \<noteq> [] \<and> release_has_guidance body)"

definition version_sections :: "string \<Rightarrow> utext \<Rightarrow> (utext \<times> utext) list" where
  "version_sections base changelog =
     map snd (filter (\<lambda>s. fullmatch (title_rx base) (join_chars (fst s))) (release_sections changelog 2))"

definition notes_body :: "string \<Rightarrow> string \<Rightarrow> string \<Rightarrow> string" where
  "notes_body base notes provenance =
     ''## Changes in '' @ base @ LFLF @ notes @ LFLF @ ''## Build provenance'' @ LFLF @ provenance"

definition compose_notes :: "string \<Rightarrow> string \<Rightarrow> string \<Rightarrow> string result" where
  "compose_notes base changelog provenance =
     (case version_sections base (code_points changelog) of
        [(notes, visible_notes)] \<Rightarrow>
          rbind (rc_require (notes \<noteq> []) ''Release needs one nonempty changelog section'') (\<lambda>_.
          rbind (rc_require (\<not> release_has_setext_heading notes)
            ''Release note sections must use ATX headings, not Setext underlines'') (\<lambda>_.
          let sections = release_sections visible_notes 3 in
          rbind (riter (\<lambda>name. rc_require (has_section_guidance sections name) (''Release notes need '' @ name @ '' guidance''))
            [''Upgrade'', ''Security'']) (\<lambda>_.
          let body = notes_body base (join_chars notes) provenance in
          rbind (rc_require (int (length body) \<le> 125000) ''Release notes are too large'') (\<lambda>_.
          Inr body))))
      | _ \<Rightarrow> Inl (ReleaseError ''Release needs one nonempty changelog section''))"

definition base_of_tag :: "string \<Rightarrow> string" where
  "base_of_tag tagname = takeWhile (\<lambda>c. c \<noteq> CHR ''-'') (tl tagname)"

definition release_notes :: "pylib \<Rightarrow> 'w client \<Rightarrow> string \<Rightarrow> string \<Rightarrow> string \<Rightarrow> ('w, string) io" where
  "release_notes L gh tagname sha provenance =
     ibind (source_policy_snapshot L gh sha) (\<lambda>snapshot.
     let source = dget (as_dict (dget snapshot ''data'' PNone)) ''release_notes'' PNone in
     if source = PNone then ireturn provenance
     else
       ibind (ilift (rc_require (source = PStr ''CHANGELOG.md'') ''Unsupported release notes source'')) (\<lambda>_.
       ibind (ilift (rc_require (fullmatch TAG_RE tagname) ''Invalid release notes tag'')) (\<lambda>_.
       ibind (api L gh (''contents/CHANGELOG.md?ref='' @ sha) ''GET'' None) (\<lambda>v.
       ibind (ilift (decode_changelog L v)) (\<lambda>changelog.
       ilift (compose_notes (base_of_tag tagname) changelog provenance))))))"

section \<open>Masking keeps the layout\<close>

definition masks :: "string \<Rightarrow> string \<Rightarrow> bool" where
  "masks v c \<longleftrightarrow> v = c \<or> (v = SP \<and> c \<notin> {RETURN, NEWLINE})"

lemma masks_refl: "list_all2 masks s s"
  by (simp add: list_all2_refl masks_def)

lemma masks_same [simp]: "masks c c"
  by (simp add: masks_def)

lemma masks_map: "list_all2 masks (map mask_char s) s"
  by (auto simp: list_all2_conv_all_nth masks_def mask_char_def)

lemma segment_drop: "i \<le> j \<Longrightarrow> segment i j s @ drop j s = drop i s"
proof -
  assume "i \<le> j"
  then have "drop j s = drop (j - i) (drop i s)" by simp
  then show ?thesis unfolding segment_def by (metis append_take_drop_id)
qed

lemma masks_segment:
  assumes "i \<le> j" "list_all2 masks v (drop j s)" "list_all2 masks u (segment i j s)"
  shows "list_all2 masks (u @ v) (drop i s)"
  using list_all2_appendI [OF assms(3,2)] segment_drop [OF assms(1), of s] by simp

lemma mask_from_masks: "list_all2 masks (fst (mask_from line comment pos)) (drop pos line)"
proof (induction line comment pos rule: mask_from.induct)
  case (1 line comment pos)
  show ?case
  proof (cases "length line \<le> pos")
    case True
    then show ?thesis by (subst mask_from.simps) simp
  next
    case False
    note open_line = this
    show ?thesis
    proof (cases comment)
      case True
      show ?thesis
      proof (cases "find_from (chars ''-->'') line pos")
        case None
        then show ?thesis using open_line True by (subst mask_from.simps) (simp add: masks_map)
      next
        case (Some i)
        with find_from_ge have "pos \<le> i + 3" by fastforce
        from masks_segment [OF this "1.IH"(1) [OF open_line True Some] masks_map] show ?thesis
          using open_line True Some by (subst mask_from.simps) (simp add: case_prod_unfold)
      qed
    next
      case False
      note closed = this
      show ?thesis
      proof (cases "line ! pos = [CHR 0x5C]")
        case True
        from masks_segment [OF _ "1.IH"(2) [OF open_line closed True] masks_refl] show ?thesis
          using open_line closed True by (subst mask_from.simps) (simp add: case_prod_unfold)
      next
        case False
        note plain_char = this
        show ?thesis
        proof (cases "map_of (release_code_span_ends line) pos")
          case (Some e)
          then have "pos \<le> e" using code_span_end_after by fastforce
          from masks_segment [OF this "1.IH"(5) [OF open_line closed False Some] masks_refl] show ?thesis
            using open_line closed False Some by (subst mask_from.simps) (simp add: case_prod_unfold)
        next
          case None
          have d: "drop pos line = line ! pos # drop (Suc pos) line"
            using open_line by (simp add: Cons_nth_drop_Suc)
          show ?thesis
          proof (cases "prefix (chars ''<!--'') (drop pos line)")
            case True
            from "1.IH"(3) [OF open_line closed plain_char None True] show ?thesis
              using open_line closed plain_char None True by (subst mask_from.simps) simp
          next
            case False
            from "1.IH"(4) [OF open_line closed plain_char None False] show ?thesis
              using open_line closed plain_char None False by (subst mask_from.simps) (simp add: d case_prod_unfold)
          qed
        qed
      qed
    qed
  qed
qed

lemma release_lines_from_masks:
  "list_all2 (\<lambda>e l. list_all2 masks (fst e) l) (release_lines_from fence comment ls) ls"
proof (induction fence comment ls rule: release_lines_from.induct)
  case (3 comment line ls)
  have m: "list_all2 masks (fst (release_comment_line line comment)) line"
    using mask_from_masks [of line comment 0] by (simp add: release_comment_line_def)
  from 3 m show ?case by (auto simp: masks_refl split: prod.splits)
qed (auto simp: masks_refl Let_def)

lemma concat_keepends: "concat (keepends s) = s"
proof -
  have ne: "split_on NEWLINE s \<noteq> []" by simp
  have b: "concat (map (\<lambda>l. l @ [c]) xs) @ y = join_with [c] (xs @ [y])" for c :: string and xs y
    by (induction xs) auto
  have "join_with [NEWLINE] (split_on NEWLINE s) = s" by (rule join_split)
  moreover have "split_on NEWLINE s = butlast (split_on NEWLINE s) @ [last (split_on NEWLINE s)]"
    using ne by simp
  moreover have "concat (keepends s) = concat (map (\<lambda>l. l @ [NEWLINE]) (butlast (split_on NEWLINE s))) @ last (split_on NEWLINE s)"
    by (simp add: keepends_def Let_def)
  ultimately show ?thesis using b by metis
qed

lemma concat_masks: "list_all2 (\<lambda>e l. list_all2 masks (fst e) l) es ls \<Longrightarrow> list_all2 masks (concat (map fst es)) (concat ls)"
  by (induction es ls rule: list_all2_induct) (auto intro: list_all2_appendI)

text \<open>
  C22: masking comments keeps the layout of a changelog. The visible text has the code points of the original
  one by one, each of them unchanged or replaced by a space, and no line break is ever replaced, so
  every offset found in the visible text is the same place in the original; line by line the scanner
  yields exactly the lines of the text.
\<close>

theorem visible_text_layout:
  "length (visible_text s) = length s
   \<and> list_all2 (\<lambda>v c. v = c \<or> (v = SP \<and> c \<noteq> RETURN \<and> c \<noteq> NEWLINE)) (visible_text s) s
   \<and> map (length \<circ> fst) (release_lines s) = map length (keepends s)"
proof -
  have l: "list_all2 (\<lambda>e l. list_all2 masks (fst e) l) (release_lines s) (keepends s)"
    unfolding release_lines_def by (rule release_lines_from_masks)
  have m: "list_all2 masks (visible_text s) s"
    using concat_masks [OF l] by (simp add: visible_text_def concat_keepends)
  have "map (length \<circ> fst) (release_lines s) = map length (keepends s)"
    using l by (induction rule: list_all2_induct) (auto dest: list_all2_lengthD)
  with m show ?thesis
    by (auto dest: list_all2_lengthD simp: masks_def elim: list_all2_mono)
qed

section \<open>Notes are the reviewed text\<close>

lemma concat_code_points: "concat (code_points s) = s"
proof (induction s rule: code_points.induct)
  case (2 c cs)
  then show ?case by (simp add: takeWhile_dropWhile_id)
qed simp

lemma strip_by_sublist: "\<exists>pre post. s = pre @ strip_by p s @ post"
proof -
  let ?t = "dropWhile p s"
  have "s = takeWhile p s @ ?t" by simp
  moreover have "?t = rev (dropWhile p (rev ?t)) @ rev (takeWhile p (rev ?t))"
    by (metis rev_append rev_rev_ident takeWhile_dropWhile_id)
  ultimately show ?thesis
    unfolding strip_by_def rstrip_by_def lstrip_by_def by metis
qed

lemma segment_sublist: "\<exists>pre post. s = pre @ segment i j s @ post"
  unfolding segment_def by (metis append_take_drop_id)

lemma sections_of_sublist:
  "(title, body, visible) \<in> set (sections_of s vis level hs) \<Longrightarrow> \<exists>pre post. s = pre @ body @ post"
proof (induction hs)
  case (Cons h hs)
  define stop where "stop = (case hs of [] \<Rightarrow> length s | h' # _ \<Rightarrow> h_start h')"
  have "\<exists>pre post. s = pre @ strip_by space_char (segment (h_end h) stop s) @ post"
    using strip_by_sublist [of "segment (h_end h) stop s" space_char] segment_sublist [of s "h_end h" stop]
    by (metis append.assoc)
  with Cons show ?case
    by (auto simp: Let_def stop_def split: if_splits)
qed simp

text \<open>
  C23: composed release notes quote the changelog verbatim. When \<open>compose_notes\<close> accepts, the body is the
  fixed frame around a contiguous piece of the changelog's own text and the provenance, and it has at
  most 125000 bytes.
\<close>

theorem compose_notes_verbatim:
  assumes "compose_notes base changelog provenance = Inr body"
  shows "\<exists>pre notes post. changelog = pre @ notes @ post \<and> notes \<noteq> [] \<and> length body \<le> 125000
    \<and> body = ''## Changes in '' @ base @ [LF, LF] @ notes @ [LF, LF] @ ''## Build provenance'' @ [LF, LF] @ provenance"
proof -
  obtain note_text visible where v: "version_sections base (code_points changelog) = [(note_text, visible)]"
    and n: "note_text \<noteq> []" and b: "body = notes_body base (join_chars note_text) provenance" and l: "int (length body) \<le> 125000"
    using assms unfolding compose_notes_def Let_def
    by (auto simp: rbind_Inr_iff split: list.splits prod.splits)
  have "(note_text, visible) \<in> set (version_sections base (code_points changelog))" by (simp add: v)
  then obtain title where "(title, note_text, visible) \<in> set (release_sections (code_points changelog) 2)"
    by (auto simp: version_sections_def)
  then obtain pre post where p: "code_points changelog = pre @ note_text @ post"
    unfolding release_sections_def using sections_of_sublist by blast
  then have "changelog = concat pre @ join_chars note_text @ concat post"
    using concat_code_points [of changelog] by (simp add: join_chars_def)
  moreover have "join_chars note_text \<noteq> []"
  proof -
    obtain c cs where "note_text = c # cs" using n by (cases note_text) auto
    then have "c \<in> set (code_points changelog)" using p by simp
    then have "c \<noteq> []" by (induction changelog rule: code_points.induct) auto
    then show ?thesis using \<open>note_text = c # cs\<close> by (simp add: join_chars_def)
  qed
  ultimately show ?thesis
    using b l by (auto simp: notes_body_def LFLF_def)
qed

definition demo_changelog :: string where
  "demo_changelog = ''## [1.0.0] - now'' @ [LF] @ ''### Upgrade'' @ [LF] @ ''<!-- a -->run'' @ [LF] @ ''### Security'' @ [LF] @ ''none'' @ [LF]"

theorem compose_notes_verbatim_witness:
  "\<exists>body pre note_text post. compose_notes ''1.0.0'' demo_changelog ''p'' = Inr body \<and> demo_changelog = pre @ note_text @ post \<and> note_text \<noteq> []
     \<and> body = ''## Changes in '' @ ''1.0.0'' @ [LF, LF] @ note_text @ [LF, LF] @ ''## Build provenance'' @ [LF, LF] @ ''p''"
proof -
  have "\<not> isl (compose_notes ''1.0.0'' demo_changelog ''p'')" by code_simp
  then obtain body where c: "compose_notes ''1.0.0'' demo_changelog ''p'' = Inr body"
    by (cases "compose_notes ''1.0.0'' demo_changelog ''p''") auto
  from compose_notes_verbatim [OF c] c show ?thesis by blast
qed

end
