(* ===== verification/ManifestCheck.thy ===== *)
theory ManifestCheck
  imports Changelog
begin

text \<open>
  Release manifests in \<open>scripts/release_control.py\<close>: the structure \<open>validate_manifest\<close> accepts, the
  snapshot of a published candidate and its identity, the immutable Actions evidence and the
  reviewers of the release environment.
\<close>

definition MANIFEST :: string where "MANIFEST = ''release-manifest.json''"
definition EVIDENCE :: string where "EVIDENCE = ''.release-evidence/release-manifest.json''"

section \<open>Assets and plan\<close>

text \<open>The case-folded names seen so far, with this asset's name added. Names are ASCII.\<close>

definition manifest_asset :: "string list \<Rightarrow> pyval \<Rightarrow> string list result" where
  "manifest_asset names v =
     (case v of
        PDict item \<Rightarrow>
          (case dget item ''name'' PNone of
             PStr name \<Rightarrow>
               rbind (rc_require (fullmatch NAME_RE name \<and> lower name \<noteq> lower MANIFEST) ''Unsafe manifest asset name'') (\<lambda>_.
               rbind (rc_require (lower name \<notin> set names) ''Duplicate manifest asset name'') (\<lambda>_.
               rbind (rc_require (int_at_least 0 (dget item ''size'' PNone)) ''Invalid manifest asset size'') (\<lambda>_.
               rbind (rc_require (matches_str SHA256_PATTERN (dget item ''sha256'' PNone)) ''Invalid asset checksum'') (\<lambda>_.
               Inr (names @ [lower name])))))
           | _ \<Rightarrow> Inl (ReleaseError ''Unsafe manifest asset name''))
      | _ \<Rightarrow> Inl (ReleaseError ''Invalid manifest asset''))"

definition validate_manifest_assets :: "jobject \<Rightarrow> unit result" where
  "validate_manifest_assets manifest =
     (case dget manifest ''assets'' PNone of
        PList assets \<Rightarrow>
          rbind (rc_require (assets \<noteq> []) ''Manifest contains no assets'') (\<lambda>_.
          rbind (rfold manifest_asset [] assets) (\<lambda>_. Inr ()))
      | _ \<Rightarrow> Inl (ReleaseError ''Manifest contains no assets''))"

definition validate_manifest_plan :: "pylib \<Rightarrow> jobject \<Rightarrow> pyval \<Rightarrow> string \<Rightarrow> unit result" where
  "validate_manifest_plan L manifest policy base_ver =
     rbind (validate_plan L (dget manifest ''version_plan'' PNone) (Some policy) (Some (as_str (dget manifest ''source_sha'' PNone)))) (\<lambda>p.
     rbind (plan_digest L (dget manifest ''version_plan'' PNone)) (\<lambda>h.
     rbind (ditem manifest ''tag'') (\<lambda>t.
     rbind (ditem manifest ''channel'') (\<lambda>c.
     rc_require (t = PStr (tag p) \<and> c = PStr (channel p) \<and> base_version p = base_ver \<and> dget manifest ''plan_sha256'' PNone = PStr h)
       ''Manifest differs from the frozen version plan''))))"

section \<open>The manifest\<close>

definition rc_tag_rx :: "string \<Rightarrow> rx" where
  "rc_tag_rx base_ver = SeqOf [Word ''v'', Word base_ver, Word ''-rc.'', positive_numeral]"

text \<open>The pattern of a parent's tag is matched without \<open>re.ASCII\<close>: digits after the first may be any
  decimal digits of Unicode.\<close>

definition parent_tag_ok :: "pylib \<Rightarrow> string \<Rightarrow> string \<Rightarrow> bool" where
  "parent_tag_ok L base_ver t =
     (let pre = ''v'' @ base_ver @ ''-rc.'' in
      prefix pre t \<and>
      (case code_points (drop (length pre) t) of
         [] \<Rightarrow> False
       | c # cs \<Rightarrow> length c = 1 \<and> is_digit (hd c) \<and> hd c \<noteq> CHR ''0''
           \<and> (\<forall>d \<in> set cs. if length d = 1 then is_digit (hd d) else unicode_digit L d)))"

definition check_parent :: "pylib \<Rightarrow> jobject \<Rightarrow> pyval \<Rightarrow> string \<Rightarrow> unit result" where
  "check_parent L manifest versioning base_ver =
     rbind (if truthy versioning then rbind (pget versioning ''promotion'' PNone) (\<lambda>p. Inr (p = PStr ''final-build'')) else Inr False) (\<lambda>ok.
     rbind (rc_require ok ''Final package policy is missing'') (\<lambda>_.
     (case dget manifest ''derived_from_rc'' PNone of
        PDict parent \<Rightarrow>
          rbind (rc_require (fst ` set parent = {''tag'', ''manifest_sha256'', ''source_sha'', ''run_id''})
            ''Final manifest needs accepted RC provenance'') (\<lambda>_.
          rbind (rc_require ((case dget parent ''tag'' PNone of PStr t \<Rightarrow> parent_tag_ok L base_ver t | _ \<Rightarrow> False)
              \<and> py_eq (dget parent ''source_sha'' PNone) (dget manifest ''source_sha'' PNone)
              \<and> matches_str SHA256_PATTERN (dget parent ''manifest_sha256'' PNone)) ''Invalid final RC provenance'') (\<lambda>_.
          rbind (positive (dget parent ''run_id'' PNone)) (\<lambda>parent_run.
          rbind (ditem manifest ''run_id'') (\<lambda>own.
          rc_require (\<not> py_eq (PInt parent_run) own) ''Final build must use a new run''))))
      | _ \<Rightarrow> Inl (ReleaseError ''Final manifest needs accepted RC provenance''))))"

definition check_manifest_tag :: "jobject \<Rightarrow> string \<Rightarrow> string \<Rightarrow> bool \<Rightarrow> unit result" where
  "check_manifest_tag manifest base_ver rc_tag final =
     (if final then
        rc_require (dget manifest ''tag'' PNone = PStr rc_tag \<and> rc_tag = ''v'' @ base_ver) ''Final tag/version mismatch''
      else
        rbind (rc_require (dget manifest ''channel'' PNone = PStr ''rc'') ''Only release candidates can be promoted'') (\<lambda>_.
        rc_require (dget manifest ''tag'' PNone = PStr rc_tag \<and> fullmatch (rc_tag_rx base_ver) rc_tag)
          ''Manifest RC tag/version mismatch''))"

definition check_manifest :: "pylib \<Rightarrow> string \<Rightarrow> string \<Rightarrow> bool \<Rightarrow> jobject \<Rightarrow> unit result" where
  "check_manifest L repository rc_tag allow_final manifest =
     rbind (rc_require (case dget manifest ''repository'' PNone of PStr r \<Rightarrow> lower r = lower repository | _ \<Rightarrow> False)
       ''Manifest repository mismatch'') (\<lambda>_.
     (case dget manifest ''version'' PNone of
        PStr v \<Rightarrow>
          rbind (rc_version v) (\<lambda>base_ver.
          let final = (allow_final \<and> dget manifest ''channel'' PNone = PStr ''stable'') in
          rbind (check_manifest_tag manifest base_ver rc_tag final) (\<lambda>_.
          rbind (rc_require (matches_str SHA (dget manifest ''source_sha'' PNone)) ''Invalid manifest source SHA'') (\<lambda>_.
          rbind (rc_require (dget manifest ''workflow_path'' PNone = PStr WORKFLOW) ''Manifest workflow path mismatch'') (\<lambda>_.
          rbind (positive (dget manifest ''run_id'' PNone)) (\<lambda>_.
          rbind (positive (dget manifest ''run_attempt'' PNone)) (\<lambda>_.
          rbind (validate_policy_snapshot (dget manifest ''source_policy'' PNone) repository) (\<lambda>_.
          rbind (validate_validation_manifest L manifest) (\<lambda>_.
          let policy = dget (as_dict (dget manifest ''source_policy'' PNone)) ''data'' PNone;
              versioning = dget (as_dict policy) ''versioning'' PNone in
          rbind (if truthy versioning then validate_manifest_plan L manifest policy base_ver else Inr ()) (\<lambda>_.
          rbind (if final then check_parent L manifest versioning base_ver else Inr ()) (\<lambda>_.
          validate_manifest_assets manifest))))))))))
      | _ \<Rightarrow> Inl (ReleaseError ''Missing manifest version'')))"

definition validate_manifest :: "pylib \<Rightarrow> string \<Rightarrow> string \<Rightarrow> string \<Rightarrow> bool \<Rightarrow> jobject result" where
  "validate_manifest L raw repository rc_tag allow_final =
     rbind (rc_require (int (length raw) \<le> 2000000) ''Manifest is unreasonably large'') (\<lambda>_.
     rbind (parse_json L raw) (\<lambda>v.
     (case v of
        PDict manifest \<Rightarrow>
          rbind (rc_require (dget manifest ''schema'' PNone = PInt 1) ''Unsupported manifest schema'') (\<lambda>_.
          rbind (check_manifest L repository rc_tag allow_final manifest) (\<lambda>_.
          Inr manifest))
      | _ \<Rightarrow> Inl (ReleaseError ''Unsupported manifest schema''))))"

section \<open>The published candidate\<close>

record release_snapshot =
  sn_ref :: jobject
  sn_release :: jobject
  sn_assets :: "jobject list"

definition check_candidate_ref :: "string \<Rightarrow> pyval \<Rightarrow> jobject result" where
  "check_candidate_ref tagname v =
     (case v of
        PDict ref \<Rightarrow>
          rbind (rc_require (dget ref ''ref'' PNone = PStr (''refs/tags/'' @ tagname)) ''Candidate must have a lightweight commit tag'') (\<lambda>_.
          rbind (pget (dget ref ''object'' (PDict [])) ''type'' PNone) (\<lambda>t.
          rbind (rc_require (t = PStr ''commit'') ''Candidate must have a lightweight commit tag'') (\<lambda>_.
          Inr ref)))
      | _ \<Rightarrow> Inl (AttributeError ''get''))"

definition check_candidate_release :: "string \<Rightarrow> pyval \<Rightarrow> jobject result" where
  "check_candidate_release tagname v =
     (case v of
        PDict release \<Rightarrow>
          rbind (rc_require (dget release ''tag_name'' PNone = PStr tagname \<and> dget release ''draft'' PNone = PBool False
              \<and> dget release ''prerelease'' PNone = PBool True) ''Candidate is not a published prerelease'') (\<lambda>_.
          Inr release)
      | _ \<Rightarrow> Inl (AttributeError ''get''))"

definition check_candidate_assets :: "pyval list \<Rightarrow> jobject list result" where
  "check_candidate_assets assets =
     rbind (rmap (\<lambda>a. pget a ''state'' PNone) assets) (\<lambda>states.
     rbind (rc_require (\<forall>s \<in> set states. s = PStr ''uploaded'') ''Candidate has incomplete uploads'') (\<lambda>_.
     let ds = map as_dict assets; names = map (\<lambda>d. dget d ''name'' PNone) ds in
     rbind (rc_require (\<forall>n \<in> set names. matches_str NAME_RE n) ''Unsafe release asset name'') (\<lambda>_.
     rbind (rc_require (distinct (map (\<lambda>n. lower (as_str n)) names)) ''Duplicate release assets'') (\<lambda>_.
     Inr ds))))"

definition release_snapshot :: "pylib \<Rightarrow> 'w client \<Rightarrow> string \<Rightarrow> ('w, release_snapshot) io" where
  "release_snapshot L gh tagname =
     ibind (api L gh (''git/ref/tags/'' @ quote tagname) ''GET'' None) (\<lambda>v.
     ibind (ilift (check_candidate_ref tagname v)) (\<lambda>ref.
     ibind (api L gh (''releases/tags/'' @ quote tagname) ''GET'' None) (\<lambda>w.
     ibind (ilift (check_candidate_release tagname w)) (\<lambda>release.
     ibind (ilift (positive (dget release ''id'' PNone))) (\<lambda>release_id.
     ibind (pages L gh (''releases/'' @ int_str release_id @ ''/assets'') None) (\<lambda>vs.
     ibind (ilift (check_candidate_assets vs)) (\<lambda>assets.
     ireturn \<lparr>sn_ref = ref, sn_release = release, sn_assets = assets\<rparr>)))))))"

definition identity_keys :: "string list" where
  "identity_keys = [''id'', ''tag_name'', ''target_commitish'', ''draft'', ''prerelease'', ''updated_at'']"

text \<open>\<open>sorted(..., key=id)\<close>: integers or strings, not both.\<close>

definition sort_by_id :: "jobject list \<Rightarrow> jobject list result" where
  "sort_by_id ds =
     rbind (rmap (\<lambda>d. ditem d ''id'') ds) (\<lambda>ids.
     if \<forall>v \<in> set ids. is_int v then Inr (sort_key (\<lambda>d. as_int (dget d ''id'' PNone)) ds)
     else if \<forall>v \<in> set ids. is_str v then Inr (sort_key (\<lambda>d. as_str (dget d ''id'' PNone)) ds)
     else Inl (TypeError ''unorderable types''))"

definition snapshot_identity :: "pylib \<Rightarrow> release_snapshot \<Rightarrow> string result" where
  "snapshot_identity L s =
     rbind (sort_by_id (map (filter (\<lambda>kv. fst kv \<noteq> ''download_count'')) (sn_assets s))) (\<lambda>assets.
     Inr (rc_json_bytes L (PDict
       [(''ref'', PDict (sn_ref s)),
        (''release'', PDict (map (\<lambda>k. (k, dget (sn_release s) k PNone)) identity_keys)),
        (''assets'', PList (map PDict assets))])))"

section \<open>Evidence and reviewers\<close>

text \<open>An entry of a ZIP archive; reading a corrupt archive raises.\<close>

record zip_entry =
  ze_name :: string
  ze_dir :: bool
  ze_size :: int
  ze_data :: string

definition artifact_matches :: "pyval \<Rightarrow> bool result" where
  "artifact_matches item =
     rbind (pget item ''name'' PNone) (\<lambda>n.
     rbind (pget item ''expired'' PNone) (\<lambda>x. Inr (n = PStr ''release-evidence'' \<and> \<not> truthy x)))"

definition matching_artifacts :: "pyval list \<Rightarrow> jobject list result" where
  "matching_artifacts items =
     rbind (rmap artifact_matches items) (\<lambda>oks. Inr (map (as_dict \<circ> fst) (filter snd (zip items oks))))"

definition check_archive :: "(string \<Rightarrow> zip_entry list option) \<Rightarrow> string \<Rightarrow> string \<Rightarrow> unit result" where
  "check_archive unzip archive raw =
     (case unzip archive of
        None \<Rightarrow> Inl (ReleaseError ''Cannot read release evidence archive'')
      | Some es \<Rightarrow>
          (case filter (\<lambda>e. \<not> ze_dir e) es of
             [e] \<Rightarrow>
               rbind (rc_require (ze_name e \<in> {MANIFEST, EVIDENCE}) ''Evidence artifact has unexpected contents'') (\<lambda>_.
               rbind (rc_require (ze_size e \<le> 2000000) ''Evidence artifact manifest is too large'') (\<lambda>_.
               rc_require (ze_data e = raw) ''Release manifest differs from immutable Actions evidence''))
           | _ \<Rightarrow> Inl (ReleaseError ''Evidence artifact has unexpected contents'')))"

definition verify_evidence ::
  "pylib \<Rightarrow> (string \<Rightarrow> zip_entry list option) \<Rightarrow> 'w client \<Rightarrow> jobject \<Rightarrow> string \<Rightarrow> ('w, unit) io" where
  "verify_evidence L unzip gh manifest raw =
     ibind (ilift (ditem manifest ''run_id'')) (\<lambda>run_id.
     ibind (ilift (path_field L run_id)) (\<lambda>run_text.
     ibind (pages L gh (''actions/runs/'' @ run_text @ ''/artifacts'') (Some ''artifacts'')) (\<lambda>items.
     ibind (ilift (matching_artifacts items)) (\<lambda>matching.
     (case matching of
        [artifact] \<Rightarrow>
          ibind (ilift (rbind (pget (dget artifact ''workflow_run'' (PDict [])) ''id'' PNone) (\<lambda>i.
            rbind (pget (dget artifact ''workflow_run'' (PDict [])) ''head_sha'' PNone) (\<lambda>h.
            rbind (ditem manifest ''source_sha'') (\<lambda>s.
            rc_require (py_eq i run_id \<and> py_eq h s) ''Evidence artifact provenance mismatch''))))) (\<lambda>_.
          ibind (ilift (positive (dget artifact ''id'' PNone))) (\<lambda>artifact_id.
          ibind (binary gh (''actions/artifacts/'' @ int_str artifact_id @ ''/zip'')) (\<lambda>archive.
          ibind (ilift (rc_require (dget artifact ''digest'' PNone = PStr (''sha256:'' @ sha256 L archive))
            ''Evidence must have a matching immutable v4 artifact digest'')) (\<lambda>_.
          ilift (check_archive unzip archive raw)))))
      | _ \<Rightarrow> ilift (Inl (ReleaseError ''Exactly one unexpired immutable release-evidence artifact is required'')))))))"

fun any_reviewers :: "pyval list \<Rightarrow> bool result" where
  "any_reviewers [] = Inr False"
| "any_reviewers (rule # rules) =
     rbind (pget rule ''type'' PNone) (\<lambda>t.
     rbind (pget rule ''reviewers'' PNone) (\<lambda>r.
     if t = PStr ''required_reviewers'' \<and> truthy r then Inr True else any_reviewers rules))"

definition require_reviewers :: "pylib \<Rightarrow> 'w client \<Rightarrow> ('w, unit) io" where
  "require_reviewers L gh =
     ibind (api L gh ''environments/release'' ''GET'' None) (\<lambda>environment.
     ibind (ilift (pget environment ''name'' PNone)) (\<lambda>name.
     ibind (ilift (rc_require (name = PStr ''release'') ''Protected release environment is missing'')) (\<lambda>_.
     ibind (ilift (rbind (pget environment ''protection_rules'' (PList [])) iter_items)) (\<lambda>rules.
     ibind (ilift (any_reviewers rules)) (\<lambda>ok.
     ilift (rc_require ok ''The release environment must have required reviewers configured''))))))"

end
