(* ===== verification/Publication.thy ===== *)
theory Publication
  imports ManifestCheck RunWait ReleaseState
begin

text \<open>
  Publication in \<open>scripts/release_control.py\<close>: staging of assets, uploads and their verification by
  downloading every byte again, the transaction \<open>_publish_prepared\<close> and the commands \<open>candidate\<close> and
  \<open>promote\<close>. A directory is the list of its files, by name. The theorems state that only verified
  drafts become public and that promotion publishes the bytes of the accepted candidate.
\<close>

section \<open>Staging\<close>

type_synonym files = "(string \<times> string) list"

text \<open>Retired package types: suffixes and the reason; this repository retires none.\<close>

definition ASSET_RESTRICTIONS :: "(string list \<times> string) list" where
  "ASSET_RESTRICTIONS = []"

definition reject_restricted_assets :: "string list \<Rightarrow> unit result" where
  "reject_restricted_assets names =
     riter (\<lambda>name. riter (\<lambda>(suffixes, reason).
       ensure (\<not> (\<exists>s \<in> set suffixes. suffix s (lower name))) (ReleaseError (reason @ '': '' @ name))) ASSET_RESTRICTIONS) names"

definition RELEASE_SIGNATURES_REQUIRED :: bool where "RELEASE_SIGNATURES_REQUIRED = False"

text \<open>The verifier of signed consumers is not part of this repository.\<close>

definition verify_required_signatures :: "(files \<Rightarrow> unit result) \<Rightarrow> files \<Rightarrow> unit result" where
  "verify_required_signatures verify fs = (if RELEASE_SIGNATURES_REQUIRED then verify fs else Inr ())"

definition stream_identity :: "pylib \<Rightarrow> string \<Rightarrow> int \<times> string" where
  "stream_identity L data = (int (length data), sha256 L data)"

datatype source_entry = Plain string | Irregular

definition asset_json :: "pylib \<Rightarrow> string \<Rightarrow> string \<Rightarrow> pyval" where
  "asset_json L name data = PDict [(''name'', PStr name), (''size'', PInt (fst (stream_identity L data))), (''sha256'', PStr (snd (stream_identity L data)))]"

fun stage_entries :: "pylib \<Rightarrow> string list \<Rightarrow> (string \<times> source_entry) list \<Rightarrow> files result" where
  "stage_entries L folded [] = Inr []"
| "stage_entries L folded ((name, entry) # es) =
     (case entry of
        Irregular \<Rightarrow> Inl (ReleaseError (''Assets must be flat regular files: '' @ name))
      | Plain data \<Rightarrow>
          rbind (rc_require (fullmatch NAME_RE name \<and> lower name \<noteq> lower MANIFEST) (''Unsafe or reserved asset name: '' @ name)) (\<lambda>_.
          rbind (rc_require (lower name \<notin> set folded) (''Asset name collision: '' @ name)) (\<lambda>_.
          rbind (stage_entries L (lower name # folded) es) (\<lambda>rest.
          Inr ((name, data) # rest)))))"

text \<open>The staged files; their manifest entries are \<open>asset_json\<close> of each. No source is no directory.\<close>

definition stage_assets :: "pylib \<Rightarrow> (string \<times> source_entry) list option \<Rightarrow> files result" where
  "stage_assets L source =
     (case source of
        None \<Rightarrow> Inl (ReleaseError ''Assets must be a regular directory'')
      | Some entries \<Rightarrow>
          let sorted_entries = sort_key fst entries in
          rbind (reject_restricted_assets (map fst sorted_entries)) (\<lambda>_.
          rbind (stage_entries L [] sorted_entries) (\<lambda>fs.
          rbind (rc_require (fs \<noteq> []) ''Cannot publish an empty assets directory'') (\<lambda>_.
          Inr fs))))"

section \<open>Transfers\<close>

definition ASSET_DOWNLOAD_TIMEOUT :: int where "ASSET_DOWNLOAD_TIMEOUT = 900"
definition ASSET_UPLOAD_TIMEOUT :: int where "ASSET_UPLOAD_TIMEOUT = 900"

definition asset_path :: rx where
  "asset_path = SeqOf [Word ''releases/assets/'', positive_numeral]"

definition release_asset_path :: "int \<Rightarrow> string" where
  "release_asset_path i = ''releases/assets/'' @ int_str i"

definition gh_download :: "'w gh_env \<Rightarrow> string \<Rightarrow> string \<Rightarrow> ('w, string) io" where
  "gh_download E base path =
     ibind (ilift (rc_require (fullmatch asset_path path) ''Unsupported binary download endpoint'')) (\<lambda>_.
     ibind (irun E \<lparr>argv = [''gh'', ''api'', ''--hostname'', ''github.com'', ''--method'', ''GET'', ''-H'',
         ''Accept: application/octet-stream'', ''--'', base @ ''/'' @ path], stdin = None, limit = Some ASSET_DOWNLOAD_TIMEOUT\<rparr>) (\<lambda>r.
     case r of
       Completed result \<Rightarrow> ilift (response result None)
     | _ \<Rightarrow> ilift (Inl (github_error ''asset download exceeded 900 seconds''))))"

text \<open>The private staging directory: where it is and where temporary directories live.\<close>

record staging =
  sg_parent :: string
  sg_tmp :: string

definition staging_ok :: "staging \<Rightarrow> string \<Rightarrow> bool" where
  "staging_ok S name \<longleftrightarrow>
     prefix (sg_tmp S @ ''/'') (sg_parent S) \<and>
     (let d = drop (length (sg_tmp S) + 1) (sg_parent S) in
      CHR ''/'' \<notin> set d \<and> (prefix ''release-candidate-'' d \<or> prefix ''release-promote-'' d \<or> prefix ''release-versioned-'' d))
     \<and> CHR ''#'' \<notin> set (sg_parent S @ ''/'' @ name)"

definition confirm_upload :: "pylib \<Rightarrow> string \<Rightarrow> string \<Rightarrow> string \<Rightarrow> unit result" where
  "confirm_upload L name data body =
     rbind (parse_json L body) (\<lambda>v.
     (case v of
        PDict asset \<Rightarrow>
          rbind (positive (dget asset ''id'' PNone)) (\<lambda>_.
          rc_require (dget asset ''name'' PNone = PStr name \<and> dget asset ''state'' PNone = PStr ''uploaded''
            \<and> dget asset ''size'' PNone = PInt (int (length data))) ''upload response did not confirm the staged asset'')
      | _ \<Rightarrow> Inl (ReleaseError ''invalid asset response'')))"

definition upload_result :: "pylib \<Rightarrow> string \<Rightarrow> string \<Rightarrow> completed \<Rightarrow> unit result" where
  "upload_result L name data result =
     (case github_http_response L (stdout result) False of
        Inl e \<Rightarrow>
          (case e of
             GitHubError m n \<Rightarrow> rbind (response result None) (\<lambda>_. Inl (github_error m))
           | _ \<Rightarrow> Inl e)
      | Inr http \<Rightarrow>
          rbind (response result (Some http)) (\<lambda>body.
          rbind (rc_require (fst http = 201) ''upload was not confirmed as created'') (\<lambda>_.
          confirm_upload L name data body)))"

definition gh_upload ::
  "pylib \<Rightarrow> 'w gh_env \<Rightarrow> string \<Rightarrow> staging \<Rightarrow> string \<Rightarrow> string \<Rightarrow> string \<Rightarrow> int \<Rightarrow> ('w, unit) io" where
  "gh_upload L E base S tagname name data release_id =
     ibind (ilift (rc_require (fullmatch TAG_RE tagname) ''Unsupported release upload tag'')) (\<lambda>_.
     ibind (ilift (positive (PInt release_id))) (\<lambda>rid.
     ibind (ilift (rc_require (prefix ''/'' (sg_parent S) \<and> fullmatch NAME_RE name) ''Unsafe upload path'')) (\<lambda>_.
     ibind (ilift (rc_require (staging_ok S name) ''Upload must come from the private release staging directory'')) (\<lambda>_.
     ibind (irun E \<lparr>argv = [''gh'', ''api'', ''--hostname'', ''github.com'', ''--include'', ''--method'', ''POST'', ''-H'',
         ''Content-Type: application/octet-stream'', ''--input'', sg_parent S @ ''/'' @ name, ''--'',
         ''https://uploads.github.com/'' @ base @ ''/releases/'' @ int_str rid @ ''/assets?name='' @ quote name],
         stdin = None, limit = Some ASSET_UPLOAD_TIMEOUT\<rparr>) (\<lambda>r.
     case r of
       Completed result \<Rightarrow> ilift (upload_result L name data result)
     | _ \<Rightarrow> ilift (Inl (github_error ''asset upload exceeded 900 seconds'')))))))"

text \<open>A repository with its transfers, and the local files a command writes.\<close>

record 'w hub =
  hb_client :: "'w client"
  hb_download :: "string \<Rightarrow> ('w, string) io"
  hb_upload :: "string \<Rightarrow> string \<Rightarrow> string \<Rightarrow> int \<Rightarrow> ('w, unit) io"
  hb_file :: "string \<Rightarrow> string \<Rightarrow> ('w, unit) io"
  hb_scope :: bool

definition github_hub ::
  "pylib \<Rightarrow> 'w gh_env \<Rightarrow> string \<Rightarrow> staging \<Rightarrow> (string \<Rightarrow> string \<Rightarrow> ('w, unit) io) \<Rightarrow> bool \<Rightarrow> 'w hub" where
  "github_hub L E repository S store scope =
     \<lparr>hb_client = github L E repository, hb_download = gh_download E (''repos/'' @ repository),
      hb_upload = gh_upload L E (''repos/'' @ repository) S, hb_file = store, hb_scope = scope\<rparr>"

definition timed_hub :: "'w timing \<Rightarrow> 'w hub \<Rightarrow> ('w \<times> int) hub" where
  "timed_hub T H = \<lparr>hb_client = timed T (hb_client H),
     hb_download = (\<lambda>p (w, t). case hb_download H p w of (r, w') \<Rightarrow> (r, (w', t + int (tm_request T w)))),
     hb_upload = (\<lambda>tagname name data i (w, t). case hb_upload H tagname name data i w of (r, w') \<Rightarrow> (r, (w', t + int (tm_request T w)))),
     hb_file = (\<lambda>path data (w, t). case hb_file H path data w of (r, w') \<Rightarrow> (r, (w', t))),
     hb_scope = hb_scope H\<rparr>"

section \<open>Publication\<close>

text \<open>\<open>for x in xs: f(x)\<close> with effects.\<close>

primrec iiter :: "('a \<Rightarrow> ('w, unit) io) \<Rightarrow> 'a list \<Rightarrow> ('w, unit) io" where
  "iiter f [] = ireturn ()"
| "iiter f (x # xs) = ibind (f x) (\<lambda>_. iiter f xs)"

definition verify_uploaded_asset :: "pylib \<Rightarrow> 'w hub \<Rightarrow> jobject \<Rightarrow> string \<Rightarrow> ('w, unit) io" where
  "verify_uploaded_asset L H item data =
     ibind (ilift (rc_require (dget item ''state'' PNone = PStr ''uploaded'' \<and> py_eq (dget item ''size'' PNone) (PInt (fst (stream_identity L data))))
       ''Incomplete asset upload; draft left unpublished'')) (\<lambda>_.
     ibind (ilift (positive (dget item ''id'' PNone))) (\<lambda>asset_id.
     ibind (hb_download H (release_asset_path asset_id)) (\<lambda>remote.
     ilift (rc_require (stream_identity L remote = stream_identity L data) ''Uploaded bytes differ; draft left unpublished''))))"

definition create_payload :: "string \<Rightarrow> string \<Rightarrow> string \<Rightarrow> bool \<Rightarrow> jobject" where
  "create_payload tagname sha body prerelease =
     [(''tag_name'', PStr tagname), (''target_commitish'', PStr sha), (''name'', PStr tagname), (''body'', PStr body),
      (''draft'', PBool True), (''prerelease'', PBool prerelease), (''make_latest'', PStr ''false'')]"

definition plain_create :: "pylib \<Rightarrow> 'w client \<Rightarrow> jobject \<Rightarrow> ('w, pyval) io" where
  "plain_create L gh payload = api L gh ''releases'' ''POST'' (Some payload)"

definition uploaded_inventory :: "files \<Rightarrow> pyval list \<Rightarrow> jobject list result" where
  "uploaded_inventory fs uploaded =
     rbind (if length uploaded = length fs then rmap (\<lambda>i. pget i ''name'' PNone) uploaded else Inr []) (\<lambda>names.
     rbind (if \<forall>n \<in> set names. hashable n then Inr () else Inl (TypeError ''unhashable type'')) (\<lambda>_.
     rbind (rc_require (length uploaded = length fs \<and> set names = (PStr \<circ> fst) ` set fs)
       ''Uploaded asset inventory mismatch; draft left unpublished'') (\<lambda>_.
     Inr (map as_dict uploaded))))"

definition staged_data :: "files \<Rightarrow> jobject \<Rightarrow> string" where
  "staged_data fs item = (case map_of fs (as_str (dget item ''name'' PNone)) of Some d \<Rightarrow> d | None \<Rightarrow> [])"

definition tag_points_at :: "string \<Rightarrow> string \<Rightarrow> pyval \<Rightarrow> bool" where
  "tag_points_at tagname sha v =
     (case v of
        PDict ref \<Rightarrow> dget ref ''ref'' PNone = PStr (''refs/tags/'' @ tagname) \<and>
          (case dget ref ''object'' PNone of
             PDict obj \<Rightarrow> dget obj ''type'' PNone = PStr ''commit'' \<and> dget obj ''sha'' PNone = PStr sha
           | _ \<Rightarrow> False)
      | _ \<Rightarrow> False)"

definition publish_body :: "bool \<Rightarrow> jobject" where
  "publish_body prerelease = [(''draft'', PBool False), (''prerelease'', PBool prerelease),
     (''make_latest'', PStr (if prerelease then ''false'' else ''true''))]"

text \<open>The checks between the draft and its publication: uploads, inventory, bytes and tag.\<close>

definition fill_draft :: "pylib \<Rightarrow> 'w hub \<Rightarrow> string \<Rightarrow> string \<Rightarrow> files \<Rightarrow> int \<Rightarrow> ('w, unit) io" where
  "fill_draft L H tagname sha fs release_id =
     ibind (iiter (\<lambda>(name, data). hb_upload H tagname name data release_id) (sort_key fst fs)) (\<lambda>_.
     ibind (pages L (hb_client H) (''releases/'' @ int_str release_id @ ''/assets'') None) (\<lambda>uploaded.
     ibind (ilift (uploaded_inventory fs uploaded)) (\<lambda>items.
     ibind (iiter (\<lambda>item. verify_uploaded_asset L H item (staged_data fs item)) items) (\<lambda>_.
     ibind (api L (hb_client H) (''git/ref/tags/'' @ quote tagname) ''GET'' None) (\<lambda>ref.
     ilift (rc_require (tag_points_at tagname sha ref) ''Tag moved before publication; draft left unpublished''))))))"

definition draft_id :: "string \<Rightarrow> pyval \<Rightarrow> int result" where
  "draft_id tagname v =
     rbind (pget v ''draft'' PNone) (\<lambda>d.
     rbind (pget v ''tag_name'' PNone) (\<lambda>t.
     rbind (rc_require (d = PBool True \<and> t = PStr tagname) ''Unexpected draft release response'') (\<lambda>_.
     rbind (pget v ''id'' PNone) positive)))"

definition confirm_published :: "string \<Rightarrow> bool \<Rightarrow> pyval \<Rightarrow> jobject result" where
  "confirm_published tagname prerelease v =
     (case v of
        PDict result \<Rightarrow>
          rbind (rc_require (dget result ''draft'' PNone = PBool False \<and> dget result ''tag_name'' PNone = PStr tagname
              \<and> dget result ''prerelease'' PNone = PBool prerelease)
            ''Publication response did not confirm the requested state'') (\<lambda>_.
          Inr result)
      | _ \<Rightarrow> Inl (AttributeError ''get''))"

text \<open>The transaction up to the verified draft: its release ID.\<close>

definition prepare_draft ::
  "pylib \<Rightarrow> (files \<Rightarrow> unit result) \<Rightarrow> 'w hub \<Rightarrow> string \<Rightarrow> string \<Rightarrow> files \<Rightarrow> bool \<Rightarrow> string
     \<Rightarrow> (jobject \<Rightarrow> ('w, pyval) io) \<Rightarrow> ('w, int) io" where
  "prepare_draft L verify H tagname sha fs prerelease body create =
     (let gh = hb_client H in
      ibind (ilift (verify_required_signatures verify fs)) (\<lambda>_.
      ibind (ilift (reject_restricted_assets (map fst fs))) (\<lambda>_.
      ibind (ensure_absent L gh tagname) (\<lambda>_.
      ibind (check_workflow_publication L gh (hb_scope H) sha) (\<lambda>_.
      ibind (api L gh ''git/refs'' ''POST'' (Some [(''ref'', PStr (''refs/tags/'' @ tagname)), (''sha'', PStr sha)])) (\<lambda>_.
      ibind (create (create_payload tagname sha body prerelease)) (\<lambda>release.
      ibind (ilift (draft_id tagname release)) (\<lambda>release_id.
      ibind (fill_draft L H tagname sha fs release_id) (\<lambda>_.
      ireturn release_id)))))))))"

definition release_path :: "int \<Rightarrow> string" where
  "release_path release_id = ''releases/'' @ int_str release_id"

definition publish_prepared ::
  "pylib \<Rightarrow> (files \<Rightarrow> unit result) \<Rightarrow> 'w hub \<Rightarrow> string \<Rightarrow> string \<Rightarrow> files \<Rightarrow> bool \<Rightarrow> string
     \<Rightarrow> (jobject \<Rightarrow> ('w, pyval) io) \<Rightarrow> ('w, unit) io \<Rightarrow> ('w, jobject) io" where
  "publish_prepared L verify H tagname sha fs prerelease body create confirm_publish =
     ibind (prepare_draft L verify H tagname sha fs prerelease body create) (\<lambda>release_id.
     ibind confirm_publish (\<lambda>_.
     ibind (api L (hb_client H) (release_path release_id) ''PATCH'' (Some (publish_body prerelease))) (\<lambda>result.
     ilift (confirm_published tagname prerelease result))))"

definition publish ::
  "pylib \<Rightarrow> (files \<Rightarrow> unit result) \<Rightarrow> 'w hub \<Rightarrow> string \<Rightarrow> string \<Rightarrow> files \<Rightarrow> bool \<Rightarrow> string \<Rightarrow> ('w, jobject) io" where
  "publish L verify H tagname sha fs prerelease body =
     ibind (ilift (reject_restricted_assets (map fst fs))) (\<lambda>_.
     ibind (release_notes L (hb_client H) tagname sha body) (\<lambda>notes_text.
     publish_prepared L verify H tagname sha fs prerelease notes_text (plain_create L (hb_client H)) (ireturn ())))"

section \<open>Candidates\<close>

definition wait_run ::
  "pylib \<Rightarrow> actions_env \<Rightarrow> 'w timing \<Rightarrow> 'w client \<Rightarrow> int \<Rightarrow> string \<Rightarrow> jobject \<Rightarrow> string \<Rightarrow> int \<Rightarrow> bool \<Rightarrow> ('w \<times> int, jobject) io" where
  "wait_run L A T gh run_id chan info sha attempt gate wt =
     (case wait_for_executing_run L A T gh run_id chan info sha attempt gate wt of
        Some r \<Rightarrow> r | None \<Rightarrow> (Inl out_of_fuel, wt))"

record candidate_args =
  ca_version :: string
  ca_channel :: string
  ca_sha :: string
  ca_run_id :: pyval
  ca_attempt :: pyval
  ca_sequence :: pyval
  ca_assets :: "(string \<times> source_entry) list option"

text \<open>The time of the candidate: as a nightly stamp and in ISO format.\<close>

record moment =
  mo_stamp :: string
  mo_iso :: string

definition candidate_manifest ::
  "pylib \<Rightarrow> jobject \<Rightarrow> string \<Rightarrow> string \<Rightarrow> string \<Rightarrow> string \<Rightarrow> jobject \<Rightarrow> int \<Rightarrow> int \<Rightarrow> string \<Rightarrow> files \<Rightarrow> jobject" where
  "candidate_manifest L info base_ver chan tagname sha snapshot run_id attempt created fs =
     [(''schema'', PInt 1), (''repository'', dget info ''full_name'' PNone), (''version'', PStr base_ver), (''channel'', PStr chan),
      (''tag'', PStr tagname), (''source_sha'', PStr sha), (''source_policy'', PDict snapshot), (''workflow_path'', PStr WORKFLOW),
      (''run_id'', PInt run_id), (''run_attempt'', PInt attempt), (''created_at'', PStr created),
      (''assets'', PList (map (\<lambda>(n, d). asset_json L n d) fs))]"

definition candidate_body :: "string \<Rightarrow> string \<Rightarrow> string \<Rightarrow> int \<Rightarrow> string" where
  "candidate_body repository chan sha run_id =
     chan @ '' candidate from `'' @ sha @ ''`.'' @ LFLF @ ''Validation: https://github.com/'' @ repository @ ''/actions/runs/'' @ int_str run_id
     @ LFLF @ ''See `'' @ MANIFEST @ ''` for checksums and immutable Actions evidence provenance.''"

text \<open>\<open>if superseded: return superseded\<close>.\<close>

definition unless_superseded :: "('w, jobject option) io \<Rightarrow> ('w, jobject + 'a) io \<Rightarrow> ('w, jobject + 'a) io" where
  "unless_superseded check rest = ibind check (\<lambda>s. case s of Some report \<Rightarrow> ireturn (Inl report) | None \<Rightarrow> rest)"

text \<open>A candidate up to its first write: the report that supersedes it, or its tag, the staged files, the
  manifest's bytes and the notes.\<close>

definition prepare_candidate ::
  "pylib \<Rightarrow> actions_env \<Rightarrow> 'w timing \<Rightarrow> 'w hub \<Rightarrow> moment \<Rightarrow> candidate_args
     \<Rightarrow> ('w \<times> int, jobject + string \<times> files \<times> string \<times> string) io" where
  "prepare_candidate L A T H0 now args =
     (let H = timed_hub T H0; gh = hb_client H; chan = ca_channel args; sha = ca_sha args in
      ibind (ilift (rc_version (ca_version args))) (\<lambda>base_ver.
      ibind (ilift (rc_require (fullmatch SHA sha) ''Source SHA must be a full lowercase 40-character commit SHA'')) (\<lambda>_.
      ibind (ilift (positive (ca_run_id args))) (\<lambda>run_id.
      ibind (ilift (positive (ca_attempt args))) (\<lambda>attempt.
      ibind (repository_info L gh) (\<lambda>info.
      ibind (wait_run L A T (hb_client H0) run_id chan info sha attempt True) (\<lambda>source_run.
      ibind (source_policy_snapshot L gh sha) (\<lambda>snapshot.
      let policy = dget snapshot ''data'' PNone in
      ibind (ilift (require_release_policy policy (repo gh) (chan = ''rc''))) (\<lambda>_.
      ibind (ilift (rc_require (\<not> truthy (dget (as_dict policy) ''versioning'' PNone))
        ''Versioned policies require the frozen-plan publisher, not post-build allocation'')) (\<lambda>_.
      ibind (ilift (rbind (ditem info ''default_branch'') as_name)) (\<lambda>branch.
      ibind (check_ancestry L gh sha branch) (\<lambda>_.
      unless_superseded (superseded_candidate L gh info source_run chan)
       (ibind (if chan \<in> {''beta'', ''rc''} then ensure_absent L gh (''v'' @ base_ver) else ireturn ()) (\<lambda>_.
        ibind (candidate_tag L gh chan base_ver run_id attempt (ca_sequence args) (mo_stamp now)) (\<lambda>tagname.
        ibind (ilift (stage_assets L (ca_assets args))) (\<lambda>fs.
        ibind (ilift (rbind (ditem info ''full_name'') (\<lambda>_. Inr ()))) (\<lambda>_.
        let content = rc_json_bytes L (PDict (candidate_manifest L info base_ver chan tagname sha snapshot run_id attempt (mo_iso now) fs)) in
        unless_superseded (superseded_candidate L gh info source_run chan)
         (ibind (release_notes L gh tagname sha (candidate_body (repo gh) chan sha run_id)) (\<lambda>body.
          ireturn (Inr (tagname, fs, content, body)))))))))))))))))))))"

definition candidate ::
  "pylib \<Rightarrow> actions_env \<Rightarrow> (files \<Rightarrow> unit result) \<Rightarrow> 'w timing \<Rightarrow> 'w hub \<Rightarrow> moment \<Rightarrow> candidate_args \<Rightarrow> ('w \<times> int, jobject) io" where
  "candidate L A verify T H0 now args =
     (let H = timed_hub T H0 in
      ibind (prepare_candidate L A T H0 now args) (\<lambda>prepared.
      case prepared of
        Inl report \<Rightarrow> ireturn report
      | Inr (tagname, fs, content, body) \<Rightarrow>
          ibind (hb_file H EVIDENCE content) (\<lambda>_.
          ibind (publish_prepared L verify H tagname (ca_sha args) (fs @ [(MANIFEST, content)]) True body (plain_create L (hb_client H)) (ireturn ())) (\<lambda>release.
          ibind (ilift (ditem release ''html_url'')) (\<lambda>url.
          ireturn [(''status'', PStr ''published''), (''tag'', PStr tagname), (''release_url'', url), (''manifest_path'', PStr EVIDENCE)])))))"

section \<open>Promotion\<close>

definition promotion_rx :: rx where
  "promotion_rx = SeqOf [Word ''v'', numeral_rx, Word ''.'', numeral_rx, Word ''.'', numeral_rx, Word ''-rc.'', positive_numeral]"

text \<open>One asset of the candidate: its staged bytes, checked against the release and the manifest.\<close>

definition stage_candidate_asset ::
  "pylib \<Rightarrow> 'w hub \<Rightarrow> string \<Rightarrow> (pyval \<times> pyval) list \<Rightarrow> jobject \<Rightarrow> ('w, string \<times> string) io" where
  "stage_candidate_asset L H raw expected asset =
     (let name = as_str (dget asset ''name'' PNone) in
      ibind (if name = MANIFEST then ireturn raw
        else ibind (ilift (positive (dget asset ''id'' PNone))) (\<lambda>i. hb_download H (release_asset_path i))) (\<lambda>data.
      ibind (ilift (rc_require (py_eq (dget asset ''size'' PNone) (PInt (fst (stream_identity L data))))
        (''Release asset size mismatch: '' @ name))) (\<lambda>_.
      ibind (ilift (if name = MANIFEST then Inr ()
        else rc_require (case asset_named expected name of
            Some (PDict item) \<Rightarrow> py_eq (PInt (fst (stream_identity L data))) (dget item ''size'' PNone)
              \<and> dget item ''sha256'' PNone = PStr (snd (stream_identity L data))
          | _ \<Rightarrow> False) (''Candidate checksum mismatch: '' @ name))) (\<lambda>_.
      ireturn (name, data)))))"

primrec imap :: "('a \<Rightarrow> ('w, 'b) io) \<Rightarrow> 'a list \<Rightarrow> ('w, 'b list) io" where
  "imap f [] = ireturn []"
| "imap f (x # xs) = ibind (f x) (\<lambda>y. ibind (imap f xs) (\<lambda>ys. ireturn (y # ys)))"

definition promotion_body :: "pylib \<Rightarrow> string \<Rightarrow> string \<Rightarrow> jobject \<Rightarrow> jobject \<Rightarrow> int \<Rightarrow> string result" where
  "promotion_body L repository rc release manifest current_id =
     rbind (rbind (ditem release ''html_url'') (path_field L)) (\<lambda>url.
     rbind (rbind (ditem manifest ''run_id'') (path_field L)) (\<lambda>run_text.
     Inr (''Promoted unchanged from ['' @ rc @ ''](''  @ url @ '').'' @ LFLF
       @ ''Source: `'' @ as_str (dget manifest ''source_sha'' PNone) @ ''`'' @ LFLF
       @ ''Validation: https://github.com/'' @ repository @ ''/actions/runs/'' @ run_text @ LFLF
       @ ''Promotion: https://github.com/'' @ repository @ ''/actions/runs/'' @ int_str current_id @ LFLF
       @ ''Assets and `'' @ MANIFEST @ ''` are byte-for-byte copies of the verified release candidate.'')))"

definition source_run_of :: "pylib \<Rightarrow> 'w client \<Rightarrow> jobject \<Rightarrow> ('w, jobject) io" where
  "source_run_of L gh manifest =
     ibind (ilift (rbind (ditem manifest ''run_id'') (path_field L))) (\<lambda>run_text.
     ibind (api L gh (''actions/runs/'' @ run_text) ''GET'' None) (\<lambda>v.
     ilift (case v of PDict d \<Rightarrow> Inr d | _ \<Rightarrow> Inl (AttributeError ''get''))))"

text \<open>The API's attempts are integers: a recorded attempt of another type matches none of them.\<close>

definition attempt_of :: "jobject \<Rightarrow> int result" where
  "attempt_of manifest =
     (case dget manifest ''run_attempt'' PNone of
        PInt i \<Rightarrow> Inr i | _ \<Rightarrow> Inl (ReleaseError ''Source run was rerun; evidence is not from its latest attempt''))"

definition candidate_manifest_asset :: "jobject list \<Rightarrow> jobject result" where
  "candidate_manifest_asset assets =
     (case filter (\<lambda>a. dget a ''name'' PNone = PStr MANIFEST) assets of
        [asset] \<Rightarrow> Inr asset
      | _ \<Rightarrow> Inl (ReleaseError ''Candidate manifest is missing''))"

text \<open>Everything of a promotion that only reads: the accepted manifest with its raw bytes and the
  candidate as it was found.\<close>

definition accept_candidate ::
  "pylib \<Rightarrow> (string \<Rightarrow> zip_entry list option) \<Rightarrow> 'w hub \<Rightarrow> jobject \<Rightarrow> string \<Rightarrow> string \<Rightarrow> int
     \<Rightarrow> ('w, jobject \<times> string \<times> release_snapshot \<times> pyval) io" where
  "accept_candidate L unzip H info head rc current_id =
     (let gh = hb_client H in
      ibind (require_reviewers L gh) (\<lambda>_.
      ibind (release_snapshot L gh rc) (\<lambda>initial.
      ibind (ilift (candidate_manifest_asset (sn_assets initial))) (\<lambda>asset.
      ibind (ilift (positive (dget asset ''id'' PNone))) (\<lambda>i.
      ibind (binary gh (release_asset_path i)) (\<lambda>raw.
      ibind (ilift (validate_manifest L raw (repo gh) rc False)) (\<lambda>manifest.
      let sha = as_str (dget manifest ''source_sha'' PNone) in
      ibind (source_policy_snapshot L gh sha) (\<lambda>snapshot.
      let policy = dget snapshot ''data'' PNone in
      ibind (ilift (require_release_policy policy (repo gh) True)) (\<lambda>_.
      ibind (require_current_fuzzing L gh (as_dict policy) head) (\<lambda>_.
      ibind (ilift (rbind (pget (dget (as_dict policy) ''versioning'' (PDict [])) ''promotion'' PNone) (\<lambda>p.
             rc_require (p \<noteq> PStr ''final-build'') ''This RC requires a separately validated final build; byte promotion is disabled''))) (\<lambda>_.
      ibind (if truthy (dget manifest ''version_plan'' PNone)
             then verify_promotion_order L gh (dget manifest ''version_plan'' PNone) else ireturn ()) (\<lambda>_.
      ibind (ilift (rc_require (py_eq (PDict snapshot) (dget manifest ''source_policy'' PNone))
             ''Manifest policy snapshot differs from the policy at the candidate source commit'')) (\<lambda>_.
      ibind (ilift (rc_require (dget (as_dict (dget (sn_ref initial) ''object'' PNone)) ''sha'' PNone = PStr sha)
             ''Candidate tag SHA differs from manifest'')) (\<lambda>_.
      ibind (ilift (rc_require (\<not> py_eq (dget manifest ''run_id'' PNone) (PInt current_id))
             ''Candidate and promotion must use separate runs'')) (\<lambda>_.
      ibind (source_run_of L gh manifest) (\<lambda>source_run.
      ibind (validate_validation_run L gh source_run (as_dict policy) ''rc'') (\<lambda>_.
      ibind (ilift (rc_require (py_eq (dget source_run ''id'' PNone) (dget manifest ''run_id'' PNone)) ''Source run identity mismatch'')) (\<lambda>_.
      ibind (ilift (attempt_of manifest)) (\<lambda>attempt.
      ibind (validate_run L gh source_run info sha attempt True True) (\<lambda>_.
      ibind (ilift (rc_require (dget source_run ''event'' PNone = PStr ''workflow_dispatch'')
             ''RC must originate from a manual workflow dispatch'')) (\<lambda>_.
      ibind (ilift (rbind (ditem info ''default_branch'') as_name)) (\<lambda>branch.
      ibind (check_ancestry L gh sha branch) (\<lambda>_.
      ibind (verify_evidence L unzip gh manifest raw) (\<lambda>_.
      ireturn (manifest, raw, initial, policy)))))))))))))))))))))))))"

text \<open>The promotion up to its first write: the accepted manifest, the staged files and the notes.\<close>

definition prepare_promotion ::
  "pylib \<Rightarrow> actions_env \<Rightarrow> (files \<Rightarrow> unit result) \<Rightarrow> (string \<Rightarrow> zip_entry list option) \<Rightarrow> 'w timing \<Rightarrow> 'w hub \<Rightarrow> string \<Rightarrow> pyval
     \<Rightarrow> ('w \<times> int, jobject \<times> files \<times> string \<times> int) io" where
  "prepare_promotion L A verify unzip T H0 rc run_id =
     (let H = timed_hub T H0; gh = hb_client H in
      ibind (ilift (rc_require (fullmatch promotion_rx rc) ''Promotion requires a strict vX.Y.Z-rc.N tag'')) (\<lambda>_.
      ibind (ilift (positive run_id)) (\<lambda>current_id.
      ibind (repository_info L gh) (\<lambda>info.
      ibind (ilift (checked_out_sha A)) (\<lambda>head.
      ibind (ilift (positive (case ae_var A ''GITHUB_RUN_ATTEMPT'' of None \<Rightarrow> PNone | Some s \<Rightarrow> PStr s))) (\<lambda>attempt.
      ibind (wait_run L A T (hb_client H0) current_id ''stable'' info head attempt False) (\<lambda>_.
      ibind (accept_candidate L unzip H info head rc current_id) (\<lambda>(manifest, raw, initial, policy).
      let sha = as_str (dget manifest ''source_sha'' PNone); tagname = ''v'' @ as_str (dget manifest ''version'' PNone) in
      ibind (ensure_absent L gh tagname) (\<lambda>_.
      ibind (ilift (asset_table (dget manifest ''assets'' PNone))) (\<lambda>expected.
      ibind (ilift (rc_require ((\<lambda>a. dget a ''name'' PNone) ` set (sn_assets initial) = fst ` set expected \<union> {PStr MANIFEST})
        ''Candidate assets differ from manifest inventory'')) (\<lambda>_.
      ibind (check_workflow_publication L gh (hb_scope H) sha) (\<lambda>_.
      ibind (imap (stage_candidate_asset L H raw expected) (sn_assets initial)) (\<lambda>fs.
      ibind (release_snapshot L gh rc) (\<lambda>again.
      ibind (ilift (rbind (snapshot_identity L again) (\<lambda>a. rbind (snapshot_identity L initial) (\<lambda>b.
        rc_require (a = b) ''Candidate changed during verification'')))) (\<lambda>_.
      ibind (ilift (verify_required_signatures verify fs)) (\<lambda>_.
      ibind (source_run_of L gh manifest) (\<lambda>latest_run.
      ibind (validate_validation_run L gh latest_run (as_dict policy) ''rc'') (\<lambda>_.
      ibind (ilift (attempt_of manifest)) (\<lambda>rc_attempt.
      ibind (validate_run L gh latest_run info sha rc_attempt True True) (\<lambda>_.
      ibind (require_reviewers L gh) (\<lambda>_.
      ibind (check_workflow_publication L gh (hb_scope H) sha) (\<lambda>_.
      ibind (ilift (promotion_body L (repo gh) rc (sn_release initial) manifest current_id)) (\<lambda>provenance.
      ibind (release_notes L gh tagname sha provenance) (\<lambda>body.
      ibind (if truthy (dget manifest ''version_plan'' PNone)
        then verify_promotion_order L gh (dget manifest ''version_plan'' PNone) else ireturn ()) (\<lambda>_.
      ireturn (manifest, fs, body, current_id))))))))))))))))))))))))))"

definition promote ::
  "pylib \<Rightarrow> actions_env \<Rightarrow> (files \<Rightarrow> unit result) \<Rightarrow> (string \<Rightarrow> zip_entry list option) \<Rightarrow> 'w timing \<Rightarrow> 'w hub \<Rightarrow> string \<Rightarrow> pyval
     \<Rightarrow> ('w \<times> int, jobject) io" where
  "promote L A verify unzip T H0 rc run_id =
     (let H = timed_hub T H0; gh = hb_client H in
      ibind (prepare_promotion L A verify unzip T H0 rc run_id) (\<lambda>(manifest, fs, body, current_id).
      let sha = as_str (dget manifest ''source_sha'' PNone); tagname = ''v'' @ as_str (dget manifest ''version'' PNone);
          plan_value = dget manifest ''version_plan'' PNone in
      ibind (if truthy plan_value
        then ibind (begin_publication L gh plan_value current_id PNone (PBool True)) (\<lambda>_. ireturn ()) else ireturn ()) (\<lambda>_.
      ibind (publish_prepared L verify H tagname sha fs False body (plain_create L gh) (ireturn ())) (\<lambda>release.
      ibind (ilift (ditem release ''html_url'')) (\<lambda>url.
      ireturn [(''tag'', PStr tagname), (''release_url'', url)])))))"

end
