(* ===== verification/VersionReceipt.thy ===== *)
theory VersionReceipt
  imports Publication Projections
begin

text \<open>
  Build receipts (\<open>scripts/version_receipt.py\<close>): a platform build records the version inputs it used and the
  packages it made, and the publisher accepts a staged directory only when every payload is covered by
  exactly one receipt of the same plan. A checkout is the list of its files by path.
\<close>

section \<open>Producers\<close>

definition DETACHED_PROVENANCE_REQUIRED :: bool where "DETACHED_PROVENANCE_REQUIRED = False"
definition MAX_RECEIPT_BYTES :: int where "MAX_RECEIPT_BYTES = 2000000"

definition owner_rx :: rx where
  "owner_rx = (let part = Plus (Cls (\<lambda>c. is_upper c \<or> is_lower c \<or> is_digit c \<or> c \<in> {CHR ''_'', CHR ''.'', CHR ''-''})) in
     SeqOf [part, Word ''/'', part])"

definition producer_identity :: "pyval \<Rightarrow> pyval \<Rightarrow> pyval \<Rightarrow> pyval \<Rightarrow> jobject result" where
  "producer_identity repository run_id run_attempt sha =
     (if matches_str owner_rx repository
         \<and> (\<forall>part \<in> set (split_on (CHR ''/'') (as_str repository)). part \<notin> {''.'', ''..''})
         \<and> int_at_least 1 run_id \<and> int_at_least 1 run_attempt \<and> matches_str SHA sha
      then Inr [(''repository'', repository), (''run_id'', run_id), (''run_attempt'', run_attempt), (''source_sha'', sha)]
      else Inl (ValueError ''Invalid package producer identity''))"

definition env_int :: "string \<Rightarrow> int result" where
  "env_int s = (if length s > 4300 then Inl (ValueError ''Exceeds the limit for integer string conversion'') else Inr (int (dec_val s)))"

definition current_producer :: "(string \<Rightarrow> string option) \<Rightarrow> string \<Rightarrow> jobject option result" where
  "current_producer env sha =
     (if env ''GITHUB_ACTIONS'' \<noteq> Some ''true'' then Inr None
      else
        let get = (\<lambda>name. case env name of None \<Rightarrow> [] | Some s \<Rightarrow> s) in
        rbind (value_require (fullmatch positive_numeral (get ''GITHUB_RUN_ID'') \<and> fullmatch positive_numeral (get ''GITHUB_RUN_ATTEMPT''))
          ''Missing or invalid Actions package producer identity'') (\<lambda>_.
        rbind (env_int (get ''GITHUB_RUN_ID'')) (\<lambda>run_id.
        rbind (env_int (get ''GITHUB_RUN_ATTEMPT'')) (\<lambda>attempt.
        rbind (producer_identity (PStr (get ''GITHUB_REPOSITORY'')) (PInt run_id) (PInt attempt) (PStr sha)) (\<lambda>p.
        Inr (Some p))))))"

definition verify_producer_identity :: "jobject \<Rightarrow> jobject \<Rightarrow> unit result" where
  "verify_producer_identity receipt expected =
     (case dget receipt ''producer'' PNone of
        PDict producer \<Rightarrow>
          rbind (value_require (fst ` set producer = fst ` set expected) ''Receipt lacks current package producer identity'') (\<lambda>_.
          rbind (ditem producer ''repository'') (\<lambda>r.
          rbind (ditem producer ''run_id'') (\<lambda>i.
          rbind (ditem producer ''run_attempt'') (\<lambda>a.
          rbind (ditem producer ''source_sha'') (\<lambda>s.
          rbind (producer_identity r i a s) (\<lambda>checked.
          value_require (py_eq (PDict checked) (PDict expected)) ''Receipt belongs to a different package producer attempt''))))))
      | _ \<Rightarrow> Inl (ValueError ''Receipt lacks current package producer identity''))"

section \<open>Evidence\<close>

text \<open>The fields of a version input, as a receipt records them and as the policy declares them.\<close>

definition declared_field :: "plan \<Rightarrow> pyval \<Rightarrow> (pyval \<times> pyval) result" where
  "declared_field p v =
     rbind (pitem v ''format'') (\<lambda>format.
     rbind (projected_value p (as_dict v)) (\<lambda>value.
     rbind (pitem v ''path'') (\<lambda>path.
     Inr (path, PDict [(''format'', format), (''field'', dget (as_dict v) ''field'' PNone), (''package'', dget (as_dict v) ''package'' PNone),
       (''projection'', dget (as_dict v) ''value'' (PStr ''package'')), (''value'', value)]))))"

definition recorded_field :: "pyval \<Rightarrow> pyval result" where
  "recorded_field v =
     (case v of
        PDict item \<Rightarrow> Inr (PDict (map (\<lambda>k. (k, dget item k PNone)) [''format'', ''field'', ''package'', ''projection'', ''value'']))
      | _ \<Rightarrow> Inl (AttributeError ''get''))"

definition policy_files :: "pyval \<Rightarrow> pyval list result" where
  "policy_files policy = rbind (pitem policy ''versioning'') (\<lambda>c. rbind (pitem c ''files'') iter_items)"

definition check_input_file :: "pylib \<Rightarrow> (pyval \<times> pyval) list \<Rightarrow> pyval \<Rightarrow> unit result" where
  "check_input_file L expected file =
     rbind (pget file ''fields'' PNone) (\<lambda>fields.
     (case fields of
        PList xs \<Rightarrow>
          rbind (rmap recorded_field xs) (\<lambda>actual.
          rbind (pitem file ''path'') (\<lambda>path.
          let declared = map snd (filter (\<lambda>pv. fst pv = path) expected) in
          rbind (if declared = [] then Inl (KeyError ''path'') else Inr ()) (\<lambda>_.
          value_require (sort (map (rc_json_bytes L) actual) = sort (map (rc_json_bytes L) declared))
            ''Receipt field values do not match the frozen plan'')))
      | _ \<Rightarrow> Inl (TypeError ''Missing receipt version field projections'')))"

definition validate_input_fields :: "pylib \<Rightarrow> pyval list \<Rightarrow> pyval \<Rightarrow> plan \<Rightarrow> unit result" where
  "validate_input_fields L fs policy p =
     rbind (policy_files policy) (\<lambda>ds.
     rbind (rmap (declared_field p) ds) (\<lambda>expected.
     riter (check_input_file L expected) fs))"

definition paths_of :: "pyval list \<Rightarrow> pyval list result" where
  "paths_of items = rmap (\<lambda>v. rbind (pitem v ''path'') (\<lambda>p. if hashable p then Inr p else Inl (TypeError ''unhashable type''))) items"

definition check_declared_inputs :: "pylib \<Rightarrow> pyval \<Rightarrow> plan \<Rightarrow> pyval list \<Rightarrow> unit result" where
  "check_declared_inputs L policy p items =
     rbind (paths_of items) (\<lambda>have_paths.
     rbind (rbind (policy_files policy) paths_of) (\<lambda>want_paths.
     rbind (value_require (set have_paths = set want_paths) ''Receipt does not cover every declared version source'') (\<lambda>_.
     validate_input_fields L items policy p)))"

definition verify_receipt_evidence ::
  "pylib \<Rightarrow> pyval \<Rightarrow> pyval \<Rightarrow> string \<Rightarrow> pyval option \<Rightarrow> jobject option \<Rightarrow> jobject result" where
  "verify_receipt_evidence L receipt_value plan_value name policy producer =
     rbind (pget receipt_value ''plan_sha256'' PNone) (\<lambda>h.
     let receipt = as_dict receipt_value; fs = dget receipt ''files'' PNone in
     rbind (plan_digest L plan_value) (\<lambda>want.
     rbind (value_require (h = PStr want) (''Build used a different release plan: '' @ name)) (\<lambda>_.
     rbind (validate_plan L plan_value None None) (\<lambda>p.
     rbind (value_require (dget receipt ''source_sha'' PNone = PStr (source_sha p) \<and> truthy fs)
       ''Receipt lacks source-bound version input evidence'') (\<lambda>_.
     rbind (case producer of None \<Rightarrow> Inr () | Some e \<Rightarrow> verify_producer_identity receipt e) (\<lambda>_.
     rbind (value_require (case dget receipt ''toolchain'' PNone of PDict t \<Rightarrow> truthy (dget t ''python'' PNone) | _ \<Rightarrow> False)
       ''Receipt lacks actual build toolchain versions'') (\<lambda>_.
     rbind (iter_items fs) (\<lambda>items.
     rbind (effective_inputs_digest L items) (\<lambda>d.
     rbind (value_require (dget receipt ''effective_inputs_sha256'' PNone = PStr d) ''Receipt version input digest mismatch'') (\<lambda>_.
     rbind (case policy of None \<Rightarrow> Inr () | Some pol \<Rightarrow> check_declared_inputs L pol p items) (\<lambda>_.
     Inr receipt)))))))))))"

section \<open>Coverage\<close>

definition cover_artifact :: "(string \<times> pyval) list \<Rightarrow> string list \<Rightarrow> string list \<Rightarrow> pyval \<Rightarrow> string list result" where
  "cover_artifact expected receipts covered v =
     rbind (pget v ''name'' PNone) (\<lambda>n.
     rbind (if hashable n then Inr () else Inl (TypeError ''unhashable type'')) (\<lambda>_.
     (case n of
        PStr s \<Rightarrow>
          rbind (value_require (s \<notin> set covered \<and> s \<notin> set receipts) ''Payload has duplicate or recursive build coverage'') (\<lambda>_.
          rbind (value_require (case map_of expected s of Some e \<Rightarrow> py_eq e v | None \<Rightarrow> False)
            (''Receipt does not match staged payload: '' @ s)) (\<lambda>_.
          Inr (covered @ [s])))
      | _ \<Rightarrow> Inl (ValueError ''Receipt does not match staged payload''))))"

definition cover_receipt_artifacts ::
  "jobject \<Rightarrow> (string \<times> pyval) list \<Rightarrow> string list \<Rightarrow> string list \<Rightarrow> string list result" where
  "cover_receipt_artifacts receipt expected receipts covered =
     (case dget receipt ''artifacts'' PNone of
        PList artifacts \<Rightarrow>
          rbind (value_require (artifacts \<noteq> []) ''Empty receipt artifact inventory'') (\<lambda>_.
          rfold (cover_artifact expected receipts) covered artifacts)
      | _ \<Rightarrow> Inl (ValueError ''Empty receipt artifact inventory''))"

definition receipt_result :: "pylib \<Rightarrow> string \<Rightarrow> string \<Rightarrow> jobject \<Rightarrow> jobject" where
  "receipt_result L name raw receipt = [(''name'', PStr name), (''sha256'', PStr (sha256 L raw)), (''inputs'', PDict receipt)]"

text \<open>What the publisher expects of every receipt: the plan, the policy and the producer.\<close>

record expectation =
  ex_plan :: pyval
  ex_policy :: "pyval option"
  ex_producer :: "jobject option"

definition check_receipt ::
  "pylib \<Rightarrow> files \<Rightarrow> expectation \<Rightarrow> (string \<times> pyval) list \<Rightarrow> string list \<Rightarrow> string list \<times> jobject list \<Rightarrow> string
     \<Rightarrow> (string list \<times> jobject list) result" where
  "check_receipt L directory X expected receipts st name =
     rbind (case map_of directory name of None \<Rightarrow> Inl (OSError name) | Some raw \<Rightarrow> Inr raw) (\<lambda>raw.
     rbind (value_require (int (length raw) \<le> MAX_RECEIPT_BYTES) ''Oversized build receipt'') (\<lambda>_.
     rbind (loads_bytes L plain_opts raw) (\<lambda>v.
     rbind (verify_receipt_evidence L v (ex_plan X) name (ex_policy X) (ex_producer X)) (\<lambda>receipt.
     rbind (cover_receipt_artifacts receipt expected receipts (fst st)) (\<lambda>covered.
     Inr (covered, snd st @ [receipt_result L name raw receipt]))))))"

definition is_receipt :: "string \<Rightarrow> bool" where
  "is_receipt name = fullmatch receipt_name name"

text \<open>\<open>payloads\<close> are the staged assets by name; \<open>verify_all\<close> is \<open>release_provenance.verify_all\<close>.\<close>

definition verify_receipts ::
  "pylib \<Rightarrow> unit result \<Rightarrow> files \<Rightarrow> expectation \<Rightarrow> (string \<times> pyval) list \<Rightarrow> jobject list result" where
  "verify_receipts L verify_all directory X payloads =
     (let receipts = filter is_receipt (map fst payloads) in
      rbind (value_require (receipts \<noteq> []) ''Versioned release has no build receipts'') (\<lambda>_.
      rbind (rfold (check_receipt L directory X payloads receipts) ([], []) (sort (remdups receipts))) (\<lambda>(covered, results).
      rbind (value_require (set covered = fst ` set payloads - set receipts) ''Some release payloads lack version input evidence'') (\<lambda>_.
      rbind (case ex_policy X of
          None \<Rightarrow> Inr ()
        | Some pol \<Rightarrow>
            if DETACHED_PROVENANCE_REQUIRED then verify_all
            else rbind (pget pol ''detached_provenance'' PNone) (\<lambda>d. if truthy d then verify_all else Inr ())) (\<lambda>_.
      Inr results)))))"

definition verify_required_build_receipts :: "jobject list \<Rightarrow> jobject \<Rightarrow> unit result" where
  "verify_required_build_receipts receipts config =
     rbind (required_build_receipts config) (\<lambda>required.
     (case required of
        None \<Rightarrow> Inr ()
      | Some want \<Rightarrow>
          let names = map (\<lambda>r. as_str (dget r ''name'' PNone)) receipts in
          rbind (value_require (distinct names) ''Duplicate authenticated build receipts'') (\<lambda>_.
          value_require (set names = set want) ''Build receipt inventory differs from source policy'')))"

section \<open>Creation\<close>

text \<open>A checkout: what each path of it is. Sizes are the lengths of the data.\<close>

datatype node = RegularFile int string | SymLink | Folder

type_synonym checkout = "string list \<Rightarrow> node option"

definition MAX_METADATA :: int where "MAX_METADATA = 2000000"

definition plan_path :: "checkout \<Rightarrow> pyval \<Rightarrow> string result" where
  "plan_path tree name =
     rbind (relative name) (\<lambda>parts.
     rbind (require (\<forall>k \<in> set [1..<length parts + 1]. tree (take k parts) \<noteq> Some SymLink) ''Symlink version input is forbidden'') (\<lambda>_.
     (case tree parts of
        Some (RegularFile links data) \<Rightarrow>
          rbind (require (links = 1) ''Hard-linked version input is forbidden'') (\<lambda>_.
          rbind (require (int (length data) \<le> MAX_METADATA) ''Version input is too large'') (\<lambda>_.
          Inr data))
      | _ \<Rightarrow> Inl (VersionError ''Version input is not a confined regular file''))))"

definition verify_current_input :: "pylib \<Rightarrow> checkout \<Rightarrow> pyval \<Rightarrow> unit result" where
  "verify_current_input L tree item =
     rbind (pitem item ''path'') (\<lambda>path.
     rbind (plan_path tree path) (\<lambda>data.
     rbind (pitem item ''after_sha256'') (\<lambda>after.
     value_require (after = PStr (sha256 L data)) ''Build input changed after version sync'')))"

definition verify_current_inputs :: "pylib \<Rightarrow> checkout \<Rightarrow> pyval list \<Rightarrow> unit result" where
  "verify_current_inputs L tree items = riter (verify_current_input L tree) items"

fun package_entries :: "pylib \<Rightarrow> string list \<Rightarrow> (string \<times> source_entry) list \<Rightarrow> files result" where
  "package_entries L seen [] = Inr []"
| "package_entries L seen ((name, entry) # es) =
     rbind (value_require (\<not> (prefix ''release-inputs-'' name \<and> suffix ''.json'' name))
       ''Package directory already contains a version receipt'') (\<lambda>_.
     (case entry of
        Irregular \<Rightarrow> Inl (ValueError (''Package must be a flat regular file: '' @ name))
      | Plain data \<Rightarrow>
          rbind (value_require (lower name \<notin> set seen \<and> fullmatch NAME_RE name) ''Unsafe or duplicate package name'') (\<lambda>_.
          rbind (package_entries L (lower name # seen) es) (\<lambda>rest.
          Inr ((name, data) # rest)))))"

definition receipt_packages :: "pylib \<Rightarrow> (string \<times> source_entry) list \<Rightarrow> files result" where
  "receipt_packages L entries =
     rbind (package_entries L [] (sort_key fst entries)) (\<lambda>packages.
     rbind (value_require (packages \<noteq> []) ''Cannot attest an empty package directory'') (\<lambda>_.
     Inr packages))"

text \<open>The platform a build runs on: its environment and the installed tools; a tool that is not found is no
  entry, one that fails raises.\<close>

record platform =
  pf_name :: string
  pf_python :: string
  pf_env :: "string \<Rightarrow> string option"
  pf_tool :: "string \<Rightarrow> string \<Rightarrow> string result option"

definition tool_probes :: "(string \<times> string) list" where
  "tool_probes = [(''node'', ''--version''), (''rustc'', ''--version''), (''cargo'', ''--version''), (''go'', ''version''), (''xcodebuild'', ''-version'')]"

definition capture_tool :: "platform \<Rightarrow> jobject \<Rightarrow> string \<times> string \<Rightarrow> jobject result" where
  "capture_tool B d probe =
     (case pf_tool B (fst probe) (snd probe) of
        None \<Rightarrow> Inr d
      | Some out \<Rightarrow>
          rbind out (\<lambda>output.
          let value = strip_by space_char (code_points output) in
          rbind (value_require (value \<noteq> [] \<and> length value \<le> 4096) (''Invalid toolchain version output: '' @ fst probe)) (\<lambda>_.
          Inr (dict_set d (fst probe) (PStr (join_chars value))))))"

definition capture_toolchain :: "platform \<Rightarrow> jobject result" where
  "capture_toolchain B =
     rfold (capture_tool B)
       ([(''platform'', PStr (pf_name B)), (''python'', PStr (pf_python B))] @
        concat (map (\<lambda>name. case pf_env B name of None \<Rightarrow> [] | Some v \<Rightarrow> if v = [] then [] else [(name, PStr v)])
          [''ImageOS'', ''ImageVersion'', ''RUNNER_OS'', ''RUNNER_ARCH''])) tool_probes"

definition load_document :: "pylib \<Rightarrow> string \<Rightarrow> pyval result" where
  "load_document L raw =
     rbind (if utf8_ok False raw then Inr () else Inl (ValueError ''invalid utf-8'')) (\<lambda>_. loads_text L plain_opts raw)"

text \<open>The receipt of a build and the file it becomes. \<open>here\<close> says that the output's directory is the asset
  directory. A name that already exists there is an entry and was refused before.\<close>

definition create_receipt ::
  "pylib \<Rightarrow> platform \<Rightarrow> checkout \<Rightarrow> string \<Rightarrow> string \<Rightarrow> (string \<times> source_entry) list option \<Rightarrow> bool \<Rightarrow> string \<Rightarrow> (jobject \<times> string) result" where
  "create_receipt L B tree plan_raw inputs_raw source here name =
     rbind (load_document L plan_raw) (\<lambda>plan_value.
     rbind (validate_plan L plan_value None None) (\<lambda>p.
     rbind (load_document L inputs_raw) (\<lambda>evidence_value.
     rbind (pget evidence_value ''plan_sha256'' PNone) (\<lambda>h.
     let evidence = as_dict evidence_value; fs = dget evidence ''files'' PNone in
     rbind (plan_digest L plan_value) (\<lambda>want.
     rbind (value_require (h = PStr want) ''Build inputs belong to a different release plan'') (\<lambda>_.
     rbind (value_require (dget evidence ''source_sha'' PNone = PStr (source_sha p) \<and> truthy fs) ''Missing source-bound version inputs'') (\<lambda>_.
     rbind (iter_items fs) (\<lambda>items.
     rbind (effective_inputs_digest L items) (\<lambda>d.
     rbind (value_require (dget evidence ''effective_inputs_sha256'' PNone = PStr d) ''Build input evidence digest mismatch'') (\<lambda>_.
     (case source of
        None \<Rightarrow> Inl (ValueError ''Assets must be a regular directory'')
      | Some entries \<Rightarrow>
          rbind (value_require (here \<and> is_receipt name) ''Receipt must have a unique release-inputs-TARGET.json name'') (\<lambda>_.
          rbind (receipt_packages L entries) (\<lambda>packages.
          rbind (capture_toolchain B) (\<lambda>toolchain.
          let result = dict_set (dict_set evidence ''artifacts'' (PList (map (\<lambda>(n, d). asset_json L n d) packages))) ''toolchain'' (PDict toolchain) in
          rbind (current_producer (pf_env B) (source_sha p)) (\<lambda>producer.
          let receipt = (case producer of None \<Rightarrow> result | Some e \<Rightarrow> dict_set result ''producer'' (PDict e)) in
          rbind (verify_current_inputs L tree items) (\<lambda>_.
          Inr (receipt, rc_json_bytes L (PDict receipt))))))))))))))))))"

section \<open>What accepted receipts cover\<close>

definition artifact_list :: "jobject \<Rightarrow> pyval list" where
  "artifact_list receipt = items_of (dget receipt ''artifacts'' PNone)"

definition artifact_name :: "pyval \<Rightarrow> string" where
  "artifact_name v = as_str (dget (as_dict v) ''name'' PNone)"

definition inputs_of :: "jobject \<Rightarrow> jobject" where
  "inputs_of r = as_dict (dget r ''inputs'' PNone)"

lemma cover_artifact_Inr:
  "cover_artifact E R covered v = Inr c \<longleftrightarrow> (\<exists>e. c = covered @ [artifact_name v] \<and> artifact_name v \<notin> set covered \<union> set R
     \<and> pget v ''name'' PNone = Inr (PStr (artifact_name v)) \<and> map_of E (artifact_name v) = Some e \<and> py_eq e v)"
proof (cases v)
  case (PDict d)
  then show ?thesis
    by (cases "dget d ''name'' PNone")
       (auto simp: cover_artifact_def artifact_name_def pget_def as_dict_def as_str_def hashable_def rbind_Inr_iff split: option.splits)
qed (simp_all add: cover_artifact_def pget_def)

lemma cover_fold:
  "rfold (cover_artifact E R) covered vs = Inr c \<Longrightarrow> distinct covered \<Longrightarrow>
     c = covered @ map artifact_name vs \<and> distinct c \<and> set (map artifact_name vs) \<inter> set R = {}
     \<and> (\<forall>v \<in> set vs. \<exists>e. map_of E (artifact_name v) = Some e \<and> py_eq e v)"
  by (induction vs arbitrary: covered) (fastforce simp: rbind_Inr_iff cover_artifact_Inr)+

lemma cover_receipt_Inr:
  assumes "cover_receipt_artifacts receipt E R covered = Inr c" "distinct covered"
  shows "c = covered @ map artifact_name (artifact_list receipt)" "distinct c"
    "set (map artifact_name (artifact_list receipt)) \<inter> set R = {}"
    "\<And>v. v \<in> set (artifact_list receipt) \<Longrightarrow> \<exists>e. map_of E (artifact_name v) = Some e \<and> py_eq e v"
proof -
  from assms(1) obtain vs where vs: "dget receipt ''artifacts'' PNone = PList vs" "rfold (cover_artifact E R) covered vs = Inr c"
    unfolding cover_receipt_artifacts_def by (auto simp: rbind_Inr_iff split: pyval.splits)
  then have l: "artifact_list receipt = vs" by (simp add: artifact_list_def items_of_def)
  note f = cover_fold [OF vs(2) assms(2)]
  show "c = covered @ map artifact_name (artifact_list receipt)" "distinct c"
    "set (map artifact_name (artifact_list receipt)) \<inter> set R = {}"
    "\<And>v. v \<in> set (artifact_list receipt) \<Longrightarrow> \<exists>e. map_of E (artifact_name v) = Some e \<and> py_eq e v"
    using f unfolding l by blast+
qed

definition result_name :: "jobject \<Rightarrow> string" where
  "result_name r = as_str (dget r ''name'' PNone)"

definition covered_names :: "jobject list \<Rightarrow> string list" where
  "covered_names results = concat (map (\<lambda>r. map artifact_name (artifact_list (inputs_of r))) results)"

text \<open>A checked receipt: its bytes are the staged ones and its evidence is of the expected plan.\<close>

definition receipt_checked :: "pylib \<Rightarrow> files \<Rightarrow> expectation \<Rightarrow> jobject \<Rightarrow> bool" where
  "receipt_checked L directory X r \<longleftrightarrow>
     (\<exists>raw v receipt. map_of directory (result_name r) = Some raw \<and> loads_bytes L plain_opts raw = Inr v \<and> r = receipt_result L (result_name r) raw receipt
        \<and> verify_receipt_evidence L v (ex_plan X) (result_name r) (ex_policy X) (ex_producer X) = Inr receipt)"

lemma receipt_result_simps [simp]:
  "result_name (receipt_result L name raw receipt) = name" "inputs_of (receipt_result L name raw receipt) = receipt"
  by (simp_all add: receipt_result_def result_name_def inputs_of_def dget_def as_str_def as_dict_def)

lemma receipts_fold:
  assumes "rfold (check_receipt L directory X E R) (covered, results) names = Inr (covered', results')" "distinct covered"
  shows "\<exists>new. results' = results @ new \<and> map result_name new = names \<and> covered' = covered @ covered_names new \<and> distinct covered'
    \<and> set (covered_names new) \<inter> set R = {} \<and> (\<forall>r \<in> set new. receipt_checked L directory X r
        \<and> (\<forall>v \<in> set (artifact_list (inputs_of r)). \<exists>e. map_of E (artifact_name v) = Some e \<and> py_eq e v))"
  using assms
proof (induction names arbitrary: covered results)
  case Nil
  then show ?case by (intro exI [of _ "[]"]) (simp add: covered_names_def)
next
  case (Cons name names)
  from Cons.prems(1) obtain st where st: "check_receipt L directory X E R (covered, results) name = Inr st"
    and rest0: "rfold (check_receipt L directory X E R) st names = Inr (covered', results')" by (auto simp: rbind_Inr_iff)
  from st obtain raw v receipt c where
    raw: "map_of directory name = Some raw" "loads_bytes L plain_opts raw = Inr v"
      "verify_receipt_evidence L v (ex_plan X) name (ex_policy X) (ex_producer X) = Inr receipt"
    and cover: "cover_receipt_artifacts receipt E R covered = Inr c"
    and st': "st = (c, results @ [receipt_result L name raw receipt])"
    by (auto simp: check_receipt_def rbind_Inr_iff split: option.splits)
  note rest = rest0 [unfolded st']
  note cv = cover_receipt_Inr [OF cover Cons.prems(2)]
  from Cons.IH [OF rest cv(2)] obtain new where
    new: "results' = (results @ [receipt_result L name raw receipt]) @ new" "map result_name new = names" "covered' = c @ covered_names new"
      "distinct covered'" "set (covered_names new) \<inter> set R = {}"
      "\<forall>r \<in> set new. receipt_checked L directory X r
        \<and> (\<forall>v \<in> set (artifact_list (inputs_of r)). \<exists>e. map_of E (artifact_name v) = Some e \<and> py_eq e v)" by blast
  have "receipt_checked L directory X (receipt_result L name raw receipt)"
    using raw unfolding receipt_checked_def by auto
  moreover have "covered_names (receipt_result L name raw receipt # new) = map artifact_name (artifact_list receipt) @ covered_names new"
    by (simp add: covered_names_def)
  ultimately show ?case using new cv by (intro exI [of _ "receipt_result L name raw receipt # new"]) auto
qed

text \<open>
  C24: accepted receipts account for every payload exactly once. When \<open>verify_receipts\<close> accepts a staged
  directory, the receipts are exactly its files named as such, each with its staged bytes and evidence of the
  expected plan, policy and producer; over all receipts together no payload is listed twice, every other
  staged file is listed, no receipt is, and each listed entry is the staged file's own name, size and SHA-256.
\<close>

theorem receipts_cover_payloads:
  assumes "verify_receipts L verify_all fs X (map (\<lambda>(n, d). (n, asset_json L n d)) fs) = Inr results"
  shows "set (map result_name results) = {n. n \<in> fst ` set fs \<and> is_receipt n} \<and> distinct (map result_name results)
    \<and> list_all (receipt_checked L fs X) results \<and> distinct (covered_names results)
    \<and> set (covered_names results) = {n. n \<in> fst ` set fs \<and> \<not> is_receipt n}
    \<and> (\<forall>r v. r \<in> set results \<and> v \<in> set (artifact_list (inputs_of r)) \<longrightarrow>
         (\<exists>data. (artifact_name v, data) \<in> set fs \<and> py_eq (asset_json L (artifact_name v) data) v))"
proof -
  let ?payloads = "map (\<lambda>(n, d). (n, asset_json L n d)) fs"
  let ?R = "filter is_receipt (map fst ?payloads)"
  have names: "map fst ?payloads = map fst fs" by (simp add: case_prod_unfold)
  from assms(1) obtain covered where
    fold: "rfold (check_receipt L fs X ?payloads ?R) ([], []) (sort (remdups ?R)) = Inr (covered, results)"
    and all: "set covered = fst ` set ?payloads - set ?R"
    unfolding verify_receipts_def Let_def by (auto simp: rbind_Inr_iff split: prod.splits)
  from receipts_fold [OF fold] have
    f: "map result_name results = sort (remdups ?R)" "covered = covered_names results" "distinct covered"
      "\<forall>r \<in> set results. receipt_checked L fs X r
        \<and> (\<forall>v \<in> set (artifact_list (inputs_of r)). \<exists>e. map_of ?payloads (artifact_name v) = Some e \<and> py_eq e v)" by auto
  have fsts: "fst ` set ?payloads = fst ` set fs" by force
  have R: "set ?R = {n. n \<in> fst ` set fs \<and> is_receipt n}" unfolding names set_filter set_map ..
  have "map_of ?payloads n = Some e \<Longrightarrow> \<exists>data. (n, data) \<in> set fs \<and> e = asset_json L n data" for n e
    by (drule map_of_SomeD) auto
  then have "\<exists>data. (artifact_name v, data) \<in> set fs \<and> py_eq (asset_json L (artifact_name v) data) v"
    if "r \<in> set results" "v \<in> set (artifact_list (inputs_of r))" for r v using f(4) that by blast
  moreover have "set (covered_names results) = {n. n \<in> fst ` set fs \<and> \<not> is_receipt n}" using all f(2) R fsts by auto
  moreover have "set (map result_name results) = {n. n \<in> fst ` set fs \<and> is_receipt n}" "distinct (map result_name results)"
    using R unfolding f(1) by simp_all
  ultimately show ?thesis using f(2,3,4) by (simp add: list_all_iff) blast
qed

end
