(* ===== verification/ReceiptProps.thy ===== *)
theory ReceiptProps
  imports VersionReceipt LedgerCodec
begin

text \<open>
  The round trip of a receipt: what \<open>create_receipt\<close> writes next to its packages, \<open>verify_receipts\<close>
  accepts for the same plan and producer.
\<close>

section \<open>Plain JSON documents\<close>

lemma dict_set_fresh: "k \<notin> fst ` set d \<Longrightarrow> dict_set d k v = d @ [(k, v)]"
  by (induction d) auto

lemma dict_pairs_distinct: "distinct (map fst d) \<Longrightarrow> dict_pairs d = d"
proof (induction d rule: rev_induct)
  case Nil
  then show ?case by (simp add: dict_pairs_def)
next
  case (snoc kv d)
  then have "dict_pairs d = d" "fst kv \<notin> fst ` set d" by auto
  then show ?case by (cases kv) (simp add: dict_pairs_def dict_set_fresh)
qed

lemma keeps_distinct_plain: "keeps_distinct plain_opts"
  unfolding keeps_distinct_def plain_opts_def by (simp add: dict_pairs_distinct)

lemma loads_plain_dump:
  assumes "clean v"
  shows "loads_bytes L plain_opts (rc_json_bytes L v) = Inr (sort_keys v)"
proof -
  let ?s = "rc_json_bytes L v"
  have c: "clean (sort_keys v)" using assms by simp
  have a: "ascii ?s" using dump_ascii(1) [OF c] by (simp add: rc_json_bytes_def)
  then have b: "\<not> prefix BOM ?s" by (cases ?s) (auto simp: BOM_def)
  have "skip_ws ?s = ?s" using skip_ws_dump [OF c] by (simp add: rc_json_bytes_def)
  moreover have "raw_decode L plain_opts ?s = Inr (sort_keys v, [CHR 0x0A])"
    unfolding rc_json_bytes_def
    by (rule raw_decode_dump(1) [OF c keeps_distinct_plain]) (simp add: stops_def is_digit_def)
  ultimately have "loads_text L plain_opts ?s = Inr (sort_keys v)" by (simp add: loads_text_def)
  with a b show ?thesis by (simp add: loads_bytes_def utf8_ok_ascii)
qed

section \<open>Evidence under sorting\<close>

lemma dget_dict_set: "dget (dict_set d k v) k' w = (if k' = k then v else dget d k' w)"
  by (simp add: dget_def map_of_dict_set)

lemma dget_sorted: "distinct (map fst d) \<Longrightarrow> dget (sort_items d) k PNone = sort_keys (dget d k PNone)"
  by (simp add: dget_def map_of_sort_items split: option.split)

lemma pitem_sorted: "clean v \<Longrightarrow> pitem v k = Inr w \<Longrightarrow> pitem (sort_keys v) k = Inr (sort_keys w)"
  by (cases v) (auto simp: pitem_def sort_keys_PDict map_of_sort_items simp del: sort_keys.simps(2) map_of_eq_Some_iff)

lemma relative_Inr_str: "relative v = Inr parts \<Longrightarrow> \<exists>s. v = PStr s"
  by (cases v) (simp_all add: relative_def)

lemma effective_entries_sorted:
  "effective_entries seen items = Inr es \<Longrightarrow> list_all clean items \<Longrightarrow> effective_entries seen (map sort_keys items) = Inr es"
proof (induction items arbitrary: seen es)
  case (Cons item items)
  from Cons.prems obtain path after parts rest where
    p: "pitem item ''path'' = Inr path" "relative path = Inr parts" "as_str path \<notin> set seen" "pitem item ''after_sha256'' = Inr after"
    and a: "(case after of PStr s \<Rightarrow> require (fullmatch SHA256_HEX s) ''Invalid effective input digest''
            | _ \<Rightarrow> Inl (TypeError ''expected string or bytes-like object'')) = Inr ()"
    and r: "effective_entries (as_str path # seen) items = Inr rest" and es: "es = (as_str path, as_str after) # rest"
    by (auto simp: rbind_Inr_iff)
  from p(2) obtain s where s: "path = PStr s" using relative_Inr_str by blast
  from a obtain t where t: "after = PStr t" by (cases after) simp_all
  have "pitem (sort_keys item) ''path'' = Inr path" "pitem (sort_keys item) ''after_sha256'' = Inr after"
    using Cons.prems(2) pitem_sorted [of item] p(1,4) by (simp_all add: s t)
  with Cons.IH [OF r] Cons.prems(2) p a es show ?case by (simp add: s t)
qed simp

lemma clean_list_iff: "clean_list xs \<longleftrightarrow> list_all clean xs"
  by (induction xs) auto

lemma sort_keys_list_map: "sort_keys_list xs = map sort_keys xs"
  by (induction xs) auto

lemma sort_keys_items_keys: "sort_keys_items (map (\<lambda>k. (k, f k)) ks) = map (\<lambda>k. (k, sort_keys (f k))) ks"
  by (induction ks) auto

lemma recorded_sorted:
  assumes "recorded_field v = Inr a" "clean v"
  shows "\<exists>a'. recorded_field (sort_keys v) = Inr a' \<and> rc_json_bytes L a' = rc_json_bytes L a"
proof -
  let ?ks = "[''format'', ''field'', ''package'', ''projection'', ''value'']"
  from assms obtain d where d: "v = PDict d" "distinct (map fst d)" "a = PDict (map (\<lambda>k. (k, dget d k PNone)) ?ks)"
    unfolding recorded_field_def by (cases v) (auto simp del: list.map)
  let ?a = "PDict (map (\<lambda>k. (k, sort_keys (dget d k PNone))) ?ks)"
  have "recorded_field (sort_keys v) = Inr ?a"
    unfolding recorded_field_def d(1) sort_keys_PDict using d(2) by (simp add: dget_sorted del: list.map)
  moreover have "sort_keys ?a = sort_keys a"
    unfolding d(3) sort_keys.simps sort_keys_items_keys by simp
  ultimately show ?thesis by (auto simp: rc_json_bytes_def)
qed

lemma rmap_recorded_sorted:
  "rmap recorded_field xs = Inr ys \<Longrightarrow> list_all clean xs
    \<Longrightarrow> \<exists>zs. rmap recorded_field (map sort_keys xs) = Inr zs \<and> map (rc_json_bytes L) zs = map (rc_json_bytes L) ys"
proof (induction xs arbitrary: ys)
  case (Cons x xs)
  from Cons.prems obtain a bs where a: "recorded_field x = Inr a" "rmap recorded_field xs = Inr bs" "ys = a # bs"
    by (auto simp: rbind_Inr_iff)
  from recorded_sorted [OF a(1)] Cons.prems(2) obtain a' where
    a': "recorded_field (sort_keys x) = Inr a'" "rc_json_bytes L a' = rc_json_bytes L a" by auto
  from Cons.IH [OF a(2)] Cons.prems(2) obtain zs where
    "rmap recorded_field (map sort_keys xs) = Inr zs" "map (rc_json_bytes L) zs = map (rc_json_bytes L) bs" by auto
  with a(3) a' show ?case by (intro exI [of _ "a' # zs"]) simp
qed simp

lemma pget_sorted: "clean v \<Longrightarrow> pget v k PNone = Inr w \<Longrightarrow> pget (sort_keys v) k PNone = Inr (sort_keys w)"
  by (cases v) (auto simp: pget_def sort_keys_PDict dget_sorted simp del: sort_keys.simps(2))

lemma clean_dget: "clean (PDict d) \<Longrightarrow> clean (dget d k PNone)"
  by (auto simp: dget_def clean_items_iff split: option.split dest!: map_of_SomeD)

lemma check_input_file_sorted:
  assumes "check_input_file L E v = Inr ()" "clean v" "pitem v ''path'' = Inr (PStr s)"
  shows "check_input_file L E (sort_keys v) = Inr ()"
proof -
  from assms(1) obtain fields where fields: "pget v ''fields'' PNone = Inr fields"
    unfolding check_input_file_def by (auto simp: rbind_Inr_iff)
  with assms(1) obtain xs actual where xs: "pget v ''fields'' PNone = Inr (PList xs)" "rmap recorded_field xs = Inr actual"
    and rest: "map snd (filter (\<lambda>pv. fst pv = PStr s) E) \<noteq> []"
      "sort (map (rc_json_bytes L) actual) = sort (map (rc_json_bytes L) (map snd (filter (\<lambda>pv. fst pv = PStr s) E)))"
    unfolding check_input_file_def Let_def using assms(3) by (cases fields) (auto simp: rbind_Inr_iff split: if_splits)
  from xs(1) obtain d where "v = PDict d" "dget d ''fields'' PNone = PList xs" by (cases v) (simp_all add: pget_def)
  then have "clean (PList xs)" using clean_dget [of d "''fields''"] assms(2) by simp
  then have "list_all clean xs" by (simp add: clean_list_iff)
  from rmap_recorded_sorted [OF xs(2) this, of L] obtain zs where
    zs: "rmap recorded_field (map sort_keys xs) = Inr zs" "map (rc_json_bytes L) zs = map (rc_json_bytes L) actual" by blast
  have "pget (sort_keys v) ''fields'' PNone = Inr (PList (map sort_keys xs))"
    using pget_sorted [OF assms(2) xs(1)] by (simp add: sort_keys_list_map)
  moreover have "pitem (sort_keys v) ''path'' = Inr (PStr s)" using pitem_sorted [OF assms(2,3)] by simp
  ultimately show ?thesis
    unfolding check_input_file_def Let_def using zs rest by simp
qed

lemma effective_entries_paths:
  "effective_entries seen items = Inr es \<Longrightarrow> v \<in> set items \<Longrightarrow> \<exists>s. pitem v ''path'' = Inr (PStr s)"
proof (induction items arbitrary: seen es)
  case (Cons item items)
  then show ?case using relative_Inr_str by (fastforce simp: rbind_Inr_iff)
qed simp

lemma paths_of_sorted:
  "paths_of items = Inr ps \<Longrightarrow> list_all clean items \<Longrightarrow> (\<And>v. v \<in> set items \<Longrightarrow> \<exists>s. pitem v ''path'' = Inr (PStr s))
    \<Longrightarrow> paths_of (map sort_keys items) = Inr ps"
proof (induction items arbitrary: ps)
  case (Cons v items)
  from Cons.prems(3) obtain s where s: "pitem v ''path'' = Inr (PStr s)" by auto
  with Cons.prems(1) obtain qs where q: "paths_of items = Inr qs" "ps = PStr s # qs"
    by (auto simp: paths_of_def rbind_Inr_iff hashable_def)
  have "pitem (sort_keys v) ''path'' = Inr (PStr s)" using pitem_sorted [OF _ s] Cons.prems(2) by simp
  then show ?case using Cons.IH [OF q(1)] Cons.prems(2,3) q(2) by (simp add: paths_of_def hashable_def)
qed (simp add: paths_of_def)

lemma declared_inputs_sorted:
  assumes "check_declared_inputs L policy p items = Inr ()" "effective_entries [] items = Inr es" "list_all clean items"
  shows "check_declared_inputs L policy p (map sort_keys items) = Inr ()"
proof -
  note paths = effective_entries_paths [OF assms(2)]
  from assms(1) obtain have_paths want_paths where
    h: "paths_of items = Inr have_paths" "rbind (policy_files policy) paths_of = Inr want_paths" "set have_paths = set want_paths"
    and v: "validate_input_fields L items policy p = Inr ()"
    unfolding check_declared_inputs_def by (auto simp: rbind_Inr_iff)
  from v obtain ds E where E: "policy_files policy = Inr ds" "rmap (declared_field p) ds = Inr E"
    and f: "\<forall>v \<in> set items. check_input_file L E v = Inr ()"
    unfolding validate_input_fields_def by (auto simp: rbind_Inr_iff)
  have "check_input_file L E (sort_keys v) = Inr ()" if "v \<in> set items" for v
    using f that paths [OF that] assms(3) check_input_file_sorted by (auto simp: list_all_iff)
  then have "validate_input_fields L (map sort_keys items) policy p = Inr ()"
    unfolding validate_input_fields_def using E by simp
  then show ?thesis
    unfolding check_declared_inputs_def using h paths_of_sorted [OF h(1) assms(3) paths] by simp
qed

section \<open>Created receipts are accepted\<close>

lemma receipt_name_shape: "fullmatch receipt_name n \<Longrightarrow> prefix ''release-inputs-'' n \<and> suffix ''.json'' n"
  unfolding receipt_name_def fullmatch_lang by (auto simp: SeqOf_simps prefix_def suffix_def)

lemma package_entries_names:
  "package_entries L seen es = Inr ps \<Longrightarrow> distinct (map fst ps) \<and> (\<forall>(n, d) \<in> set ps. \<not> is_receipt n \<and> lower n \<notin> set seen)"
proof (induction L seen es arbitrary: ps rule: package_entries.induct)
  case (2 L seen name entry es)
  from 2(2) obtain data rest where e: "entry = Plain data" "\<not> (prefix ''release-inputs-'' name \<and> suffix ''.json'' name)"
    "lower name \<notin> set seen" "package_entries L (lower name # seen) es = Inr rest" "ps = (name, data) # rest"
    by (auto simp: rbind_Inr_iff split: source_entry.splits)
  have "\<not> is_receipt name" using e(2) receipt_name_shape unfolding is_receipt_def by blast
  moreover have "distinct (map fst rest) \<and> (\<forall>(n, d) \<in> set rest. \<not> is_receipt n \<and> lower n \<notin> set (lower name # seen))"
    by (rule "2.IH" [OF e(1) e(4)])
  ultimately show ?case using e(3,5) by force
qed simp

lemma capture_tool_python: "capture_tool B d probe = Inr d' \<Longrightarrow> fst probe \<noteq> ''python'' \<Longrightarrow> dget d' ''python'' PNone = dget d ''python'' PNone"
  unfolding capture_tool_def Let_def by (auto simp: rbind_Inr_iff dget_dict_set split: option.splits)

lemma capture_tools_python:
  "rfold (capture_tool B) d ps = Inr t \<Longrightarrow> \<forall>q \<in> set ps. fst q \<noteq> ''python'' \<Longrightarrow> dget t ''python'' PNone = dget d ''python'' PNone"
proof (induction ps arbitrary: d)
  case (Cons q ps)
  then show ?case using capture_tool_python by (fastforce simp: rbind_Inr_iff)
qed simp

lemma capture_python: "capture_toolchain B = Inr t \<Longrightarrow> dget t ''python'' PNone = PStr (pf_python B)"
  unfolding capture_toolchain_def
  by (drule capture_tools_python) (simp_all add: tool_probes_def, simp add: dget_def)

lemma asset_json_sorted: "py_eq (asset_json L n d) (sort_keys (asset_json L n d))"
  by (simp add: asset_json_def sort_key_def insort_key_def dget_def)

lemma create_receipt_facts:
  assumes "create_receipt L B tree plan_raw inputs_raw (Some entries) here name = Inr (receipt, content)"
    and "load_document L plan_raw = Inr plan_value"
  obtains p want items h packages t producer where
    "validate_plan L plan_value None None = Inr p" "plan_digest L plan_value = Inr want"
    "dget receipt ''plan_sha256'' PNone = PStr want" "dget receipt ''source_sha'' PNone = PStr (source_sha p)"
    "truthy (dget receipt ''files'' PNone)" "iter_items (dget receipt ''files'' PNone) = Inr items"
    "effective_inputs_digest L items = Inr h" "dget receipt ''effective_inputs_sha256'' PNone = PStr h"
    "is_receipt name" "receipt_packages L entries = Inr packages" "capture_toolchain B = Inr t"
    "dget receipt ''toolchain'' PNone = PDict t"
    "dget receipt ''artifacts'' PNone = PList (map (\<lambda>(n, d). asset_json L n d) packages)"
    "current_producer (pf_env B) (source_sha p) = Inr producer"
    "\<forall>e. producer = Some e \<longrightarrow> dget receipt ''producer'' PNone = PDict e"
    "content = rc_json_bytes L (PDict receipt)"
proof -
  from assms obtain evidence_value v where "load_document L inputs_raw = Inr evidence_value" "pget evidence_value ''plan_sha256'' PNone = Inr v"
    unfolding create_receipt_def by (auto simp: rbind_Inr_iff)
  then obtain ev where ev: "load_document L inputs_raw = Inr (PDict ev)" by (cases evidence_value) (simp_all add: pget_def)
  have d: "as_dict (PDict ev) = ev" by (simp add: as_dict_def)
  from assms(1) obtain p want items h packages t producer where
    f: "validate_plan L plan_value None None = Inr p" "plan_digest L plan_value = Inr want"
      "dget ev ''plan_sha256'' PNone = PStr want" "dget ev ''source_sha'' PNone = PStr (source_sha p)"
      "truthy (dget ev ''files'' PNone)" "iter_items (dget ev ''files'' PNone) = Inr items"
      "effective_inputs_digest L items = Inr h" "dget ev ''effective_inputs_sha256'' PNone = PStr h"
      "is_receipt name" "receipt_packages L entries = Inr packages" "capture_toolchain B = Inr t"
      "current_producer (pf_env B) (source_sha p) = Inr producer"
    and r: "receipt = (let result = dict_set (dict_set ev ''artifacts'' (PList (map (\<lambda>(n, d). asset_json L n d) packages)))
          ''toolchain'' (PDict t) in case producer of None \<Rightarrow> result | Some e \<Rightarrow> dict_set result ''producer'' (PDict e))"
      "content = rc_json_bytes L (PDict receipt)"
    unfolding create_receipt_def Let_def assms(2) ev rbind_simps d
    by (clarsimp simp: rbind_Inr_iff pget_def)
  show thesis
    by (rule that [of p want items h packages t producer])
       (use f r in \<open>auto simp: Let_def dget_dict_set split: option.splits\<close>)
qed

lemma producer_accepted:
  assumes "current_producer env sha = Inr (Some e)" "dget receipt ''producer'' PNone = sort_keys (PDict e)"
  shows "verify_producer_identity receipt e = Inr ()"
proof -
  from assms(1) obtain r i a where e: "producer_identity (PStr r) (PInt i) (PInt a) (PStr sha) = Inr e"
    unfolding current_producer_def Let_def by (auto simp: rbind_Inr_iff split: if_splits)
  then have l: "e = [(''repository'', PStr r), (''run_id'', PInt i), (''run_attempt'', PInt a), (''source_sha'', PStr sha)]"
    unfolding producer_identity_def by (auto split: if_splits)
  have s: "sort_keys (PDict e) = PDict [(''repository'', PStr r), (''run_attempt'', PInt a), (''run_id'', PInt i), (''source_sha'', PStr sha)]"
    unfolding l by (simp add: sort_key_def insort_key_def)
  show ?thesis
    unfolding verify_producer_identity_def assms(2) s using e l by (auto simp: ditem_def insert_commute)
qed

text \<open>What the publisher must expect for a receipt it created itself.\<close>

definition expects :: "pylib \<Rightarrow> platform \<Rightarrow> pyval \<Rightarrow> plan \<Rightarrow> jobject \<Rightarrow> expectation \<Rightarrow> bool" where
  "expects L B plan_value p receipt X \<longleftrightarrow> ex_plan X = plan_value
     \<and> (case ex_policy X of None \<Rightarrow> True
        | Some pol \<Rightarrow> check_declared_inputs L pol p (items_of (dget receipt ''files'' PNone)) = Inr ()
            \<and> (\<exists>d. pget pol ''detached_provenance'' PNone = Inr d \<and> \<not> truthy d))
     \<and> (case ex_producer X of None \<Rightarrow> True | Some e \<Rightarrow> current_producer (pf_env B) (source_sha p) = Inr (Some e))"

lemma evidence_accepted:
  assumes created: "create_receipt L B tree plan_raw inputs_raw (Some entries) here name = Inr (receipt, content)"
    and plan: "load_document L plan_raw = Inr plan_value" "validate_plan L plan_value None None = Inr p"
    and ok: "clean (PDict receipt)" "pf_python B \<noteq> []"
    and X: "expects L B plan_value p receipt X"
  shows "verify_receipt_evidence L (PDict (sort_items receipt)) plan_value n (ex_policy X) (ex_producer X) = Inr (sort_items receipt)"
proof -
  obtain q want items h packages t producer where
    f: "validate_plan L plan_value None None = Inr q" "plan_digest L plan_value = Inr want"
    "dget receipt ''plan_sha256'' PNone = PStr want" "dget receipt ''source_sha'' PNone = PStr (source_sha q)"
    and fs: "truthy (dget receipt ''files'' PNone)" "iter_items (dget receipt ''files'' PNone) = Inr items"
    "effective_inputs_digest L items = Inr h" "dget receipt ''effective_inputs_sha256'' PNone = PStr h"
    and "is_receipt name" "receipt_packages L entries = Inr packages"
    and t: "capture_toolchain B = Inr t" "dget receipt ''toolchain'' PNone = PDict t"
    and "dget receipt ''artifacts'' PNone = PList (map (\<lambda>(n, d). asset_json L n d) packages)"
    and pr: "current_producer (pf_env B) (source_sha q) = Inr producer" "\<forall>e. producer = Some e \<longrightarrow> dget receipt ''producer'' PNone = PDict e"
    and "content = rc_json_bytes L (PDict receipt)"
    using created plan(1) by (rule create_receipt_facts)
  have q: "q = p" using f(1) plan(2) by simp
  have d: "distinct (map fst receipt)" using ok(1) by simp
  note get = dget_sorted [OF d]
  from fs(3) obtain es where es: "effective_entries [] items = Inr es"
    unfolding effective_inputs_digest_def by (auto simp: rbind_Inr_iff)
  have "dget receipt ''files'' PNone = PList items"
  proof (cases "dget receipt ''files'' PNone")
    case (PStr s)
    with fs(1,2) obtain c cs where "items = PStr c # cs" by (cases s) (auto simp: iter_items_def)
    then show ?thesis using es by (simp add: pitem_def)
  next
    case (PDict e)
    with fs(1,2) obtain c cs where "items = PStr c # cs" by (cases e) (auto simp: iter_items_def)
    then show ?thesis using es by (simp add: pitem_def)
  qed (use fs(2) in \<open>auto simp: iter_items_def\<close>)
  note fl = this
  have cl: "list_all clean items" using clean_dget [OF ok(1), of "''files''"] by (simp add: fl clean_list_iff)
  have fl': "dget (sort_items receipt) ''files'' PNone = PList (map sort_keys items)"
    using get [of "''files''"] by (simp add: fl sort_keys_list_map)
  have nonempty: "items \<noteq> []" using fs(1) fl by simp
  have eff: "effective_inputs_digest L (map sort_keys items) = Inr h"
    using fs(3) es effective_entries_sorted [OF es cl] unfolding effective_inputs_digest_def by simp
  have t': "dget (sort_items receipt) ''toolchain'' PNone = PDict (sort_items t)"
    using get [of "''toolchain''"] by (simp add: t(2) sort_keys_PDict del: sort_keys.simps(2))
  have dt: "distinct (map fst t)" using clean_dget [OF ok(1), of "''toolchain''"] by (simp add: t(2))
  have py: "truthy (dget (sort_items t) ''python'' PNone)" using dget_sorted [OF dt] capture_python [OF t(1)] ok(2) by simp
  have prod: "(case ex_producer X of None \<Rightarrow> Inr () | Some e \<Rightarrow> verify_producer_identity (sort_items receipt) e) = Inr ()"
  proof (cases "ex_producer X")
    case (Some e)
    with X q pr(1) have "producer = Some e" "current_producer (pf_env B) (source_sha q) = Inr (Some e)"
      by (auto simp: expects_def)
    moreover from this pr(2) have "dget (sort_items receipt) ''producer'' PNone = sort_keys (PDict e)"
      using get [of "''producer''"] by simp
    ultimately show ?thesis using Some producer_accepted by simp
  qed simp
  have pol: "(case ex_policy X of None \<Rightarrow> Inr () | Some pol \<Rightarrow> check_declared_inputs L pol p (map sort_keys items)) = Inr ()"
    using X declared_inputs_sorted [OF _ es cl] by (auto simp: expects_def fl items_of_def split: option.splits)
  have base: "as_dict (PDict (sort_items receipt)) = sort_items receipt" "pget (PDict (sort_items receipt)) ''plan_sha256'' PNone = Inr (PStr want)"
    using get [of "''plan_sha256''"] f(3) by (simp_all add: as_dict_def pget_def)
  show ?thesis
    unfolding verify_receipt_evidence_def base Let_def rbind_simps f(2) plan(2) fl' t'
    using get [of "''source_sha''"] get [of "''effective_inputs_sha256''"] f(4) fs(4) eff py prod pol q nonempty
    by (simp add: iter_items_def)
qed

lemma cover_created:
  assumes "distinct (covered @ map fst ps)" "\<And>n d. (n, d) \<in> set ps \<Longrightarrow> n \<notin> set R \<and> map_of E n = Some (asset_json L n d)"
  shows "rfold (cover_artifact E R) covered (map (\<lambda>(n, d). sort_keys (asset_json L n d)) ps) = Inr (covered @ map fst ps)"
  using assms
proof (induction ps arbitrary: covered)
  case (Cons nd ps)
  obtain n d where nd: "nd = (n, d)" by (cases nd)
  have "pget (sort_keys (asset_json L n d)) ''name'' PNone = Inr (PStr n)"
    by (simp add: asset_json_def sort_key_def insort_key_def pget_def dget_def)
  then have name: "pget (sort_keys (asset_json L n d)) ''name'' PNone = Inr (PStr (artifact_name (sort_keys (asset_json L n d))))"
    and eq: "artifact_name (sort_keys (asset_json L n d)) = n"
    by (cases "sort_keys (asset_json L n d)"; simp add: artifact_name_def pget_def as_dict_def as_str_def)+
  have "cover_artifact E R covered (sort_keys (asset_json L n d)) = Inr (covered @ [n])"
    unfolding cover_artifact_Inr using Cons.prems nd name eq asset_json_sorted [of L n d] by auto
  moreover have "rfold (cover_artifact E R) (covered @ [n]) (map (\<lambda>(n, d). sort_keys (asset_json L n d)) ps) = Inr ((covered @ [n]) @ map fst ps)"
    by (rule Cons.IH) (use Cons.prems nd in auto)
  ultimately show ?case by (simp add: nd)
qed simp

lemma filter_single: "distinct xs \<Longrightarrow> {x \<in> set xs. P x} = {a} \<Longrightarrow> filter P xs = [a]"
proof -
  assume "distinct xs" "{x \<in> set xs. P x} = {a}"
  then have "distinct (filter P xs)" and one: "set (filter P xs) = {a}" by simp_all
  then have "length (filter P xs) = 1" using distinct_card [of "filter P xs"] by (simp del: set_filter)
  then obtain b where "filter P xs = [b]" by (auto simp: length_Suc_conv)
  with one show ?thesis by simp
qed

lemma created_accepted:
  assumes "create_receipt L B tree plan_raw inputs_raw (Some entries) here name = Inr (receipt, content)"
    and "load_document L plan_raw = Inr plan_value" "validate_plan L plan_value None None = Inr p"
    and "clean (PDict receipt)" "pf_python B \<noteq> []" "expects L B plan_value p receipt X"
    and "receipt_packages L entries = Inr packages" "distinct (map fst fs)" "set fs = insert (name, content) (set packages)"
    and "int (length content) \<le> MAX_RECEIPT_BYTES"
  shows "verify_receipts L verify_all fs X (map (\<lambda>(n, d). (n, asset_json L n d)) fs)
    = Inr [receipt_result L name content (sort_items receipt)]"
proof -
  obtain q want items h ps t producer where
    "validate_plan L plan_value None None = Inr q" "plan_digest L plan_value = Inr want"
    "dget receipt ''plan_sha256'' PNone = PStr want" "dget receipt ''source_sha'' PNone = PStr (source_sha q)"
    "truthy (dget receipt ''files'' PNone)" "iter_items (dget receipt ''files'' PNone) = Inr items"
    "effective_inputs_digest L items = Inr h" "dget receipt ''effective_inputs_sha256'' PNone = PStr h"
    and nm: "is_receipt name" and "receipt_packages L entries = Inr ps" and "capture_toolchain B = Inr t" "dget receipt ''toolchain'' PNone = PDict t"
    and art: "dget receipt ''artifacts'' PNone = PList (map (\<lambda>(n, d). asset_json L n d) ps)"
    and "current_producer (pf_env B) (source_sha q) = Inr producer" "\<forall>e. producer = Some e \<longrightarrow> dget receipt ''producer'' PNone = PDict e"
    and content: "content = rc_json_bytes L (PDict receipt)"
    using assms(1,2) by (rule create_receipt_facts)
  then have ps: "ps = packages" using assms(7) by simp
  let ?E = "map (\<lambda>(n, d). (n, asset_json L n d)) fs"
  have fsts: "map fst ?E = map fst fs" by (simp add: case_prod_unfold)
  obtain pk: "packages \<noteq> []" and "package_entries L [] (sort_key fst entries) = Inr packages"
    using assms(7) unfolding receipt_packages_def by (auto simp: rbind_Inr_iff)
  from package_entries_names [OF this(2)] have names: "distinct (map fst packages)" "\<And>n d. (n, d) \<in> set packages \<Longrightarrow> \<not> is_receipt n" by auto
  have "{n \<in> set (map fst fs). is_receipt n} = {name}" using assms(9) nm names(2) by force
  with assms(8) have R: "filter is_receipt (map fst ?E) = [name]" unfolding fsts by (rule filter_single)
  have raw: "map_of fs name = Some content" using assms(8,9) by simp
  have loaded: "loads_bytes L plain_opts content = Inr (PDict (sort_items receipt))"
    using loads_plain_dump [OF assms(4), of L] by (simp add: content sort_keys_PDict del: sort_keys.simps(2))
  have art': "dget (sort_items receipt) ''artifacts'' PNone = PList (map (\<lambda>(n, d). sort_keys (asset_json L n d)) packages)"
    using dget_sorted [of receipt "''artifacts''"] assms(4) by (simp add: art ps sort_keys_list_map case_prod_unfold comp_def)
  have lookup: "n \<notin> set [name] \<and> map_of ?E n = Some (asset_json L n d)" if "(n, d) \<in> set packages" for n d
  proof -
    have "(n, asset_json L n d) \<in> set ?E" using that assms(9) by force
    moreover have "distinct (map fst ?E)" unfolding fsts by (rule assms(8))
    ultimately have "map_of ?E n = Some (asset_json L n d)" by (intro map_of_is_SomeI)
    then show ?thesis using names(2) [OF that] nm by auto
  qed
  have "rfold (cover_artifact ?E [name]) [] (map (\<lambda>(n, d). sort_keys (asset_json L n d)) packages) = Inr ([] @ map fst packages)"
    by (rule cover_created) (use names(1) lookup in auto)
  then have cover: "cover_receipt_artifacts (sort_items receipt) ?E [name] [] = Inr (map fst packages)"
    unfolding cover_receipt_artifacts_def art' using pk by simp
  have chk: "check_receipt L fs X ?E [name] ([], []) name = Inr (map fst packages, [receipt_result L name content (sort_items receipt)])"
    using evidence_accepted [OF assms(1-6)] assms(6,10)
    unfolding check_receipt_def raw by (simp add: loaded cover expects_def)
  have rest: "set (map fst packages) = fst ` set ?E - set [name]"
    using assms(9) names(2) nm by (force simp: image_iff)
  have "(case ex_policy X of None \<Rightarrow> Inr ()
        | Some pol \<Rightarrow> if DETACHED_PROVENANCE_REQUIRED then verify_all
            else rbind (pget pol ''detached_provenance'' PNone) (\<lambda>d. if truthy d then verify_all else Inr ())) = Inr ()"
    using assms(6) by (auto simp: expects_def DETACHED_PROVENANCE_REQUIRED_def split: option.splits)
  then show ?thesis
    unfolding verify_receipts_def Let_def R using chk rest by simp
qed

text \<open>
  C25: a receipt that \<open>create_receipt\<close> wrote is accepted by the publisher. The staged directory holds the
  packages of the build and the receipt's file; the publisher expects the same plan, the policy whose
  declared inputs the receipt records (without detached provenance), and the producer of that build or none.
  Then \<open>verify_receipts\<close> returns exactly this receipt, over ASCII text and within the size limit.
\<close>

theorem created_receipt_accepted:
  assumes "create_receipt L B tree plan_raw inputs_raw (Some entries) here name = Inr (receipt, content)"
    and "load_document L plan_raw = Inr plan_value" "validate_plan L plan_value None None = Inr p"
    and "clean (PDict receipt)" "pf_python B \<noteq> []" "expects L B plan_value p receipt X"
    and "receipt_packages L entries = Inr packages" "distinct (map fst fs)" "set fs = insert (name, content) (set packages)"
    and "int (length content) \<le> MAX_RECEIPT_BYTES"
  shows "verify_receipts L verify_all fs X (map (\<lambda>(n, d). (n, asset_json L n d)) fs)
    = Inr [receipt_result L name content (sort_items receipt)]"
  using assms by (rule created_accepted)

section \<open>Example\<close>

lemma load_document_dump: "clean v \<Longrightarrow> load_document L (rc_json_bytes L v) = Inr (sort_keys v)"
proof -
  assume c: "clean v"
  have "clean (sort_keys v)" using c by simp
  then have a: "ascii (rc_json_bytes L v)" using dump_ascii(1) by (simp add: rc_json_bytes_def)
  then have "\<not> prefix BOM (rc_json_bytes L v)" by (cases "rc_json_bytes L v") (auto simp: BOM_def)
  with loads_plain_dump [OF c, of L] a show ?thesis
    unfolding load_document_def loads_bytes_def by (simp add: utf8_ok_ascii)
qed

definition demo_platform :: platform where
  "demo_platform = \<lparr>pf_name = ''linux'', pf_python = ''3.12'', pf_env = (\<lambda>_. None), pf_tool = (\<lambda>_ _. None)\<rparr>"

definition demo_hash :: string where "demo_hash = replicate 64 (CHR ''a'')"

definition demo_inputs :: jobject where
  "demo_inputs = [(''effective_inputs_sha256'', PStr demo_hash),
     (''files'', PList [PDict [(''after_sha256'', PStr demo_hash), (''fields'', PList []), (''path'', PStr ''VERSION'')]]),
     (''plan_sha256'', PStr demo_hash), (''source_sha'', PStr demo_sha)]"

definition demo_tree :: checkout where
  "demo_tree = (\<lambda>_. None)([''VERSION''] \<mapsto> RegularFile 1 ''1.2.3'')"

definition demo_receipt :: jobject where
  "demo_receipt = demo_inputs @ [(''artifacts'', PList [asset_json demo_lib ''app'' ''x'']),
     (''toolchain'', PDict [(''platform'', PStr ''linux''), (''python'', PStr ''3.12'')])]"

definition demo_plan_value :: pyval where "demo_plan_value = sort_keys (plan_json demo_plan)"

lemma demo_documents:
  "load_document demo_lib (rc_json_bytes demo_lib (plan_json demo_plan)) = Inr demo_plan_value"
  "load_document demo_lib (rc_json_bytes demo_lib (PDict demo_inputs)) = Inr (PDict demo_inputs)"
proof -
  have "clean (plan_json demo_plan)" "clean (PDict demo_inputs)" "sort_keys (PDict demo_inputs) = PDict demo_inputs" by code_simp+
  then show "load_document demo_lib (rc_json_bytes demo_lib (plan_json demo_plan)) = Inr demo_plan_value"
    "load_document demo_lib (rc_json_bytes demo_lib (PDict demo_inputs)) = Inr (PDict demo_inputs)"
    using load_document_dump by (simp_all add: demo_plan_value_def)
qed

lemma demo_plan_facts:
  "validate_plan demo_lib demo_plan_value None None = Inr demo_plan"
  "plan_digest demo_lib demo_plan_value = Inr demo_hash"
  by code_simp+

lemma demo_created:
  "create_receipt demo_lib demo_platform demo_tree (rc_json_bytes demo_lib (plan_json demo_plan)) (rc_json_bytes demo_lib (PDict demo_inputs))
     (Some [(''app'', Plain ''x'')]) True ''release-inputs-linux.json'' = Inr (demo_receipt, rc_json_bytes demo_lib (PDict demo_receipt))"
proof -
  have 1: "pget (PDict demo_inputs) ''plan_sha256'' PNone = Inr (PStr demo_hash)" "as_dict (PDict demo_inputs) = demo_inputs"
    "dget demo_inputs ''source_sha'' PNone = PStr (source_sha demo_plan)" "truthy (dget demo_inputs ''files'' PNone)"
    "dget demo_inputs ''effective_inputs_sha256'' PNone = PStr demo_hash" by code_simp+
  have 2: "iter_items (dget demo_inputs ''files'' PNone) = Inr (items_of (dget demo_inputs ''files'' PNone))"
    "effective_inputs_digest demo_lib (items_of (dget demo_inputs ''files'' PNone)) = Inr demo_hash"
    "is_receipt ''release-inputs-linux.json''" "receipt_packages demo_lib [(''app'', Plain ''x'')] = Inr [(''app'', ''x'')]"
    "capture_toolchain demo_platform = Inr [(''platform'', PStr ''linux''), (''python'', PStr ''3.12'')]"
    "current_producer (pf_env demo_platform) (source_sha demo_plan) = Inr None" by code_simp+
  have 3: "verify_current_inputs demo_lib demo_tree (items_of (dget demo_inputs ''files'' PNone)) = Inr ()" by code_simp
  have 4: "dict_set (dict_set demo_inputs ''artifacts'' (PList (map (\<lambda>(n, d). asset_json demo_lib n d) [(''app'', ''x'')]))) ''toolchain''
      (PDict [(''platform'', PStr ''linux''), (''python'', PStr ''3.12'')]) = demo_receipt" by code_simp
  show ?thesis
    unfolding create_receipt_def Let_def demo_documents rbind_simps demo_plan_facts
    using 1 2 3 4 by simp
qed

abbreviation demo_content :: string where "demo_content \<equiv> rc_json_bytes demo_lib (PDict demo_receipt)"

definition demo_expectation :: expectation where
  "demo_expectation = \<lparr>ex_plan = demo_plan_value, ex_policy = None, ex_producer = None\<rparr>"

lemma demo_receipt_facts:
  "clean (PDict demo_receipt)" "pf_python demo_platform \<noteq> []"
  "expects demo_lib demo_platform demo_plan_value demo_plan demo_receipt demo_expectation"
  "receipt_packages demo_lib [(''app'', Plain ''x'')] = Inr [(''app'', ''x'')]"
  "int (length demo_content) \<le> MAX_RECEIPT_BYTES"
proof -
  show "expects demo_lib demo_platform demo_plan_value demo_plan demo_receipt demo_expectation"
    by (simp add: expects_def demo_expectation_def)
  have "length demo_content \<le> 2000" by code_simp
  then show "int (length demo_content) \<le> MAX_RECEIPT_BYTES" by (simp add: MAX_RECEIPT_BYTES_def)
qed code_simp+

theorem created_receipt_accepted_witness:
  "verify_receipts demo_lib (Inr ()) [(''app'', ''x''), (''release-inputs-linux.json'', demo_content)] demo_expectation
     (map (\<lambda>(n, d). (n, asset_json demo_lib n d)) [(''app'', ''x''), (''release-inputs-linux.json'', demo_content)])
   = Inr [receipt_result demo_lib ''release-inputs-linux.json'' demo_content (sort_items demo_receipt)]"
  by (rule created_receipt_accepted [OF demo_created demo_documents(1) demo_plan_facts(1) demo_receipt_facts(1-4) _ _ demo_receipt_facts(5)]) auto

theorem receipts_cover_payloads_witness:
  "\<exists>results. verify_receipts demo_lib (Inr ()) [(''app'', ''x''), (''release-inputs-linux.json'', demo_content)] demo_expectation
      (map (\<lambda>(n, d). (n, asset_json demo_lib n d)) [(''app'', ''x''), (''release-inputs-linux.json'', demo_content)]) = Inr results
    \<and> set (covered_names results) = {n. n \<in> fst ` set [(''app'', ''x''), (''release-inputs-linux.json'', demo_content)] \<and> \<not> is_receipt n}"
proof -
  have "verify_receipts demo_lib (Inr ()) [(''app'', ''x''), (''release-inputs-linux.json'', demo_content)] demo_expectation
     (map (\<lambda>(n, d). (n, asset_json demo_lib n d)) [(''app'', ''x''), (''release-inputs-linux.json'', demo_content)])
   = Inr [receipt_result demo_lib ''release-inputs-linux.json'' demo_content (sort_items demo_receipt)]"
    by (rule created_accepted [OF demo_created demo_documents(1) demo_plan_facts(1) demo_receipt_facts(1-4) _ _ demo_receipt_facts(5)]) auto
  from receipts_cover_payloads [OF this] this show ?thesis by blast
qed

end
