(* ===== verification/PublicationProps.thy ===== *)
theory PublicationProps
  imports Publication
begin

text \<open>
  What publication guarantees: a draft becomes public only after every byte was read back, promotion
  writes nothing before the candidate is accepted in full, and what it publishes has the checksums of
  the accepted manifest.
\<close>

section \<open>Observed events\<close>

text \<open>What a hub does to the outside, in order: requests other than GET, uploads, downloaded bytes and
  local files.\<close>

datatype event = Wrote string string | Uploaded string string | Downloaded string string | Stored string

primrec changes :: "event \<Rightarrow> bool" where
  "changes (Wrote m p) = True"
| "changes (Uploaded n d) = True"
| "changes (Downloaded p d) = False"
| "changes (Stored p) = True"

primrec publishes :: "event \<Rightarrow> bool" where
  "publishes (Wrote m p) = (m = ''PATCH'')"
| "publishes (Uploaded n d) = False"
| "publishes (Downloaded p d) = False"
| "publishes (Stored p) = False"

definition logged :: "'w client \<Rightarrow> ('w \<times> event list) client" where
  "logged gh = \<lparr>repo = repo gh, request = (\<lambda>path method body mode (w, l).
     case request gh path method body mode w of (r, w') \<Rightarrow> (r, (w', if method = ''GET'' then l else l @ [Wrote method path])))\<rparr>"

definition logged_hub :: "'w hub \<Rightarrow> ('w \<times> event list) hub" where
  "logged_hub H = \<lparr>hb_client = logged (hb_client H),
     hb_download = (\<lambda>p (w, l). case hb_download H p w of (r, w') \<Rightarrow>
       (r, (w', case r of Inr d \<Rightarrow> l @ [Downloaded p d] | Inl e \<Rightarrow> l))),
     hb_upload = (\<lambda>tagname name data i (w, l). case hb_upload H tagname name data i w of (r, w') \<Rightarrow> (r, (w', l @ [Uploaded name data]))),
     hb_file = (\<lambda>path data (w, l). case hb_file H path data w of (r, w') \<Rightarrow> (r, (w', l @ [Stored path]))),
     hb_scope = hb_scope H\<rparr>"

text \<open>The log grew by events of one kind.\<close>

definition grows :: "('v \<Rightarrow> event list) \<Rightarrow> (event \<Rightarrow> bool) \<Rightarrow> 'v \<Rightarrow> 'v \<Rightarrow> bool" where
  "grows lg E u v \<longleftrightarrow> (\<exists>es. lg v = lg u @ es \<and> list_all E es)"

lemma grows_refl: "grows lg E u u"
  by (simp add: grows_def)

lemma grows_trans: "grows lg E u v \<Longrightarrow> grows lg E v w \<Longrightarrow> grows lg E u w"
  by (auto simp: grows_def)

lemma grows_mono: "grows lg E u v \<Longrightarrow> (\<And>e. E e \<Longrightarrow> F e) \<Longrightarrow> grows lg F u v"
  unfolding grows_def list_all_iff by blast

text \<open>A step that creates the draft: one POST in the log, whatever happens.\<close>

definition posts :: "('v \<Rightarrow> event list) \<Rightarrow> (jobject \<Rightarrow> ('v, pyval) io) \<Rightarrow> bool" where
  "posts log create \<longleftrightarrow> (\<forall>payload v. log (snd (create payload v)) = log v @ [Wrote ''POST'' ''releases''])"

lemma postsD: "posts log create \<Longrightarrow> create payload v = (r, v') \<Longrightarrow> log v' = log v @ [Wrote ''POST'' ''releases'']"
  unfolding posts_def by (metis snd_conv)

text \<open>A hub that keeps such a log. The log is a part of the world; every operation appends what it did.\<close>

locale logging =
  fixes H :: "'v hub" and lg :: "'v \<Rightarrow> event list"
  assumes get_log: "request (hb_client H) path ''GET'' body mode v = (r, v') \<Longrightarrow> lg v' = lg v"
    and write_log: "method \<noteq> ''GET'' \<Longrightarrow> request (hb_client H) path method body mode v = (r, v') \<Longrightarrow> lg v' = lg v @ [Wrote method path]"
    and download_log: "hb_download H path v = (r, v') \<Longrightarrow> lg v' = lg v @ (case r of Inr d \<Rightarrow> [Downloaded path d] | Inl e \<Rightarrow> [])"
    and upload_log: "hb_upload H tagname name data i v = (s, v') \<Longrightarrow> lg v' = lg v @ [Uploaded name data]"

sublocale logging \<subseteq> quiet: reads "grows lg E" "hb_client H" for E
proof
  show "keeps (grows lg E) (request (hb_client H) path ''GET'' body mode)" for path body mode
    unfolding keeps_def
  proof
    fix v
    obtain r v' where "request (hb_client H) path ''GET'' body mode v = (r, v')" by (cases "request (hb_client H) path ''GET'' body mode v")
    then show "grows lg E v (snd (request (hb_client H) path ''GET'' body mode v))"
      using get_log by (simp add: grows_def)
  qed
qed (auto intro: grows_refl grows_trans)

interpretation timed_log: logging "timed_hub T (logged_hub H)" "\<lambda>v. snd (fst v)" for T :: "('w \<times> event list) timing" and H :: "'w hub"
  by unfold_locales
     (auto simp: timed_hub_def timed_def logged_hub_def logged_def split: prod.splits sum.splits if_splits)

section \<open>Reading operations of the publication\<close>

context reads
begin

lemma keeps_release_notes: "keeps R (release_notes L gh tagname sha provenance)"
  unfolding release_notes_def Let_def by (intro keeps_checks)

lemma keeps_release_snapshot: "keeps R (release_snapshot L gh tagname)"
  unfolding release_snapshot_def by (intro keeps_checks)

lemma keeps_reviewers: "keeps R (require_reviewers L gh)"
  unfolding require_reviewers_def by (intro keeps_checks)

lemma keeps_source_run: "keeps R (source_run_of L gh manifest)"
  unfolding source_run_of_def by (intro keeps_checks)

lemma keeps_read_state: "keeps R (read_state L gh)"
  unfolding read_state_def by (intro keeps_checks)

lemma keeps_promotion_order: "keeps R (verify_promotion_order L gh plan_value)"
  unfolding verify_promotion_order_def check_promotion_order_def by (intro keeps_checks keeps_read_state)

lemma keeps_evidence: "keeps R (verify_evidence L unzip gh manifest raw)"
  unfolding verify_evidence_def
  by (intro keeps_checks) (auto intro!: keeps_checks split: list.splits)

lemmas keeps_publication = keeps_checks keeps_release_notes keeps_release_snapshot keeps_reviewers keeps_source_run
  keeps_read_state keeps_promotion_order keeps_evidence

lemma keeps_accept:
  assumes "hb_client H = gh"
  shows "keeps R (accept_candidate L unzip H info head rc current_id)"
  unfolding accept_candidate_def Let_def assms
  by (intro keeps_publication)

end

context frame
begin

lemma keeps_imap: "(\<And>x. keeps R (f x)) \<Longrightarrow> keeps R (imap f xs)"
  by (induction xs) (auto intro!: keeps_rules)

lemma keeps_stage: "(\<And>p. keeps R (hb_download H p)) \<Longrightarrow> keeps R (stage_candidate_asset L H raw expected asset)"
  unfolding stage_candidate_asset_def Let_def by (intro keeps_rules) auto

end

lemma logged_client: "hb_client (timed_hub T (logged_hub H)) = timed T (logged (hb_client H))"
  by (simp add: timed_hub_def logged_hub_def)

context logging
begin

lemma api_write: "method \<noteq> ''GET'' \<Longrightarrow> api L (hb_client H) path method body v = (r, v') \<Longrightarrow> lg v' = lg v @ [Wrote method path]"
  unfolding api_def by (auto simp: ibind_def ilift_def ireturn_def split: prod.splits sum.splits if_splits dest: write_log)

lemma keeps_download: "keeps (grows lg (\<lambda>e. \<not> changes e)) (hb_download H p)"
  unfolding keeps_def
proof
  fix v
  obtain r v' where "hb_download H p v = (r, v')" by (cases "hb_download H p v")
  then show "grows lg (\<lambda>e. \<not> changes e) v (snd (hb_download H p v))"
    using download_log by (auto simp: grows_def split: sum.splits)
qed

lemma keeps_write:
  assumes "method \<noteq> ''GET''" "E (Wrote method path)"
  shows "keeps (grows lg E) (api L (hb_client H) path method body)"
  unfolding keeps_def
proof
  fix v
  obtain r v' where "api L (hb_client H) path method body v = (r, v')" by (cases "api L (hb_client H) path method body v")
  then show "grows lg E v (snd (api L (hb_client H) path method body v))"
    using api_write [OF assms(1)] assms(2) by (simp add: grows_def)
qed

lemma keeps_upload: "(\<And>n d. E (Uploaded n d)) \<Longrightarrow> keeps (grows lg E) (hb_upload H tagname name data i)"
  unfolding keeps_def grows_def using upload_log by (metis list.pred_inject prod.collapse)

end

section \<open>Verified drafts\<close>

lemma imap_Inr: "imap f xs w = (Inr ys, w') \<Longrightarrow> y \<in> set ys \<Longrightarrow> \<exists>x \<in> set xs. \<exists>u u'. f x u = (Inr y, u')"
proof (induction xs arbitrary: w ys)
  case Nil
  then show ?case by (simp add: ireturn_def)
next
  case (Cons x xs)
  from Cons.prems(1) obtain a u bs where a: "f x w = (Inr a, u)" and bs: "imap f xs u = (Inr bs, w')" and ys: "ys = a # bs"
    by (auto simp: ibind_Inr_iff ireturn_def)
  show ?case
  proof (cases "y = a")
    case True
    then show ?thesis using a by auto
  next
    case False
    then show ?thesis using Cons.IH [OF bs] Cons.prems(2) ys by auto
  qed
qed

text \<open>Some downloaded bytes have the length and the SHA-256 of these bytes.\<close>

definition read_back :: "pylib \<Rightarrow> event list \<Rightarrow> string \<Rightarrow> bool" where
  "read_back L es data \<longleftrightarrow>
     (\<exists>i remote. Downloaded (release_asset_path i) remote \<in> set es \<and> length remote = length data \<and> sha256 L remote = sha256 L data)"

definition verified_bytes :: "pylib \<Rightarrow> files \<Rightarrow> event list \<Rightarrow> bool" where
  "verified_bytes L fs es \<longleftrightarrow> (\<forall>name data. map_of fs name = Some data \<longrightarrow> read_back L es data)"

text \<open>The events of a completed publication: tag and draft, one upload per file in order, the bytes of every
  file downloaded again, and the one request that publishes.\<close>

definition published_run :: "pylib \<Rightarrow> files \<Rightarrow> event list \<Rightarrow> bool" where
  "published_run L fs events \<longleftrightarrow>
     (\<exists>i checks. events = [Wrote ''POST'' ''git/refs'', Wrote ''POST'' ''releases''] @ map (\<lambda>(n, d). Uploaded n d) (sort_key fst fs)
        @ checks @ [Wrote ''PATCH'' (release_path i)] \<and> list_all (\<lambda>e. \<not> changes e) checks \<and> verified_bytes L fs checks)"

lemma read_back_append: "read_back L es data \<or> read_back L fs data \<Longrightarrow> read_back L (es @ fs) data"
  unfolding read_back_def by auto

lemma staged_item:
  assumes "uploaded_inventory fs uploaded = Inr items" "map_of fs name = Some data"
  shows "\<exists>item \<in> set items. staged_data fs item = data"
proof -
  from assms(1) obtain names where ns: "rmap (\<lambda>i. pget i ''name'' PNone) uploaded = Inr names"
    and eq: "set names = (PStr \<circ> fst) ` set fs" and items: "items = map as_dict uploaded"
    unfolding uploaded_inventory_def by (auto simp: rbind_Inr_iff split: if_splits)
  from assms(2) have "name \<in> fst ` set fs" by (force dest: map_of_SomeD)
  then have "PStr name \<in> set names" using eq by auto
  then obtain k where k: "k < length uploaded" "pget (uploaded ! k) ''name'' PNone = Inr (PStr name)"
    using rmap_Inr_length [OF ns] rmap_Inr_nth [OF ns] by (metis in_set_conv_nth)
  then obtain d where d: "uploaded ! k = PDict d" "dget d ''name'' PNone = PStr name"
    by (cases "uploaded ! k") (auto simp: pget_def)
  then have "d \<in> set items" using k(1) unfolding items by (force simp: in_set_conv_nth as_dict_def)
  moreover have "staged_data fs d = data" using d(2) assms(2) by (simp add: staged_data_def as_str_def)
  ultimately show ?thesis by blast
qed

context logging
begin

lemma upload_trace:
  "iiter (\<lambda>(name, data). hb_upload H tagname name data i) xs v = (Inr (), v')
    \<Longrightarrow> lg v' = lg v @ map (\<lambda>(n, d). Uploaded n d) xs"
  by (induction xs arbitrary: v) (auto simp: ibind_Inr_iff ireturn_def dest: upload_log)

lemma verify_trace:
  assumes "verify_uploaded_asset L H item data v = (Inr (), v')"
  shows "\<exists>es. lg v' = lg v @ es \<and> list_all (\<lambda>e. \<not> changes e) es \<and> read_back L es data"
proof -
  from assms obtain i remote where "hb_download H (release_asset_path i) v = (Inr remote, v')"
    "stream_identity L remote = stream_identity L data"
    unfolding verify_uploaded_asset_def by (auto simp: ibind_Inr_iff)
  then have "lg v' = lg v @ [Downloaded (release_asset_path i) remote]"
    "read_back L [Downloaded (release_asset_path i) remote] data"
    by (auto simp: read_back_def stream_identity_def dest: download_log)
  then show ?thesis by auto
qed

lemma verify_all_trace:
  "iiter (\<lambda>item. verify_uploaded_asset L H item (f item)) items v = (Inr (), v')
    \<Longrightarrow> \<exists>es. lg v' = lg v @ es \<and> list_all (\<lambda>e. \<not> changes e) es \<and> (\<forall>item \<in> set items. read_back L es (f item))"
proof (induction items arbitrary: v)
  case Nil
  then show ?case by (simp add: ireturn_def)
next
  case (Cons item items)
  from Cons.prems obtain u where "verify_uploaded_asset L H item (f item) v = (Inr (), u)"
    and "iiter (\<lambda>item. verify_uploaded_asset L H item (f item)) items u = (Inr (), v')"
    by (auto simp: ibind_Inr_iff)
  from verify_trace [OF this(1)] Cons.IH [OF this(2)] obtain es fs where
    "lg v' = lg v @ (es @ fs)" "list_all (\<lambda>e. \<not> changes e) (es @ fs)"
    "read_back L es (f item)" "\<forall>item \<in> set items. read_back L fs (f item)" by auto
  then show ?case using read_back_append by (metis set_ConsD)
qed

lemma quiet_log: "keeps (grows lg (\<lambda>e. False)) m \<Longrightarrow> m v = (r, v') \<Longrightarrow> lg v' = lg v"
  by (drule keepsD) (auto simp: grows_def list_all_iff)

lemma fill_trace:
  assumes "fill_draft L H tagname sha fs i v = (Inr (), v')"
  shows "\<exists>es. lg v' = lg v @ map (\<lambda>(n, d). Uploaded n d) (sort_key fst fs) @ es \<and> list_all (\<lambda>e. \<not> changes e) es
    \<and> verified_bytes L fs es"
proof -
  from assms obtain v1 v2 v3 uploaded items ref where
    up: "iiter (\<lambda>(name, data). hb_upload H tagname name data i) (sort_key fst fs) v = (Inr (), v1)"
    and pg: "pages L (hb_client H) (''releases/'' @ int_str i @ ''/assets'') None v1 = (Inr uploaded, v2)"
    and inv: "uploaded_inventory fs uploaded = Inr items"
    and ver: "iiter (\<lambda>item. verify_uploaded_asset L H item (staged_data fs item)) items v2 = (Inr (), v3)"
    and ref: "api L (hb_client H) (''git/ref/tags/'' @ quote tagname) ''GET'' None v3 = (Inr ref, v')"
    unfolding fill_draft_def by (clarsimp simp: ibind_Inr_iff simp del: append.simps)
  from verify_all_trace [OF ver] obtain es where
    es: "lg v3 = lg v2 @ es" "list_all (\<lambda>e. \<not> changes e) es" "\<forall>item \<in> set items. read_back L es (staged_data fs item)" by blast
  have "lg v2 = lg v1" "lg v' = lg v3"
    using quiet_log [OF quiet.keeps_pages pg] quiet_log [OF quiet.keeps_api ref] by simp_all
  moreover have "read_back L es data" if "map_of fs name = Some data" for name data
    using staged_item [OF inv that] es(3) by blast
  ultimately show ?thesis using upload_trace [OF up] es(1,2) by (auto simp: verified_bytes_def)
qed

lemma plain_posts: "posts lg (plain_create L (hb_client H))"
  unfolding posts_def plain_create_def
proof (intro allI)
  fix payload v
  obtain r v' where c: "api L (hb_client H) ''releases'' ''POST'' (Some payload) v = (r, v')"
    by (cases "api L (hb_client H) ''releases'' ''POST'' (Some payload) v")
  have "''POST'' \<noteq> ''GET''" by simp
  from api_write [OF this c] show "lg (snd (api L (hb_client H) ''releases'' ''POST'' (Some payload) v)) = lg v @ [Wrote ''POST'' ''releases'']"
    by (simp add: c)
qed

lemma prepare_trace:
  assumes "prepare_draft L verify H tagname sha fs prerelease body create v = (Inr i, v')" and posts: "posts lg create"
  shows "\<exists>es. lg v' = lg v @ [Wrote ''POST'' ''git/refs'', Wrote ''POST'' ''releases''] @ map (\<lambda>(n, d). Uploaded n d) (sort_key fst fs) @ es
    \<and> list_all (\<lambda>e. \<not> changes e) es \<and> verified_bytes L fs es"
proof -
  from assms(1) obtain v1 v2 v3 v4 x release ref_body payload where
    "ensure_absent L (hb_client H) tagname v = (Inr (), v1)"
    and "check_workflow_publication L (hb_client H) (hb_scope H) sha v1 = (Inr (), v2)"
    and ref: "api L (hb_client H) ''git/refs'' ''POST'' ref_body v2 = (Inr x, v3)"
    and new: "create payload v3 = (Inr release, v4)"
    and fill: "fill_draft L H tagname sha fs i v4 = (Inr (), v')"
    unfolding prepare_draft_def Let_def by (clarsimp simp: ibind_Inr_iff)
  then have "lg v2 = lg v"
    using quiet_log [OF quiet.keeps_ensure_absent] quiet_log [OF quiet.keeps_workflow_publication] by metis
  with fill_trace [OF fill] api_write [OF _ ref] postsD [OF posts new] show ?thesis by auto
qed

lemma keeps_iiter:
  assumes "\<And>x. keeps (grows lg E) (f x)"
  shows "keeps (grows lg E) (iiter f xs)"
  by (induction xs) (auto intro!: quiet.keeps_rules assms)

lemma keeps_unpublished_download: "keeps (grows lg (\<lambda>e. \<not> publishes e)) (hb_download H p)"
proof -
  have unpublished: "\<not> changes e \<Longrightarrow> \<not> publishes e" for e by (cases e) simp_all
  have "grows lg (\<lambda>e. \<not> publishes e) u v" if "grows lg (\<lambda>e. \<not> changes e) u v" for u v
    using that unpublished by (rule grows_mono)
  then show ?thesis using keeps_download [of p] by (simp add: keeps_def)
qed

lemma keeps_fill: "keeps (grows lg (\<lambda>e. \<not> publishes e)) (fill_draft L H tagname sha fs i)"
  unfolding fill_draft_def verify_uploaded_asset_def
  by (intro quiet.keeps_reads keeps_iiter keeps_upload keeps_unpublished_download) simp

lemma keeps_posts: "posts lg create \<Longrightarrow> keeps (grows lg (\<lambda>e. \<not> publishes e)) (create payload)"
  unfolding posts_def keeps_def grows_def by simp

lemma keeps_prepare:
  assumes "posts lg create"
  shows "keeps (grows lg (\<lambda>e. \<not> publishes e)) (prepare_draft L verify H tagname sha fs prerelease body create)"
  unfolding prepare_draft_def Let_def
  by (intro quiet.keeps_checks keeps_write keeps_fill keeps_posts assms) simp_all

text \<open>Everything a publication does, on every path: without a publishing write, or up to it in full.\<close>

lemma publication_trace:
  assumes run: "publish_prepared L verify H tagname sha fs prerelease body create confirm v = (r, v')"
    and posts: "posts lg create" and confirm: "keeps (grows lg (\<lambda>e. False)) confirm"
  shows "grows lg (\<lambda>e. \<not> publishes e) v v' \<and> r \<notin> range Inr \<or> (\<exists>es. lg v' = lg v @ es \<and> published_run L fs es)"
proof (cases "prepare_draft L verify H tagname sha fs prerelease body create v")
  case (Pair p u)
  note before = keepsD [OF keeps_prepare [OF posts] Pair]
  show ?thesis
  proof (cases p)
    case (Inl e)
    then have "v' = u" "r = Inl e" using run Pair by (simp_all add: publish_prepared_def ibind_def)
    then show ?thesis using before by auto
  next
    case (Inr i)
    obtain c u1 where c: "confirm u = (c, u1)" by (cases "confirm u")
    have same: "lg u1 = lg u" by (rule quiet_log [OF confirm c])
    show ?thesis
    proof (cases c)
      case (Inl e)
      then have "v' = u1" "r = Inl e" using run Pair Inr c by (simp_all add: publish_prepared_def ibind_def)
      then show ?thesis using before same by (auto simp: grows_def)
    next
      case c2: (Inr z)
      obtain x where "api L (hb_client H) (release_path i) ''PATCH'' (Some (publish_body prerelease)) u1 = (x, v')"
        using run Pair Inr c c2 unfolding publish_prepared_def
        by (auto simp: ibind_def ilift_def split: prod.splits sum.splits)
      from api_write [OF _ this] have "lg v' = lg u @ [Wrote ''PATCH'' (release_path i)]" using same by simp
      moreover from prepare_trace [OF Pair [unfolded Inr] posts] obtain es where
        "lg u = lg v @ [Wrote ''POST'' ''git/refs'', Wrote ''POST'' ''releases''] @ map (\<lambda>(n, d). Uploaded n d) (sort_key fst fs) @ es"
        "list_all (\<lambda>e. \<not> changes e) es" "verified_bytes L fs es" by blast
      ultimately show ?thesis unfolding published_run_def by fastforce
    qed
  qed
qed

end

section \<open>Promotion\<close>

lemma wait_run_keeps:
  "keeps (grows (\<lambda>v. snd (fst v)) E) (wait_run L A T (logged gh) run_id chan info sha attempt gate)"
proof -
  define H where "H = \<lparr>hb_client = gh, hb_download = (\<lambda>p w. (Inr [], w)), hb_upload = (\<lambda>a b c d w. (Inr (), w)),
    hb_file = (\<lambda>a b w. (Inr (), w)), hb_scope = False\<rparr>"
  have client: "hb_client (timed_hub T (logged_hub H)) = timed T (logged gh)"
    by (simp add: logged_client H_def)
  have step: "keeps (grows (\<lambda>v. snd (fst v)) E) (wait_step L A (timed T (logged gh)) run_id chan info sha attempt gate deadline)" for deadline
    unfolding wait_step_def Let_def client [symmetric] by (intro timed_log.quiet.keeps_checks)
  have "grows (\<lambda>v. snd (fst v)) E wt (snd (wait_run L A T (logged gh) run_id chan info sha attempt gate wt))" for wt
  proof (cases "wait_for_executing_run L A T (logged gh) run_id chan info sha attempt gate wt")
    case None
    then show ?thesis by (simp add: wait_run_def grows_refl)
  next
    case (Some y)
    obtain r wt' where y: "y = (r, wt')" by (cases y)
    have "grows (\<lambda>v. snd (fst v)) E wt wt'"
      by (rule timed_log.quiet.keeps_poll [OF step _ Some [unfolded y wait_for_executing_run_def Let_def]])
         (simp add: sleep_for_def grows_def)
    then show ?thesis using Some y by (simp add: wait_run_def)
  qed
  then show ?thesis by (simp add: keeps_def)
qed

lemma prepare_promotion_reads:
  "keeps (grows (\<lambda>v. snd (fst v)) (\<lambda>e. \<not> changes e)) (prepare_promotion L A verify unzip T (logged_hub H) rc run_id)"
proof -
  have c: "hb_client (logged_hub H) = logged (hb_client H)" by (simp add: logged_hub_def)
  show ?thesis
    unfolding prepare_promotion_def Let_def c
    by (intro timed_log.quiet.keeps_publication timed_log.quiet.keeps_accept [OF refl] timed_log.quiet.keeps_imap
        timed_log.quiet.keeps_stage timed_log.keeps_download wait_run_keeps)
qed

text \<open>A file has the size and checksum the manifest records under its name.\<close>

definition manifest_lists :: "pylib \<Rightarrow> jobject \<Rightarrow> string \<Rightarrow> string \<Rightarrow> bool" where
  "manifest_lists L manifest name data \<longleftrightarrow>
     (\<exists>item. PDict item \<in> set (items_of (dget manifest ''assets'' PNone)) \<and> dget item ''name'' PNone = PStr name
        \<and> py_eq (PInt (int (length data))) (dget item ''size'' PNone) \<and> dget item ''sha256'' PNone = PStr (sha256 L data))"

text \<open>The staged files are the accepted manifest and exactly the files it records, byte for byte.\<close>

definition accepted :: "pylib \<Rightarrow> string \<Rightarrow> string \<Rightarrow> jobject \<Rightarrow> files \<Rightarrow> bool" where
  "accepted L repository rc manifest fs \<longleftrightarrow>
     (\<exists>raw. validate_manifest L raw repository rc False = Inr manifest
        \<and> list_all (\<lambda>(name, data). if name = MANIFEST then data = raw else manifest_lists L manifest name data) fs)
     \<and> (\<forall>item name. PDict item \<in> set (items_of (dget manifest ''assets'' PNone)) \<longrightarrow> dget item ''name'' PNone = PStr name
          \<longrightarrow> name \<in> fst ` set fs)"

lemma asset_table_items:
  assumes "asset_table v = Inr expected"
  shows "asset_named expected name = Some (PDict item) \<Longrightarrow> PDict item \<in> set (items_of v) \<and> dget item ''name'' PNone = PStr name"
    and "PDict item \<in> set (items_of v) \<Longrightarrow> dget item ''name'' PNone \<in> fst ` set expected"
proof -
  from assms obtain items where items: "iter_items v = Inr items"
    and rm: "rmap (\<lambda>item. rbind (pitem item ''name'') (\<lambda>n. if hashable n then Inr (n, item) else Inl (TypeError ''unhashable type''))) items = Inr expected"
    unfolding asset_table_def by (auto simp: rbind_Inr_iff)
  have nth: "expected ! k = (dget d ''name'' PNone, items ! k)" if "k < length items" "items ! k = PDict d" for k d
    using rmap_Inr_nth [OF rm that(1)] that(2)
    by (auto simp: rbind_Inr_iff pitem_def ditem_def dget_def split: if_splits option.splits)
  have len: "length expected = length items" by (rule rmap_Inr_length [OF rm])
  have snds: "snd (expected ! k) = items ! k" if "k < length items" for k
    using rmap_Inr_nth [OF rm that] by (auto simp: rbind_Inr_iff split: if_splits) (metis snd_conv)
  show "PDict item \<in> set (items_of v) \<and> dget item ''name'' PNone = PStr name" if "asset_named expected name = Some (PDict item)"
  proof -
    from that have "(PStr name, PDict item) \<in> set expected" unfolding asset_named_def by (auto dest: map_of_SomeD)
    then obtain k where k: "k < length items" "expected ! k = (PStr name, PDict item)" using len by (auto simp: in_set_conv_nth)
    then have "items ! k = PDict item" using snds by fastforce
    with k nth [OF k(1)] have "PDict item \<in> set items" "dget item ''name'' PNone = PStr name" by (auto simp: in_set_conv_nth)
    then show ?thesis using items by (cases v) (auto simp: iter_items_def items_of_def)
  qed
  show "dget item ''name'' PNone \<in> fst ` set expected" if "PDict item \<in> set (items_of v)"
  proof -
    from that items have "PDict item \<in> set items" by (cases v) (auto simp: iter_items_def items_of_def)
    then obtain k where k: "k < length items" "items ! k = PDict item" by (auto simp: in_set_conv_nth)
    then have "expected ! k \<in> set expected" using len by simp
    then show ?thesis using nth [OF k] by force
  qed
qed

lemma imap_fst: "imap f xs w = (Inr ys, w') \<Longrightarrow> (\<And>x u y u'. f x u = (Inr y, u') \<Longrightarrow> fst y = g x) \<Longrightarrow> map fst ys = map g xs"
  by (induction xs arbitrary: w ys) (force simp: ibind_Inr_iff ireturn_def)+

lemma stage_Inr:
  assumes "stage_candidate_asset L H raw expected asset u = (Inr (name, data), u')"
  shows "name = as_str (dget asset ''name'' PNone)"
    and "name = MANIFEST \<and> data = raw \<or> name \<noteq> MANIFEST \<and> (\<exists>item. asset_named expected name = Some (PDict item)
      \<and> py_eq (PInt (int (length data))) (dget item ''size'' PNone) \<and> dget item ''sha256'' PNone = PStr (sha256 L data))"
  using assms unfolding stage_candidate_asset_def Let_def
  by (auto simp: ibind_Inr_iff ireturn_def stream_identity_def split: if_splits option.splits pyval.splits)

lemma accept_manifest:
  assumes "accept_candidate L unzip H info head rc current_id u = (Inr (manifest, raw, initial, policy), u')"
  shows "validate_manifest L raw (repo (hb_client H)) rc False = Inr manifest"
  using assms unfolding accept_candidate_def Let_def
  by (clarsimp simp: ibind_Inr_iff ireturn_def ilift_def)

lemma prepare_promotion_accepted:
  assumes "prepare_promotion L A verify unzip T H rc run_id v = (Inr (manifest, fs, body, current_id), v')"
  shows "accepted L (repo (hb_client H)) rc manifest fs"
proof -
  have client: "repo (hb_client (timed_hub T H)) = repo (hb_client H)" by (simp add: timed_hub_def timed_def)
  from assms obtain info head raw initial policy expected a b c d where
    acc: "accept_candidate L unzip (timed_hub T H) info head rc current_id a = (Inr (manifest, raw, initial, policy), b)"
    and tab: "asset_table (dget manifest ''assets'' PNone) = Inr expected"
    and inv: "(\<lambda>a. dget a ''name'' PNone) ` set (sn_assets initial) = fst ` set expected \<union> {PStr MANIFEST}"
    and st: "imap (stage_candidate_asset L (timed_hub T H) raw expected) (sn_assets initial) c = (Inr fs, d)"
    unfolding prepare_promotion_def Let_def by (clarsimp simp: ibind_Inr_iff)
  note valid = accept_manifest [OF acc, unfolded client]
  have "manifest_lists L manifest name data" if "(name, data) \<in> set fs" "name \<noteq> MANIFEST" for name data
  proof -
    from imap_Inr [OF st that(1)] obtain x u u' where "stage_candidate_asset L (timed_hub T H) raw expected x u = (Inr (name, data), u')" by blast
    from stage_Inr(2) [OF this] that(2) obtain item where "asset_named expected name = Some (PDict item)"
      "py_eq (PInt (int (length data))) (dget item ''size'' PNone)" "dget item ''sha256'' PNone = PStr (sha256 L data)" by blast
    then show ?thesis using asset_table_items(1) [OF tab] unfolding manifest_lists_def by blast
  qed
  moreover have "data = raw" if "(MANIFEST, data) \<in> set fs" for data
  proof -
    from imap_Inr [OF st that] obtain x u u' where "stage_candidate_asset L (timed_hub T H) raw expected x u = (Inr (MANIFEST, data), u')" by blast
    from stage_Inr(2) [OF this] show ?thesis by simp
  qed
  moreover have "name \<in> fst ` set fs"
    if "PDict item \<in> set (items_of (dget manifest ''assets'' PNone))" "dget item ''name'' PNone = PStr name" for item name
  proof -
    from asset_table_items(2) [OF tab that(1)] that(2) inv have "PStr name \<in> (\<lambda>a. dget a ''name'' PNone) ` set (sn_assets initial)" by simp
    then obtain asset where asset: "asset \<in> set (sn_assets initial)" "dget asset ''name'' PNone = PStr name" by force
    have "map fst fs = map (\<lambda>a. as_str (dget a ''name'' PNone)) (sn_assets initial)"
      by (rule imap_fst [OF st]) (metis prod.collapse stage_Inr(1))
    then have "fst ` set fs = (\<lambda>a. as_str (dget a ''name'' PNone)) ` set (sn_assets initial)" by (metis set_map)
    with asset show ?thesis by (force simp: as_str_def)
  qed
  ultimately have "list_all (\<lambda>(name, data). if name = MANIFEST then data = raw else manifest_lists L manifest name data) fs"
    "\<forall>item name. PDict item \<in> set (items_of (dget manifest ''assets'' PNone)) \<longrightarrow> dget item ''name'' PNone = PStr name
      \<longrightarrow> name \<in> fst ` set fs"
    unfolding list_all_iff by auto
  then show ?thesis using valid unfolding accepted_def by blast
qed

lemma begin_keeps:
  "keeps (grows (\<lambda>v. snd (fst v)) (\<lambda>e. \<not> publishes e))
     (begin_publication L (hb_client (timed_hub T (logged_hub H))) plan_value run_id parent (PBool True))"
  unfolding begin_publication_def write_state_def check_promotion_order_def Let_def
  by (intro timed_log.quiet.keeps_publication timed_log.keeps_write) simp_all

lemma publication_parts:
  assumes run: "publish_prepared L verify (timed_hub T (logged_hub H)) tagname sha fs prerelease body create confirm u = (q, v)"
    and "posts (\<lambda>v. snd (fst v)) create" "keeps (grows (\<lambda>v. snd (fst v)) (\<lambda>e. False)) confirm"
  shows "\<exists>rest es. snd (fst v) = snd (fst u) @ rest @ es \<and> list_all (\<lambda>e. \<not> publishes e) rest
    \<and> (es = [] \<and> q \<notin> range Inr \<or> published_run L fs es)"
  using timed_log.publication_trace [OF assms]
proof (elim disjE exE conjE)
  assume "grows (\<lambda>v. snd (fst v)) (\<lambda>e. \<not> publishes e) u v" "q \<notin> range Inr"
  then show ?thesis unfolding grows_def by (metis append_Nil2)
next
  fix es
  assume "snd (fst v) = snd (fst u) @ es" "published_run L fs es"
  then show ?thesis by (intro exI [of _ "[]"] exI [of _ es]) simp
qed

lemma publication_segments:
  assumes "publish_prepared L verify (timed_hub T (logged_hub H)) tagname sha fs prerelease body
      (plain_create L (hb_client (timed_hub T (logged_hub H)))) (ireturn ()) u = (q, v)"
  shows "\<exists>rest es. snd (fst v) = snd (fst u) @ rest @ es \<and> list_all (\<lambda>e. \<not> publishes e) rest
    \<and> (es = [] \<and> q \<notin> range Inr \<or> published_run L fs es)"
  by (rule publication_parts [OF assms timed_log.plain_posts timed_log.quiet.keeps_ireturn])

lemma promote_tail:
  assumes run: "promote L A verify unzip T (logged_hub H) rc run_id v = (r, v')"
    and prep: "prepare_promotion L A verify unzip T (logged_hub H) rc run_id v = (Inr (manifest, fs, body, current_id), u)"
  shows "\<exists>rest es. snd (fst v') = snd (fst u) @ rest @ es \<and> list_all (\<lambda>e. \<not> publishes e) rest \<and>
     (es = [] \<and> r \<notin> range Inr \<or> published_run L fs es)"
proof -
  let ?H = "timed_hub T (logged_hub H)" and ?plan = "dget manifest ''version_plan'' PNone"
  let ?ledger = "if truthy ?plan then ibind (begin_publication L (hb_client ?H) ?plan current_id PNone (PBool True)) (\<lambda>_. ireturn ()) else ireturn ()"
  let ?publish = "publish_prepared L verify ?H (''v'' @ as_str (dget manifest ''version'' PNone)) (as_str (dget manifest ''source_sha'' PNone)) fs False body
    (plain_create L (hb_client ?H)) (ireturn ())"
  let ?done = "\<lambda>release. ibind (ilift (ditem release ''html_url'')) (\<lambda>url.
    ireturn [(''tag'', PStr (''v'' @ as_str (dget manifest ''version'' PNone))), (''release_url'', url)])"
  have main: "ibind ?ledger (\<lambda>_. ibind ?publish ?done) u = (r, v')"
    using run unfolding promote_def Let_def by (simp add: ibind_def [of "prepare_promotion L A verify unzip T (logged_hub H) rc run_id"] prep)
  obtain x u1 where led: "?ledger u = (x, u1)" by (cases "?ledger u")
  have keeps_ledger: "keeps (grows (\<lambda>v. snd (fst v)) (\<lambda>e. \<not> publishes e)) ?ledger"
    by (intro timed_log.quiet.keeps_rules begin_keeps)
  from keepsD [OF this led] obtain ls where ls: "snd (fst u1) = snd (fst u) @ ls" "list_all (\<lambda>e. \<not> publishes e) ls"
    by (auto simp: grows_def)
  show ?thesis
  proof (cases x)
    case (Inl e)
    with main led have "v' = u1" "r = Inl e" by (simp_all add: ibind_def)
    with ls show ?thesis by auto
  next
    case (Inr z)
    with main led have main2: "ibind ?publish ?done u1 = (r, v')" by (simp add: ibind_def [of ?ledger])
    obtain q u2 where pub: "?publish u1 = (q, u2)" by (cases "?publish u1")
    with main2 have "v' = u2" "q \<notin> range Inr \<Longrightarrow> r \<notin> range Inr"
      by (cases q; auto simp: ibind_def ilift_def ireturn_def split: sum.splits)+
    moreover from publication_segments [OF pub] obtain rest es where "snd (fst u2) = snd (fst u1) @ rest @ es"
      "list_all (\<lambda>e. \<not> publishes e) rest" "es = [] \<and> q \<notin> range Inr \<or> published_run L fs es" by blast
    ultimately have "snd (fst v') = snd (fst u) @ (ls @ rest) @ es" "list_all (\<lambda>e. \<not> publishes e) (ls @ rest)"
      "es = [] \<and> r \<notin> range Inr \<or> published_run L fs es" using ls by auto
    then show ?thesis by blast
  qed
qed


section \<open>Candidates\<close>

lemma prepare_candidate_reads:
  "keeps (grows (\<lambda>v. snd (fst v)) (\<lambda>e. \<not> changes e)) (prepare_candidate L A T (logged_hub H) now args)"
proof -
  have c: "hb_client (logged_hub H) = logged (hb_client H)" by (simp add: logged_hub_def)
  show ?thesis
    unfolding prepare_candidate_def unless_superseded_def Let_def c
    by (intro timed_log.quiet.keeps_publication timed_log.quiet.keeps_superseded wait_run_keeps)
qed

text \<open>The files are the staged assets and the bytes are a manifest of this run's source that lists them.\<close>

definition manifest_of :: "pylib \<Rightarrow> candidate_args \<Rightarrow> files \<Rightarrow> string \<Rightarrow> bool" where
  "manifest_of L args fs content \<longleftrightarrow> stage_assets L (ca_assets args) = Inr fs \<and>
     (\<exists>info base_ver tagname snapshot run_id attempt created. rc_version (ca_version args) = Inr base_ver \<and> positive (ca_run_id args) = Inr run_id \<and> positive (ca_attempt args) = Inr attempt \<and>
        content = rc_json_bytes L (PDict (candidate_manifest L info base_ver (ca_channel args) tagname (ca_sha args) snapshot run_id attempt created fs)))"

lemma prepare_candidate_manifest:
  assumes "prepare_candidate L A T H now args v = (Inr (Inr (tagname, fs, content, body)), v')"
  shows "manifest_of L args fs content"
  using assms unfolding prepare_candidate_def unless_superseded_def Let_def manifest_of_def
  by (auto simp: ibind_Inr_iff ireturn_def split: option.splits)

lemma file_log: "hb_file (timed_hub T (logged_hub H)) path data v = (r, v') \<Longrightarrow> snd (fst v') = snd (fst v) @ [Stored path]"
  by (cases v) (auto simp: timed_hub_def logged_hub_def split: prod.splits)

lemma candidate_tail:
  assumes run: "candidate L A verify T (logged_hub H) now args v = (r, v')"
    and prep: "prepare_candidate L A T (logged_hub H) now args v = (Inr (Inr (tagname, fs, content, body)), u)"
  shows "\<exists>rest es. snd (fst v') = snd (fst u) @ Stored EVIDENCE # rest @ es \<and> list_all (\<lambda>e. \<not> publishes e) rest \<and>
     (es = [] \<and> r \<notin> range Inr \<or> published_run L (fs @ [(MANIFEST, content)]) es)"
proof -
  let ?H = "timed_hub T (logged_hub H)"
  let ?publish = "publish_prepared L verify ?H tagname (ca_sha args) (fs @ [(MANIFEST, content)]) True body (plain_create L (hb_client ?H)) (ireturn ())"
  let ?done = "\<lambda>release. ibind (ilift (ditem release ''html_url'')) (\<lambda>url.
    ireturn [(''status'', PStr ''published''), (''tag'', PStr tagname), (''release_url'', url), (''manifest_path'', PStr EVIDENCE)])"
  have main: "ibind (hb_file ?H EVIDENCE content) (\<lambda>_. ibind ?publish ?done) u = (r, v')"
    using run unfolding candidate_def Let_def by (simp add: ibind_def [of "prepare_candidate L A T (logged_hub H) now args"] prep)
  obtain x u1 where st: "hb_file ?H EVIDENCE content u = (x, u1)" by (cases "hb_file ?H EVIDENCE content u")
  note stored = file_log [OF st]
  show ?thesis
  proof (cases x)
    case (Inl e)
    with main st have "v' = u1" "r = Inl e" by (simp_all add: ibind_def)
    with stored show ?thesis by auto
  next
    case (Inr z)
    with main st have main2: "ibind ?publish ?done u1 = (r, v')" by (simp add: ibind_def [of "hb_file ?H EVIDENCE content"])
    obtain q u2 where pub: "?publish u1 = (q, u2)" by (cases "?publish u1")
    with main2 have "v' = u2" "q \<notin> range Inr \<Longrightarrow> r \<notin> range Inr"
      by (cases q; auto simp: ibind_def ilift_def ireturn_def split: sum.splits)+
    with publication_segments [OF pub] stored show ?thesis by auto
  qed
qed


end
