(* ===== verification/CreateReadback.thy ===== *)
theory CreateReadback
  imports PublicationProps
begin

text \<open>
  The bounded observation after an ambiguous create response (\<open>CreateReadback\<close> in
  \<open>scripts/release_control.py\<close>): a deadline, a budget of response bytes and at most 100 GET calls, shared by
  all reads; list pages are followed by number only, and a \<open>Link\<close> header may confirm the next number but
  never names the request. The page loop is a total function: its termination is the call limit.
\<close>

section \<open>Links\<close>

text \<open>The components of \<open>urlsplit\<close>: scheme, authority, path, query and fragment. The argument has no
  character that \<open>urlsplit\<close> drops inside it.\<close>

record url =
  url_scheme :: string
  url_netloc :: string
  url_path :: string
  url_query :: string
  url_fragment :: string

definition before_any :: "char set \<Rightarrow> string \<Rightarrow> string" where
  "before_any cs s = takeWhile (\<lambda>c. c \<notin> cs) s"

definition past_any :: "char set \<Rightarrow> string \<Rightarrow> string" where
  "past_any cs s = drop 1 (dropWhile (\<lambda>c. c \<notin> cs) s)"

definition scheme_char :: "char \<Rightarrow> bool" where
  "scheme_char c \<longleftrightarrow> is_upper c \<or> is_lower c \<or> is_digit c \<or> c \<in> {CHR ''+'', CHR ''-'', CHR ''.''}"

definition url_clean :: "string \<Rightarrow> string" where
  "url_clean s = filter (\<lambda>c. c \<notin> {CHR 0x09, CHR 0x0A, CHR 0x0D}) (dropWhile (\<lambda>c. (of_char c :: nat) \<le> 32) s)"

definition urlsplit :: "string \<Rightarrow> url result" where
  "urlsplit s0 =
     (let s = url_clean s0; head = before_any {CHR '':''} s;
          schemed = (CHR '':'' \<in> set s \<and> head \<noteq> [] \<and> (is_upper (hd head) \<or> is_lower (hd head)) \<and> list_all scheme_char head);
          scheme = (if schemed then lower head else []);
          rest = (if schemed then past_any {CHR '':''} s else s);
          netloc = (if prefix ''//'' rest then before_any (set ''/?#'') (drop 2 rest) else []);
          r2 = (if prefix ''//'' rest then drop (length netloc + 2) rest else rest) in
      if (CHR ''['' \<in> set netloc) \<noteq> (CHR '']'' \<in> set netloc) then Inl (ValueError ''Invalid IPv6 URL'')
      else
        let fragment = past_any {CHR ''#''} r2; r3 = before_any {CHR ''#''} r2 in
        Inr \<lparr>url_scheme = scheme, url_netloc = netloc, url_path = before_any {CHR ''?''} r3, url_query = past_any {CHR ''?''} r3, url_fragment = fragment\<rparr>)"

text \<open>\<open>parse_qs\<close> with \<open>strict_parsing\<close> and \<open>keep_blank_values\<close>: the fields in order.\<close>

definition qs_text :: "string \<Rightarrow> string" where
  "qs_text s = unquote (map (\<lambda>c. if c = CHR ''+'' then CHR '' '' else c) s)"

definition qs_field :: "string \<Rightarrow> (string \<times> string) result" where
  "qs_field field =
     (if CHR ''='' \<in> set field then Inr (qs_text (before_any {CHR ''=''} field), qs_text (past_any {CHR ''=''} field))
      else Inl (ValueError ''bad query field''))"

definition parse_qs :: "string \<Rightarrow> (string \<times> string) list result" where
  "parse_qs query = (if query = [] then Inr [] else rmap qs_field (split_on (CHR ''&'') query))"

definition page_query :: "nat \<Rightarrow> (string \<times> string) list \<Rightarrow> bool" where
  "page_query page qs \<longleftrightarrow> length qs = 2 \<and> set qs = {(''per_page'', ''100''), (''page'', nat_str page)}"

definition str_space :: rx where "str_space = Star (Cls is_space)"

definition link_rx :: "string \<Rightarrow> rx" where
  "link_rx rel = SeqOf [str_space, Lit (CHR ''<''), Plus (Cls (\<lambda>c. c \<notin> {CHR ''<'', CHR ''>''})), Word ''>;'', str_space,
     Word ''rel='', Lit (CHR 0x22), Word rel, Lit (CHR 0x22), str_space]"

definition link_target :: "string \<Rightarrow> string" where
  "link_target link = before_any {CHR ''>''} (past_any {CHR ''<''} link)"

section \<open>The state of one observation\<close>

text \<open>The clock counts in the unit of the call limits.\<close>

record readback =
  rb_deadline :: int
  rb_remaining :: int
  rb_calls :: nat
  rb_repository_id :: "int option"

record 'w observer =
  ob_env :: "'w gh_env"
  ob_now :: "'w \<Rightarrow> int"
  ob_repo :: string

definition rb_init :: "'w observer \<Rightarrow> 'w \<Rightarrow> readback result" where
  "rb_init B w =
     rbind (rc_require (fullmatch REPO_RE (ob_repo B)) ''Invalid readback repository'') (\<lambda>_.
     Inr \<lparr>rb_deadline = ob_now B w + 180, rb_remaining = 64 * 1024 * 1024, rb_calls = 0, rb_repository_id = None\<rparr>)"

definition rb_check :: "'w observer \<Rightarrow> ('w \<times> readback, int) io" where
  "rb_check B ws =
     (let remaining = rb_deadline (snd ws) - ob_now B (fst ws) in
      (rbind (rc_require (remaining > 0) ''Create readback deadline exceeded'') (\<lambda>_. Inr remaining), ws))"

definition rb_count :: "('w \<times> readback, unit) io" where
  "rb_count ws =
     (let s = snd ws\<lparr>rb_calls := rb_calls (snd ws) + 1\<rparr> in
      (rc_require (rb_calls s \<le> 100) ''Create readback request limit exceeded'', (fst ws, s)))"

definition rb_account :: "int \<Rightarrow> ('w \<times> readback, unit) io" where
  "rb_account n ws =
     (let s = snd ws\<lparr>rb_remaining := rb_remaining (snd ws) - n\<rparr> in
      (rc_require (rb_remaining s \<ge> 0) ''Create readback response limit exceeded'', (fst ws, s)))"

definition rb_run :: "'w observer \<Rightarrow> call \<Rightarrow> ('w \<times> readback, completed) io" where
  "rb_run B c ws =
     (case irun (ob_env B) c (fst ws) of
        (Inr (Completed result), w) \<Rightarrow> (Inr result, (w, snd ws))
      | (Inr (TimeoutExpired out err), w) \<Rightarrow> (Inl (github_error ''Create readback GET timed out''), (w, snd ws))
      | (Inr NotStarted, w) \<Rightarrow> (Inl (OSError ''gh''), (w, snd ws))
      | (Inl e, w) \<Rightarrow> (Inl e, (w, snd ws)))"

definition rb_set_id :: "int \<Rightarrow> ('w \<times> readback, unit) io" where
  "rb_set_id i ws = (Inr (), (fst ws, snd ws\<lparr>rb_repository_id := Some i\<rparr>))"

section \<open>One read\<close>

definition page_path :: rx where
  "page_path = SeqOf [Word ''releases'', Opt (SeqOf [Word ''/'', positive_numeral, Word ''/assets'']), Word ''?per_page=100&page='', positive_numeral]"

definition rb_path_ok :: "string \<Rightarrow> unit result" where
  "rb_path_ok path =
     rbind (rc_require ((\<exists>p \<in> set (case API_PATHS ''GET'' of Some ps \<Rightarrow> ps | None \<Rightarrow> []). fullmatch p path) \<or> fullmatch page_path path)
       ''Invalid create readback path'') (\<lambda>_.
     rc_require (traversal_free path) ''Invalid create readback path'')"

definition rb_call :: "string \<Rightarrow> string \<Rightarrow> int \<Rightarrow> call" where
  "rb_call repository path remaining =
     \<lparr>argv = [''gh'', ''api'', ''--hostname'', ''github.com'', ''--include'', ''--method'', ''GET'', ''--'',
        ''repos/'' @ repository @ (if path = [] then [] else ''/'' @ path)],
      stdin = None, limit = Some (min API_READ_TIMEOUT remaining)\<rparr>"

definition rb_reply :: "pylib \<Rightarrow> completed \<Rightarrow> (pyval \<times> string) result" where
  "rb_reply L result =
     rbind (github_http_response L (stdout result) False) (\<lambda>(status, body).
     rbind (rc_require (returncode result = 0 \<and> status = 200) ''Create readback GET failed'') (\<lambda>_.
     rbind (parse_json L body) (\<lambda>v.
     Inr (v, take (length (stdout result) - length body) (stdout result)))))"

definition rb_get :: "pylib \<Rightarrow> 'w observer \<Rightarrow> string \<Rightarrow> ('w \<times> readback, pyval \<times> string) io" where
  "rb_get L B path =
     ibind (ilift (rb_path_ok path)) (\<lambda>_.
     ibind rb_count (\<lambda>_.
     ibind (rb_check B) (\<lambda>remaining.
     ibind (rb_run B (rb_call (ob_repo B) path remaining)) (\<lambda>result.
     ibind (rb_check B) (\<lambda>_.
     ibind (rb_account (int (length (stdout result)) + int (length (stderr result)))) (\<lambda>_.
     ilift (rb_reply L result)))))))"

definition rb_json :: "pylib \<Rightarrow> 'w observer \<Rightarrow> string \<Rightarrow> ('w \<times> readback, pyval) io" where
  "rb_json L B path = ibind (rb_get L B path) (\<lambda>(v, header). ireturn v)"

section \<open>Pages\<close>

definition rb_row :: "jobject list \<times> int list \<Rightarrow> pyval \<Rightarrow> (jobject list \<times> int list) result" where
  "rb_row acc v =
     (case v of
        PDict d \<Rightarrow>
          rbind (positive (dget d ''id'' PNone)) (\<lambda>identity.
          rbind (rc_require (identity \<notin> set (snd acc)) ''Duplicate create inventory ID'') (\<lambda>_.
          Inr (fst acc @ [d], snd acc @ [identity])))
      | _ \<Rightarrow> Inl (ReleaseError ''Invalid create inventory record''))"

definition link_values :: "string \<Rightarrow> string list" where
  "link_values header = map (\<lambda>line. strip_by byte_space (past_any {CHR '':''} line)) (filter (\<lambda>line. prefix ''link:'' (lower line)) (byte_lines [] header))"

definition header_links :: "string \<Rightarrow> string list result" where
  "header_links header =
     rbind (rc_require (length (link_values header) \<le> 1) ''Duplicate pagination header'') (\<lambda>_.
     case link_values header of
       [] \<Rightarrow> Inr []
     | v # _ \<Rightarrow> if list_all (\<lambda>c. (of_char c :: nat) < 128) v then Inr (split_on (CHR '','') v) else Inl (ValueError ''ascii''))"

text \<open>The URL of a link to the next page; other relations are checked for their form only.\<close>

definition next_target :: "nat \<Rightarrow> string \<Rightarrow> url option result" where
  "next_target page link =
     rbind (rc_require (\<exists>rel \<in> set [''next'', ''prev'', ''first'', ''last'']. fullmatch (link_rx rel) link) ''Invalid create pagination link'') (\<lambda>_.
     if \<not> fullmatch (link_rx ''next'') link then Inr None
     else
       rbind (urlsplit (link_target link)) (\<lambda>target.
       rbind (if url_scheme target = ''https'' \<and> url_netloc target = ''api.github.com'' \<and> url_fragment target = []
              then rbind (parse_qs (url_query target)) (\<lambda>qs. Inr (page_query (page + 1) qs)) else Inr False) (\<lambda>ok.
       rbind (rc_require ok ''Unexpected create pagination target'') (\<lambda>_.
       Inr (Some target)))))"

definition numeric_path :: "string \<Rightarrow> string \<Rightarrow> string option" where
  "numeric_path path s =
     (if prefix ''/repositories/'' s then
        let rest = drop 14 s in
        if fullmatch positive_numeral (before_any {CHR ''/''} rest) \<and> rest = before_any {CHR ''/''} rest @ ''/'' @ path
        then Some (before_any {CHR ''/''} rest) else None
      else None)"

definition repository_identity :: "string \<Rightarrow> pyval \<Rightarrow> int result" where
  "repository_identity repository info =
     (case info of
        PDict d \<Rightarrow>
          (case (dget d ''full_name'' PNone, dget d ''id'' PNone) of
             (PStr name, PInt i) \<Rightarrow>
               rbind (rc_require (fullmatch REPO_RE name \<and> lower name = lower repository \<and> 0 < i) ''Create readback repository identity changed'') (\<lambda>_.
               Inr i)
           | _ \<Rightarrow> Inl (ReleaseError ''Create readback repository identity changed''))
      | _ \<Rightarrow> Inl (ReleaseError ''Invalid readback repository metadata''))"

definition rb_repository :: "pylib \<Rightarrow> 'w observer \<Rightarrow> ('w \<times> readback, int) io" where
  "rb_repository L B ws =
     (case rb_repository_id (snd ws) of
        Some i \<Rightarrow> (Inr i, ws)
      | None \<Rightarrow>
          ibind (rb_json L B []) (\<lambda>info.
          ibind (ilift (repository_identity (ob_repo B) info)) (\<lambda>i.
          ibind (rb_set_id i) (\<lambda>_. ireturn i))) ws)"

text \<open>Whether the link is to the next page.\<close>

definition rb_link :: "pylib \<Rightarrow> 'w observer \<Rightarrow> string \<Rightarrow> nat \<Rightarrow> string \<Rightarrow> ('w \<times> readback, bool) io" where
  "rb_link L B path page link =
     ibind (ilift (next_target page link)) (\<lambda>found.
     case found of
       None \<Rightarrow> ireturn False
     | Some target \<Rightarrow>
         if url_path target = ''/repos/'' @ ob_repo B @ ''/'' @ path then ireturn True
         else
           (case numeric_path path (url_path target) of
              None \<Rightarrow> ilift (Inl (ReleaseError ''Unexpected create pagination path''))
            | Some n \<Rightarrow>
                ibind (rb_repository L B) (\<lambda>i.
                ibind (ilift (if length n > 4300 then Inl (ValueError ''Exceeds the limit for integer string conversion'')
                  else rc_require (int (dec_val n) = i) ''Create pagination repository ID changed'')) (\<lambda>_.
                ireturn True))))"

text \<open>One round: the records so far, and whether the list ends here.\<close>

definition page_end :: "pyval list \<Rightarrow> bool list \<Rightarrow> bool result" where
  "page_end values nexts =
     (let more = length (filter (\<lambda>b. b) nexts) in
      rbind (rc_require (more \<le> 1) ''Duplicate next-page link'') (\<lambda>_.
      if more = 0 \<and> length values < 100 then Inr True
      else rbind (rc_require (values \<noteq> []) ''Empty create inventory page has a successor'') (\<lambda>_. Inr False)))"

definition page_list :: "pyval \<Rightarrow> pyval list result" where
  "page_list v =
     (case v of
        PList xs \<Rightarrow> rbind (rc_require (length xs \<le> 100) ''Invalid create inventory page'') (\<lambda>_. Inr xs)
      | _ \<Rightarrow> Inl (ReleaseError ''Invalid create inventory page''))"

definition list_page :: "string \<Rightarrow> nat \<Rightarrow> string" where
  "list_page path page = path @ ''?per_page=100&page='' @ nat_str page"

definition rb_page ::
  "pylib \<Rightarrow> 'w observer \<Rightarrow> string \<Rightarrow> nat \<Rightarrow> jobject list \<times> int list \<Rightarrow> ('w \<times> readback, (jobject list \<times> int list) \<times> bool) io" where
  "rb_page L B path page acc =
     ibind (rb_get L B (list_page path page)) (\<lambda>(v, header).
     ibind (ilift (page_list v)) (\<lambda>values.
     ibind (ilift (rfold rb_row acc values)) (\<lambda>acc'.
     ibind (ilift (header_links header)) (\<lambda>links.
     ibind (imap (rb_link L B path page) links) (\<lambda>nexts.
     ibind (ilift (page_end values nexts)) (\<lambda>finished.
     ireturn (acc', finished)))))))"

section \<open>What every read keeps\<close>

text \<open>
  Against an environment that logs its calls: the log grows by GET requests of this repository within the time limit,
  the calls are counted, none is made beyond the hundredth, and the deadline stays.
\<close>

definition get_call :: "string \<Rightarrow> call \<Rightarrow> bool" where
  "get_call repository c \<longleftrightarrow> (\<exists>path t. c = rb_call repository path t \<and> 0 < t \<and> rb_path_ok path = Inr ())"

definition observes :: "string \<Rightarrow> call list \<times> readback \<Rightarrow> call list \<times> readback \<Rightarrow> bool" where
  "observes repository u v \<longleftrightarrow>
     (\<exists>cs. fst v = fst u @ cs \<and> list_all (get_call repository) cs \<and> rb_calls (snd u) + length cs \<le> rb_calls (snd v)
       \<and> (cs \<noteq> [] \<longrightarrow> rb_calls (snd u) + length cs \<le> 100)) \<and> rb_deadline (snd v) = rb_deadline (snd u)"

text \<open>Every world: the number of calls made so far never decreases.\<close>

definition counts :: "'w \<times> readback \<Rightarrow> 'w \<times> readback \<Rightarrow> bool" where
  "counts u v \<longleftrightarrow> rb_calls (snd u) \<le> rb_calls (snd v)"

interpretation counting_frame: frame counts
  by unfold_locales (auto simp: counts_def)

lemma observes_trans: "observes r u v \<Longrightarrow> observes r v w \<Longrightarrow> observes r u w"
  unfolding observes_def
  apply (elim conjE exE)
  subgoal for cs ds by (intro conjI exI [of _ "cs @ ds"]) auto
  done

interpretation observing_frame: frame "observes r" for r
  by unfold_locales (auto simp: observes_trans, auto simp: observes_def)

lemma counts_count: "keeps counts rb_count"
  by (simp add: keeps_def counts_def rb_count_def Let_def)

lemma counts_steps:
  "keeps counts (rb_check B)" "keeps counts (rb_account n)" "keeps counts (rb_set_id i)"
  by (simp_all add: keeps_def counts_def rb_check_def rb_account_def rb_set_id_def Let_def)

lemma counts_run: "keeps counts (rb_run B c)"
  by (auto simp: keeps_def counts_def rb_run_def split: prod.splits sum.splits outcome.splits)

lemma counts_get: "keeps counts (rb_get L B path)"
  unfolding rb_get_def by (intro counting_frame.keeps_rules counts_count counts_steps counts_run)

lemma rb_get_counts:
  assumes "rb_get L B path ws = (Inr r, ws')"
  shows "rb_calls (snd ws) < rb_calls (snd ws') \<and> rb_calls (snd ws) < 100"
proof -
  let ?s = "(fst ws, snd ws\<lparr>rb_calls := rb_calls (snd ws) + 1\<rparr>)"
  define rest where "rest = ibind (rb_check B) (\<lambda>remaining.
     ibind (rb_run B (rb_call (ob_repo B) path remaining)) (\<lambda>result.
     ibind (rb_check B) (\<lambda>_.
     ibind (rb_account (int (length (stdout result)) + int (length (stderr result)))) (\<lambda>_.
     ilift (rb_reply L result)))))"
  have "keeps counts rest"
    unfolding rest_def by (intro counting_frame.keeps_rules counts_steps counts_run)
  moreover have "rest ?s = (Inr r, ws')" "rb_calls (snd ws) < 100"
    using assms unfolding rb_get_def rest_def [symmetric]
    by (auto simp: ibind_Inr_iff rb_count_def Let_def)
  ultimately show ?thesis by (auto simp: counts_def dest!: keepsD)
qed

text \<open>What every single read keeps, all that is built of reads keeps.\<close>

locale bounded_reads = frame R for R :: "'w \<times> readback \<Rightarrow> 'w \<times> readback \<Rightarrow> bool" +
  fixes L :: pylib and B :: "'w observer"
  assumes keeps_get: "keeps R (rb_get L B path)"
    and keeps_set_id: "keeps R (rb_set_id i)"
begin

lemma keeps_json: "keeps R (rb_json L B path)"
  unfolding rb_json_def by (intro keeps_rules keeps_get)

lemma keeps_repository: "keeps R (rb_repository L B)"
  unfolding keeps_def
proof
  fix ws
  have "keeps R (ibind (rb_json L B []) (\<lambda>info. ibind (ilift (repository_identity (ob_repo B) info)) (\<lambda>i. ibind (rb_set_id i) (\<lambda>_. ireturn i))))"
    by (intro keeps_rules keeps_json keeps_set_id)
  then show "R ws (snd (rb_repository L B ws))"
    by (cases ws; cases "rb_repository_id (snd ws)") (simp_all add: rb_repository_def keeps_def frame_refl)
qed

lemma keeps_link: "keeps R (rb_link L B path page link)"
  unfolding rb_link_def by (intro keeps_rules keeps_repository)

lemma keeps_round:
  "keeps R (ibind (ilift (page_list v)) (\<lambda>values.
     ibind (ilift (rfold rb_row acc values)) (\<lambda>acc'.
     ibind (ilift (header_links header)) (\<lambda>links.
     ibind (imap (rb_link L B path page) links) (\<lambda>nexts.
     ibind (ilift (page_end values nexts)) (\<lambda>finished.
     ireturn (acc', finished)))))))"
  by (intro keeps_rules keeps_imap keeps_link)

lemma keeps_page: "keeps R (rb_page L B path page acc)"
  unfolding rb_page_def by (intro keeps_ibind keeps_pair keeps_get keeps_round)

end

interpretation counting: bounded_reads counts L B for L :: pylib and B :: "'w observer"
  by unfold_locales (simp_all add: counts_get counts_steps)

lemma rb_page_counts:
  assumes "rb_page L B path page acc ws = (Inr r, ws')"
  shows "rb_calls (snd ws) < rb_calls (snd ws') \<and> rb_calls (snd ws) < 100"
proof -
  from assms obtain v header ws1 where g: "rb_get L B (list_page path page) ws = (Inr (v, header), ws1)"
    and rest: "ibind (ilift (page_list v)) (\<lambda>values.
     ibind (ilift (rfold rb_row acc values)) (\<lambda>acc'.
     ibind (ilift (header_links header)) (\<lambda>links.
     ibind (imap (rb_link L B path page) links) (\<lambda>nexts.
     ibind (ilift (page_end values nexts)) (\<lambda>finished.
     ireturn (acc', finished)))))) ws1 = (Inr r, ws')"
    unfolding rb_page_def by (auto simp: ibind_Inr_iff)
  from keepsD [OF counting.keeps_round rest] rb_get_counts [OF g] show ?thesis by (auto simp: counts_def)
qed

section \<open>The page loop\<close>

function rb_pages_from ::
  "pylib \<Rightarrow> 'w observer \<Rightarrow> string \<Rightarrow> nat \<Rightarrow> jobject list \<times> int list \<Rightarrow> 'w \<times> readback \<Rightarrow> jobject list result \<times> 'w \<times> readback" where
  "rb_pages_from L B path page acc ws =
     (case rb_page L B path page acc ws of
        (Inl e, ws') \<Rightarrow> (Inl e, ws')
      | (Inr (acc', finished), ws') \<Rightarrow>
          if finished then (Inr (fst acc'), ws') else rb_pages_from L B path (page + 1) acc' ws')"
  by pat_completeness auto

termination
proof (relation "measure (\<lambda>(L, B, path, page, acc, ws). 101 - rb_calls (snd ws))", goal_cases)
  case 1
  then show ?case by simp
next
  case (2 L B path page acc ws r ws' p acc' finished)
  then have "rb_page L B path page acc ws = (Inr (acc', finished), ws')" by simp
  from rb_page_counts [OF this] show ?case by (auto simp: less_diff_conv)
qed

declare rb_pages_from.simps [simp del]

definition rb_pages :: "pylib \<Rightarrow> 'w observer \<Rightarrow> string \<Rightarrow> ('w \<times> readback, jobject list) io" where
  "rb_pages L B path = rb_pages_from L B path 1 ([], [])"

context bounded_reads
begin

lemma keeps_pages_from: "R ws (snd (rb_pages_from L B path page acc ws))"
proof (induction "101 - rb_calls (snd ws)" arbitrary: page acc ws rule: less_induct)
  case less
  obtain r ws1 where p: "rb_page L B path page acc ws = (r, ws1)"
    by (cases "rb_page L B path page acc ws")
  have step: "R ws ws1" using keepsD [OF keeps_page p] .
  show ?case
  proof (cases r)
    case (Inl e)
    with p step show ?thesis by (simp add: rb_pages_from.simps)
  next
    case (Inr x)
    obtain acc1 finished where x: "x = (acc1, finished)" by fastforce
    show ?thesis
    proof (cases finished)
      case True
      with p x Inr step show ?thesis by (simp add: rb_pages_from.simps [of L B path page acc ws])
    next
      case False
      have "101 - rb_calls (snd ws1) < 101 - rb_calls (snd ws)"
        using rb_page_counts [of L B path page acc ws] p Inr by auto
      from less.hyps [OF this] have "R ws1 (snd (rb_pages_from L B path (page + 1) acc1 ws1))" .
      from frame_trans [OF step this] show ?thesis
        using p x Inr False by (simp add: rb_pages_from.simps [of L B path page acc ws])
    qed
  qed
qed

lemma keeps_pages: "keeps R (rb_pages L B path)"
  by (simp add: keeps_def rb_pages_def keeps_pages_from)

end

section \<open>Bounds\<close>

definition watching :: "(call list \<Rightarrow> outcome) \<Rightarrow> (call list \<Rightarrow> int) \<Rightarrow> string \<Rightarrow> call list observer" where
  "watching respond now r = \<lparr>ob_env = recorded respond, ob_now = now, ob_repo = r\<rparr>"

lemma observes_run:
  assumes "rb_path_ok path = Inr ()" "0 < t" "Suc (rb_calls s) \<le> 100"
    "rb_run (watching respond now r) (rb_call r path t) (w, s\<lparr>rb_calls := rb_calls s + 1\<rparr>) = (x, ws)"
  shows "observes r (w, s) ws"
proof -
  have "snd ws = s\<lparr>rb_calls := rb_calls s + 1\<rparr> \<and> fst ws = w @ [rb_call r path t]"
    using assms(4)
    by (auto simp: rb_run_def watching_def irun_recorded split: prod.splits sum.splits outcome.splits)
  moreover have "get_call r (rb_call r path t)" using assms(1,2) by (auto simp: get_call_def)
  ultimately show ?thesis using assms(3) by (auto simp: observes_def)
qed

lemma observes_steps:
  "keeps (observes r) (rb_check B)" "keeps (observes r) (rb_account n)" "keeps (observes r) (rb_set_id i)"
  "keeps (observes r) rb_count"
  by (auto simp: keeps_def observes_def rb_check_def rb_account_def rb_set_id_def rb_count_def Let_def)

lemma observes_get: "keeps (observes r) (rb_get L (watching respond now r) path)"
  unfolding keeps_def
proof
  fix ws :: "call list \<times> readback"
  let ?B = "watching respond now r"
  define tail where "tail = (\<lambda>result. ibind (rb_check ?B) (\<lambda>_.
     ibind (rb_account (int (length (stdout result)) + int (length (stderr result)))) (\<lambda>_.
     ilift (rb_reply L result))))"
  have tail: "keeps (observes r) (tail result)" for result
    unfolding tail_def by (intro observing_frame.keeps_rules observes_steps)
  obtain w s where ws: "ws = (w, s)" by (cases ws)
  show "observes r ws (snd (rb_get L ?B path ws))"
  proof (cases "rb_path_ok path = Inr () \<and> rb_calls s < 100 \<and> rb_deadline s > now w")
    case False
    then show ?thesis
      by (cases "rb_path_ok path")
         (auto simp: rb_get_def ws rb_count_def rb_check_def ibind_def rc_require_def ensure_def watching_def Let_def observes_def)
  next
    case True
    let ?t = "rb_deadline s - now w"
    obtain x v where run: "rb_run ?B (rb_call r path ?t) (w, s\<lparr>rb_calls := rb_calls s + 1\<rparr>) = (x, v)"
      by (cases "rb_run ?B (rb_call r path ?t) (w, s\<lparr>rb_calls := rb_calls s + 1\<rparr>)")
    have here: "observes r ws v" unfolding ws by (rule observes_run [OF _ _ _ run]) (use True in auto)
    have "rb_get L ?B path ws = ibind (rb_run ?B (rb_call r path ?t)) tail (w, s\<lparr>rb_calls := rb_calls s + 1\<rparr>)"
      unfolding tail_def using True
      by (simp add: rb_get_def ws rb_count_def rb_check_def watching_def ibind_def Let_def)
    also have "\<dots> = (case x of Inl e \<Rightarrow> (Inl e, v) | Inr result \<Rightarrow> tail result v)"
      using run by (simp add: ibind_def)
    finally have "rb_get L ?B path ws = (case x of Inl e \<Rightarrow> (Inl e, v) | Inr result \<Rightarrow> tail result v)" .
    moreover have "observes r v (snd (tail result v))" for result
      using tail unfolding keeps_def by blast
    ultimately show ?thesis using here observes_trans by (auto split: sum.splits)
  qed
qed

interpretation observing: bounded_reads "observes r" L "watching respond now r"
  for r :: string and L :: pylib and respond :: "call list \<Rightarrow> outcome" and now :: "call list \<Rightarrow> int"
  by unfold_locales (simp_all add: observes_get observes_steps)

text \<open>The records collected so far and their identifiers.\<close>

definition identified :: "jobject list \<times> int list \<Rightarrow> bool" where
  "identified acc \<longleftrightarrow> map (\<lambda>row. positive (dget row ''id'' PNone)) (fst acc) = map Inr (snd acc) \<and> distinct (snd acc)"

lemma rb_row_identified: "rb_row acc v = Inr acc' \<Longrightarrow> identified acc \<Longrightarrow> identified acc'"
  by (auto simp: rb_row_def identified_def rbind_Inr_iff split: pyval.splits)

lemma rb_rows_identified: "rfold rb_row acc values = Inr acc' \<Longrightarrow> identified acc \<Longrightarrow> identified acc'"
  by (induction "values" arbitrary: acc) (auto simp: rbind_Inr_iff dest: rb_row_identified)

lemma rb_page_identified:
  "rb_page L B path page acc ws = (Inr (acc', finished), ws') \<Longrightarrow> identified acc \<Longrightarrow> identified acc'"
  unfolding rb_page_def by (auto simp: ibind_Inr_iff dest: rb_rows_identified)

lemma rb_pages_from_identified:
  "rb_pages_from L B path page acc ws = (Inr rows, ws') \<Longrightarrow> identified acc \<Longrightarrow> \<exists>ids. identified (rows, ids)"
proof (induction L B path page acc ws rule: rb_pages_from.induct)
  case (1 L B path page acc ws)
  obtain r ws1 where p: "rb_page L B path page acc ws = (r, ws1)"
    by (cases "rb_page L B path page acc ws")
  with "1.prems"(1) obtain acc1 finished where r: "r = Inr (acc1, finished)"
    by (cases r) (auto simp: rb_pages_from.simps [of L B path page acc ws])
  have acc1: "identified acc1" using rb_page_identified p r "1.prems"(2) by blast
  show ?case
  proof (cases finished)
    case True
    then show ?thesis using "1.prems"(1) p r acc1
      by (cases acc1) (auto simp: rb_pages_from.simps [of L B path page acc ws])
  next
    case False
    then have "rb_pages_from L B path (page + 1) acc1 ws1 = (Inr rows, ws')"
      using "1.prems"(1) p r by (simp add: rb_pages_from.simps [of L B path page acc ws])
    from "1.IH" [OF p [symmetric] _ refl False this acc1] r show ?thesis by auto
  qed
qed

text \<open>
  C26: reading a list ends for every behaviour of the outside and of the clock: the requests it adds, all of them
  GET requests of the repository with a positive time limit, never exceed what is left of the hundred that one
  observation may make, the deadline never moves, and the records it returns carry pairwise different positive
  identifiers.
\<close>

theorem readback_pages_bounded:
  "case rb_pages L (watching respond now r) path (w, s) of (result, w', s') \<Rightarrow>
     (\<exists>cs. w' = w @ cs \<and> length cs \<le> 100 - rb_calls s \<and> list_all (get_call r) cs) \<and> rb_deadline s' = rb_deadline s
     \<and> (case result of Inl e \<Rightarrow> True | Inr rows \<Rightarrow>
          (\<exists>ids. distinct ids \<and> map (\<lambda>row. positive (dget row ''id'' PNone)) rows = map Inr ids))"
proof -
  obtain result w' s' where p: "rb_pages L (watching respond now r) path (w, s) = (result, w', s')"
    by (cases "rb_pages L (watching respond now r) path (w, s)") auto
  have "observes r (w, s) (w', s')" using keepsD [OF observing.keeps_pages p] .
  moreover have "\<exists>ids. identified (rows, ids)" if "result = Inr rows" for rows
    using rb_pages_from_identified p that unfolding rb_pages_def by (fastforce simp: identified_def)
  ultimately show ?thesis
    unfolding p by (auto simp: observes_def identified_def split: sum.splits)
qed

end
