(* ===== verification/CreateRelease.thy ===== *)
theory CreateRelease
  imports CreateReadback
begin

text \<open>
  Creating a release exactly once (\<open>scripts/release_control.py\<close>): \<open>create_release_once\<close> sends one POST and
  tells a refused request from one whose outcome is unknown; only then \<open>_reconcile_created_release\<close> looks for
  the draft of this call, through the bounded reads of \<open>CreateReadback\<close>. Also the probe of the publication
  token's permissions.
\<close>

section \<open>One POST\<close>

definition starts_refused :: "string \<Rightarrow> bool" where
  "starts_refused out = fullmatch (SeqOf [Word ''HTTP/'', http_version, Word '' 4'', Rep 2 (Cls is_digit), Cls byte_space, Star (Cls (\<lambda>_. True))]) (out @ [LF])"

definition decode_failure_rx :: rx where
  "decode_failure_rx = SeqOf [Opt (SeqOf [Star (Cls (\<lambda>_. True)), Lit (CHR '':''), Star (Cls byte_space)]),
     Word ''unexpected end of JSON input'', Star (Cls byte_space)]"

definition create_denied :: "string \<Rightarrow> string \<Rightarrow> bool" where
  "create_denied out err \<longleftrightarrow> denied_partial_read out err False \<or> starts_refused out"

text \<open>The error is a \<open>JSONDecodeError\<close> or a \<open>UnicodeDecodeError\<close>, not another \<open>ValueError\<close>.\<close>

definition is_decode_error :: "pyerror \<Rightarrow> bool" where
  "is_decode_error e = (case e of ValueError m \<Rightarrow> m \<noteq> ''Exceeds the limit for integer string conversion'' | _ \<Rightarrow> False)"

definition created_body :: "pylib \<Rightarrow> string \<Rightarrow> jobject result" where
  "created_body L raw =
     (case loads_bytes L strict_opts raw of
        Inr (PDict release) \<Rightarrow> Inr release
      | Inr _ \<Rightarrow> Inl (ReleaseError ''Invalid release create response'')
      | Inl e \<Rightarrow>
          if is_decode_error e then Inl (AmbiguousCreate ''Release create response JSON was lost'')
          else if is_value_error e then Inl (ReleaseError ''Invalid JSON in release create'') else Inl e)"

definition create_outcome :: "pylib \<Rightarrow> completed \<Rightarrow> jobject result" where
  "create_outcome L result =
     (let denied = create_denied (stdout result) (stderr result);
          transport = (transient_read_failure result \<or> (returncode result = 1 \<and> fullmatch decode_failure_rx (stderr result))) in
      case github_http_response L (stdout result) False of
        Inl e \<Rightarrow>
          if transport \<and> \<not> denied then Inl (AmbiguousCreate ''Release create response framing was lost'')
          else Inl (github_error ''Release create response framing failed'')
      | Inr (status, raw) \<Rightarrow>
          if denied \<or> (400 \<le> status \<and> status < 500) then Inl (github_error ''Release create was rejected'')
          else if (status \<in> {500, 502, 503, 504} \<and> returncode result \<in> {0, 1}) \<or> (success status \<and> transport)
          then Inl (AmbiguousCreate ''Release create outcome is ambiguous'')
          else
            rbind (rc_require (returncode result = 0 \<and> status = 201) ''Unexpected release create outcome'') (\<lambda>_.
            created_body L raw))"

definition create_call :: "pylib \<Rightarrow> string \<Rightarrow> jobject \<Rightarrow> call" where
  "create_call L repository body =
     \<lparr>argv = [''gh'', ''api'', ''--hostname'', ''github.com'', ''--include'', ''--method'', ''POST'', ''--input'', ''-'', ''--'',
        ''repos/'' @ repository @ ''/releases''], stdin = Some (rc_json_bytes L (PDict body)), limit = Some 120\<rparr>"

definition create_release_once :: "pylib \<Rightarrow> 'w gh_env \<Rightarrow> string \<Rightarrow> jobject \<Rightarrow> ('w, jobject) io" where
  "create_release_once L E repository body =
     ibind (irun E (create_call L repository body)) (\<lambda>r.
     ilift (case r of
        Completed result \<Rightarrow> create_outcome L result
      | TimeoutExpired out err \<Rightarrow>
          if create_denied out err then Inl (github_error ''Release create timed out with a denial'')
          else Inl (AmbiguousCreate ''Release create response timed out'')
      | NotStarted \<Rightarrow> Inl (OSError ''gh'')))"

section \<open>Reconciliation\<close>

text \<open>The inventory as the dictionary from \<open>id\<close> to \<open>tag_name\<close>; \<open>pages\<close> made the identifiers distinct.\<close>

definition same_inventory :: "jobject list \<Rightarrow> jobject list \<Rightarrow> bool" where
  "same_inventory earlier current \<longleftrightarrow> length earlier = length current \<and>
     (\<forall>r \<in> set earlier. \<exists>s \<in> set current. py_eq (dget r ''id'' PNone) (dget s ''id'' PNone) \<and> py_eq (dget r ''tag_name'' PNone) (dget s ''tag_name'' PNone))"

definition tagged_rows :: "pyval \<Rightarrow> jobject list \<Rightarrow> jobject list" where
  "tagged_rows tagname rows = filter (\<lambda>row. py_eq (dget row ''tag_name'' PNone) tagname) rows"

definition release_url :: "string \<Rightarrow> int \<Rightarrow> string" where
  "release_url repository release_id = ''https://api.github.com/repos/'' @ repository @ ''/releases/'' @ int_str release_id"

text \<open>\<open>type(a) is type(b) and a == b\<close> for the strings and booleans of a payload.\<close>

definition carries :: "jobject \<Rightarrow> jobject \<Rightarrow> bool" where
  "carries payload d \<longleftrightarrow> (\<forall>(key, expected) \<in> set payload. key \<noteq> ''make_latest'' \<longrightarrow> dget d key PNone = expected)"

definition own_draft :: "string \<Rightarrow> jobject \<Rightarrow> int \<Rightarrow> jobject \<Rightarrow> bool" where
  "own_draft repository payload release_id d \<longleftrightarrow>
     dget d ''id'' PNone = PInt release_id \<and> dget d ''url'' PNone = PStr (release_url repository release_id)
     \<and> map_of d ''published_at'' = Some PNone \<and> dget d ''assets'' PNone = PList []
     \<and> is_dict (dget d ''author'' PNone) \<and> carries payload d"

definition checked_release :: "string \<Rightarrow> jobject \<Rightarrow> int \<Rightarrow> pyval \<Rightarrow> jobject result" where
  "checked_release repository payload release_id v =
     (case v of
        PDict d \<Rightarrow>
          rbind (rc_require (own_draft repository payload release_id d) ''Create readback release differs from the exact request'') (\<lambda>_.
          rbind (positive (dget (as_dict (dget d ''author'' PNone)) ''id'' PNone)) (\<lambda>_.
          Inr d))
      | _ \<Rightarrow> Inl (ReleaseError ''Invalid create readback release''))"

definition one_row :: "string \<Rightarrow> jobject list \<Rightarrow> jobject result" where
  "one_row message rows = (case rows of [row] \<Rightarrow> Inr row | _ \<Rightarrow> Inl (ReleaseError message))"

definition same_author :: "string \<Rightarrow> jobject \<Rightarrow> jobject \<Rightarrow> unit result" where
  "same_author message a b = rc_require (py_eq (dget a ''author'' PNone) (dget b ''author'' PNone)) message"

text \<open>What the two inventories say: the listed release of the tag, and its identifier.\<close>

definition listed_release :: "string \<Rightarrow> jobject \<Rightarrow> jobject list \<Rightarrow> jobject list \<Rightarrow> (int \<times> jobject) result" where
  "listed_release repository payload earlier current =
     rbind (rc_require (same_inventory earlier current) ''Release inventory changed during readback'') (\<lambda>_.
     rbind (ditem payload ''tag_name'') (\<lambda>tagname.
     rbind (one_row ''Create readback requires one matching release'' (tagged_rows tagname current)) (\<lambda>match.
     rbind (positive (dget match ''id'' PNone)) (\<lambda>release_id.
     rbind (one_row ''Create readback original inventory is contradictory'' (tagged_rows tagname earlier)) (\<lambda>original.
     rbind (checked_release repository payload release_id (PDict match)) (\<lambda>listed.
     rbind (checked_release repository payload release_id (PDict original)) (\<lambda>before.
     rbind (same_author ''Create readback listed author changed'' before listed) (\<lambda>_.
     Inr (release_id, listed)))))))))"

definition rb_empty :: "pylib \<Rightarrow> 'w observer \<Rightarrow> int \<Rightarrow> string \<Rightarrow> ('w \<times> readback, unit) io" where
  "rb_empty L B release_id message =
     ibind (rb_pages L B (release_path release_id @ ''/assets'')) (\<lambda>assets.
     ilift (rc_require (assets = []) message))"

definition rb_release :: "pylib \<Rightarrow> 'w observer \<Rightarrow> jobject \<Rightarrow> int \<Rightarrow> ('w \<times> readback, jobject) io" where
  "rb_release L B payload release_id =
     ibind (rb_json L B (release_path release_id)) (\<lambda>v.
     ilift (checked_release (ob_repo B) payload release_id v))"

definition tag_source :: "jobject \<Rightarrow> pyval \<Rightarrow> bool" where
  "tag_source payload v \<longleftrightarrow>
     (case v of
        PDict ref \<Rightarrow> dget ref ''ref'' PNone = PStr (''refs/tags/'' @ as_str (dget payload ''tag_name'' PNone)) \<and>
          (case dget ref ''object'' PNone of
             PDict obj \<Rightarrow> dget obj ''type'' PNone = PStr ''commit'' \<and> dget obj ''sha'' PNone = dget payload ''target_commitish'' PNone
           | _ \<Rightarrow> False)
      | _ \<Rightarrow> False)"

definition reconcile_reads :: "pylib \<Rightarrow> 'w observer \<Rightarrow> jobject \<Rightarrow> ('w \<times> readback, unit) io \<Rightarrow> ('w \<times> readback, jobject) io" where
  "reconcile_reads L B payload confirm =
     ibind confirm (\<lambda>_.
     ibind (rb_pages L B ''releases'') (\<lambda>earlier.
     ibind (rb_pages L B ''releases'') (\<lambda>current.
     ibind (ilift (listed_release (ob_repo B) payload earlier current)) (\<lambda>(release_id, listed).
     ibind (rb_release L B payload release_id) (\<lambda>release.
     ibind (ilift (same_author ''Create readback author differs from inventory'' release listed)) (\<lambda>_.
     ibind (rb_empty L B release_id ''Create readback draft is not empty'') (\<lambda>_.
     ibind (rb_json L B (''git/ref/tags/'' @ as_str (dget payload ''tag_name'' PNone))) (\<lambda>ref.
     ibind (ilift (rc_require (tag_source payload ref) ''Create readback tag source changed'')) (\<lambda>_.
     ibind confirm (\<lambda>_.
     ibind (rb_release L B payload release_id) (\<lambda>final.
     ibind (ilift (same_author ''Create readback author changed'' final release)) (\<lambda>_.
     ibind (rb_empty L B release_id ''Create readback draft gained assets'') (\<lambda>_.
     ibind (rb_check B) (\<lambda>_.
     ireturn final))))))))))))))"

definition reconcile_created_release ::
  "pylib \<Rightarrow> 'w observer \<Rightarrow> jobject \<Rightarrow> ('w \<times> readback, unit) io \<Rightarrow> ('w, jobject) io" where
  "reconcile_created_release L B payload confirm w =
     (case rb_init B w of
        Inl e \<Rightarrow> (Inl e, w)
      | Inr s \<Rightarrow> (case reconcile_reads L B payload confirm (w, s) of (r, ws) \<Rightarrow> (r, fst ws)))"

text \<open>The \<open>create\<close> step of a publication whose caller confirms the create.\<close>

definition confirmed_create :: "pylib \<Rightarrow> 'w observer \<Rightarrow> ('w \<times> readback, unit) io \<Rightarrow> jobject \<Rightarrow> ('w, pyval) io" where
  "confirmed_create L B confirm payload w =
     (case create_release_once L (ob_env B) (ob_repo B) payload w of
        (Inr d, w') \<Rightarrow> (Inr (PDict d), w')
      | (Inl (AmbiguousCreate m), w') \<Rightarrow>
          (case reconcile_created_release L B payload confirm w' of (Inr d, v) \<Rightarrow> (Inr (PDict d), v) | (Inl e, v) \<Rightarrow> (Inl e, v))
      | (Inl e, w') \<Rightarrow> (Inl e, w'))"

section \<open>The publication token\<close>

text \<open>\<open>str.splitlines\<close> on UTF-8 text: the number of bytes of the line break at the head, if any.\<close>

definition str_break :: "string \<Rightarrow> nat" where
  "str_break s =
     (if prefix [CR, LF] s then 2
      else if s \<noteq> [] \<and> (of_char (hd s) :: nat) \<in> {10, 11, 12, 13, 28, 29, 30} then 1
      else if prefix [CHR 0xC2, CHR 0x85] s then 2
      else if prefix [CHR 0xE2, CHR 0x80, CHR 0xA8] s \<or> prefix [CHR 0xE2, CHR 0x80, CHR 0xA9] s then 3
      else 0)"

function str_lines :: "string \<Rightarrow> string \<Rightarrow> string list" where
  "str_lines acc s =
     (case s of
        [] \<Rightarrow> if acc = [] then [] else [rev acc]
      | c # r \<Rightarrow> if str_break s = 0 then str_lines (c # acc) r else rev acc # str_lines [] (drop (str_break s) s))"
  by pat_completeness auto

termination by (relation "measure (length \<circ> snd)") auto

definition line_scopes :: "string \<Rightarrow> string list" where
  "line_scopes line =
     (if CHR '':'' \<in> set line \<and> lower (before_any {CHR '':''} line) = ''x-oauth-scopes''
      then map strip (split_on (CHR '','') (past_any {CHR '':''} line)) else [])"

definition oauth_scopes :: "string \<Rightarrow> string list" where
  "oauth_scopes header = concat (map line_scopes (str_lines [] header))"

fun crlf_to_lf :: "string \<Rightarrow> string" where
  "crlf_to_lf (a # b # s) = (if a = CR \<and> b = LF then LF # crlf_to_lf s else a # crlf_to_lf (b # s))"
| "crlf_to_lf s = s"

fun partition_blank :: "string \<Rightarrow> (string \<times> string) option" where
  "partition_blank (a # b # s) =
     (if a = LF \<and> b = LF then Some ([], s) else map_option (\<lambda>(h, t). (a # h, t)) (partition_blank (b # s)))"
| "partition_blank s = None"

definition scopes_suffice :: "string list \<Rightarrow> bool \<Rightarrow> bool" where
  "scopes_suffice scopes private \<longleftrightarrow> ''workflow'' \<in> set scopes \<and> (''repo'' \<in> set scopes \<or> (\<not> private \<and> ''public_repo'' \<in> set scopes))"

definition probe_repository :: "string \<Rightarrow> pyval \<Rightarrow> bool result" where
  "probe_repository expected v =
     (case v of
        PDict d \<Rightarrow>
          (case (dget d ''full_name'' PNone, dget d ''private'' PNone, dget d ''permissions'' PNone) of
             (PStr name, PBool private, PDict permissions) \<Rightarrow>
               rbind (rc_require (lower name = lower expected \<and> dget permissions ''push'' PNone = PBool True)
                 ''Publication token cannot write the expected repository'') (\<lambda>_.
               Inr private)
           | _ \<Rightarrow> Inl (ReleaseError ''Publication token cannot write the expected repository''))
      | _ \<Rightarrow> Inl (ReleaseError ''Publication token cannot write the expected repository''))"

definition probe_reply :: "pylib \<Rightarrow> string \<Rightarrow> completed \<Rightarrow> unit result" where
  "probe_reply L expected result =
     rbind (rc_require (returncode result = 0) ''Publication token permission probe failed'') (\<lambda>_.
     case partition_blank (crlf_to_lf (stdout result)) of
       None \<Rightarrow> Inl (ReleaseError ''Publication token permission headers are missing'')
     | Some (header, body) \<Rightarrow>
         rbind (parse_json L body) (\<lambda>v.
         rbind (probe_repository expected v) (\<lambda>private.
         rc_require (scopes_suffice (oauth_scopes header) private)
           ''Publication token requires verified workflow and repo/public_repo OAuth scopes'')))"

definition verify_publication_permissions :: "pylib \<Rightarrow> 'w gh_env \<Rightarrow> (string \<Rightarrow> string option) \<Rightarrow> string \<Rightarrow> ('w, unit) io" where
  "verify_publication_permissions L E environ repository =
     ibind (ilift (rc_require (environ ''RELEASE_REQUIRE_WORKFLOW_SCOPE'' = Some ''true'' \<and> environ ''GH_TOKEN'' \<notin> {None, Some []})
       ''Publication token is missing or its permission probe is not enabled'')) (\<lambda>_.
     ibind (irun E \<lparr>argv = [''gh'', ''api'', ''--hostname'', ''github.com'', ''--method'', ''GET'', ''--include'', ''--'', ''repos/'' @ repository],
         stdin = None, limit = None\<rparr>) (\<lambda>r.
     ilift (case r of Completed result \<Rightarrow> probe_reply L repository result | _ \<Rightarrow> Inl (OSError ''gh''))))"

text \<open>The constructor of the client: \<open>workflow_scope_verified\<close>, when the probe is asked for.\<close>

definition open_github :: "pylib \<Rightarrow> 'w gh_env \<Rightarrow> (string \<Rightarrow> string option) \<Rightarrow> string \<Rightarrow> ('w, bool) io" where
  "open_github L E environ repository =
     ibind (ilift (rc_require (fullmatch REPO_RE repository) ''Repository must be OWNER/REPO'')) (\<lambda>_.
     if environ ''RELEASE_REQUIRE_WORKFLOW_SCOPE'' \<in> {None, Some []} then ireturn False
     else ibind (verify_publication_permissions L E environ repository) (\<lambda>_. ireturn True))"

section \<open>One request, and whether its outcome is known\<close>

definition created :: "pylib \<Rightarrow> outcome \<Rightarrow> jobject \<Rightarrow> bool" where
  "created L reply d \<longleftrightarrow>
     (case reply of
        Completed c \<Rightarrow> returncode c = 0 \<and> \<not> create_denied (stdout c) (stderr c)
          \<and> (case github_http_response L (stdout c) False of
               Inr (status, raw) \<Rightarrow> status = 201 \<and> parse_json L raw = Inr (PDict d) | Inl _ \<Rightarrow> False)
      | _ \<Rightarrow> False)"

text \<open>A reply that refuses the request: a recorded denial or a 4xx status.\<close>

definition refused :: "pylib \<Rightarrow> outcome \<Rightarrow> bool" where
  "refused L reply \<longleftrightarrow>
     (case reply of
        Completed c \<Rightarrow> create_denied (stdout c) (stderr c)
          \<or> (case github_http_response L (stdout c) False of Inr (status, raw) \<Rightarrow> 400 \<le> status \<and> status < 500 | Inl _ \<Rightarrow> False)
      | TimeoutExpired out err \<Rightarrow> create_denied out err
      | NotStarted \<Rightarrow> False)"

lemma created_body_Inr: "created_body L raw = Inr d \<Longrightarrow> parse_json L raw = Inr (PDict d)"
  by (auto simp: created_body_def parse_json_def split: sum.splits pyval.splits if_splits)

lemma create_outcome_Inr: "create_outcome L c = Inr d \<Longrightarrow> created L (Completed c) d"
  by (auto simp: create_outcome_def created_def Let_def rbind_Inr_iff split: sum.splits if_splits dest: created_body_Inr)

lemma create_outcome_ambiguous: "create_outcome L c = Inl (AmbiguousCreate m) \<Longrightarrow> \<not> refused L (Completed c)"
  by (auto simp: create_outcome_def refused_def Let_def github_error_def rbind_Inl_iff rc_require_def ensure_def
      split: sum.splits if_splits)

lemma create_once:
  "case create_release_once L (recorded respond) r body w of (result, w') \<Rightarrow>
     w' = w @ [create_call L r body] \<and>
     (case result of
        Inr d \<Rightarrow> created L (respond w') d
      | Inl e \<Rightarrow> (case e of AmbiguousCreate m \<Rightarrow> \<not> refused L (respond w') | _ \<Rightarrow> True))"
proof (cases "respond (w @ [create_call L r body])")
  case (Completed c)
  then have "create_release_once L (recorded respond) r body w = (create_outcome L c, w @ [create_call L r body])"
    by (simp add: create_release_once_def ibind_def irun_recorded)
  then show ?thesis
    using Completed create_outcome_Inr create_outcome_ambiguous by (auto split: sum.splits pyerror.splits)
next
  case (TimeoutExpired out err)
  then show ?thesis
    by (auto simp: create_release_once_def ibind_def irun_recorded refused_def github_error_def)
next
  case NotStarted
  then show ?thesis by (simp add: create_release_once_def ibind_def irun_recorded)
qed

text \<open>
  C27: creating a release sends exactly one request, the POST with the payload, whatever the reply; a release is
  returned only for a completed 201 response without a denial whose body is that JSON object; and the outcome is
  called unknown only when the reply is no refusal.
\<close>

theorem create_sends_once:
  "case create_release_once L (recorded respond) r body w of (result, w') \<Rightarrow>
     w' = w @ [create_call L r body] \<and>
     (case result of
        Inr d \<Rightarrow> created L (respond w') d
      | Inl e \<Rightarrow> (case e of AmbiguousCreate m \<Rightarrow> \<not> refused L (respond w') | _ \<Rightarrow> True))"
  by (rule create_once)

section \<open>Reconciliation only reads\<close>

context bounded_reads
begin

lemma keeps_empty: "keeps R (rb_empty L B i m)"
  unfolding rb_empty_def by (intro keeps_rules keeps_pages)

lemma keeps_release: "keeps R (rb_release L B payload i)"
  unfolding rb_release_def by (intro keeps_rules keeps_json)

lemma keeps_reconcile:
  assumes "keeps R confirm" "keeps R (rb_check B)"
  shows "keeps R (reconcile_reads L B payload confirm)"
  unfolding reconcile_reads_def
  by (intro keeps_rules keeps_pages keeps_empty keeps_release keeps_json assms)

end

lemma reconcile_Inr:
  assumes "reconcile_reads L B payload confirm ws = (Inr d, ws')"
  shows "\<exists>i. own_draft (ob_repo B) payload i d"
  using assms unfolding reconcile_reads_def rb_release_def checked_release_def
  by (auto simp: ibind_Inr_iff rbind_Inr_iff split: pyval.splits)

lemma reconcile_observed:
  assumes "keeps (observes r) confirm" "reconcile_created_release L (watching respond now r) payload confirm w = (res, w')"
  shows "\<exists>cs. w' = w @ cs \<and> length cs \<le> 100 \<and> list_all (get_call r) cs
    \<and> (\<forall>d. res = Inr d \<longrightarrow> (\<exists>i. own_draft r payload i d))"
proof (cases "rb_init (watching respond now r) w")
  case (Inl e)
  with assms(2) show ?thesis by (auto simp: reconcile_created_release_def)
next
  case (Inr s)
  obtain ws where rr: "reconcile_reads L (watching respond now r) payload confirm (w, s) = (res, ws)" "w' = fst ws"
    using assms(2) Inr by (auto simp: reconcile_created_release_def split: prod.splits)
  have "rb_calls s = 0" using Inr by (auto simp: rb_init_def rbind_Inr_iff)
  moreover have "observes r (w, s) ws"
    using keepsD [OF observing.keeps_reconcile [OF assms(1) observes_steps(1)] rr(1)] .
  moreover have "\<exists>i. own_draft r payload i d" if "res = Inr d" for d
    using reconcile_Inr rr(1) that by (fastforce simp: watching_def)
  ultimately show ?thesis using rr(2) by (auto simp: observes_def)
qed

end
