(* ===== verification/Toolchain.thy ===== *)
theory Toolchain
  imports VersionReceipt
begin

text \<open>
  Comparison of build toolchains in \<open>scripts/release_versioned.py\<close>: the work list of \<open>toolchain_changes\<close>, the
  redaction of what it reports, and \<open>verify_final_toolchains\<close>, which compares every receipt of a final build
  with the receipt of the accepted candidate. The theorems: the report is empty exactly for equal values, it
  shows no values, and an accepted final build has the toolchains of the candidate.
\<close>

section \<open>Labels\<close>

definition MAX_TOOLCHAIN_DIAGNOSTICS :: nat where "MAX_TOOLCHAIN_DIAGNOSTICS = 100"

definition label_char :: "char \<Rightarrow> bool" where
  "label_char c \<longleftrightarrow> is_upper c \<or> is_lower c \<or> is_digit c \<or> c \<in> {CHR ''_'', CHR ''.'', CHR ''/'', CHR ''~'', CHR ''-''}"

text \<open>The pattern \<open>[A-Za-z0-9_./~-]{1,200}\<close>.\<close>

definition plain_label :: "string \<Rightarrow> bool" where
  "plain_label s \<longleftrightarrow> s \<noteq> [] \<and> length s \<le> 200 \<and> list_all label_char s"

definition redacted :: "pylib \<Rightarrow> string \<Rightarrow> string" where
  "redacted L s = ''redacted-sha256-'' @ digest L s"

definition diagnostic_label :: "pylib \<Rightarrow> string \<Rightarrow> string" where
  "diagnostic_label L s = (if plain_label s then s else redacted L s)"

section \<open>The work list\<close>

text \<open>\<open>None\<close> is the marker of a missing field.\<close>

type_synonym comparison = "string \<times> pyval option \<times> pyval option"

definition type_name :: "pyval \<Rightarrow> string" where
  "type_name v =
     (case v of PNone \<Rightarrow> ''NoneType'' | PBool _ \<Rightarrow> ''bool'' | PInt _ \<Rightarrow> ''int'' | PFloat _ \<Rightarrow> ''float'' | PStr _ \<Rightarrow> ''str''
      | PList _ \<Rightarrow> ''list'' | PDict _ \<Rightarrow> ''dict'')"

definition pointer_token :: "string \<Rightarrow> string" where
  "pointer_token key = concat (map (\<lambda>c. if c = CHR ''~'' then ''~0'' else if c = CHR ''/'' then ''~1'' else [c]) key)"

text \<open>The entries that are pushed, in the order in which they are popped.\<close>

definition queue_mapping :: "pylib \<Rightarrow> string \<Rightarrow> (string \<times> pyval) list \<Rightarrow> (string \<times> pyval) list \<Rightarrow> comparison list" where
  "queue_mapping L path b a =
     map (\<lambda>key. (diagnostic_label L (path @ ''/'' @ pointer_token key), map_of b key, map_of a key))
       (sort (remdups (map fst b @ map fst a)))"

definition entry_at :: "pyval list \<Rightarrow> nat \<Rightarrow> pyval option" where
  "entry_at xs i = (if i < length xs then Some (xs ! i) else None)"

definition queue_list :: "pylib \<Rightarrow> string \<Rightarrow> pyval list \<Rightarrow> pyval list \<Rightarrow> comparison list" where
  "queue_list L path b a =
     map (\<lambda>i. (diagnostic_label L (path @ ''/'' @ nat_str i), entry_at b i, entry_at a i)) [0..<max (length b) (length a)]"

datatype finding = Report string | Descend "comparison list" | Same

definition compare_values :: "pylib \<Rightarrow> string \<Rightarrow> pyval \<Rightarrow> pyval \<Rightarrow> finding" where
  "compare_values L path b a =
     (if py_eq b a then Same
      else if type_name b \<noteq> type_name a then Report (''type changed ('' @ type_name b @ '' -> '' @ type_name a @ '')'')
      else (case (b, a) of
          (PDict d, PDict e) \<Rightarrow> Descend (queue_mapping L path d e)
        | (PList xs, PList ys) \<Rightarrow> Descend (queue_list L path xs ys)
        | _ \<Rightarrow> Report ''value changed''))"

definition compare_entry :: "pylib \<Rightarrow> comparison \<Rightarrow> finding" where
  "compare_entry L c =
     (case c of
        (path, None, _) \<Rightarrow> Report ''missing in accepted RC''
      | (path, Some b, None) \<Rightarrow> Report ''missing in final build''
      | (path, Some b, Some a) \<Rightarrow> compare_values L path b a)"

text \<open>The size of values, for the loop's measure: every field weighs at least one more than its parts.\<close>

fun weight :: "pyval \<Rightarrow> nat"
and weights :: "pyval list \<Rightarrow> nat"
and item_weights :: "(string \<times> pyval) list \<Rightarrow> nat" where
  "weight (PList xs) = 1 + weights xs"
| "weight (PDict d) = 1 + item_weights d"
| "weight v = 1"
| "weights [] = 0"
| "weights (x # xs) = weight x + 1 + weights xs"
| "item_weights [] = 0"
| "item_weights ((k, v) # d) = weight v + 1 + item_weights d"

definition entry_weight :: "pyval option \<Rightarrow> nat" where
  "entry_weight v = (case v of None \<Rightarrow> 1 | Some x \<Rightarrow> weight x)"

definition queue_weight :: "comparison list \<Rightarrow> nat" where
  "queue_weight cs = sum_list (map (\<lambda>(path, b, a). entry_weight b + entry_weight a) cs)"

lemma weight_pos [simp]: "0 < weight v"
  by (cases v) auto

lemma entry_weight_pos [simp]: "0 < entry_weight v"
  by (cases v) (auto simp: entry_weight_def)

lemma queue_weight_simps [simp]:
  "queue_weight [] = 0"
  "queue_weight ((p, b, a) # cs) = entry_weight b + entry_weight a + queue_weight cs"
  "queue_weight (cs @ ds) = queue_weight cs + queue_weight ds"
  by (simp_all add: queue_weight_def)

definition part :: "pyval option \<Rightarrow> nat" where
  "part v = (case v of None \<Rightarrow> 0 | Some x \<Rightarrow> weight x + 1)"

lemma entry_parts: "b \<noteq> None \<or> a \<noteq> None \<Longrightarrow> entry_weight b + entry_weight a \<le> part b + part a"
  by (cases b; cases a) (auto simp: entry_weight_def part_def)

lemma sum_single: "distinct ks \<Longrightarrow> (\<Sum>x\<leftarrow>ks. if x = k then n else 0) = (if k \<in> set ks then n else (0 :: nat))"
  by (induction ks) auto

lemma map_of_parts: "distinct ks \<Longrightarrow> sum_list (map (\<lambda>k. part (map_of d k)) ks) \<le> item_weights d"
proof (induction d arbitrary: ks)
  case Nil
  then show ?case by (simp add: part_def)
next
  case (Cons kv d)
  obtain k v where kv: "kv = (k, v)" by (cases kv)
  have "(\<Sum>x\<leftarrow>ks. part (map_of (kv # d) x)) \<le> (\<Sum>x\<leftarrow>ks. (if x = k then weight v + 1 else 0) + part (map_of d x))"
    by (intro sum_list_mono) (simp add: kv part_def)
  also have "\<dots> = (\<Sum>x\<leftarrow>ks. if x = k then weight v + 1 else 0) + (\<Sum>x\<leftarrow>ks. part (map_of d x))"
    by (rule sum_list_addf)
  also have "(\<Sum>x\<leftarrow>ks. if x = k then weight v + 1 else 0) \<le> weight v + 1"
    using Cons.prems by (simp add: sum_single)
  also have "(\<Sum>x\<leftarrow>ks. part (map_of d x)) \<le> item_weights d"
    using Cons by blast
  finally show ?case by (simp add: kv)
qed

lemma entry_at_Cons [simp]: "entry_at (x # xs) 0 = Some x" "entry_at (x # xs) (Suc i) = entry_at xs i"
  by (auto simp: entry_at_def)

lemma entry_at_parts: "sum_list (map (\<lambda>i. part (entry_at xs i)) [0..<n]) \<le> weights xs"
proof (induction xs arbitrary: n)
  case Nil
  then show ?case by (simp add: entry_at_def part_def)
next
  case (Cons x xs)
  show ?case
  proof (cases n)
    case 0
    then show ?thesis by simp
  next
    case (Suc m)
    have "[0..<n] = 0 # map Suc [0..<m]" unfolding Suc by (simp add: upt_conv_Cons map_Suc_upt del: upt_Suc)
    then have "(\<Sum>i\<leftarrow>[0..<n]. part (entry_at (x # xs) i)) = part (Some x) + (\<Sum>i\<leftarrow>[0..<m]. part (entry_at xs i))"
      by (simp add: comp_def)
    then show ?thesis using Cons.IH [of m] by (simp add: part_def)
  qed
qed

lemma queue_parts:
  assumes "\<And>x. x \<in> set xs \<Longrightarrow> f x \<noteq> None \<or> g x \<noteq> None"
  shows "queue_weight (map (\<lambda>x. (p x, f x, g x)) xs) \<le> (\<Sum>x\<leftarrow>xs. part (f x)) + (\<Sum>x\<leftarrow>xs. part (g x))"
  using assms
proof (induction xs)
  case Nil
  then show ?case by simp
next
  case (Cons x xs)
  have "entry_weight (f x) + entry_weight (g x) \<le> part (f x) + part (g x)"
    by (rule entry_parts) (use Cons.prems in auto)
  with Cons show ?case by fastforce
qed

lemma queue_mapping_weight: "queue_weight (queue_mapping L path d e) \<le> item_weights d + item_weights e"
proof -
  let ?ks = "sort (remdups (map fst d @ map fst e))"
  have d: "distinct ?ks" by simp
  have "queue_weight (queue_mapping L path d e) \<le> (\<Sum>k\<leftarrow>?ks. part (map_of d k)) + (\<Sum>k\<leftarrow>?ks. part (map_of e k))"
    unfolding queue_mapping_def by (rule queue_parts) (auto simp: map_of_eq_None_iff)
  with map_of_parts [OF d, of d] map_of_parts [OF d, of e] show ?thesis by linarith
qed

lemma queue_list_weight: "queue_weight (queue_list L path xs ys) \<le> weights xs + weights ys"
proof -
  let ?is = "[0..<max (length xs) (length ys)]"
  have "queue_weight (queue_list L path xs ys) \<le> (\<Sum>i\<leftarrow>?is. part (entry_at xs i)) + (\<Sum>i\<leftarrow>?is. part (entry_at ys i))"
    unfolding queue_list_def by (rule queue_parts) (auto simp: entry_at_def)
  with entry_at_parts [of xs "max (length xs) (length ys)"] entry_at_parts [of ys "max (length xs) (length ys)"]
  show ?thesis by linarith
qed

lemma compare_entry_weight:
  assumes "compare_entry L (p, b, a) = Descend ds"
  shows "queue_weight ds < entry_weight b + entry_weight a"
proof -
  from assms obtain x y where ba: "b = Some x" "a = Some y" and c: "compare_values L p x y = Descend ds"
    by (auto simp: compare_entry_def split: option.splits)
  consider d e where "x = PDict d" "y = PDict e" "ds = queue_mapping L p d e"
    | xs ys where "x = PList xs" "y = PList ys" "ds = queue_list L p xs ys"
    using c by (auto simp: compare_values_def split: if_splits pyval.splits)
  then show ?thesis
    using queue_mapping_weight queue_list_weight by cases (simp_all add: ba entry_weight_def le_imp_less_Suc le_SucI)
qed

function changes_from :: "pylib \<Rightarrow> comparison list \<Rightarrow> (string \<times> string) list" where
  "changes_from L [] = []"
| "changes_from L ((path, b, a) # pending) =
     (case compare_entry L (path, b, a) of
        Report change \<Rightarrow> (path, change) # changes_from L pending
      | Descend parts \<Rightarrow> changes_from L (parts @ pending)
      | Same \<Rightarrow> changes_from L pending)"
  by pat_completeness auto

termination
  by (relation "measure (\<lambda>(L, cs). queue_weight cs)") (auto simp: trans_less_add1 dest: compare_entry_weight)

definition toolchain_changes :: "pylib \<Rightarrow> pyval \<Rightarrow> pyval \<Rightarrow> (string \<times> string) list" where
  "toolchain_changes L original current = changes_from L [(''toolchain'', Some original, Some current)]"

section \<open>The work list is a depth-first comparison\<close>

lemma changes_append: "changes_from L (cs @ ds) = changes_from L cs @ changes_from L ds"
  by (induction L cs rule: changes_from.induct) (auto split: finding.splits)

lemma changes_Nil_iff: "changes_from L cs = [] \<longleftrightarrow> list_all (\<lambda>c. changes_from L [c] = []) cs"
proof (induction cs)
  case Nil
  then show ?case by simp
next
  case (Cons c cs)
  then show ?case using changes_append [of L "[c]" cs] by simp
qed

text \<open>Values whose dictionaries have distinct keys, as every decoded value has.\<close>

fun keys_distinct :: "pyval \<Rightarrow> bool"
and keys_distinct_list :: "pyval list \<Rightarrow> bool"
and keys_distinct_items :: "(string \<times> pyval) list \<Rightarrow> bool" where
  "keys_distinct (PList xs) = keys_distinct_list xs"
| "keys_distinct (PDict d) = (distinct (map fst d) \<and> keys_distinct_items d)"
| "keys_distinct v = True"
| "keys_distinct_list [] = True"
| "keys_distinct_list (x # xs) = (keys_distinct x \<and> keys_distinct_list xs)"
| "keys_distinct_items [] = True"
| "keys_distinct_items ((k, v) # d) = (keys_distinct v \<and> keys_distinct_items d)"

lemma changes_missing: "changes_from L [(p, b, a)] = [] \<Longrightarrow> b \<noteq> None \<and> a \<noteq> None"
  by (cases b; cases a) (auto simp: compare_entry_def)

lemma changes_equal: "py_eq b a \<Longrightarrow> changes_from L [(p, Some b, Some a)] = []"
  by (simp add: compare_entry_def compare_values_def)

definition unchanged :: "pylib \<Rightarrow> pyval \<Rightarrow> bool" where
  "unchanged L b \<longleftrightarrow> (\<forall>p a. keys_distinct a \<longrightarrow> changes_from L [(p, Some b, Some a)] = [] \<longrightarrow> py_eq b a)"

lemma py_eq_list_nth: "py_eq_list xs ys \<longleftrightarrow> length xs = length ys \<and> (\<forall>i < length xs. py_eq (xs ! i) (ys ! i))"
proof (induction xs arbitrary: ys)
  case Nil
  then show ?case by auto
next
  case (Cons x xs)
  then show ?case by (cases ys) (auto simp: less_Suc_eq_0_disj)
qed

lemma py_eq_items_iff: "py_eq_items d e \<longleftrightarrow> (\<forall>(k, v) \<in> set d. \<exists>w. map_of e k = Some w \<and> py_eq v w)"
  by (induction d) (auto split: option.splits)

lemma keys_distinct_nth: "keys_distinct_list ys \<Longrightarrow> i < length ys \<Longrightarrow> keys_distinct (ys ! i)"
  by (induction ys arbitrary: i) (auto simp: nth_Cons split: nat.splits)

lemma keys_distinct_lookup: "keys_distinct_items d \<Longrightarrow> map_of d k = Some v \<Longrightarrow> keys_distinct v"
  by (induction d) (auto split: if_splits)

lemma unchanged_list:
  assumes "\<And>i. i < length xs \<Longrightarrow> unchanged L (xs ! i)" "keys_distinct_list ys"
    and c: "changes_from L (queue_list L p xs ys) = []"
  shows "py_eq_list xs ys"
proof -
  have all: "changes_from L [(diagnostic_label L (p @ ''/'' @ nat_str i), entry_at xs i, entry_at ys i)] = []"
    if "i < max (length xs) (length ys)" for i
    using c that unfolding changes_Nil_iff [of L "queue_list L p xs ys"]
    by (auto simp: queue_list_def list_all_iff)
  have len: "length xs = length ys"
  proof (rule ccontr)
    assume "length xs \<noteq> length ys"
    then have "min (length xs) (length ys) < max (length xs) (length ys)" by auto
    from changes_missing [OF all [OF this]] show False by (auto simp: entry_at_def min_def split: if_splits)
  qed
  moreover have "py_eq (xs ! i) (ys ! i)" if "i < length xs" for i
    using assms(1) [OF that] all [of i] that len keys_distinct_nth [OF assms(2), of i]
    by (auto simp: unchanged_def entry_at_def)
  ultimately show ?thesis by (simp add: py_eq_list_nth)
qed

lemma unchanged_dict:
  assumes "\<And>k v. map_of d k = Some v \<Longrightarrow> unchanged L v" "keys_distinct_items e" "distinct (map fst d)" "distinct (map fst e)"
    and c: "changes_from L (queue_mapping L p d e) = []"
  shows "length d = length e \<and> py_eq_items d e"
proof -
  have all: "changes_from L [(diagnostic_label L (p @ ''/'' @ pointer_token k), map_of d k, map_of e k)] = []"
    if "k \<in> set (map fst d) \<union> set (map fst e)" for k
    using c that unfolding changes_Nil_iff [of L "queue_mapping L p d e"]
    by (auto simp: queue_mapping_def list_all_iff)
  have both: "k \<in> set (map fst d) \<longleftrightarrow> k \<in> set (map fst e)" for k
    using changes_missing [OF all, of k] by (metis UnI1 UnI2 map_of_eq_None_iff set_map)
  then have "set (map fst d) = set (map fst e)" by blast
  then have "length (map fst d) = length (map fst e)" using assms(3,4) by (metis distinct_card)
  moreover have "\<exists>w. map_of e k = Some w \<and> py_eq v w" if kv: "(k, v) \<in> set d" for k v
  proof -
    have d: "map_of d k = Some v" using kv assms(3) by simp
    moreover have "k \<in> set (map fst d)" using kv by force
    moreover from this obtain w where "map_of e k = Some w" using both by (metis map_of_eq_None_iff not_None_eq set_map)
    ultimately show ?thesis
      using all [of k] assms(1) [OF d] keys_distinct_lookup [OF assms(2)] by (auto simp: unchanged_def)
  qed
  ultimately show ?thesis by (auto simp: py_eq_items_iff)
qed

lemma changes_dict: "\<not> py_eq (PDict d) (PDict e) \<Longrightarrow> changes_from L [(p, Some (PDict d), Some (PDict e))] = changes_from L (queue_mapping L p d e)"
  by (simp add: compare_entry_def compare_values_def type_name_def del: py_eq.simps)

lemma changes_list: "\<not> py_eq (PList xs) (PList ys) \<Longrightarrow> changes_from L [(p, Some (PList xs), Some (PList ys))] = changes_from L (queue_list L p xs ys)"
  by (simp add: compare_entry_def compare_values_def type_name_def del: py_eq.simps)

lemma unchanged_all:
  "keys_distinct b \<Longrightarrow> unchanged L b"
  "keys_distinct_list xs \<Longrightarrow> i < length xs \<Longrightarrow> unchanged L (xs ! i)"
  "keys_distinct_items d \<Longrightarrow> map_of d k = Some v \<Longrightarrow> unchanged L v"
proof (induction b and xs and d arbitrary: and i and k v rule: keys_distinct_keys_distinct_list_keys_distinct_items.induct)
  case (1 xs)
  show ?case unfolding unchanged_def
  proof (intro allI impI)
    fix p a assume a: "keys_distinct a" "changes_from L [(p, Some (PList xs), Some a)] = []"
    show "py_eq (PList xs) a"
    proof (rule ccontr)
      assume n: "\<not> py_eq (PList xs) a"
      then obtain ys where ys: "a = PList ys" using a(2)
        by (cases a) (auto simp: compare_entry_def compare_values_def type_name_def)
      then have "changes_from L (queue_list L p xs ys) = []"
        using a(2) n changes_list by metis
      from unchanged_list [OF _ _ this] 1 a(1) ys n show False by auto
    qed
  qed
next
  case (2 d)
  show ?case unfolding unchanged_def
  proof (intro allI impI)
    fix p a assume a: "keys_distinct a" "changes_from L [(p, Some (PDict d), Some a)] = []"
    show "py_eq (PDict d) a"
    proof (rule ccontr)
      assume n: "\<not> py_eq (PDict d) a"
      then obtain e where e: "a = PDict e" using a(2)
        by (cases a) (auto simp: compare_entry_def compare_values_def type_name_def)
      then have "changes_from L (queue_mapping L p d e) = []"
        using a(2) n changes_dict by metis
      from unchanged_dict [OF _ _ _ _ this] 2 a(1) e n show False by auto
    qed
  qed
next
  case (5 x xs)
  then show ?case by (cases i) auto
next
  case (7 k' v' d)
  then show ?case by (auto split: if_splits)
qed (auto simp: unchanged_def compare_entry_def compare_values_def split: if_splits)

lemma toolchain_changes_Nil:
  "keys_distinct original \<Longrightarrow> keys_distinct current \<Longrightarrow> toolchain_changes L original current = [] \<longleftrightarrow> py_eq original current"
  unfolding toolchain_changes_def using unchanged_all(1) changes_equal unfolding unchanged_def by blast

text \<open>
  C28: for decoded values the report of differences is empty exactly when the two toolchains are equal in Python's
  sense: the diagnostics neither miss a difference nor invent one.
\<close>

theorem toolchain_changes_exact:
  assumes "keys_distinct original" "keys_distinct current"
  shows "toolchain_changes L original current = [] \<longleftrightarrow> py_eq original current"
  using assms by (rule toolchain_changes_Nil)

definition old_toolchain :: pyval where
  "old_toolchain = PDict [(''gcc'', PStr ''12''), (''flags'', PList [PStr ''a'', PInt 1])]"

definition new_toolchain :: pyval where
  "new_toolchain = PDict [(''flags'', PList [PStr ''a'', PBool True]), (''gcc'', PStr ''13'')]"

theorem toolchain_changes_exact_witness:
  "keys_distinct old_toolchain \<and> keys_distinct new_toolchain
   \<and> toolchain_changes demo_lib old_toolchain new_toolchain \<noteq> [] \<and> toolchain_changes demo_lib old_toolchain old_toolchain = []"
proof -
  have d: "keys_distinct old_toolchain" "keys_distinct new_toolchain" by code_simp+
  moreover have "\<not> py_eq old_toolchain new_toolchain" "py_eq old_toolchain old_toolchain" by code_simp+
  ultimately show ?thesis
    using toolchain_changes_exact [OF d, of demo_lib] toolchain_changes_exact [OF d(1) d(1), of demo_lib] by simp
qed

section \<open>What a report shows\<close>

definition type_names :: "string list" where
  "type_names = [''NoneType'', ''bool'', ''int'', ''float'', ''str'', ''list'', ''dict'']"

definition fixed_changes :: "string list" where
  "fixed_changes = [''missing in accepted RC'', ''missing in final build'', ''value changed'']
     @ concat (map (\<lambda>s. map (\<lambda>t. ''type changed ('' @ s @ '' -> '' @ t @ '')'') type_names) type_names)"

definition safe_label :: "pylib \<Rightarrow> string \<Rightarrow> bool" where
  "safe_label L s \<longleftrightarrow> plain_label s \<or> (\<exists>v. s = redacted L v)"

lemma safe_diagnostic_label [simp]: "safe_label L (diagnostic_label L s)"
  by (auto simp: safe_label_def diagnostic_label_def)

lemma type_name_mem: "type_name v \<in> set type_names"
  by (cases v) (simp_all add: type_name_def type_names_def)

lemma type_changed_fixed: "''type changed ('' @ type_name b @ '' -> '' @ type_name a @ '')'' \<in> set fixed_changes"
  using type_name_mem [of a] type_name_mem [of b] unfolding fixed_changes_def by auto

lemma compare_entry_fixed: "compare_entry L c = Report m \<Longrightarrow> m \<in> set fixed_changes"
proof -
  have f: "set [''missing in accepted RC'', ''missing in final build'', ''value changed''] \<subseteq> set fixed_changes"
    unfolding fixed_changes_def by auto
  assume "compare_entry L c = Report m"
  then show ?thesis
    using f type_changed_fixed
    by (auto simp: compare_entry_def compare_values_def split: prod.splits option.splits if_splits pyval.splits)
qed

lemma compare_entry_labels: "compare_entry L c = Descend ds \<Longrightarrow> list_all (\<lambda>d. safe_label L (fst d)) ds"
  by (auto simp: compare_entry_def compare_values_def queue_mapping_def queue_list_def list_all_iff
      split: prod.splits option.splits if_splits pyval.splits)

lemma changes_safe:
  "list_all (\<lambda>c. safe_label L (fst c)) cs \<Longrightarrow> list_all (\<lambda>(p, m). safe_label L p \<and> m \<in> set fixed_changes) (changes_from L cs)"
  by (induction L cs rule: changes_from.induct)
     (auto split: finding.splits dest: compare_entry_fixed compare_entry_labels)

lemma toolchain_changes_safe: "list_all (\<lambda>(p, m). safe_label L p \<and> m \<in> set fixed_changes) (toolchain_changes L original current)"
proof -
  have "plain_label ''toolchain''" by code_simp
  then show ?thesis unfolding toolchain_changes_def by (intro changes_safe) (simp add: safe_label_def)
qed

section \<open>Final builds\<close>

primrec ifold :: "('s \<Rightarrow> 'a \<Rightarrow> ('w, 's) io) \<Rightarrow> 's \<Rightarrow> 'a list \<Rightarrow> ('w, 's) io" where
  "ifold f s [] = ireturn s"
| "ifold f s (x # xs) = ibind (f s x) (\<lambda>s'. ifold f s' xs)"

type_synonym drift = "nat \<times> nat \<times> string list"

text \<open>\<open>{item["name"]: item for item in accepted.get("build_receipts", [])}\<close> as a list; a later entry wins.\<close>

definition expected_receipts :: "jobject \<Rightarrow> (pyval \<times> pyval) list result" where
  "expected_receipts accepted = asset_table (dget accepted ''build_receipts'' (PList []))"

definition receipt_name_of :: "jobject \<Rightarrow> string" where
  "receipt_name_of r = as_str (dget r ''name'' PNone)"

text \<open>The two toolchains of one platform: from the downloaded receipt and from the current one.\<close>

definition receipt_toolchains :: "pylib \<Rightarrow> (pyval \<times> pyval) list \<Rightarrow> jobject \<Rightarrow> string \<Rightarrow> (pyval \<times> pyval) result" where
  "receipt_toolchains L expected current raw =
     rbind (case map_of (rev expected) (PStr (receipt_name_of current)) of None \<Rightarrow> Inl (KeyError (receipt_name_of current)) | Some v \<Rightarrow> pitem v ''sha256'') (\<lambda>sha.
     rbind (rc_require (PStr (digest L raw) = sha) ''RC toolchain receipt changed'') (\<lambda>_.
     rbind (case parse_json L raw of
         Inl e \<Rightarrow> if is_release_error e then Inl (ReleaseError ''Invalid JSON in RC toolchain receipt'') else Inl e
       | Inr v \<Rightarrow> Inr v) (\<lambda>v.
     case (v, dget current ''inputs'' PNone) of
       (PDict original, PDict inputs) \<Rightarrow> Inr (dget original ''toolchain'' PNone, dget inputs ''toolchain'' PNone)
     | _ \<Rightarrow> Inl (ReleaseError ''Invalid toolchain receipt object''))))"

definition add_drift :: "pylib \<Rightarrow> string \<Rightarrow> pyval \<times> pyval \<Rightarrow> drift \<Rightarrow> drift" where
  "add_drift L name ts st =
     (case (ts, st) of
        ((before, now), (platforms, found, diff_lines)) \<Rightarrow>
          if py_eq before now then st
          else
            let changes = toolchain_changes L before now;
                shown = map (\<lambda>(p, m). ''  '' @ diagnostic_label L name @ '': '' @ p @ '': '' @ m) changes in
            (platforms + 1, found + length changes, diff_lines @ take (MAX_TOOLCHAIN_DIAGNOSTICS - length diff_lines) shown))"

definition compare_receipt ::
  "pylib \<Rightarrow> 'w client \<Rightarrow> jobject list \<Rightarrow> (pyval \<times> pyval) list \<Rightarrow> drift \<Rightarrow> jobject \<Rightarrow> ('w, drift) io" where
  "compare_receipt L gh assets expected st current =
     ibind (ilift (case find (\<lambda>a. dget a ''name'' PNone = PStr (receipt_name_of current)) assets of
         None \<Rightarrow> Inl (ReleaseError ''RC platform receipt is missing'') | Some a \<Rightarrow> ditem a ''id'')) (\<lambda>i.
     ibind (ilift (positive i)) (\<lambda>asset_id.
     ibind (binary gh (release_asset_path asset_id)) (\<lambda>raw.
     ibind (ilift (receipt_toolchains L expected current raw)) (\<lambda>ts.
     ireturn (add_drift L (receipt_name_of current) ts st)))))"

definition drift_result :: "drift \<Rightarrow> unit result" where
  "drift_result st =
     (case st of
        (platforms, found, diff_lines) \<Rightarrow>
          if platforms = 0 then Inr ()
          else
            let omitted = found - length diff_lines;
                all_lines = diff_lines @ (if omitted = 0 then [] else [''  '' @ nat_str omitted @ '' further field differences omitted (log limit)'']) in
            Inl (ReleaseError (''Build toolchain differs from accepted RC: '' @ nat_str platforms @ '' platform receipt(s), '' @ nat_str found
              @ '' field difference(s).'' @ [LF] @ join_with [LF] all_lines @ [LF] @ ''Values are withheld; inspect the verified RC/final receipts. ''
              @ ''Floating runner image rollouts can give successive jobs different ImageVersion values. Investigate runner/toolchain availability before ''
              @ ''another RC/final cycle; a new RC alone does not guarantee matching inputs. Exact equality is still required for publication.'')))"

definition verify_final_toolchains :: "pylib \<Rightarrow> 'w client \<Rightarrow> jobject \<Rightarrow> jobject list \<Rightarrow> ('w, unit) io" where
  "verify_final_toolchains L gh accepted receipts =
     ibind (ilift (ditem accepted ''tag'')) (\<lambda>tagname.
     ibind (release_snapshot L gh (as_str tagname)) (\<lambda>snapshot.
     ibind (ilift (expected_receipts accepted)) (\<lambda>expected.
     ibind (ilift (rc_require (fst ` set expected = (PStr \<circ> receipt_name_of) ` set receipts) ''Final platform receipt inventory differs from RC'')) (\<lambda>_.
     ibind (ifold (compare_receipt L gh (sn_assets snapshot) expected) (0, 0, []) (sort_key receipt_name_of receipts)) (\<lambda>st.
     ilift (drift_result st))))))"

text \<open>A current receipt agrees with the accepted one: bytes with the accepted digest were read, and both toolchains are equal.\<close>

definition same_toolchain :: "pylib \<Rightarrow> 'w client \<Rightarrow> jobject \<Rightarrow> jobject \<Rightarrow> bool" where
  "same_toolchain L gh accepted current \<longleftrightarrow>
     (\<exists>expected i u raw u' before now. expected_receipts accepted = Inr expected
       \<and> binary gh (release_asset_path i) u = (Inr raw, u') \<and> receipt_toolchains L expected current raw = Inr (before, now)
       \<and> py_eq before now)"

lemma add_drift_platforms: "fst st \<le> fst (add_drift L name ts st)"
  by (cases st; cases ts) (simp add: add_drift_def Let_def)

lemma add_drift_0: "fst (add_drift L name (before, now) st) = 0 \<Longrightarrow> py_eq before now"
  by (cases st) (simp add: add_drift_def Let_def split: if_splits)

lemma compare_receipt_Inr:
  assumes "compare_receipt L gh assets expected st current w = (Inr st', w')"
  shows "fst st \<le> fst st' \<and> (fst st' = 0 \<longrightarrow> (\<exists>i u raw u' before now. binary gh (release_asset_path i) u = (Inr raw, u')
      \<and> receipt_toolchains L expected current raw = Inr (before, now) \<and> py_eq before now))"
  using assms unfolding compare_receipt_def
  by (auto simp: ibind_Inr_iff add_drift_platforms) (blast dest: add_drift_0)

lemma compare_receipts_Inr:
  assumes "ifold (compare_receipt L gh assets expected) st receipts w = (Inr st', w')"
  shows "fst st \<le> fst st' \<and> (fst st' = 0 \<longrightarrow> (\<forall>r \<in> set receipts. \<exists>i u raw u' before now. binary gh (release_asset_path i) u = (Inr raw, u')
      \<and> receipt_toolchains L expected r raw = Inr (before, now) \<and> py_eq before now))"
  using assms
proof (induction receipts arbitrary: st w)
  case Nil
  then show ?case by simp
next
  case (Cons r rs)
  from Cons.prems obtain st1 w1 where c: "compare_receipt L gh assets expected st r w = (Inr st1, w1)"
    and rest: "ifold (compare_receipt L gh assets expected) st1 rs w1 = (Inr st', w')"
    by (auto simp: ibind_Inr_iff)
  from compare_receipt_Inr [OF c] Cons.IH [OF rest] show ?case by auto
qed

text \<open>
  When the comparison of a final build with its accepted candidate succeeds, the candidate recorded exactly the
  platform receipts of the final build, and for every one of them the bytes read back have the recorded digest and
  name a toolchain equal to the one of the final build.
\<close>

theorem final_toolchains_match:
  "case verify_final_toolchains L gh accepted receipts w of (result, w') \<Rightarrow>
     (\<exists>e. result = Inl e) \<or>
     (list_all (same_toolchain L gh accepted) receipts
      \<and> (\<exists>expected. expected_receipts accepted = Inr expected \<and> fst ` set expected = (PStr \<circ> receipt_name_of) ` set receipts))"
proof (cases "verify_final_toolchains L gh accepted receipts w")
  case (Pair result w')
  show ?thesis
  proof (cases result)
    case (Inl e)
    then show ?thesis using Pair by simp
  next
    case (Inr u)
    from Pair Inr obtain assets expected st v v' where e: "expected_receipts accepted = Inr expected"
      "fst ` set expected = (PStr \<circ> receipt_name_of) ` set receipts"
      and f: "ifold (compare_receipt L gh assets expected) (0, 0, []) (sort_key receipt_name_of receipts) v = (Inr st, v')"
      and d: "drift_result st = Inr ()"
      unfolding verify_final_toolchains_def by (auto simp: ibind_Inr_iff)
    have "fst st = 0" using d by (cases st) (simp add: drift_result_def Let_def split: if_splits)
    with compare_receipts_Inr [OF f] have "list_all (same_toolchain L gh accepted) receipts"
      unfolding same_toolchain_def list_all_iff using e(1) by simp
    with e Pair show ?thesis by auto
  qed
qed

text \<open>
  Every line of a report names its field by a plain bounded label or a digest and one of a fixed list of
  descriptions, so that no compared value reaches the log.
\<close>

theorem toolchain_report_withholds_values:
  "list_all (\<lambda>(p, m). safe_label L p \<and> m \<in> set fixed_changes) (toolchain_changes L original current)"
  by (rule toolchain_changes_safe)

end
