(* ===== verification/Versioned.thy ===== *)
theory Versioned
  imports CreateRelease Toolchain
begin

text \<open>
  Versioned releases (\<open>scripts/release_versioned.py\<close>): the execution context, the confirmation that binds one
  release-create call to its run, the verification of an accepted candidate, the reuse of a qualified release by
  scheduled runs, and the commands \<open>prepare\<close> and \<open>publish_versioned\<close>. The record \<open>checkout_env\<close> holds what other
  scripts compute from the checked-out files: \<open>release.resolve_version\<close>, \<open>version_plan.check_base_versions\<close>,
  \<open>verify_declared_artifacts\<close> and the attestation tool.
\<close>

section \<open>Context\<close>

definition PLAN_FILE :: string where "PLAN_FILE = ''.release-plan.json''"

definition env_value :: "actions_env \<Rightarrow> string \<Rightarrow> pyval" where
  "env_value A name = (case ae_var A name of None \<Rightarrow> PNone | Some s \<Rightarrow> PStr s)"

definition head_of :: "jobject \<Rightarrow> string" where
  "head_of source_run = as_str (dget source_run ''head_sha'' PNone)"

definition policy_of :: "jobject \<Rightarrow> jobject" where
  "policy_of snapshot = as_dict (dget snapshot ''data'' PNone)"

definition local_policy :: "pylib \<Rightarrow> actions_env \<Rightarrow> jobject \<Rightarrow> unit result" where
  "local_policy L A snapshot =
     rbind (ae_file A POLICY) (\<lambda>raw.
     rbind (load_document L raw) (\<lambda>v.
     rc_require (py_eq v (dget snapshot ''data'' PNone)) ''Working policy differs from source commit''))"

definition versioned_context ::
  "pylib \<Rightarrow> actions_env \<Rightarrow> 'w timing \<Rightarrow> 'w client \<Rightarrow> string \<Rightarrow> bool \<Rightarrow> ('w \<times> int, jobject \<times> jobject \<times> jobject) io" where
  "versioned_context L A T gh0 chan gate =
     (let gh = timed T gh0 in
      ibind (ilift (positive (env_value A ''GITHUB_RUN_ID''))) (\<lambda>run_id.
      ibind (ilift (positive (env_value A ''GITHUB_RUN_ATTEMPT''))) (\<lambda>attempt.
      ibind (repository_info L gh) (\<lambda>info.
      ibind (ilift (checked_out_sha A)) (\<lambda>head.
      ibind (wait_run L A T gh0 run_id chan info head attempt gate) (\<lambda>source_run.
      ibind (source_policy_snapshot L gh (head_of source_run)) (\<lambda>snapshot.
      ibind (ilift (require_release_policy (dget snapshot ''data'' PNone) (repo gh) (chan \<in> {''rc'', ''stable''}))) (\<lambda>_.
      ibind (ilift (rc_require (truthy (dget (policy_of snapshot) ''versioning'' PNone)) ''Repository has not enabled version plans'')) (\<lambda>_.
      ibind (ilift (local_policy L A snapshot)) (\<lambda>_.
      ibind (ilift (rbind (ditem info ''default_branch'') as_name)) (\<lambda>branch.
      ibind (check_ancestry L gh (head_of source_run) branch) (\<lambda>_.
      ibind (if gate then validate_validation_run L gh source_run (policy_of snapshot) chan else ireturn ()) (\<lambda>_.
      ireturn (info, source_run, snapshot))))))))))))))"

section \<open>Binding one create call\<close>

definition create_marker :: "pylib \<Rightarrow> string \<Rightarrow> jobject \<Rightarrow> string \<Rightarrow> string \<Rightarrow> string result" where
  "create_marker L repository source_run plan_sha nonce =
     rbind (ditem source_run ''head_sha'') (\<lambda>sha.
     rbind (ditem source_run ''id'') (\<lambda>i.
     rbind (ditem source_run ''run_attempt'') (\<lambda>attempt.
     let identity = PDict [(''repository'', PStr repository), (''source'', sha), (''run'', i), (''attempt'', attempt),
           (''plan'', PStr plan_sha), (''nonce'', PStr nonce)] in
     Inr (LFLF @ ''<!-- release-create '' @ enc L (sort_keys identity) @ '' -->''))))"

definition run_identity_keys :: "string list" where
  "run_identity_keys = [''id'', ''run_attempt'', ''head_sha'', ''path'', ''event'']"

text \<open>The fields of an accepted run are integers and strings: equal type and value is equality.\<close>

definition same_running :: "jobject \<Rightarrow> pyval \<Rightarrow> bool" where
  "same_running source_run v \<longleftrightarrow>
     (case v of
        PDict d \<Rightarrow> dget d ''status'' PNone = PStr ''in_progress'' \<and> dget d ''conclusion'' PNone = PNone
          \<and> (\<forall>k \<in> set run_identity_keys. dget d k PNone = dget source_run k PNone)
      | _ \<Rightarrow> False)"

definition same_default :: "string \<Rightarrow> pyval \<Rightarrow> bool" where
  "same_default source_path v \<longleftrightarrow>
     (case v of PDict d \<Rightarrow> (case dget d ''default_branch'' PNone of PStr b \<Rightarrow> heads_path b = source_path | _ \<Rightarrow> False) | _ \<Rightarrow> False)"

definition ledger_bytes :: "pyval \<Rightarrow> string result" where
  "ledger_bytes v =
     (case v of
        PDict d \<Rightarrow>
          (case dget d ''content'' PNone of
             PStr encoded \<Rightarrow>
               rbind (rc_require (dget d ''type'' PNone = PStr ''file'' \<and> dget d ''encoding'' PNone = PStr ''base64'') ''Invalid create readback ledger'') (\<lambda>_.
               b64decode (filter (\<lambda>c. \<not> is_space c) encoded))
           | _ \<Rightarrow> Inl (ReleaseError ''Invalid create readback ledger''))
      | _ \<Rightarrow> Inl (ReleaseError ''Invalid create readback ledger''))"

definition attempt_path :: "pylib \<Rightarrow> jobject \<Rightarrow> string result" where
  "attempt_path L source_run =
     rbind (rbind (ditem source_run ''id'') (path_field L)) (\<lambda>i.
     rbind (rbind (ditem source_run ''run_attempt'') (path_field L)) (\<lambda>a.
     Inr (''actions/runs/'' @ i @ ''/attempts/'' @ a)))"

definition create_confirmation ::
  "pylib \<Rightarrow> 'w observer \<Rightarrow> jobject \<Rightarrow> string \<times> pyval \<Rightarrow> string \<Rightarrow> ('w \<times> readback, unit) io" where
  "create_confirmation L B source_run source_ref consumed =
     ibind (ilift (attempt_path L source_run)) (\<lambda>path.
     ibind (rb_json L B path) (\<lambda>current.
     ibind (ilift (rc_require (same_running source_run current) ''Create readback run identity changed'')) (\<lambda>_.
     ibind (rb_json L B []) (\<lambda>info.
     ibind (ilift (rc_require (same_default (fst source_ref) info) ''Create readback default branch changed'')) (\<lambda>_.
     ibind (rb_json L B (fst source_ref)) (\<lambda>ref.
     ibind (ilift (rc_require (py_eq ref (snd source_ref)) ''Create readback default source changed'')) (\<lambda>_.
     ibind (rb_json L B ''contents/release-version-state.json?ref=release-version-state'') (\<lambda>content.
     ibind (ilift (ledger_bytes content)) (\<lambda>raw.
     ilift (rc_require (raw = consumed) ''Create readback publication ledger changed''))))))))))"

lemma confirmation_observes: "keeps (observes r) (create_confirmation L (watching respond now r) source_run source_ref consumed)"
  unfolding create_confirmation_def by (intro observing_frame.keeps_rules observing.keeps_json)

text \<open>
  C29: however GitHub, the network and the clock behave, a confirmed create sends one POST and then at most one
  hundred GET requests of the same repository, never a second POST; and the release it returns is the body of the
  201 response to that POST or an unpublished draft of this repository without assets that carries every field of
  the payload.
\<close>

theorem confirmed_create_single_post:
  "case confirmed_create L (watching respond now r) (create_confirmation L (watching respond now r) source_run source_ref consumed) payload w of
     (result, w') \<Rightarrow>
       (\<exists>gets. w' = w @ create_call L r payload # gets \<and> length gets \<le> 100 \<and> list_all (get_call r) gets)
       \<and> (case result of Inl e \<Rightarrow> True
          | Inr v \<Rightarrow> (\<exists>d. v = PDict d \<and> (created L (respond (w @ [create_call L r payload])) d \<or> (\<exists>i. own_draft r payload i d))))"
proof -
  let ?post = "w @ [create_call L r payload]" and ?confirm = "create_confirmation L (watching respond now r) source_run source_ref consumed"
  obtain first_result w1 where c: "create_release_once L (recorded respond) r payload w = (first_result, w1)"
    by (cases "create_release_once L (recorded respond) r payload w")
  have once: "w1 = ?post" "case first_result of Inr d \<Rightarrow> created L (respond w1) d | Inl e \<Rightarrow> True"
    using create_once [where L = L and respond = respond and r = r and body = payload and w = w] c by (auto split: sum.splits)
  have c': "create_release_once L (ob_env (watching respond now r)) (ob_repo (watching respond now r)) payload w = (first_result, ?post)"
    using c once(1) by (simp add: watching_def)
  show ?thesis
  proof (cases "\<exists>m. first_result = Inl (AmbiguousCreate m)")
    case False
    then have "confirmed_create L (watching respond now r) ?confirm payload w = (map_sum id PDict first_result, ?post)"
      using c' by (auto simp: confirmed_create_def split: sum.splits pyerror.splits)
    then show ?thesis using once by (auto split: sum.splits)
  next
    case True
    obtain res w' where rr: "reconcile_created_release L (watching respond now r) payload ?confirm ?post = (res, w')"
      by (cases "reconcile_created_release L (watching respond now r) payload ?confirm ?post")
    have e: "confirmed_create L (watching respond now r) ?confirm payload w = (map_sum id PDict res, w')"
      using True c' rr by (auto simp: confirmed_create_def split: sum.splits)
    from reconcile_observed [OF confirmation_observes rr] obtain gets where "w' = ?post @ gets" "length gets \<le> 100"
      "list_all (get_call r) gets" "\<forall>d. res = Inr d \<longrightarrow> (\<exists>i. own_draft r payload i d)" by blast
    then show ?thesis unfolding e by (cases res) auto
  qed
qed

end
