(* ===== verification/ScheduledReuse.thy ===== *)
theory ScheduledReuse
  imports Versioned
begin

text \<open>
  Reading published releases back in \<open>scripts/release_versioned.py\<close>: the verification of an accepted candidate
  (\<open>verified_rc\<close>), the inspection of a qualified release (\<open>verify_scheduled_reuse\<close>) and the search for one that a
  scheduled run may reuse (\<open>scheduled_reuse\<close>). The theorem: a run is skipped only for a recorded plan of the same
  source, base and policy whose published release passed the whole verification.
\<close>

section \<open>The accepted candidate\<close>

definition rc_tag_rx :: rx where
  "rc_tag_rx = SeqOf [Lit (CHR ''v''), BASE, Word ''-rc.'', positive_numeral]"

definition as_object :: "pyval \<Rightarrow> jobject result" where
  "as_object v = (case v of PDict d \<Rightarrow> Inr d | _ \<Rightarrow> Inl (AttributeError ''get''))"

definition rc_payload :: "pylib \<Rightarrow> 'w hub \<Rightarrow> (pyval \<times> pyval) list \<Rightarrow> jobject \<Rightarrow> ('w, unit) io" where
  "rc_payload L H expected item =
     (if dget item ''name'' PNone = PStr MANIFEST then ireturn ()
      else
        ibind (ilift (rbind (ditem item ''id'') positive)) (\<lambda>i.
        ibind (hb_download H (release_asset_path i)) (\<lambda>data.
        let (len, sha) = stream_identity L data; name = as_str (dget item ''name'' PNone) in
        ibind (ilift (rbind (ditem item ''size'') (\<lambda>n. rc_require (py_eq n (PInt len)) ''RC asset size mismatch''))) (\<lambda>_.
        ilift (case asset_named expected name of
            None \<Rightarrow> Inl (KeyError name)
          | Some declared \<Rightarrow>
              rbind (pitem declared ''size'') (\<lambda>n.
              rbind (pitem declared ''sha256'') (\<lambda>h.
              rc_require (py_eq (PInt len) n \<and> h = PStr sha) ''RC payload checksum mismatch'')))))))"

definition rc_parent :: "pylib \<Rightarrow> string \<Rightarrow> string \<Rightarrow> jobject \<Rightarrow> pyval" where
  "rc_parent L rc raw manifest =
     PDict [(''tag'', PStr rc), (''manifest_sha256'', PStr (digest L raw)), (''source_sha'', dget manifest ''source_sha'' PNone),
       (''run_id'', dget manifest ''run_id'' PNone)]"

definition verified_rc ::
  "pylib \<Rightarrow> (string \<Rightarrow> zip_entry list option) \<Rightarrow> 'w hub \<Rightarrow> pyval \<Rightarrow> jobject \<Rightarrow> jobject \<Rightarrow> ('w, jobject \<times> pyval) io" where
  "verified_rc L unzip H rc_value info current_run =
     (let gh = hb_client H; rc = as_str rc_value in
      ibind (ilift (rc_require (matches_str rc_tag_rx rc_value) ''Stable requires an explicit vX.Y.Z-rc.N'')) (\<lambda>_.
      ibind (release_snapshot L gh rc) (\<lambda>initial.
      ibind (ilift (candidate_manifest_asset (sn_assets initial))) (\<lambda>asset.
      ibind (ilift (rbind (ditem asset ''id'') positive)) (\<lambda>i.
      ibind (binary gh (release_asset_path i)) (\<lambda>raw.
      ibind (ilift (validate_manifest L raw (repo gh) rc False)) (\<lambda>manifest.
      let sha = as_str (dget manifest ''source_sha'' PNone) in
      ibind (source_policy_snapshot L gh sha) (\<lambda>snapshot.
      ibind (ilift (rc_require (py_eq (PDict snapshot) (dget manifest ''source_policy'' PNone)) ''RC source policy changed'')) (\<lambda>_.
      ibind (require_current_fuzzing L gh (policy_of snapshot) (head_of current_run)) (\<lambda>_.
      ibind (ilift (rc_require (dget (as_dict (dget (sn_ref initial) ''object'' PNone)) ''sha'' PNone = PStr sha) ''RC source tag mismatch'')) (\<lambda>_.
      ibind (ilift (rbind (ditem current_run ''id'') (\<lambda>current_id.
        rc_require (\<not> py_eq (dget manifest ''run_id'' PNone) current_id) ''RC must come from a separate run''))) (\<lambda>_.
      ibind (source_run_of L gh manifest) (\<lambda>source_run.
      ibind (validate_validation_run L gh source_run (policy_of snapshot) ''rc'') (\<lambda>_.
      ibind (ilift (rc_require (py_eq (dget source_run ''id'' PNone) (dget manifest ''run_id'' PNone)) ''RC source run identity mismatch'')) (\<lambda>_.
      ibind (ilift (attempt_of manifest)) (\<lambda>attempt.
      ibind (validate_run L gh source_run info sha attempt True True) (\<lambda>_.
      ibind (ilift (rc_require (dget source_run ''event'' PNone = PStr ''workflow_dispatch'') ''RC must be explicitly requested'')) (\<lambda>_.
      ibind (ilift (rbind (ditem info ''default_branch'') as_name)) (\<lambda>branch.
      ibind (check_ancestry L gh sha branch) (\<lambda>_.
      ibind (verify_evidence L unzip gh manifest raw) (\<lambda>_.
      ibind (ilift (asset_table (dget manifest ''assets'' PNone))) (\<lambda>expected.
      ibind (ilift (rc_require ((\<lambda>a. dget a ''name'' PNone) ` set (sn_assets initial) = fst ` set expected \<union> {PStr MANIFEST})
        ''RC asset inventory differs from immutable evidence'')) (\<lambda>_.
      ibind (ilift (rbind (ditem asset ''size'') (\<lambda>n. rc_require (py_eq n (PInt (int (length raw)))) ''RC asset size mismatch''))) (\<lambda>_.
      ibind (iiter (rc_payload L H expected) (sn_assets initial)) (\<lambda>_.
      ibind (release_snapshot L gh rc) (\<lambda>again.
      ibind (ilift (rbind (snapshot_identity L again) (\<lambda>a. rbind (snapshot_identity L initial) (\<lambda>b.
        rc_require (a = b) ''RC changed during verification'')))) (\<lambda>_.
      ireturn (manifest, rc_parent L rc raw manifest))))))))))))))))))))))))))))"

section \<open>A published versioned release\<close>

definition published_ref :: "string \<Rightarrow> string \<Rightarrow> pyval \<Rightarrow> bool result" where
  "published_ref tagname source v =
     rbind (pget v ''ref'' PNone) (\<lambda>r.
     if r \<noteq> PStr (''refs/tags/'' @ tagname) then Inr False
     else
       rbind (pget v ''object'' (PDict [])) (\<lambda>object.
       rbind (pget object ''type'' PNone) (\<lambda>t.
       rbind (pget object ''sha'' PNone) (\<lambda>s.
       Inr (t = PStr ''commit'' \<and> s = PStr source)))))"

definition published_release :: "string \<Rightarrow> bool \<Rightarrow> pyval \<Rightarrow> jobject result" where
  "published_release tagname prerelease v =
     rbind (as_object v) (\<lambda>d.
     rbind (rc_require (dget d ''tag_name'' PNone = PStr tagname \<and> dget d ''draft'' PNone = PBool False
         \<and> dget d ''prerelease'' PNone = PBool prerelease) ''Qualified release is not published'') (\<lambda>_.
     Inr d))"

definition published_assets :: "pyval list \<Rightarrow> jobject list result" where
  "published_assets assets =
     rbind (rmap as_object assets) (\<lambda>ds.
     let names = map (\<lambda>d. dget d ''name'' PNone) ds in
     rbind (rc_require (list_all (matches_str NAME_RE) names \<and> distinct (map (\<lambda>n. lower (as_str n)) names)
         \<and> list_all (\<lambda>d. dget d ''state'' PNone = PStr ''uploaded'') ds) ''Qualified release has invalid or incomplete assets'') (\<lambda>_.
     Inr ds))"

definition published_plan_snapshot :: "pylib \<Rightarrow> 'w client \<Rightarrow> string \<Rightarrow> string \<Rightarrow> bool \<Rightarrow> ('w, release_snapshot) io" where
  "published_plan_snapshot L gh tagname source prerelease =
     ibind (api L gh (''git/ref/tags/'' @ tagname) ''GET'' None) (\<lambda>ref.
     ibind (api L gh (''releases/tags/'' @ tagname) ''GET'' None) (\<lambda>release.
     ibind (ilift (published_ref tagname source ref)) (\<lambda>ok.
     ibind (ilift (rc_require ok ''Qualified release tag/source mismatch'')) (\<lambda>_.
     ibind (ilift (published_release tagname prerelease release)) (\<lambda>d.
     ibind (ilift (positive (dget d ''id'' PNone))) (\<lambda>i.
     ibind (pages L gh (''releases/'' @ int_str i @ ''/assets'') None) (\<lambda>assets.
     ibind (ilift (published_assets assets)) (\<lambda>ds.
     ireturn \<lparr>sn_ref = as_dict ref, sn_release = d, sn_assets = ds\<rparr>))))))))"

section \<open>Qualification for reuse\<close>

text \<open>\<open>x <= n\<close> for a number; other values raise.\<close>

definition number_at_most :: "pyval \<Rightarrow> int \<Rightarrow> bool result" where
  "number_at_most v n =
     (case v of
        PInt i \<Rightarrow> Inr (i \<le> n)
      | PBool b \<Rightarrow> Inr ((if b then 1 else 0) \<le> n)
      | PFloat (Finite m e) \<Rightarrow> Inr (m * 2 ^ nat e \<le> n * 2 ^ nat (- e))
      | PFloat (Infinite negative) \<Rightarrow> Inr negative
      | PFloat Not_a_number \<Rightarrow> Inr False
      | _ \<Rightarrow> Inl (TypeError ''unorderable types''))"

definition inventory_item :: "jobject list \<Rightarrow> string \<Rightarrow> jobject result" where
  "inventory_item assets name =
     (case find (\<lambda>a. dget a ''name'' PNone = PStr name) assets of None \<Rightarrow> Inl (KeyError name) | Some a \<Rightarrow> Inr a)"

text \<open>The manifest names its source and exactly the durable plan.\<close>

definition qualified_manifest :: "pylib \<Rightarrow> string \<Rightarrow> jobject \<Rightarrow> plan \<Rightarrow> int \<Rightarrow> string \<Rightarrow> jobject \<Rightarrow> bool" where
  "qualified_manifest L repository snapshot p source_run_id plan_sha manifest \<longleftrightarrow>
     dget manifest ''schema'' PNone = PInt 1 \<and> dget manifest ''repository'' PNone = PStr repository
     \<and> dget manifest ''source_sha'' PNone = PStr (source_sha p) \<and> dget manifest ''version'' PNone = PStr (base_version p)
     \<and> dget manifest ''channel'' PNone = PStr (channel p) \<and> dget manifest ''tag'' PNone = PStr (tag p)
     \<and> py_eq (dget manifest ''version_plan'' PNone) (plan_json p) \<and> dget manifest ''plan_sha256'' PNone = PStr plan_sha
     \<and> py_eq (dget manifest ''source_policy'' PNone) (PDict snapshot) \<and> dget manifest ''workflow_path'' PNone = PStr WORKFLOW
     \<and> py_eq (dget manifest ''run_id'' PNone) (PInt source_run_id)"

definition check_qualified :: "pylib \<Rightarrow> string \<Rightarrow> jobject \<Rightarrow> plan \<Rightarrow> int \<Rightarrow> string \<Rightarrow> jobject result" where
  "check_qualified L repository snapshot p source_run_id raw =
     rbind (parse_json L raw) (\<lambda>v.
     rbind (plan_digest L (plan_json p)) (\<lambda>h.
     (case v of
        PDict manifest \<Rightarrow>
          rbind (rc_require (qualified_manifest L repository snapshot p source_run_id h manifest) ''Qualified manifest differs from its source and durable plan'') (\<lambda>_.
          rbind (validate_validation_manifest L manifest) (\<lambda>_.
          Inr manifest))
      | _ \<Rightarrow> Inl (ReleaseError ''Qualified manifest differs from its source and durable plan''))))"

text \<open>One declared payload against the published metadata; \<open>declared\<close> has a size and a digest.\<close>

definition sha_label :: "string \<Rightarrow> string" where "sha_label s = ''sha256:'' @ s"

definition metadata_matches :: "jobject list \<Rightarrow> pyval \<times> pyval \<Rightarrow> bool result" where
  "metadata_matches assets entry =
     (case entry of
        (name, declared) \<Rightarrow>
          rbind (inventory_item assets (as_str name)) (\<lambda>a.
          rbind (pitem declared ''size'') (\<lambda>n.
          if \<not> py_eq (dget a ''size'' PNone) n then Inr False
          else
            rbind (pitem declared ''sha256'') (\<lambda>h.
            case h of PStr s \<Rightarrow> Inr (dget a ''digest'' PNone = PStr (sha_label s)) | _ \<Rightarrow> Inl (TypeError ''can only concatenate str'')))))"

primrec rall :: "('a \<Rightarrow> bool result) \<Rightarrow> 'a list \<Rightarrow> bool result" where
  "rall f [] = Inr True"
| "rall f (x # xs) = rbind (f x) (\<lambda>b. if b then rall f xs else Inr False)"

definition check_inventory :: "pylib \<Rightarrow> jobject list \<Rightarrow> string \<Rightarrow> jobject \<Rightarrow> unit result" where
  "check_inventory L assets raw manifest =
     rbind (case dget manifest ''assets'' PNone of PList (x # xs) \<Rightarrow> Inr () | _ \<Rightarrow> Inl (ReleaseError ''Qualified payloads missing'')) (\<lambda>_.
     rbind (asset_table (dget manifest ''assets'' PNone)) (\<lambda>declarations.
     rbind (rc_require (distinct (map fst declarations)
         \<and> (\<lambda>a. dget a ''name'' PNone) ` set assets = fst ` set declarations \<union> {PStr MANIFEST}) ''Qualified asset inventory mismatch'') (\<lambda>_.
     let own = (PStr MANIFEST, PDict [(''size'', PInt (int (length raw))), (''sha256'', PStr (digest L raw))]);
         entries = filter (\<lambda>e. fst e \<noteq> PStr MANIFEST) declarations @ [own] in
     rbind (rall (metadata_matches assets) entries) (\<lambda>ok.
     rc_require ok ''Qualified asset metadata mismatch''))))"

definition gate_names :: "string list list" where
  "gate_names = [[''Release gate''], [''CI gate'', ''checks / CI gate'']]"

definition gate_green :: "plan \<Rightarrow> pyval list \<Rightarrow> string list \<Rightarrow> unit result" where
  "gate_green p jobs names =
     rbind (rmap as_object jobs) (\<lambda>ds.
     case filter (\<lambda>d. dget d ''name'' PNone \<in> PStr ` set names) ds of
       [gate] \<Rightarrow> rc_require (dget gate ''status'' PNone = PStr ''completed'' \<and> dget gate ''conclusion'' PNone = PStr ''success''
          \<and> dget gate ''head_sha'' PNone = PStr (source_sha p)) ''Qualified run has no successful CI and Release gates''
     | _ \<Rightarrow> Inl (ReleaseError ''Qualified run has no successful CI and Release gates''))"

definition qualified_snapshot :: "pylib \<Rightarrow> 'w client \<Rightarrow> plan \<Rightarrow> string \<Rightarrow> ('w, release_snapshot) io" where
  "qualified_snapshot L gh p tagname = published_plan_snapshot L gh tagname (source_sha p) (tagname \<noteq> ''v'' @ base_version p)"

text \<open>The published release with the bytes of its manifest, checked against each other.\<close>

definition read_qualified ::
  "pylib \<Rightarrow> 'w client \<Rightarrow> jobject \<Rightarrow> plan \<Rightarrow> int \<Rightarrow> string \<Rightarrow> ('w, string \<times> string \<times> jobject) io" where
  "read_qualified L gh snapshot p source_run_id tagname =
     ibind (qualified_snapshot L gh p tagname) (\<lambda>initial.
     ibind (ilift (snapshot_identity L initial)) (\<lambda>identity.
     ibind (ilift (inventory_item (sn_assets initial) MANIFEST)) (\<lambda>asset.
     ibind (ilift (rbind (ditem asset ''size'') (\<lambda>n. number_at_most n 2000000))) (\<lambda>small.
     ibind (ilift (rc_require small ''Qualified manifest is too large'')) (\<lambda>_.
     ibind (ilift (rbind (ditem asset ''id'') positive)) (\<lambda>i.
     ibind (binary gh (release_asset_path i)) (\<lambda>raw.
     ibind (ilift (check_qualified L (repo gh) snapshot p source_run_id raw)) (\<lambda>manifest.
     ibind (ilift (check_inventory L (sn_assets initial) raw manifest)) (\<lambda>_.
     ireturn (identity, raw, manifest))))))))))"

text \<open>The run that produced it: provenance and gates.\<close>

definition qualified_run ::
  "pylib \<Rightarrow> 'w client \<Rightarrow> jobject \<Rightarrow> jobject \<Rightarrow> plan \<Rightarrow> int \<Rightarrow> jobject \<Rightarrow> ('w, unit) io" where
  "qualified_run L gh info snapshot p source_run_id manifest =
     ibind (api L gh (''actions/runs/'' @ int_str source_run_id) ''GET'' None) (\<lambda>v.
     ibind (ilift (as_object v)) (\<lambda>source_run.
     ibind (validate_validation_run L gh source_run (policy_of snapshot) (channel p)) (\<lambda>_.
     ibind (ilift (rc_require (py_eq (dget source_run ''id'' PNone) (PInt source_run_id)) ''Qualified run ID mismatch'')) (\<lambda>_.
     ibind (ilift (positive (dget manifest ''run_attempt'' PNone))) (\<lambda>attempt.
     ibind (validate_run L gh source_run info (source_sha p) attempt True False) (\<lambda>_.
     ibind (pages L gh (''actions/runs/'' @ int_str source_run_id @ ''/attempts/'' @ int_str attempt @ ''/jobs'') (Some ''jobs'')) (\<lambda>jobs.
     ilift (riter (gate_green p jobs) gate_names))))))))"

definition verify_scheduled_reuse ::
  "pylib \<Rightarrow> (string \<Rightarrow> zip_entry list option) \<Rightarrow> 'w client \<Rightarrow> jobject \<Rightarrow> jobject \<Rightarrow> plan \<Rightarrow> int \<Rightarrow> string \<Rightarrow> ('w, unit) io" where
  "verify_scheduled_reuse L unzip gh info snapshot p source_run_id tagname =
     ibind (read_qualified L gh snapshot p source_run_id tagname) (\<lambda>(identity, raw, manifest).
     ibind (qualified_run L gh info snapshot p source_run_id manifest) (\<lambda>_.
     ibind (verify_evidence L unzip gh manifest raw) (\<lambda>_.
     ibind (qualified_snapshot L gh p tagname) (\<lambda>current.
     ilift (rbind (snapshot_identity L current) (\<lambda>a. rc_require (a = identity) ''Qualified release changed during verification''))))))"

section \<open>The search\<close>

definition head_matches :: "pylib \<Rightarrow> 'w client \<Rightarrow> string \<Rightarrow> jobject \<Rightarrow> ('w, bool) io" where
  "head_matches L gh head_path source_run =
     ibind (api L gh head_path ''GET'' None) (\<lambda>v.
     ibind (ilift (rbind (pget v ''object'' (PDict [])) (\<lambda>object. pget object ''sha'' PNone))) (\<lambda>sha.
     ireturn (sha = PStr (head_of source_run))))"

text \<open>\<open>except (rc.ReleaseError, ValueError, KeyError, TypeError)\<close>.\<close>

fun unproved :: "pyerror \<Rightarrow> bool" where
  "unproved (KeyError _) = True"
| "unproved (TypeError _) = True"
| "unproved e = (is_release_error e \<or> is_value_error e)"

definition same_input :: "pylib \<Rightarrow> jobject \<Rightarrow> jobject \<Rightarrow> string \<Rightarrow> plan \<Rightarrow> bool result" where
  "same_input L source_run snapshot base p =
     (if source_sha p = head_of source_run \<and> base_version p = base then
        rbind (policy_digest L (dget snapshot ''data'' PNone)) (\<lambda>h.
        Inr (policy_sha256 p = h \<and> channel p \<in> {''beta'', ''rc'', ''stable''}))
      else Inr False)"

definition reuse_record :: "pylib \<Rightarrow> jobject \<Rightarrow> jobject \<Rightarrow> string \<Rightarrow> string \<times> reservation \<Rightarrow> (int \<times> plan) list result" where
  "reuse_record L source_run snapshot base kr =
     rbind (same_input L source_run snapshot base (res_plan (snd kr))) (\<lambda>b.
     if b then rbind (positive (PStr (fst kr))) (\<lambda>i. Inr [(i, res_plan (snd kr))]) else Inr [])"

definition reuse_tags :: "string \<Rightarrow> plan \<Rightarrow> string list" where
  "reuse_tags base p = tag p # (if channel p = ''rc'' \<and> promotion p = ''promote-bytes'' then [''v'' @ base] else [])"

definition reuse_probes :: "string \<Rightarrow> (int \<times> plan) list \<Rightarrow> (int \<times> plan \<times> string) list" where
  "reuse_probes base records =
     concat (map (\<lambda>(i, p). map (\<lambda>t. (i, p, t)) (reuse_tags base p)) (take 10 (sort_key (\<lambda>(i, p). - build_int p) records)))"

fun first_reusable ::
  "pylib \<Rightarrow> (string \<Rightarrow> zip_entry list option) \<Rightarrow> 'w client \<Rightarrow> jobject \<Rightarrow> jobject \<Rightarrow> jobject \<Rightarrow> string \<Rightarrow> (int \<times> plan \<times> string) list \<Rightarrow> ('w, string) io" where
  "first_reusable L unzip gh info source_run snapshot head_path [] w = (Inr [], w)"
| "first_reusable L unzip gh info source_run snapshot head_path ((i, p, t) # probes) w =
     (case verify_scheduled_reuse L unzip gh info snapshot p i t w of
        (Inl e, w') \<Rightarrow> if unproved e then first_reusable L unzip gh info source_run snapshot head_path probes w' else (Inl e, w')
      | (Inr _, w') \<Rightarrow> ibind (head_matches L gh head_path source_run) (\<lambda>ok. ireturn (if ok then t else [])) w')"

definition scheduled_reuse ::
  "pylib \<Rightarrow> (string \<Rightarrow> zip_entry list option) \<Rightarrow> 'w client \<Rightarrow> jobject \<Rightarrow> jobject \<Rightarrow> jobject \<Rightarrow> string \<Rightarrow> ('w, string) io" where
  "scheduled_reuse L unzip gh info source_run snapshot base =
     ibind (ilift (rbind (ditem info ''default_branch'') as_name)) (\<lambda>branch.
     ibind (head_matches L gh (heads_path branch) source_run) (\<lambda>ok.
     if \<not> ok then ireturn []
     else
       ibind (read_state L gh) (\<lambda>(st, previous).
       ibind (ilift (rmap (reuse_record L source_run snapshot base) (plans st))) (\<lambda>records.
       first_reusable L unzip gh info source_run snapshot (heads_path branch) (reuse_probes base (concat records))))))"

section \<open>What a reused release is\<close>

lemma rall_True: "rall f xs = Inr True \<longleftrightarrow> (\<forall>x \<in> set xs. f x = Inr True)"
  by (induction xs) (auto simp: rbind_Inr_iff)

text \<open>A declared size and digest are those of the published asset of that name.\<close>

definition published_as :: "jobject list \<Rightarrow> string \<Rightarrow> pyval \<Rightarrow> string \<Rightarrow> bool" where
  "published_as assets name n sha \<longleftrightarrow>
     (\<exists>a \<in> set assets. dget a ''name'' PNone = PStr name \<and> py_eq (dget a ''size'' PNone) n \<and> dget a ''digest'' PNone = PStr (sha_label sha))"

definition payload_published :: "jobject list \<Rightarrow> pyval \<times> pyval \<Rightarrow> bool" where
  "payload_published assets entry \<longleftrightarrow>
     (\<exists>n sha. pitem (snd entry) ''size'' = Inr n \<and> pitem (snd entry) ''sha256'' = Inr (PStr sha) \<and> published_as assets (as_str (fst entry)) n sha)"

lemma inventory_item_Inr: "inventory_item assets name = Inr a \<Longrightarrow> a \<in> set assets \<and> dget a ''name'' PNone = PStr name"
  by (auto simp: inventory_item_def find_Some_iff split: option.splits)

lemma metadata_published:
  assumes "metadata_matches assets entry = Inr True"
  shows "payload_published assets entry"
proof -
  from assms obtain a n h where a: "inventory_item assets (as_str (fst entry)) = Inr a" and n: "pitem (snd entry) ''size'' = Inr n"
    "py_eq (dget a ''size'' PNone) n" and h: "pitem (snd entry) ''sha256'' = Inr h"
    and d: "(case h of PStr s \<Rightarrow> Inr (dget a ''digest'' PNone = PStr (sha_label s)) | _ \<Rightarrow> Inl (TypeError ''can only concatenate str'')) = Inr True"
    unfolding metadata_matches_def by (cases entry) (auto simp: rbind_Inr_iff split: if_splits)
  from d obtain s where "h = PStr s" "dget a ''digest'' PNone = PStr (sha_label s)" by (cases h) simp_all
  with inventory_item_Inr [OF a] n h show ?thesis unfolding payload_published_def published_as_def by blast
qed

lemma check_inventory_Inr:
  assumes "check_inventory L assets raw manifest = Inr ()"
  shows "\<exists>declared. asset_table (dget manifest ''assets'' PNone) = Inr declared \<and> distinct (map fst declared)
     \<and> (\<lambda>a. dget a ''name'' PNone) ` set assets = fst ` set declared \<union> {PStr MANIFEST}
     \<and> (\<forall>entry \<in> set declared. fst entry = PStr MANIFEST \<or> payload_published assets entry)
     \<and> published_as assets MANIFEST (PInt (int (length raw))) (sha256 L raw)"
proof -
  from assms obtain declared where d: "asset_table (dget manifest ''assets'' PNone) = Inr declared" "distinct (map fst declared)"
    "(\<lambda>a. dget a ''name'' PNone) ` set assets = fst ` set declared \<union> {PStr MANIFEST}"
    and all: "rall (metadata_matches assets) (filter (\<lambda>e. fst e \<noteq> PStr MANIFEST) declared
      @ [(PStr MANIFEST, PDict [(''size'', PInt (int (length raw))), (''sha256'', PStr (digest L raw))])]) = Inr True"
    by (auto simp: check_inventory_def rbind_Inr_iff Let_def)
  have "metadata_matches assets entry = Inr True" if "entry \<in> set declared" "fst entry \<noteq> PStr MANIFEST" for entry
    using all that by (cases entry) (auto simp: rall_True)
  then have "\<forall>entry \<in> set declared. fst entry = PStr MANIFEST \<or> payload_published assets entry"
    using metadata_published by blast
  moreover have "payload_published assets (PStr MANIFEST, PDict [(''size'', PInt (int (length raw))), (''sha256'', PStr (digest L raw))])"
    using all by (auto simp: rall_True dest: metadata_published)
  then have "published_as assets MANIFEST (PInt (int (length raw))) (sha256 L raw)"
    by (simp add: payload_published_def pitem_def as_str_def digest_def)
  ultimately show ?thesis using d by blast
qed

text \<open>
  The evidence behind a reused release, as the replies it is read from. Each piece starts in the state in which
  the piece before ended.
\<close>

text \<open>The published release: its tag is a commit reference to the plan's source, it is no draft, and its assets
  are completely uploaded.\<close>

definition published_read :: "pylib \<Rightarrow> 'w client \<Rightarrow> plan \<Rightarrow> string \<Rightarrow> release_snapshot \<Rightarrow> 'w \<Rightarrow> 'w \<Rightarrow> bool" where
  "published_read L gh p t s u v \<longleftrightarrow>
     (\<exists>object release_id u1 u2.
        api L gh (''git/ref/tags/'' @ t) ''GET'' None u = (Inr (PDict (sn_ref s)), u1)
        \<and> dget (sn_ref s) ''ref'' PNone = PStr (''refs/tags/'' @ t) \<and> dget (sn_ref s) ''object'' (PDict []) = PDict object
        \<and> dget object ''type'' PNone = PStr ''commit'' \<and> dget object ''sha'' PNone = PStr (source_sha p)
        \<and> api L gh (''releases/tags/'' @ t) ''GET'' None u1 = (Inr (PDict (sn_release s)), u2)
        \<and> dget (sn_release s) ''tag_name'' PNone = PStr t \<and> dget (sn_release s) ''draft'' PNone = PBool False
        \<and> dget (sn_release s) ''prerelease'' PNone = PBool (t \<noteq> ''v'' @ base_version p)
        \<and> positive (dget (sn_release s) ''id'' PNone) = Inr release_id
        \<and> pages L gh (''releases/'' @ int_str release_id @ ''/assets'') None u2 = (Inr (map PDict (sn_assets s)), v)
        \<and> (\<forall>a \<in> set (sn_assets s). dget a ''state'' PNone = PStr ''uploaded''))"

text \<open>The bytes of its manifest: they parse as a manifest of exactly this plan, with every declared payload among
  the published assets by size and digest.\<close>

definition manifest_read :: "pylib \<Rightarrow> 'w client \<Rightarrow> jobject \<Rightarrow> plan \<Rightarrow> int \<Rightarrow> jobject list \<Rightarrow> string \<Rightarrow> jobject \<Rightarrow> 'w \<Rightarrow> 'w \<Rightarrow> bool" where
  "manifest_read L gh snapshot p source_run_id assets raw manifest u v \<longleftrightarrow>
     (\<exists>asset i plan_sha declared.
        asset \<in> set assets \<and> dget asset ''name'' PNone = PStr MANIFEST \<and> positive (dget asset ''id'' PNone) = Inr i
        \<and> binary gh (release_asset_path i) u = (Inr raw, v) \<and> parse_json L raw = Inr (PDict manifest)
        \<and> plan_digest L (plan_json p) = Inr plan_sha \<and> qualified_manifest L (repo gh) snapshot p source_run_id plan_sha manifest
        \<and> asset_table (dget manifest ''assets'' PNone) = Inr declared
        \<and> (\<lambda>a. dget a ''name'' PNone) ` set assets = fst ` set declared \<union> {PStr MANIFEST}
        \<and> (\<forall>entry \<in> set declared. fst entry = PStr MANIFEST \<or> payload_published assets entry)
        \<and> published_as assets MANIFEST (PInt (int (length raw))) (sha256 L raw))"

text \<open>The run the plan was reserved in: a completed successful run of the release workflow at the plan's source,
  in the attempt of the manifest, whose validation jobs are those of the plan's channel and in which the Release
  gate and the CI gate are each one successful job at that source.\<close>

definition one_green :: "pyval list \<Rightarrow> string list \<Rightarrow> string \<Rightarrow> bool" where
  "one_green jobs names sha \<longleftrightarrow>
     (\<exists>gate. filter (\<lambda>j. dget (as_dict j) ''name'' PNone \<in> PStr ` set names) jobs = [PDict gate]
        \<and> dget gate ''status'' PNone = PStr ''completed'' \<and> dget gate ''conclusion'' PNone = PStr ''success''
        \<and> dget gate ''head_sha'' PNone = PStr sha)"

definition run_green :: "pylib \<Rightarrow> 'w client \<Rightarrow> string \<Rightarrow> jobject \<Rightarrow> plan \<Rightarrow> int \<Rightarrow> jobject \<Rightarrow> 'w \<Rightarrow> 'w \<Rightarrow> bool" where
  "run_green L gh branch snapshot p source_run_id manifest u v \<longleftrightarrow>
     (\<exists>d attempt jobs u1 u2.
        api L gh (''actions/runs/'' @ int_str source_run_id) ''GET'' None u = (Inr (PDict d), u1)
        \<and> validate_validation_run L gh d (policy_of snapshot) (channel p) u1 = (Inr (), u2)
        \<and> py_eq (dget d ''id'' PNone) (PInt source_run_id) \<and> release_run_at (repo gh) branch (source_sha p) d
        \<and> dget d ''event'' PNone \<in> {PStr ''push'', PStr ''schedule'', PStr ''workflow_dispatch''}
        \<and> dget d ''status'' PNone = PStr ''completed'' \<and> dget d ''conclusion'' PNone = PStr ''success''
        \<and> positive (dget manifest ''run_attempt'' PNone) = Inr attempt \<and> py_eq (dget d ''run_attempt'' PNone) (PInt attempt)
        \<and> pages L gh (''actions/runs/'' @ int_str source_run_id @ ''/attempts/'' @ int_str attempt @ ''/jobs'') (Some ''jobs'') u2 = (Inr jobs, v)
        \<and> one_green jobs [''Release gate''] (source_sha p) \<and> one_green jobs [''CI gate'', ''checks / CI gate''] (source_sha p))"

text \<open>The immutable evidence of that run: its only unexpired artifact named \<open>release-evidence\<close> is an archive with
  the published digest that holds one file, the manifest byte for byte.\<close>

definition evidence_read ::
  "pylib \<Rightarrow> (string \<Rightarrow> zip_entry list option) \<Rightarrow> 'w client \<Rightarrow> jobject \<Rightarrow> string \<Rightarrow> 'w \<Rightarrow> 'w \<Rightarrow> bool" where
  "evidence_read L unzip gh manifest raw u v \<longleftrightarrow>
     (\<exists>run_id run_text items artifact w_run artifact_id archive es e source u1.
        map_of manifest ''run_id'' = Some run_id \<and> path_field L run_id = Inr run_text
        \<and> pages L gh (''actions/runs/'' @ run_text @ ''/artifacts'') (Some ''artifacts'') u = (Inr items, u1)
        \<and> filter (\<lambda>a. dget (as_dict a) ''name'' PNone = PStr ''release-evidence'' \<and> \<not> truthy (dget (as_dict a) ''expired'' PNone)) items
            = [PDict artifact]
        \<and> dget artifact ''workflow_run'' (PDict []) = PDict w_run \<and> py_eq (dget w_run ''id'' PNone) run_id
        \<and> map_of manifest ''source_sha'' = Some source \<and> py_eq (dget w_run ''head_sha'' PNone) source
        \<and> positive (dget artifact ''id'' PNone) = Inr artifact_id
        \<and> binary gh (''actions/artifacts/'' @ int_str artifact_id @ ''/zip'') u1 = (Inr archive, v)
        \<and> dget artifact ''digest'' PNone = PStr (''sha256:'' @ sha256 L archive)
        \<and> unzip archive = Some es \<and> filter (\<lambda>x. \<not> ze_dir x) es = [e] \<and> ze_name e \<in> {MANIFEST, EVIDENCE}
        \<and> ze_size e \<le> 2000000 \<and> ze_data e = raw)"

definition reuse_evidence ::
  "pylib \<Rightarrow> (string \<Rightarrow> zip_entry list option) \<Rightarrow> 'w client \<Rightarrow> string \<Rightarrow> jobject \<Rightarrow> plan \<Rightarrow> int \<Rightarrow> string \<Rightarrow> 'w \<Rightarrow> 'w \<Rightarrow> bool" where
  "reuse_evidence L unzip gh branch snapshot p source_run_id t u v \<longleftrightarrow>
     (\<exists>initial current identity raw manifest u1 u2 u3 u4.
        published_read L gh p t initial u u1
        \<and> manifest_read L gh snapshot p source_run_id (sn_assets initial) raw manifest u1 u2
        \<and> run_green L gh branch snapshot p source_run_id manifest u2 u3
        \<and> evidence_read L unzip gh manifest raw u3 u4
        \<and> published_read L gh p t current u4 v
        \<and> snapshot_identity L initial = Inr identity \<and> snapshot_identity L current = Inr identity)"

section \<open>Every piece is read\<close>

lemma pget_object: "pget v k w = Inr x \<longleftrightarrow> (\<exists>d. v = PDict d \<and> x = dget d k w)"
  by (cases v) (auto simp: pget_def)

lemma as_object_Inr: "as_object v = Inr d \<longleftrightarrow> v = PDict d"
  by (cases v) (auto simp: as_object_def)

lemma rmap_objects: "rmap as_object vs = Inr ds \<Longrightarrow> vs = map PDict ds"
  by (induction vs arbitrary: ds) (auto simp: rbind_Inr_iff as_object_Inr)

lemma published_ref_True:
  "published_ref t source v = Inr True \<Longrightarrow>
     \<exists>d object. v = PDict d \<and> dget d ''ref'' PNone = PStr (''refs/tags/'' @ t) \<and> dget d ''object'' (PDict []) = PDict object
       \<and> dget object ''type'' PNone = PStr ''commit'' \<and> dget object ''sha'' PNone = PStr source"
  by (auto simp: published_ref_def rbind_Inr_iff pget_object split: if_splits)

lemma qualified_snapshot_read:
  assumes "qualified_snapshot L gh p t u = (Inr s, v)"
  shows "published_read L gh p t s u v"
proof -
  from assms obtain ref release d i assets ds u1 u2 where
    r: "api L gh (''git/ref/tags/'' @ t) ''GET'' None u = (Inr ref, u1)" "published_ref t (source_sha p) ref = Inr True"
    and d: "api L gh (''releases/tags/'' @ t) ''GET'' None u1 = (Inr release, u2)"
      "published_release t (t \<noteq> ''v'' @ base_version p) release = Inr d" "positive (dget d ''id'' PNone) = Inr i"
    and a: "pages L gh (''releases/'' @ int_str i @ ''/assets'') None u2 = (Inr assets, v)" "published_assets assets = Inr ds"
    and s: "s = \<lparr>sn_ref = as_dict ref, sn_release = d, sn_assets = ds\<rparr>"
    unfolding qualified_snapshot_def published_plan_snapshot_def by (auto simp: ibind_Inr_iff)
  from published_ref_True [OF r(2)] obtain rd object where
    rd: "ref = PDict rd" "dget rd ''ref'' PNone = PStr (''refs/tags/'' @ t)" "dget rd ''object'' (PDict []) = PDict object"
      "dget object ''type'' PNone = PStr ''commit''" "dget object ''sha'' PNone = PStr (source_sha p)" by blast
  have dd: "release = PDict d" "dget d ''tag_name'' PNone = PStr t" "dget d ''draft'' PNone = PBool False"
      "dget d ''prerelease'' PNone = PBool (t \<noteq> ''v'' @ base_version p)"
    using d(2) by (auto simp: published_release_def rbind_Inr_iff as_object_Inr)
  have aa: "assets = map PDict ds" "\<forall>a \<in> set ds. dget a ''state'' PNone = PStr ''uploaded''"
    using a(2) by (auto simp: published_assets_def rbind_Inr_iff Let_def list_all_iff dest: rmap_objects)
  show ?thesis
    unfolding published_read_def s release_snapshot.simps
    using r(1) rd d(1,3) dd a(1) aa by (auto simp: as_dict_def)
qed

lemma check_qualified_Inr:
  assumes "check_qualified L r snapshot p i raw = Inr manifest"
  shows "\<exists>plan_sha. parse_json L raw = Inr (PDict manifest) \<and> plan_digest L (plan_json p) = Inr plan_sha
    \<and> qualified_manifest L r snapshot p i plan_sha manifest"
proof -
  from assms obtain v h where v: "parse_json L raw = Inr v" and h: "plan_digest L (plan_json p) = Inr h"
    unfolding check_qualified_def rbind_Inr_iff by blast
  with assms show ?thesis unfolding check_qualified_def by (cases v) (simp_all add: rbind_Inr_iff)
qed

lemma read_qualified_Inr:
  assumes "read_qualified L gh snapshot p i t w = (Inr (identity, raw, manifest), w')"
  shows "\<exists>initial v. qualified_snapshot L gh p t w = (Inr initial, v) \<and> snapshot_identity L initial = Inr identity
    \<and> manifest_read L gh snapshot p i (sn_assets initial) raw manifest v w'"
proof -
  from assms obtain initial asset j v where
    s: "qualified_snapshot L gh p t w = (Inr initial, v)" "snapshot_identity L initial = Inr identity"
    and a: "inventory_item (sn_assets initial) MANIFEST = Inr asset" "rbind (ditem asset ''id'') positive = Inr j"
    and b: "binary gh (release_asset_path j) v = (Inr raw, w')"
    and q: "check_qualified L (repo gh) snapshot p i raw = Inr manifest"
    and inv: "check_inventory L (sn_assets initial) raw manifest = Inr ()"
    unfolding read_qualified_def by (auto simp: ibind_Inr_iff)
  have j: "positive (dget asset ''id'' PNone) = Inr j" using a(2) by (auto simp: rbind_Inr_iff dget_def)
  obtain plan_sha where m: "parse_json L raw = Inr (PDict manifest)" "plan_digest L (plan_json p) = Inr plan_sha"
      "qualified_manifest L (repo gh) snapshot p i plan_sha manifest"
    using check_qualified_Inr [OF q] by blast
  obtain declared where d: "asset_table (dget manifest ''assets'' PNone) = Inr declared"
      "(\<lambda>a. dget a ''name'' PNone) ` set (sn_assets initial) = fst ` set declared \<union> {PStr MANIFEST}"
      "\<forall>entry \<in> set declared. fst entry = PStr MANIFEST \<or> payload_published (sn_assets initial) entry"
      "published_as (sn_assets initial) MANIFEST (PInt (int (length raw))) (sha256 L raw)"
    using check_inventory_Inr [OF inv] by blast
  have "manifest_read L gh snapshot p i (sn_assets initial) raw manifest v w'"
    unfolding manifest_read_def using inventory_item_Inr [OF a(1)]
    by (intro exI [of _ asset] exI [of _ j] exI [of _ plan_sha] exI [of _ declared] conjI j b m d) simp_all
  with s show ?thesis by blast
qed

lemma gate_green_one:
  assumes "gate_green p jobs names = Inr ()"
  shows "one_green jobs names (source_sha p)"
proof -
  from assms obtain ds where ds: "rmap as_object jobs = Inr ds"
    unfolding gate_green_def rbind_Inr_iff by blast
  with assms obtain gate where g: "filter (\<lambda>d. dget d ''name'' PNone \<in> PStr ` set names) ds = [gate]"
      "dget gate ''status'' PNone = PStr ''completed''" "dget gate ''conclusion'' PNone = PStr ''success''"
      "dget gate ''head_sha'' PNone = PStr (source_sha p)"
    unfolding gate_green_def by (auto split: list.splits)
  have "filter (\<lambda>j. dget (as_dict j) ''name'' PNone \<in> PStr ` set names) jobs = [PDict gate]"
    unfolding rmap_objects [OF ds] filter_map comp_def as_dict_def pyval.case g(1) by simp
  with g(2-4) show ?thesis unfolding one_green_def by blast
qed

lemma qualified_run_green:
  assumes "qualified_run L gh info snapshot p i manifest u = (Inr (), v)" "map_of info ''default_branch'' = Some (PStr branch)"
  shows "run_green L gh branch snapshot p i manifest u v"
proof -
  from assms(1) obtain d attempt jobs u1 u2 u3 where
    d: "api L gh (''actions/runs/'' @ int_str i) ''GET'' None u = (Inr (PDict d), u1)"
      "validate_validation_run L gh d (policy_of snapshot) (channel p) u1 = (Inr (), u2)" "py_eq (dget d ''id'' PNone) (PInt i)"
      "positive (dget manifest ''run_attempt'' PNone) = Inr attempt"
    and r: "validate_run L gh d info (source_sha p) attempt True False u2 = (Inr (), u3)"
    and j: "pages L gh (''actions/runs/'' @ int_str i @ ''/attempts/'' @ int_str attempt @ ''/jobs'') (Some ''jobs'') u3 = (Inr jobs, v)"
      "riter (gate_green p jobs) gate_names = Inr ()"
    unfolding qualified_run_def by (auto simp: ibind_Inr_iff as_object_Inr simp del: riter_Inr_iff)
  have c: "validate_run_provenance (repo gh) d info (source_sha p) attempt = Inr ()" "u3 = u2"
      "dget d ''status'' PNone = PStr ''completed''" "dget d ''conclusion'' PNone = PStr ''success''"
    using r by (auto simp: validate_run_def ibind_Inr_iff)
  have e: "dget d ''event'' PNone \<in> {PStr ''push'', PStr ''schedule'', PStr ''workflow_dispatch''}"
      "py_eq (dget d ''run_attempt'' PNone) (PInt attempt)"
    using c(1) unfolding validate_run_provenance_def rbind_Inr_iff rc_require_Inr_iff by blast+
  have "gate_green p jobs [''Release gate''] = Inr ()" "gate_green p jobs [''CI gate'', ''checks / CI gate''] = Inr ()"
    using j(2) unfolding riter_Inr_iff gate_names_def by simp_all
  then have g: "one_green jobs [''Release gate''] (source_sha p)" "one_green jobs [''CI gate'', ''checks / CI gate''] (source_sha p)"
    by (simp_all add: gate_green_one)
  from d j(1) [unfolded c(2)] c(3,4) e g provenance_release_run [OF c(1) assms(2)] show ?thesis
    unfolding run_green_def by blast
qed

lemma matching_artifacts_Inr:
  "matching_artifacts items = Inr ds \<Longrightarrow>
     filter (\<lambda>a. dget (as_dict a) ''name'' PNone = PStr ''release-evidence'' \<and> \<not> truthy (dget (as_dict a) ''expired'' PNone)) items = map PDict ds"
proof (induction items arbitrary: ds)
  case Nil
  then show ?case by (simp add: matching_artifacts_def)
next
  case (Cons a items)
  then obtain b bs where b: "artifact_matches a = Inr b" and bs: "rmap artifact_matches items = Inr bs"
    and ds: "ds = map (as_dict \<circ> fst) (filter snd (zip (a # items) (b # bs)))"
    by (auto simp: matching_artifacts_def rbind_Inr_iff)
  from b obtain d where a: "a = PDict d"
    and d: "b \<longleftrightarrow> dget d ''name'' PNone = PStr ''release-evidence'' \<and> \<not> truthy (dget d ''expired'' PNone)"
    by (auto simp: artifact_matches_def rbind_Inr_iff pget_object)
  have "matching_artifacts items = Inr (map (as_dict \<circ> fst) (filter snd (zip items bs)))"
    using bs by (simp add: matching_artifacts_def)
  from Cons.IH [OF this] show ?case by (simp add: ds a d as_dict_def)
qed

lemma verify_evidence_read:
  assumes "verify_evidence L unzip gh manifest raw u = (Inr (), v)"
  shows "evidence_read L unzip gh manifest raw u v"
proof -
  from assms obtain run_id run_text items matching u1 where
    r: "map_of manifest ''run_id'' = Some run_id" "path_field L run_id = Inr run_text"
    and i: "pages L gh (''actions/runs/'' @ run_text @ ''/artifacts'') (Some ''artifacts'') u = (Inr items, u1)"
      "matching_artifacts items = Inr matching"
    unfolding verify_evidence_def by (fastforce simp: ibind_Inr_iff)
  obtain artifact where m: "matching = [artifact]"
    using assms r i by (cases matching; cases "tl matching") (auto simp: verify_evidence_def ibind_def ditem_def)
  obtain w_run source artifact_id archive where
    a: "dget artifact ''workflow_run'' (PDict []) = PDict w_run" "py_eq (dget w_run ''id'' PNone) run_id"
      "map_of manifest ''source_sha'' = Some source" "py_eq (dget w_run ''head_sha'' PNone) source"
      "positive (dget artifact ''id'' PNone) = Inr artifact_id"
      "binary gh (''actions/artifacts/'' @ int_str artifact_id @ ''/zip'') u1 = (Inr archive, v)"
      "dget artifact ''digest'' PNone = PStr (''sha256:'' @ sha256 L archive)" and c: "check_archive unzip archive raw = Inr ()"
    using assms r i m by (auto simp: verify_evidence_def ibind_Inr_iff rbind_Inr_iff pget_object)
  from c obtain es e where "unzip archive = Some es" "filter (\<lambda>x. \<not> ze_dir x) es = [e]" "ze_name e \<in> {MANIFEST, EVIDENCE}"
      "ze_size e \<le> 2000000" "ze_data e = raw"
    unfolding check_archive_def by (auto simp: rbind_Inr_iff split: option.splits list.splits)
  with r i(1) a matching_artifacts_Inr [OF i(2), unfolded m] show ?thesis
    unfolding evidence_read_def by (simp only: list.map) blast
qed

lemma verify_reuse_evidence:
  assumes "verify_scheduled_reuse L unzip gh info snapshot p i t w = (Inr u, w')" "map_of info ''default_branch'' = Some (PStr branch)"
  shows "reuse_evidence L unzip gh branch snapshot p i t w w'"
proof -
  from assms(1) obtain identity raw manifest current v1 v2 v3 where
    q: "read_qualified L gh snapshot p i t w = (Inr (identity, raw, manifest), v1)"
    and r: "qualified_run L gh info snapshot p i manifest v1 = (Inr (), v2)"
    and e: "verify_evidence L unzip gh manifest raw v2 = (Inr (), v3)"
    and c: "qualified_snapshot L gh p t v3 = (Inr current, w')" "snapshot_identity L current = Inr identity"
    unfolding verify_scheduled_reuse_def by (auto simp: ibind_Inr_iff rbind_Inr_iff)
  from read_qualified_Inr [OF q] obtain initial v where
    s: "qualified_snapshot L gh p t w = (Inr initial, v)" "snapshot_identity L initial = Inr identity"
    and m: "manifest_read L gh snapshot p i (sn_assets initial) raw manifest v v1" by blast
  from qualified_snapshot_read [OF s(1)] m qualified_run_green [OF r assms(2)] verify_evidence_read [OF e]
    qualified_snapshot_read [OF c(1)] s(2) c(2)
  show ?thesis unfolding reuse_evidence_def by blast
qed

text \<open>A last look at the branch: it is still at the commit of the run.\<close>

definition head_read :: "pylib \<Rightarrow> 'w client \<Rightarrow> string \<Rightarrow> string \<Rightarrow> 'w \<Rightarrow> 'w \<Rightarrow> bool" where
  "head_read L gh branch sha u v \<longleftrightarrow>
     (\<exists>d object. api L gh (heads_path branch) ''GET'' None u = (Inr (PDict d), v) \<and> dget d ''object'' (PDict []) = PDict object
        \<and> dget object ''sha'' PNone = PStr sha)"

lemma head_matches_read: "head_matches L gh (heads_path branch) source_run u = (Inr True, v) \<Longrightarrow> head_read L gh branch (head_of source_run) u v"
  by (auto simp: head_matches_def head_read_def ibind_Inr_iff rbind_Inr_iff pget_object)

lemma first_reusable_Inr:
  assumes "first_reusable L unzip gh info source_run snapshot (heads_path branch) probes w = (Inr t, w')" "t \<noteq> []"
    "map_of info ''default_branch'' = Some (PStr branch)"
  shows "\<exists>i p u v. (i, p, t) \<in> set probes \<and> reuse_evidence L unzip gh branch snapshot p i t u v \<and> head_read L gh branch (head_of source_run) v w'"
  using assms(1,2)
proof (induction probes arbitrary: w)
  case Nil
  then show ?case by simp
next
  case (Cons probe probes)
  obtain i p s where probe: "probe = (i, p, s)" by (cases probe)
  obtain r v where r: "verify_scheduled_reuse L unzip gh info snapshot p i s w = (r, v)"
    by (cases "verify_scheduled_reuse L unzip gh info snapshot p i s w")
  show ?case
  proof (cases r)
    case (Inl e)
    with Cons probe r show ?thesis by (fastforce split: if_splits)
  next
    case (Inr u)
    then have "t = s" "head_matches L gh (heads_path branch) source_run v = (Inr True, w')"
      using Cons.prems probe r by (auto simp: ibind_Inr_iff split: if_splits)
    with verify_reuse_evidence [OF r [unfolded Inr] assms(3)] head_matches_read probe show ?thesis by fastforce
  qed
qed

lemma reuse_probes_mem:
  "(i, p, t) \<in> set (reuse_probes base records) \<Longrightarrow> (i, p) \<in> set records \<and> t \<in> set (reuse_tags base p)"
  by (auto simp: reuse_probes_def dest!: in_set_takeD)

lemma reuse_record_Inr:
  "reuse_record L source_run snapshot base kr = Inr ps \<Longrightarrow> (i, p) \<in> set ps \<Longrightarrow>
     p = res_plan (snd kr) \<and> positive (PStr (fst kr)) = Inr i \<and> same_input L source_run snapshot base p = Inr True"
  by (auto simp: reuse_record_def rbind_Inr_iff split: if_splits)

lemma reuse_record_mem:
  assumes "rmap (reuse_record L source_run snapshot base) krs = Inr records" "(i, p) \<in> set (concat records)"
  shows "\<exists>kr \<in> set krs. p = res_plan (snd kr) \<and> positive (PStr (fst kr)) = Inr i \<and> same_input L source_run snapshot base p = Inr True"
proof -
  from assms(2) obtain r where "r \<in> set records" "(i, p) \<in> set r" by auto
  then obtain j where "j < length records" "(i, p) \<in> set (records ! j)" by (metis in_set_conv_nth)
  moreover then have "reuse_record L source_run snapshot base (krs ! j) = Inr (records ! j)" "j < length krs"
    using rmap_Inr_nth [OF assms(1)] rmap_Inr_length [OF assms(1)] by auto
  ultimately show ?thesis
    by (intro bexI [of _ "krs ! j"]) (auto dest: reuse_record_Inr)
qed


lemma reuse_probes_bounded: "length (reuse_probes base records) \<le> 20"
proof -
  have "length (concat (map (\<lambda>(i, p). map (\<lambda>t. (i, p, t)) (reuse_tags base p)) rs)) \<le> 2 * length rs" for rs :: "(int \<times> plan) list"
    by (induction rs) (auto simp: reuse_tags_def)
  from this [of "take 10 (sort_key (\<lambda>(i, p). - build_int p) records)"] show ?thesis
    unfolding reuse_probes_def by simp
qed

end
