(* ===== verification/VersionedCommands.thy ===== *)
theory VersionedCommands
  imports ScheduledReuse
begin

text \<open>
  The commands of \<open>scripts/release_versioned.py\<close>. \<open>prepare\<close> freezes a plan: it chooses the channel from the
  event, verifies the source and, for a final build, the rcm candidate, and reserves the plan in the ledger.
  \<open>publish_versioned\<close> publishes the packages of a frozen plan: everything is verified before the ledger consumes
  the build number, and only then is the release transaction entered.
\<close>

section \<open>Inputs\<close>

text \<open>What other scripts compute from the checked-out files: \<open>release.resolve_version\<close>,
  \<open>version_plan.check_base_versions\<close>, \<open>verify_declared_artifacts\<close>, \<open>release_provenance.verify_all\<close>, and the fuzz
  manifest's bytes with the two path checks of \<open>ReleaseFuzz\<close>.\<close>

record checkout_env =
  co_resolve :: "jobject \<Rightarrow> pyval \<Rightarrow> string result"
  co_base :: "jobject \<Rightarrow> string \<Rightarrow> unit result"
  co_declared :: "files \<Rightarrow> jobject \<Rightarrow> pyval \<Rightarrow> pyval result"
  co_attested :: "unit result"
  co_confined :: confinement
  co_regular :: confinement
  co_fuzz :: string

definition event_inputs :: "pylib \<Rightarrow> actions_env \<Rightarrow> jobject result" where
  "event_inputs L A =
     rbind (case ae_var A ''GITHUB_EVENT_PATH'' of None \<Rightarrow> Inl (KeyError ''GITHUB_EVENT_PATH'') | Some path \<Rightarrow> ae_file A path) (\<lambda>raw.
     rbind (parse_json L raw) (\<lambda>v.
     case v of
       PDict event \<Rightarrow>
         (case dget event ''inputs'' PNone of
            PNone \<Rightarrow> Inr []
          | PDict inputs \<Rightarrow> Inr inputs
          | _ \<Rightarrow> Inl (ReleaseError ''Workflow inputs must be a JSON object''))
     | _ \<Rightarrow> Inl (ReleaseError ''Workflow event must be a JSON object'')))"

definition event_kind :: "actions_env \<Rightarrow> string" where
  "event_kind A = (case ae_var A ''GITHUB_EVENT_NAME'' of None \<Rightarrow> [] | Some s \<Rightarrow> s)"

definition requested_channel :: "actions_env \<Rightarrow> jobject \<Rightarrow> string result" where
  "requested_channel A inputs =
     (let kind = event_kind A;
          v = (if kind = ''schedule'' then PStr ''nightly'' else if kind = ''push'' then PStr ''beta'' else dget inputs ''channel'' PNone) in
      rbind (in_strs v [''nightly'', ''beta'', ''rc'', ''stable'']) (\<lambda>known.
      rbind (rc_require known ''Invalid release channel'') (\<lambda>_.
      rbind (if kind = ''workflow_dispatch'' \<and> v \<noteq> PStr ''nightly''
             then rc_require (ae_var A ''PUBLICATION_ENABLED'' = Some ''true'') ''Release channels are not enabled'' else Inr ()) (\<lambda>_.
      Inr (as_str v)))))"

definition candidate_provenance :: "string \<Rightarrow> string \<Rightarrow> string \<Rightarrow> int \<Rightarrow> string option \<Rightarrow> string" where
  "candidate_provenance repository chan sha run_id parent_tag =
     (case parent_tag of
        Some t \<Rightarrow> if t = [] then chan @ '' candidate with a version fixed before compilation.''
          else ''Final build from accepted '' @ t @ ''; new verified package bytes.''
      | None \<Rightarrow> chan @ '' candidate with a version fixed before compilation.'')
     @ LFLF @ ''Source: `'' @ sha @ ''`'' @ LFLF @ ''Validation: https://github.com/'' @ repository @ ''/actions/runs/'' @ int_str run_id
     @ LFLF @ ''See `'' @ MANIFEST @ ''` for package hashes and version input evidence.''"

definition run_number_of :: "jobject \<Rightarrow> string \<Rightarrow> int" where
  "run_number_of source_run key = as_int (dget source_run key PNone)"

definition parent_tag :: "pyval \<Rightarrow> string option" where
  "parent_tag parent = (case parent of PDict d \<Rightarrow> Some (as_str (dget d ''tag'' PNone)) | _ \<Rightarrow> None)"

definition notes_provenance ::
  "pylib \<Rightarrow> string \<Rightarrow> string \<Rightarrow> string \<Rightarrow> jobject \<Rightarrow> pyval \<Rightarrow> string \<Rightarrow> string \<Rightarrow> string result" where
  "notes_provenance L repository chan sha source_run parent plan_sha nonce =
     rbind (create_marker L repository source_run plan_sha nonce) (\<lambda>marker.
     Inr (candidate_provenance repository chan sha (run_number_of source_run ''id'') (parent_tag parent) @ marker))"

section \<open>\<open>prepare\<close>\<close>

definition policy_promotion :: "jobject \<Rightarrow> pyval result" where
  "policy_promotion policy = rbind (ditem policy ''versioning'') (\<lambda>v. pitem v ''promotion'')"

definition rc_promotion :: "jobject \<Rightarrow> pyval result" where
  "rc_promotion rcm =
     rbind (ditem rcm ''source_policy'') (\<lambda>sp.
     rbind (pitem sp ''data'') (\<lambda>data.
     rbind (pget data ''versioning'' (PDict [])) (\<lambda>v. pget v ''promotion'' PNone)))"

text \<open>The stable channel: the answer for a byte promotion, or the base version and the parent of a final build.\<close>

definition final_build :: "pylib \<Rightarrow> jobject \<Rightarrow> jobject \<Rightarrow> jobject \<Rightarrow> unit result" where
  "final_build L policy source_run rcm =
     rbind (ditem rcm ''source_sha'') (\<lambda>sha.
     rbind (rc_require (sha = PStr (head_of source_run)) ''Final build requires the accepted RC at current HEAD'') (\<lambda>_.
     let p = dget rcm ''version_plan'' PNone in
     rbind (if truthy p then rbind (pget p ''promotion'' PNone) (\<lambda>m. Inr (m = PStr ''final-build'')) else Inr False) (\<lambda>ok.
     rbind (rc_require ok ''Final build requires an RC created under the same versioned policy'') (\<lambda>_.
     rbind (validate_plan L p (Some (PDict policy)) (Some (head_of source_run))) (\<lambda>_.
     Inr ())))))"

definition prepare_stable ::
  "pylib \<Rightarrow> (string \<Rightarrow> zip_entry list option) \<Rightarrow> 'w hub \<Rightarrow> jobject \<Rightarrow> jobject \<Rightarrow> jobject \<Rightarrow> jobject \<Rightarrow> ('w, jobject + string \<times> pyval) io" where
  "prepare_stable L unzip H inputs info source_run policy =
     ibind (require_reviewers L (hb_client H)) (\<lambda>_.
     ibind (verified_rc L unzip H (dget inputs ''rc_tag'' PNone) info source_run) (\<lambda>(rcm, parent).
     ibind (ilift (ditem rcm ''version'')) (\<lambda>base.
     ibind (ilift (policy_promotion policy)) (\<lambda>mode.
     if mode = PStr ''promote-bytes'' then
       ibind (ilift (rbind (rc_promotion rcm) (\<lambda>m.
         rc_require (m \<noteq> PStr ''final-build'') ''A final-build RC cannot be promoted unchanged''))) (\<lambda>_.
       ireturn (Inl [(''channel'', PStr ''stable''), (''version'', base), (''build'', PStr ''false''), (''plan_artifact'', PStr [])]))
     else
       ibind (ilift (final_build L policy source_run rcm)) (\<lambda>_.
       ireturn (Inr (as_str base, parent)))))))"

record frozen =
  fz_channel :: string
  fz_base :: string
  fz_parent :: pyval
  fz_policy :: jobject
  fz_run :: jobject

text \<open>Everything before the reservation.\<close>

definition check_prepare ::
  "pylib \<Rightarrow> actions_env \<Rightarrow> checkout_env \<Rightarrow> (string \<Rightarrow> zip_entry list option) \<Rightarrow> 'w timing \<Rightarrow> 'w hub \<Rightarrow> ('w \<times> int, jobject + frozen) io" where
  "check_prepare L A C unzip T H0 =
     (let H = timed_hub T H0; gh = hb_client H in
      ibind (ilift (event_inputs L A)) (\<lambda>inputs.
      ibind (ilift (requested_channel A inputs)) (\<lambda>chan.
      ibind (versioned_context L A T (hb_client H0) chan False) (\<lambda>(info, source_run, snapshot).
      let policy = policy_of snapshot; head = head_of source_run in
      ibind (ilift (rc_require (\<not> truthy (dget policy ''release_blockers'' PNone)) ''Release policy has unresolved blockers'')) (\<lambda>_.
      ibind (ilift (rc_require (\<not> truthy (dget inputs ''expected_sha'' PNone) \<or> dget inputs ''expected_sha'' PNone = PStr head)
        ''Default branch changed since dispatch; refresh and retry'')) (\<lambda>_.
      ibind (if chan = ''stable'' then prepare_stable L unzip H inputs info source_run policy
             else ibind (ilift (co_resolve C policy (dget inputs ''version'' (PStr [])))) (\<lambda>base. ireturn (Inr (base, PNone)))) (\<lambda>chosen.
      case chosen of
        Inl answer \<Rightarrow> ireturn (Inl answer)
      | Inr (base, parent) \<Rightarrow>
          ibind (ilift (co_base C policy base)) (\<lambda>_.
          ibind (closed_push_cycle L gh base (event_kind A)) (\<lambda>closed.
          case closed of
            Some answer \<Rightarrow> ireturn (Inl answer)
          | None \<Rightarrow>
              ibind (if chan \<in> {''beta'', ''rc'', ''stable''} then ensure_absent L gh (''v'' @ base) else ireturn ()) (\<lambda>_.
              ibind (if dget policy ''release_notes'' PNone \<noteq> PNone
                     then ibind (ilift (notes_provenance L (repo gh) chan head source_run parent (replicate 64 (CHR ''0'')) (replicate 64 (CHR ''0'')))) (\<lambda>text_body.
                          ibind (release_notes L gh (''v'' @ base) head text_body) (\<lambda>_. ireturn ()))
                     else ireturn ()) (\<lambda>_.
              ireturn (Inr \<lparr>fz_channel = chan, fz_base = base, fz_parent = parent, fz_policy = policy, fz_run = source_run\<rparr>))))))))))))"

definition prepare_answer :: "frozen \<Rightarrow> jobject" where
  "prepare_answer f =
     [(''channel'', PStr (fz_channel f)), (''version'', PStr (fz_base f)), (''build'', PStr ''true''),
      (''plan_artifact'', PStr (''release-plan-'' @ int_str (run_number_of (fz_run f) ''id'') @ ''-'' @ int_str (run_number_of (fz_run f) ''run_attempt'')))]"

definition prepare ::
  "pylib \<Rightarrow> actions_env \<Rightarrow> checkout_env \<Rightarrow> (string \<Rightarrow> zip_entry list option) \<Rightarrow> 'w timing \<Rightarrow> 'w hub \<Rightarrow> moment \<Rightarrow> ('w \<times> int, jobject) io" where
  "prepare L A C unzip T H0 now =
     (let H = timed_hub T H0 in
      ibind (check_prepare L A C unzip T H0) (\<lambda>checked.
      case checked of
        Inl answer \<Rightarrow> ireturn answer
      | Inr f \<Rightarrow>
          ibind (reserve_plan L (hb_client H) (PDict (fz_policy f)) (fz_base f) (fz_channel f) (head_of (fz_run f))
              (run_number_of (fz_run f) ''id'') (run_number_of (fz_run f) ''run_attempt'') (mo_stamp now) (fz_parent f)) (\<lambda>p.
          ibind (hb_file H PLAN_FILE (rc_json_bytes L (plan_json p))) (\<lambda>_.
          ireturn (prepare_answer f)))))"

section \<open>\<open>publish_versioned\<close>\<close>

definition frozen_plan :: "pylib \<Rightarrow> actions_env \<Rightarrow> (pyval \<times> plan) result" where
  "frozen_plan L A =
     rbind (ae_file A PLAN_FILE) (\<lambda>raw.
     rbind (load_document L raw) (\<lambda>v.
     rbind (validate_plan L v None None) (\<lambda>p.
     Inr (v, p))))"

text \<open>The parent of a final build: the accepted candidate it must equal in source and base.\<close>

definition publish_parent ::
  "pylib \<Rightarrow> actions_env \<Rightarrow> (string \<Rightarrow> zip_entry list option) \<Rightarrow> 'w hub \<Rightarrow> jobject \<Rightarrow> jobject \<Rightarrow> plan \<Rightarrow> ('w, jobject \<times> pyval) io" where
  "publish_parent L A unzip H info source_run p =
     (if channel p \<noteq> ''stable'' then ireturn ([], PNone)
      else
        ibind (ilift (rc_require (promotion p = ''final-build'') ''Stable build must explicitly select final-build'')) (\<lambda>_.
        ibind (require_reviewers L (hb_client H)) (\<lambda>_.
        ibind (ilift (event_inputs L A)) (\<lambda>inputs.
        ibind (verified_rc L unzip H (dget inputs ''rc_tag'' PNone) info source_run) (\<lambda>(rcm, parent).
        ibind (ilift (rc_require (dget rcm ''source_sha'' PNone = PStr (source_sha p) \<and> dget rcm ''version'' PNone = PStr (base_version p))
          ''Final build differs from the accepted RC source/base'')) (\<lambda>_.
        ibind (ilift (rbind (pget (dget rcm ''version_plan'' (PDict [])) ''promotion'' PNone) (\<lambda>m.
          rc_require (m = PStr ''final-build'') ''Accepted RC does not permit a final rebuild''))) (\<lambda>_.
        ireturn (rcm, parent))))))))"

definition fuzz_selected :: "jobject \<Rightarrow> string \<Rightarrow> bool" where
  "fuzz_selected policy chan \<longleftrightarrow> dhas policy ''fuzzing'' \<and> chan = ''rc''"

definition verify_candidate_fuzz_report :: "pylib \<Rightarrow> checkout_env \<Rightarrow> files \<Rightarrow> jobject \<Rightarrow> plan \<Rightarrow> jobject \<Rightarrow> string \<Rightarrow> unit result" where
  "verify_candidate_fuzz_report L C fs policy p source_run repository =
     (if \<not> fuzz_selected policy (channel p) then Inr ()
      else
        (case map_of fs REPORT of
           None \<Rightarrow> Inl (OSError REPORT)
         | Some report \<Rightarrow> verify_report L (co_confined C) (co_regular C) report (co_fuzz C) repository (source_sha p)
             (run_number_of source_run ''id'') (run_number_of source_run ''run_attempt'')))"

definition candidate_fuzz_receipts :: "jobject \<Rightarrow> string \<Rightarrow> jobject list \<Rightarrow> (jobject list \<times> jobject list) result" where
  "candidate_fuzz_receipts policy chan receipts =
     (if \<not> fuzz_selected policy chan then Inr (receipts, [])
      else rbind (split_receipts (map PDict receipts)) (\<lambda>(kept, validation). Inr (map as_dict kept, map as_dict validation)))"

definition receipt_entry :: "jobject \<Rightarrow> pyval" where
  "receipt_entry r = PDict [(''name'', dget r ''name'' PNone), (''sha256'', dget r ''sha256'' PNone)]"

definition fuzz_manifest_fields :: "jobject \<Rightarrow> string \<Rightarrow> jobject list \<Rightarrow> jobject result" where
  "fuzz_manifest_fields policy chan validation =
     (if \<not> dhas policy ''fuzzing'' then Inr []
      else rbind (fuzz_profile policy chan) (\<lambda>profile_value.
        Inr [(''fuzzing_profile'', profile_value), (''validation_receipts'', PList (map receipt_entry validation))]))"

definition versioned_manifest ::
  "pylib \<Rightarrow> jobject \<Rightarrow> jobject \<Rightarrow> jobject \<Rightarrow> pyval \<Rightarrow> plan \<Rightarrow> string \<Rightarrow> files \<Rightarrow> jobject list \<Rightarrow> jobject list \<Rightarrow> pyval \<Rightarrow> pyval \<Rightarrow> jobject result" where
  "versioned_manifest L info source_run snapshot plan_value p created_at fs receipts validation package_versions parent =
     (let policy = policy_of snapshot in
      rbind (ditem info ''full_name'') (\<lambda>full_name.
      rbind (plan_digest L plan_value) (\<lambda>h.
      rbind (validation_profile policy (channel p)) (\<lambda>selected.
      rbind (fuzz_manifest_fields policy (channel p) validation) (\<lambda>extra_fields.
      Inr ([(''schema'', PInt 1), (''repository'', full_name), (''version'', PStr (base_version p)), (''channel'', PStr (channel p)),
          (''tag'', PStr (tag p)), (''source_sha'', PStr (source_sha p)), (''source_policy'', PDict snapshot), (''workflow_path'', PStr WORKFLOW),
          (''run_id'', dget source_run ''id'' PNone), (''run_attempt'', dget source_run ''run_attempt'' PNone), (''created_at'', PStr created_at),
          (''assets'', PList (map (\<lambda>(n, d). asset_json L n d) fs)), (''version_plan'', plan_value), (''plan_sha256'', PStr h),
          (''build_receipts'', PList (map receipt_entry receipts)), (''package_versions'', package_versions)]
        @ (if truthy parent then [(''derived_from_rc'', parent)] else [])
        @ (if selected \<noteq> PNone then [(''validation_profile'', selected)] else [])
        @ extra_fields))))))"

record versioned_args =
  va_assets :: "(string \<times> source_entry) list option"
  va_nonce :: string
  va_created :: string

record package =
  pk_files :: files
  pk_content :: string
  pk_body :: string
  pk_plan_value :: pyval
  pk_plan :: plan
  pk_parent :: pyval
  pk_info :: jobject
  pk_run :: jobject

text \<open>The staged files, receipts and manifest of a plan.\<close>

definition build_package ::
  "pylib \<Rightarrow> checkout_env \<Rightarrow> (files \<Rightarrow> unit result) \<Rightarrow> 'w client \<Rightarrow> versioned_args \<Rightarrow> jobject \<Rightarrow> jobject \<Rightarrow> jobject \<Rightarrow> pyval \<Rightarrow> plan
     \<Rightarrow> jobject \<Rightarrow> pyval \<Rightarrow> ('w, files \<times> string) io" where
  "build_package L C verify gh args info source_run snapshot plan_value p rcm parent =
     (let policy = policy_of snapshot in
      ibind (ilift (stage_assets L (va_assets args))) (\<lambda>fs.
      ibind (ilift (verify_candidate_fuzz_report L C fs policy p source_run (repo gh))) (\<lambda>_.
      ibind (ilift (producer_identity (PStr (repo gh)) (dget source_run ''id'' PNone) (dget source_run ''run_attempt'' PNone) (PStr (head_of source_run)))) (\<lambda>producer.
      ibind (ilift (verify_receipts L (co_attested C) fs \<lparr>ex_plan = plan_value, ex_policy = Some (PDict policy), ex_producer = Some producer\<rparr>
        (map (\<lambda>(n, d). (n, asset_json L n d)) fs))) (\<lambda>all_receipts.
      ibind (ilift (candidate_fuzz_receipts policy (channel p) all_receipts)) (\<lambda>(receipts, validation).
      ibind (ilift (verify_required_build_receipts receipts policy)) (\<lambda>_.
      ibind (ilift (verify_required_signatures verify fs)) (\<lambda>_.
      ibind (if truthy parent then verify_final_toolchains L gh rcm receipts else ireturn ()) (\<lambda>_.
      ibind (ilift (co_declared C fs policy plan_value)) (\<lambda>package_versions.
      ibind (ilift (versioned_manifest L info source_run snapshot plan_value p (va_created args) fs receipts validation package_versions parent)) (\<lambda>manifest.
      ireturn (fs, rc_json_bytes L (PDict manifest)))))))))))))"

definition reused_answer :: "string \<Rightarrow> jobject" where
  "reused_answer tagname = [(''status'', PStr ''reused''), (''tag'', PStr tagname),
     (''reason'', PStr ''Qualified same-input release; fresh nightly checks and builds passed'')]"

text \<open>A nightly of a schedule may end here with an equal release that is already published.\<close>

definition unless_reused ::
  "pylib \<Rightarrow> (string \<Rightarrow> zip_entry list option) \<Rightarrow> 'w client \<Rightarrow> jobject \<Rightarrow> jobject \<Rightarrow> jobject \<Rightarrow> plan \<Rightarrow> ('w, jobject + 'a) io \<Rightarrow> ('w, jobject + 'a) io" where
  "unless_reused L unzip gh info source_run snapshot p rest =
     (if channel p = ''nightly'' \<and> dget source_run ''event'' PNone = PStr ''schedule'' then
        ibind (scheduled_reuse L unzip gh info source_run snapshot (base_version p)) (\<lambda>reused.
        if reused \<noteq> [] then ireturn (Inl (reused_answer reused)) else rest)
      else rest)"

definition prepare_publication ::
  "pylib \<Rightarrow> actions_env \<Rightarrow> checkout_env \<Rightarrow> (string \<Rightarrow> zip_entry list option) \<Rightarrow> (files \<Rightarrow> unit result) \<Rightarrow> 'w timing \<Rightarrow> 'w hub \<Rightarrow> versioned_args
     \<Rightarrow> ('w \<times> int, jobject + package) io" where
  "prepare_publication L A C unzip verify T H0 args =
     (let H = timed_hub T H0; gh = hb_client H in
      ibind (ilift (frozen_plan L A)) (\<lambda>(plan_value, p).
      ibind (versioned_context L A T (hb_client H0) (channel p) True) (\<lambda>(info, source_run, snapshot).
      ibind (ilift (validate_plan L plan_value (Some (dget snapshot ''data'' PNone)) (Some (head_of source_run)))) (\<lambda>_.
      ibind (publish_parent L A unzip H info source_run p) (\<lambda>(rcm, parent).
      ibind (verify_reservation L gh plan_value (run_number_of source_run ''id'') parent) (\<lambda>_.
      ibind (ensure_absent L gh (tag p)) (\<lambda>_.
      ibind (if channel p \<in> {''beta'', ''rc''} then ensure_absent L gh (''v'' @ base_version p) else ireturn ()) (\<lambda>_.
      unless_superseded (superseded_candidate L gh info source_run (channel p))
       (ibind (build_package L C verify gh args info source_run snapshot plan_value p rcm parent) (\<lambda>(fs, content).
        ibind (verify_reservation L gh plan_value (run_number_of source_run ''id'') parent) (\<lambda>_.
        ibind (if channel p = ''stable'' then require_reviewers L gh else ireturn ()) (\<lambda>_.
        unless_superseded (superseded_candidate L gh info source_run (channel p))
         (ibind (check_workflow_publication L gh (hb_scope H) (source_sha p)) (\<lambda>_.
          unless_reused L unzip gh info source_run snapshot p
           (ibind (ilift (plan_digest L plan_value)) (\<lambda>h.
            ibind (ilift (notes_provenance L (repo gh) (channel p) (source_sha p) source_run parent h (va_nonce args))) (\<lambda>provenance.
            ibind (release_notes L gh (tag p) (source_sha p) provenance) (\<lambda>body.
            ireturn (Inr \<lparr>pk_files = fs, pk_content = content, pk_body = body, pk_plan_value = plan_value, pk_plan = p,
              pk_parent = parent, pk_info = info, pk_run = source_run\<rparr>)))))))))))))))))))"

definition automatic_publication :: "jobject \<Rightarrow> string \<Rightarrow> bool" where
  "automatic_publication source_run chan \<longleftrightarrow>
     (dget source_run ''event'' PNone = PStr ''push'' \<and> chan = ''beta'') \<or> (dget source_run ''event'' PNone = PStr ''schedule'' \<and> chan = ''nightly'')"

definition captured_source :: "string \<Rightarrow> string \<Rightarrow> pyval \<Rightarrow> bool" where
  "captured_source branch head v \<longleftrightarrow>
     (case v of
        PDict ref \<Rightarrow> dget ref ''ref'' PNone = PStr (heads_ref branch) \<and>
          (case dget ref ''object'' PNone of
             PDict object \<Rightarrow> dget object ''type'' PNone = PStr ''commit'' \<and> dget object ''sha'' PNone = PStr head
           | _ \<Rightarrow> False)
      | _ \<Rightarrow> False)"

definition confirm_automatic_source :: "pylib \<Rightarrow> 'w client \<Rightarrow> jobject \<Rightarrow> string \<Rightarrow> pyval \<Rightarrow> ('w, unit) io" where
  "confirm_automatic_source L gh info source_path source_ref =
     ibind (repository_info L gh) (\<lambda>now_info.
     ibind (ilift (rc_require (py_eq (dget now_info ''default_branch'' PNone) (dget info ''default_branch'' PNone))
       ''Automatic publication default branch changed; draft left unpublished'')) (\<lambda>_.
     ibind (api L gh source_path ''GET'' None) (\<lambda>ref.
     ilift (rc_require (py_eq ref source_ref) ''Automatic publication default source changed; draft left unpublished''))))"

text \<open>The branch and the reference that the confirmation of the created draft compares with.\<close>

definition capture_source :: "pylib \<Rightarrow> 'w client \<Rightarrow> jobject \<Rightarrow> jobject \<Rightarrow> string \<Rightarrow> ('w, string \<times> pyval) io" where
  "capture_source L gh info source_run chan =
     ibind (ilift (rbind (ditem info ''default_branch'') as_name)) (\<lambda>branch.
     ibind (api L gh (heads_path branch) ''GET'' None) (\<lambda>source_ref.
     ibind (ilift (if automatic_publication source_run chan
       then rc_require (captured_source branch (head_of source_run) source_ref) ''Default branch moved before source snapshot'' else Inr ())) (\<lambda>_.
     ireturn (heads_path branch, source_ref))))"

text \<open>The part that writes; \<open>B\<close> is the same repository through \<open>create_release_once\<close> and \<open>CreateReadback\<close>.\<close>

definition publish_package ::
  "pylib \<Rightarrow> (files \<Rightarrow> unit result) \<Rightarrow> 'w hub \<Rightarrow> 'w observer \<Rightarrow> package \<Rightarrow> string \<times> pyval \<Rightarrow> string \<Rightarrow> ('w, jobject) io" where
  "publish_package L verify H B k source_ref consumed =
     (let p = pk_plan k in
      publish_prepared L verify H (tag p) (source_sha p) (pk_files k @ [(MANIFEST, pk_content k)]) (channel p \<noteq> ''stable'') (pk_body k)
        (confirmed_create L B (create_confirmation L B (pk_run k) source_ref consumed))
        (if automatic_publication (pk_run k) (channel p)
         then confirm_automatic_source L (hb_client H) (pk_info k) (fst source_ref) (snd source_ref) else ireturn ()))"

definition release_package ::
  "pylib \<Rightarrow> (files \<Rightarrow> unit result) \<Rightarrow> 'w hub \<Rightarrow> 'w observer \<Rightarrow> package \<Rightarrow> ('w, jobject) io" where
  "release_package L verify H B k =
     ibind (hb_file H EVIDENCE (pk_content k)) (\<lambda>_.
     ibind (capture_source L (hb_client H) (pk_info k) (pk_run k) (channel (pk_plan k))) (\<lambda>source_ref.
     ibind (begin_publication L (hb_client H) (pk_plan_value k) (run_number_of (pk_run k) ''id'') (pk_parent k) (PBool False)) (\<lambda>consumed.
     publish_package L verify H B k source_ref consumed)))"

definition publish_versioned ::
  "pylib \<Rightarrow> actions_env \<Rightarrow> checkout_env \<Rightarrow> (string \<Rightarrow> zip_entry list option) \<Rightarrow> (files \<Rightarrow> unit result) \<Rightarrow> 'w timing \<Rightarrow> 'w hub
     \<Rightarrow> ('w \<times> int) observer \<Rightarrow> versioned_args \<Rightarrow> ('w \<times> int, jobject) io" where
  "publish_versioned L A C unzip verify T H0 B args =
     ibind (prepare_publication L A C unzip verify T H0 args) (\<lambda>prepared.
     case prepared of
       Inl answer \<Rightarrow> ireturn answer
     | Inr k \<Rightarrow>
         ibind (release_package L verify (timed_hub T H0) B k) (\<lambda>release.
         ibind (ilift (ditem release ''html_url'')) (\<lambda>url.
         ireturn [(''status'', PStr ''published''), (''tag'', PStr (tag (pk_plan k))), (''release_url'', url), (''manifest_path'', PStr EVIDENCE)])))"

end
