(* ===== verification/VersionedProps.thy ===== *)
theory VersionedProps
  imports VersionedCommands
begin

text \<open>
  What the versioned commands guarantee, over the log of \<open>PublicationProps\<close>: \<open>prepare\<close> changes nothing but the
  ledger, and \<open>publish_versioned\<close> changes nothing before every check passed, consumes the build number
  before the tag exists, and publishes only bytes that were read back.
\<close>

section \<open>The repository behind an observer\<close>

text \<open>\<open>create_release_once\<close> and \<open>CreateReadback\<close> run \<open>gh\<close> themselves: the same log for their calls.\<close>

definition logged_env :: "'w gh_env \<Rightarrow> ('w \<times> event list) gh_env" where
  "logged_env E = \<lparr>run = (\<lambda>c (w, l). case run E c w of (r, w') \<Rightarrow> (r, (w', if ''POST'' \<in> set (argv c) then l @ [Wrote ''POST'' ''releases''] else l))),
     pause = (\<lambda>n (w, l). (pause E n w, l))\<rparr>"

definition timed_env :: "'w timing \<Rightarrow> 'w gh_env \<Rightarrow> ('w \<times> int) gh_env" where
  "timed_env T E = \<lparr>run = (\<lambda>c (w, t). case run E c w of (r, w') \<Rightarrow> (r, (w', t + int (tm_request T w)))),
     pause = (\<lambda>n (w, t). (pause E n w, t))\<rparr>"

definition logged_observer ::
  "('w \<times> event list) timing \<Rightarrow> 'w gh_env \<Rightarrow> (('w \<times> event list) \<times> int \<Rightarrow> int) \<Rightarrow> string \<Rightarrow> (('w \<times> event list) \<times> int) observer" where
  "logged_observer T E now r = \<lparr>ob_env = timed_env T (logged_env E), ob_now = now, ob_repo = r\<rparr>"

lemma irun_logged:
  assumes "irun (timed_env T (logged_env E)) c v = (r, v')"
  shows "snd (fst v') = snd (fst v) @ (if ''POST'' \<in> set (argv c) then [Wrote ''POST'' ''releases''] else [])"
  using assms by (cases v) (auto simp: irun_def timed_env_def logged_env_def split: prod.splits outcome.splits if_splits)

definition still :: "(('w \<times> event list) \<times> int) \<times> readback \<Rightarrow> (('w \<times> event list) \<times> int) \<times> readback \<Rightarrow> bool" where
  "still u v \<longleftrightarrow> snd (fst (fst v)) = snd (fst (fst u))"

interpretation still_frame: frame still
  by unfold_locales (auto simp: still_def)

lemma still_steps: "keeps still (rb_check B)" "keeps still (rb_account n)" "keeps still (rb_set_id i)" "keeps still rb_count"
  by (simp_all add: keeps_def still_def rb_check_def rb_account_def rb_set_id_def rb_count_def Let_def)

lemma rb_call_get: "''POST'' \<notin> set (argv (rb_call r path t))"
  by (simp add: rb_call_def)

lemma still_run: "keeps still (rb_run (logged_observer T E now r) (rb_call r path t))"
  unfolding keeps_def
proof
  fix ws :: "(('a \<times> event list) \<times> int) \<times> readback"
  obtain x v where run: "irun (timed_env T (logged_env E)) (rb_call r path t) (fst ws) = (x, v)"
    by (cases "irun (timed_env T (logged_env E)) (rb_call r path t) (fst ws)")
  from irun_logged [OF run] have "snd (fst v) = snd (fst (fst ws))" using rb_call_get by simp
  then show "still ws (snd (rb_run (logged_observer T E now r) (rb_call r path t) ws))"
    using run by (auto simp: rb_run_def logged_observer_def still_def split: sum.splits outcome.splits)
qed

interpretation still: bounded_reads still L "logged_observer T E now r"
  for L :: pylib and T :: "('w \<times> event list) timing" and E :: "'w gh_env" and now :: "('w \<times> event list) \<times> int \<Rightarrow> int" and r :: string
proof unfold_locales
  show "keeps still (rb_get L (logged_observer T E now r) path)" for path
  proof -
    have "ob_repo (logged_observer T E now r) = r" by (simp add: logged_observer_def)
    then show ?thesis unfolding rb_get_def by (simp only:) (intro still_frame.keeps_rules still_steps still_run)
  qed
qed (rule still_steps)

lemma confirmation_still: "keeps still (create_confirmation L (logged_observer T E now r) source_run source_ref consumed)"
  unfolding create_confirmation_def by (intro still_frame.keeps_rules still.keeps_json)

lemma create_call_post: "''POST'' \<in> set (argv (create_call L r payload))"
  by (simp add: create_call_def)

lemma create_once_log:
  assumes "create_release_once L (timed_env T (logged_env E)) r payload v = (x, v')"
  shows "snd (fst v') = snd (fst v) @ [Wrote ''POST'' ''releases'']"
proof -
  obtain y u where i: "irun (timed_env T (logged_env E)) (create_call L r payload) v = (y, u)"
    by (cases "irun (timed_env T (logged_env E)) (create_call L r payload) v")
  have "v' = u" using assms i by (auto simp: create_release_once_def ibind_def split: sum.splits)
  with irun_logged [OF i] create_call_post show ?thesis by simp
qed

lemma confirmed_posts:
  "posts (\<lambda>v. snd (fst v)) (confirmed_create L (logged_observer T E now r)
     (create_confirmation L (logged_observer T E now r) source_run source_ref consumed))"
  unfolding posts_def
proof (intro allI)
  fix payload and v :: "('a \<times> event list) \<times> int"
  let ?B = "logged_observer T E now r"
  let ?confirm = "create_confirmation L ?B source_run source_ref consumed"
  obtain x u where c: "create_release_once L (ob_env ?B) (ob_repo ?B) payload v = (x, u)"
    by (cases "create_release_once L (ob_env ?B) (ob_repo ?B) payload v")
  then have u: "snd (fst u) = snd (fst v) @ [Wrote ''POST'' ''releases'']"
    by (simp add: logged_observer_def create_once_log)
  have "snd (fst (snd (reconcile_created_release L ?B payload ?confirm u))) = snd (fst u)"
  proof (cases "rb_init ?B u")
    case (Inl e)
    then show ?thesis by (simp add: reconcile_created_release_def)
  next
    case (Inr s)
    have "keeps still (reconcile_reads L ?B payload ?confirm)"
      by (rule still.keeps_reconcile [OF confirmation_still still_steps(1)])
    then have "still (u, s) (snd (reconcile_reads L ?B payload ?confirm (u, s)))" unfolding keeps_def by blast
    then show ?thesis using Inr by (simp add: reconcile_created_release_def still_def case_prod_unfold)
  qed
  then show "snd (fst (snd (confirmed_create L ?B ?confirm payload v))) = snd (fst v) @ [Wrote ''POST'' ''releases'']"
    using c u by (auto simp: confirmed_create_def split: prod.splits sum.splits pyerror.splits)
qed

section \<open>Checks only read\<close>

lemma context_keeps: "keeps (grows (\<lambda>v. snd (fst v)) E) (versioned_context L A T (hb_client (logged_hub H)) chan gate)"
proof -
  have c: "hb_client (logged_hub H) = logged (hb_client H)" by (simp add: logged_hub_def)
  have t: "timed T (logged (hb_client H)) = hb_client (timed_hub T (logged_hub H))" by (simp add: logged_client)
  show ?thesis
    unfolding versioned_context_def Let_def c t
    by (intro timed_log.quiet.keeps_publication wait_run_keeps)
qed

context logging
begin

lemma keeps_verified_rc: "keeps (grows lg (\<lambda>e. \<not> changes e)) (verified_rc L unzip H rc_value info current_run)"
  unfolding verified_rc_def rc_payload_def Let_def
  by (intro quiet.keeps_publication keeps_iiter keeps_download)

lemma keeps_prepare_stable: "keeps (grows lg (\<lambda>e. \<not> changes e)) (prepare_stable L unzip H inputs info source_run policy)"
  unfolding prepare_stable_def by (intro quiet.keeps_publication keeps_verified_rc)

lemma keeps_publish_parent: "keeps (grows lg (\<lambda>e. \<not> changes e)) (publish_parent L A unzip H info source_run p)"
  unfolding publish_parent_def by (intro quiet.keeps_publication keeps_verified_rc)

end

context frame
begin

lemma keeps_ifold: "(\<And>s x. keeps R (f s x)) \<Longrightarrow> keeps R (ifold f s xs)"
  by (induction xs arbitrary: s) (auto intro!: keeps_rules)

end

context reads
begin

lemma keeps_closed: "keeps R (closed_push_cycle L gh base kind)"
proof -
  have "keeps R (\<lambda>w. case api L gh path ''GET'' None w of
      (Inl (GitHubError m True), w') \<Rightarrow> (Inr None, w') | (Inl e, w') \<Rightarrow> (Inl e, w') | (Inr ref, w') \<Rightarrow> (f ref, w'))" for path and f :: "pyval \<Rightarrow> jobject option result"
    unfolding keeps_def
  proof
    fix w
    obtain r v where a: "api L gh path ''GET'' None w = (r, v)" by (cases "api L gh path ''GET'' None w")
    show "R w (snd (case api L gh path ''GET'' None w of
      (Inl (GitHubError m True), w') \<Rightarrow> (Inr None, w') | (Inl e, w') \<Rightarrow> (Inl e, w') | (Inr ref, w') \<Rightarrow> (f ref, w')))"
      using keepsD [OF keeps_api a] by (auto simp: a split: sum.splits pyerror.splits bool.splits)
  qed
  then show ?thesis unfolding closed_push_cycle_def Let_def by (intro keeps_rules)
qed

lemma keeps_qualified_snapshot: "keeps R (qualified_snapshot L gh p tagname)"
  unfolding qualified_snapshot_def published_plan_snapshot_def by (intro keeps_publication)

lemma keeps_verify_reuse: "keeps R (verify_scheduled_reuse L unzip gh info snapshot p i tagname)"
  unfolding verify_scheduled_reuse_def read_qualified_def qualified_run_def
  by (intro keeps_publication keeps_qualified_snapshot)

lemma keeps_head_matches: "keeps R (head_matches L gh head_path source_run)"
  unfolding head_matches_def by (intro keeps_reads)

lemma keeps_first_reusable: "keeps R (first_reusable L unzip gh info source_run snapshot head_path probes)"
  unfolding keeps_def
proof
  fix w
  show "R w (snd (first_reusable L unzip gh info source_run snapshot head_path probes w))"
  proof (induction probes arbitrary: w)
    case Nil
    then show ?case by (simp add: frame_refl)
  next
    case (Cons probe probes)
    obtain i p t where probe: "probe = (i, p, t)" by (cases probe)
    obtain r v where r: "verify_scheduled_reuse L unzip gh info snapshot p i t w = (r, v)"
      by (cases "verify_scheduled_reuse L unzip gh info snapshot p i t w")
    have first: "R w v" by (rule keepsD [OF keeps_verify_reuse r])
    have "keeps R (ibind (head_matches L gh head_path source_run) (\<lambda>ok. ireturn (if ok then t else [])))"
      by (intro keeps_rules keeps_head_matches)
    then have last: "R v (snd (ibind (head_matches L gh head_path source_run) (\<lambda>ok. ireturn (if ok then t else [])) v))"
      unfolding keeps_def by blast
    show ?case using frame_trans [OF first] last Cons.IH [of v] first by (cases r) (simp_all add: probe r)
  qed
qed

lemma keeps_scheduled_reuse: "keeps R (scheduled_reuse L unzip gh info source_run snapshot base)"
  unfolding scheduled_reuse_def by (intro keeps_publication keeps_head_matches keeps_first_reusable)

lemma keeps_final_toolchains: "keeps R (verify_final_toolchains L gh rcm receipts)"
  unfolding verify_final_toolchains_def compare_receipt_def by (intro keeps_publication keeps_ifold)

lemma keeps_build_package: "keeps R (build_package L C verify gh args info source_run snapshot plan_value p rcm parent)"
  unfolding build_package_def Let_def by (intro keeps_publication keeps_final_toolchains)

lemma keeps_verify_reservation: "keeps R (verify_reservation L gh plan_value run_id parent)"
  unfolding verify_reservation_def check_reservation_def by (intro keeps_publication)

lemma keeps_automatic_source: "keeps R (confirm_automatic_source L gh info source_path source_ref)"
  unfolding confirm_automatic_source_def by (intro keeps_publication)

lemma keeps_unless_superseded: "keeps R rest \<Longrightarrow> keeps R (unless_superseded (superseded_candidate L gh info source_run chan) rest)"
  unfolding unless_superseded_def by (intro keeps_publication keeps_superseded)

lemma keeps_unless_reused: "keeps R rest \<Longrightarrow> keeps R (unless_reused L unzip gh info source_run snapshot p rest)"
  unfolding unless_reused_def by (intro keeps_publication keeps_scheduled_reuse)

lemmas keeps_versioned = keeps_publication keeps_closed keeps_scheduled_reuse keeps_build_package keeps_verify_reservation
  keeps_automatic_source keeps_unless_superseded keeps_unless_reused

end

lemma keeps_sum: "(\<And>x. keeps R (f x)) \<Longrightarrow> (\<And>y. keeps R (g y)) \<Longrightarrow> keeps R (case s of Inl x \<Rightarrow> f x | Inr y \<Rightarrow> g y)"
  by (cases s) simp_all

lemma check_prepare_reads:
  "keeps (grows (\<lambda>v. snd (fst v)) (\<lambda>e. \<not> changes e)) (check_prepare L A C unzip T (logged_hub H))"
  unfolding check_prepare_def Let_def
  by (intro timed_log.quiet.keeps_versioned timed_log.keeps_prepare_stable context_keeps keeps_sum)

lemma prepare_publication_reads:
  "keeps (grows (\<lambda>v. snd (fst v)) (\<lambda>e. \<not> changes e)) (prepare_publication L A C unzip verify T (logged_hub H) args)"
  unfolding prepare_publication_def Let_def
  by (intro timed_log.quiet.keeps_versioned timed_log.keeps_publish_parent context_keeps)

section \<open>The ledger's writes\<close>

definition ledger_write :: "event \<Rightarrow> bool" where
  "ledger_write e \<longleftrightarrow> e = Wrote ''POST'' ''git/refs'' \<or> e = Wrote ''PUT'' WRITE_PATH"

context logging
begin

lemma keeps_reserve: "keeps (grows lg ledger_write) (reserve_plan L (hb_client H) policy base chan sha run_id attempt now parent)"
  unfolding reserve_plan_def allocate_plan_def choose_sequence_def ensure_branch_def write_state_def
  by (intro quiet.keeps_publication quiet.keeps_next_sequence keeps_write) (simp_all add: ledger_write_def)

lemma keeps_begin: "keeps (grows lg ledger_write) (begin_publication L (hb_client H) plan_value run_id parent flag)"
  unfolding begin_publication_def write_state_def check_promotion_order_def check_reservation_def Let_def
  by (intro quiet.keeps_publication keeps_write) (simp_all add: ledger_write_def)

lemma write_state_log:
  assumes "write_state L (hb_client H) st previous v = (Inr u, v')"
  shows "lg v' = lg v @ [Wrote ''PUT'' WRITE_PATH]"
  using assms unfolding write_state_def
  by (auto simp: ibind_Inr_iff dest!: api_write [rotated])

lemma keeps_check_reservation: "keeps (grows lg E) (check_reservation L (hb_client H) st plan_value run_id parent)"
  unfolding check_reservation_def by (intro quiet.keeps_publication)

lemma begin_log:
  assumes "begin_publication L (hb_client H) plan_value run_id parent (PBool False) v = (Inr c, v')"
  shows "lg v' = lg v @ [Wrote ''PUT'' WRITE_PATH]"
proof -
  have "\<exists>st previous v1 p v2 st'. read_state L (hb_client H) v = (Inr (st, previous), v1)
      \<and> check_reservation L (hb_client H) st plan_value run_id parent v1 = (Inr p, v2)
      \<and> write_state L (hb_client H) st' previous v2 = (Inr (), v')"
    using assms unfolding begin_publication_def Let_def by (auto simp: ibind_Inr_iff)
  then obtain st previous v1 p v2 st' where r: "read_state L (hb_client H) v = (Inr (st, previous), v1)"
    and c: "check_reservation L (hb_client H) st plan_value run_id parent v1 = (Inr p, v2)"
    and w: "write_state L (hb_client H) st' previous v2 = (Inr (), v')" by blast
  from quiet_log [OF quiet.keeps_read_state r] quiet_log [OF keeps_check_reservation c] write_state_log [OF w]
  show ?thesis by simp
qed

end

section \<open>\<open>prepare\<close>\<close>

text \<open>The events and the result of a preparation.\<close>

definition prepared_run :: "event list \<Rightarrow> event list \<Rightarrow> event list \<Rightarrow> jobject result \<Rightarrow> bool" where
  "prepared_run checks ledger_events stored r \<longleftrightarrow>
     list_all (\<lambda>e. \<not> changes e) checks \<and> list_all ledger_write ledger_events \<and> stored \<in> {[], [Stored PLAN_FILE]}
     \<and> (case r of Inl e \<Rightarrow> True
        | Inr answer \<Rightarrow> (ledger_events = [] \<and> stored = []) \<or> (stored = [Stored PLAN_FILE] \<and> (\<exists>f. answer = prepare_answer f)))"

lemma prepare_command_trace:
  assumes run: "prepare L A C unzip T (logged_hub H) now v = (r, v')" and start: "snd (fst v) = []"
  shows "\<exists>checks ledger_events stored. snd (fst v') = checks @ ledger_events @ stored \<and> prepared_run checks ledger_events stored r"
proof -
  let ?H = "timed_hub T (logged_hub H)" and ?lg = "\<lambda>v. snd (fst v)"
  obtain p u where chk: "check_prepare L A C unzip T (logged_hub H) v = (p, u)"
    by (cases "check_prepare L A C unzip T (logged_hub H) v")
  from keepsD [OF check_prepare_reads chk] start have checks: "list_all (\<lambda>e. \<not> changes e) (?lg u)"
    by (auto simp: grows_def)
  show ?thesis
  proof (cases "\<exists>f. p = Inr (Inr f)")
    case False
    then have "v' = u" using run chk unfolding prepare_def Let_def
      by (cases p) (auto simp: ibind_def ireturn_def split: sum.splits)
    then show ?thesis using checks
      by (intro exI [of _ "?lg u"] exI [of _ "[]"]) (simp add: prepared_run_def split: sum.split)
  next
    case True
    then obtain f where f: "p = Inr (Inr f)" by blast
    define reserve where "reserve = reserve_plan L (hb_client ?H) (PDict (fz_policy f)) (fz_base f) (fz_channel f) (head_of (fz_run f))
      (run_number_of (fz_run f) ''id'') (run_number_of (fz_run f) ''run_attempt'') (mo_stamp now) (fz_parent f)"
    have main: "ibind reserve (\<lambda>p. ibind (hb_file ?H PLAN_FILE (rc_json_bytes L (plan_json p))) (\<lambda>_. ireturn (prepare_answer f))) u = (r, v')"
      using run chk f unfolding prepare_def Let_def reserve_def by (simp add: ibind_def)
    obtain x u1 where res: "reserve u = (x, u1)" by (cases "reserve u")
    from keepsD [OF timed_log.keeps_reserve res [unfolded reserve_def]] obtain ls where
      ls: "?lg u1 = ?lg u @ ls" "list_all ledger_write ls" unfolding grows_def by blast
    show ?thesis
    proof (cases x)
      case (Inl e)
      with main res have "v' = u1" "r = Inl e" by (simp_all add: ibind_def)
      then show ?thesis using ls checks
        by (intro exI [of _ "?lg u"] exI [of _ ls] exI [of _ "[]"]) (simp add: prepared_run_def)
    next
      case (Inr pl)
      obtain y u2 where st: "hb_file ?H PLAN_FILE (rc_json_bytes L (plan_json pl)) u1 = (y, u2)"
        by (cases "hb_file ?H PLAN_FILE (rc_json_bytes L (plan_json pl)) u1")
      with main res Inr have "v' = u2" "r = (case y of Inl e \<Rightarrow> Inl e | Inr z \<Rightarrow> Inr (prepare_answer f))"
        by (auto simp: ibind_def split: sum.splits)
      then show ?thesis using ls checks file_log [OF st]
        by (intro exI [of _ "?lg u"] exI [of _ ls] exI [of _ "[Stored PLAN_FILE]"]) (auto simp: prepared_run_def split: sum.split)
    qed
  qed
qed


section \<open>\<open>publish_versioned\<close>\<close>

text \<open>The package of a frozen plan: the plan is valid for the policy of this source, the files are the staged assets, every
  receipt was verified against this plan and this run, the signatures hold, and the bytes are the manifest of it all.\<close>

definition built_package ::
  "pylib \<Rightarrow> checkout_env \<Rightarrow> (files \<Rightarrow> unit result) \<Rightarrow> versioned_args \<Rightarrow> string \<Rightarrow> pyval \<Rightarrow> plan \<Rightarrow> jobject \<Rightarrow> jobject \<Rightarrow> jobject \<Rightarrow> pyval
     \<Rightarrow> files \<Rightarrow> string \<Rightarrow> bool" where
  "built_package L C verify args repository plan_value p info source_run frozen_policy parent fs content \<longleftrightarrow>
     stage_assets L (va_assets args) = Inr fs \<and> verify_required_signatures verify fs = Inr () \<and>
     (\<exists>producer receipts kept validation packages manifest.
        producer_identity (PStr repository) (dget source_run ''id'' PNone) (dget source_run ''run_attempt'' PNone) (PStr (head_of source_run)) = Inr producer \<and>
        verify_receipts L (co_attested C) fs
          \<lparr>ex_plan = plan_value, ex_policy = Some (PDict (policy_of frozen_policy)), ex_producer = Some producer\<rparr>
          (map (\<lambda>(n, d). (n, asset_json L n d)) fs) = Inr receipts \<and>
        candidate_fuzz_receipts (policy_of frozen_policy) (channel p) receipts = Inr (kept, validation) \<and>
        verify_required_build_receipts kept (policy_of frozen_policy) = Inr () \<and>
        versioned_manifest L info source_run frozen_policy plan_value p (va_created args) fs kept validation packages parent = Inr manifest \<and>
        content = rc_json_bytes L (PDict manifest))"

definition package_of :: "pylib \<Rightarrow> actions_env \<Rightarrow> checkout_env \<Rightarrow> (files \<Rightarrow> unit result) \<Rightarrow> versioned_args \<Rightarrow> string \<Rightarrow> files \<Rightarrow> string \<Rightarrow> bool" where
  "package_of L A C verify args repository fs content \<longleftrightarrow>
     (\<exists>plan_value p info source_run frozen_policy parent.
        frozen_plan L A = Inr (plan_value, p) \<and>
        validate_plan L plan_value (Some (dget frozen_policy ''data'' PNone)) (Some (head_of source_run)) = Inr p \<and>
        built_package L C verify args repository plan_value p info source_run frozen_policy parent fs content)"

lemma build_package_Inr:
  assumes "build_package L C verify gh args info source_run snapshot plan_value p rcm parent v = (Inr (fs, content), v')"
  shows "built_package L C verify args (repo gh) plan_value p info source_run snapshot parent fs content"
  using assms unfolding build_package_def built_package_def Let_def
  by (auto simp: ibind_Inr_iff ireturn_def split: prod.splits) blast

lemma unless_superseded_Inr:
  "unless_superseded m rest v = (Inr (Inr x), v') \<Longrightarrow> \<exists>u. rest u = (Inr (Inr x), v')"
  unfolding unless_superseded_def by (auto simp: ibind_Inr_iff ireturn_def split: option.splits)

lemma unless_reused_Inr:
  "unless_reused L unzip gh info source_run snapshot p rest v = (Inr (Inr x), v') \<Longrightarrow> \<exists>u. rest u = (Inr (Inr x), v')"
  unfolding unless_reused_def by (auto simp: ibind_Inr_iff ireturn_def split: if_splits)

lemma validate_plan_value: "validate_plan L v policy head = Inr p \<Longrightarrow> validate_plan_fields v = Inr p"
  by (auto simp: validate_plan_def rbind_Inr_iff split: option.splits)

lemma frozen_plan_value: "frozen_plan L A = Inr (v, p) \<Longrightarrow> validate_plan L v policy head = Inr q \<Longrightarrow> q = p"
  by (auto simp: frozen_plan_def rbind_Inr_iff dest!: validate_plan_value)

lemma prepare_publication_package:
  assumes "prepare_publication L A C unzip verify T H args v = (Inr (Inr k), v')"
  shows "package_of L A C verify args (repo (hb_client H)) (pk_files k) (pk_content k)"
proof -
  have r: "repo (hb_client (timed_hub T H)) = repo (hb_client H)" by (simp add: timed_hub_def timed_def)
  show ?thesis
    using assms unfolding prepare_publication_def Let_def package_of_def
    by (auto simp: ibind_Inr_iff ireturn_def r dest!: unless_superseded_Inr unless_reused_Inr build_package_Inr)
       (use frozen_plan_value in blast)
qed

lemma ibind_cases:
  assumes "ibind m f v = (r, v')"
  obtains e where "m v = (Inl e, v')" "r = Inl e" | x u where "m v = (Inr x, u)" "f x u = (r, v')"
  using assms by (cases "m v") (auto simp: ibind_def split: sum.splits)

lemma keeps_capture_source: "keeps (grows (\<lambda>v. snd (fst v)) E) (capture_source L (hb_client (timed_hub T (logged_hub H))) info source_run chan)"
  unfolding capture_source_def by (intro timed_log.quiet.keeps_publication)

lemma publish_package_trace:
  assumes "publish_package L verify (timed_hub T (logged_hub H)) (logged_observer T E now rep) k source_ref consumed u = (q, v)"
  shows "\<exists>rest es. snd (fst v) = snd (fst u) @ rest @ es \<and> list_all (\<lambda>e. \<not> publishes e) rest
    \<and> (es = [] \<and> q \<notin> range Inr \<or> published_run L (pk_files k @ [(MANIFEST, pk_content k)]) es)"
  using assms unfolding publish_package_def Let_def
  by (cases source_ref) (erule publication_parts, rule confirmed_posts,
    intro timed_log.quiet.keeps_versioned)

lemma ledger_keeps_private: "list_all ledger_write es \<Longrightarrow> list_all (\<lambda>e. \<not> publishes e) es"
  by (auto simp: list_all_iff ledger_write_def)

text \<open>The build number was consumed before the tag was created.\<close>

definition consumed_first :: "pylib \<Rightarrow> files \<Rightarrow> event list \<Rightarrow> event list \<Rightarrow> 'a result \<Rightarrow> bool" where
  "consumed_first L fs rest publication r \<longleftrightarrow> list_all (\<lambda>e. \<not> publishes e) rest \<and>
     (publication = [] \<and> r \<notin> range Inr \<or> Wrote ''PUT'' WRITE_PATH \<in> set rest \<and> published_run L fs publication)"

lemma release_package_trace:
  assumes run: "release_package L verify (timed_hub T (logged_hub H)) (logged_observer T E now rep) k u = (q, v)"
  shows "\<exists>rest es. snd (fst v) = snd (fst u) @ Stored EVIDENCE # rest @ es \<and> consumed_first L (pk_files k @ [(MANIFEST, pk_content k)]) rest es q"
proof -
  let ?H = "timed_hub T (logged_hub H)" and ?lg = "\<lambda>v. snd (fst v)"
  let ?goal = "\<exists>rest es. ?lg v = ?lg u @ Stored EVIDENCE # rest @ es \<and> consumed_first L (pk_files k @ [(MANIFEST, pk_content k)]) rest es q"
  have failed: ?goal if "?lg v = ?lg u @ [Stored EVIDENCE]" "q = Inl e" for e
    using that by (intro exI [of _ "[]"]) (simp add: consumed_first_def image_iff)
  from run [unfolded release_package_def] show ?thesis
  proof (elim ibind_cases)
    fix e
    assume "hb_file ?H EVIDENCE (pk_content k) u = (Inl e, v)" "q = Inl e"
    then show ?goal using failed file_log by blast
  next
    fix x u1 e
    assume "hb_file ?H EVIDENCE (pk_content k) u = (Inr x, u1)" "q = Inl e"
      "capture_source L (hb_client ?H) (pk_info k) (pk_run k) (channel (pk_plan k)) u1 = (Inl e, v)"
    then show ?goal using failed file_log timed_log.quiet_log [OF keeps_capture_source] by metis
  next
    fix x u1 source_ref u2 e
    assume stored: "hb_file ?H EVIDENCE (pk_content k) u = (Inr x, u1)" and q: "q = Inl e"
      and cap: "capture_source L (hb_client ?H) (pk_info k) (pk_run k) (channel (pk_plan k)) u1 = (Inr source_ref, u2)"
      and beg: "begin_publication L (hb_client ?H) (pk_plan_value k) (run_number_of (pk_run k) ''id'') (pk_parent k) (PBool False) u2 = (Inl e, v)"
    from keepsD [OF timed_log.keeps_begin beg] obtain ls where "?lg v = ?lg u2 @ ls" "list_all ledger_write ls"
      unfolding grows_def by blast
    then show ?goal using file_log [OF stored] timed_log.quiet_log [OF keeps_capture_source cap] q
      by (intro exI [of _ ls] exI [of _ "[]"]) (auto simp: consumed_first_def ledger_keeps_private)
  next
    fix x u1 source_ref u2 consumed u3
    assume stored: "hb_file ?H EVIDENCE (pk_content k) u = (Inr x, u1)"
      and cap: "capture_source L (hb_client ?H) (pk_info k) (pk_run k) (channel (pk_plan k)) u1 = (Inr source_ref, u2)"
      and beg: "begin_publication L (hb_client ?H) (pk_plan_value k) (run_number_of (pk_run k) ''id'') (pk_parent k) (PBool False) u2 = (Inr consumed, u3)"
      and pub: "publish_package L verify ?H (logged_observer T E now rep) k source_ref consumed u3 = (q, v)"
    from publish_package_trace [OF pub] obtain rest es where "?lg v = ?lg u3 @ rest @ es" "list_all (\<lambda>e. \<not> publishes e) rest"
      "es = [] \<and> q \<notin> range Inr \<or> published_run L (pk_files k @ [(MANIFEST, pk_content k)]) es" by blast
    then show ?goal using file_log [OF stored] timed_log.quiet_log [OF keeps_capture_source cap] timed_log.begin_log [OF beg]
      by (intro exI [of _ "Wrote ''PUT'' WRITE_PATH # rest"] exI [of _ es]) (simp add: consumed_first_def)
  qed
qed


end
