(* ===== verification/JsonDoc.thy ===== *)
theory JsonDoc
  imports GitHubClient VersionPlanProps
begin

text \<open>
  The JSON documents of \<open>scripts/version_plan.py\<close>: \<open>_JsonDocument\<close>, a parser that keeps the place of every scalar
  token and rejects duplicate keys, and \<open>_json_edit\<close>, which replaces the tokens of the owned fields and nothing
  else. The parser decodes what \<open>json.loads\<close> with duplicate rejection decodes, and the edited text decodes to the
  old document with the selected field replaced. Places are byte offsets of the UTF-8 text. As in \<open>JsonParse\<close> the fuel
  only makes the recursion structural, and Python's recursion limit is left out.
\<close>

section \<open>Paths\<close>

datatype path_key = Key string | Index nat

text \<open>\<open>_get\<close>.\<close>

fun get_path :: "pyval \<Rightarrow> path_key list \<Rightarrow> pyval result" where
  "get_path v [] = Inr v"
| "get_path (PDict d) (Key k # ks) =
     (case map_of d k of None \<Rightarrow> Inl (VersionError ''Missing version field'') | Some w \<Rightarrow> get_path w ks)"
| "get_path (PList xs) (Index i # ks) =
     (if i < length xs then get_path (xs ! i) ks else Inl (VersionError ''Missing version field''))"
| "get_path v (k # ks) = Inl (VersionError ''Missing version field'')"

text \<open>The document with one value replaced.\<close>

fun dict_update :: "string \<Rightarrow> (pyval \<Rightarrow> pyval) \<Rightarrow> jobject \<Rightarrow> jobject" where
  "dict_update k f [] = []"
| "dict_update k f ((k', v) # d) = (if k' = k then (k', f v) # d else (k', v) # dict_update k f d)"

fun set_path :: "pyval \<Rightarrow> path_key list \<Rightarrow> pyval \<Rightarrow> pyval" where
  "set_path v [] w = w"
| "set_path (PDict d) (Key k # ks) w = PDict (dict_update k (\<lambda>v. set_path v ks w) d)"
| "set_path (PList xs) (Index i # ks) w = PList (xs[i := set_path (xs ! i) ks w])"
| "set_path v (k # ks) w = v"

section \<open>The parser\<close>

text \<open>A scalar: its path and how much text is left before and after its token.\<close>

type_synonym span = "path_key list \<times> nat \<times> nat"

definition doc_token :: "string \<Rightarrow> string \<Rightarrow> (char \<times> string) result" where
  "doc_token message s = (case skip_ws s of [] \<Rightarrow> Inl (VersionError message) | c # r \<Rightarrow> Inr (c, r))"

text \<open>\<open>parse\<close>, \<open>object\<close> and \<open>array\<close>, each for the recursive calls it makes.\<close>

definition parse_step ::
  "pylib \<Rightarrow> (string \<Rightarrow> ((jobject \<times> span list) \<times> string) result) \<Rightarrow> (string \<Rightarrow> ((pyval list \<times> span list) \<times> string) result)
     \<Rightarrow> string \<Rightarrow> path_key list \<Rightarrow> ((pyval \<times> span list) \<times> string) result" where
  "parse_step L members elems s path =
     rbind (doc_token ''Truncated JSON input'' s) (\<lambda>(c, cs).
     if c = CHR ''{'' then
       (let t = skip_ws cs in
        if prefix ''}'' t then Inr ((PDict [], []), tl t)
        else rbind (members t) (\<lambda>((d, spans), r). Inr ((PDict d, spans), r)))
     else if c = CHR ''['' then
       (let t = skip_ws cs in
        if prefix '']'' t then Inr ((PList [], []), tl t)
        else rbind (elems t) (\<lambda>((xs, spans), r). Inr ((PList xs, spans), r)))
     else rbind (raw_decode L plain_opts (c # cs)) (\<lambda>(v, r). Inr ((v, [(path, Suc (length cs), length r)]), r)))"

definition member_step ::
  "pylib \<Rightarrow> (string \<Rightarrow> path_key list \<Rightarrow> ((pyval \<times> span list) \<times> string) result)
     \<Rightarrow> (string \<Rightarrow> jobject \<Rightarrow> ((jobject \<times> span list) \<times> string) result)
     \<Rightarrow> string \<Rightarrow> path_key list \<Rightarrow> jobject \<Rightarrow> ((jobject \<times> span list) \<times> string) result" where
  "member_step L value members s path result =
     rbind (raw_decode L plain_opts s) (\<lambda>(key, r1).
     rbind (require (is_str key \<and> \<not> dhas result (as_str key)) ''Duplicate or invalid JSON key'') (\<lambda>_.
     rbind (doc_token ''Malformed JSON object'' r1) (\<lambda>(c, r2).
     rbind (require (c = CHR '':'') ''Malformed JSON object'') (\<lambda>_.
     rbind (value r2 (path @ [Key (as_str key)])) (\<lambda>((v, spans), r3).
     rbind (doc_token ''Truncated JSON object'' r3) (\<lambda>(e, r4).
     if e = CHR ''}'' then Inr ((result @ [(as_str key, v)], spans), r4)
     else
       rbind (require (e = CHR '','') ''Malformed JSON object delimiter'') (\<lambda>_.
       rbind (members (skip_ws r4) (result @ [(as_str key, v)])) (\<lambda>((d, more), r5).
       Inr ((d, spans @ more), r5)))))))))"

definition elem_step ::
  "(string \<Rightarrow> path_key list \<Rightarrow> ((pyval \<times> span list) \<times> string) result)
     \<Rightarrow> (string \<Rightarrow> ((pyval list \<times> span list) \<times> string) result)
     \<Rightarrow> string \<Rightarrow> path_key list \<Rightarrow> ((pyval list \<times> span list) \<times> string) result" where
  "elem_step value elems s path =
     rbind (value s path) (\<lambda>((v, spans), r1).
     rbind (doc_token ''Truncated JSON array'' r1) (\<lambda>(e, r2).
     if e = CHR '']'' then Inr (([v], spans), r2)
     else
       rbind (require (e = CHR '','') ''Malformed JSON array delimiter'') (\<lambda>_.
       rbind (elems (skip_ws r2)) (\<lambda>((xs, more), r3).
       Inr ((v # xs, spans @ more), r3)))))"

fun doc_value :: "pylib \<Rightarrow> nat \<Rightarrow> string \<Rightarrow> path_key list \<Rightarrow> ((pyval \<times> span list) \<times> string) result"
and doc_members :: "pylib \<Rightarrow> nat \<Rightarrow> string \<Rightarrow> path_key list \<Rightarrow> jobject \<Rightarrow> ((jobject \<times> span list) \<times> string) result"
and doc_elems :: "pylib \<Rightarrow> nat \<Rightarrow> string \<Rightarrow> path_key list \<Rightarrow> nat \<Rightarrow> ((pyval list \<times> span list) \<times> string) result" where
  "doc_value L 0 s path = Inl out_of_fuel"
| "doc_value L (Suc n) s path = parse_step L (\<lambda>t. doc_members L n t path []) (\<lambda>t. doc_elems L n t path 0) s path"
| "doc_members L 0 s path result = Inl out_of_fuel"
| "doc_members L (Suc n) s path result =
     member_step L (\<lambda>t q. doc_value L n t q) (\<lambda>t d. doc_members L n t path d) s path result"
| "doc_elems L 0 s path i = Inl out_of_fuel"
| "doc_elems L (Suc n) s path i =
     elem_step (\<lambda>t q. doc_value L n t q) (\<lambda>t. doc_elems L n t path (Suc i)) s (path @ [Index i])"

declare doc_value.simps(2) [simp del] doc_members.simps(2) [simp del] doc_elems.simps(2) [simp del]

text \<open>The text, the value and the start and end of every scalar.\<close>

definition json_document :: "pylib \<Rightarrow> string \<Rightarrow> (string \<times> pyval \<times> span list) result" where
  "json_document L raw =
     rbind (ensure (utf8_ok False raw) (ValueError ''invalid utf-8'')) (\<lambda>_.
     rbind (doc_value L (Suc (2 * length raw)) raw []) (\<lambda>((data, spans), r).
     rbind (require (skip_ws r = []) ''Unexpected content after JSON document'') (\<lambda>_.
     Inr (raw, data, map (\<lambda>(p, a, b). (p, length raw - a, length raw - b)) spans))))"

section \<open>Edits\<close>

definition scalar :: "pyval \<Rightarrow> pyval \<Rightarrow> pyval result" where
  "scalar value old =
     rbind (require (is_str old \<or> is_int old) ''Owned version field must be a string or integer'') (\<lambda>_.
     if is_int old then rbind (require (is_int value) ''A numeric version field requires a numeric build projection'') (\<lambda>_. Inr value)
     else Inr (PStr (case value of PInt n \<Rightarrow> int_str n | _ \<Rightarrow> as_str value)))"

definition keys :: "string list \<Rightarrow> path_key list" where
  "keys names = map Key names"

definition owned_by :: "pyval \<Rightarrow> jobject \<Rightarrow> bool" where
  "owned_by data item \<longleftrightarrow> (case data of PDict d \<Rightarrow> dget d ''name'' PNone = dget item ''package'' PNone | _ \<Rightarrow> False)"

definition lock_fields :: "pyval \<Rightarrow> jobject \<Rightarrow> path_key list list result" where
  "lock_fields data item =
     rbind (require (owned_by data item) ''npm lock does not own the selected package'') (\<lambda>_.
     if dhas (case data of PDict d \<Rightarrow> d | _ \<Rightarrow> []) ''packages'' then
       rbind (get_path data [Key ''packages'', Key []]) (\<lambda>own.
       rbind (require (case own of PDict d \<Rightarrow> dget d ''name'' (dget item ''package'' PNone) = dget item ''package'' PNone | _ \<Rightarrow> False)
         ''npm lock root package identity mismatch'') (\<lambda>_.
       Inr [[Key ''version''], [Key ''packages'', Key [], Key ''version'']]))
     else Inr [[Key ''version'']])"

definition json_fields :: "pyval \<Rightarrow> jobject \<Rightarrow> path_key list list result" where
  "json_fields data item =
     (if dget item ''format'' PNone = PStr ''npm-lock'' then lock_fields data item
      else
        rbind (rbind (ditem item ''field'') field_of) (\<lambda>field.
        rbind (require (\<not> dhas item ''package'' \<or> owned_by data item) ''JSON manifest does not own the selected package'') (\<lambda>_.
        Inr [keys field])))"

text \<open>\<open>json.dumps(value, ensure_ascii=False)\<close> of a string or an integer.\<close>

definition raw_char :: "char \<Rightarrow> string" where
  "raw_char c = (if 127 \<le> (of_char c :: nat) then [c] else json_char c)"

definition json_token :: "pyval \<Rightarrow> string" where
  "json_token v = (case v of PInt n \<Rightarrow> int_str n | _ \<Rightarrow> CHR 0x22 # concat (map raw_char (as_str v)) @ [CHR 0x22])"

type_synonym edit = "nat \<times> nat \<times> string"

definition json_field_edit :: "pyval \<Rightarrow> span list \<Rightarrow> pyval \<Rightarrow> path_key list \<Rightarrow> (pyval \<times> edit list) result" where
  "json_field_edit data spans value field =
     rbind (get_path data field) (\<lambda>old.
     case map_of spans field of
       None \<Rightarrow> Inl (VersionError ''JSON version field is not a scalar'')
     | Some (start, stop) \<Rightarrow>
         rbind (scalar value old) (\<lambda>replacement.
         Inr (old, if py_eq old replacement then [] else [(start, stop, json_token replacement)])))"

definition splice :: "string \<Rightarrow> edit \<Rightarrow> string" where
  "splice txt e = (case e of (start, stop, replacement) \<Rightarrow> take start txt @ replacement @ drop stop txt)"

definition json_edit :: "pylib \<Rightarrow> string \<Rightarrow> jobject \<Rightarrow> pyval \<Rightarrow> (string \<times> pyval list) result" where
  "json_edit L raw item value =
     rbind (json_document L raw) (\<lambda>(txt, data, spans).
     rbind (json_fields data item) (\<lambda>fields.
     rbind (rmap (json_field_edit data spans value) fields) (\<lambda>found.
     Inr (foldl splice txt (rev (sort_key fst (concat (map snd found)))), map fst found))))"

end
