(* ===== verification/JsonDocProps.thy ===== *)
theory JsonDocProps
  imports JsonDoc
begin

text \<open>
  What the documents of \<open>JsonDoc\<close> guarantee: the parser decodes like \<open>json.loads\<close> with duplicate rejection, and an
  edit replaces the selected fields and nothing else.
\<close>

section \<open>The parser decodes like \<open>json.loads\<close>\<close>

lemmas value_eq = doc_value.simps(2) parse_step_def
lemmas members_eq = doc_members.simps(2) member_step_def
lemmas elems_eq = doc_elems.simps(2) elem_step_def

lemma doc_token_iff: "doc_token m s = Inr (c, r) \<longleftrightarrow> skip_ws s = c # r"
  by (auto simp: doc_token_def split: list.splits)

lemma next_token_iff: "next_token m s = Inr (c, r) \<longleftrightarrow> skip_ws s = c # r"
  by (auto simp: next_token_def split: list.splits)

lemma ensure_iff: "ensure b e = Inr () \<longleftrightarrow> b"
  by (simp add: ensure_def)

lemma skip_ws_idem [simp]: "skip_ws (skip_ws s) = skip_ws s"
  by (simp add: skip_ws_def)

lemma skip_ws_ConsD: "skip_ws s = c # r \<Longrightarrow> skip_ws (c # r) = c # r"
  by (metis skip_ws_idem)

lemma const_hooks [simp]: "const_hook plain_opts = float_constant" "const_hook strict_opts = float_constant"
  "pairs_hook strict_opts = no_duplicates []"
  by (simp_all add: plain_opts_def strict_opts_def)

lemma scan_atom_opts: "scan_atom L plain_opts s = scan_atom L strict_opts s"
  by (simp add: scan_atom_def split: option.split)

lemma raw_decode_scalar:
  "c \<noteq> CHR ''{'' \<Longrightarrow> c \<noteq> CHR ''['' \<Longrightarrow> raw_decode L plain_opts (c # cs) = raw_decode L strict_opts (c # cs)"
  by (simp add: raw_decode_Cons scan_atom_opts)

lemma scan_number_not_str: "scan_number L s = Inr (v, r) \<Longrightarrow> \<not> is_str v"
  by (auto simp: scan_number_def Let_def split: if_splits)

lemma scan_literal_not_str: "scan_literal s = Some (v, r) \<Longrightarrow> \<not> is_str v"
  by (auto simp: scan_literal_def split: if_splits)

lemma scan_atom_not_str: "scan_atom L plain_opts s = Inr (v, r) \<Longrightarrow> \<not> is_str v"
  by (auto simp: scan_atom_def float_constant_def rbind_Inr_iff split: option.splits
    dest: scan_literal_not_str scan_number_not_str)

lemma raw_decode_not_str:
  "raw_decode L plain_opts (c # cs) = Inr (v, r) \<Longrightarrow> c \<noteq> CHR 0x22 \<Longrightarrow> \<not> is_str v"
  by (auto simp: raw_decode_Cons rbind_Inr_iff split: if_splits dest: scan_atom_not_str)

lemma raw_decode_key:
  "raw_decode L plain_opts s = Inr (k, r) \<and> is_str k \<longleftrightarrow> (\<exists>t. quoted s = Inr (t, r) \<and> k = PStr t)"
proof (cases s)
  case Nil
  then show ?thesis by (simp add: raw_decode_def quoted_def)
next
  case (Cons c cs)
  show ?thesis
  proof (cases "c = CHR 0x22")
    case True
    then show ?thesis by (auto simp: Cons raw_decode_Cons quoted_def rbind_Inr_iff)
  next
    case False
    then show ?thesis using raw_decode_not_str [of L c cs k r] by (auto simp: Cons quoted_def)
  qed
qed

lemma doc_members_iff:
  "doc_members L (Suc n) s path acc = Inr ((d, sp), r) \<longleftrightarrow>
     (\<exists>k r1 r2 w spans r3 e r4. quoted s = Inr (k, r1) \<and> \<not> dhas acc k \<and> skip_ws r1 = CHR '':'' # r2
       \<and> doc_value L n r2 (path @ [Key k]) = Inr ((w, spans), r3) \<and> skip_ws r3 = e # r4
       \<and> (e = CHR ''}'' \<and> d = acc @ [(k, w)] \<and> sp = spans \<and> r = r4
          \<or> e = CHR '','' \<and> (\<exists>more. doc_members L n (skip_ws r4) path (acc @ [(k, w)]) = Inr ((d, more), r) \<and> sp = spans @ more)))"
proof (cases "quoted s")
  case (Inl err)
  then have "\<not> (\<exists>k r1. raw_decode L plain_opts s = Inr (k, r1) \<and> is_str k)" by (metis Inl_Inr_False raw_decode_key)
  then show ?thesis using Inl by (auto simp: members_eq rbind_Inr_iff require_def ensure_iff)
next
  case (Inr tr)
  obtain t r1 where tr: "tr = (t, r1)" by (cases tr)
  then have key: "raw_decode L plain_opts s = Inr (PStr t, r1)" using Inr raw_decode_key by blast
  show ?thesis
  proof (cases "\<exists>r2. \<not> dhas acc t \<and> skip_ws r1 = CHR '':'' # r2")
    case False
    then show ?thesis using Inr tr key
      by (cases "skip_ws r1") (auto simp: members_eq require_def ensure_def doc_token_def as_str_def)
  next
    case True
    then obtain r2 where r2: "\<not> dhas acc t" "skip_ws r1 = CHR '':'' # r2" by blast
    show ?thesis
    proof (cases "doc_value L n r2 (path @ [Key t])")
      case err: (Inl e)
      then show ?thesis using Inr tr key r2 by (simp add: members_eq require_def ensure_def doc_token_def as_str_def)
    next
      case val: (Inr x)
      obtain w spans r3 where x: "x = ((w, spans), r3)" by (metis prod.collapse)
      show ?thesis
      proof (cases "skip_ws r3")
        case Nil
        then show ?thesis using Inr tr key r2 val x
          by (simp add: members_eq require_def ensure_def doc_token_def as_str_def)
      next
        case (Cons e r4)
        then show ?thesis using Inr tr key r2 val x
          by (cases "doc_members L n (skip_ws r4) path (acc @ [(t, w)])")
             (auto simp: members_eq require_def ensure_def doc_token_def as_str_def split: prod.splits)
      qed
    qed
  qed
qed

lemma scan_members_iff:
  "scan_members L opts (Suc n) s = Inr (d, r) \<longleftrightarrow>
     (\<exists>k r1 r2 w r3 e r4. quoted s = Inr (k, r1) \<and> skip_ws r1 = CHR '':'' # r2
       \<and> scan L opts n (skip_ws r2) = Inr (w, r3) \<and> skip_ws r3 = e # r4
       \<and> (e = CHR ''}'' \<and> d = [(k, w)] \<and> r = r4
          \<or> e = CHR '','' \<and> (\<exists>d'. scan_members L opts n (skip_ws r4) = Inr (d', r) \<and> d = (k, w) # d')))"
proof (cases "quoted s")
  case (Inl err)
  then show ?thesis by (simp add: scan_members.simps(2))
next
  case (Inr tr)
  obtain t r1 where tr: "tr = (t, r1)" by (cases tr)
  show ?thesis
  proof (cases "\<exists>r2. skip_ws r1 = CHR '':'' # r2")
    case False
    then show ?thesis using Inr tr
      by (cases "skip_ws r1") (auto simp: scan_members.simps(2) ensure_def next_token_def)
  next
    case True
    then obtain r2 where r2: "skip_ws r1 = CHR '':'' # r2" by blast
    show ?thesis
    proof (cases "scan L opts n (skip_ws r2)")
      case err: (Inl e)
      then show ?thesis using Inr tr r2 by (simp add: scan_members.simps(2) ensure_def next_token_def)
    next
      case val: (Inr x)
      obtain w r3 where x: "x = (w, r3)" by (cases x)
      show ?thesis
      proof (cases "skip_ws r3")
        case Nil
        then show ?thesis using Inr tr r2 val x by (simp add: scan_members.simps(2) ensure_def next_token_def)
      next
        case (Cons e r4)
        then show ?thesis using Inr tr r2 val x
          by (cases "scan_members L opts n (skip_ws r4)")
             (auto simp: scan_members.simps(2) ensure_def next_token_def split: prod.splits)
      qed
    qed
  qed
qed

lemma scan_elems_iff:
  "scan_elems L opts (Suc n) s = Inr (xs, r) \<longleftrightarrow>
     (\<exists>w r1 e r2. scan L opts n s = Inr (w, r1) \<and> skip_ws r1 = e # r2
       \<and> (e = CHR '']'' \<and> xs = [w] \<and> r = r2
          \<or> e = CHR '','' \<and> (\<exists>ys. scan_elems L opts n (skip_ws r2) = Inr (ys, r) \<and> xs = w # ys)))"
proof (cases "scan L opts n s")
  case (Inl err)
  then show ?thesis by (simp add: scan_elems.simps(2))
next
  case (Inr x)
  obtain w r1 where x: "x = (w, r1)" by (cases x)
  show ?thesis
  proof (cases "skip_ws r1")
    case Nil
    then show ?thesis using Inr x by (simp add: scan_elems.simps(2) next_token_def)
  next
    case (Cons e r2)
    then show ?thesis using Inr x
      by (cases "scan_elems L opts n (skip_ws r2)") (auto simp: scan_elems.simps(2) next_token_def split: prod.splits)
  qed
qed

lemma doc_elems_iff:
  "doc_elems L (Suc n) s path i = Inr ((xs, sp), r) \<longleftrightarrow>
     (\<exists>w spans r1 e r2. doc_value L n s (path @ [Index i]) = Inr ((w, spans), r1) \<and> skip_ws r1 = e # r2
       \<and> (e = CHR '']'' \<and> xs = [w] \<and> sp = spans \<and> r = r2
          \<or> e = CHR '','' \<and> (\<exists>ys more. doc_elems L n (skip_ws r2) path (Suc i) = Inr ((ys, more), r) \<and> xs = w # ys \<and> sp = spans @ more)))"
proof (cases "doc_value L n s (path @ [Index i])")
  case (Inl err)
  then show ?thesis by (simp add: elems_eq)
next
  case (Inr x)
  obtain w spans r1 where x: "x = ((w, spans), r1)" by (metis prod.collapse)
  show ?thesis
  proof (cases "skip_ws r1")
    case Nil
    then show ?thesis using Inr x by (simp add: elems_eq doc_token_def)
  next
    case (Cons e r2)
    then show ?thesis using Inr x
      by (cases "doc_elems L n (skip_ws r2) path (Suc i)")
         (auto simp: elems_eq doc_token_def require_def ensure_def split: prod.splits)
  qed
qed

lemma scan_members_Nil: "scan_members L opts n [] \<noteq> Inr x"
  by (cases n) (simp_all add: scan_members.simps(2) quoted_def)

lemma scan_elems_Nil: "scan_elems L opts n [] \<noteq> Inr x"
proof (cases n)
  case (Suc m)
  then show ?thesis by (cases m) (simp_all add: scan_elems.simps(2))
qed simp

lemma scan_decodes:
  "(\<exists>sp. doc_value L n s path = Inr ((v, sp), r)) \<longleftrightarrow> scan L strict_opts n (skip_ws s) = Inr (v, r)"
  "(\<exists>sp. doc_members L n s path acc = Inr ((d, sp), r)) \<longleftrightarrow>
     (\<exists>d'. scan_members L strict_opts n s = Inr (d', r) \<and> no_duplicates acc d' = Inr d)"
  "skip_ws s = s \<Longrightarrow> (\<exists>sp. doc_elems L n s path i = Inr ((xs, sp), r)) \<longleftrightarrow> scan_elems L strict_opts n s = Inr (xs, r)"
proof (induction n arbitrary: s path v r acc d xs i)
  case 0
  { case 1 then show ?case by simp next
    case 2 then show ?case by simp next
    case 3 then show ?case by simp }
next
  case (Suc n)
  { case 1
    show ?case
    proof (cases "skip_ws s")
      case Nil
      then show ?thesis by (simp add: value_eq doc_token_def)
    next
      case (Cons c cs)
      consider "c = CHR ''{''" | "c = CHR ''[''" | "c \<noteq> CHR ''{''" "c \<noteq> CHR ''[''" by blast
      then show ?thesis
      proof cases
        case 1
        show ?thesis
        proof (cases "skip_ws cs")
          case Nil
          have "\<not> (\<exists>d sp. doc_members L n [] path [] = Inr ((d, sp), r))"
            using Suc.IH(2) [of "[]" path "[]"] scan_members_Nil by metis
          then show ?thesis using 1
            by (auto simp: value_eq doc_token_def Cons Nil scan.simps next_token_def rbind_Inr_iff)
        next
          case inner: (Cons e r')
          show ?thesis using 1
            by (auto simp: value_eq doc_token_def Cons inner scan.simps next_token_def rbind_Inr_iff)
               (use Suc.IH(2) [of "e # r'" path "[]"] in blast)+
        qed
      next
        case 2
        show ?thesis
        proof (cases "skip_ws cs")
          case Nil
          have "\<not> (\<exists>d sp. doc_elems L n [] path 0 = Inr ((d, sp), r))"
            using Suc.IH(3) [of "[]" path 0] scan_elems_Nil by (metis skip_ws_simps(1))
          then show ?thesis using 2
            by (auto simp: value_eq doc_token_def Cons Nil scan.simps next_token_def rbind_Inr_iff)
        next
          case inner: (Cons e r')
          show ?thesis using 2
            by (auto simp: value_eq doc_token_def Cons inner scan.simps next_token_def rbind_Inr_iff)
               (use Suc.IH(3) [of "e # r'" path 0] skip_ws_ConsD [OF inner] in blast)+
        qed
      next
        case 3
        then show ?thesis
          by (simp add: value_eq doc_token_def Cons rbind_Inr_iff raw_decode_Cons scan.simps scan_atom_opts)
      qed
    qed
  next
    case 2
    have dup: "no_duplicates acc ((k, w) # d'') = Inr d \<longleftrightarrow> \<not> dhas acc k \<and> no_duplicates (acc @ [(k, w)]) d'' = Inr d" for k w d''
      by (simp add: rbind_Inr_iff ensure_def)
    have "(\<exists>sp. doc_members L (Suc n) s path acc = Inr ((d, sp), r)) \<longleftrightarrow>
      (\<exists>k r1 r2 w r3 e r4. quoted s = Inr (k, r1) \<and> \<not> dhas acc k \<and> skip_ws r1 = CHR '':'' # r2
        \<and> (\<exists>sp. doc_value L n r2 (path @ [Key k]) = Inr ((w, sp), r3)) \<and> skip_ws r3 = e # r4
        \<and> (e = CHR ''}'' \<and> d = acc @ [(k, w)] \<and> r = r4
           \<or> e = CHR '','' \<and> (\<exists>sp. doc_members L n (skip_ws r4) path (acc @ [(k, w)]) = Inr ((d, sp), r))))"
      unfolding doc_members_iff by blast
    also have "\<dots> \<longleftrightarrow> (\<exists>d'. scan_members L strict_opts (Suc n) s = Inr (d', r) \<and> no_duplicates acc d' = Inr d)"
      (is "?l \<longleftrightarrow> ?r")
    proof
      assume ?l
      then obtain k r1 r2 w r3 e r4 where q: "quoted s = Inr (k, r1)" "\<not> dhas acc k" "skip_ws r1 = CHR '':'' # r2"
        "scan L strict_opts n (skip_ws r2) = Inr (w, r3)" "skip_ws r3 = e # r4"
        and alt: "e = CHR ''}'' \<and> d = acc @ [(k, w)] \<and> r = r4
          \<or> e = CHR '','' \<and> (\<exists>d'. scan_members L strict_opts n (skip_ws r4) = Inr (d', r) \<and> no_duplicates (acc @ [(k, w)]) d' = Inr d)"
        unfolding Suc.IH(1) Suc.IH(2) by blast
      from alt show ?r
      proof (elim disjE conjE exE)
        assume "e = CHR ''}''" "d = acc @ [(k, w)]" "r = r4"
        then show ?r unfolding scan_members_iff
          by (intro exI [of _ "[(k, w)]"]) (use q in \<open>auto simp: ensure_def\<close>)
      next
        fix d'
        assume "e = CHR '',''" "scan_members L strict_opts n (skip_ws r4) = Inr (d', r)" "no_duplicates (acc @ [(k, w)]) d' = Inr d"
        then show ?r unfolding scan_members_iff
          by (intro exI [of _ "(k, w) # d'"]) (use q in \<open>auto simp: ensure_def\<close>)
      qed
    next
      assume ?r
      then obtain d' k r1 r2 w r3 e r4 where q: "quoted s = Inr (k, r1)" "skip_ws r1 = CHR '':'' # r2"
        "scan L strict_opts n (skip_ws r2) = Inr (w, r3)" "skip_ws r3 = e # r4" "no_duplicates acc d' = Inr d"
        and alt: "e = CHR ''}'' \<and> d' = [(k, w)] \<and> r = r4
          \<or> e = CHR '','' \<and> (\<exists>d''. scan_members L strict_opts n (skip_ws r4) = Inr (d'', r) \<and> d' = (k, w) # d'')"
        unfolding scan_members_iff by blast
      from alt show ?l
      proof (elim disjE conjE exE)
        assume a: "e = CHR ''}''" "d' = [(k, w)]" "r = r4"
        then have "\<not> dhas acc k" "d = acc @ [(k, w)]" using q(5) by (auto simp: rbind_Inr_iff ensure_iff)
        then show ?l unfolding Suc.IH(1) Suc.IH(2) using q a by blast
      next
        fix d''
        assume a: "e = CHR '',''" "scan_members L strict_opts n (skip_ws r4) = Inr (d'', r)" "d' = (k, w) # d''"
        then have "\<not> dhas acc k" "no_duplicates (acc @ [(k, w)]) d'' = Inr d" using q(5) by (auto simp: rbind_Inr_iff ensure_iff)
        then show ?l unfolding Suc.IH(1) Suc.IH(2) using q a by blast
      qed
    qed
    finally show ?case .
  next
    case 3
    have "(\<exists>sp. doc_elems L (Suc n) s path i = Inr ((xs, sp), r)) \<longleftrightarrow>
      (\<exists>w r1 e r2. (\<exists>sp. doc_value L n s (path @ [Index i]) = Inr ((w, sp), r1)) \<and> skip_ws r1 = e # r2
        \<and> (e = CHR '']'' \<and> xs = [w] \<and> r = r2
           \<or> e = CHR '','' \<and> (\<exists>ys. (\<exists>sp. doc_elems L n (skip_ws r2) path (Suc i) = Inr ((ys, sp), r)) \<and> xs = w # ys)))"
      unfolding doc_elems_iff by blast
    also have "\<dots> \<longleftrightarrow> scan_elems L strict_opts (Suc n) s = Inr (xs, r)"
      unfolding Suc.IH(1) Suc.IH(3) [OF skip_ws_idem] scan_elems_iff 3 by blast
    finally show ?case .
  }
qed

section \<open>A scan reads a prefix\<close>

lemma skip_ws_split: "\<exists>w. s = w @ skip_ws s \<and> list_all json_space w"
proof -
  have "s = takeWhile json_space s @ skip_ws s" by (simp add: skip_ws_def)
  moreover have "list_all json_space (takeWhile json_space s)" by (auto simp: list_all_iff dest: set_takeWhileD)
  ultimately show ?thesis by blast
qed

lemma skip_ws_append: "list_all json_space w \<Longrightarrow> skip_ws (w @ s) = skip_ws s"
  by (induction w) simp_all

lemma skip_ws_fixed: "skip_ws (c # s) = c # s \<longleftrightarrow> \<not> json_space c"
  using skip_ws_length [of s] by (auto dest: arg_cong [of _ _ length])

lemma hex4_append: "hex4 s = Some (n, r) \<Longrightarrow> \<exists>p. s = p @ r \<and> (\<forall>z. hex4 (p @ z) = Some (n, z))"
  by (auto simp: hex4_def split: list.splits option.splits intro!: exI [of _ "[_, _, _, _]"])

lemma low_half_append: "low_half s = Some (n, r) \<Longrightarrow> \<exists>p. s = p @ r \<and> (\<forall>z. low_half (p @ z) = Some (n, z))"
proof -
  assume a: "low_half s = Some (n, r)"
  then obtain u where s: "s = CHR 0x5C # CHR ''u'' # u" and u: "hex4 u = Some (n, r)" and n: "56320 \<le> n" "n \<le> 57343"
    by (auto simp: low_half_def split: list.splits if_splits option.splits)
  from hex4_append [OF u] obtain p where "u = p @ r" "\<forall>z. hex4 (p @ z) = Some (n, z)" by blast
  then show ?thesis using s n by (intro exI [of _ "CHR 0x5C # CHR ''u'' # p"]) (simp add: low_half_def)
qed

lemma low_half_stable:
  assumes "scan_chars p = Inr (t, [])" "low_half (p @ r) = None"
  shows "low_half (p @ r') = None"
proof (cases p)
  case Nil
  with assms(1) show ?thesis by simp
next
  case p: (Cons a q)
  show ?thesis
  proof (cases q)
    case Nil
    with assms(1) p have "a = CHR 0x22" by (auto split: if_splits)
    with p Nil show ?thesis by (simp add: low_half_def split: list.split)
  next
    case (Cons b u)
    show ?thesis
    proof (cases "a = CHR 0x5C \<and> b = CHR ''u''")
      case False
      then show ?thesis using p Cons by (auto simp: low_half_def)
    next
      case True
      with assms(1) p Cons obtain n q' where "u_decode u = Some (n, q')" by (auto split: option.splits)
      then obtain m w where "hex4 u = Some (m, w)" by (auto simp: u_decode_def split: option.splits)
      from hex4_append [OF this] obtain h where "u = h @ w" "\<forall>z. hex4 (h @ z) = Some (m, z)" by blast
      then show ?thesis using assms(2) p Cons True by (auto simp: low_half_def split: if_splits)
    qed
  qed
qed

lemma u_decode_append:
  assumes "u_decode s = Some (n, p @ r)" "scan_chars p = Inr (t, [])"
  shows "\<exists>h. s = h @ p @ r \<and> (\<forall>r'. u_decode (h @ p @ r') = Some (n, p @ r'))"
proof -
  obtain m q where m: "hex4 s = Some (m, q)" using assms(1) by (auto simp: u_decode_def split: option.splits)
  from hex4_append [OF m] obtain h where h: "s = h @ q" "\<forall>z. hex4 (h @ z) = Some (m, z)" by blast
  show ?thesis
  proof (cases "55296 \<le> m \<and> m \<le> 56319")
    case False
    with assms(1) m have "q = p @ r" "n = m" by (auto simp: u_decode_def split: if_splits)
    then show ?thesis using h False by (intro exI [of _ h]) (auto simp: u_decode_def)
  next
    case True
    show ?thesis
    proof (cases "low_half q")
      case None
      with assms(1) m True have q: "q = p @ r" "n = m" by (auto simp: u_decode_def)
      have "low_half (p @ r') = None" for r' using low_half_stable [OF assms(2)] None q(1) by blast
      then show ?thesis using h True q by (intro exI [of _ h]) (auto simp: u_decode_def)
    next
      case (Some kz)
      obtain k z where kz: "kz = (k, z)" by (cases kz)
      from low_half_append [OF Some [unfolded kz]] obtain l where l: "q = l @ z" "\<forall>y. low_half (l @ y) = Some (k, y)" by blast
      have "z = p @ r" "n = 65536 + (m - 55296) * 1024 + (k - 56320)"
        using assms(1) m True Some kz by (auto simp: u_decode_def)
      then show ?thesis using h l True by (intro exI [of _ "h @ l"]) (simp add: u_decode_def)
    qed
  qed
qed

lemma scan_chars_append: "scan_chars s = Inr (t, r) \<Longrightarrow> \<exists>p. s = p @ r \<and> (\<forall>r'. scan_chars (p @ r') = Inr (t, r'))"
proof (induction s arbitrary: t r rule: scan_chars.induct)
  case 1
  then show ?case by simp
next
  case (2 c cs)
  consider "c = CHR 0x22" | "c \<noteq> CHR 0x22" "c = CHR 0x5C" | "c \<noteq> CHR 0x22" "c \<noteq> CHR 0x5C" by blast
  then show ?case
  proof cases
    case 1
    then show ?thesis using "2.prems" by (intro exI [of _ "[c]"]) simp
  next
    case 3
    then obtain u where u: "scan_chars cs = Inr (u, r)" "t = c # u" and ok: "\<not> (of_char c :: nat) < 32"
      using "2.prems" by (auto simp: rbind_Inr_iff split: if_splits)
    from "2.IH"(3) [OF 3 ok u(1)] obtain p where "cs = p @ r" "\<forall>r'. scan_chars (p @ r') = Inr (u, r')" by blast
    then show ?thesis using 3 ok u by (intro exI [of _ "c # p"]) simp
  next
    case 2
    with "2.prems" obtain e es where cs: "cs = e # es" by (cases cs) auto
    show ?thesis
    proof (cases "e = CHR ''u''")
      case True
      with 2 "2.prems" cs obtain n q u where q: "u_decode es = Some (n, q)" "scan_chars q = Inr (u, r)" "t = utf8_encode n @ u"
        by (auto simp: rbind_Inr_iff split: option.splits)
      from "2.IH"(1) [OF 2 cs True q(1) _ q(2)] obtain p where p: "q = p @ r" "\<forall>r'. scan_chars (p @ r') = Inr (u, r')" by blast
      then have "scan_chars p = Inr (u, [])" by (metis append_Nil2)
      from u_decode_append [OF q(1) [unfolded p(1)] this] obtain h where
        "es = h @ p @ r" "\<forall>r'. u_decode (h @ p @ r') = Some (n, p @ r')" by blast
      then show ?thesis using 2 cs True p q(3) by (intro exI [of _ "c # e # h @ p"]) simp
    next
      case False
      with 2 "2.prems" cs obtain d u where d: "simple_escape e = Some d" "scan_chars es = Inr (u, r)" "t = d # u"
        by (auto simp: rbind_Inr_iff split: option.splits)
      from "2.IH"(2) [OF 2 cs False d(1,2)] obtain p where "es = p @ r" "\<forall>r'. scan_chars (p @ r') = Inr (u, r')" by blast
      then show ?thesis using 2 cs False d by (intro exI [of _ "c # e # p"]) simp
    qed
  qed
qed

lemma quoted_append: "quoted s = Inr (t, r) \<Longrightarrow> \<exists>p. s = CHR 0x22 # p @ r \<and> (\<forall>r'. quoted (CHR 0x22 # p @ r') = Inr (t, r'))"
  by (auto simp: quoted_def split: list.splits if_splits dest!: scan_chars_append)

lemma frac_append:
  assumes "number_frac (f @ z) = f" "\<not> (f = [] \<and> z \<noteq> [] \<and> is_digit (hd z))"
    and z': "number_frac z' = []" "z' = [] \<or> \<not> is_digit (hd z')"
  shows "number_frac (f @ z') = f"
proof (cases f)
  case Nil
  then show ?thesis using z' by simp
next
  case (Cons c ds)
  then have ds: "takeWhile is_digit (ds @ z) = ds" "ds \<noteq> []" "c = CHR ''.''"
    using assms(1) by (auto simp: number_frac_def Let_def split: if_splits)
  have "\<forall>d \<in> set ds. is_digit d" using ds(1) by (metis set_takeWhileD)
  then have "takeWhile is_digit (ds @ z') = ds @ takeWhile is_digit z'" by (intro takeWhile_append2) simp
  also have "takeWhile is_digit z' = []" using z'(2) by (cases z') auto
  finally show ?thesis using Cons ds by (simp add: number_frac_def Let_def)
qed

lemma expo_append:
  assumes "number_expo (e @ z) = e" "stops z'"
  shows "number_expo (e @ z') = e"
proof (cases e)
  case Nil
  then show ?thesis using stops_number [OF assms(2)] by simp
next
  case (Cons c u)
  define sg where "sg = number_sign (u @ z)"
  define ds where "ds = takeWhile is_digit (drop (length sg) (u @ z))"
  have c: "c \<in> {CHR ''e'', CHR ''E''}" "ds \<noteq> []" "u = sg @ ds"
    using assms(1) Cons unfolding sg_def ds_def by (auto simp: number_expo_def Let_def split: if_splits)
  have digits: "\<forall>d \<in> set ds. is_digit d" unfolding ds_def by (metis set_takeWhileD)
  have "number_sign (sg @ ds @ z') = sg"
  proof (cases sg)
    case Nil
    obtain d ds' where d: "ds = d # ds'" "is_digit d" using c(2) digits by (cases ds) auto
    then have "d \<notin> {CHR ''+'', CHR ''-''}" by (auto simp: is_digit_def)
    then show ?thesis using Nil d by (simp add: number_sign_def)
  next
    case sg: (Cons a sg')
    have "a \<in> {CHR ''+'', CHR ''-''} \<and> sg' = []" using sg c(3) unfolding sg_def
      by (auto simp: number_sign_def split: list.splits if_splits)
    then show ?thesis using sg by (simp add: number_sign_def)
  qed
  moreover have "takeWhile is_digit (ds @ z') = ds"
  proof -
    have "takeWhile is_digit (ds @ z') = ds @ takeWhile is_digit z'" using digits by (intro takeWhile_append2) simp
    also have "takeWhile is_digit z' = []" using assms(2) by (auto simp: stops_def split: list.splits)
    finally show ?thesis by simp
  qed
  ultimately show ?thesis using Cons c by (simp add: number_expo_def Let_def)
qed

lemma number_frac_prefix: "\<exists>z. r = number_frac r @ z"
proof (cases r)
  case (Cons c r')
  show ?thesis
  proof (cases "c = CHR ''.'' \<and> takeWhile is_digit r' \<noteq> []")
    case True
    then show ?thesis using Cons by (intro exI [of _ "dropWhile is_digit r'"]) (simp add: number_frac_def Let_def)
  next
    case False
    then have "number_frac r = []" using Cons by (auto simp: number_frac_def Let_def)
    then show ?thesis by simp
  qed
qed (simp add: number_frac_def)

lemma number_sign_prefix: "r = number_sign r @ drop (length (number_sign r)) r"
  by (cases r) (auto simp: number_sign_def)

lemma number_expo_prefix: "\<exists>z. r = number_expo r @ z"
proof (cases r)
  case (Cons c r')
  define u where "u = drop (length (number_sign r')) r'"
  show ?thesis
  proof (cases "c \<in> {CHR ''e'', CHR ''E''} \<and> takeWhile is_digit u \<noteq> []")
    case True
    have "r' = number_sign r' @ takeWhile is_digit u @ dropWhile is_digit u"
      using number_sign_prefix [of r'] unfolding u_def by simp
    moreover have "number_expo r = c # number_sign r' @ takeWhile is_digit u"
      using True Cons unfolding u_def by (simp add: number_expo_def Let_def)
    ultimately show ?thesis using Cons by (intro exI [of _ "dropWhile is_digit u"]) simp
  next
    case False
    then have "number_expo r = []" using Cons unfolding u_def by (auto simp: number_expo_def Let_def)
    then show ?thesis by simp
  qed
qed (simp add: number_expo_def)

lemma number_expo_head: "number_expo r = c # u \<Longrightarrow> c \<in> {CHR ''e'', CHR ''E''} \<and> hd r = c"
  by (auto simp: number_expo_def Let_def split: list.splits if_splits)

lemma scan_number_append:
  assumes "scan_number L s = Inr (v, r)"
  shows "\<exists>p. s = p @ r \<and> (\<forall>r'. stops r' \<longrightarrow> scan_number L (p @ r') = Inr (v, r'))"
proof -
  define sgn where "sgn = (if prefix ''-'' s then ''-'' else [])"
  define body where "body = (if prefix ''-'' s then tl s else s)"
  define digits where "digits = (if prefix ''0'' body then ''0'' else takeWhile is_digit body)"
  define r1 where "r1 = drop (length digits) body"
  define frac where "frac = number_frac r1"
  define r2 where "r2 = drop (length frac) r1"
  define expo where "expo = number_expo r2"
  have s: "s = sgn @ body" unfolding sgn_def body_def by (auto simp: prefix_def)
  have body: "body = digits @ r1" unfolding digits_def r1_def by (auto simp: prefix_def)
      (metis append_eq_conv_conj takeWhile_dropWhile_id)
  have r1: "r1 = frac @ r2" unfolding frac_def r2_def using number_frac_prefix [of r1] by (metis append_eq_conv_conj)
  have r2: "r2 = expo @ drop (length expo) r2" unfolding expo_def using number_expo_prefix [of r2] by (metis append_eq_conv_conj)
  have ne: "digits \<noteq> []" and r: "r = drop (length expo) r2"
    and res: "Inr (v, r) = (if frac = [] \<and> expo = [] then
        if length digits > 4300 then Inl (ValueError ''Exceeds the limit for integer string conversion'')
        else Inr (PInt ((if prefix ''-'' s then - 1 else 1) * int (dec_val digits)), drop (length expo) r2)
      else Inr (PFloat (float_parse L ((if prefix ''-'' s then ''-'' else []) @ digits @ frac @ expo)), drop (length expo) r2))"
    using assms unfolding scan_number_def Let_def body_def [symmetric] digits_def [symmetric] r1_def [symmetric]
      frac_def [symmetric] r2_def [symmetric] expo_def [symmetric] by (auto split: if_splits)
  have "scan_number L ((sgn @ digits @ frac @ expo) @ r') = Inr (v, r')" if r': "stops r'" for r'
  proof -
    have nodigit: "r' = [] \<or> \<not> is_digit (hd r')" using r' by (auto simp: stops_def split: list.splits)
    have all_digits: "digits = ''0'' \<or> (\<forall>d \<in> set digits. is_digit d)" unfolding digits_def by (auto dest: set_takeWhileD)
    have hd_digit: "is_digit (hd digits)" using all_digits ne by (cases digits) (auto simp: is_digit_def)
    have sign: "prefix ''-'' ((sgn @ digits @ frac @ expo) @ r') \<longleftrightarrow> prefix ''-'' s"
      using ne hd_digit unfolding sgn_def by (cases digits) (auto simp: is_digit_def)
    have e: "number_expo (expo @ r') = expo" using expo_append [of expo "drop (length expo) r2" r'] r' r2 unfolding expo_def by simp
    have tail: "expo @ r' = [] \<or> \<not> is_digit (hd (expo @ r'))" "number_frac (expo @ r') = []"
    proof -
      show "expo @ r' = [] \<or> \<not> is_digit (hd (expo @ r'))"
        using nodigit number_expo_head [of r2] unfolding expo_def by (cases "number_expo r2") (auto simp: is_digit_def)
      show "number_frac (expo @ r') = []"
        using stops_number [OF r'] number_expo_head [of r2] unfolding expo_def
        by (cases "number_expo r2") (auto simp: number_frac_def)
    qed
    have f: "number_frac (frac @ expo @ r') = frac"
    proof (cases frac)
      case Nil
      then show ?thesis using tail(2) by simp
    next
      case (Cons c ds)
      have "number_frac (frac @ r2) = frac" unfolding r1 [symmetric] by (simp add: frac_def)
      then show ?thesis using frac_append [OF _ _ tail(2,1)] Cons by blast
    qed
    have mid: "frac @ expo @ r' = [] \<or> \<not> is_digit (hd (frac @ expo @ r'))"
    proof (cases frac)
      case Nil
      then show ?thesis using tail(1) by simp
    next
      case (Cons c ds)
      then have "c = CHR ''.''" unfolding frac_def by (auto simp: number_frac_def Let_def split: list.splits if_splits)
      then show ?thesis using Cons by (simp add: is_digit_def)
    qed
    have d: "(if prefix ''0'' (digits @ frac @ expo @ r') then ''0'' else takeWhile is_digit (digits @ frac @ expo @ r')) = digits"
    proof (cases "prefix ''0'' body")
      case True
      then show ?thesis by (simp add: digits_def)
    next
      case False
      then have "\<forall>d \<in> set digits. is_digit d" and n0: "\<not> prefix ''0'' digits"
        using body ne unfolding digits_def by (auto dest: set_takeWhileD simp: prefix_def)
      then have "takeWhile is_digit (digits @ frac @ expo @ r') = digits @ takeWhile is_digit (frac @ expo @ r')"
        by (intro takeWhile_append2) simp
      also have "takeWhile is_digit (frac @ expo @ r') = []" using mid by (cases "frac @ expo @ r'") auto
      finally show ?thesis using n0 ne by (cases digits) auto
    qed
    have b: "(if prefix ''-'' s then tl ((sgn @ digits @ frac @ expo) @ r') else (sgn @ digits @ frac @ expo) @ r') = digits @ frac @ expo @ r'"
      unfolding sgn_def by simp
    show ?thesis
      unfolding scan_number_def Let_def sign b d using res r f e ne by (simp split: if_splits)
  qed
  moreover have "s = (sgn @ digits @ frac @ expo) @ r" using s body r1 r2 r by simp
  ultimately show ?thesis by blast
qed

lemma digit_zero: "is_digit (CHR ''0'')"
  by (simp add: is_digit_def)

lemma digit_not: "is_digit c \<Longrightarrow> c \<notin> {CHR ''n'', CHR ''t'', CHR ''f'', CHR ''N'', CHR ''I'', CHR ''-''}"
  by (auto simp: is_digit_def)

lemma scan_number_head:
  "scan_number L s = Inr (v, r) \<Longrightarrow> \<exists>c cs. s = c # cs \<and> (is_digit c \<or> c = CHR ''-'' \<and> (\<exists>d ds. cs = d # ds \<and> is_digit d))"
proof -
  assume a: "scan_number L s = Inr (v, r)"
  define body where "body = (if prefix ''-'' s then tl s else s)"
  have "(if prefix ''0'' body then ''0'' else takeWhile is_digit body) \<noteq> []"
    using a unfolding scan_number_def Let_def body_def [symmetric] by (auto split: if_splits)
  then obtain d ds where "body = d # ds" "is_digit d"
    using digit_zero by (cases body; cases "prefix ''0'' body") (auto split: if_splits)
  then show ?thesis unfolding body_def by (cases s) (auto split: if_splits)
qed

lemma no_literal: "c \<notin> {CHR ''n'', CHR ''t'', CHR ''f''} \<Longrightarrow> scan_literal (c # cs) = None"
  by (auto simp: scan_literal_def)

lemma no_constant:
  "c \<notin> {CHR ''N'', CHR ''I''} \<Longrightarrow> c = CHR ''-'' \<longrightarrow> (\<exists>d ds. cs = d # ds \<and> d \<noteq> CHR ''I'') \<Longrightarrow> scan_constant (c # cs) = None"
  by (auto simp: scan_constant_def)

lemma number_no_word:
  assumes "is_digit c \<or> c = CHR ''-'' \<and> (\<exists>d ds. cs = d # ds \<and> is_digit d)"
  shows "scan_literal (c # cs) = None \<and> scan_constant (c # cs) = None"
  using assms
proof
  assume "is_digit c"
  from digit_not [OF this] show ?thesis by (intro conjI no_literal no_constant) simp_all
next
  assume a: "c = CHR ''-'' \<and> (\<exists>d ds. cs = d # ds \<and> is_digit d)"
  then have "\<exists>d ds. cs = d # ds \<and> d \<noteq> CHR ''I''" using digit_not by blast
  with a show ?thesis by (intro conjI no_literal no_constant) simp_all
qed

lemma scan_atom_append:
  assumes "scan_atom L opts s = Inr (v, r)"
  shows "\<exists>p. s = p @ r \<and> (\<forall>r'. stops r' \<longrightarrow> scan_atom L opts (p @ r') = Inr (v, r'))"
proof (cases "scan_literal s")
  case (Some vr)
  then have vr: "vr = (v, r)" using assms by (simp add: scan_atom_def)
  from Some consider "s = ''null'' @ r" "v = PNone" | "s = ''true'' @ r" "v = PBool True" | "s = ''false'' @ r" "v = PBool False"
    unfolding vr scan_literal_def by (auto simp: prefix_def split: if_splits)
  then show ?thesis
    by cases (rule exI, rule conjI, assumption, simp add: scan_atom_def scan_literal_def)+
next
  case lit: None
  show ?thesis
  proof (cases "scan_constant s")
    case (Some nr)
    then have nr: "snd nr = r" "const_hook opts (fst nr) = Inr v"
      using assms lit by (auto simp: scan_atom_def rbind_Inr_iff split: prod.splits)
    from Some consider "s = ''NaN'' @ r" "fst nr = ''NaN''" | "s = ''Infinity'' @ r" "fst nr = ''Infinity''"
      | "s = ''-Infinity'' @ r" "fst nr = ''-Infinity''"
      unfolding scan_constant_def nr(1) [symmetric] by (auto simp: prefix_def split: if_splits)
    then show ?thesis
      by cases (rule exI, rule conjI, assumption, use nr in \<open>simp add: scan_atom_def scan_literal_def scan_constant_def\<close>)+
  next
    case None
    then have n: "scan_number L s = Inr (v, r)" using assms lit by (simp add: scan_atom_def)
    from scan_number_append [OF n] obtain p where p: "s = p @ r" "\<forall>r'. stops r' \<longrightarrow> scan_number L (p @ r') = Inr (v, r')" by blast
    have "scan_atom L opts (p @ r') = Inr (v, r')" if "stops r'" for r'
    proof -
      have num: "scan_number L (p @ r') = Inr (v, r')" using p(2) that by blast
      then have "scan_literal (p @ r') = None \<and> scan_constant (p @ r') = None"
        using scan_number_head [OF num] number_no_word by metis
      then show ?thesis using num by (simp add: scan_atom_def)
    qed
    with p(1) show ?thesis by blast
  qed
qed

lemma space_stops: "json_space c \<Longrightarrow> stops (c # z)"
  by (auto simp: json_space_def stops_def is_digit_def)

lemma delimiter_stops_char: "c \<in> {CHR '','', CHR '']'', CHR ''}''} \<Longrightarrow> stops (c # z)"
  by (auto simp: stops_def is_digit_def)

lemma delimiter_stops: "skip_ws r = c # r' \<Longrightarrow> c \<in> {CHR '','', CHR '']'', CHR ''}''} \<Longrightarrow> stops r"
  using space_stops delimiter_stops_char by (cases r) (auto split: if_splits)

lemma ws_delimiter_stops: "list_all json_space w \<Longrightarrow> c \<in> {CHR '','', CHR '']'', CHR ''}''} \<Longrightarrow> \<not> json_space c \<Longrightarrow> stops (w @ c # z)"
  by (rule delimiter_stops [of _ c z]) (simp_all add: skip_ws_append)

lemma ws_before:
  assumes "skip_ws s = p @ r" "p \<noteq> []"
  shows "\<exists>w. s = w @ p @ r \<and> (\<forall>z. skip_ws (w @ p @ z) = p @ z)"
proof -
  obtain w where w: "s = w @ skip_ws s" "list_all json_space w" using skip_ws_split by blast
  obtain c p' where c: "p = c # p'" using assms(2) by (cases p) auto
  then have "\<not> json_space c" using assms(1) skip_ws_ConsD skip_ws_fixed by (metis append_Cons)
  then show ?thesis using w assms(1) c by (intro exI [of _ w]) (simp add: skip_ws_append)
qed

lemma ws_before_char: "skip_ws s = c # r \<Longrightarrow> \<exists>w. s = w @ c # r \<and> list_all json_space w \<and> \<not> json_space c"
  using skip_ws_split [of s] skip_ws_ConsD skip_ws_fixed by metis

text \<open>What a scan of a value does on its prefix, whatever follows.\<close>

definition reads :: "(string \<Rightarrow> ('a \<times> string) result) \<Rightarrow> string \<Rightarrow> 'a \<Rightarrow> string \<Rightarrow> bool" where
  "reads f s v r \<longleftrightarrow> (\<exists>p. s = p @ r \<and> p \<noteq> [] \<and> (\<forall>z. stops z \<longrightarrow> f (p @ z) = Inr (v, z)))"

definition closes :: "(string \<Rightarrow> ('a \<times> string) result) \<Rightarrow> string \<Rightarrow> 'a \<Rightarrow> string \<Rightarrow> bool" where
  "closes f s v r \<longleftrightarrow> (\<exists>p. s = p @ r \<and> p \<noteq> [] \<and> (\<forall>z. f (p @ z) = Inr (v, z)))"

lemma member_prefix:
  assumes "quoted s = Inr (k, r1)" "skip_ws r1 = CHR '':'' # r2" "reads f (skip_ws r2) x r3" "skip_ws r3 = e # r4"
    and e: "e \<in> {CHR '','', CHR '']'', CHR ''}''}"
  shows "\<exists>h. s = CHR 0x22 # h @ e # r4 \<and> (\<forall>z. \<exists>y1 y2 y3. quoted (CHR 0x22 # h @ e # z) = Inr (k, y1) \<and> skip_ws y1 = CHR '':'' # y2
    \<and> f (skip_ws y2) = Inr (x, y3) \<and> skip_ws y3 = e # z)"
proof -
  from quoted_append [OF assms(1)] obtain a where a: "s = CHR 0x22 # a @ r1" "\<And>z. quoted (CHR 0x22 # a @ z) = Inr (k, z)" by blast
  from ws_before_char [OF assms(2)] obtain w1 where w1: "r1 = w1 @ CHR '':'' # r2" "list_all json_space w1" by blast
  from assms(3) obtain b where b: "skip_ws r2 = b @ r3" "b \<noteq> []" "\<And>z. stops z \<Longrightarrow> f (b @ z) = Inr (x, z)"
    unfolding reads_def by blast
  from ws_before [OF b(1,2)] obtain w2 where w2: "r2 = w2 @ b @ r3" "\<And>z. skip_ws (w2 @ b @ z) = b @ z" by blast
  from ws_before_char [OF assms(4)] obtain w3 where w3: "r3 = w3 @ e # r4" "list_all json_space w3" "\<not> json_space e" by blast
  have "f (b @ w3 @ e # z) = Inr (x, w3 @ e # z)" for z by (rule b(3) [OF ws_delimiter_stops [OF w3(2) e w3(3)]])
  then show ?thesis using a w1 w2 w3 by (intro exI [of _ "a @ w1 @ CHR '':'' # w2 @ b @ w3"]) (simp add: skip_ws_append)
qed

lemma elem_prefix:
  assumes "reads f s x r1" "skip_ws r1 = e # r2" and e: "e \<in> {CHR '','', CHR '']'', CHR ''}''}"
  shows "\<exists>h. s = h @ e # r2 \<and> h \<noteq> [] \<and> (\<forall>z. \<exists>y. f (h @ e # z) = Inr (x, y) \<and> skip_ws y = e # z)"
proof -
  from assms(1) obtain b where b: "s = b @ r1" "b \<noteq> []" "\<And>z. stops z \<Longrightarrow> f (b @ z) = Inr (x, z)"
    unfolding reads_def by blast
  from ws_before_char [OF assms(2)] obtain w where w: "r1 = w @ e # r2" "list_all json_space w" "\<not> json_space e" by blast
  have "f (b @ w @ e # z) = Inr (x, w @ e # z)" for z by (rule b(3) [OF ws_delimiter_stops [OF w(2) e w(3)]])
  then show ?thesis using b(1,2) w by (intro exI [of _ "b @ w"]) (simp add: skip_ws_append)
qed

lemma members_closes:
  assumes IH: "\<And>s v r. scan L opts n s = Inr (v, r) \<Longrightarrow> reads (scan L opts n) s v r"
    "\<And>s d r. scan_members L opts n s = Inr (d, r) \<Longrightarrow> closes (scan_members L opts n) s d r"
    and run: "scan_members L opts (Suc n) s = Inr (d, r)"
  shows "closes (scan_members L opts (Suc n)) s d r"
proof -
  from run obtain k r1 r2 x r3 e r4 where q: "quoted s = Inr (k, r1)" "skip_ws r1 = CHR '':'' # r2"
    "scan L opts n (skip_ws r2) = Inr (x, r3)" "skip_ws r3 = e # r4"
    and alt: "e = CHR ''}'' \<and> d = [(k, x)] \<and> r = r4
      \<or> e = CHR '','' \<and> (\<exists>d'. scan_members L opts n (skip_ws r4) = Inr (d', r) \<and> d = (k, x) # d')"
    unfolding scan_members_iff by blast
  from alt have "e \<in> {CHR '','', CHR '']'', CHR ''}''}" by blast
  from member_prefix [OF q(1,2) IH(1) [OF q(3)] q(4) this] obtain h where h: "s = CHR 0x22 # h @ e # r4"
    "\<And>z. \<exists>y1 y2 y3. quoted (CHR 0x22 # h @ e # z) = Inr (k, y1) \<and> skip_ws y1 = CHR '':'' # y2
       \<and> scan L opts n (skip_ws y2) = Inr (x, y3) \<and> skip_ws y3 = e # z" by blast
  from alt show ?thesis
  proof (elim disjE conjE exE)
    assume m: "e = CHR ''}''" "d = [(k, x)]" "r = r4"
    have "scan_members L opts (Suc n) (CHR 0x22 # h @ e # z) = Inr (d, z)" for z
      unfolding scan_members_iff using h(2) [of z] m(1,2) by metis
    then show ?thesis unfolding closes_def using h(1) m(3) by (intro exI [of _ "CHR 0x22 # h @ [e]"]) simp
  next
    fix d'
    assume m: "e = CHR '',''" "scan_members L opts n (skip_ws r4) = Inr (d', r)" "d = (k, x) # d'"
    from IH(2) [OF m(2)] obtain p where p: "skip_ws r4 = p @ r" "p \<noteq> []" "\<And>z. scan_members L opts n (p @ z) = Inr (d', z)"
      unfolding closes_def by blast
    from ws_before [OF p(1,2)] obtain w where w: "r4 = w @ p @ r" "\<And>z. skip_ws (w @ p @ z) = p @ z" by blast
    have "scan_members L opts (Suc n) (CHR 0x22 # h @ e # w @ p @ z) = Inr (d, z)" for z
      unfolding scan_members_iff using h(2) [of "w @ p @ z"] w(2) p(3) m(1,3) by metis
    then show ?thesis unfolding closes_def using h(1) w(1) by (intro exI [of _ "CHR 0x22 # h @ e # w @ p"]) simp
  qed
qed

lemma elems_closes:
  assumes IH: "\<And>s v r. scan L opts n s = Inr (v, r) \<Longrightarrow> reads (scan L opts n) s v r"
    "\<And>s d r. scan_elems L opts n s = Inr (d, r) \<Longrightarrow> closes (scan_elems L opts n) s d r"
    and run: "scan_elems L opts (Suc n) s = Inr (xs, r)"
  shows "closes (scan_elems L opts (Suc n)) s xs r"
proof -
  from run obtain x r1 e r2 where q: "scan L opts n s = Inr (x, r1)" "skip_ws r1 = e # r2"
    and alt: "e = CHR '']'' \<and> xs = [x] \<and> r = r2
      \<or> e = CHR '','' \<and> (\<exists>ys. scan_elems L opts n (skip_ws r2) = Inr (ys, r) \<and> xs = x # ys)"
    unfolding scan_elems_iff by blast
  from alt have "e \<in> {CHR '','', CHR '']'', CHR ''}''}" by blast
  from elem_prefix [OF IH(1) [OF q(1)] q(2) this] obtain h where h: "s = h @ e # r2" "h \<noteq> []"
    "\<And>z. \<exists>y. scan L opts n (h @ e # z) = Inr (x, y) \<and> skip_ws y = e # z" by blast
  from alt show ?thesis
  proof (elim disjE conjE exE)
    assume m: "e = CHR '']''" "xs = [x]" "r = r2"
    have "scan_elems L opts (Suc n) (h @ e # z) = Inr (xs, z)" for z
      unfolding scan_elems_iff using h(3) [of z] m(1,2) by metis
    then show ?thesis unfolding closes_def using h(1) m(3) by (intro exI [of _ "h @ [e]"]) simp
  next
    fix ys
    assume m: "e = CHR '',''" "scan_elems L opts n (skip_ws r2) = Inr (ys, r)" "xs = x # ys"
    from IH(2) [OF m(2)] obtain p where p: "skip_ws r2 = p @ r" "p \<noteq> []" "\<And>z. scan_elems L opts n (p @ z) = Inr (ys, z)"
      unfolding closes_def by blast
    from ws_before [OF p(1,2)] obtain w where w: "r2 = w @ p @ r" "\<And>z. skip_ws (w @ p @ z) = p @ z" by blast
    have "scan_elems L opts (Suc n) (h @ e # w @ p @ z) = Inr (xs, z)" for z
      unfolding scan_elems_iff using h(3) [of "w @ p @ z"] w(2) p(3) m(1,3) by metis
    then show ?thesis unfolding closes_def using h(1) w(1) by (intro exI [of _ "h @ e # w @ p"]) simp
  qed
qed

lemma object_iff:
  "scan L opts (Suc n) (CHR ''{'' # cs) = Inr (v, r) \<longleftrightarrow>
     (\<exists>e r1 pairs d. skip_ws cs = e # r1 \<and> (if e = CHR ''}'' then pairs = [] \<and> r = r1 else scan_members L opts n (e # r1) = Inr (pairs, r))
        \<and> pairs_hook opts pairs = Inr d \<and> v = PDict d)"
  by (cases "skip_ws cs") (auto simp: scan.simps rbind_Inr_iff next_token_def)

lemma array_iff:
  "scan L opts (Suc n) (CHR ''['' # cs) = Inr (v, r) \<longleftrightarrow>
     (\<exists>e r1 xs. skip_ws cs = e # r1 \<and> (if e = CHR '']'' then xs = [] \<and> r = r1 else scan_elems L opts n (e # r1) = Inr (xs, r))
        \<and> v = PList xs)"
  by (cases "skip_ws cs") (auto simp: scan.simps rbind_Inr_iff next_token_def)

lemma string_iff: "scan L opts (Suc n) (CHR 0x22 # cs) = Inr (v, r) \<longleftrightarrow> (\<exists>t. scan_chars cs = Inr (t, r) \<and> v = PStr t)"
  by (auto simp: scan.simps rbind_Inr_iff)

lemma bracket_reads:
  assumes "skip_ws cs = e # r1" "e = b \<and> r = r1 \<or> e \<noteq> b \<and> closes f (e # r1) d r"
  shows "\<exists>p. cs = p @ r \<and> (\<forall>z. \<exists>z1. skip_ws (p @ z) = e # z1 \<and> (e = b \<and> z1 = z \<or> e \<noteq> b \<and> f (e # z1) = Inr (d, z)))"
proof -
  from ws_before_char [OF assms(1)] obtain w where w: "cs = w @ e # r1" "list_all json_space w" "\<not> json_space e" by blast
  from assms(2) show ?thesis
  proof (elim disjE conjE)
    assume "e = b" "r = r1"
    then show ?thesis using w by (intro exI [of _ "w @ [e]"]) (simp add: skip_ws_append)
  next
    assume "e \<noteq> b" "closes f (e # r1) d r"
    then obtain p where p: "e # r1 = p @ r" "p \<noteq> []" "\<And>z. f (p @ z) = Inr (d, z)" unfolding closes_def by blast
    then obtain p' where "p = e # p'" by (cases p) auto
    then show ?thesis using w p \<open>e \<noteq> b\<close> by (intro exI [of _ "w @ p"]) (auto simp: skip_ws_append)
  qed
qed

lemma value_reads:
  assumes IH: "\<And>s d r. scan_members L opts n s = Inr (d, r) \<Longrightarrow> closes (scan_members L opts n) s d r"
    "\<And>s d r. scan_elems L opts n s = Inr (d, r) \<Longrightarrow> closes (scan_elems L opts n) s d r"
    and run: "scan L opts (Suc n) s = Inr (v, r)"
  shows "reads (scan L opts (Suc n)) s v r"
proof -
  from run obtain c cs where s: "s = c # cs" by (cases s) auto
  consider "c = CHR 0x22" | "c = CHR ''{''" | "c = CHR ''[''" | "c \<notin> {CHR 0x22, CHR ''{'', CHR ''[''}" by blast
  then show ?thesis
  proof cases
    case q: 1
    then obtain t where "scan_chars cs = Inr (t, r)" "v = PStr t" using run s by (auto simp: string_iff)
    with scan_chars_append [of cs t r] obtain p where "cs = p @ r" "\<forall>r'. scan_chars (p @ r') = Inr (t, r')" by blast
    then show ?thesis unfolding reads_def using q s \<open>v = PStr t\<close> by (intro exI [of _ "c # p"]) (simp add: string_iff)
  next
    case o: 2
    then obtain e r1 pairs d where e: "skip_ws cs = e # r1"
      "if e = CHR ''}'' then pairs = [] \<and> r = r1 else scan_members L opts n (e # r1) = Inr (pairs, r)"
      "pairs_hook opts pairs = Inr d" "v = PDict d" using run s by (auto simp: object_iff)
    then have "e = CHR ''}'' \<and> r = r1 \<or> e \<noteq> CHR ''}'' \<and> closes (scan_members L opts n) (e # r1) pairs r"
      using IH(1) by (auto split: if_splits)
    from bracket_reads [OF e(1) this] obtain p where
      "cs = p @ r" "\<And>z. \<exists>z1. skip_ws (p @ z) = e # z1 \<and> (e = CHR ''}'' \<and> z1 = z \<or> e \<noteq> CHR ''}'' \<and> scan_members L opts n (e # z1) = Inr (pairs, z))"
      by blast
    moreover have "scan L opts (Suc n) (c # p @ z) = Inr (v, z)" for z
      unfolding o object_iff using calculation(2) [of z] e by (auto split: if_splits)
    ultimately show ?thesis unfolding reads_def using s by (intro exI [of _ "c # p"]) simp
  next
    case a: 3
    then obtain e r1 xs where e: "skip_ws cs = e # r1"
      "if e = CHR '']'' then xs = [] \<and> r = r1 else scan_elems L opts n (e # r1) = Inr (xs, r)"
      "v = PList xs" using run s by (auto simp: array_iff)
    then have "e = CHR '']'' \<and> r = r1 \<or> e \<noteq> CHR '']'' \<and> closes (scan_elems L opts n) (e # r1) xs r"
      using IH(2) by (auto split: if_splits)
    from bracket_reads [OF e(1) this] obtain p where
      "cs = p @ r" "\<And>z. \<exists>z1. skip_ws (p @ z) = e # z1 \<and> (e = CHR '']'' \<and> z1 = z \<or> e \<noteq> CHR '']'' \<and> scan_elems L opts n (e # z1) = Inr (xs, z))"
      by blast
    moreover have "scan L opts (Suc n) (c # p @ z) = Inr (v, z)" for z
      unfolding a array_iff using calculation(2) [of z] e by (auto split: if_splits)
    ultimately show ?thesis unfolding reads_def using s by (intro exI [of _ "c # p"]) simp
  next
    case 4
    then have "scan_atom L opts s = Inr (v, r)" using run s by (simp add: scan.simps)
    from scan_atom_append [OF this] obtain p where p: "s = p @ r" "\<forall>r'. stops r' \<longrightarrow> scan_atom L opts (p @ r') = Inr (v, r')" by blast
    have "p \<noteq> []" using scan_length(1) [OF run] p(1) by auto
    then obtain p' where "p = c # p'" using p(1) s by (cases p) auto
    then show ?thesis unfolding reads_def using p 4 by (intro exI [of _ p]) (simp add: scan.simps)
  qed
qed

lemma scan_reads:
  "scan L opts n s = Inr (v, r) \<Longrightarrow> reads (scan L opts n) s v r"
  "scan_members L opts n s = Inr (d, r) \<Longrightarrow> closes (scan_members L opts n) s d r"
  "scan_elems L opts n s = Inr (xs, r) \<Longrightarrow> closes (scan_elems L opts n) s xs r"
proof (induction n arbitrary: s v r d xs)
  case 0
  { case 1 then show ?case by simp next
    case 2 then show ?case by simp next
    case 3 then show ?case by simp }
next
  case (Suc n)
  { case 1 show ?case by (rule value_reads [OF Suc.IH(2,3) 1]) next
    case 2 show ?case by (rule members_closes [OF Suc.IH(1,2) 2]) next
    case 3 show ?case by (rule elems_closes [OF Suc.IH(1,3) 3]) }
qed

section \<open>Replacing a token\<close>

text \<open>A text that scans as one scalar value in front of every delimiter.\<close>

definition fits :: "pylib \<Rightarrow> string \<Rightarrow> pyval \<Rightarrow> bool" where
  "fits L t w \<longleftrightarrow> (\<exists>c cs. t = c # cs \<and> \<not> json_space c) \<and> (\<forall>n y. stops y \<longrightarrow> scan L strict_opts (Suc n) (t @ y) = Inr (w, y))"

text \<open>The token with these two places in \<open>s\<close> may be replaced: \<open>P\<close> holds of the new text.\<close>

definition placed :: "pylib \<Rightarrow> string \<Rightarrow> nat \<Rightarrow> nat \<Rightarrow> (string \<Rightarrow> pyval \<Rightarrow> bool) \<Rightarrow> bool" where
  "placed L s a b P \<longleftrightarrow> (\<exists>x t y. s = x @ t @ y \<and> a = length (t @ y) \<and> b = length y \<and> (\<forall>t' w. fits L t' w \<longrightarrow> P (x @ t' @ y) w))"

lemma placed_prefix:
  assumes "placed L s a b P" "\<And>s' w. P s' w \<Longrightarrow> Q (h @ s') w"
  shows "placed L (h @ s) a b Q"
proof -
  from assms(1) obtain x t y where "s = x @ t @ y" "a = length (t @ y)" "b = length y" "\<And>t' w. fits L t' w \<Longrightarrow> P (x @ t' @ y) w"
    unfolding placed_def by blast
  then show ?thesis unfolding placed_def using assms(2) by (intro exI [of _ "h @ x"] exI [of _ t] exI [of _ y]) simp
qed

abbreviation set_items :: "jobject \<Rightarrow> string \<Rightarrow> path_key list \<Rightarrow> pyval \<Rightarrow> jobject" where
  "set_items d k ks w \<equiv> dict_update k (\<lambda>v. set_path v ks w) d"

lemma dict_update_fst [simp]: "map fst (dict_update k f d) = map fst d"
  by (induction d) auto

lemma dict_update_same: "map_of d k = Some v \<Longrightarrow> f v = v \<Longrightarrow> dict_update k f d = d"
  by (induction d) (auto split: if_splits)

lemma no_duplicates_Inr:
  "no_duplicates acc d' = Inr d \<Longrightarrow> d = acc @ d' \<and> distinct (map fst d') \<and> (\<forall>k \<in> fst ` set d'. \<not> dhas acc k)"
proof (induction d' arbitrary: acc)
  case (Cons kv d')
  obtain k v where kv: "kv = (k, v)" by (cases kv)
  with Cons.prems have "\<not> dhas acc k" "no_duplicates (acc @ [(k, v)]) d' = Inr d" by (auto simp: rbind_Inr_iff ensure_iff)
  with Cons.IH [OF this(2)] kv show ?case by (auto simp: dhas_def)
qed simp

lemma doc_members_items:
  assumes "doc_members L n s path acc = Inr ((d, sp), r)"
  obtains pairs where "d = acc @ pairs" "scan_members L strict_opts n s = Inr (pairs, r)" "distinct (map fst pairs)"
    "\<And>k. k \<in> fst ` set pairs \<Longrightarrow> \<not> dhas acc k"
  using assms scan_decodes(2) [of L n s path acc d r] no_duplicates_Inr by blast

definition value_edits :: "pylib \<Rightarrow> nat \<Rightarrow> bool" where
  "value_edits L n \<longleftrightarrow> (\<forall>s path v sp r q a b. doc_value L n s path = Inr ((v, sp), r) \<longrightarrow> stops r \<longrightarrow> (q, a, b) \<in> set sp \<longrightarrow>
     (\<exists>ks. q = path @ ks \<and> placed L s a b (\<lambda>s' w. scan L strict_opts n (skip_ws s') = Inr (set_path v ks w, r))))"

definition member_edits :: "pylib \<Rightarrow> nat \<Rightarrow> bool" where
  "member_edits L n \<longleftrightarrow> (\<forall>s path acc d sp r q a b. doc_members L n s path acc = Inr ((d, sp), r) \<longrightarrow> (q, a, b) \<in> set sp \<longrightarrow>
     (\<exists>k ks pairs. q = path @ Key k # ks \<and> d = acc @ pairs \<and> k \<in> fst ` set pairs
        \<and> placed L s a b (\<lambda>s' w. prefix [CHR 0x22] s' \<and> scan_members L strict_opts n s' = Inr (set_items pairs k ks w, r))))"

definition elem_edits :: "pylib \<Rightarrow> nat \<Rightarrow> bool" where
  "elem_edits L n \<longleftrightarrow> (\<forall>s path i xs sp r q a b. doc_elems L n s path i = Inr ((xs, sp), r) \<longrightarrow> skip_ws s = s \<longrightarrow> (q, a, b) \<in> set sp \<longrightarrow>
     (\<exists>j ks. q = path @ Index (i + j) # ks \<and> j < length xs
        \<and> placed L s a b (\<lambda>s' w. skip_ws s' = s' \<and> s' \<noteq> [] \<and> scan_elems L strict_opts n s' = Inr (xs[j := set_path (xs ! j) ks w], r))))"

lemma member_edit:
  assumes V: "value_edits L n" and M: "member_edits L n"
  shows "member_edits L (Suc n)"
  unfolding member_edits_def
proof (intro allI impI)
  fix s path acc d sp r q a b
  assume run: "doc_members L (Suc n) s path acc = Inr ((d, sp), r)" and mem: "(q, a, b) \<in> set sp"
  let ?P = "\<lambda>pairs k ks s' w. prefix [CHR 0x22] s' \<and> scan_members L strict_opts (Suc n) s' = Inr (set_items pairs k ks w, r)"
  let ?goal = "\<exists>k ks pairs. q = path @ Key k # ks \<and> d = acc @ pairs \<and> k \<in> fst ` set pairs \<and> placed L s a b (?P pairs k ks)"
  from run obtain k r1 r2 x spans r3 e r4 where st: "quoted s = Inr (k, r1)" "\<not> dhas acc k" "skip_ws r1 = CHR '':'' # r2"
    "doc_value L n r2 (path @ [Key k]) = Inr ((x, spans), r3)" "skip_ws r3 = e # r4"
    and alt: "e = CHR ''}'' \<and> d = acc @ [(k, x)] \<and> sp = spans \<and> r = r4
      \<or> e = CHR '','' \<and> (\<exists>more. doc_members L n (skip_ws r4) path (acc @ [(k, x)]) = Inr ((d, more), r) \<and> sp = spans @ more)"
    unfolding doc_members_iff by blast
  from alt have e: "e \<in> {CHR '','', CHR '']'', CHR ''}''}" by blast
  have "\<exists>pairs. d = acc @ (k, x) # pairs \<and> k \<notin> fst ` set pairs \<and> (e = CHR ''}'' \<and> pairs = [] \<and> r = r4
      \<or> e = CHR '','' \<and> scan_members L strict_opts n (skip_ws r4) = Inr (pairs, r))"
    using alt by (auto simp: dhas_def elim!: doc_members_items)
  then obtain pairs where pairs: "d = acc @ (k, x) # pairs" "k \<notin> fst ` set pairs"
    "e = CHR ''}'' \<and> pairs = [] \<and> r = r4 \<or> e = CHR '','' \<and> scan_members L strict_opts n (skip_ws r4) = Inr (pairs, r)" by blast
  show ?goal
  proof (cases "(q, a, b) \<in> set spans")
    case True
    from V [unfolded value_edits_def, rule_format, OF st(4) delimiter_stops [OF st(5) e] True] obtain ks where
      ks: "q = (path @ [Key k]) @ ks" "placed L r2 a b (\<lambda>s' w. scan L strict_opts n (skip_ws s') = Inr (set_path x ks w, r3))" by blast
    from quoted_append [OF st(1)] obtain u where u: "s = CHR 0x22 # u @ r1" "\<And>z. quoted (CHR 0x22 # u @ z) = Inr (k, z)" by blast
    from ws_before_char [OF st(3)] obtain w1 where w1: "r1 = w1 @ CHR '':'' # r2" "list_all json_space w1" by blast
    have "?P ((k, x) # pairs) k ks ((CHR 0x22 # u @ w1 @ [CHR '':'']) @ s') w"
      if "scan L strict_opts n (skip_ws s') = Inr (set_path x ks w, r3)" for s' w
      unfolding scan_members_iff using that u(2) w1(2) st(5) pairs(2,3)
      by (auto simp: skip_ws_append json_space_def)
    from placed_prefix [OF ks(2), of "?P ((k, x) # pairs) k ks", OF this] have
      "placed L s a b (?P ((k, x) # pairs) k ks)" using u(1) w1(1) by simp
    then show ?goal using ks(1) pairs(1)
      by (intro exI [of _ k] exI [of _ ks] exI [of _ "(k, x) # pairs"]) simp
  next
    case False
    with mem alt obtain more where m: "e = CHR '',''" "doc_members L n (skip_ws r4) path (acc @ [(k, x)]) = Inr ((d, more), r)" "(q, a, b) \<in> set more"
      by auto
    from M [unfolded member_edits_def, rule_format, OF m(2,3)] obtain k' ks pairs' where
      ks: "q = path @ Key k' # ks" "d = (acc @ [(k, x)]) @ pairs'" "k' \<in> fst ` set pairs'"
        "placed L (skip_ws r4) a b (\<lambda>s' w. prefix [CHR 0x22] s' \<and> scan_members L strict_opts n s' = Inr (set_items pairs' k' ks w, r))" by blast
    then have same: "pairs' = pairs" "k' \<noteq> k" using pairs(1,2) by auto
    have "scan L strict_opts n (skip_ws r2) = Inr (x, r3)" using st(4) scan_decodes(1) by blast
    from member_prefix [OF st(1,3) scan_reads(1) [OF this] st(5) e] obtain h where h: "s = CHR 0x22 # h @ e # r4"
      "\<And>z. \<exists>y1 y2 y3. quoted (CHR 0x22 # h @ e # z) = Inr (k, y1) \<and> skip_ws y1 = CHR '':'' # y2
        \<and> scan L strict_opts n (skip_ws y2) = Inr (x, y3) \<and> skip_ws y3 = e # z" by blast
    obtain w4 where w4: "r4 = w4 @ skip_ws r4" "list_all json_space w4" using skip_ws_split by blast
    have "?P ((k, x) # pairs) k' ks ((CHR 0x22 # h @ e # w4) @ s') w"
      if "prefix [CHR 0x22] s' \<and> scan_members L strict_opts n s' = Inr (set_items pairs' k' ks w, r)" for s' w
    proof -
      have "skip_ws (w4 @ s') = s'" using that w4(2) by (auto simp: prefix_def skip_ws_append json_space_def)
      then show ?thesis unfolding scan_members_iff using that h(2) [of "w4 @ s'"] m(1) same
        by simp metis
    qed
    from placed_prefix [OF ks(4), of "?P ((k, x) # pairs) k' ks", OF this] have
      "placed L s a b (?P ((k, x) # pairs) k' ks)" using h(1) w4(1) by simp
    then show ?goal using ks(1,3) pairs(1) same(1)
      by (intro exI [of _ k'] exI [of _ ks] exI [of _ "(k, x) # pairs"]) simp
  qed
qed

lemma fits_skip: "fits L t w \<Longrightarrow> skip_ws (t @ y) = t @ y"
  by (auto simp: fits_def)

lemma placed_start:
  assumes "placed L s a b P" "skip_ws s = s" "s \<noteq> []"
  shows "placed L s a b (\<lambda>s' w. P s' w \<and> skip_ws s' = s' \<and> s' \<noteq> [])"
proof -
  from assms(1) obtain x t y where p: "s = x @ t @ y" "a = length (t @ y)" "b = length y" "\<And>t' w. fits L t' w \<Longrightarrow> P (x @ t' @ y) w"
    unfolding placed_def by blast
  have "skip_ws (x @ t' @ y) = x @ t' @ y \<and> x @ t' @ y \<noteq> []" if "fits L t' w" for t' w
  proof (cases x)
    case Nil
    then show ?thesis using fits_skip [OF that] that by (auto simp: fits_def)
  next
    case (Cons c x')
    then have "\<not> json_space c" using p(1) assms(2) skip_ws_fixed by (metis append_Cons)
    then show ?thesis using Cons by simp
  qed
  with p show ?thesis unfolding placed_def by (intro exI [of _ x] exI [of _ t] exI [of _ y]) simp
qed

lemma elem_edit:
  assumes V: "value_edits L n" and E: "elem_edits L n"
  shows "elem_edits L (Suc n)"
  unfolding elem_edits_def
proof (intro allI impI)
  fix s path i xs sp r q a b
  assume run: "doc_elems L (Suc n) s path i = Inr ((xs, sp), r)" and trim: "skip_ws s = s" and mem: "(q, a, b) \<in> set sp"
  let ?P = "\<lambda>j ks s' w. skip_ws s' = s' \<and> s' \<noteq> [] \<and> scan_elems L strict_opts (Suc n) s' = Inr (xs[j := set_path (xs ! j) ks w], r)"
  let ?goal = "\<exists>j ks. q = path @ Index (i + j) # ks \<and> j < length xs \<and> placed L s a b (?P j ks)"
  from run obtain x spans r1 e r2 where st: "doc_value L n s (path @ [Index i]) = Inr ((x, spans), r1)" "skip_ws r1 = e # r2"
    and alt: "e = CHR '']'' \<and> xs = [x] \<and> sp = spans \<and> r = r2
      \<or> e = CHR '','' \<and> (\<exists>ys more. doc_elems L n (skip_ws r2) path (Suc i) = Inr ((ys, more), r) \<and> xs = x # ys \<and> sp = spans @ more)"
    unfolding doc_elems_iff by blast
  from alt have e: "e \<in> {CHR '','', CHR '']'', CHR ''}''}" by blast
  have scan: "scan L strict_opts n s = Inr (x, r1)" using st(1) scan_decodes(1) trim by metis
  then have ne: "s \<noteq> []" using scan_length(1) by fastforce
  have rest: "\<exists>ys. xs = x # ys \<and> (e = CHR '']'' \<and> ys = [] \<and> r = r2 \<or> e = CHR '','' \<and> scan_elems L strict_opts n (skip_ws r2) = Inr (ys, r))"
    using alt scan_decodes(3) [OF skip_ws_idem] by blast
  show ?goal
  proof (cases "(q, a, b) \<in> set spans")
    case True
    from V [unfolded value_edits_def, rule_format, OF st(1) delimiter_stops [OF st(2) e] True] obtain ks where
      ks: "q = (path @ [Index i]) @ ks" "placed L s a b (\<lambda>s' w. scan L strict_opts n (skip_ws s') = Inr (set_path x ks w, r1))" by blast
    have new: "?P 0 ks ([] @ s') w" if "scan L strict_opts n (skip_ws s') = Inr (set_path x ks w, r1) \<and> skip_ws s' = s' \<and> s' \<noteq> []" for s' w
      unfolding scan_elems_iff using that st(2) rest by auto
    have "placed L ([] @ s) a b (?P 0 ks)" by (rule placed_prefix [OF placed_start [OF ks(2) trim ne]], rule new)
    then have "placed L s a b (?P 0 ks)" by simp
    then show ?goal using ks(1) rest by (intro exI [of _ 0] exI [of _ ks]) auto
  next
    case False
    with mem alt obtain ys more where m: "e = CHR '',''" "doc_elems L n (skip_ws r2) path (Suc i) = Inr ((ys, more), r)" "xs = x # ys" "(q, a, b) \<in> set more"
      by auto
    from E [unfolded elem_edits_def, rule_format, OF m(2) skip_ws_idem m(4)] obtain j ks where
      ks: "q = path @ Index (Suc i + j) # ks" "j < length ys"
        "placed L (skip_ws r2) a b (\<lambda>s' w. skip_ws s' = s' \<and> s' \<noteq> [] \<and> scan_elems L strict_opts n s' = Inr (ys[j := set_path (ys ! j) ks w], r))" by blast
    from elem_prefix [OF scan_reads(1) [OF scan] st(2) e] obtain h where h: "s = h @ e # r2" "h \<noteq> []"
      "\<And>z. \<exists>y. scan L strict_opts n (h @ e # z) = Inr (x, y) \<and> skip_ws y = e # z" by blast
    obtain w4 where w4: "r2 = w4 @ skip_ws r2" "list_all json_space w4" using skip_ws_split by blast
    obtain c h' where "h = c # h'" "\<not> json_space c" using h(1,2) trim skip_ws_fixed by (cases h) auto
    then have h_skip: "skip_ws (h @ z) = h @ z" for z by simp
    have "?P (Suc j) ks ((h @ e # w4) @ s') w"
      if "skip_ws s' = s' \<and> s' \<noteq> [] \<and> scan_elems L strict_opts n s' = Inr (ys[j := set_path (ys ! j) ks w], r)" for s' w
    proof -
      have "skip_ws (w4 @ s') = s'" using that w4(2) by (simp add: skip_ws_append)
      then show ?thesis unfolding scan_elems_iff using that h(3) [of "w4 @ s'"] m(1,3) h_skip h(2) by simp metis
    qed
    from placed_prefix [OF ks(3), of "?P (Suc j) ks", OF this] have "placed L s a b (?P (Suc j) ks)" using h(1) w4(1) by simp
    then show ?goal using ks(1,2) m(3) by (intro exI [of _ "Suc j"] exI [of _ ks]) simp
  qed
qed

lemma scalar_rest:
  assumes "raw_decode L plain_opts s = Inr (v, r)" "s = c # cs" "c \<noteq> CHR ''{''" "c \<noteq> CHR ''[''"
  shows "\<exists>p. s = p @ r"
proof -
  have "raw_decode L strict_opts s = Inr (v, r)" using assms raw_decode_scalar by simp
  then show ?thesis using scan_reads(1) unfolding raw_decode_def reads_def by blast
qed

lemma scan_elems_bracket: "scan_elems L opts n (CHR '']'' # z) \<noteq> Inr x"
proof (cases n)
  case (Suc m)
  have "scan L opts m (CHR '']'' # z) \<noteq> Inr y" for y
    by (cases m) (auto simp: scan.simps scan_atom_def scan_literal_def scan_constant_def scan_number_def Let_def is_digit_def)
  then show ?thesis using Suc by (auto simp: scan_elems.simps(2) rbind_Inr_iff)
qed simp

lemma value_edit:
  assumes M: "member_edits L n" and E: "elem_edits L n"
  shows "value_edits L (Suc n)"
  unfolding value_edits_def
proof (intro allI impI)
  fix s path v sp r q a b
  assume run: "doc_value L (Suc n) s path = Inr ((v, sp), r)" and r: "stops r" and mem: "(q, a, b) \<in> set sp"
  let ?P = "\<lambda>ks s' w. scan L strict_opts (Suc n) (skip_ws s') = Inr (set_path v ks w, r)"
  let ?goal = "\<exists>ks. q = path @ ks \<and> placed L s a b (?P ks)"
  from run obtain c cs where c: "skip_ws s = c # cs" by (auto simp: value_eq rbind_Inr_iff doc_token_iff)
  from ws_before_char [OF c] obtain ws where ws: "s = ws @ c # cs" "list_all json_space ws" "\<not> json_space c" by blast
  obtain ws2 where ws2: "cs = ws2 @ skip_ws cs" "list_all json_space ws2" using skip_ws_split by blast
  consider "c = CHR ''{''" | "c = CHR ''[''" | "c \<noteq> CHR ''{''" "c \<noteq> CHR ''[''" by blast
  then show ?goal
  proof cases
    case o: 1
    with run mem c obtain d where d: "doc_members L n (skip_ws cs) path [] = Inr ((d, sp), r)" "v = PDict d"
      by (auto simp: value_eq doc_token_def rbind_Inr_iff Let_def split: if_splits)
    from M [unfolded member_edits_def, rule_format, OF d(1) mem] obtain k ks where
      ks: "q = path @ Key k # ks" "placed L (skip_ws cs) a b (\<lambda>s' w. prefix [CHR 0x22] s' \<and> scan_members L strict_opts n s' = Inr (set_items d k ks w, r))"
      by auto
    from d(1) obtain pairs where "d = [] @ pairs" "distinct (map fst pairs)" by (rule doc_members_items)
    then have hook: "no_duplicates [] (set_items d k ks w) = Inr (set_items d k ks w)" for w
      using no_duplicates_distinct [of "[]"] by simp
    have "?P (Key k # ks) ((ws @ c # ws2) @ s') w"
      if a: "prefix [CHR 0x22] s' \<and> scan_members L strict_opts n s' = Inr (set_items d k ks w, r)" for s' w
    proof -
      obtain z where z: "s' = CHR 0x22 # z" using a by (cases s') auto
      have "skip_ws (ws @ c # ws2 @ s') = c # ws2 @ s'" "skip_ws (ws2 @ s') = CHR 0x22 # z"
        using ws(2,3) ws2(2) z by (simp_all add: skip_ws_append json_space_def)
      then show ?thesis using a z o d(2) hook by (auto simp: object_iff)
    qed
    from placed_prefix [OF ks(2), of "?P (Key k # ks)", OF this] have "placed L s a b (?P (Key k # ks))" using ws(1) ws2(1) by simp
    then show ?goal using ks(1) by blast
  next
    case l: 2
    with run mem c obtain xs where d: "doc_elems L n (skip_ws cs) path 0 = Inr ((xs, sp), r)" "v = PList xs"
      and open_list: "\<not> prefix '']'' (skip_ws cs)"
      by (auto simp: value_eq doc_token_def rbind_Inr_iff Let_def split: if_splits)
    from E [unfolded elem_edits_def, rule_format, OF d(1) skip_ws_idem mem] obtain j ks where
      ks: "q = path @ Index j # ks" "placed L (skip_ws cs) a b (\<lambda>s' w. skip_ws s' = s' \<and> s' \<noteq> []
        \<and> scan_elems L strict_opts n s' = Inr (xs[j := set_path (xs ! j) ks w], r))" by auto
    have "?P (Index j # ks) ((ws @ c # ws2) @ s') w"
      if a: "skip_ws s' = s' \<and> s' \<noteq> [] \<and> scan_elems L strict_opts n s' = Inr (xs[j := set_path (xs ! j) ks w], r)" for s' w
    proof -
      obtain e z where z: "s' = e # z" using a by (cases s') auto
      have "e \<noteq> CHR '']''" using a z scan_elems_bracket by blast
      moreover have "skip_ws (ws @ c # ws2 @ s') = c # ws2 @ s'" "skip_ws (ws2 @ s') = e # z"
        using ws(2,3) ws2(2) a z by (simp_all add: skip_ws_append)
      ultimately show ?thesis using a z l d(2) by (auto simp: array_iff)
    qed
    from placed_prefix [OF ks(2), of "?P (Index j # ks)", OF this] have "placed L s a b (?P (Index j # ks))" using ws(1) ws2(1) by simp
    then show ?goal using ks(1) by blast
  next
    case 3
    with run mem c have d: "raw_decode L plain_opts (c # cs) = Inr (v, r)" "q = path" "a = length (c # cs)" "b = length r"
      by (auto simp: value_eq doc_token_def rbind_Inr_iff)
    from scalar_rest [OF d(1) refl 3] obtain p where p: "c # cs = p @ r" by blast
    have "?P [] (ws @ t' @ r) w" if "fits L t' w" for t' w
      using that r fits_skip [OF that] ws(2) by (simp add: skip_ws_append fits_def)
    then have "placed L s a b (?P [])"
      unfolding placed_def using ws(1) p d(3,4) by (intro exI [of _ ws] exI [of _ p] exI [of _ r]) simp
    then show ?goal using d(2) by (intro exI [of _ "[]"]) simp
  qed
qed

lemma token_edits: "value_edits L n \<and> member_edits L n \<and> elem_edits L n"
proof (induction n)
  case 0
  show ?case by (simp add: value_edits_def member_edits_def elem_edits_def)
next
  case (Suc n)
  then show ?case using value_edit member_edit elem_edit by blast
qed

section \<open>Whole documents\<close>

lemma scan_fuel_up:
  "scan L opts n s = Inr (v, r) \<Longrightarrow> scan L opts (Suc n) s = Inr (v, r)"
  "scan_members L opts n s = Inr (d, r) \<Longrightarrow> scan_members L opts (Suc n) s = Inr (d, r)"
  "scan_elems L opts n s = Inr (xs, r) \<Longrightarrow> scan_elems L opts (Suc n) s = Inr (xs, r)"
proof (induction n arbitrary: s v r d xs)
  case 0
  { case 1 then show ?case by simp next
    case 2 then show ?case by simp next
    case 3 then show ?case by simp }
next
  case (Suc n)
  { case 1
    then obtain c cs where s: "s = c # cs" by (cases s) auto
    consider "c = CHR ''{''" | "c = CHR ''[''" | "c \<noteq> CHR ''{''" "c \<noteq> CHR ''[''" by blast
    then show ?case
    proof cases
      case 1
      then show ?thesis using \<open>scan L opts (Suc n) s = Inr (v, r)\<close> Suc.IH(2) unfolding s 1 object_iff by metis
    next
      case 2
      then show ?thesis using \<open>scan L opts (Suc n) s = Inr (v, r)\<close> Suc.IH(3) unfolding s 2 array_iff by metis
    next
      case 3
      then show ?thesis using \<open>scan L opts (Suc n) s = Inr (v, r)\<close> by (simp add: s scan.simps split: if_splits)
    qed
  next
    case 2
    then obtain k r1 r2 w r3 e r4 where "quoted s = Inr (k, r1)" "skip_ws r1 = CHR '':'' # r2"
      "scan L opts n (skip_ws r2) = Inr (w, r3)" "skip_ws r3 = e # r4"
      "e = CHR ''}'' \<and> d = [(k, w)] \<and> r = r4
        \<or> e = CHR '','' \<and> (\<exists>d'. scan_members L opts n (skip_ws r4) = Inr (d', r) \<and> d = (k, w) # d')"
      unfolding scan_members_iff [of L opts n] by blast
    then show ?case unfolding scan_members_iff [of L opts "Suc n"] using Suc.IH(1) [of "skip_ws r2" w r3] Suc.IH(2)
      by (intro exI [of _ k] exI [of _ r1] exI [of _ r2] exI [of _ w] exI [of _ r3] exI [of _ e] exI [of _ r4]) blast
  next
    case 3
    then obtain w r1 e r2 where "scan L opts n s = Inr (w, r1)" "skip_ws r1 = e # r2"
      "e = CHR '']'' \<and> xs = [w] \<and> r = r2 \<or> e = CHR '','' \<and> (\<exists>ys. scan_elems L opts n (skip_ws r2) = Inr (ys, r) \<and> xs = w # ys)"
      unfolding scan_elems_iff [of L opts n] by blast
    then show ?case unfolding scan_elems_iff [of L opts "Suc n"] using Suc.IH(1) [of s w r1] Suc.IH(3)
      by (intro exI [of _ w] exI [of _ r1] exI [of _ e] exI [of _ r2]) blast }
qed

lemma scan_raw_decode:
  assumes "scan L opts n s = Inr (v, r)"
  shows "raw_decode L opts s = Inr (v, r)"
proof -
  have "scan L opts (k + n) s = Inr (v, r)" for k using assms scan_fuel_up(1) by (induction k) auto
  from this [of "Suc (2 * length s)"] show ?thesis using scan_fuel [of s "Suc (2 * length s) + n" L opts] by simp
qed

lemma blank_stops: "skip_ws r = [] \<Longrightarrow> stops r"
  using space_stops by (cases r) (auto simp: stops_def split: if_splits)

lemma document_loads:
  assumes "json_document L raw = Inr (txt, data, spans)"
  shows "txt = raw" "utf8_ok False raw" "loads_text L strict_opts raw = Inr data"
proof -
  from assms obtain sp r where d: "txt = raw" "utf8_ok False raw" "doc_value L (Suc (2 * length raw)) raw [] = Inr ((data, sp), r)" "skip_ws r = []"
    by (auto simp: json_document_def rbind_Inr_iff ensure_iff require_def)
  from d(3) have "scan L strict_opts (Suc (2 * length raw)) (skip_ws raw) = Inr (data, r)" using scan_decodes(1) by blast
  from scan_raw_decode [OF this] show "txt = raw" "utf8_ok False raw" "loads_text L strict_opts raw = Inr data"
    using d by (simp_all add: loads_text_def)
qed

lemma loads_document:
  assumes "utf8_ok False raw" "loads_text L strict_opts raw = Inr data"
  shows "\<exists>spans. json_document L raw = Inr (raw, data, spans)"
proof -
  from assms(2) obtain r where r: "raw_decode L strict_opts (skip_ws raw) = Inr (data, r)" "skip_ws r = []"
    by (auto simp: loads_text_def rbind_Inr_iff split: if_splits)
  have "scan L strict_opts (Suc (2 * length raw)) (skip_ws raw) = Inr (data, r)"
    using r(1) skip_ws_length [of raw] scan_fuel [of "skip_ws raw" "Suc (2 * length raw)" L strict_opts] by simp
  then obtain sp where "doc_value L (Suc (2 * length raw)) raw [] = Inr ((data, sp), r)" using scan_decodes(1) by blast
  then show ?thesis using assms(1) r(2) by (simp add: json_document_def ensure_def require_def)
qed

lemma splice_parts: "splice (x @ t @ y) (length (x @ t @ y) - length (t @ y), length (x @ t @ y) - length y, t') = x @ t' @ y"
  by (simp add: splice_def)

lemma document_edit:
  assumes "json_document L raw = Inr (txt, data, spans)" "(q, start, stop) \<in> set spans" "fits L t w"
  shows "loads_text L strict_opts (splice raw (start, stop, t)) = Inr (set_path data q w)"
proof -
  let ?n = "Suc (2 * length raw)"
  from assms(1) obtain sp r where d: "doc_value L ?n raw [] = Inr ((data, sp), r)" "skip_ws r = []"
    "spans = map (\<lambda>(p, a, b). (p, length raw - a, length raw - b)) sp"
    by (auto simp: json_document_def rbind_Inr_iff ensure_iff require_def)
  from d(3) assms(2) obtain a b where sp: "(q, a, b) \<in> set sp" "start = length raw - a" "stop = length raw - b" by auto
  from token_edits [THEN conjunct1, unfolded value_edits_def, rule_format, OF d(1) blank_stops [OF d(2)] sp(1)]
  obtain x t0 y where p: "raw = x @ t0 @ y" "a = length (t0 @ y)" "b = length y"
    "scan L strict_opts ?n (skip_ws (x @ t @ y)) = Inr (set_path data q w, r)"
    using assms(3) unfolding placed_def by auto
  have "splice raw (start, stop, t) = x @ t @ y" using sp(2,3) p(1-3) splice_parts by metis
  then show ?thesis using scan_raw_decode [OF p(4)] d(2) by (simp add: loads_text_def)
qed

section \<open>Edits\<close>

lemma scan_raw_char: "scan_chars (raw_char c @ x) = rbind (scan_chars x) (\<lambda>(t, r). Inr (c # t, r))"
proof (cases "127 \<le> (of_char c :: nat)")
  case True
  then have "c \<noteq> CHR 0x22" "c \<noteq> CHR 0x5C" by auto
  then show ?thesis using True by (simp add: raw_char_def)
next
  case False
  then show ?thesis by (simp add: raw_char_def scan_json_char)
qed

lemma scan_raw_chars: "scan_chars (concat (map raw_char s) @ CHR 0x22 # r) = Inr (s, r)"
  by (induction s) (simp_all add: scan_raw_char)

lemma int_token_fits:
  assumes "small_int i"
  shows "fits L (int_str i) (PInt i)"
proof -
  obtain c cs where c: "int_str i = c # cs" "int_char c" using int_str_Cons by blast
  then have "c \<notin> {CHR 0x22, CHR ''{'', CHR ''[''}" "\<not> json_space c"
    by (auto simp: int_char_def is_digit_def json_space_def)
  then show ?thesis using c(1) scan_atom_int [OF _ assms] by (auto simp: fits_def scan.simps)
qed

definition small :: "pyval \<Rightarrow> bool" where
  "small v \<longleftrightarrow> (case v of PInt i \<Rightarrow> small_int i | PStr s \<Rightarrow> True | _ \<Rightarrow> False)"

lemma token_fits: "small v \<Longrightarrow> fits L (json_token v) v"
proof (cases v)
  case (PStr t)
  then show ?thesis by (auto simp: json_token_def fits_def json_space_def string_iff scan_raw_chars as_str_def)
next
  case (PInt i)
  then show "small v \<Longrightarrow> ?thesis" by (simp add: small_def json_token_def int_token_fits)
qed (simp_all add: small_def)

lemma set_path_same: "get_path v p = Inr w \<Longrightarrow> set_path v p w = v"
  by (induction v p rule: get_path.induct) (auto simp: dict_update_same split: option.splits if_splits)

lemma scalar_Inr: "scalar value old = Inr w \<Longrightarrow> (\<exists>s. old = PStr s \<and> (\<exists>t. w = PStr t)) \<or> (\<exists>i j. old = PInt i \<and> w = PInt j \<and> value = PInt j)"
  by (cases old; cases "value") (auto simp: scalar_def rbind_Inr_iff require_def ensure_iff split: if_splits)

text \<open>What an edit of the field \<open>p\<close> does to a document.\<close>

definition edited :: "pylib \<Rightarrow> string \<Rightarrow> path_key list \<Rightarrow> pyval \<Rightarrow> string \<Rightarrow> pyval list \<Rightarrow> bool" where
  "edited L raw p value result previous \<longleftrightarrow>
     (\<exists>data old replacement. loads_text L strict_opts raw = Inr data \<and> get_path data p = Inr old \<and> previous = [old]
        \<and> scalar value old = Inr replacement \<and> loads_text L strict_opts result = Inr (set_path data p replacement))"

lemma single_edit:
  assumes doc: "json_document L raw = Inr (txt, data, spans)" and field: "json_field_edit data spans value p = Inr (old, es)"
    and int: "is_int value \<Longrightarrow> small value"
  shows "edited L raw p value (foldl splice txt (rev (sort_key fst es))) [old]"
proof -
  note raw = document_loads(1,3) [OF doc]
  from field obtain start stop w where f: "get_path data p = Inr old" "map_of spans p = Some (start, stop)" "scalar value old = Inr w"
    "es = (if py_eq old w then [] else [(start, stop, json_token w)])"
    by (auto simp: json_field_edit_def rbind_Inr_iff split: option.splits)
  have kinds: "(\<exists>s. old = PStr s \<and> (\<exists>t. w = PStr t)) \<or> (\<exists>i j. old = PInt i \<and> w = PInt j \<and> value = PInt j)"
    using scalar_Inr [OF f(3)] .
  have "loads_text L strict_opts (foldl splice raw (rev (sort_key fst es))) = Inr (set_path data p w)"
  proof (cases "py_eq old w")
    case True
    then have "old = w" using kinds by (auto simp: float_eq.simps)
    then show ?thesis using f True raw(2) set_path_same by simp
  next
    case False
    have "small w" using kinds int by (auto simp: small_def)
    from document_edit [OF doc map_of_SomeD [OF f(2)] token_fits [OF this]] False f(4) show ?thesis by simp
  qed
  then show ?thesis unfolding edited_def using raw f(1,3) by blast
qed

text \<open>
  C40: an edit of a JSON document replaces the owned field and nothing else. When \<open>_json_edit\<close> succeeds on a plain JSON
  declaration, the document decodes (with duplicate keys rejected), the reported previous value is the one at the
  field, and the edited text decodes to the same document with only that field replaced by the
  projected value, written as a string or an integer like the old one.
\<close>

theorem json_edit_exact:
  assumes edit: "json_edit L raw item value = Inr (result, previous)"
    and plain: "dget item ''format'' PNone \<noteq> PStr ''npm-lock''" and small: "small value"
  shows "\<exists>field. field_of (dget item ''field'' PNone) = Inr field \<and> edited L raw (keys field) value result previous"
proof -
  from edit obtain doc data spans selected found where e: "json_document L raw = Inr (doc, data, spans)"
    "json_fields data item = Inr selected" "rmap (json_field_edit data spans value) selected = Inr found"
    "result = foldl splice doc (rev (sort_key fst (concat (map snd found))))" "previous = map fst found"
    by (auto simp: json_edit_def rbind_Inr_iff)
  from e(2) plain obtain field where f: "field_of (dget item ''field'' PNone) = Inr field" "selected = [keys field]"
    by (auto simp: json_fields_def rbind_Inr_iff ditem_def dget_def split: option.splits)
  from e(3) f(2) obtain old es where "found = [(old, es)]" "json_field_edit data spans value (keys field) = Inr (old, es)"
    by (auto simp: rbind_Inr_iff)
  with single_edit [OF e(1)] small e(4,5) f(1) show ?thesis by auto
qed

definition demo_item :: jobject where
  "demo_item = [(''format'', PStr ''json''), (''field'', PStr ''v'')]"

definition demo_json :: "string \<Rightarrow> string" where
  "demo_json v = [CHR ''{'', CHR 0x22, CHR ''v'', CHR 0x22, CHR '':'', CHR 0x22] @ v @ [CHR 0x22, CHR ''}'']"

lemma demo_scalar: "raw_decode demo_lib plain_opts [CHR 0x22, CHR ''1'', CHR 0x22, CHR ''}''] = Inr (PStr ''1'', ''}'')"
  by (simp add: raw_decode_Cons)

lemma demo_members:
  "doc_members demo_lib (Suc (Suc n)) (tl (demo_json ''1'')) [] [] = Inr (([(''v'', PStr ''1'')], [([Key ''v''], 4, 1)]), [])"
  unfolding doc_members_iff
  by (intro exI [of _ "''v''"] exI [of _ "drop 4 (demo_json ''1'')"] exI [of _ "drop 5 (demo_json ''1'')"] exI [of _ "PStr ''1''"]
      exI [of _ "[([Key ''v''], 4, 1)]"] exI [of _ "''}''"] exI [of _ "CHR ''}''"] exI [of _ "[]"])
     (simp add: demo_json_def quoted_def dhas_def json_space_def value_eq doc_token_def demo_scalar)

lemma demo_root:
  "doc_value demo_lib (Suc (Suc (Suc n))) (demo_json ''1'') [] = Inr ((PDict [(''v'', PStr ''1'')], [([Key ''v''], 4, 1)]), [])"
  using demo_members [of n] by (simp add: value_eq doc_token_def demo_json_def json_space_def)

lemma demo_document:
  "json_document demo_lib (demo_json ''1'') = Inr (demo_json ''1'', PDict [(''v'', PStr ''1'')], [([Key ''v''], 5, 8)])"
proof -
  have "Suc (2 * length (demo_json ''1'')) = Suc (Suc (Suc 16))" by (simp add: demo_json_def)
  moreover have "utf8_ok False (demo_json ''1'')" by code_simp
  ultimately show ?thesis using demo_root [of 16] by (simp add: json_document_def ensure_def require_def demo_json_def)
qed

theorem json_edit_exact_witness: "edited demo_lib (demo_json ''1'') [Key ''v''] (PStr ''2'') (demo_json ''2'') [PStr ''1'']"
proof -
  have "json_edit demo_lib (demo_json ''1'') demo_item (PStr ''2'') = Inr (demo_json ''2'', [PStr ''1''])"
    unfolding json_edit_def demo_document
    by (simp add: json_fields_def demo_item_def dget_def ditem_def dhas_def field_of_def split_on.simps keys_def json_field_edit_def
      scalar_def require_def ensure_def as_str_def json_token_def raw_char_def json_char_def splice_def demo_json_def)
  moreover have "dget demo_item ''format'' PNone \<noteq> PStr ''npm-lock''" by code_simp
  moreover have "small (PStr ''2'')" by (simp add: small_def)
  moreover have "field_of (dget demo_item ''field'' PNone) = Inr [''v'']" by code_simp
  ultimately show ?thesis using json_edit_exact [of demo_lib "demo_json ''1''" demo_item "PStr ''2''"] by (auto simp: keys_def)
qed

end
