(* ===== verification/OciMetadata.thy ===== *)
theory OciMetadata
  imports JsonDoc VersionReceipt
begin

text \<open>
  \<open>_OciMetadata\<close> of \<open>scripts/version_plan.py\<close>: the digest graph of an OCI image archive is walked from its index to
  the configuration of every image, every metadata blob is checked against the digest that names it, and the version
  field of every configuration is compared. The archive is the list of members \<open>tarfile\<close> iterates over; the fields of
  the class that change are the record \<open>oci\<close>, and its methods are state passing over it. A walk gets the levels the
  depth limit leaves.
\<close>

section \<open>Archives\<close>

datatype tar_kind = TarFile | TarDirectory | TarOther

text \<open>A member with the size its header gives and the bytes that can be read.\<close>

record tar_member =
  tm_name :: string
  tm_kind :: tar_kind
  tm_size :: int
  tm_data :: string

function strip_dots :: "string \<Rightarrow> string" where
  "strip_dots s = (if prefix ''./'' s then strip_dots (drop 2 s) else s)"
  by pat_completeness auto
termination
  by (relation "measure length") (auto dest: prefix_length_le)

declare strip_dots.simps [simp del]

definition archive_name :: "string \<Rightarrow> string option" where
  "archive_name name = (case relative (PStr (strip_dots name)) of Inl e \<Rightarrow> None | Inr parts \<Rightarrow> Some (strip_dots name))"

fun archive_members :: "nat \<Rightarrow> (string \<times> tar_member) list \<Rightarrow> tar_member list \<Rightarrow> (string \<times> tar_member) list result" where
  "archive_members n members [] = Inr members"
| "archive_members n members (entry # entries) =
     rbind (require (n < 100000) ''OCI archive has too many members'') (\<lambda>_.
     if tm_kind entry = TarDirectory then archive_members (Suc n) members entries
     else
       (case archive_name (tm_name entry) of
          None \<Rightarrow> Inl (VersionError ''Unsafe or duplicate OCI archive member'')
        | Some name \<Rightarrow>
            rbind (require (name \<notin> fst ` set members) ''Unsafe or duplicate OCI archive member'') (\<lambda>_.
            archive_members (Suc n) (members @ [(name, entry)]) entries)))"

section \<open>State\<close>

type_synonym descriptor_key = "pyval \<times> pyval \<times> pyval"

record oci =
  oc_images :: "jobject list"
  oc_verified :: "string list"
  oc_runnable :: "(descriptor_key \<times> string \<times> string) list"
  oc_subjects :: "(descriptor_key \<times> pyval) list"
  oc_legacy :: "string list"
  oc_visited :: nat
  oc_bytes :: int

definition oci_init :: oci where
  "oci_init = \<lparr>oc_images = [], oc_verified = [], oc_runnable = [], oc_subjects = [], oc_legacy = [], oc_visited = 0, oc_bytes = 0\<rparr>"

text \<open>What does not change: the archive, the field and the expected version.\<close>

record oci_check =
  ok_members :: "(string \<times> tar_member) list"
  ok_field :: "path_key list"
  ok_expected :: string

definition oci_update :: "(oci \<Rightarrow> oci) \<Rightarrow> (oci, unit) io" where
  "oci_update f st = (Inr (), f st)"

definition oci_get :: "(oci \<Rightarrow> 'a) \<Rightarrow> (oci, 'a) io" where
  "oci_get f st = (Inr (f st), st)"

section \<open>Media types\<close>

definition index_types :: "string list" where
  "index_types = [''application/vnd.oci.image.index.v1+json'', ''application/vnd.docker.distribution.manifest.list.v2+json'']"

definition oci_manifest_type :: string where
  "oci_manifest_type = ''application/vnd.oci.image.manifest.v1+json''"

definition manifest_types :: "string list" where
  "manifest_types = [oci_manifest_type, ''application/vnd.docker.distribution.manifest.v2+json'']"

definition config_types :: "string list" where
  "config_types = [''application/vnd.oci.image.config.v1+json'', ''application/vnd.docker.container.image.v1+json'']"

definition attestation_type :: string where
  "attestation_type = ''application/vnd.docker.attestation.manifest.v1+json''"

definition empty_config_type :: string where
  "empty_config_type = ''application/vnd.oci.empty.v1+json''"

definition layer_type :: string where
  "layer_type = ''application/vnd.in-toto+json''"

definition empty_config_digest :: "pylib \<Rightarrow> string" where
  "empty_config_digest L = ''sha256:'' @ digest L ''{}''"

section \<open>Blobs\<close>

definition oci_read :: "oci_check \<Rightarrow> string \<Rightarrow> (oci, string) io" where
  "oci_read C name =
     (case map_of (ok_members C) name of
        None \<Rightarrow> ilift (Inl (VersionError ''Missing or oversized OCI metadata''))
      | Some entry \<Rightarrow>
          ibind (ilift (require (tm_kind entry = TarFile \<and> 0 < tm_size entry \<and> tm_size entry \<le> MAX_METADATA) ''Missing or oversized OCI metadata'')) (\<lambda>_.
          let raw = take (nat (MAX_METADATA + 1)) (tm_data entry) in
          ibind (ilift (require (int (length raw) = tm_size entry) ''Truncated OCI metadata'')) (\<lambda>_.
          ibind (oci_update (\<lambda>st. st\<lparr>oc_bytes := oc_bytes st + int (length raw)\<rparr>)) (\<lambda>_.
          ibind (oci_get oc_bytes) (\<lambda>total.
          ibind (ilift (require (total \<le> 32000000) ''OCI metadata exceeds aggregate limit'')) (\<lambda>_.
          ireturn raw))))))"

definition digest_rx :: rx where
  "digest_rx = SeqOf [Word ''sha256:'', Rep 64 (Cls is_hex)]"

definition blob_name :: "string \<Rightarrow> string" where
  "blob_name identity = ''blobs/sha256/'' @ drop 7 identity"

text \<open>The descriptor as an object with the digest it names, after the blob was found with its size.\<close>

definition find_blob :: "oci_check \<Rightarrow> pyval \<Rightarrow> (jobject \<times> string) result" where
  "find_blob C descriptor =
     rbind (dict_of descriptor ''OCI descriptor must be an object'') (\<lambda>d.
     rbind (require (matches_str digest_rx (dget d ''digest'' (PStr []))) ''OCI descriptor requires a sha256 digest'') (\<lambda>_.
     let identity = as_str (dget d ''digest'' (PStr [])) in
     case dget d ''size'' PNone of
       PInt n \<Rightarrow>
         rbind (require (0 \<le> n) ''Invalid OCI descriptor size'') (\<lambda>_.
         case map_of (ok_members C) (blob_name identity) of
           None \<Rightarrow> Inl (VersionError ''OCI descriptor blob is missing or has a different size'')
         | Some entry \<Rightarrow>
             rbind (require (tm_kind entry = TarFile \<and> tm_size entry = n) ''OCI descriptor blob is missing or has a different size'') (\<lambda>_.
             Inr (d, identity)))
     | _ \<Rightarrow> Inl (VersionError ''Invalid OCI descriptor size'')))"

text \<open>\<open>blob(descriptor, metadata=False)\<close>, and \<open>blob(descriptor)\<close> with the decoded object.\<close>

definition present_blob :: "oci_check \<Rightarrow> pyval \<Rightarrow> (oci, unit) io" where
  "present_blob C descriptor = ibind (ilift (find_blob C descriptor)) (\<lambda>_. ireturn ())"

definition oci_blob :: "pylib \<Rightarrow> oci_check \<Rightarrow> pyval \<Rightarrow> (oci, jobject) io" where
  "oci_blob L C descriptor =
     ibind (ilift (find_blob C descriptor)) (\<lambda>(d, identity).
     ibind (oci_read C (blob_name identity)) (\<lambda>raw.
     ibind (ilift (require (digest L raw = drop 7 identity) ''OCI metadata digest mismatch'')) (\<lambda>_.
     ibind (oci_update (\<lambda>st. st\<lparr>oc_verified := oc_verified st @ [identity]\<rparr>)) (\<lambda>_.
     ibind (ilift (json_document L raw)) (\<lambda>(text_body, data, spans).
     ilift (dict_of data ''OCI metadata must be an object''))))))"

definition key_of_descriptor :: "jobject \<Rightarrow> descriptor_key" where
  "key_of_descriptor d = (dget d ''mediaType'' PNone, dget d ''digest'' PNone, dget d ''size'' PNone)"

section \<open>Attestations\<close>

text \<open>\<open>v in {None, s}\<close>.\<close>

definition none_or :: "pyval \<Rightarrow> string \<Rightarrow> bool result" where
  "none_or v s = (if v = PNone then Inr True else in_strs v [s])"

definition unknown_platform :: "jobject \<Rightarrow> bool" where
  "unknown_platform d \<longleftrightarrow> dget d ''os'' PNone = PStr ''unknown'' \<and> dget d ''architecture'' PNone = PStr ''unknown''"

text \<open>The config of an attestation with an artifact type is the empty object, inline data included.\<close>

definition empty_config :: "pylib \<Rightarrow> pyval \<Rightarrow> bool" where
  "empty_config L v \<longleftrightarrow>
     (case v of
        PDict c \<Rightarrow> dget c ''mediaType'' PNone = PStr empty_config_type \<and> dget c ''digest'' PNone = PStr (empty_config_digest L)
          \<and> py_eq (dget c ''size'' PNone) (PInt 2) \<and> (dhas c ''data'' \<longrightarrow> dget c ''data'' PNone = PStr ''e30='')
      | _ \<Rightarrow> False)"

definition attestation_subject :: "pyval \<Rightarrow> jobject result" where
  "attestation_subject v =
     (case v of
        PDict s \<Rightarrow> rbind (require (dget s ''mediaType'' PNone = PStr oci_manifest_type \<and> \<not> dhas s ''artifactType'') ''Invalid OCI attestation subject'') (\<lambda>_. Inr s)
      | _ \<Rightarrow> Inl (VersionError ''Invalid OCI attestation subject''))"

definition artifact_attestation :: "pylib \<Rightarrow> oci_check \<Rightarrow> jobject \<Rightarrow> jobject \<Rightarrow> pyval \<Rightarrow> pyval \<Rightarrow> (oci, unit) io" where
  "artifact_attestation L C descriptor data config reference =
     ibind (ilift (if dget data ''artifactType'' PNone = PStr attestation_type \<and> dget descriptor ''mediaType'' PNone = PStr oci_manifest_type
       then none_or (dget descriptor ''artifactType'' PNone) attestation_type else Inr False)) (\<lambda>ok.
     ibind (ilift (require ok ''Invalid OCI attestation artifact type'')) (\<lambda>_.
     ibind (ilift (require (empty_config L config) ''Invalid OCI attestation config'')) (\<lambda>_.
     ibind (oci_blob L C config) (\<lambda>contents.
     ibind (ilift (require (contents = []) ''Invalid OCI attestation config contents'')) (\<lambda>_.
     ibind (ilift (attestation_subject (dget data ''subject'' PNone))) (\<lambda>subject.
     ibind (present_blob C (PDict subject)) (\<lambda>_.
     ibind (ilift (require (dget subject ''platform'' PNone = PNone \<or> is_dict (dget subject ''platform'' PNone)) ''Invalid OCI attestation subject platform'')) (\<lambda>_.
     ibind (ilift (require (reference = PNone \<or> reference = dget subject ''digest'' PNone) ''OCI attestation reference differs from subject'')) (\<lambda>_.
     oci_update (\<lambda>st. st\<lparr>oc_subjects := oc_subjects st @ [(key_of_descriptor subject, dget subject ''platform'' PNone)]\<rparr>))))))))))"

definition legacy_attestation :: "pylib \<Rightarrow> oci_check \<Rightarrow> jobject \<Rightarrow> pyval \<Rightarrow> pyval \<Rightarrow> (oci, unit) io" where
  "legacy_attestation L C descriptor config reference =
     ibind (ilift (case config of
         PDict c \<Rightarrow> if dget descriptor ''artifactType'' PNone = PNone then in_strs (dget c ''mediaType'' PNone) config_types else Inr False
       | _ \<Rightarrow> Inr False)) (\<lambda>ok.
     ibind (ilift (require ok ''Invalid OCI attestation config'')) (\<lambda>_.
     ibind (oci_blob L C config) (\<lambda>details.
     ibind (ilift (require (unknown_platform details) ''OCI attestation contains a runnable image'')) (\<lambda>_.
     if reference = PNone then ireturn ()
     else oci_update (\<lambda>st. st\<lparr>oc_legacy := oc_legacy st @ [as_str reference]\<rparr>)))))"

definition attestation_layers :: "pyval \<Rightarrow> pyval list result" where
  "attestation_layers v =
     (case v of
        PList layers \<Rightarrow> rbind (require (layers \<noteq> [] \<and> length layers \<le> 4096) ''Invalid OCI attestation layers'') (\<lambda>_. Inr layers)
      | _ \<Rightarrow> Inl (VersionError ''Invalid OCI attestation layers''))"

definition attestation_layer :: "pyval \<Rightarrow> bool" where
  "attestation_layer layer \<longleftrightarrow> (case layer of PDict l \<Rightarrow> dget l ''mediaType'' PNone = PStr layer_type | _ \<Rightarrow> False)"

definition oci_attestation :: "pylib \<Rightarrow> oci_check \<Rightarrow> jobject \<Rightarrow> jobject \<Rightarrow> jobject \<Rightarrow> jobject \<Rightarrow> (oci, unit) io" where
  "oci_attestation L C descriptor data platform annotations =
     (let reference = dget annotations ''vnd.docker.reference.digest'' PNone in
      ibind (ilift (in_strs (dget descriptor ''mediaType'' PNone) manifest_types)) (\<lambda>ok.
      ibind (ilift (if ok \<and> unknown_platform platform then none_or (dget annotations ''vnd.docker.reference.type'' PNone) ''attestation-manifest'' else Inr False)) (\<lambda>ok.
      ibind (ilift (require ok ''Ambiguous OCI attestation descriptor'')) (\<lambda>_.
      ibind (ilift (require (reference = PNone \<or> matches_str digest_rx reference) ''Invalid OCI attestation reference digest'')) (\<lambda>_.
      ibind (if dget data ''artifactType'' PNone \<noteq> PNone
             then artifact_attestation L C descriptor data (dget data ''config'' PNone) reference
             else legacy_attestation L C descriptor (dget data ''config'' PNone) reference) (\<lambda>_.
      ibind (ilift (attestation_layers (dget data ''layers'' PNone))) (\<lambda>layers.
      iiter (\<lambda>layer.
        ibind (ilift (require (attestation_layer layer) ''Unsupported OCI attestation layer'')) (\<lambda>_.
        present_blob C layer)) layers)))))))"

section \<open>Images\<close>

text \<open>\<open>str(value) == expected\<close>. A list or an object prints with a closing bracket, which no version ends with.\<close>

definition shows_as :: "pylib \<Rightarrow> pyval \<Rightarrow> string \<Rightarrow> bool" where
  "shows_as L v expected \<longleftrightarrow>
     (case v of
        PStr s \<Rightarrow> s = expected
      | PInt n \<Rightarrow> int_str n = expected
      | PFloat f \<Rightarrow> float_repr L f = expected
      | PBool b \<Rightarrow> (if b then ''True'' else ''False'') = expected
      | PNone \<Rightarrow> ''None'' = expected
      | _ \<Rightarrow> False)"

definition platform_part :: "jobject \<Rightarrow> jobject \<Rightarrow> string \<Rightarrow> string result" where
  "platform_part details platform key =
     (case dget details key PNone of
        PStr s \<Rightarrow>
          rbind (require (s \<notin> {'''', ''unknown''}) ''OCI runnable image has no platform identity'') (\<lambda>_.
          rbind (require (dhas platform key \<longrightarrow> dget platform key PNone = PStr s) ''OCI platform descriptor differs from config'') (\<lambda>_.
          Inr s))
      | _ \<Rightarrow> Inl (VersionError ''OCI runnable image has no platform identity''))"

definition image_config :: "pyval \<Rightarrow> jobject result" where
  "image_config v =
     (case v of
        PDict c \<Rightarrow>
          rbind (in_strs (dget c ''mediaType'' PNone) config_types) (\<lambda>ok.
          rbind (require ok ''OCI image requires a supported config descriptor'') (\<lambda>_. Inr c))
      | _ \<Rightarrow> Inl (VersionError ''OCI image requires a supported config descriptor''))"

definition image_layers :: "pyval \<Rightarrow> pyval list result" where
  "image_layers v =
     (case v of
        PList layers \<Rightarrow> rbind (require (length layers \<le> 4096) ''Invalid OCI layer inventory'') (\<lambda>_. Inr layers)
      | _ \<Rightarrow> Inl (VersionError ''Invalid OCI layer inventory''))"

definition image_record :: "jobject \<Rightarrow> string \<Rightarrow> string \<Rightarrow> string \<Rightarrow> jobject" where
  "image_record config os arch expected =
     [(''config_sha256'', PStr (drop 7 (as_str (dget config ''digest'' PNone)))), (''os'', PStr os), (''architecture'', PStr arch), (''version'', PStr expected)]"

definition add_image :: "oci_check \<Rightarrow> jobject \<Rightarrow> jobject \<Rightarrow> string \<Rightarrow> string \<Rightarrow> (oci, unit) io" where
  "add_image C descriptor config os arch =
     oci_update (\<lambda>st. st\<lparr>oc_runnable := (key_of_descriptor descriptor, os, arch) # oc_runnable st,
       oc_images := oc_images st @ [image_record config os arch (ok_expected C)]\<rparr>)"

definition oci_runnable :: "pylib \<Rightarrow> oci_check \<Rightarrow> jobject \<Rightarrow> jobject \<Rightarrow> jobject \<Rightarrow> (oci, unit) io" where
  "oci_runnable L C descriptor data platform =
     ibind (ilift (in_strs (dget descriptor ''mediaType'' PNone) manifest_types)) (\<lambda>ok.
     ibind (ilift (require ok ''Unsupported OCI descriptor media type'')) (\<lambda>_.
     ibind (ilift (image_config (dget data ''config'' PNone))) (\<lambda>config.
     ibind (oci_blob L C (PDict config)) (\<lambda>details.
     ibind (ilift (platform_part details platform ''os'')) (\<lambda>os.
     ibind (ilift (platform_part details platform ''architecture'')) (\<lambda>arch.
     ibind (ilift (get_path (PDict details) (ok_field C))) (\<lambda>actual.
     ibind (ilift (require (shows_as L actual (ok_expected C)) ''OCI image version mismatch'')) (\<lambda>_.
     ibind (ilift (image_layers (dget data ''layers'' PNone))) (\<lambda>layers.
     ibind (iiter (present_blob C) layers) (\<lambda>_.
     add_image C descriptor config os arch))))))))))"

section \<open>The walk\<close>

definition index_manifests :: "pyval \<Rightarrow> pyval list result" where
  "index_manifests v =
     (case v of
        PList manifests \<Rightarrow> rbind (require (manifests \<noteq> [] \<and> length manifests \<le> 1024) ''OCI index requires a bounded manifest list'') (\<lambda>_. Inr manifests)
      | _ \<Rightarrow> Inl (VersionError ''OCI index requires a bounded manifest list''))"

definition object_or_empty :: "jobject \<Rightarrow> string \<Rightarrow> string \<Rightarrow> jobject result" where
  "object_or_empty d key message = (let v = dget d key PNone in if truthy v then dict_of v message else Inr [])"

text \<open>One descriptor, with the walk of its children.\<close>

definition oci_node :: "pylib \<Rightarrow> oci_check \<Rightarrow> (pyval \<Rightarrow> (oci, unit) io) \<Rightarrow> pyval \<Rightarrow> (oci, unit) io" where
  "oci_node L C walk v =
     ibind (oci_blob L C v) (\<lambda>data.
     ibind (ilift (dict_of v ''OCI descriptor must be an object'')) (\<lambda>descriptor.
     let media = dget descriptor ''mediaType'' PNone in
     ibind (ilift (require (py_eq (dget data ''schemaVersion'' PNone) (PInt 2) \<and> py_eq (dget data ''mediaType'' media) media)
       ''OCI manifest schema or media type mismatch'')) (\<lambda>_.
     ibind (ilift (object_or_empty descriptor ''platform'' ''Invalid OCI platform descriptor'')) (\<lambda>platform.
     ibind (ilift (object_or_empty descriptor ''annotations'' ''Invalid OCI annotations'')) (\<lambda>annotations.
     if dget annotations ''vnd.docker.reference.type'' PNone = PStr ''attestation-manifest'' \<or> dget data ''artifactType'' PNone = PStr attestation_type
     then oci_attestation L C descriptor data platform annotations
     else
       ibind (ilift (in_strs media index_types)) (\<lambda>index.
       if index then ibind (ilift (index_manifests (dget data ''manifests'' PNone))) (\<lambda>manifests. iiter walk manifests)
       else oci_runnable L C descriptor data platform))))))"

definition oci_visit :: "(oci, unit) io" where
  "oci_visit =
     ibind (oci_update (\<lambda>st. st\<lparr>oc_visited := Suc (oc_visited st)\<rparr>)) (\<lambda>_.
     ibind (oci_get oc_visited) (\<lambda>visited.
     ilift (require (visited \<le> 1024) ''OCI metadata graph exceeds limits'')))"

text \<open>A walk at depth \<open>d\<close> has \<open>9 - d\<close> levels left; the code fails below depth 8.\<close>

primrec oci_walk :: "pylib \<Rightarrow> oci_check \<Rightarrow> nat \<Rightarrow> pyval \<Rightarrow> (oci, unit) io" where
  "oci_walk L C 0 v = ibind (oci_update (\<lambda>st. st\<lparr>oc_visited := Suc (oc_visited st)\<rparr>)) (\<lambda>_.
     ilift (Inl (VersionError ''OCI metadata graph exceeds limits'')))"
| "oci_walk L C (Suc levels) v = ibind oci_visit (\<lambda>_. oci_node L C (oci_walk L C levels) v)"

section \<open>\<open>verify\<close>\<close>

definition oci_object :: "pylib \<Rightarrow> string \<Rightarrow> string \<Rightarrow> jobject result" where
  "oci_object L raw message = rbind (json_document L raw) (\<lambda>(text_body, data, spans). dict_of data message)"

definition root_index :: "jobject \<Rightarrow> pyval list result" where
  "root_index index =
     rbind (if py_eq (dget index ''schemaVersion'' PNone) (PInt 2) then in_strs (dget index ''mediaType'' (PStr (index_types ! 0))) index_types else Inr False) (\<lambda>ok.
     rbind (require ok ''Invalid OCI root index'') (\<lambda>_.
     index_manifests (dget index ''manifests'' PNone)))"

definition subject_part :: "jobject \<Rightarrow> string \<Rightarrow> string \<Rightarrow> unit result" where
  "subject_part platform key actual =
     require (dhas platform key \<longrightarrow> dget platform key PNone = PStr actual) ''OCI attestation subject platform differs from image''"

definition check_subject :: "(descriptor_key \<times> string \<times> string) list \<Rightarrow> descriptor_key \<times> pyval \<Rightarrow> unit result" where
  "check_subject images subject =
     (case map_of images (fst subject) of
        None \<Rightarrow> Inl (VersionError ''OCI attestation subject is not a runnable image'')
      | Some (os, arch) \<Rightarrow>
          (case snd subject of
             PDict platform \<Rightarrow> rbind (subject_part platform ''os'' os) (\<lambda>_. subject_part platform ''architecture'' arch)
           | _ \<Rightarrow> Inr ()))"

definition check_reference :: "(descriptor_key \<times> string \<times> string) list \<Rightarrow> string \<Rightarrow> unit result" where
  "check_reference images reference =
     require (PStr reference \<in> (\<lambda>(key, _). fst (snd key)) ` set images) ''OCI attestation reference is not a runnable image''"

definition oci_checks :: "oci \<Rightarrow> unit result" where
  "oci_checks st =
     rbind (riter (check_subject (oc_runnable st)) (oc_subjects st)) (\<lambda>_.
     rbind (riter (check_reference (oc_runnable st)) (oc_legacy st)) (\<lambda>_.
     require (oc_images st \<noteq> []) ''OCI archive has no runnable images''))"

definition oci_verify :: "pylib \<Rightarrow> oci_check \<Rightarrow> (oci, string \<times> jobject list) io" where
  "oci_verify L C =
     ibind (oci_read C ''oci-layout'') (\<lambda>layout_raw.
     ibind (ilift (oci_object L layout_raw ''Unsupported OCI image layout'')) (\<lambda>layout.
     ibind (ilift (require (dget layout ''imageLayoutVersion'' PNone = PStr ''1.0.0'') ''Unsupported OCI image layout'')) (\<lambda>_.
     ibind (oci_read C ''index.json'') (\<lambda>root_raw.
     ibind (ilift (rbind (oci_object L root_raw ''Invalid OCI root index'') root_index)) (\<lambda>manifests.
     ibind (iiter (oci_walk L C 9) manifests) (\<lambda>_.
     ibind (oci_get (\<lambda>st. st)) (\<lambda>st.
     ibind (ilift (oci_checks st)) (\<lambda>_.
     ibind (ilift (json_bytes L (PDict [(''index_sha256'', PStr (digest L root_raw)), (''metadata'', PList (map PStr (sort (remdups (oc_verified st)))))]))) (\<lambda>raw.
     ireturn (raw, oc_images st))))))))))"

definition oci_metadata :: "pylib \<Rightarrow> tar_member list \<Rightarrow> path_key list \<Rightarrow> string \<Rightarrow> (string \<times> jobject list) result" where
  "oci_metadata L archive field expected =
     rbind (archive_members 0 [] archive) (\<lambda>members.
     fst (oci_verify L \<lparr>ok_members = members, ok_field = field, ok_expected = expected\<rparr> oci_init))"

end
