(* ===== verification/VersionEdit.thy ===== *)
theory VersionEdit
  imports JsonDoc Changelog
begin

text \<open>
  The editors of \<open>scripts/version_plan.py\<close> for the formats other than JSON: the TOML editor with its own scan of tables
  and continued values, the editors of Python constants, property lists, Xcode projects and plain text, and \<open>_edit\<close>,
  which selects one. Texts are lists of code points (\<open>utext\<close>), offsets count them. The parsers of the standard library
  are the record \<open>formats\<close>.
\<close>

section \<open>Parsers\<close>

text \<open>
  A module-level statement as \<open>ast.parse\<close> gives it: the names of its assignment targets (\<open>None\<close> for a target that is
  not a name) and, when the assigned expression is a constant, its value and position.
\<close>

record py_const =
  pc_value :: pyval
  pc_line :: nat
  pc_column :: nat
  pc_end_line :: nat
  pc_end_column :: nat

datatype py_stmt = Assign "string option list" "py_const option" | AnnAssign "string option" "py_const option" | OtherStmt

text \<open>
  \<open>tomllib.loads\<close> on UTF-8 text, \<open>ast.parse\<close> with its module's statements, \<open>str.isidentifier\<close>, \<open>repr\<close> of a string,
  \<open>plistlib.loads\<close> and \<open>plistlib.dumps\<close> (in the binary format or not), and whether a code point is a letter or digit
  of a word. A value JSON does not have (a date, bytes) is decoded to some value that is no string and no integer.
\<close>

record formats =
  fl_toml :: "string \<Rightarrow> pyval result"
  fl_module :: "string \<Rightarrow> py_stmt list result"
  fl_identifier :: "string \<Rightarrow> bool"
  fl_repr :: "string \<Rightarrow> string"
  fl_plist :: "string \<Rightarrow> pyval result"
  fl_plist_dumps :: "bool \<Rightarrow> pyval \<Rightarrow> string result"
  fl_word :: "string \<Rightarrow> bool"

section \<open>Text\<close>

definition decode_text :: "string \<Rightarrow> utext result" where
  "decode_text raw = rbind (ensure (utf8_ok False raw) (ValueError ''invalid utf-8'')) (\<lambda>_. Inr (code_points raw))"

text \<open>\<open>splitlines(keepends=True)\<close>, for the ends of lines \<open>stop\<close>; a return and the newline after it are one end.\<close>

function split_keep :: "('a \<Rightarrow> bool) \<Rightarrow> 'a \<Rightarrow> 'a \<Rightarrow> 'a list \<Rightarrow> 'a list list" where
  "split_keep stop cr nl [] = []"
| "split_keep stop cr nl (c # cs) =
     (let body = takeWhile (\<lambda>x. \<not> stop x) (c # cs) in
      case dropWhile (\<lambda>x. \<not> stop x) (c # cs) of
        [] \<Rightarrow> [body]
      | e # rest \<Rightarrow>
          if e = cr \<and> prefix [nl] rest then (body @ [e, nl]) # split_keep stop cr nl (tl rest)
          else (body @ [e]) # split_keep stop cr nl rest)"
  by pat_completeness auto
termination
proof (relation "measure (\<lambda>(_, _, _, s). length s)", goal_cases)
  case 1
  then show ?case by simp
next
  case (2 stop cr nl c cs body e rest)
  then have "length (e # rest) \<le> length (c # cs)" by (metis length_dropWhile_le)
  then show ?case by simp
next
  case (3 stop cr nl c cs body e rest)
  then have "length (e # rest) \<le> length (c # cs)" by (metis length_dropWhile_le)
  then show ?case by simp
qed

declare split_keep.simps(2) [simp del]

definition line_ends :: "string list" where
  "line_ends = map (\<lambda>c. [c]) [CHR 0x0A, CHR 0x0D, CHR 0x0B, CHR 0x0C, CHR 0x1C, CHR 0x1D, CHR 0x1E]
     @ [[CHR 0xC2, CHR 0x85], [CHR 0xE2, CHR 0x80, CHR 0xA8], [CHR 0xE2, CHR 0x80, CHR 0xA9]]"

definition text_lines :: "utext \<Rightarrow> utext list" where
  "text_lines s = split_keep (\<lambda>c. c \<in> set line_ends) RETURN NEWLINE s"

definition source_lines :: "string \<Rightarrow> string list" where
  "source_lines s = split_keep (\<lambda>c. c = CHR 0x0A \<or> c = CHR 0x0D) (CHR 0x0D) (CHR 0x0A) s"

definition DQ :: string where "DQ = [CHR 0x22]"
definition SQ :: string where "SQ = [CHR 0x27]"
definition BACKSLASH :: string where "BACKSLASH = [CHR 0x5C]"

definition digit_point :: "pylib \<Rightarrow> string \<Rightarrow> bool" where
  "digit_point L c \<longleftrightarrow> (if length c = 1 then is_digit (hd c) else unicode_digit L c)"

definition py_str :: "pyval \<Rightarrow> string" where
  "py_str value = (case value of PInt n \<Rightarrow> int_str n | _ \<Rightarrow> as_str value)"

section \<open>TOML keys and quotes\<close>

fun key_path :: "pyval \<Rightarrow> string list \<times> pyval" where
  "key_path (PDict [(k, v)]) = (case key_path v of (ks, d) \<Rightarrow> (k # ks, d))"
| "key_path v = ([], v)"

definition toml_key :: "formats \<Rightarrow> utext \<Rightarrow> path_key list result" where
  "toml_key F key =
     (case fl_toml F (join_chars (key @ chars '' = 0'')) of
        Inl (ValueError m) \<Rightarrow> Inl (VersionError ''Unsupported TOML key'')
      | Inl e \<Rightarrow> Inl e
      | Inr data \<Rightarrow>
          (case key_path data of (ks, d) \<Rightarrow>
             rbind (require (py_eq d (PInt 0) \<and> ks \<noteq> []) ''Unsupported TOML key'') (\<lambda>_. Inr (keys ks))))"

text \<open>The quotes of a TOML string; a scan that only looks for single characters never opens the tripled ones.\<close>

datatype toml_quote = Basic | Literal | BasicBlock | LiteralBlock

fun quote_text :: "toml_quote \<Rightarrow> utext" where
  "quote_text Basic = [DQ]"
| "quote_text Literal = [SQ]"
| "quote_text BasicBlock = [DQ, DQ, DQ]"
| "quote_text LiteralBlock = [SQ, SQ, SQ]"

text \<open>The text after the step, and the quote that is still open.\<close>

definition toml_quote_step :: "toml_quote \<Rightarrow> string \<Rightarrow> utext \<Rightarrow> utext \<times> toml_quote option" where
  "toml_quote_step q c cs =
     (if q \<in> {Basic, BasicBlock} \<and> c = BACKSLASH then (tl cs, Some q)
      else if prefix (quote_text q) (c # cs) then (drop (length (quote_text q) - 1) cs, None)
      else (cs, Some q))"

lemma quote_step_length: "length (fst (toml_quote_step q c cs)) \<le> length cs"
  by (simp add: toml_quote_step_def)

definition opened_block :: "utext \<Rightarrow> toml_quote option" where
  "opened_block s =
     (if prefix (quote_text BasicBlock) s then Some BasicBlock else if prefix (quote_text LiteralBlock) s then Some LiteralBlock else None)"

definition opened_quote :: "string \<Rightarrow> toml_quote option" where
  "opened_quote c = (if c = DQ then Some Basic else if c = SQ then Some Literal else None)"

function toml_lexical_state :: "utext \<Rightarrow> toml_quote option \<Rightarrow> int \<Rightarrow> toml_quote option \<times> int" where
  "toml_lexical_state [] q depth = (q, depth)"
| "toml_lexical_state (c # cs) (Some q) depth =
     (case toml_quote_step q c cs of (rest, q') \<Rightarrow> toml_lexical_state rest q' depth)"
| "toml_lexical_state (c # cs) None depth =
     (if c = ''#'' then (None, depth)
      else
        case opened_block (c # cs) of
          Some q \<Rightarrow> toml_lexical_state (drop 2 cs) (Some q) depth
        | None \<Rightarrow>
            (case opened_quote c of
               Some q \<Rightarrow> toml_lexical_state cs (Some q) depth
             | None \<Rightarrow>
                 toml_lexical_state cs None
                   (if c \<in> {''['', ''{''} then depth + 1 else if c \<in> {'']'', ''}''} then depth - 1 else depth)))"
  by pat_completeness auto
termination
  by (relation "measure (\<lambda>(s, _). length s)") (auto simp: less_Suc_eq_le, metis fst_conv quote_step_length)

text \<open>
  The text from the first character outside quotes with \<open>found\<close>, unless one with \<open>stop\<close> comes first: the loops of
  \<open>_toml_assignment_separator\<close> and \<open>_toml_header\<close>.
\<close>

function find_unquoted :: "(string \<Rightarrow> bool) \<Rightarrow> (string \<Rightarrow> bool) \<Rightarrow> toml_quote option \<Rightarrow> utext \<Rightarrow> utext option" where
  "find_unquoted found stop q [] = None"
| "find_unquoted found stop (Some q) (c # cs) =
     (case toml_quote_step q c cs of (rest, q') \<Rightarrow> find_unquoted found stop q' rest)"
| "find_unquoted found stop None (c # cs) =
     (case opened_quote c of
        Some q \<Rightarrow> find_unquoted found stop (Some q) cs
      | None \<Rightarrow> if stop c then None else if found c then Some (c # cs) else find_unquoted found stop None cs)"
  by pat_completeness auto
termination
  by (relation "measure (\<lambda>(_, _, _, s). length s)") (auto simp: less_Suc_eq_le, metis fst_conv quote_step_length)

definition toml_assignment_separator :: "utext \<Rightarrow> utext option" where
  "toml_assignment_separator line = find_unquoted (\<lambda>c. c = ''='') (\<lambda>c. c \<in> {''#'', RETURN, NEWLINE}) None line"

section \<open>TOML assignments\<close>

definition lstrip_text :: "utext \<Rightarrow> utext" where "lstrip_text s = lstrip_by space_char s"
definition strip_text :: "utext \<Rightarrow> utext" where "strip_text s = strip_by space_char s"

text \<open>\<open>re.match\<close> of the scalar pattern: the match and the rest of the line.\<close>

fun basic_scalar :: "utext \<Rightarrow> nat option" where
  "basic_scalar [] = None"
| "basic_scalar (c # cs) =
     (if c = DQ then Some 1
      else if c = BACKSLASH then (case cs of [] \<Rightarrow> None | d # ds \<Rightarrow> if d = NEWLINE then None else map_option (\<lambda>n. n + 2) (basic_scalar ds))
      else if c \<in> {RETURN, NEWLINE} then None
      else map_option Suc (basic_scalar cs))"

fun literal_scalar :: "utext \<Rightarrow> nat option" where
  "literal_scalar [] = None"
| "literal_scalar (c # cs) =
     (if c = SQ then Some 1 else if c \<in> {RETURN, NEWLINE} then None else map_option Suc (literal_scalar cs))"

definition digits_scalar :: "pylib \<Rightarrow> utext \<Rightarrow> nat option" where
  "digits_scalar L s =
     (case s of
        [] \<Rightarrow> None
      | c # cs \<Rightarrow> if digit_point L c then Some (Suc (length (takeWhile (\<lambda>c. digit_point L c \<or> c = ''_'') cs))) else None)"

definition scalar_length :: "pylib \<Rightarrow> utext \<Rightarrow> nat option" where
  "scalar_length L s =
     (case s of
        [] \<Rightarrow> None
      | c # cs \<Rightarrow>
          if c = DQ then map_option Suc (basic_scalar cs)
          else if c = SQ then map_option Suc (literal_scalar cs)
          else if c \<in> {''+'', ''-''} then map_option Suc (digits_scalar L cs)
          else digits_scalar L s)"

definition toml_token :: "pyval \<Rightarrow> utext \<Rightarrow> utext" where
  "toml_token replacement original =
     (case replacement of
        PStr s \<Rightarrow>
          if prefix [SQ] original \<and> SQ \<notin> set (code_points s) then [SQ] @ code_points s @ [SQ]
          else code_points (json_str s)
      | v \<Rightarrow> code_points (py_str v))"

text \<open>The place of an assignment to the target in its line, with the new token.\<close>

definition toml_assignment ::
  "pylib \<Rightarrow> formats \<Rightarrow> utext \<Rightarrow> path_key list \<Rightarrow> path_key list \<Rightarrow> pyval \<Rightarrow> (nat \<times> nat \<times> utext) option result" where
  "toml_assignment L F line current target replacement =
     (case toml_assignment_separator line of
        None \<Rightarrow> Inr None
      | Some tail \<Rightarrow>
          let separator = length line - length tail in
          if strip_text (take separator line) = [] then Inr None
          else
            rbind (toml_key F (strip_text (take separator line))) (\<lambda>key.
            if current @ key \<noteq> target then Inr None
            else
              let start = separator + 1 + length (takeWhile space_char (drop (separator + 1) line)) in
              case scalar_length L (drop start line) of
                None \<Rightarrow> Inl (VersionError ''Owned TOML value must be a single-line scalar'')
              | Some n \<Rightarrow>
                  let rest = lstrip_text (drop (start + n) line) in
                  rbind (require (rest = [] \<or> prefix [''#''] rest) ''Unsupported TOML expression after version value'') (\<lambda>_.
                  Inr (Some (start, start + n, toml_token replacement (take n (drop start line)))))))"

text \<open>The number of brackets of a table header and the text of its key.\<close>

definition toml_header_end :: "nat \<Rightarrow> utext \<Rightarrow> utext \<Rightarrow> (nat \<times> utext) option result" where
  "toml_header_end opening key rest =
     (let closing = (if prefix ['']'', '']''] rest then 2 else 1);
          tail = strip_text (drop closing rest) in
      if tail \<noteq> [] \<and> \<not> prefix [''#''] tail then Inr None
      else rbind (require (opening = closing) ''Malformed TOML table header'') (\<lambda>_. Inr (Some (opening, key))))"

definition toml_header :: "utext \<Rightarrow> (nat \<times> utext) option result" where
  "toml_header line =
     (let s = lstrip_text line in
      if \<not> prefix [''[''] s then Inr None
      else
        let opening = (if prefix [''['', ''[''] s then 2 else 1); body = drop opening s in
        case find_unquoted (\<lambda>c. c = '']'') (\<lambda>_. False) None body of
          None \<Rightarrow> Inr None
        | Some rest \<Rightarrow> toml_header_end opening (take (length body - length rest) body) rest)"

record toml_scan =
  ts_current :: "path_key list"
  ts_arrays :: "(path_key list \<times> nat) list"
  ts_offset :: nat
  ts_found :: "(nat \<times> nat \<times> utext) list"
  ts_quote :: "toml_quote option"
  ts_depth :: int

definition toml_table :: "formats \<Rightarrow> nat \<Rightarrow> utext \<Rightarrow> toml_scan \<Rightarrow> toml_scan result" where
  "toml_table F opening key st =
     rbind (toml_key F key) (\<lambda>current.
     if opening = 2 then
       (let i = (case map_of (ts_arrays st) current of None \<Rightarrow> 0 | Some i \<Rightarrow> Suc i) in
        Inr (st\<lparr>ts_arrays := (current, i) # ts_arrays st, ts_current := current @ [Index i]\<rparr>))
     else Inr (st\<lparr>ts_current := current\<rparr>))"

definition toml_logical_line :: "pylib \<Rightarrow> formats \<Rightarrow> path_key list \<Rightarrow> pyval \<Rightarrow> utext \<Rightarrow> toml_scan \<Rightarrow> toml_scan result" where
  "toml_logical_line L F target replacement line st =
     rbind (toml_header line) (\<lambda>header.
     case header of
       Some (opening, key) \<Rightarrow> toml_table F opening key st
     | None \<Rightarrow>
         rbind (toml_assignment L F line (ts_current st) target replacement) (\<lambda>assignment.
         case assignment of
           None \<Rightarrow> Inr st
         | Some (start, end, token) \<Rightarrow> Inr (st\<lparr>ts_found := ts_found st @ [(ts_offset st + start, ts_offset st + end, token)]\<rparr>)))"

definition toml_line :: "pylib \<Rightarrow> formats \<Rightarrow> path_key list \<Rightarrow> pyval \<Rightarrow> toml_scan \<Rightarrow> utext \<Rightarrow> toml_scan result" where
  "toml_line L F target replacement st line =
     (let continued = (ts_quote st \<noteq> None \<or> ts_depth st > 0);
          state = toml_lexical_state line (ts_quote st) (ts_depth st);
          st = st\<lparr>ts_quote := fst state, ts_depth := snd state\<rparr> in
      rbind (if continued then Inr st else toml_logical_line L F target replacement line st) (\<lambda>st.
      Inr (st\<lparr>ts_offset := ts_offset st + length line\<rparr>)))"

definition toml_start :: toml_scan where
  "toml_start = \<lparr>ts_current = [], ts_arrays = [], ts_offset = 0, ts_found = [], ts_quote = None, ts_depth = 0\<rparr>"

definition toml_assignments :: "pylib \<Rightarrow> formats \<Rightarrow> utext \<Rightarrow> path_key list \<Rightarrow> pyval \<Rightarrow> (nat \<times> nat \<times> utext) list result" where
  "toml_assignments L F s target replacement =
     rbind (rfold (toml_line L F target replacement) toml_start (text_lines s)) (\<lambda>st. Inr (ts_found st))"

section \<open>TOML files\<close>

definition local_lock_package :: "jobject \<Rightarrow> pyval \<Rightarrow> bool" where
  "local_lock_package entry kind \<longleftrightarrow>
     (if kind = PStr ''cargo-lock'' then \<not> dhas entry ''source''
      else
        case dget entry ''source'' (PDict []) of
          PDict [(k, v)] \<Rightarrow> k \<in> {''editable'', ''virtual'', ''directory''}
        | _ \<Rightarrow> False)"

fun lock_matches :: "jobject \<Rightarrow> nat \<Rightarrow> pyval list \<Rightarrow> nat list result" where
  "lock_matches item i [] = Inr []"
| "lock_matches item i (entry # entries) =
     rbind (pget entry ''name'' PNone) (\<lambda>name.
     rbind (ditem item ''package'') (\<lambda>package.
     rbind (lock_matches item (Suc i) entries) (\<lambda>rest.
     Inr (if py_eq name package \<and> local_lock_package (as_dict entry) (dget item ''format'' PNone) then i # rest else rest))))"

definition toml_target :: "pyval \<Rightarrow> jobject \<Rightarrow> path_key list result" where
  "toml_target data item =
     (if dget item ''format'' PNone \<in> {PStr ''cargo-lock'', PStr ''uv-lock''} then
        rbind (pget data ''package'' (PList [])) (\<lambda>entries.
        case entries of
          PList es \<Rightarrow>
            rbind (lock_matches item 0 es) (\<lambda>matches.
            rbind (require (length matches = 1) ''Lock selector must identify exactly one owned local package'') (\<lambda>_.
            Inr [Key ''package'', Index (hd matches), Key ''version'']))
        | _ \<Rightarrow> Inl (VersionError ''Lock file requires package array''))
      else
        rbind (rbind (ditem item ''field'') field_of) (\<lambda>field.
        if dhas item ''package'' then
          rbind (get_path data (butlast (keys field) @ [Key ''name''])) (\<lambda>name.
          rbind (require (py_eq name (dget item ''package'' PNone)) ''TOML manifest package identity mismatch'') (\<lambda>_.
          Inr (keys field)))
        else Inr (keys field)))"

definition toml_edit :: "pylib \<Rightarrow> formats \<Rightarrow> string \<Rightarrow> jobject \<Rightarrow> pyval \<Rightarrow> (string \<times> pyval list) result" where
  "toml_edit L F raw item value =
     rbind (decode_text raw) (\<lambda>s.
     rbind (fl_toml F raw) (\<lambda>data.
     rbind (toml_target data item) (\<lambda>target.
     rbind (get_path data target) (\<lambda>old.
     rbind (scalar value old) (\<lambda>replacement.
     rbind (toml_assignments L F s target replacement) (\<lambda>found.
     rbind (require (length found = 1) ''TOML selector must identify exactly one explicit scalar assignment'') (\<lambda>_.
     case hd found of (start, end, token) \<Rightarrow>
       let result = join_chars (take start s @ token @ drop end s) in
       rbind (fl_toml F result) (\<lambda>data'.
       rbind (get_path data' target) (\<lambda>new.
       rbind (require (py_eq new replacement) ''TOML replacement did not update selected field'') (\<lambda>_.
       Inr (result, [old])))))))))))"

section \<open>Python constants\<close>

definition stmt_matches :: "string \<Rightarrow> py_stmt \<Rightarrow> py_const list result" where
  "stmt_matches name node =
     (let (targets, value) = (case node of Assign ts v \<Rightarrow> (ts, v) | AnnAssign t v \<Rightarrow> ([t], v) | OtherStmt \<Rightarrow> ([], None)) in
      if Some name \<in> set targets then
        rbind (require (length targets = 1 \<and> value \<noteq> None) ''Version constant must be an unshared literal assignment'') (\<lambda>_.
        Inr [the value])
      else Inr [])"

text \<open>The byte offset of a place \<open>ast\<close> gives.\<close>

definition place_of :: "string \<Rightarrow> nat \<Rightarrow> nat \<Rightarrow> nat" where
  "place_of raw line column = sum_list (map length (take (line - 1) (source_lines raw))) + column"

definition python_literal :: "formats \<Rightarrow> string \<Rightarrow> pyval \<Rightarrow> string" where
  "python_literal F old replacement =
     (case replacement of
        PStr s \<Rightarrow> if prefix DQ old then json_token replacement else fl_repr F s
      | v \<Rightarrow> py_str v)"

definition python_edit :: "formats \<Rightarrow> string \<Rightarrow> jobject \<Rightarrow> pyval \<Rightarrow> (string \<times> pyval list) result" where
  "python_edit F raw item value =
     rbind (ditem item ''field'') (\<lambda>name.
     rbind (require (case name of PStr s \<Rightarrow> fl_identifier F s | _ \<Rightarrow> False) ''Python selector must be a module-level constant name'') (\<lambda>_.
     rbind (decode_text raw) (\<lambda>_.
     rbind (fl_module F raw) (\<lambda>body.
     rbind (rmap (stmt_matches (as_str name)) body) (\<lambda>matches.
     case concat matches of
       [node] \<Rightarrow>
         rbind (scalar value (pc_value node)) (\<lambda>replacement.
         if replacement = pc_value node then Inr (raw, [pc_value node])
         else
           let start = place_of raw (pc_line node) (pc_column node); end = place_of raw (pc_end_line node) (pc_end_column node);
               result = take start raw @ python_literal F (take (end - start) (drop start raw)) replacement @ drop end raw in
           rbind (fl_module F result) (\<lambda>_. Inr (result, [pc_value node])))
     | _ \<Rightarrow> Inl (VersionError ''Python selector must identify exactly one module-level constant''))))))"

section \<open>Property lists\<close>

text \<open>\<open>re.fullmatch(r"[1-9]\d{0,3}(?:\.\d{1,2}){0,2}", s)\<close>, where \<open>\d\<close> is any decimal digit of Unicode.\<close>

definition bundle_version :: "pylib \<Rightarrow> string \<Rightarrow> bool" where
  "bundle_version L s =
     (let parts = split_on ''.'' (code_points s); digits = \<lambda>p. \<forall>c \<in> set p. digit_point L c in
      length parts \<le> 3 \<and> list_all digits parts
      \<and> (case hd parts of [] \<Rightarrow> False | c # cs \<Rightarrow> length cs \<le> 3 \<and> length c = 1 \<and> is_digit (hd c) \<and> hd c \<noteq> CHR ''0'')
      \<and> list_all (\<lambda>p. length p \<in> {1, 2}) (tl parts))"

definition plist_edit :: "pylib \<Rightarrow> formats \<Rightarrow> string \<Rightarrow> jobject \<Rightarrow> pyval \<Rightarrow> (string \<times> pyval list) result" where
  "plist_edit L F raw item value =
     rbind (rbind (ditem item ''field'') field_of) (\<lambda>field.
     rbind (fl_plist F raw) (\<lambda>data.
     rbind (get_path data (keys field)) (\<lambda>old.
     rbind (get_path data (butlast (keys field))) (\<lambda>parent.
     rbind (require (is_dict parent) ''Plist version parent must be a dictionary'') (\<lambda>_.
     rbind (scalar value old) (\<lambda>replacement.
     rbind (require (last field = ''CFBundleShortVersionString'' \<longrightarrow> (case replacement of PStr s \<Rightarrow> fullmatch BASE s | _ \<Rightarrow> False))
       ''Apple marketing version requires numeric X.Y.Z'') (\<lambda>_.
     rbind (require (last field = ''CFBundleVersion'' \<longrightarrow> (case replacement of PStr s \<Rightarrow> bundle_version L s | _ \<Rightarrow> False))
       ''Apple bundle version exceeds numeric component limits'') (\<lambda>_.
     if old = replacement then Inr (raw, [old])
     else
       rbind (fl_plist_dumps F (prefix ''bplist'' raw) (set_path data (keys field) replacement)) (\<lambda>result.
       Inr (result, [old]))))))))))"

section \<open>Plain text\<close>

definition text_edit :: "string \<Rightarrow> pyval \<Rightarrow> (string \<times> pyval list) result" where
  "text_edit raw value =
     rbind (decode_text raw) (\<lambda>s.
     let lead = takeWhile space_char s; rest = dropWhile space_char s;
         word = takeWhile (\<lambda>c. \<not> space_char c) rest; trail = dropWhile (\<lambda>c. \<not> space_char c) rest in
     rbind (require (word \<noteq> [] \<and> list_all space_char trail) ''Text version must contain exactly one non-whitespace value'') (\<lambda>_.
     Inr (join_chars lead @ py_str value @ join_chars trail, [PStr (join_chars word)])))"

section \<open>Patterns\<close>

text \<open>
  The patterns of the Xcode editor, as functions to the texts left after each way to match, in the order the
  backtracking matcher of \<open>re\<close> tries them.
\<close>

type_synonym pat = "utext \<Rightarrow> utext list"

definition pat_word :: "utext \<Rightarrow> pat" where
  "pat_word w s = (if prefix w s then [drop (length w) s] else [])"

definition pat_opt :: "pat \<Rightarrow> pat" where
  "pat_opt p s = p s @ [s]"

fun pat_many :: "(string \<Rightarrow> bool) \<Rightarrow> pat" where
  "pat_many P [] = [[]]"
| "pat_many P (c # cs) = (if P c then pat_many P cs else []) @ [c # cs]"

definition pat_lazy :: "(string \<Rightarrow> bool) \<Rightarrow> pat" where
  "pat_lazy P s = rev (pat_many P s)"

definition pat_some :: "(string \<Rightarrow> bool) \<Rightarrow> pat" where
  "pat_some P s = (case s of [] \<Rightarrow> [] | c # cs \<Rightarrow> if P c then pat_many P cs else [])"

fun pat_seq :: "pat list \<Rightarrow> pat" where
  "pat_seq [] s = [s]"
| "pat_seq (p # ps) s = concat (map (pat_seq ps) (p s))"

text \<open>\<open>re.finditer\<close> of a pattern that starts with \<open>^\<close> in multiline mode and does not end with a newline.\<close>

function find_lines :: "(utext \<Rightarrow> ('m \<times> utext) option) \<Rightarrow> bool \<Rightarrow> utext \<Rightarrow> ('m \<times> utext) list" where
  "find_lines m first [] = []"
| "find_lines m first (c # cs) =
     (case (if first then m (c # cs) else None) of
        Some (x, rest) \<Rightarrow> (x, rest) # (if length rest \<le> length cs then find_lines m False rest else [])
      | None \<Rightarrow> find_lines m (c = NEWLINE) cs)"
  by pat_completeness auto
termination
  by (relation "measure (\<lambda>(_, _, s). length s)") auto

definition hd_option :: "'a list \<Rightarrow> 'a option" where
  "hd_option xs = (case xs of [] \<Rightarrow> None | x # _ \<Rightarrow> Some x)"

section \<open>Xcode projects\<close>

definition owner_match :: "utext \<Rightarrow> utext \<Rightarrow> (unit \<times> utext) option" where
  "owner_match owner s =
     map_option (\<lambda>rest. ((), rest)) (hd_option (pat_seq
       [pat_many space_char, pat_word owner,
        pat_opt (pat_seq [pat_many space_char, pat_word (chars ''/*''), pat_lazy (\<lambda>c. c \<noteq> NEWLINE), pat_word (chars ''*/'')]),
        pat_many space_char, pat_word [''=''], pat_many space_char, pat_word [''{'']] s))"

fun pbx_string :: "utext \<Rightarrow> nat option" where
  "pbx_string [] = None"
| "pbx_string (c # cs) =
     (if c = DQ then Some 1
      else if c = BACKSLASH then (case cs of [] \<Rightarrow> None | d # ds \<Rightarrow> map_option (\<lambda>n. n + 2) (pbx_string ds))
      else map_option Suc (pbx_string cs))"

fun pbx_comment :: "utext \<Rightarrow> nat option" where
  "pbx_comment [] = None"
| "pbx_comment (c # cs) = (if prefix (chars ''*/'') (c # cs) then Some 2 else map_option Suc (pbx_comment cs))"

text \<open>How much of the text the current token takes beyond its first character.\<close>

definition pbx_skip :: "string \<Rightarrow> utext \<Rightarrow> nat" where
  "pbx_skip c cs =
     (if c = DQ then (case pbx_string cs of None \<Rightarrow> 0 | Some n \<Rightarrow> n)
      else if prefix (chars ''/*'') (c # cs) then (case pbx_comment (tl cs) of None \<Rightarrow> 0 | Some n \<Rightarrow> Suc n)
      else if prefix (chars ''//'') (c # cs) then length (takeWhile (\<lambda>x. x \<noteq> NEWLINE) cs)
      else 0)"

text \<open>The text after the brace that closes the scope.\<close>

function pbx_close :: "int \<Rightarrow> utext \<Rightarrow> utext option" where
  "pbx_close depth [] = None"
| "pbx_close depth (c # cs) =
     (if c = ''{'' then pbx_close (depth + 1) cs
      else if c = ''}'' then (if depth - 1 = 0 then Some cs else pbx_close (depth - 1) cs)
      else pbx_close depth (drop (pbx_skip c cs) cs))"
  by pat_completeness auto
termination
  by (relation "measure (\<lambda>(_, s). length s)") auto

definition word_point :: "formats \<Rightarrow> string \<Rightarrow> bool" where
  "word_point F c \<longleftrightarrow> (if length c = 1 then is_digit (hd c) \<or> is_upper (hd c) \<or> is_lower (hd c) \<or> c = ''_'' else fl_word F c)"

definition configuration_match :: pat where
  "configuration_match = pat_seq
     [pat_word (chars ''isa''), pat_many space_char, pat_word [''=''], pat_many space_char,
      pat_word (chars ''XCBuildConfiguration''), pat_many space_char, pat_word ['';'']]"

fun build_configuration :: "formats \<Rightarrow> bool \<Rightarrow> utext \<Rightarrow> bool" where
  "build_configuration F boundary [] = False"
| "build_configuration F boundary (c # cs) \<longleftrightarrow>
     (boundary \<and> configuration_match (c # cs) \<noteq> []) \<or> build_configuration F (\<not> word_point F c) cs"

text \<open>The texts left before and after the number of an assignment.\<close>

definition field_match :: "utext \<Rightarrow> utext \<Rightarrow> ((utext \<times> utext) \<times> utext) option" where
  "field_match field s =
     hd_option (concat (map (\<lambda>r. concat (map (\<lambda>r'. map (\<lambda>rest. ((r, r'), rest))
         (pat_seq [pat_many space_char, pat_word ['';'']] r'))
       (pat_seq [pat_opt (pat_word [DQ]), pat_some (\<lambda>c. c = ''.'' \<or> length c = 1 \<and> is_digit (hd c)), pat_opt (pat_word [DQ])] r)))
       (pat_seq [pat_many space_char, pat_word field, pat_many space_char, pat_word [''=''], pat_many space_char] s)))"

definition uuid_rx :: rx where
  "uuid_rx = Rep 24 (Cls (\<lambda>c. is_hex (lower_char c)))"

text \<open>The configuration of the owner: what is left from its opening brace, and after its closing one.\<close>

definition pbx_block :: "utext \<Rightarrow> string \<Rightarrow> (utext \<times> utext) result" where
  "pbx_block s owner =
     (case find_lines (owner_match (code_points owner)) True s of
        [(_, rest)] \<Rightarrow>
          let opened = drop (length s - length rest - 1) s in
          (case pbx_close 0 opened of
             None \<Rightarrow> Inl (VersionError ''Unterminated PBX configuration'')
           | Some after \<Rightarrow> Inr (opened, after))
      | _ \<Rightarrow> Inl (VersionError ''PBX owner UUID must identify one configuration''))"

definition pbx_number :: "pylib \<Rightarrow> string \<Rightarrow> string \<Rightarrow> bool" where
  "pbx_number L field s \<longleftrightarrow> (if field = ''MARKETING_VERSION'' then fullmatch BASE s else bundle_version L s)"

definition pbx_edit :: "pylib \<Rightarrow> formats \<Rightarrow> string \<Rightarrow> jobject \<Rightarrow> pyval \<Rightarrow> (string \<times> pyval list) result" where
  "pbx_edit L F raw item value =
     rbind (decode_text raw) (\<lambda>s.
     rbind (ditem item ''package'') (\<lambda>owner.
     rbind (require (matches_str uuid_rx owner) ''PBX selector requires an exact configuration UUID'') (\<lambda>_.
     rbind (ditem item ''field'') (\<lambda>f.
     rbind (in_strs f [''MARKETING_VERSION'', ''CURRENT_PROJECT_VERSION'']) (\<lambda>ok.
     rbind (require ok ''Unsupported PBX numeric version field'') (\<lambda>_.
     rbind (pbx_block s (as_str owner)) (\<lambda>(opened, after).
     let block = take (length opened - length after) opened; field = as_str f in
     rbind (require (build_configuration F True block) ''PBX owner is not a build configuration'') (\<lambda>_.
     case find_lines (field_match (chars field)) True block of
       [((r, r'), _)] \<Rightarrow>
         rbind (require (pbx_number L field (py_str value)) ''PBX numeric version is outside platform limits'') (\<lambda>_.
         let number = take (length r - length r') r;
             replacement = (if prefix [DQ] number then [DQ] @ code_points (py_str value) @ [DQ] else code_points (py_str value));
             left = length s - length opened + (length block - length r); right = length s - length opened + (length block - length r') in
         Inr (join_chars (take left s @ replacement @ drop right s), [PStr (join_chars (strip_by (\<lambda>c. c = DQ) number))]))
     | _ \<Rightarrow> Inl (VersionError ''PBX field must have one numeric assignment in selected configuration'')))))))))"

section \<open>\<open>_edit\<close>\<close>

definition version_edit :: "pylib \<Rightarrow> formats \<Rightarrow> string \<Rightarrow> jobject \<Rightarrow> pyval \<Rightarrow> (string \<times> pyval list) result" where
  "version_edit L F raw item value =
     rbind (ditem item ''format'') (\<lambda>kind.
     rbind (in_strs kind [''json'', ''npm-lock'']) (\<lambda>_.
     if kind \<in> {PStr ''json'', PStr ''npm-lock''} then json_edit L raw item value
     else if kind \<in> {PStr ''toml'', PStr ''cargo-lock'', PStr ''uv-lock''} then toml_edit L F raw item value
     else if kind = PStr ''python'' then python_edit F raw item value
     else if kind = PStr ''plist'' then plist_edit L F raw item value
     else if kind = PStr ''pbxproj'' then pbx_edit L F raw item value
     else if kind = PStr ''text'' then text_edit raw value
     else Inl (VersionError ''Unsupported version format'')))"

end
