(* ===== verification/Artifacts.thy ===== *)
theory Artifacts
  imports OciMetadata VersionEdit
begin

text \<open>
  The inspection of published packages in \<open>scripts/version_plan.py\<close>, \<open>_zip_metadata\<close> to \<open>verify_artifact\<close>: the one metadata
  member of an archive is read within a limit and its version compared with the projection of the plan. What the
  standard library reads from a file is the record \<open>package_file\<close>.
\<close>

section \<open>Files\<close>

text \<open>
  A ZIP entry with the size of its header, whether its mode is a symbolic link's, and what reading it gives. A file has its
  bytes and, for a file that is such an archive, its members; \<open>tarfile\<close> and \<open>zipfile\<close> raise for any other file.
\<close>

record zip_member =
  zm_name :: string
  zm_dir :: bool
  zm_size :: int
  zm_link :: bool
  zm_data :: "string result"

record package_file =
  pk_regular :: bool
  pk_data :: string
  pk_zip :: "zip_member list result"
  pk_is_zip :: bool
  pk_tar :: "tar_member list result"

text \<open>\<open>get_all\<close> of the message \<open>email.parser\<close> reads from the header lines, \<open>str.lower\<close> and \<open>fnmatch.fnmatchcase\<close>.\<close>

record package_lib = formats +
  pl_headers :: "string \<Rightarrow> string \<Rightarrow> string list"
  pl_lower :: "string \<Rightarrow> string"
  pl_fnmatch :: "string \<Rightarrow> string \<Rightarrow> bool"

section \<open>One metadata member\<close>

definition bounded_read :: "string \<Rightarrow> string result" where
  "bounded_read data =
     (let content = take (nat (MAX_METADATA + 1)) data in
      rbind (require (int (length content) \<le> MAX_METADATA) ''Archive metadata exceeds limit'') (\<lambda>_. Inr content))"

definition zip_metadata :: "package_file \<Rightarrow> (string \<Rightarrow> bool) \<Rightarrow> string result" where
  "zip_metadata file_path matches =
     rbind (pk_zip file_path) (\<lambda>infolist.
     rbind (require (length infolist \<le> 100000) ''Archive has too many members'') (\<lambda>_.
     let entries = filter (\<lambda>entry. \<not> zm_dir entry \<and> matches (zm_name entry)) infolist in
     rbind (require (length entries = 1 \<and> zm_size (hd entries) \<le> MAX_METADATA) ''Archive must contain exactly one bounded metadata file'') (\<lambda>_.
     rbind (require (\<not> zm_link (hd entries)) ''Archive metadata must not be a symlink'') (\<lambda>_.
     rbind (zm_data (hd entries)) bounded_read))))"

fun tar_matches :: "(string \<Rightarrow> bool) \<Rightarrow> nat \<Rightarrow> string list \<Rightarrow> tar_member list \<Rightarrow> string list result" where
  "tar_matches matches n found [] = Inr found"
| "tar_matches matches n found (entry # entries) =
     rbind (require (n < 100000) ''Archive has too many members'') (\<lambda>_.
     if matches (tm_name entry) then
       rbind (require (tm_kind entry = TarFile \<and> tm_size entry \<le> MAX_METADATA) ''Archive metadata must be a bounded regular file'') (\<lambda>_.
       rbind (bounded_read (tm_data entry)) (\<lambda>content.
       rbind (require (found = []) ''Ambiguous archive metadata'') (\<lambda>_.
       tar_matches matches (Suc n) (found @ [content]) entries)))
     else tar_matches matches (Suc n) found entries)"

definition tar_metadata :: "package_file \<Rightarrow> (string \<Rightarrow> bool) \<Rightarrow> string result" where
  "tar_metadata file_path matches =
     rbind (pk_tar file_path) (\<lambda>entries.
     rbind (tar_matches matches 0 [] entries) (\<lambda>found.
     rbind (require (length found = 1) ''Archive metadata is missing'') (\<lambda>_.
     Inr (hd found))))"

section \<open>Python packages\<close>

text \<open>\<open>re.sub(r"[-_.]+", "-", name).lower()\<close>.\<close>

fun squash :: "bool \<Rightarrow> string \<Rightarrow> string" where
  "squash again [] = []"
| "squash again (c # cs) =
     (if c \<in> {CHR ''-'', CHR ''_'', CHR ''.''} then (if again then squash True cs else CHR ''-'' # squash True cs)
      else c # squash False cs)"

definition package_name :: "package_lib \<Rightarrow> string \<Rightarrow> string" where
  "package_name P name = pl_lower P (squash False name)"

definition metadata_message :: "package_lib \<Rightarrow> string \<Rightarrow> string \<Rightarrow> string \<Rightarrow> jobject result" where
  "metadata_message P raw expected_name expected =
     rbind (require (int (length raw) \<le> MAX_METADATA) ''Package metadata is too large'') (\<lambda>_.
     let names = pl_headers P raw ''Name''; versions = pl_headers P raw ''Version'' in
     rbind (require (length names = 1 \<and> length versions = 1) ''Package metadata requires one Name and Version'') (\<lambda>_.
     rbind (require (package_name P (hd names) = package_name P expected_name) ''Artifact package name mismatch'') (\<lambda>_.
     rbind (require (hd versions = expected) ''Artifact version mismatch'') (\<lambda>_.
     Inr [(''package'', PStr (hd names)), (''version'', PStr (hd versions))]))))"

definition in_folder :: "string \<Rightarrow> string \<Rightarrow> bool" where
  "in_folder ending name \<longleftrightarrow> length (split_on (CHR ''/'') name) = 2 \<and> suffix ending name"

definition python_artifact :: "package_lib \<Rightarrow> package_file \<Rightarrow> jobject \<Rightarrow> string \<Rightarrow> (string \<times> jobject) result" where
  "python_artifact P file_path item expected =
     rbind (require (dhas item ''package'') ''Package artifact requires an owned name'') (\<lambda>_.
     rbind (if dget item ''format'' PNone = PStr ''wheel'' then zip_metadata file_path (in_folder ''.dist-info/METADATA'')
            else if pk_is_zip file_path then zip_metadata file_path (in_folder ''/PKG-INFO'')
            else tar_metadata file_path (in_folder ''/PKG-INFO'')) (\<lambda>raw.
     rbind (metadata_message P raw (as_str (dget item ''package'' PNone)) expected) (\<lambda>result.
     Inr (raw, result))))"

section \<open>npm packages\<close>

definition npm_artifact :: "pylib \<Rightarrow> package_file \<Rightarrow> jobject \<Rightarrow> string \<Rightarrow> (string \<times> jobject) result" where
  "npm_artifact L file_path item expected =
     rbind (require (dhas item ''package'') ''npm artifact requires an owned name'') (\<lambda>_.
     rbind (tar_metadata file_path (\<lambda>name. name = ''package/package.json'')) (\<lambda>raw.
     rbind (loads_bytes L plain_opts raw) (\<lambda>data.
     rbind (pget data ''name'' PNone) (\<lambda>name.
     rbind (pget data ''version'' PNone) (\<lambda>version.
     rbind (require (name = dget item ''package'' PNone \<and> version = PStr expected) ''npm artifact identity mismatch'') (\<lambda>_.
     Inr (raw, [(''package'', name), (''version'', version)])))))))"

section \<open>Fields of archives\<close>

definition text_version :: "string \<Rightarrow> string result" where
  "text_version raw =
     rbind (decode_text raw) (\<lambda>s.
     let actual = strip_text s in
     rbind (require (actual \<noteq> [] \<and> \<not> list_ex space_char actual) ''Text artifact version must be one value'') (\<lambda>_.
     Inr (join_chars actual)))"

definition document_of :: "pylib \<Rightarrow> string \<Rightarrow> pyval result" where
  "document_of L raw = rbind (json_document L raw) (\<lambda>(text_body, data, spans). Inr data)"

definition archive_field :: "pylib \<Rightarrow> package_lib \<Rightarrow> string \<Rightarrow> jobject \<Rightarrow> string \<Rightarrow> pyval result" where
  "archive_field L P kind item raw =
     rbind (require (dhas item ''field'') ''Artifact metadata requires an exact field'') (\<lambda>_.
     rbind (if kind = ''tar-toml'' then rbind (decode_text raw) (\<lambda>_. fl_toml P raw) else document_of L raw) (\<lambda>data.
     rbind (field_of (dget item ''field'' PNone)) (\<lambda>field.
     rbind (get_path data (keys field)) (\<lambda>actual.
     rbind (if dhas item ''package'' then
              rbind (get_path data (if kind = ''tar-toml'' then butlast (keys field) @ [Key ''name''] else [Key ''name''])) (\<lambda>name.
              require (name = dget item ''package'' PNone) ''Archive metadata package identity mismatch'')
            else Inr ()) (\<lambda>_.
     Inr actual)))))"

definition archive_artifact :: "pylib \<Rightarrow> package_lib \<Rightarrow> package_file \<Rightarrow> jobject \<Rightarrow> string \<Rightarrow> (string \<times> jobject) result" where
  "archive_artifact L P file_path item expected =
     (let kind = as_str (dget item ''format'' PNone); member = as_str (dget item ''member'' PNone) in
      rbind ((if prefix ''zip-'' kind then zip_metadata else tar_metadata) file_path (\<lambda>name. archive_name name = Some member)) (\<lambda>raw.
      rbind (if kind = ''tar-text'' then rbind (text_version raw) (\<lambda>s. Inr (PStr s)) else archive_field L P kind item raw) (\<lambda>actual.
      rbind (require (shows_as L actual expected) ''Artifact field mismatch'') (\<lambda>_.
      Inr (raw, [(''member'', PStr member), (''field'', dget item ''field'' PNone), (''version'', PStr expected)])))))"

section \<open>Fields of files\<close>

definition info_plist :: "string \<Rightarrow> bool" where
  "info_plist name \<longleftrightarrow> prefix ''Payload/'' name \<and> count_list name (CHR ''/'') = 2 \<and> suffix ''.app/Info.plist'' name"

definition field_artifact :: "pylib \<Rightarrow> package_lib \<Rightarrow> package_file \<Rightarrow> jobject \<Rightarrow> string \<Rightarrow> (string \<times> jobject) result" where
  "field_artifact L P file_path item expected =
     (let kind = as_str (dget item ''format'' PNone) in
      rbind (require (dhas item ''field'') ''Artifact metadata requires an exact field'') (\<lambda>_.
      rbind (if kind = ''ipa'' then zip_metadata file_path info_plist
             else rbind (require (int (length (pk_data file_path)) \<le> MAX_METADATA) ''Artifact metadata is too large'') (\<lambda>_. Inr (pk_data file_path))) (\<lambda>raw.
      rbind (if kind \<in> {''ipa'', ''plist''} then fl_plist P raw else document_of L raw) (\<lambda>data.
      rbind (field_of (dget item ''field'' PNone)) (\<lambda>field.
      rbind (get_path data (keys field)) (\<lambda>actual.
      rbind (require (shows_as L actual expected) ''Artifact field mismatch'') (\<lambda>_.
      Inr (raw, [(''field'', dget item ''field'' PNone), (''version'', PStr expected)]))))))))"

section \<open>\<open>verify_artifact\<close>\<close>

definition oci_artifact :: "pylib \<Rightarrow> package_file \<Rightarrow> jobject \<Rightarrow> string \<Rightarrow> (string \<times> jobject) result" where
  "oci_artifact L file_path item expected =
     rbind (require (dhas item ''field'' \<and> \<not> dhas item ''package'')
       ''OCI artifact requires an exact config field and no package selector'') (\<lambda>_.
     rbind (field_of (dget item ''field'' PNone)) (\<lambda>field.
     rbind (pk_tar file_path) (\<lambda>archive.
     rbind (oci_metadata L archive (keys field) expected) (\<lambda>(raw, images).
     Inr (raw, [(''field'', dget item ''field'' PNone), (''version'', PStr expected), (''images'', PList (map PDict images))])))))"

definition inspect_artifact :: "pylib \<Rightarrow> package_lib \<Rightarrow> package_file \<Rightarrow> jobject \<Rightarrow> string \<Rightarrow> (string \<times> jobject) result" where
  "inspect_artifact L P file_path item expected =
     (let kind = as_str (dget item ''format'' PNone) in
      if kind = ''oci'' then oci_artifact L file_path item expected
      else if kind \<in> {''wheel'', ''sdist''} then python_artifact P file_path item expected
      else if kind = ''npm-tar'' then npm_artifact L file_path item expected
      else if kind \<in> {''tar-text'', ''tar-toml'', ''tar-json'', ''zip-json''} then archive_artifact L P file_path item expected
      else field_artifact L P file_path item expected)"

definition verify_artifact :: "pylib \<Rightarrow> package_lib \<Rightarrow> string \<Rightarrow> package_file \<Rightarrow> pyval \<Rightarrow> pyval \<Rightarrow> jobject result" where
  "verify_artifact L P path file_path declaration plan_value =
     rbind (validate_plan L plan_value None None) (\<lambda>p.
     rbind (check_declaration True declaration) (\<lambda>item.
     rbind (require (pk_regular file_path) ''Artifact must be a regular file'') (\<lambda>_.
     rbind (projected_value p item) (\<lambda>value.
     rbind (inspect_artifact L P file_path item (py_str value)) (\<lambda>(raw, result).
     rbind (plan_digest L plan_value) (\<lambda>d.
     Inr ([(''path'', PStr path), (''format'', dget item ''format'' PNone), (''plan_sha256'', PStr d), (''metadata_sha256'', PStr (digest L raw))]
       @ result)))))))"

section \<open>\<open>verify_declared_artifacts\<close> of \<open>version_receipt.py\<close>\<close>

definition declared_matches :: "package_lib \<Rightarrow> (string \<times> package_file) list \<Rightarrow> pyval \<Rightarrow> (string \<times> package_file) list result" where
  "declared_matches P directory declaration =
     rbind (pget declaration ''path'' PNone) (\<lambda>pattern.
     rbind (value_require (case pattern of PStr s \<Rightarrow> CHR ''/'' \<notin> set s \<and> CHR 0x5C \<notin> set s | _ \<Rightarrow> False)
       ''Published artifact selectors must match flat asset names'') (\<lambda>_.
     let found = filter (\<lambda>(name, file_path). pl_fnmatch P name (as_str pattern)) (sort_key fst directory) in
     rbind (value_require (found \<noteq> []) ''Declared package metadata target is missing'') (\<lambda>_.
     Inr found)))"

definition inspect_declared :: "pylib \<Rightarrow> package_lib \<Rightarrow> (string \<times> package_file) list \<Rightarrow> pyval \<Rightarrow> pyval \<Rightarrow> jobject list result" where
  "inspect_declared L P directory plan_value declaration =
     rbind (declared_matches P directory declaration) (\<lambda>found.
     rmap (\<lambda>(name, file_path).
       rbind (verify_artifact L P name file_path declaration plan_value) (\<lambda>inspected.
       Inr (dict_set inspected ''path'' (PStr name)))) found)"

definition verify_declared_artifacts ::
  "pylib \<Rightarrow> package_lib \<Rightarrow> (string \<times> package_file) list \<Rightarrow> jobject \<Rightarrow> pyval \<Rightarrow> jobject list result" where
  "verify_declared_artifacts L P directory policy plan_value =
     rbind (ditem policy ''versioning'') (\<lambda>versioning.
     rbind (pget versioning ''artifacts'' (PList [])) (\<lambda>declarations.
     rbind (iter_items declarations) (\<lambda>items.
     rbind (rmap (inspect_declared L P directory plan_value) items) (\<lambda>results.
     Inr (concat results)))))"

end
