(* ===== verification/OciProps.thy ===== *)
theory OciProps
  imports OciMetadata
begin

text \<open>
  What a verified OCI archive guarantees. Triples over state passing with exceptions, with a rule for every building
  block of \<open>OciMetadata\<close>; one invariant of the walk gives the properties of the images it found and the bounds on the
  work it does on any archive.
\<close>

section \<open>Triples\<close>

text \<open>From a state in \<open>P\<close>, a result and its state are in \<open>Q\<close>, and a state in which an error was raised is in \<open>E\<close>.\<close>

definition triple :: "('w \<Rightarrow> bool) \<Rightarrow> ('w, 'a) io \<Rightarrow> ('a \<Rightarrow> 'w \<Rightarrow> bool) \<Rightarrow> ('w \<Rightarrow> bool) \<Rightarrow> bool" where
  "triple P m Q E \<longleftrightarrow> (\<forall>st. P st \<longrightarrow> (case m st of (Inl e, st') \<Rightarrow> E st' | (Inr x, st') \<Rightarrow> Q x st'))"

lemma triple_iff:
  "triple P m Q E \<longleftrightarrow>
     (\<forall>st e st'. P st \<longrightarrow> m st = (Inl e, st') \<longrightarrow> E st') \<and> (\<forall>st x st'. P st \<longrightarrow> m st = (Inr x, st') \<longrightarrow> Q x st')"
  (is "?l \<longleftrightarrow> ?r")
proof
  assume ?l
  then show ?r unfolding triple_def by fastforce
next
  assume r: ?r
  show ?l
    unfolding triple_def
  proof (intro allI impI)
    fix st
    assume "P st"
    moreover obtain x st' where "m st = (x, st')" by (cases "m st")
    ultimately show "case m st of (Inl e, st') \<Rightarrow> E st' | (Inr x, st') \<Rightarrow> Q x st'" using r by (cases x) auto
  qed
qed

lemma ibind_Inl_iff:
  "ibind m f w = (Inl e, w') \<longleftrightarrow> m w = (Inl e, w') \<or> (\<exists>x v. m w = (Inr x, v) \<and> f x v = (Inl e, w'))"
  by (auto simp: ibind_def split: prod.splits sum.splits)

lemma triple_bind: "triple P m R E \<Longrightarrow> (\<And>x. triple (R x) (f x) Q E) \<Longrightarrow> triple P (ibind m f) Q E"
  unfolding triple_iff ibind_Inr_iff ibind_Inl_iff by blast

lemma triple_return: "triple (Q x) (ireturn x) Q E"
  by (simp add: triple_def)

lemma triple_lift: "(\<And>st. P st \<Longrightarrow> E st) \<Longrightarrow> triple P (ilift r) (\<lambda>x st. P st \<and> r = Inr x) E"
  by (auto simp: triple_def split: sum.splits)

lemma triple_fact: "(A \<Longrightarrow> triple P m Q E) \<Longrightarrow> triple (\<lambda>st. P st \<and> A) m Q E"
  by (auto simp: triple_def)

lemma triple_post: "triple P m R E \<Longrightarrow> (\<And>x st. R x st \<Longrightarrow> Q x st) \<Longrightarrow> triple P m Q E"
  unfolding triple_iff by blast

lemma triple_pre: "triple R m Q E \<Longrightarrow> (\<And>st. P st \<Longrightarrow> R st) \<Longrightarrow> triple P m Q E"
  unfolding triple_iff by blast

lemma triple_update: "(\<And>st. P st \<Longrightarrow> Q () (f st)) \<Longrightarrow> triple P (oci_update f) Q E"
  by (auto simp: triple_def oci_update_def)

text \<open>A value computed by a step that leaves the state alone.\<close>

lemma triple_lifted:
  assumes "\<And>st. P st \<Longrightarrow> E st" "\<And>x. r = Inr x \<Longrightarrow> triple P (f x) Q E"
  shows "triple P (ibind (ilift r) f) Q E"
  using assms by (intro triple_bind [OF triple_lift] triple_fact) auto

lemma triple_iter:
  assumes "\<And>x. triple P (f x) (\<lambda>_ st. P st \<and> A x) E"
  shows "triple P (iiter f xs) (\<lambda>_ st. P st \<and> list_all A xs) E"
proof (induction xs)
  case Nil
  then show ?case by (simp add: triple_def)
next
  case (Cons x xs)
  show ?case
    by (simp, rule triple_bind [OF assms], rule triple_fact, rule triple_post [OF Cons.IH]) auto
qed

section \<open>Verified blobs and images\<close>

definition descriptor_digest :: "pyval \<Rightarrow> string" where
  "descriptor_digest v = as_str (dget (as_dict v) ''digest'' (PStr []))"

text \<open>The archive has a regular file named by the digest of the descriptor, whose bytes hash to it and encode \<open>data\<close>.\<close>

definition blob_verified :: "pylib \<Rightarrow> (string \<times> tar_member) list \<Rightarrow> pyval \<Rightarrow> jobject \<Rightarrow> bool" where
  "blob_verified L members v data \<longleftrightarrow>
     (\<exists>entry doc spans. matches_str digest_rx (PStr (descriptor_digest v))
        \<and> map_of members (blob_name (descriptor_digest v)) = Some entry \<and> tm_kind entry = TarFile
        \<and> digest L (tm_data entry) = drop 7 (descriptor_digest v)
        \<and> json_document L (tm_data entry) = Inr (doc, PDict data, spans))"

text \<open>
  An image of the archive: the blob of a manifest names the blob of a configuration, which has the platform and, at
  the field, the expected version; the layers of the manifest are present; both blobs are among \<open>verified\<close>.
\<close>

definition image_verified :: "pylib \<Rightarrow> oci_check \<Rightarrow> string set \<Rightarrow> jobject \<Rightarrow> bool" where
  "image_verified L C verified img \<longleftrightarrow>
     (\<exists>manifest data config details os arch version layers.
        blob_verified L (ok_members C) manifest data \<and> descriptor_digest manifest \<in> verified
        \<and> dget data ''config'' PNone = config
        \<and> blob_verified L (ok_members C) config details \<and> descriptor_digest config \<in> verified
        \<and> dget details ''os'' PNone = PStr os \<and> dget details ''architecture'' PNone = PStr arch
        \<and> os \<notin> {'''', ''unknown''} \<and> arch \<notin> {'''', ''unknown''}
        \<and> get_path (PDict details) (ok_field C) = Inr version \<and> shows_as L version (ok_expected C)
        \<and> dget data ''layers'' PNone = PList layers \<and> list_all (\<lambda>layer. \<exists>found. find_blob C layer = Inr found) layers
        \<and> img = [(''config_sha256'', PStr (drop 7 (descriptor_digest config))), (''os'', PStr os),
            (''architecture'', PStr arch), (''version'', PStr (ok_expected C))])"

lemma image_verified_mono: "image_verified L C V img \<Longrightarrow> V \<subseteq> W \<Longrightarrow> image_verified L C W img"
  unfolding image_verified_def by blast

section \<open>The invariant of the walk\<close>

text \<open>
  \<open>k\<close> counts the descriptors that were visited and have not added their image; \<open>X\<close> are digests known to be verified.
\<close>

definition oci_inv :: "pylib \<Rightarrow> oci_check \<Rightarrow> nat \<Rightarrow> string set \<Rightarrow> oci \<Rightarrow> bool" where
  "oci_inv L C k X st \<longleftrightarrow>
     X \<subseteq> set (oc_verified st) \<and> list_all (image_verified L C (set (oc_verified st))) (oc_images st)
     \<and> length (oc_images st) + k \<le> oc_visited st \<and> oc_visited st \<le> 1024 \<and> oc_bytes st \<le> 32000000"

text \<open>The work that was done when a check fails.\<close>

definition oci_bounded :: "oci \<Rightarrow> bool" where
  "oci_bounded st \<longleftrightarrow> oc_visited st \<le> 1025 \<and> length (oc_images st) \<le> 1024 \<and> oc_bytes st \<le> 32000000 + MAX_METADATA"

lemma inv_bounded: "oci_inv L C k X st \<Longrightarrow> oci_bounded st"
  by (simp add: oci_inv_def oci_bounded_def MAX_METADATA_def)

lemma oci_step:
  "(\<And>x. r = Inr x \<Longrightarrow> triple (oci_inv L C k X) (f x) Q oci_bounded) \<Longrightarrow> triple (oci_inv L C k X) (ibind (ilift r) f) Q oci_bounded"
  by (rule triple_lifted [OF inv_bounded])

lemma oci_inv_less: "oci_inv L C k X st \<Longrightarrow> oci_inv L C 0 {} st"
  by (simp add: oci_inv_def)

lemma find_blob_Inr:
  assumes "find_blob C v = Inr (d, identity)"
  shows "v = PDict d \<and> identity = descriptor_digest v \<and> matches_str digest_rx (PStr (descriptor_digest v))"
  using assms
  by (auto simp: find_blob_def dict_of_def descriptor_digest_def Let_def rbind_Inr_iff matches_str_def as_str_def as_dict_def
    split: pyval.splits option.splits)

lemma read_triple:
  "triple (oci_inv L C k X) (oci_read C name)
     (\<lambda>raw st. oci_inv L C k X st \<and> (\<exists>entry. map_of (ok_members C) name = Some entry \<and> tm_kind entry = TarFile \<and> raw = tm_data entry)) oci_bounded"
proof -
  have whole: "raw = x" if "int (length raw) \<le> MAX_METADATA" "raw = take (nat (MAX_METADATA + 1)) x" for raw x :: string
    using that by (simp add: MAX_METADATA_def)
  show ?thesis
    unfolding triple_def
    by (auto simp: oci_read_def ibind_def oci_update_def oci_get_def Let_def require_def ensure_def oci_inv_def oci_bounded_def
      MAX_METADATA_def split: option.splits)
qed

lemma triple_then:
  assumes "triple P m (\<lambda>x st. R x st \<and> A x) E" "\<And>x. A x \<Longrightarrow> triple (R x) (f x) Q E"
  shows "triple P (ibind m f) Q E"
  using assms by (intro triple_bind [OF assms(1)] triple_fact) auto

lemma blob_triple:
  "triple (oci_inv L C k X) (oci_blob L C v)
     (\<lambda>data st. oci_inv L C k (insert (descriptor_digest v) X) st \<and> blob_verified L (ok_members C) v data) oci_bounded"
  unfolding oci_blob_def
proof (rule oci_step, clarify)
  fix d identity
  assume found: "find_blob C v = Inr (d, identity)"
  note id = find_blob_Inr [OF found]
  show "triple (oci_inv L C k X)
     (ibind (oci_read C (blob_name identity)) (\<lambda>raw.
      ibind (ilift (require (digest L raw = drop 7 identity) ''OCI metadata digest mismatch'')) (\<lambda>_.
      ibind (oci_update (\<lambda>st. st\<lparr>oc_verified := oc_verified st @ [identity]\<rparr>)) (\<lambda>_.
      ibind (ilift (json_document L raw)) (\<lambda>(text_body, data, spans).
      ilift (dict_of data ''OCI metadata must be an object''))))))
     (\<lambda>data st. oci_inv L C k (insert (descriptor_digest v) X) st \<and> blob_verified L (ok_members C) v data) oci_bounded"
  proof (rule triple_then [OF read_triple], erule exE, rule oci_step, rule triple_bind [OF triple_update])
    fix st
    assume "oci_inv L C k X st"
    moreover have "list_all (image_verified L C (insert identity V)) xs" if "list_all (image_verified L C V) xs" for V xs
      using that by (rule list.pred_mono_strong) (blast intro: image_verified_mono)
    ultimately show "oci_inv L C k (insert (descriptor_digest v) X) (st\<lparr>oc_verified := oc_verified st @ [identity]\<rparr>)"
      using id by (simp add: oci_inv_def subset_insertI2)
  next
    fix raw u w entry
    assume "map_of (ok_members C) (blob_name identity) = Some entry \<and> tm_kind entry = TarFile \<and> raw = tm_data entry"
      and "require (digest L raw = drop 7 identity) ''OCI metadata digest mismatch'' = Inr u"
    with id have "blob_verified L (ok_members C) v data" if "json_document L raw = Inr (doc, PDict data, spans)" for doc data spans
      using that unfolding blob_verified_def by auto
    then show "triple (oci_inv L C k (insert (descriptor_digest v) X))
       (ibind (ilift (json_document L raw)) (\<lambda>(text_body, data, spans). ilift (dict_of data ''OCI metadata must be an object'')))
       (\<lambda>data st. oci_inv L C k (insert (descriptor_digest v) X) st \<and> blob_verified L (ok_members C) v data) oci_bounded"
      by (intro oci_step) (auto simp: triple_def dict_of_def intro: inv_bounded split: pyval.splits sum.splits prod.splits)
  qed
qed

lemma present_triple:
  "triple (oci_inv L C k X) (present_blob C v) (\<lambda>_ st. oci_inv L C k X st \<and> (\<exists>found. find_blob C v = Inr found)) oci_bounded"
  unfolding present_blob_def by (intro oci_step) (auto simp: triple_def)

section \<open>Attestations\<close>

text \<open>An attestation adds no image.\<close>

abbreviation keeps_inv :: "pylib \<Rightarrow> oci_check \<Rightarrow> nat \<Rightarrow> string set \<Rightarrow> (oci, 'a) io \<Rightarrow> bool" where
  "keeps_inv L C k X m \<equiv> triple (oci_inv L C k X) m (\<lambda>_. oci_inv L C k X) oci_bounded"

lemma inv_subjects [simp]:
  "oci_inv L C k X (st\<lparr>oc_subjects := s\<rparr>) = oci_inv L C k X st"
  "oci_inv L C k X (st\<lparr>oc_legacy := l\<rparr>) = oci_inv L C k X st"
  by (simp_all add: oci_inv_def)

lemma blob_keeps:
  assumes "\<And>data. triple (oci_inv L C k X) (f data) Q oci_bounded"
  shows "triple (oci_inv L C k X) (ibind (oci_blob L C v) f) Q oci_bounded"
proof (rule triple_bind [OF blob_triple])
  fix data
  show "triple (\<lambda>st. oci_inv L C k (insert (descriptor_digest v) X) st \<and> blob_verified L (ok_members C) v data) (f data) Q oci_bounded"
    by (rule triple_pre [OF assms]) (simp add: oci_inv_def)
qed

lemma present_keeps: "keeps_inv L C k X (present_blob C v)"
  by (rule triple_post [OF present_triple]) simp

lemma iter_keeps: "(\<And>x. keeps_inv L C k X (f x)) \<Longrightarrow> keeps_inv L C k X (iiter f xs)"
  using triple_iter [of "oci_inv L C k X" f "\<lambda>_. True"] by (simp add: list_all_iff)

lemma artifact_keeps: "keeps_inv L C k X (artifact_attestation L C descriptor data config reference)"
  unfolding artifact_attestation_def
  by (intro oci_step blob_keeps triple_bind [OF present_keeps] triple_update) simp

lemma legacy_keeps: "keeps_inv L C k X (legacy_attestation L C descriptor config reference)"
  unfolding legacy_attestation_def
  by (intro oci_step blob_keeps) (auto intro: triple_update triple_return)

lemma attestation_keeps: "keeps_inv L C k X (oci_attestation L C descriptor data platform annotations)"
  unfolding oci_attestation_def Let_def
  by (intro oci_step triple_bind [where R = "\<lambda>_. oci_inv L C k X"] iter_keeps present_keeps)
     (auto intro: artifact_keeps legacy_keeps)

section \<open>Images\<close>

lemma platform_part_Inr: "platform_part details platform key = Inr s \<Longrightarrow> dget details key PNone = PStr s \<and> s \<notin> {'''', ''unknown''}"
  by (auto simp: platform_part_def rbind_Inr_iff split: pyval.splits)

lemma image_config_Inr: "image_config v = Inr config \<Longrightarrow> v = PDict config"
  by (auto simp: image_config_def rbind_Inr_iff split: pyval.splits)

lemma image_layers_Inr: "image_layers v = Inr layers \<Longrightarrow> v = PList layers"
  by (auto simp: image_layers_def rbind_Inr_iff split: pyval.splits)

lemma digest_rx_empty: "\<not> fullmatch digest_rx []"
  by code_simp

lemma find_digest: "blob_verified L members (PDict config) details \<Longrightarrow> dget config ''digest'' PNone = PStr (descriptor_digest (PDict config))"
  by (auto simp: blob_verified_def descriptor_digest_def as_dict_def as_str_def dget_def matches_str_def digest_rx_empty
    split: option.splits pyval.splits)

lemma add_image_triple:
  assumes manifest: "blob_verified L (ok_members C) (PDict descriptor) data" "descriptor_digest (PDict descriptor) \<in> X"
    and config: "blob_verified L (ok_members C) (PDict config) details" "dget data ''config'' PNone = PDict config"
    and parts: "platform_part details platform ''os'' = Inr os" "platform_part details platform ''architecture'' = Inr arch"
    and version: "get_path (PDict details) (ok_field C) = Inr actual" "shows_as L actual (ok_expected C)"
    and layers: "dget data ''layers'' PNone = PList layers" "list_all (\<lambda>layer. \<exists>found. find_blob C layer = Inr found) layers"
  shows "triple (oci_inv L C (Suc 0) (insert (descriptor_digest (PDict config)) X)) (add_image C descriptor config os arch)
    (\<lambda>_. oci_inv L C 0 {}) oci_bounded"
  unfolding add_image_def
proof (rule triple_update)
  fix st
  assume inv: "oci_inv L C (Suc 0) (insert (descriptor_digest (PDict config)) X) st"
  have "image_verified L C (set (oc_verified st)) (image_record config os arch (ok_expected C))"
    unfolding image_verified_def
    using assms platform_part_Inr [OF parts(1)] platform_part_Inr [OF parts(2)] inv find_digest [OF config(1)]
    by (intro exI [of _ "PDict descriptor"] exI [of _ data] exI [of _ "PDict config"] exI [of _ details] exI [of _ os] exI [of _ arch]
        exI [of _ actual] exI [of _ layers])
       (auto simp: oci_inv_def image_record_def as_str_def)
  with inv show "oci_inv L C 0 {} (st\<lparr>oc_runnable := (key_of_descriptor descriptor, os, arch) # oc_runnable st,
      oc_images := oc_images st @ [image_record config os arch (ok_expected C)]\<rparr>)"
    by (simp add: oci_inv_def)
qed

lemma runnable_triple:
  assumes "blob_verified L (ok_members C) (PDict descriptor) data" "descriptor_digest (PDict descriptor) \<in> X"
  shows "triple (oci_inv L C (Suc 0) X) (oci_runnable L C descriptor data platform) (\<lambda>_. oci_inv L C 0 {}) oci_bounded"
  unfolding oci_runnable_def
proof (rule oci_step, rule oci_step, rule oci_step)
  fix config
  assume "image_config (dget data ''config'' PNone) = Inr config"
  note config = image_config_Inr [OF this]
  show "triple (oci_inv L C (Suc 0) X) (ibind (oci_blob L C (PDict config)) (\<lambda>details.
     ibind (ilift (platform_part details platform ''os'')) (\<lambda>os.
     ibind (ilift (platform_part details platform ''architecture'')) (\<lambda>arch.
     ibind (ilift (get_path (PDict details) (ok_field C))) (\<lambda>actual.
     ibind (ilift (require (shows_as L actual (ok_expected C)) ''OCI image version mismatch'')) (\<lambda>_.
     ibind (ilift (image_layers (dget data ''layers'' PNone))) (\<lambda>layers.
     ibind (iiter (present_blob C) layers) (\<lambda>_.
     add_image C descriptor config os arch)))))))) (\<lambda>_. oci_inv L C 0 {}) oci_bounded"
    by (intro triple_then [OF blob_triple] oci_step triple_then [OF triple_iter [OF present_triple]]
        add_image_triple [OF assms _ config] image_layers_Inr) (assumption | simp)+
qed

section \<open>The walk\<close>

abbreviation walks :: "pylib \<Rightarrow> oci_check \<Rightarrow> (oci, unit) io \<Rightarrow> bool" where
  "walks L C m \<equiv> triple (oci_inv L C 0 {}) m (\<lambda>_. oci_inv L C 0 {}) oci_bounded"

lemma node_triple:
  assumes "\<And>v. walks L C (walk v)"
  shows "triple (oci_inv L C (Suc 0) {}) (oci_node L C walk v) (\<lambda>_. oci_inv L C 0 {}) oci_bounded"
  unfolding oci_node_def Let_def
proof (rule triple_then [OF blob_triple], rule oci_step, rule oci_step, rule oci_step, rule oci_step)
  fix data descriptor platform annotations
  assume data: "blob_verified L (ok_members C) v data" and "dict_of v ''OCI descriptor must be an object'' = Inr descriptor"
  then have v: "v = PDict descriptor" by (auto simp: dict_of_def split: pyval.splits)
  let ?P = "oci_inv L C (Suc 0) {descriptor_digest v}"
  have "triple ?P (oci_attestation L C descriptor data platform annotations) (\<lambda>_. oci_inv L C 0 {}) oci_bounded"
    by (rule triple_post [OF attestation_keeps]) (simp add: oci_inv_def)
  moreover have "triple ?P (iiter walk manifests) (\<lambda>_. oci_inv L C 0 {}) oci_bounded" for manifests
    by (rule triple_pre [OF iter_keeps [OF assms]]) (simp add: oci_inv_def)
  moreover have "triple ?P (oci_runnable L C descriptor data platform) (\<lambda>_. oci_inv L C 0 {}) oci_bounded"
    by (rule runnable_triple) (use data v in auto)
  ultimately show "triple ?P (if dget annotations ''vnd.docker.reference.type'' PNone = PStr ''attestation-manifest''
        \<or> dget data ''artifactType'' PNone = PStr attestation_type
     then oci_attestation L C descriptor data platform annotations
     else ibind (ilift (in_strs (dget descriptor ''mediaType'' PNone) index_types)) (\<lambda>index.
       if index then ibind (ilift (index_manifests (dget data ''manifests'' PNone))) (\<lambda>manifests. iiter walk manifests)
       else oci_runnable L C descriptor data platform)) (\<lambda>_. oci_inv L C 0 {}) oci_bounded"
    by (auto intro!: oci_step)
qed

lemma visit_triple: "triple (oci_inv L C 0 {}) oci_visit (\<lambda>_. oci_inv L C (Suc 0) {}) oci_bounded"
  by (auto simp: triple_def oci_visit_def ibind_def oci_update_def oci_get_def oci_inv_def oci_bounded_def require_def ensure_def
    MAX_METADATA_def)

lemma walk_triple: "walks L C (oci_walk L C levels v)"
proof (induction levels arbitrary: v)
  case 0
  then show ?case
    by (auto simp: triple_def ibind_def oci_update_def oci_inv_def oci_bounded_def MAX_METADATA_def)
next
  case (Suc levels)
  then show ?case
    by (simp add: triple_bind [OF visit_triple] node_triple)
qed

lemma oci_checks_Inr: "oci_checks st = Inr u \<Longrightarrow> oc_images st \<noteq> []"
  by (auto simp: oci_checks_def rbind_Inr_iff)

lemma verify_triple:
  "triple (oci_inv L C 0 {}) (oci_verify L C)
     (\<lambda>(raw, images) st. oci_bounded st \<and> (\<exists>index. images \<noteq> [] \<and> list_all (image_verified L C (set (oc_verified st))) images
        \<and> json_bytes L (PDict [(''index_sha256'', PStr (digest L index)), (''metadata'', PList (map PStr (sort (remdups (oc_verified st)))))]) = Inr raw))
     oci_bounded"
  unfolding oci_verify_def
  apply (rule triple_bind)
   apply (rule triple_post [OF read_triple])
   apply (erule conjunct1)
  apply (intro oci_step)
  apply (rule triple_bind)
   apply (rule triple_post [OF read_triple])
   apply (erule conjunct1)
  apply (intro oci_step)
  apply (rule triple_bind [where R = "\<lambda>_. oci_inv L C 0 {}"])
   apply (rule iter_keeps [OF walk_triple])
  apply (auto simp: triple_def ibind_def oci_get_def ireturn_def oci_inv_def oci_bounded_def MAX_METADATA_def split: sum.splits dest: oci_checks_Inr)
  done

section \<open>Properties\<close>

lemma members_distinct: "archive_members n members entries = Inr result \<Longrightarrow> distinct (map fst members) \<Longrightarrow> distinct (map fst result)"
  by (induction n members entries rule: archive_members.induct) (auto simp: rbind_Inr_iff split: if_splits option.splits)

lemma init_inv: "oci_inv L C 0 {} oci_init"
  by (simp add: oci_inv_def oci_init_def)

text \<open>
  C36: An OCI archive that passes \<open>_oci_metadata\<close> has at least one image and no member twice. Every image of the result
  is described by a manifest and a configuration that are regular files of the archive, hash to the digests naming
  them and are listed in the evidence; the configuration has the reported platform and, at the declared field, the
  expected version, and every layer of the manifest is in the archive with its declared size.
\<close>

theorem oci_images_verified:
  "case oci_metadata L archive field expected of
     Inl e \<Rightarrow> True
   | Inr (raw, images) \<Rightarrow>
       images \<noteq> [] \<and>
       (\<exists>members verified index. archive_members 0 [] archive = Inr members \<and> distinct (map fst members)
          \<and> list_all (image_verified L \<lparr>ok_members = members, ok_field = field, ok_expected = expected\<rparr> (set verified)) images
          \<and> json_bytes L (PDict [(''index_sha256'', PStr (digest L index)), (''metadata'', PList (map PStr (sort (remdups verified))))]) = Inr raw)"
proof (cases "oci_metadata L archive field expected")
  case (Inr result)
  then obtain members where m: "archive_members 0 [] archive = Inr members"
    and v: "fst (oci_verify L \<lparr>ok_members = members, ok_field = field, ok_expected = expected\<rparr> oci_init) = Inr result"
    by (auto simp: oci_metadata_def rbind_Inr_iff)
  let ?C = "\<lparr>ok_members = members, ok_field = field, ok_expected = expected\<rparr>"
  obtain st where "oci_verify L ?C oci_init = (Inr result, st)"
    using v by (cases "oci_verify L ?C oci_init") auto
  moreover obtain raw images where "result = (raw, images)" by (cases result)
  moreover have "distinct (map fst members)" using members_distinct [OF m] by simp
  ultimately show ?thesis
    using verify_triple [of L ?C] init_inv [of L ?C] m Inr unfolding triple_def by fastforce
qed simp

text \<open>
  Whatever the archive holds, the walk stops after 1025 descriptors and 34,000,000 bytes of metadata and collects
  at most 1024 images, whether it succeeds or raises.
\<close>

lemma oci_work_bounded:
  "case oci_verify L C oci_init of
     (outcome, st) \<Rightarrow> oc_visited st \<le> 1025 \<and> length (oc_images st) \<le> 1024 \<and> oc_bytes st \<le> 34000000"
proof -
  obtain r st where e: "oci_verify L C oci_init = (r, st)" by (cases "oci_verify L C oci_init")
  then have "oci_bounded st"
    using verify_triple [of L C] init_inv [of L C] unfolding triple_def by (fastforce split: sum.splits)
  then show ?thesis using e by (simp add: oci_bounded_def MAX_METADATA_def)
qed

end
