(* ===== verification/ArtifactProps.thy ===== *)
theory ArtifactProps
  imports Artifacts OciProps
begin

text \<open>
  A verified package shows the version of its plan: the metadata whose digest is reported is the single bounded metadata
  member of the file, and the version it decodes to, by the format of the declaration, is the projected one.
\<close>

section \<open>The metadata member\<close>

definition zip_member_of :: "package_file \<Rightarrow> (string \<Rightarrow> bool) \<Rightarrow> string \<Rightarrow> bool" where
  "zip_member_of file_path matches raw \<longleftrightarrow>
     (\<exists>infolist entry. pk_zip file_path = Inr infolist \<and> filter (\<lambda>entry. \<not> zm_dir entry \<and> matches (zm_name entry)) infolist = [entry]
        \<and> \<not> zm_link entry \<and> zm_data entry = Inr raw \<and> int (length raw) \<le> MAX_METADATA)"

definition tar_member_of :: "package_file \<Rightarrow> (string \<Rightarrow> bool) \<Rightarrow> string \<Rightarrow> bool" where
  "tar_member_of file_path matches raw \<longleftrightarrow>
     (\<exists>entries entry. pk_tar file_path = Inr entries \<and> filter (\<lambda>entry. matches (tm_name entry)) entries = [entry]
        \<and> tm_kind entry = TarFile \<and> tm_data entry = raw \<and> int (length raw) \<le> MAX_METADATA)"

lemma bounded_read_Inr: "bounded_read data = Inr content \<longleftrightarrow> content = data \<and> int (length data) \<le> MAX_METADATA"
  by (auto simp: bounded_read_def rbind_Inr_iff MAX_METADATA_def)

lemma zip_metadata_member: "zip_metadata file_path matches = Inr raw \<Longrightarrow> zip_member_of file_path matches raw"
  by (auto simp: zip_metadata_def zip_member_of_def rbind_Inr_iff Let_def length_Suc_conv bounded_read_Inr)

lemma tar_matches_Inr:
  "tar_matches matches n found entries = Inr result \<Longrightarrow>
     result = found @ map tm_data (filter (\<lambda>entry. matches (tm_name entry)) entries)
     \<and> (\<forall>entry \<in> set entries. matches (tm_name entry) \<longrightarrow> tm_kind entry = TarFile \<and> int (length (tm_data entry)) \<le> MAX_METADATA)"
  by (induction matches n found entries rule: tar_matches.induct) (auto simp: rbind_Inr_iff bounded_read_Inr split: if_splits)

lemma tar_metadata_member:
  assumes "tar_metadata file_path matches = Inr raw"
  shows "tar_member_of file_path matches raw"
proof -
  from assms obtain entries found where e: "pk_tar file_path = Inr entries" "tar_matches matches 0 [] entries = Inr found"
    "length found = 1" "raw = hd found"
    by (auto simp: tar_metadata_def rbind_Inr_iff)
  from tar_matches_Inr [OF e(2)] e(3) obtain entry where f: "filter (\<lambda>entry. matches (tm_name entry)) entries = [entry]"
    by (auto simp: length_Suc_conv)
  then have "entry \<in> set entries" "matches (tm_name entry)" using filter_set [of "\<lambda>entry. matches (tm_name entry)" entries] by auto
  with tar_matches_Inr [OF e(2)] e f show ?thesis unfolding tar_member_of_def by auto
qed

section \<open>The version it shows\<close>

text \<open>For each format, where the metadata comes from and how it shows the version.\<close>

definition field_shows :: "pylib \<Rightarrow> jobject \<Rightarrow> pyval result \<Rightarrow> string \<Rightarrow> bool" where
  "field_shows L item document expected \<longleftrightarrow>
     (\<exists>data field actual. document = Inr data \<and> field_of (dget item ''field'' PNone) = Inr field
        \<and> get_path data (keys field) = Inr actual \<and> shows_as L actual expected)"

definition python_shows :: "package_lib \<Rightarrow> package_file \<Rightarrow> jobject \<Rightarrow> string \<Rightarrow> string \<Rightarrow> bool" where
  "python_shows P file_path item expected raw \<longleftrightarrow>
     (if dget item ''format'' PNone = PStr ''wheel'' then zip_member_of file_path (in_folder ''.dist-info/METADATA'') raw
      else if pk_is_zip file_path then zip_member_of file_path (in_folder ''/PKG-INFO'') raw
      else tar_member_of file_path (in_folder ''/PKG-INFO'') raw)
     \<and> pl_headers P raw ''Version'' = [expected]
     \<and> (\<exists>name. pl_headers P raw ''Name'' = [name] \<and> package_name P name = package_name P (as_str (dget item ''package'' PNone)))"

definition npm_shows :: "pylib \<Rightarrow> package_file \<Rightarrow> jobject \<Rightarrow> string \<Rightarrow> string \<Rightarrow> bool" where
  "npm_shows L file_path item expected raw \<longleftrightarrow>
     tar_member_of file_path (\<lambda>name. name = ''package/package.json'') raw
     \<and> (\<exists>d. loads_bytes L plain_opts raw = Inr (PDict d) \<and> dget d ''name'' PNone = dget item ''package'' PNone
          \<and> dget d ''version'' PNone = PStr expected)"

definition archive_shows :: "pylib \<Rightarrow> package_lib \<Rightarrow> package_file \<Rightarrow> jobject \<Rightarrow> string \<Rightarrow> string \<Rightarrow> bool" where
  "archive_shows L P file_path item expected raw \<longleftrightarrow>
     (let kind = as_str (dget item ''format'' PNone); member = as_str (dget item ''member'' PNone) in
      (if prefix ''zip-'' kind then zip_member_of else tar_member_of) file_path (\<lambda>name. archive_name name = Some member) raw
      \<and> (if kind = ''tar-text'' then text_version raw = Inr expected
         else field_shows L item (if kind = ''tar-toml'' then fl_toml P raw else document_of L raw) expected))"

definition file_shows :: "pylib \<Rightarrow> package_lib \<Rightarrow> package_file \<Rightarrow> jobject \<Rightarrow> string \<Rightarrow> string \<Rightarrow> bool" where
  "file_shows L P file_path item expected raw \<longleftrightarrow>
     (let kind = as_str (dget item ''format'' PNone) in
      (if kind = ''ipa'' then zip_member_of file_path info_plist raw else raw = pk_data file_path)
      \<and> field_shows L item (if kind \<in> {''ipa'', ''plist''} then fl_plist P raw else document_of L raw) expected)"

definition oci_shows :: "pylib \<Rightarrow> package_file \<Rightarrow> jobject \<Rightarrow> string \<Rightarrow> jobject \<Rightarrow> bool" where
  "oci_shows L file_path item expected result \<longleftrightarrow>
     (\<exists>archive field raw images. pk_tar file_path = Inr archive \<and> field_of (dget item ''field'' PNone) = Inr field
        \<and> oci_metadata L archive (keys field) expected = Inr (raw, images) \<and> dget result ''images'' PNone = PList (map PDict images))"

definition artifact_shows :: "pylib \<Rightarrow> package_lib \<Rightarrow> package_file \<Rightarrow> jobject \<Rightarrow> string \<Rightarrow> string \<Rightarrow> jobject \<Rightarrow> bool" where
  "artifact_shows L P file_path item expected raw result \<longleftrightarrow>
     (let kind = as_str (dget item ''format'' PNone) in
      if kind = ''oci'' then oci_shows L file_path item expected result
      else if kind \<in> {''wheel'', ''sdist''} then python_shows P file_path item expected raw
      else if kind = ''npm-tar'' then npm_shows L file_path item expected raw
      else if kind \<in> {''tar-text'', ''tar-toml'', ''tar-json'', ''zip-json''} then archive_shows L P file_path item expected raw
      else file_shows L P file_path item expected raw)"

lemma shows_str [simp]: "shows_as L (PStr s) expected \<longleftrightarrow> s = expected"
  by (simp add: shows_as_def)

lemma version_entry [simp]:
  "dget [(''package'', x), (''version'', v)] ''version'' w = v"
  "dget [(''member'', x), (''field'', y), (''version'', v)] ''version'' w = v"
  "dget ((''field'', y) # (''version'', v) # rest) ''version'' w = v"
  "dget [(''field'', y), (''version'', v), (''images'', z)] ''images'' w = z"
  by (simp_all add: dget_def)

lemma python_artifact_shows:
  "python_artifact P file_path item expected = Inr (raw, result) \<Longrightarrow> python_shows P file_path item expected raw \<and> dget result ''version'' PNone = PStr expected"
  by (auto simp: python_artifact_def python_shows_def metadata_message_def rbind_Inr_iff Let_def length_Suc_conv
    split: if_splits dest: zip_metadata_member tar_metadata_member)

lemma pget_Inr: "pget v k w = Inr x \<longleftrightarrow> (\<exists>d. v = PDict d \<and> x = dget d k w)"
  by (cases v) (auto simp: pget_def)

lemma npm_artifact_shows:
  "npm_artifact L file_path item expected = Inr (raw, result) \<Longrightarrow> npm_shows L file_path item expected raw \<and> dget result ''version'' PNone = PStr expected"
  by (auto simp: npm_artifact_def npm_shows_def rbind_Inr_iff pget_Inr dest: tar_metadata_member)

lemma archive_artifact_shows:
  assumes "archive_artifact L P file_path item expected = Inr (raw, result)"
  shows "archive_shows L P file_path item expected raw \<and> dget result ''version'' PNone = PStr expected"
proof -
  let ?kind = "as_str (dget item ''format'' PNone)" and ?member = "\<lambda>name. archive_name name = Some (as_str (dget item ''member'' PNone))"
  from assms have "(if prefix ''zip-'' ?kind then zip_metadata else tar_metadata) file_path ?member = Inr raw"
    by (auto simp: archive_artifact_def rbind_Inr_iff Let_def)
  then have "(if prefix ''zip-'' ?kind then zip_member_of else tar_member_of) file_path ?member raw"
    by (auto split: if_splits dest: zip_metadata_member tar_metadata_member)
  with assms show ?thesis
    by (auto simp: archive_artifact_def archive_shows_def archive_field_def field_shows_def rbind_Inr_iff Let_def split: if_splits)
qed

lemma field_artifact_shows:
  "field_artifact L P file_path item expected = Inr (raw, result) \<Longrightarrow> file_shows L P file_path item expected raw \<and> dget result ''version'' PNone = PStr expected"
  by (auto simp: field_artifact_def file_shows_def field_shows_def rbind_Inr_iff Let_def split: if_splits dest: zip_metadata_member)

lemma oci_artifact_shows:
  "oci_artifact L file_path item expected = Inr (raw, result) \<Longrightarrow> oci_shows L file_path item expected result \<and> dget result ''version'' PNone = PStr expected"
  by (auto simp: oci_artifact_def oci_shows_def rbind_Inr_iff)

text \<open>
  C35: A package that passes \<open>verify_artifact\<close> shows the version its plan projects: the reported digest is that of the one
  bounded metadata member of the file its format reads, and the version field of that metadata, or of every image of an OCI
  archive, is the projected value; the report names that version and the plan.
\<close>

theorem artifact_shows_version:
  "case verify_artifact L P path file_path declaration plan_value of
     Inl e \<Rightarrow> True
   | Inr report \<Rightarrow>
       (\<exists>p item value raw result d. validate_plan L plan_value None None = Inr p \<and> declaration = PDict item
          \<and> projected_value p item = Inr value \<and> artifact_shows L P file_path item (py_str value) raw result
          \<and> plan_digest L plan_value = Inr d
          \<and> report = [(''path'', PStr path), (''format'', dget item ''format'' PNone), (''plan_sha256'', PStr d),
                (''metadata_sha256'', PStr (digest L raw))] @ result
          \<and> dget result ''version'' PNone = PStr (py_str value))"
proof (cases "verify_artifact L P path file_path declaration plan_value")
  case (Inr report)
  then obtain p item projected raw result d where
    e: "validate_plan L plan_value None None = Inr p" "check_declaration True declaration = Inr item" "projected_value p item = Inr projected"
      "inspect_artifact L P file_path item (py_str projected) = Inr (raw, result)" "plan_digest L plan_value = Inr d"
      "report = [(''path'', PStr path), (''format'', dget item ''format'' PNone), (''plan_sha256'', PStr d),
                (''metadata_sha256'', PStr (digest L raw))] @ result"
    by (auto simp: verify_artifact_def rbind_Inr_iff)
  from e(2) have "declaration = PDict item" by (auto simp: check_declaration_def dict_of_def rbind_Inr_iff split: pyval.splits)
  moreover have "artifact_shows L P file_path item (py_str projected) raw result \<and> dget result ''version'' PNone = PStr (py_str projected)"
    using e(4) unfolding inspect_artifact_def artifact_shows_def Let_def
    by (auto split: if_splits
      dest: python_artifact_shows npm_artifact_shows archive_artifact_shows field_artifact_shows oci_artifact_shows)
  ultimately show ?thesis using e Inr by auto
qed simp

end
