(* ===== verification/VersionEditProps.thy ===== *)
theory VersionEditProps
  imports VersionEdit
begin

text \<open>
  The TOML editor replaces exactly one scalar token. Its scan keeps the places of the assignments it finds; a place
  is a token that is a complete scalar, so the edited text differs from the old one in that token only.
\<close>

section \<open>Lines\<close>

lemma concat_split_keep: "concat (split_keep stop cr nl s) = s"
proof (induction stop cr nl s rule: split_keep.induct)
  case (1 stop cr nl)
  then show ?case by simp
next
  case (2 stop cr nl c cs)
  let ?body = "takeWhile (\<lambda>x. \<not> stop x) (c # cs)"
  have whole: "?body @ dropWhile (\<lambda>x. \<not> stop x) (c # cs) = c # cs" by (rule takeWhile_dropWhile_id)
  show ?case
  proof (cases "dropWhile (\<lambda>x. \<not> stop x) (c # cs)")
    case Nil
    with whole show ?thesis by (simp add: split_keep.simps(2))
  next
    case (Cons e rest)
    show ?thesis
    proof (cases "e = cr \<and> prefix [nl] rest")
      case True
      with 2(1) [OF refl Cons] Cons have "concat (split_keep stop cr nl (c # cs)) = ?body @ e # nl # tl rest"
        by (simp add: split_keep.simps(2) del: dropWhile.simps takeWhile.simps)
      with True Cons whole show ?thesis by (auto simp: prefix_def)
    next
      case False
      with 2(2) [OF refl Cons] Cons have "concat (split_keep stop cr nl (c # cs)) = ?body @ e # rest"
        by (auto simp add: split_keep.simps(2) simp del: dropWhile.simps takeWhile.simps)
      with Cons whole show ?thesis by simp
    qed
  qed
qed

section \<open>Scalars\<close>

lemma basic_scalar_take: "basic_scalar s = Some n \<Longrightarrow> n \<le> length s \<and> basic_scalar (take n s) = Some n"
proof (induction s arbitrary: n rule: basic_scalar.induct)
  case 1
  then show ?case by simp
next
  case (2 c cs)
  consider "c = DQ" | "c \<noteq> DQ" "c = BACKSLASH" | "c \<noteq> DQ" "c \<noteq> BACKSLASH" by blast
  then show ?case
  proof cases
    case 1
    with 2(3) show ?thesis by auto
  next
    case b: 2
    with "2.prems" obtain d ds m where "cs = d # ds" "d \<noteq> NEWLINE" "basic_scalar ds = Some m" "n = m + 2"
      by (auto split: list.splits if_splits)
    with "2.IH"(1) [OF b] b show ?thesis by simp
  next
    case o: 3
    with "2.prems" obtain m where "c \<notin> {RETURN, NEWLINE}" "basic_scalar cs = Some m" "n = Suc m"
      by (auto split: if_splits)
    with "2.IH"(2) [OF o] o show ?thesis by simp
  qed
qed

lemma literal_scalar_take: "literal_scalar s = Some n \<Longrightarrow> n \<le> length s \<and> literal_scalar (take n s) = Some n"
  by (induction s arbitrary: n) (auto split: if_splits)

lemma digits_scalar_take: "digits_scalar L s = Some n \<Longrightarrow> n \<le> length s \<and> digits_scalar L (take n s) = Some n"
  by (auto simp: digits_scalar_def takeWhile_eq_take [symmetric] length_takeWhile_le split: list.splits if_splits)

lemma scalar_length_take: "scalar_length L s = Some n \<Longrightarrow> n \<le> length s \<and> scalar_length L (take n s) = Some n"
proof (cases s)
  case (Cons c cs)
  assume n: "scalar_length L s = Some n"
  consider "c = DQ" | "c \<noteq> DQ" "c = SQ" | "c \<noteq> DQ" "c \<noteq> SQ" "c = ''+'' \<or> c = ''-''" | "c \<noteq> DQ" "c \<noteq> SQ" "c \<noteq> ''+''" "c \<noteq> ''-''"
    by blast
  then show ?thesis
  proof cases
    case 1
    with n Cons show ?thesis by (auto simp: scalar_length_def dest: basic_scalar_take)
  next
    case 2
    with n Cons show ?thesis by (auto simp: scalar_length_def dest: literal_scalar_take)
  next
    case 3
    with n Cons show ?thesis by (auto simp: scalar_length_def dest: digits_scalar_take)
  next
    case 4
    with n Cons have "digits_scalar L s = Some n" by (simp add: scalar_length_def)
    moreover from this obtain m where "n = Suc m" using Cons by (auto simp: digits_scalar_def split: if_splits)
    ultimately show ?thesis using 4 Cons digits_scalar_take [of L s n] by (simp add: scalar_length_def)
  qed
qed (simp add: scalar_length_def)

section \<open>Places\<close>

definition toml_place :: "pylib \<Rightarrow> pyval \<Rightarrow> utext \<Rightarrow> nat \<times> nat \<times> utext \<Rightarrow> bool" where
  "toml_place L replacement s place \<longleftrightarrow>
     (\<exists>a token b. s = a @ token @ b \<and> scalar_length L token = Some (length token)
        \<and> place = (length a, length a + length token, toml_token replacement token))"

lemma toml_place_append: "toml_place L v s place \<Longrightarrow> toml_place L v (s @ t) place"
  unfolding toml_place_def by (metis append.assoc)

lemma toml_assignment_place:
  assumes "toml_assignment L F line current target v = Inr (Some (start, end, token))"
  shows "toml_place L v (p @ line) (length p + start, length p + end, token)"
proof -
  from assms obtain n where n: "scalar_length L (drop start line) = Some n" "end = start + n" "token = toml_token v (take n (drop start line))"
    by (auto simp: toml_assignment_def Let_def rbind_Inr_iff split: option.splits if_splits)
  moreover note scalar_length_take [OF n(1)]
  moreover have "start \<le> length line" using n(1) by (cases "start \<le> length line") (auto simp: scalar_length_def)
  ultimately show ?thesis
    unfolding toml_place_def
    by (intro exI [of _ "p @ take start line"] exI [of _ "take n (drop start line)"] exI [of _ "drop (start + n) line"])
       (auto simp: add.commute simp flip: drop_drop)
qed

lemma toml_line_places:
  assumes "toml_line L F target v st line = Inr st'" "ts_offset st = length p" "list_all (toml_place L v p) (ts_found st)"
  shows "ts_offset st' = length (p @ line) \<and> list_all (toml_place L v (p @ line)) (ts_found st')"
proof -
  have old: "list_all (toml_place L v (p @ line)) (ts_found st)"
    using assms(3) by (rule list.pred_mono_strong) (rule toml_place_append)
  with assms(1,2) show ?thesis
    by (auto simp: toml_line_def toml_logical_line_def toml_table_def Let_def rbind_Inr_iff
      split: if_splits option.splits prod.splits dest: toml_assignment_place [where p = p])
qed

lemma toml_fold_places:
  assumes "rfold (toml_line L F target v) st lines = Inr st'" "ts_offset st = length p" "list_all (toml_place L v p) (ts_found st)"
  shows "list_all (toml_place L v (p @ concat lines)) (ts_found st')"
  using assms
proof (induction lines arbitrary: st p)
  case Nil
  then show ?case by simp
next
  case (Cons line lines)
  from Cons.prems(1) obtain u where "toml_line L F target v st line = Inr u" "rfold (toml_line L F target v) u lines = Inr st'"
    by (auto simp: rbind_Inr_iff)
  with Cons.IH [of u "p @ line"] toml_line_places [OF _ Cons.prems(2,3)] show ?case by simp
qed

lemma toml_assignments_places: "toml_assignments L F s target v = Inr found \<Longrightarrow> list_all (toml_place L v s) found"
  using toml_fold_places [of L F target v toml_start "text_lines s" _ "[]"]
  by (auto simp: toml_assignments_def toml_start_def text_lines_def rbind_Inr_iff concat_split_keep)

text \<open>
  C39: A TOML edit replaces one token that is a complete scalar and leaves every other character of the file as it is;
  the file had the reported value at the declared selector, and the edited file decodes to the projected value there.
\<close>

theorem toml_edit_exact:
  "case toml_edit L F raw item value of
     Inl e \<Rightarrow> True
   | Inr (result, previous) \<Rightarrow>
       (\<exists>target old v data data' new before token rest.
          fl_toml F raw = Inr data \<and> toml_target data item = Inr target \<and> get_path data target = Inr old \<and> previous = [old]
          \<and> scalar value old = Inr v
          \<and> code_points raw = before @ token @ rest \<and> scalar_length L token = Some (length token)
          \<and> result = join_chars (before @ toml_token v token @ rest)
          \<and> fl_toml F result = Inr data' \<and> get_path data' target = Inr new \<and> py_eq new v)"
proof (cases "toml_edit L F raw item value")
  case (Inr x)
  obtain result previous where x: "x = (result, previous)" by (cases x)
  from Inr x obtain data target old v start stop token data' new where
    e: "fl_toml F raw = Inr data" "toml_target data item = Inr target" "get_path data target = Inr old" "previous = [old]"
      "scalar value old = Inr v" "toml_assignments L F (code_points raw) target v = Inr [(start, stop, token)]"
      "result = join_chars (take start (code_points raw) @ token @ drop stop (code_points raw))"
      "fl_toml F result = Inr data'" "get_path data' target = Inr new" "py_eq new v"
    by (auto simp: toml_edit_def decode_text_def rbind_Inr_iff Let_def length_Suc_conv)
  from toml_assignments_places [OF e(6)] obtain a t b where
    "code_points raw = a @ t @ b" "scalar_length L t = Some (length t)" "start = length a" "stop = length a + length t" "token = toml_token v t"
    by (auto simp: toml_place_def)
  with e x Inr show ?thesis by simp blast
qed simp

end
