(* ===== verification/VersionSync.thy ===== *)
theory VersionSync
  imports VersionEdit VersionReceipt
begin

text \<open>
  The synchronisation of version files in \<open>scripts/version_plan.py\<close>: \<open>sync_versions\<close>, \<open>_apply_version_edits\<close>,
  \<open>read_base_version\<close>, \<open>check_base_versions\<close> and \<open>verify_checkout\<close>. What the functions do outside the program is the record
  \<open>disk\<close>; the state of a run is the files read so far, in order.
\<close>

section \<open>The disk\<close>

text \<open>
  Looking at the checkout, \<open>tempfile.mkstemp\<close> beside a file, writing and flushing the temporary file and giving it the
  mode of the target, \<open>os.replace\<close> and \<open>unlink(missing_ok=True)\<close>. Another process may change the checkout between
  any two of them. \<open>_path\<close> and the read of the file it confined are one look.
\<close>

record 'w disk =
  dk_look :: "('w, checkout) io"
  dk_temp :: "string \<Rightarrow> ('w, string) io"
  dk_write :: "string \<Rightarrow> string \<Rightarrow> string \<Rightarrow> ('w, unit) io"
  dk_replace :: "string \<Rightarrow> string \<Rightarrow> ('w, unit) io"
  dk_unlink :: "string \<Rightarrow> ('w, unit) io"

definition read_input :: "'w disk \<Rightarrow> string \<Rightarrow> ('w, string) io" where
  "read_input D name = ibind (dk_look D) (\<lambda>tree. ilift (plan_path tree (PStr name)))"

section \<open>Preparing the edits\<close>

record sync_file =
  sf_original :: string
  sf_edited :: string
  sf_changes :: "jobject list"

type_synonym sync_files = "(string \<times> sync_file) list"

definition change_entry :: "jobject \<Rightarrow> pyval \<Rightarrow> pyval list \<Rightarrow> jobject" where
  "change_entry item value previous =
     [(''format'', dget item ''format'' PNone), (''field'', dget item ''field'' PNone), (''package'', dget item ''package'' PNone),
      (''projection'', dget item ''value'' (PStr ''package'')), (''value'', value), (''previous'', PList previous)]"

definition path_of :: "jobject \<Rightarrow> string" where
  "path_of item = as_str (dget item ''path'' PNone)"

fun update_file :: "string \<Rightarrow> (sync_file \<Rightarrow> sync_file) \<Rightarrow> sync_files \<Rightarrow> sync_files" where
  "update_file name f [] = []"
| "update_file name f ((n, x) # st) = (if n = name then (n, f x) # st else (n, x) # update_file name f st)"

text \<open>One declaration, given the bytes of its file.\<close>

definition edit_declaration :: "pylib \<Rightarrow> formats \<Rightarrow> plan \<Rightarrow> jobject \<Rightarrow> string \<Rightarrow> sync_files \<Rightarrow> sync_files result" where
  "edit_declaration L F p item data st =
     (let name = path_of item;
          st = (if name \<in> fst ` set st then st else st @ [(name, \<lparr>sf_original = data, sf_edited = data, sf_changes = []\<rparr>)]) in
      rbind (projected_value p item) (\<lambda>value.
      rbind (version_edit L F (sf_edited (the (map_of st name))) item value) (\<lambda>(updated, old).
      Inr (update_file name (\<lambda>f. f\<lparr>sf_edited := updated, sf_changes := sf_changes f @ [change_entry item value old]\<rparr>) st))))"

primrec edit_declarations :: "pylib \<Rightarrow> formats \<Rightarrow> 'w disk \<Rightarrow> plan \<Rightarrow> jobject list \<Rightarrow> sync_files \<Rightarrow> ('w, sync_files) io" where
  "edit_declarations L F D p [] st = ireturn st"
| "edit_declarations L F D p (item # items) st =
     ibind (read_input D (path_of item)) (\<lambda>data.
     ibind (ilift (edit_declaration L F p item data st)) (\<lambda>st.
     edit_declarations L F D p items st))"

text \<open>Every declared expectation still holds after all edits.\<close>

definition check_selector :: "pylib \<Rightarrow> formats \<Rightarrow> plan \<Rightarrow> sync_files \<Rightarrow> jobject \<Rightarrow> unit result" where
  "check_selector L F p st item =
     (let edited = sf_edited (the (map_of st (path_of item))) in
      rbind (projected_value p item) (\<lambda>value.
      rbind (version_edit L F edited item value) (\<lambda>(checked, old).
      require (checked = edited) ''Conflicting version selectors'')))"

definition file_evidence :: "pylib \<Rightarrow> string \<times> sync_file \<Rightarrow> jobject" where
  "file_evidence L entry =
     (case entry of (name, f) \<Rightarrow>
        [(''path'', PStr name), (''before_sha256'', PStr (digest L (sf_original f))), (''after_sha256'', PStr (digest L (sf_edited f))),
         (''changed'', PBool (sf_original f \<noteq> sf_edited f)), (''fields'', PList (map PDict (sf_changes f)))])"

definition changed_files :: "sync_files \<Rightarrow> sync_files" where
  "changed_files st = filter (\<lambda>(name, f). sf_original f \<noteq> sf_edited f) (sort_key fst st)"

definition drifted :: "sync_files \<Rightarrow> string list" where
  "drifted st = map fst (changed_files st)"

section \<open>\<open>_apply_version_edits\<close>\<close>

text \<open>The dictionary \<open>staged\<close> is threaded through beside the world.\<close>

type_synonym 'w sync_world = "'w \<times> (string \<times> string) list"

definition on_disk :: "('w, 'a) io \<Rightarrow> ('w sync_world, 'a) io" where
  "on_disk m = (\<lambda>(w, staged). case m w of (r, w') \<Rightarrow> (r, (w', staged)))"

definition staged_update :: "((string \<times> string) list \<Rightarrow> (string \<times> string) list) \<Rightarrow> ('w sync_world, unit) io" where
  "staged_update f = (\<lambda>(w, staged). (Inr (), (w, f staged)))"

definition staged_get :: "string \<Rightarrow> ('w sync_world, string) io" where
  "staged_get name = (\<lambda>(w, staged). (case map_of staged name of None \<Rightarrow> Inl (KeyError name) | Some t \<Rightarrow> Inr t, (w, staged)))"

definition recheck :: "'w disk \<Rightarrow> string \<Rightarrow> string \<times> sync_file \<Rightarrow> ('w, unit) io" where
  "recheck D message entry =
     (case entry of (name, f) \<Rightarrow>
        ibind (read_input D name) (\<lambda>data. ilift (require (data = sf_original f) message)))"

definition stage_edit :: "'w disk \<Rightarrow> string \<times> sync_file \<Rightarrow> ('w sync_world, unit) io" where
  "stage_edit D entry =
     (case entry of (name, f) \<Rightarrow>
        ibind (on_disk (dk_temp D name)) (\<lambda>temporary.
        ibind (staged_update (\<lambda>staged. staged @ [(name, temporary)])) (\<lambda>_.
        on_disk (dk_write D temporary (sf_edited f) name))))"

definition commit_edit :: "'w disk \<Rightarrow> string \<times> sync_file \<Rightarrow> ('w sync_world, unit) io" where
  "commit_edit D entry =
     (case entry of (name, f) \<Rightarrow>
        ibind (on_disk (recheck D ''Version input changed before replace'' (name, f))) (\<lambda>_.
        ibind (staged_get name) (\<lambda>temporary.
        ibind (staged_update (filter (\<lambda>(n, t). n \<noteq> name))) (\<lambda>_.
        on_disk (dk_replace D temporary name)))))"

definition commit_edits :: "'w disk \<Rightarrow> sync_files \<Rightarrow> ('w sync_world, unit) io" where
  "commit_edits D changed = ibind (iiter (stage_edit D) changed) (\<lambda>_. iiter (commit_edit D) changed)"

text \<open>The \<open>finally\<close> clause: what is still staged is removed, and an error in it is the one that is raised.\<close>

definition unstaged :: "'w disk \<Rightarrow> ('w sync_world, unit) io \<Rightarrow> ('w, unit) io" where
  "unstaged D body w =
     (case body (w, []) of
        (r, (w', staged)) \<Rightarrow>
          (case iiter (dk_unlink D) (map snd staged) w' of
             (Inl e, v) \<Rightarrow> (Inl e, v)
           | (Inr u, v) \<Rightarrow> (r, v)))"

definition apply_version_edits :: "'w disk \<Rightarrow> sync_files \<Rightarrow> ('w, unit) io" where
  "apply_version_edits D st =
     ibind (iiter (recheck D ''Version input changed during sync'') st) (\<lambda>_.
     unstaged D (commit_edits D (changed_files st)))"

section \<open>\<open>sync_versions\<close>\<close>

definition prepare_sync :: "pylib \<Rightarrow> formats \<Rightarrow> 'w disk \<Rightarrow> plan \<Rightarrow> jobject list \<Rightarrow> ('w, sync_files) io" where
  "prepare_sync L F D p items =
     ibind (edit_declarations L F D p items []) (\<lambda>st.
     ibind (ilift (riter (check_selector L F p st) items)) (\<lambda>_.
     ireturn st))"

definition sync_versions :: "pylib \<Rightarrow> formats \<Rightarrow> 'w disk \<Rightarrow> pyval \<Rightarrow> pyval \<Rightarrow> bool \<Rightarrow> ('w, jobject list) io" where
  "sync_versions L F D policy plan_value check =
     ibind (ilift (validate_plan L plan_value (Some policy) None)) (\<lambda>p.
     ibind (ilift (validate_policy policy)) (\<lambda>config.
     ibind (prepare_sync L F D p (cfg_files config)) (\<lambda>st.
     ibind (if check then ilift (require (drifted st = []) ''Version inputs do not match release plan'')
            else apply_version_edits D st) (\<lambda>_.
     ireturn (map (file_evidence L) (sort_key fst st))))))"

section \<open>Committed base versions\<close>

definition base_selectors :: "config \<Rightarrow> pyval \<Rightarrow> jobject list" where
  "base_selectors config name =
     filter (\<lambda>item. dget item ''path'' PNone = name
       \<and> dget item ''value'' (PStr ''package'') \<in> {PStr ''base'', PStr ''full'', PStr ''package''}) (cfg_files config)"

definition read_base_version :: "pylib \<Rightarrow> formats \<Rightarrow> 'w disk \<Rightarrow> pyval \<Rightarrow> ('w, string) io" where
  "read_base_version L F D policy =
     ibind (ilift (validate_policy policy)) (\<lambda>config.
     let name = dget (as_dict policy) ''version_file'' PNone in
     ibind (ilift (require (is_str name) ''Committed version checks require version_file'')) (\<lambda>_.
     ibind (ilift (require (length (base_selectors config name) = 1) ''version_file must have one explicit version selector'')) (\<lambda>_.
     let item = hd (base_selectors config name) in
     ibind (read_input D (as_str name)) (\<lambda>raw.
     ilift
      (rbind (version_edit L F raw item (PStr ''0.0.0'')) (\<lambda>(edited, old).
       rbind (require (old \<noteq> [] \<and> list_all (\<lambda>v. py_eq v (hd old)) old) ''Base source version fields disagree'') (\<lambda>_.
       rbind (require (is_str (hd old)) ''Base version source must be a string'') (\<lambda>_.
       let prefix_text = as_str (dget item ''prefix'' (PStr [])); value = as_str (hd old) in
       rbind (require (prefix prefix_text value) ''Base version source prefix mismatch'') (\<lambda>_.
       rbind (require (fullmatch BASE (drop (length prefix_text) value)) ''Committed base source must contain strict X.Y.Z'') (\<lambda>_.
       Inr (drop (length prefix_text) value)))))))))))"

definition counted :: "jobject \<Rightarrow> bool" where
  "counted item \<longleftrightarrow> dget item ''value'' (PStr ''package'') \<in> {PStr ''build'', PStr ''apple-build''}"

text \<open>The policy without the fields that carry build numbers; the copy through JSON is the same value.\<close>

definition base_policy :: "pyval \<Rightarrow> pyval" where
  "base_policy policy =
     (let p = as_dict policy; v = as_dict (dget p ''versioning'' PNone) in
      PDict (dict_set p ''versioning''
        (PDict (dict_set v ''files'' (PList (filter (\<lambda>item. \<not> counted (as_dict item)) (items_of (dget v ''files'' PNone))))))))"

definition check_base_versions :: "pylib \<Rightarrow> formats \<Rightarrow> 'w disk \<Rightarrow> pyval \<Rightarrow> string option \<Rightarrow> ('w, jobject list) io" where
  "check_base_versions L F D policy given =
     ibind (ilift (validate_policy policy)) (\<lambda>_.
     ibind (case given of Some b \<Rightarrow> if b = [] then read_base_version L F D policy else ireturn b
            | None \<Rightarrow> read_base_version L F D policy) (\<lambda>base_text.
     let filtered = base_policy policy in
     ibind (ilift (require (items_of (dget (as_dict (dget (as_dict filtered) ''versioning'' PNone)) ''files'' PNone) \<noteq> [])
       ''No committed base version fields are declared'')) (\<lambda>_.
     ibind (ilift (create_plan L base_text ''stable'' NoSeq (replicate 40 (CHR ''0'')) filtered None)) (\<lambda>p.
     sync_versions L F D filtered (plan_json p) True))))"

section \<open>\<open>verify_checkout\<close>\<close>

text \<open>What \<open>git\<close> answers: the commit checked out and the filtered bytes of a file at a commit.\<close>

record git_checkout =
  gc_head :: "string result"
  gc_blob :: "string \<Rightarrow> string \<Rightarrow> string result"

definition base_plan :: "plan \<Rightarrow> plan" where
  "base_plan p = p\<lparr>channel := ''stable'', sequence := NoSeq, version := base_version p, tag := ''v'' @ base_version p\<rparr>"

definition expected_edit :: "pylib \<Rightarrow> formats \<Rightarrow> plan \<Rightarrow> string \<Rightarrow> string \<Rightarrow> jobject \<Rightarrow> string result" where
  "expected_edit L F p original expected item =
     rbind (if counted item then Inr ()
       else
         rbind (projected_value (base_plan p) item) (\<lambda>value.
         rbind (version_edit L F original item value) (\<lambda>(checked, old).
         require (checked = original) ''Committed version input differs from planned base''))) (\<lambda>_.
     rbind (projected_value p item) (\<lambda>value.
     rbind (version_edit L F expected item value) (\<lambda>(updated, old).
     Inr updated)))"

definition verify_input :: "pylib \<Rightarrow> formats \<Rightarrow> git_checkout \<Rightarrow> checkout \<Rightarrow> plan \<Rightarrow> jobject list \<Rightarrow> string \<Rightarrow> unit result" where
  "verify_input L F G tree p items name =
     rbind (relative (PStr name)) (\<lambda>_.
     rbind (gc_blob G (source_sha p) name) (\<lambda>original.
     rbind (rfold (expected_edit L F p original) original (filter (\<lambda>item. path_of item = name) items)) (\<lambda>expected.
     rbind (plan_path tree (PStr name)) (\<lambda>actual.
     require (actual = original \<or> actual = expected) ''Undeclared changes in version input''))))"

text \<open>Without a \<open>.git\<close> there is nothing to bind.\<close>

definition verify_checkout :: "pylib \<Rightarrow> formats \<Rightarrow> git_checkout option \<Rightarrow> checkout \<Rightarrow> jobject list \<Rightarrow> plan \<Rightarrow> unit result" where
  "verify_checkout L F G tree items p =
     (case G of
        None \<Rightarrow> Inr ()
      | Some g \<Rightarrow>
          rbind (gc_head g) (\<lambda>out.
          rbind (require (strip out = source_sha p) ''Checkout HEAD differs from release plan source SHA'') (\<lambda>_.
          riter (verify_input L F g tree p items) (rev (remdups (rev (map path_of items)))))))"

end
