(* ===== verification/VersionSyncProps.thy ===== *)
theory VersionSyncProps
  imports VersionSync
begin

text \<open>
  What a synchronisation of version files guarantees. On a checkout nobody else changes, a check right after a successful
  synchronisation finds every declared field in place, for every edit function of the formats. On any disk, and
  whatever fails, all edits are staged before the first file is replaced (locale \<open>disk_log\<close>).
\<close>

section \<open>A checkout nobody else changes\<close>

record quiet_checkout =
  sl_tree :: checkout
  sl_temps :: "string \<Rightarrow> string option"

definition parts_of :: "string \<Rightarrow> string list" where
  "parts_of name = split_on (CHR ''/'') name"

definition temp_of :: "string \<Rightarrow> string" where
  "temp_of name = ''.version-sync-'' @ name"

lemma temp_inj [simp]: "temp_of a = temp_of b \<longleftrightarrow> a = b"
  by (simp add: temp_of_def)

definition still_disk :: "quiet_checkout disk" where
  "still_disk =
    \<lparr>dk_look = (\<lambda>w. (Inr (sl_tree w), w)),
     dk_temp = (\<lambda>name w. (Inr (temp_of name), w\<lparr>sl_temps := (sl_temps w)(temp_of name \<mapsto> [])\<rparr>)),
     dk_write = (\<lambda>t data name w. (Inr (), w\<lparr>sl_temps := (sl_temps w)(t \<mapsto> data)\<rparr>)),
     dk_replace = (\<lambda>t name w. case sl_temps w t of
         None \<Rightarrow> (Inl (OSError ''missing file''), w)
       | Some data \<Rightarrow> (Inr (), w\<lparr>sl_tree := (sl_tree w)(parts_of name \<mapsto> RegularFile 1 data), sl_temps := (sl_temps w)(t := None)\<rparr>)),
     dk_unlink = (\<lambda>t w. (Inr (), w\<lparr>sl_temps := (sl_temps w)(t := None)\<rparr>))\<rparr>"

lemma still_read: "read_input still_disk name w = (plan_path (sl_tree w) (PStr name), w)"
  by (simp add: read_input_def ibind_def still_disk_def)

lemma parts_inj: "parts_of a = parts_of b \<longleftrightarrow> a = b"
  unfolding parts_of_def by (metis join_split)

lemma plan_path_Inr:
  "plan_path tree (PStr name) = Inr data \<longleftrightarrow>
     relative (PStr name) = Inr (parts_of name) \<and> (\<forall>k \<in> {1..length (parts_of name)}. tree (take k (parts_of name)) \<noteq> Some SymLink)
     \<and> tree (parts_of name) = Some (RegularFile 1 data) \<and> int (length data) \<le> MAX_METADATA"
proof (cases "relative (PStr name)")
  case (Inr parts)
  then have parts: "parts = parts_of name" by (auto simp: relative_def parts_of_def rbind_Inr_iff)
  have "set [1..<length parts + 1] = {1..length parts}" by auto
  with Inr show ?thesis
    unfolding parts plan_path_def
    by (cases "tree (parts_of name)") (auto simp: rbind_Inr_iff split: node.split)
qed (simp add: plan_path_def rbind_def)

section \<open>Edits as a function of the checkout\<close>

definition edit_from :: "pylib \<Rightarrow> formats \<Rightarrow> plan \<Rightarrow> checkout \<Rightarrow> sync_files \<Rightarrow> jobject \<Rightarrow> sync_files result" where
  "edit_from L F p tree st item = rbind (plan_path tree (PStr (path_of item))) (\<lambda>data. edit_declaration L F p item data st)"

lemma still_edits: "edit_declarations L F still_disk p items st w = (rfold (edit_from L F p (sl_tree w)) st items, w)"
proof (induction items arbitrary: st)
  case Nil
  then show ?case by simp
next
  case (Cons item items)
  then show ?case
    by (cases "plan_path (sl_tree w) (PStr (path_of item))")
       (auto simp: ibind_def still_read edit_from_def rbind_def split: sum.splits)
qed

lemma update_file_fst [simp]: "map fst (update_file name f st) = map fst st"
  by (induction st) auto

lemma update_file_in: "distinct (map fst st) \<Longrightarrow> (n, x) \<in> set (update_file name f st) \<longleftrightarrow> (\<exists>y. (n, y) \<in> set st \<and> x = (if n = name then f y else y))"
  by (induction st) (force split: if_splits)+

text \<open>The files of a state: read from the checkout, one entry for each.\<close>

definition files_from :: "checkout \<Rightarrow> sync_files \<Rightarrow> bool" where
  "files_from tree st \<longleftrightarrow> distinct (map fst st) \<and> (\<forall>name f. (name, f) \<in> set st \<longrightarrow> plan_path tree (PStr name) = Inr (sf_original f))"

lemma edit_from_files:
  assumes "edit_from L F p tree st item = Inr st'" "files_from tree st"
  shows "files_from tree st' \<and> fst ` set st' = insert (path_of item) (fst ` set st)"
proof -
  from assms(1) obtain data where d: "plan_path tree (PStr (path_of item)) = Inr data" "edit_declaration L F p item data st = Inr st'"
    by (auto simp: edit_from_def rbind_Inr_iff)
  define u where "u = (if path_of item \<in> fst ` set st then st else st @ [(path_of item, \<lparr>sf_original = data, sf_edited = data, sf_changes = []\<rparr>)])"
  have u: "files_from tree u" "fst ` set u = insert (path_of item) (fst ` set st)"
    using assms(2) d(1) by (auto simp: u_def files_from_def)
  from d(2) obtain e v old where st': "st' = update_file (path_of item) (\<lambda>f. f\<lparr>sf_edited := e, sf_changes := sf_changes f @ [change_entry item v old]\<rparr>) u"
    by (auto simp: edit_declaration_def u_def [symmetric] Let_def rbind_Inr_iff)
  have "map fst st' = map fst u" by (simp add: st')
  then have "fst ` set st' = fst ` set u" by (metis list.set_map)
  moreover have "files_from tree st'"
    using u(1) unfolding files_from_def by (auto simp: st' update_file_in split: if_splits)
  ultimately show ?thesis using u(2) by simp
qed

lemma edits_files:
  assumes "rfold (edit_from L F p tree) st items = Inr st'" "files_from tree st"
  shows "files_from tree st' \<and> fst ` set st' = path_of ` set items \<union> fst ` set st"
  using assms
proof (induction items arbitrary: st)
  case Nil
  then show ?case by simp
next
  case (Cons item items)
  then obtain u where u: "edit_from L F p tree st item = Inr u" "rfold (edit_from L F p tree) u items = Inr st'"
    by (auto simp: rbind_Inr_iff)
  note first = edit_from_files [OF u(1) Cons.prems(2)]
  with Cons.IH [OF u(2)] show ?case by (simp only: list.set_map list.set image_insert) blast
qed

section \<open>Edits that change nothing\<close>

text \<open>Every entry has the bytes \<open>E\<close> gives its name, before and after.\<close>

definition settled :: "(string \<Rightarrow> string) \<Rightarrow> sync_files \<Rightarrow> bool" where
  "settled E st \<longleftrightarrow> distinct (map fst st) \<and> (\<forall>name f. (name, f) \<in> set st \<longrightarrow> sf_original f = E name \<and> sf_edited f = E name)"

lemma settled_lookup: "settled E st \<Longrightarrow> name \<in> fst ` set st \<Longrightarrow> sf_edited (the (map_of st name)) = E name"
  unfolding settled_def by force

definition in_place :: "pylib \<Rightarrow> formats \<Rightarrow> plan \<Rightarrow> (string \<Rightarrow> string) \<Rightarrow> jobject \<Rightarrow> bool" where
  "in_place L F p E item \<longleftrightarrow>
     (\<exists>value old. projected_value p item = Inr value \<and> version_edit L F (E (path_of item)) item value = Inr (E (path_of item), old))"

lemma check_in_place: "check_selector L F p st item = Inr () \<longleftrightarrow> in_place L F p (\<lambda>name. sf_edited (the (map_of st name))) item"
  by (auto simp: check_selector_def in_place_def Let_def rbind_Inr_iff)

lemma in_place_cong: "E (path_of item) = G (path_of item) \<Longrightarrow> in_place L F p E item \<longleftrightarrow> in_place L F p G item"
  by (simp add: in_place_def)

lemma settled_edit:
  assumes "settled E st" "in_place L F p E item" "plan_path tree (PStr (path_of item)) = Inr (E (path_of item))"
  shows "\<exists>st'. edit_from L F p tree st item = Inr st' \<and> settled E st' \<and> fst ` set st' = insert (path_of item) (fst ` set st)"
proof -
  let ?d = "E (path_of item)"
  define u where "u = (if path_of item \<in> fst ` set st then st else st @ [(path_of item, \<lparr>sf_original = ?d, sf_edited = ?d, sf_changes = []\<rparr>)])"
  have u: "settled E u" "fst ` set u = insert (path_of item) (fst ` set st)"
    using assms(1) by (auto simp: u_def settled_def)
  from assms(2) obtain v old where v: "projected_value p item = Inr v" "version_edit L F ?d item v = Inr (?d, old)"
    by (auto simp: in_place_def)
  let ?s = "update_file (path_of item) (\<lambda>f. f\<lparr>sf_edited := ?d, sf_changes := sf_changes f @ [change_entry item v old]\<rparr>) u"
  have "sf_edited (the (map_of u (path_of item))) = ?d" using u by (simp add: settled_lookup)
  then have "edit_from L F p tree st item = Inr ?s"
    using assms(3) v by (simp add: edit_from_def edit_declaration_def u_def [symmetric] Let_def)
  moreover have "settled E ?s" using u(1) unfolding settled_def by (auto simp: update_file_in split: if_splits) metis+
  moreover have "fst ` set ?s = fst ` set u" by (metis list.set_map update_file_fst)
  ultimately show ?thesis using u(2) by auto
qed

lemma settled_edits:
  assumes "settled E st" "\<forall>item \<in> set items. in_place L F p E item \<and> plan_path tree (PStr (path_of item)) = Inr (E (path_of item))"
  shows "\<exists>st'. rfold (edit_from L F p tree) st items = Inr st' \<and> settled E st' \<and> fst ` set st' = path_of ` set items \<union> fst ` set st"
  using assms
proof (induction items arbitrary: st)
  case Nil
  then show ?case by simp
next
  case (Cons item items)
  then obtain u where "edit_from L F p tree st item = Inr u" "settled E u" "fst ` set u = insert (path_of item) (fst ` set st)"
    using settled_edit [of E st L F p item tree] by auto
  with Cons.IH [of u] Cons.prems(2) show ?case by auto
qed

section \<open>Committing on a checkout nobody else changes\<close>

definition put :: "checkout \<Rightarrow> string \<times> sync_file \<Rightarrow> checkout" where
  "put tree entry = tree(parts_of (fst entry) \<mapsto> RegularFile 1 (sf_edited (snd entry)))"

definition keep :: "(string \<Rightarrow> string option) \<Rightarrow> string \<times> sync_file \<Rightarrow> string \<Rightarrow> string option" where
  "keep m entry = m(temp_of (fst entry) \<mapsto> sf_edited (snd entry))"

lemma keep_other: "n \<notin> fst ` set cs \<Longrightarrow> foldl keep m cs (temp_of n) = m (temp_of n)"
  by (induction cs arbitrary: m) (auto simp: keep_def)

lemma put_other: "x \<notin> (\<lambda>e. parts_of (fst e)) ` set cs \<Longrightarrow> foldl put tree cs x = tree x"
  by (induction cs arbitrary: tree) (auto simp: put_def)

lemma put_in:
  "distinct (map fst cs) \<Longrightarrow> (name, f) \<in> set cs \<Longrightarrow> foldl put tree cs (parts_of name) = Some (RegularFile 1 (sf_edited f))"
proof (induction cs arbitrary: tree)
  case Nil
  then show ?case by simp
next
  case (Cons e cs)
  show ?case
  proof (cases "e = (name, f)")
    case True
    with Cons.prems(1) have "parts_of name \<notin> (\<lambda>e. parts_of (fst e)) ` set cs" by (force simp: parts_inj)
    with True show ?thesis by (simp add: put_other) (simp add: put_def)
  next
    case False
    with Cons show ?thesis by simp
  qed
qed

lemma still_stage:
  "stage_edit still_disk (name, f) (w, s) =
     (Inr (), (w\<lparr>sl_temps := (sl_temps w)(temp_of name \<mapsto> sf_edited f)\<rparr>, s @ [(name, temp_of name)]))"
  by (simp add: stage_edit_def ibind_def on_disk_def staged_update_def still_disk_def)

lemma still_stages:
  "iiter (stage_edit still_disk) cs (w, s) =
     (Inr (), (w\<lparr>sl_temps := foldl keep (sl_temps w) cs\<rparr>, s @ map (\<lambda>e. (fst e, temp_of (fst e))) cs))"
  by (induction cs arbitrary: w s) (auto simp: still_stage ibind_def keep_def)

lemma still_commit:
  assumes "commit_edit still_disk (name, f) (w, s) = (Inr u, (w', s'))" "map_of s name = Some t" "sl_temps w t = Some (sf_edited f)"
  shows "sl_tree w' = put (sl_tree w) (name, f) \<and> sl_temps w' = (sl_temps w)(t := None) \<and> s' = filter (\<lambda>(n, t). n \<noteq> name) s"
  using assms
  by (auto simp: commit_edit_def ibind_Inr_iff on_disk_def recheck_def still_read staged_get_def staged_update_def put_def
    split: prod.splits)
     (auto simp: still_disk_def)

lemma map_of_filter_other: "n \<noteq> name \<Longrightarrow> map_of (filter (\<lambda>(n, t). n \<noteq> name) s) n = map_of s n"
  by (induction s) auto

lemma still_commits:
  assumes "iiter (commit_edit still_disk) cs (w, s) = (Inr u, (w', s'))" "distinct (map fst cs)"
    and "\<forall>name f. (name, f) \<in> set cs \<longrightarrow> map_of s name = Some (temp_of name) \<and> sl_temps w (temp_of name) = Some (sf_edited f)"
  shows "sl_tree w' = foldl put (sl_tree w) cs"
  using assms
proof (induction cs arbitrary: w s)
  case Nil
  then show ?case by simp
next
  case (Cons e cs)
  obtain name f where e: "e = (name, f)" by (cases e)
  from Cons.prems(1) e obtain v r where v: "commit_edit still_disk (name, f) (w, s) = (Inr (), (v, r))"
    "iiter (commit_edit still_disk) cs (v, r) = (Inr u, (w', s'))"
    by (auto simp: ibind_Inr_iff)
  from still_commit [OF v(1)] Cons.prems(3) e
  have step: "sl_tree v = put (sl_tree w) e" "sl_temps v = (sl_temps w)(temp_of name := None)" "r = filter (\<lambda>(n, t). n \<noteq> name) s"
    by auto
  have "map_of r n = Some (temp_of n) \<and> sl_temps v (temp_of n) = Some (sf_edited g)" if "(n, g) \<in> set cs" for n g
  proof -
    from that Cons.prems(2) e have "n \<noteq> name" by force
    with that Cons.prems(3) step show ?thesis by (simp add: map_of_filter_other)
  qed
  with Cons.IH [OF v(2)] Cons.prems(2) step(1) show ?case by simp
qed

lemma still_unlinks: "iiter (dk_unlink still_disk) ts w = (Inr (), snd (iiter (dk_unlink still_disk) ts w)) \<and> sl_tree (snd (iiter (dk_unlink still_disk) ts w)) = sl_tree w"
  by (induction ts arbitrary: w) (simp_all add: ibind_def still_disk_def)

lemma still_temps:
  "distinct (map fst cs) \<Longrightarrow> (name, f) \<in> set cs \<Longrightarrow> foldl keep m cs (temp_of name) = Some (sf_edited f)"
proof (induction cs arbitrary: m)
  case Nil
  then show ?case by simp
next
  case (Cons e cs)
  show ?case
  proof (cases "e = (name, f)")
    case True
    with Cons.prems(1) show ?thesis by (simp add: keep_other) (simp add: keep_def)
  next
    case False
    with Cons show ?thesis by simp
  qed
qed

lemma still_apply:
  assumes "apply_version_edits still_disk st w = (Inr u, w')" "distinct (map fst st)"
  shows "sl_tree w' = foldl put (sl_tree w) (changed_files st)"
proof -
  let ?cs = "changed_files st"
  have d: "distinct (map fst ?cs)"
    using assms(2) by (simp add: changed_files_def distinct_map_filter)
  from assms(1) obtain v where v: "unstaged still_disk (commit_edits still_disk ?cs) v = (Inr u, w')"
    "iiter (recheck still_disk ''Version input changed during sync'') st w = (Inr (), v)"
    by (auto simp: apply_version_edits_def ibind_Inr_iff)
  have "iiter (recheck still_disk m) xs y = (r, y') \<Longrightarrow> y' = y" for m xs y r y'
    by (induction xs arbitrary: y) (auto simp: recheck_def ibind_def still_read split: prod.splits sum.splits)
  with v(2) have "v = w" by blast
  obtain r x s where x: "commit_edits still_disk ?cs (w, []) = (r, (x, s))" by (cases "commit_edits still_disk ?cs (w, [])") auto
  with v(1) still_unlinks [of "map snd s" x] have "r = Inr u \<and> sl_tree w' = sl_tree x"
    unfolding unstaged_def \<open>v = w\<close> by (auto split: prod.splits sum.splits)
  moreover have "sl_tree x = foldl put (sl_tree w) ?cs" if "r = Inr u"
  proof -
    let ?w = "w\<lparr>sl_temps := foldl keep (sl_temps w) ?cs\<rparr>"
    from x that have "iiter (commit_edit still_disk) ?cs (?w, map (\<lambda>e. (fst e, temp_of (fst e))) ?cs) = (Inr u, (x, s))"
      by (simp add: commit_edits_def ibind_def still_stages)
    moreover have "n \<in> fst ` set cs \<Longrightarrow> map_of (map (\<lambda>e. (fst e, temp_of (fst e))) cs) n = Some (temp_of n)" for n and cs :: sync_files
      by (induction cs) auto
    ultimately show ?thesis
      using still_commits [of ?cs ?w _ u x s] still_temps [OF d] d by (simp add: image_iff) force
  qed
  ultimately show ?thesis by simp
qed

section \<open>Checking after a synchronisation\<close>

lemma changed_in: "(name, f) \<in> set (changed_files st) \<longleftrightarrow> (name, f) \<in> set st \<and> sf_original f \<noteq> sf_edited f"
  by (auto simp: changed_files_def)

lemma committed_path:
  assumes st: "files_from tree st" "(name, f) \<in> set st" and small: "int (length (sf_edited f)) \<le> MAX_METADATA"
  shows "plan_path (foldl put tree (changed_files st)) (PStr name) = Inr (sf_edited f)"
proof -
  let ?T = "foldl put tree (changed_files st)"
  have d: "distinct (map fst (changed_files st))"
    using st(1) by (simp add: files_from_def changed_files_def distinct_map_filter)
  have old: "plan_path tree (PStr n) = Inr (sf_original g)" if "(n, g) \<in> set st" for n g
    using st(1) that by (simp add: files_from_def)
  have kept: "?T x \<noteq> Some SymLink" if "tree x \<noteq> Some SymLink" for x
  proof (cases "x \<in> (\<lambda>e. parts_of (fst e)) ` set (changed_files st)")
    case True
    then obtain n g where "(n, g) \<in> set (changed_files st)" "x = parts_of n" by auto
    with put_in [OF d] show ?thesis by simp
  qed (use that in \<open>simp add: put_other\<close>)
  have here: "?T (parts_of name) = Some (RegularFile 1 (sf_edited f))"
  proof (cases "sf_original f = sf_edited f")
    case True
    have "parts_of name \<notin> (\<lambda>e. parts_of (fst e)) ` set (changed_files st)"
    proof
      assume "parts_of name \<in> (\<lambda>e. parts_of (fst e)) ` set (changed_files st)"
      then obtain g where "(name, g) \<in> set st" "sf_original g \<noteq> sf_edited g" by (auto simp: parts_inj changed_in)
      with st True show False by (metis eq_key_imp_eq_value files_from_def)
    qed
    with old [OF st(2)] True show ?thesis by (simp add: put_other plan_path_Inr)
  next
    case False
    with put_in [OF d] st(2) show ?thesis by (simp add: changed_in)
  qed
  from old [OF st(2)] kept here small show ?thesis by (simp add: plan_path_Inr)
qed

definition oversized :: "checkout \<Rightarrow> jobject \<Rightarrow> bool" where
  "oversized tree item \<longleftrightarrow>
     (case tree (parts_of (path_of item)) of Some (RegularFile links data) \<Rightarrow> MAX_METADATA < int (length data) | _ \<Rightarrow> False)"

lemma settled_drift: "settled E st \<Longrightarrow> changed_files st = []"
  by (fastforce simp: settled_def changed_files_def filter_empty_conv)

lemma check_after_sync:
  assumes sync: "sync_versions L F still_disk policy plan_value False w = (Inr evidence, w')"
    and config: "validate_policy policy = Inr config"
    and small: "\<forall>item \<in> set (cfg_files config). \<not> oversized (sl_tree w') item"
  shows "\<exists>evidence'. sync_versions L F still_disk policy plan_value True w' = (Inr evidence', w')
    \<and> list_all (\<lambda>e. dget e ''changed'' PNone = PBool False) evidence'"
proof -
  let ?items = "cfg_files config"
  from sync config obtain p st where p: "validate_plan L plan_value (Some policy) None = Inr p"
    and st: "rfold (edit_from L F p (sl_tree w)) [] ?items = Inr st" and ok: "\<forall>item \<in> set ?items. check_selector L F p st item = Inr ()"
    and applied: "apply_version_edits still_disk st w = (Inr (), w')"
    by (auto simp: sync_versions_def prepare_sync_def ibind_Inr_iff still_edits)
  let ?E = "\<lambda>name. sf_edited (the (map_of st name))"
  have files: "files_from (sl_tree w) st" "fst ` set st = path_of ` set ?items"
    using edits_files [OF st] by (auto simp: files_from_def)
  then have tree: "sl_tree w' = foldl put (sl_tree w) (changed_files st)"
    using still_apply [OF applied] by (simp add: files_from_def)
  have read: "plan_path (sl_tree w') (PStr (path_of item)) = Inr (?E (path_of item))" if "item \<in> set ?items" for item
  proof -
    from that files(2) obtain f where f: "(path_of item, f) \<in> set st" by force
    then have e: "?E (path_of item) = sf_edited f" using files(1) by (simp add: files_from_def)
    have "int (length (sf_edited f)) \<le> MAX_METADATA"
    proof (cases "sf_original f = sf_edited f")
      case True
      from files(1) f have "plan_path (sl_tree w) (PStr (path_of item)) = Inr (sf_original f)" by (simp add: files_from_def)
      with True show ?thesis by (simp add: plan_path_Inr)
    next
      case False
      with f have "(path_of item, f) \<in> set (changed_files st)" by (simp add: changed_in)
      moreover have "distinct (map fst (changed_files st))"
        using files(1) by (simp add: files_from_def changed_files_def distinct_map_filter)
      ultimately show ?thesis
        using put_in [of "changed_files st" "path_of item" f "sl_tree w"] small that by (auto simp: tree oversized_def)
    qed
    from committed_path [OF files(1) f this] e show ?thesis by (simp add: tree)
  qed
  have place: "in_place L F p ?E item" if "item \<in> set ?items" for item
    using ok that by (simp add: check_in_place)
  obtain u where u: "rfold (edit_from L F p (sl_tree w')) [] ?items = Inr u" "settled ?E u" "fst ` set u = path_of ` set ?items"
    using settled_edits [of ?E "[]" ?items L F p "sl_tree w'"] read place by (auto simp: settled_def)
  have "check_selector L F p u item = Inr ()" if "item \<in> set ?items" for item
  proof -
    from that u have "sf_edited (the (map_of u (path_of item))) = ?E (path_of item)" by (intro settled_lookup) auto
    with place [OF that] show ?thesis by (simp add: check_in_place in_place_def)
  qed
  then have checks: "riter (check_selector L F p u) ?items = Inr ()" by simp
  have "prepare_sync L F still_disk p ?items w' = (Inr u, w')"
    using u(1) by (simp add: prepare_sync_def ibind_def still_edits checks del: riter_Inr_iff)
  moreover have "drifted u = []" using settled_drift [OF u(2)] by (simp add: drifted_def)
  moreover have "list_all (\<lambda>e. dget e ''changed'' PNone = PBool False) (map (file_evidence L) (sort_key fst u))"
    using u(2) by (auto simp: list_all_iff file_evidence_def settled_def dget_def)
  ultimately show ?thesis using p config by (simp add: sync_versions_def ibind_def)
qed

text \<open>
  C34: On a checkout nobody else changes, a successful \<open>sync_versions\<close> leaves every declared file such that an immediate
  check of the same plan succeeds, writes nothing and reports no changed file, unless an edited file outgrew the size
  limit of version inputs.
\<close>

theorem sync_then_check:
  "case sync_versions L F still_disk policy plan_value False w of
     (Inl e, w') \<Rightarrow> True
   | (Inr evidence, w') \<Rightarrow>
       (\<exists>config. validate_policy policy = Inr config \<and> list_ex (oversized (sl_tree w')) (cfg_files config)) \<or>
       (\<exists>evidence'. sync_versions L F still_disk policy plan_value True w' = (Inr evidence', w')
          \<and> list_all (\<lambda>e. dget e ''changed'' PNone = PBool False) evidence')"
proof -
  obtain r w' where sync: "sync_versions L F still_disk policy plan_value False w = (r, w')"
    by (cases "sync_versions L F still_disk policy plan_value False w")
  show ?thesis
  proof (cases r)
    case (Inr evidence)
    with sync obtain config where config: "validate_policy policy = Inr config"
      by (auto simp: sync_versions_def ibind_Inr_iff)
    show ?thesis
    proof (cases "list_ex (oversized (sl_tree w')) (cfg_files config)")
      case False
      then have "\<forall>item \<in> set (cfg_files config). \<not> oversized (sl_tree w') item" by (simp add: list_ex_iff)
      from check_after_sync [OF _ config this] sync Inr show ?thesis by simp
    qed (use sync Inr config in auto)
  qed (use sync in simp)
qed

section \<open>What is written, in which order\<close>

datatype disk_event = Opened string | Written string string string | Replaced string string | Removed string

text \<open>A disk whose world also keeps what was attempted.\<close>

definition noted :: "disk_event \<Rightarrow> ('w, 'a) io \<Rightarrow> ('w \<times> disk_event list, 'a) io" where
  "noted e m = (\<lambda>(w, l). case m w of (r, w') \<Rightarrow> (r, (w', l @ [e])))"

definition logged_disk :: "'w disk \<Rightarrow> ('w \<times> disk_event list) disk" where
  "logged_disk D =
    \<lparr>dk_look = (\<lambda>(w, l). case dk_look D w of (r, w') \<Rightarrow> (r, (w', l))),
     dk_temp = (\<lambda>name. noted (Opened name) (dk_temp D name)),
     dk_write = (\<lambda>t data name. noted (Written t data name) (dk_write D t data name)),
     dk_replace = (\<lambda>t name. noted (Replaced t name) (dk_replace D t name)),
     dk_unlink = (\<lambda>t. noted (Removed t) (dk_unlink D t))\<rparr>"

text \<open>The events of staging the files with their new bytes, and of replacing them.\<close>

type_synonym new_files = "(string \<times> string) list"

definition staging_events :: "new_files \<Rightarrow> string list \<Rightarrow> disk_event list" where
  "staging_events fs ts = concat (map (\<lambda>((name, data), t). [Opened name, Written t data name]) (zip fs ts))"

definition commit_events :: "new_files \<Rightarrow> string list \<Rightarrow> disk_event list" where
  "commit_events fs ts = map (\<lambda>((name, data), t). Replaced t name) (zip fs ts)"

fun is_staging :: "disk_event \<Rightarrow> bool" where
  "is_staging (Opened name) = True"
| "is_staging (Written t data name) = True"
| "is_staging e = False"

definition new_files_of :: "sync_files \<Rightarrow> new_files" where
  "new_files_of cs = map (\<lambda>(name, f). (name, sf_edited f)) cs"

locale disk_log =
  fixes D :: "'v disk" and lg :: "'v \<Rightarrow> disk_event list"
  assumes look_log: "dk_look D v = (r, v') \<Longrightarrow> lg v' = lg v"
    and temp_log: "dk_temp D name v = (s, v') \<Longrightarrow> lg v' = lg v @ [Opened name]"
    and write_log: "dk_write D t data name v = (u, v') \<Longrightarrow> lg v' = lg v @ [Written t data name]"
    and replace_log: "dk_replace D t name v = (u, v') \<Longrightarrow> lg v' = lg v @ [Replaced t name]"
    and unlink_log: "dk_unlink D t v = (u, v') \<Longrightarrow> lg v' = lg v @ [Removed t]"
begin

lemma read_log: "read_input D name v = (r, v') \<Longrightarrow> lg v' = lg v"
  by (auto simp: read_input_def ibind_def split: prod.splits sum.splits dest: look_log)

lemma edits_log: "edit_declarations L F D p items st v = (r, v') \<Longrightarrow> lg v' = lg v"
proof (induction items arbitrary: st v)
  case Nil
  then show ?case by simp
next
  case (Cons item items)
  obtain d u where d: "read_input D (path_of item) v = (d, u)" by (cases "read_input D (path_of item) v")
  with Cons show ?case
    by (cases d) (auto simp: ibind_def split: sum.splits dest: read_log)
qed

lemma prepare_log: "prepare_sync L F D p items v = (r, v') \<Longrightarrow> lg v' = lg v"
  by (auto simp: prepare_sync_def ibind_def split: prod.splits sum.splits dest: edits_log)

lemma recheck_log: "recheck D m e v = (r, v') \<Longrightarrow> lg v' = lg v"
  by (auto simp: recheck_def ibind_def split: prod.splits sum.splits dest: read_log)

lemma rechecks_log: "iiter (recheck D m) es v = (r, v') \<Longrightarrow> lg v' = lg v"
proof (induction es arbitrary: v)
  case (Cons e es)
  obtain d u where "recheck D m e v = (d, u)" by (cases "recheck D m e v")
  with Cons show ?case by (cases d) (auto simp: ibind_def dest: recheck_log)
qed simp

lemma stage_log:
  assumes "stage_edit D (name, f) (v, s) = (r, (v', s'))"
  shows "(\<exists>t. r = Inr () \<and> lg v' = lg v @ [Opened name, Written t (sf_edited f) name] \<and> s' = s @ [(name, t)])
    \<or> (\<exists>e es. r = Inl e \<and> lg v' = lg v @ es \<and> list_all is_staging es)"
proof -
  obtain x u where x: "dk_temp D name v = (x, u)" by (cases "dk_temp D name v")
  show ?thesis
  proof (cases x)
    case (Inl e)
    with assms x show ?thesis
      by (auto simp: stage_edit_def ibind_def on_disk_def dest!: temp_log)
  next
    case (Inr t)
    obtain y z where y: "dk_write D t (sf_edited f) name u = (y, z)" by (cases "dk_write D t (sf_edited f) name u")
    with assms x Inr have "r = y" "v' = z" "s' = s @ [(name, t)]"
      by (auto simp: stage_edit_def ibind_def on_disk_def staged_update_def)
    moreover have "lg z = lg v @ [Opened name, Written t (sf_edited f) name]" using temp_log [OF x] write_log [OF y] by simp
    ultimately show ?thesis by (cases y) auto
  qed
qed

lemma stages_log:
  assumes "iiter (stage_edit D) cs (v, s) = (r, (v', s'))"
  shows "(\<exists>ts. r = Inr () \<and> length ts = length cs \<and> lg v' = lg v @ staging_events (new_files_of cs) ts \<and> s' = s @ zip (map fst cs) ts)
    \<or> (\<exists>e es. r = Inl e \<and> lg v' = lg v @ es \<and> list_all is_staging es)"
  using assms
proof (induction cs arbitrary: v s)
  case Nil
  then show ?case by (simp add: staging_events_def)
next
  case (Cons c cs)
  obtain name f where c: "c = (name, f)" by (cases c)
  obtain x u q where x: "stage_edit D (name, f) (v, s) = (x, (u, q))" by (cases "stage_edit D (name, f) (v, s)") auto
  show ?case
  proof (cases x)
    case (Inl e)
    with Cons.prems c x have "r = Inl e" "v' = u" by (auto simp: ibind_def)
    with stage_log [OF x] Inl show ?thesis by auto
  next
    case (Inr i)
    with stage_log [OF x] obtain t where t: "lg u = lg v @ [Opened name, Written t (sf_edited f) name]" "q = s @ [(name, t)]" by auto
    from Cons.prems c x Inr have "iiter (stage_edit D) cs (u, q) = (r, (v', s'))" by (simp add: ibind_def)
    from Cons.IH [OF this] show ?thesis
    proof (elim disjE exE conjE)
      fix ts
      assume ts: "r = Inr ()" "length ts = length cs" "lg v' = lg u @ staging_events (new_files_of cs) ts" "s' = q @ zip (map fst cs) ts"
      with t c show ?thesis
        by (intro disjI1 exI [of _ "t # ts"]) (simp add: staging_events_def new_files_of_def)
    next
      fix e es
      assume "r = Inl e" "lg v' = lg u @ es" "list_all is_staging es"
      with t show ?thesis by (intro disjI2) auto
    qed
  qed
qed

lemma commit_log:
  assumes "commit_edit D (name, f) (v, (name, t) # s) = (r, (v', s'))" "name \<notin> fst ` set s"
  shows "(r = Inr () \<and> lg v' = lg v @ [Replaced t name] \<and> s' = s)
    \<or> (\<exists>e. r = Inl e \<and> (lg v' = lg v @ [Replaced t name] \<and> s' = s \<or> lg v' = lg v \<and> s' = (name, t) # s))"
proof -
  have others: "filter (\<lambda>(n, t). n \<noteq> name) s = s" using assms(2) by (force simp: filter_id_conv)
  obtain x u where x: "recheck D ''Version input changed before replace'' (name, f) v = (x, u)"
    by (cases "recheck D ''Version input changed before replace'' (name, f) v")
  obtain y z where y: "dk_replace D t name u = (y, z)" by (cases "dk_replace D t name u")
  show ?thesis
  proof (cases x)
    case (Inl e)
    with assms(1) x show ?thesis by (auto simp: commit_edit_def ibind_def on_disk_def dest: recheck_log)
  next
    case (Inr i)
    with assms(1) x y others have "r = y" "v' = z" "s' = s"
      by (auto simp: commit_edit_def ibind_def on_disk_def staged_get_def staged_update_def)
    moreover have "lg z = lg v @ [Replaced t name]" using recheck_log [OF x] replace_log [OF y] by simp
    ultimately show ?thesis by (cases y) auto
  qed
qed

lemma commits_log:
  assumes "iiter (commit_edit D) cs (v, zip (map fst cs) ts) = (r, (v', s'))" "length ts = length cs" "distinct (map fst cs)"
  shows "\<exists>k. lg v' = lg v @ take k (commit_events (new_files_of cs) ts) \<and> map snd s' = drop k ts
    \<and> ((\<exists>e. r = Inl e) \<or> r = Inr () \<and> k = length ts)"
  using assms
proof (induction cs arbitrary: v ts)
  case Nil
  then show ?case by (simp add: commit_events_def)
next
  case (Cons c cs)
  obtain name f where c: "c = (name, f)" by (cases c)
  from Cons.prems(2) obtain t us where ts: "ts = t # us" "length us = length cs" by (cases ts) auto
  let ?s = "zip (map fst cs) us"
  have fresh: "name \<notin> fst ` set ?s" using Cons.prems(3) c ts by (force dest: set_zip_leftD)
  obtain x u q where x: "commit_edit D (name, f) (v, (name, t) # ?s) = (x, (u, q))"
    by (cases "commit_edit D (name, f) (v, (name, t) # ?s)") auto
  have events: "commit_events (new_files_of (c # cs)) ts = Replaced t name # commit_events (new_files_of cs) us"
    by (simp add: commit_events_def new_files_of_def c ts)
  from commit_log [OF x fresh] show ?case
  proof (elim disjE exE conjE)
    assume ok: "x = Inr ()" "lg u = lg v @ [Replaced t name]" "q = ?s"
    with Cons.prems(1) c ts x have "iiter (commit_edit D) cs (u, ?s) = (r, (v', s'))" by (simp add: ibind_def)
    with Cons.IH [of u us] Cons.prems(3) ts(2) obtain k where
      "lg v' = lg u @ take k (commit_events (new_files_of cs) us)" "map snd s' = drop k us" "(\<exists>e. r = Inl e) \<or> r = Inr () \<and> k = length us"
      by auto
    with ok ts events show ?thesis by (intro exI [of _ "Suc k"]) auto
  next
    fix e
    assume e: "x = Inl e" "lg u = lg v @ [Replaced t name]" "q = ?s"
    with Cons.prems(1) c ts x have "r = Inl e" "v' = u" "s' = ?s" by (auto simp: ibind_def)
    with e ts events show ?thesis by (intro exI [of _ "Suc 0"]) auto
  next
    fix e
    assume e: "x = Inl e" "lg u = lg v" "q = (name, t) # ?s"
    with Cons.prems(1) c ts x have "r = Inl e" "v' = u" "s' = (name, t) # ?s" by (auto simp: ibind_def)
    with e ts events show ?thesis by (intro exI [of _ 0]) auto
  qed
qed

lemma unlinks_log:
  assumes "iiter (dk_unlink D) ts v = (r, v')"
  shows "\<exists>m. lg v' = lg v @ take m (map Removed ts) \<and> ((\<exists>e. r = Inl e) \<or> r = Inr () \<and> m = length ts)"
  using assms
proof (induction ts arbitrary: v)
  case Nil
  then show ?case by simp
next
  case (Cons t ts)
  obtain x u where x: "dk_unlink D t v = (x, u)" by (cases "dk_unlink D t v")
  note first = unlink_log [OF x]
  show ?case
  proof (cases x)
    case (Inl e)
    with Cons.prems x have "r = Inl e" "v' = u" by (auto simp: ibind_def)
    with first show ?thesis by (intro exI [of _ "Suc 0"]) auto
  next
    case (Inr i)
    with Cons.prems x have "iiter (dk_unlink D) ts u = (r, v')" by (simp add: ibind_def)
    from Cons.IH [OF this] obtain m where "lg v' = lg u @ take m (map Removed ts)" "(\<exists>e. r = Inl e) \<or> r = Inr () \<and> m = length ts" by blast
    with first show ?thesis by (intro exI [of _ "Suc m"]) auto
  qed
qed

lemma apply_log:
  assumes "apply_version_edits D st v = (r, v')" "distinct (map fst st)" "fs = new_files_of (changed_files st)"
  shows "(\<exists>ts. r = Inr () \<and> length ts = length fs \<and> lg v' = lg v @ staging_events fs ts @ commit_events fs ts)
    \<or> (\<exists>e es rs. r = Inl e \<and> lg v' = lg v @ es @ map Removed rs \<and> list_all is_staging es)
    \<or> (\<exists>e ts k m. r = Inl e \<and> length ts = length fs
         \<and> lg v' = lg v @ staging_events fs ts @ take k (commit_events fs ts) @ take m (map Removed (drop k ts)))"
proof -
  let ?cs = "changed_files st"
  have d: "distinct (map fst ?cs)" using assms(2) by (simp add: changed_files_def distinct_map_filter)
  have len: "length fs = length ?cs" by (simp add: assms(3) new_files_of_def)
  obtain x u where x: "iiter (recheck D ''Version input changed during sync'') st v = (x, u)"
    by (cases "iiter (recheck D ''Version input changed during sync'') st v")
  note u = rechecks_log [OF x]
  show ?thesis
  proof (cases x)
    case (Inl e)
    with assms(1) x have "r = Inl e" "v' = u" by (auto simp: apply_version_edits_def ibind_def)
    with u show ?thesis by (intro disjI2 disjI1 exI [of _ e] exI [of _ "[]"]) simp
  next
    case (Inr i)
    obtain b y s where b: "commit_edits D ?cs (u, []) = (b, (y, s))" by (cases "commit_edits D ?cs (u, [])") auto
    obtain c z where c: "iiter (dk_unlink D) (map snd s) y = (c, z)" by (cases "iiter (dk_unlink D) (map snd s) y")
    from unlinks_log [OF c] obtain m where m: "lg z = lg y @ take m (map Removed (map snd s))" "(\<exists>e. c = Inl e) \<or> c = Inr () \<and> m = length (map snd s)"
      by blast
    from assms(1) x Inr b c have r: "v' = z" "(case c of Inl e \<Rightarrow> Inl e | Inr _ \<Rightarrow> b) = r"
      by (auto simp: apply_version_edits_def ibind_def unstaged_def split: sum.splits)
    obtain a q t where a: "iiter (stage_edit D) ?cs (u, []) = (a, (q, t))" by (cases "iiter (stage_edit D) ?cs (u, [])") auto
    from stages_log [OF a] show ?thesis
    proof (elim disjE exE conjE)
      fix e es
      assume e: "a = Inl e" "lg q = lg u @ es" "list_all is_staging es"
      with a b have "b = Inl e" "y = q" by (auto simp: commit_edits_def ibind_def)
      with r have "\<exists>e. r = Inl e" by (auto split: sum.splits)
      moreover have "lg v' = lg v @ es @ map Removed (take m (map snd s))"
        using r(1) m(1) \<open>y = q\<close> e(2) u by (simp add: take_map)
      ultimately show ?thesis using e(3) by blast
    next
      fix ts
      assume ts: "a = Inr ()" "length ts = length ?cs" "lg q = lg u @ staging_events (new_files_of ?cs) ts" "t = [] @ zip (map fst ?cs) ts"
      with a b have "iiter (commit_edit D) ?cs (q, zip (map fst ?cs) ts) = (b, (y, s))" by (simp add: commit_edits_def ibind_def)
      from commits_log [OF this ts(2) d] obtain k where
        k: "lg y = lg q @ take k (commit_events fs ts)" "map snd s = drop k ts" "(\<exists>e. b = Inl e) \<or> b = Inr () \<and> k = length ts"
        unfolding assms(3) by blast
      have log: "lg v' = lg v @ staging_events fs ts @ take k (commit_events fs ts) @ take m (map Removed (drop k ts))"
        using r(1) m(1) k(1,2) ts(3) u assms(3) by simp
      show ?thesis
      proof (cases r)
        case (Inl e)
        with log ts(2) len show ?thesis by (intro disjI2 exI [of _ e] exI [of _ ts] exI [of _ k] exI [of _ m]) simp
      next
        case (Inr i)
        with r(2) k(3) have "k = length ts" by (auto split: sum.splits)
        with log have "lg v' = lg v @ staging_events fs ts @ commit_events fs ts" by (simp add: commit_events_def)
        with Inr ts(2) len show ?thesis by (intro disjI1 exI [of _ ts]) simp
      qed
    qed
  qed
qed

end

interpretation logged: disk_log "logged_disk D" "snd" for D :: "'w disk"
  by unfold_locales (auto simp: logged_disk_def noted_def split: prod.splits)

lemma edit_declaration_distinct:
  assumes "edit_declaration L F p item data st = Inr st'" "distinct (map fst st)"
  shows "distinct (map fst st')"
proof -
  let ?u = "if path_of item \<in> fst ` set st then st else st @ [(path_of item, \<lparr>sf_original = data, sf_edited = data, sf_changes = []\<rparr>)]"
  from assms(1) obtain f where "st' = update_file (path_of item) f ?u" by (auto simp: edit_declaration_def Let_def rbind_Inr_iff)
  then have "map fst st' = map fst ?u" by (simp only: update_file_fst)
  with assms(2) show ?thesis by auto
qed

lemma edits_distinct: "edit_declarations L F D p items st v = (Inr st', v') \<Longrightarrow> distinct (map fst st) \<Longrightarrow> distinct (map fst st')"
  by (induction items arbitrary: st v) (auto simp: ibind_Inr_iff dest: edit_declaration_distinct)

lemma evidence_changed:
  "map (\<lambda>e. (dget e ''path'' PNone, dget e ''after_sha256'' PNone)) (filter (\<lambda>e. dget e ''changed'' PNone = PBool True) (map (file_evidence L) xs))
    = map (\<lambda>(name, f). (PStr name, PStr (digest L (sf_edited f)))) (filter (\<lambda>(name, f). sf_original f \<noteq> sf_edited f) xs)"
  by (induction xs) (auto simp: file_evidence_def dget_def)

text \<open>A synchronisation that reaches the disk's writes does so with the files it prepared.\<close>

lemma sync_cases:
  assumes "sync_versions L F (logged_disk D) policy plan_value check (w, []) = (r, (w', log))"
  obtains (quiet) "log = []" "check \<or> (\<exists>e. r = Inl e)"
  | (applied) st u a where "\<not> check" "distinct (map fst st)" "apply_version_edits (logged_disk D) st (u, []) = (a, (w', log))"
      "r = (case a of Inl e \<Rightarrow> Inl e | Inr _ \<Rightarrow> Inr (map (file_evidence L) (sort_key fst st)))"
proof (cases "validate_plan L plan_value (Some policy) None")
  case (Inl e)
  with assms that show thesis by (auto simp: sync_versions_def)
next
  case p: (Inr p)
  show thesis
  proof (cases "validate_policy policy")
    case (Inl e)
    with assms that p show thesis by (auto simp: sync_versions_def)
  next
    case config: (Inr config)
    obtain x u l where x: "prepare_sync L F (logged_disk D) p (cfg_files config) (w, []) = (x, (u, l))"
      by (cases "prepare_sync L F (logged_disk D) p (cfg_files config) (w, [])") auto
    from logged.prepare_log [OF x] have l: "l = []" by simp
    show thesis
    proof (cases x)
      case (Inl e)
      with assms quiet p config x l show thesis by (auto simp: sync_versions_def ibind_def)
    next
      case st: (Inr st)
      then have "distinct (map fst st)"
        using x by (auto simp: prepare_sync_def ibind_Inr_iff dest: edits_distinct)
      then show thesis
        using assms p config x l st quiet applied [of st u]
        by (cases check) (auto simp: sync_versions_def ibind_def split: sum.splits prod.splits)
    qed
  qed
qed

text \<open>
  C33: Whatever the disk answers, a check writes nothing, and a synchronisation writes every changed file to a temporary file
  before it replaces the first one. A successful one has replaced exactly the files its evidence reports as changed, by
  the bytes whose digests it reports; a failed one has replaced the first \<open>k\<close> of them or none, and removes the
  temporary files of the others.
\<close>

theorem sync_stages_before_commit:
  "case sync_versions L F (logged_disk D) policy plan_value check (w, []) of
     (r, (w', log)) \<Rightarrow>
       if check then log = []
       else
         (case r of
            Inr evidence \<Rightarrow>
              (\<exists>fs ts. length ts = length fs \<and> log = staging_events fs ts @ commit_events fs ts
                 \<and> map (\<lambda>(name, data). (PStr name, PStr (digest L data))) fs
                   = map (\<lambda>e. (dget e ''path'' PNone, dget e ''after_sha256'' PNone)) (filter (\<lambda>e. dget e ''changed'' PNone = PBool True) evidence))
          | Inl e \<Rightarrow>
              (\<exists>es ts. log = es @ map Removed ts \<and> list_all is_staging es) \<or>
              (\<exists>fs ts k m. length ts = length fs
                 \<and> log = staging_events fs ts @ take k (commit_events fs ts) @ take m (map Removed (drop k ts))))"
  (is "case ?sync of (r, (w', log)) \<Rightarrow> ?spec r log")
proof -
  obtain r w' log where sync: "?sync = (r, (w', log))" by (cases ?sync) auto
  from sync have "?spec r log"
  proof (cases rule: sync_cases)
    case quiet
    then show ?thesis by (cases check) (auto intro: exI [of _ "[]"])
  next
    case (applied st u a)
    let ?fs = "new_files_of (changed_files st)"
    have e: "map (\<lambda>(name, data). (PStr name, PStr (digest L data))) ?fs
      = map (\<lambda>e. (dget e ''path'' PNone, dget e ''after_sha256'' PNone))
          (filter (\<lambda>e. dget e ''changed'' PNone = PBool True) (map (file_evidence L) (sort_key fst st)))"
      by (simp add: evidence_changed new_files_of_def changed_files_def case_prod_unfold comp_def)
    from logged.apply_log [OF applied(3,2) refl] show ?thesis
    proof (elim disjE exE conjE, goal_cases)
      case (1 ts)
      with applied e show ?case by auto
    next
      case (2 x es rs)
      with applied show ?case by auto
    next
      case (3 x ts k m)
      then have "\<exists>fs ts k m. length ts = length fs
          \<and> log = staging_events fs ts @ take k (commit_events fs ts) @ take m (map Removed (drop k ts))"
        by (intro exI [of _ ?fs] exI [of _ ts] exI [of _ k] exI [of _ m]) simp
      with 3(1) applied show ?case by simp
    qed
  qed
  with sync show ?thesis by simp
qed

end
