(* ===== verification/OciArchive.thy ===== *)
theory OciArchive
  imports OciMetadata
begin

text \<open>
  Class \<open>Archive\<close> of \<open>scripts/merge_oci_archives.py\<close>: the validation of an OCI archive that one native build exported. Every
  blob is hashed, the graph is walked from the index, and the layers of the image are bound to its root filesystem. The
  fields that change are the record \<open>native\<close>; subclasses extend it and override \<open>image\<close> and \<open>attestation\<close> (record
  \<open>hooks\<close>). A walk gets the levels the depth limit leaves.
\<close>

section \<open>Constants\<close>

definition BLOB_PREFIX :: string where "BLOB_PREFIX = ''blobs/sha256/''"
definition REFERENCE_TYPE :: string where "REFERENCE_TYPE = ''vnd.docker.reference.type''"
definition INDEX_TYPE :: string where "INDEX_TYPE = ''application/vnd.oci.image.index.v1+json''"
definition CONFIG_TYPE :: string where "CONFIG_TYPE = ''application/vnd.oci.image.config.v1+json''"
definition PROVENANCE_TYPES :: "string list" where
  "PROVENANCE_TYPES = [''https://slsa.dev/provenance/v0.2'', ''https://slsa.dev/provenance/v1'']"
definition TAR_LAYER :: string where "TAR_LAYER = ''application/vnd.oci.image.layer.v1.tar''"
definition LAYER_TYPES :: "string list" where
  "LAYER_TYPES = [TAR_LAYER, TAR_LAYER @ ''+gzip'', TAR_LAYER @ ''+zstd'']"
definition STATEMENT_TYPES :: "string list" where
  "STATEMENT_TYPES = [''https://in-toto.io/Statement/v0.1'', ''https://in-toto.io/Statement/v1'']"
definition PLATFORMS :: "string list" where "PLATFORMS = [''linux/amd64'', ''linux/arm64'']"
definition MAX_JSON :: int where "MAX_JSON = 2000000"
definition MAX_ATTESTATION_JSON :: int where "MAX_ATTESTATION_JSON = 16777216"
definition MAX_JSON_TOTAL :: int where "MAX_JSON_TOTAL = 32000000"
definition MAX_LAYER_BYTES :: int where "MAX_LAYER_BYTES = 8589934592"
definition MAX_ROOTFS_BYTES :: int where "MAX_ROOTFS_BYTES = 34359738368"

section \<open>Files and documents\<close>

text \<open>
  What reading a stream gives: its chunks, and whether an error of the decompressor ends it. Decoding of \<open>gzip\<close> and
  \<open>zstd\<close> layers; the second exists from Python 3.14 on.
\<close>

type_synonym chunks = "string list \<times> bool"

record codec =
  cd_gzip :: "string \<Rightarrow> chunks"
  cd_zstd :: "(string \<Rightarrow> chunks) option"

definition CHUNK :: nat where "CHUNK = 1048576"

function read_chunks :: "string \<Rightarrow> string list" where
  "read_chunks s = (if s = [] then [] else take CHUNK s # read_chunks (drop CHUNK s))"
  by pat_completeness auto
termination
  by (relation "measure length") (auto simp: CHUNK_def)

declare read_chunks.simps [simp del]

definition stream_sha :: "pylib \<Rightarrow> string \<Rightarrow> jobject" where
  "stream_sha L data = [(''sha256'', PStr (digest L data)), (''size'', PInt (int (length data)))]"

definition oci_canonical :: "pylib \<Rightarrow> pyval \<Rightarrow> string result" where
  "oci_canonical L v = json_bytes L v"

definition unique_pairs :: "jobject \<Rightarrow> jobject result" where
  "unique_pairs items = rbind (value_require (distinct (map fst items)) ''Duplicate OCI JSON key'') (\<lambda>_. Inr items)"

definition oci_opts :: json_opts where
  "oci_opts = \<lparr>pairs_hook = unique_pairs, const_hook = (\<lambda>_. Inl (ValueError ''Invalid OCI JSON constant''))\<rparr>"

definition oci_json :: "pylib \<Rightarrow> int \<Rightarrow> string \<Rightarrow> jobject result" where
  "oci_json L max_bytes raw =
     rbind (value_require (int (length raw) \<le> max_bytes) ''Oversized OCI JSON'') (\<lambda>_.
     rbind (loads_bytes L oci_opts raw) (\<lambda>v.
     case v of PDict d \<Rightarrow> Inr d | _ \<Rightarrow> Inl (ValueError ''OCI JSON must be an object'')))"

definition member_name :: "tar_member \<Rightarrow> string result" where
  "member_name entry =
     (let name = strip_dots (tm_name entry);
          name = (if tm_kind entry = TarDirectory then rstrip_by (\<lambda>c. c = CHR ''/'') name else name) in
      rbind (value_require (name \<noteq> [] \<and> \<not> prefix ''/'' name \<and> CHR 0x5C \<notin> set name \<and> CHR 0x00 \<notin> set name
          \<and> list_all (\<lambda>part. part \<notin> {'''', ''.'', ''..''}) (split_on (CHR ''/'') name)) ''Unsafe OCI archive member'') (\<lambda>_.
      Inr name))"

section \<open>Inventory\<close>

record inventory =
  iv_seen :: "string list"
  iv_members :: "(string \<times> tar_member) list"
  iv_blobs :: "(string \<times> tar_member) list"

definition blob_path :: rx where
  "blob_path = SeqOf [Word ''blobs/sha256/'', Rep 64 (Cls is_hex)]"

definition inventory_member :: "pylib \<Rightarrow> string \<Rightarrow> tar_member \<Rightarrow> inventory \<Rightarrow> inventory result" where
  "inventory_member L name entry iv =
     (let iv = iv\<lparr>iv_members := iv_members iv @ [(name, entry)]\<rparr> in
      if prefix ''blobs/'' name then
        rbind (value_require (fullmatch blob_path name) ''Unsupported OCI blob path'') (\<lambda>_.
        rbind (value_require (int (length (tm_data entry)) = tm_size entry \<and> digest L (tm_data entry) = drop (length BLOB_PREFIX) name)
          ''OCI blob digest or size mismatch'') (\<lambda>_.
        Inr (iv\<lparr>iv_blobs := iv_blobs iv @ [(name, entry)]\<rparr>)))
      else Inr iv)"

definition inventory_entry :: "pylib \<Rightarrow> nat \<Rightarrow> tar_member \<Rightarrow> inventory \<Rightarrow> inventory result" where
  "inventory_entry L n entry iv =
     rbind (value_require (n < 100000) ''Too many OCI archive members'') (\<lambda>_.
     rbind (member_name entry) (\<lambda>name.
     rbind (value_require (name \<notin> set (iv_seen iv)) ''Duplicate OCI archive member'') (\<lambda>_.
     let iv = iv\<lparr>iv_seen := name # iv_seen iv\<rparr> in
     rbind (value_require (tm_kind entry \<noteq> TarOther) ''OCI members must be regular files or directories'') (\<lambda>_.
     if tm_kind entry = TarDirectory then
       rbind (value_require (name \<in> {''blobs'', ''blobs/sha256''}) ''Unexpected OCI directory'') (\<lambda>_. Inr iv)
     else inventory_member L name entry iv))))"

fun inventory_from :: "pylib \<Rightarrow> nat \<Rightarrow> inventory \<Rightarrow> tar_member list \<Rightarrow> inventory result" where
  "inventory_from L n iv [] = Inr iv"
| "inventory_from L n iv (entry # entries) =
     rbind (inventory_entry L n entry iv) (\<lambda>iv. inventory_from L (Suc n) iv entries)"

text \<open>The members are those read before \<open>ended\<close>, the end of the archive or the error \<open>tarfile\<close> raises there.\<close>

definition take_inventory :: "pylib \<Rightarrow> tar_member list \<Rightarrow> unit result \<Rightarrow> inventory result" where
  "take_inventory L entries ended =
     rbind (inventory_from L 0 \<lparr>iv_seen = [], iv_members = [], iv_blobs = []\<rparr> entries) (\<lambda>iv.
     rbind ended (\<lambda>_. Inr iv))"

section \<open>State\<close>

text \<open>An attestation: its digest, the descriptor of its subject and the sorted types of its statements.\<close>

record attested =
  at_digest :: pyval
  at_subject :: jobject
  at_predicates :: "string list"

record native =
  na_leaves :: "jobject list"
  na_images :: "jobject list"
  na_attestations :: "attested list"
  na_visited :: nat
  na_bytes :: int
  na_names :: "string list"
  na_attestation_names :: "string list"
  na_layers :: "((string \<times> string) \<times> string \<times> int) list"
  na_rootfs :: int

text \<open>What does not change during the validation: the archive's files, the expected labels, the decompressors.\<close>

record native_check =
  nc_members :: "(string \<times> tar_member) list"
  nc_blobs :: "(string \<times> tar_member) list"
  nc_version :: pyval
  nc_revision :: string
  nc_codec :: codec

definition update :: "('s \<Rightarrow> 's) \<Rightarrow> ('s, unit) io" where
  "update f st = (Inr (), f st)"

definition get :: "('s \<Rightarrow> 'a) \<Rightarrow> ('s, 'a) io" where
  "get f st = (Inr (f st), st)"

abbreviation check :: "bool \<Rightarrow> string \<Rightarrow> ('s, unit) io" where
  "check c m \<equiv> ilift (value_require c m)"

section \<open>Blobs\<close>

definition read_json :: "pylib \<Rightarrow> native_check \<Rightarrow> int \<Rightarrow> string \<Rightarrow> ('a native_scheme, jobject) io" where
  "read_json L C max_bytes name =
     ibind (update (\<lambda>st. st\<lparr>na_names := na_names st @ [name]\<rparr>)) (\<lambda>_.
     case map_of (nc_members C) name of
       None \<Rightarrow> ilift (Inl (ValueError ''Missing or oversized OCI metadata''))
     | Some entry \<Rightarrow>
         ibind (check (0 < tm_size entry \<and> tm_size entry \<le> max_bytes) ''Missing or oversized OCI metadata'') (\<lambda>_.
         let raw = take (nat (max_bytes + 1)) (tm_data entry) in
         ibind (check (int (length raw) = tm_size entry) ''Truncated OCI metadata'') (\<lambda>_.
         ibind (update (\<lambda>st. st\<lparr>na_bytes := na_bytes st + int (length raw)\<rparr>)) (\<lambda>_.
         ibind (get na_bytes) (\<lambda>total.
         ibind (check (total \<le> MAX_JSON_TOTAL) ''Too much OCI metadata'') (\<lambda>_.
         ilift (oci_json L max_bytes raw)))))))"

definition blob_of :: "string \<Rightarrow> string" where
  "blob_of identity = BLOB_PREFIX @ drop 7 identity"

text \<open>The descriptor as an object with its digest, after the checks of \<open>blob\<close>.\<close>

definition native_blob :: "native_check \<Rightarrow> pyval \<Rightarrow> string list \<Rightarrow> (jobject \<times> string) result" where
  "native_blob C descriptor media_types =
     (case descriptor of
        PDict d \<Rightarrow>
          rbind (value_require (matches_str digest_rx (dget d ''digest'' PNone)) ''Invalid OCI descriptor digest'') (\<lambda>_.
          let identity = as_str (dget d ''digest'' PNone) in
          rbind (value_require (case dget d ''size'' PNone of PInt n \<Rightarrow> 0 \<le> n | _ \<Rightarrow> False) ''Invalid OCI descriptor size'') (\<lambda>_.
          rbind (in_strs (dget d ''mediaType'' PNone) media_types) (\<lambda>ok.
          rbind (value_require ok ''Unsupported OCI media type'') (\<lambda>_.
          rbind (value_require (\<not> dhas d ''urls'') ''External OCI content is not supported'') (\<lambda>_.
          rbind (value_require (\<not> dhas d ''data'' \<or> (dget d ''mediaType'' PNone = PStr empty_config_type \<and> dget d ''data'' PNone = PStr ''e30=''))
            ''Unsupported embedded OCI content'') (\<lambda>_.
          rbind (value_require (case map_of (nc_blobs C) (blob_of identity) of
              None \<Rightarrow> False | Some entry \<Rightarrow> tm_size entry = as_int (dget d ''size'' PNone)) ''Missing OCI blob or descriptor size mismatch'') (\<lambda>_.
          Inr (d, identity))))))))
      | _ \<Rightarrow> Inl (ValueError ''OCI descriptor must be an object''))"

definition have_blob :: "native_check \<Rightarrow> pyval \<Rightarrow> string list \<Rightarrow> ('s, jobject) io" where
  "have_blob C descriptor media_types = ilift (rbind (native_blob C descriptor media_types) (\<lambda>(d, identity). Inr d))"

definition json_blob :: "pylib \<Rightarrow> native_check \<Rightarrow> pyval \<Rightarrow> string list \<Rightarrow> ('a native_scheme, jobject \<times> jobject) io" where
  "json_blob L C descriptor media_types =
     ibind (ilift (native_blob C descriptor media_types)) (\<lambda>(d, identity).
     ibind (read_json L C MAX_JSON (blob_of identity)) (\<lambda>data.
     ireturn (d, data)))"

definition descriptor_entry :: "jobject \<Rightarrow> jobject" where
  "descriptor_entry d = map (\<lambda>key. (key, dget d key PNone)) [''mediaType'', ''digest'', ''size'']"

section \<open>Layers\<close>

definition layer_stream :: "codec \<Rightarrow> string \<Rightarrow> string \<Rightarrow> chunks result" where
  "layer_stream K media data =
     (if suffix ''+gzip'' media then Inr (cd_gzip K data)
      else if suffix ''+zstd'' media then
        (case cd_zstd K of
           None \<Rightarrow> Inl (ValueError ''Zstandard OCI validation requires Python 3.14+ with compression.zstd'')
         | Some decode \<Rightarrow> Inr (decode data))
      else Inr (read_chunks data, False))"

text \<open>The bytes of a layer; every chunk is counted against both limits before it is hashed.\<close>

fun count_chunks :: "int \<Rightarrow> string \<Rightarrow> chunks \<Rightarrow> string result" where
  "count_chunks rootfs content ([], failed) =
     rbind (value_require (\<not> failed) ''Invalid compressed OCI layer'') (\<lambda>_. Inr content)"
| "count_chunks rootfs content (chunk # chunks, failed) =
     (let n = int (length content) + int (length chunk) in
      rbind (value_require (n \<le> MAX_LAYER_BYTES) ''OCI layer exceeds expanded size limit'') (\<lambda>_.
      rbind (value_require (rootfs + n \<le> MAX_ROOTFS_BYTES) ''OCI root filesystem exceeds expanded size limit'') (\<lambda>_.
      count_chunks rootfs (content @ chunk) (chunks, failed))))"

text \<open>A layer seen before counts again, with the size it had.\<close>

definition layer_digest :: "pylib \<Rightarrow> native_check \<Rightarrow> jobject \<Rightarrow> ('a native_scheme, string) io" where
  "layer_digest L C layer =
     (let identity = as_str (dget layer ''digest'' PNone); media = as_str (dget layer ''mediaType'' PNone) in
      ibind (get na_layers) (\<lambda>known.
      case map_of known (identity, media) of
        Some (checked, n) \<Rightarrow>
          ibind (update (\<lambda>st. st\<lparr>na_rootfs := na_rootfs st + n\<rparr>)) (\<lambda>_.
          ibind (get na_rootfs) (\<lambda>total.
          ibind (check (total \<le> MAX_ROOTFS_BYTES) ''OCI root filesystem exceeds expanded size limit'') (\<lambda>_.
          ireturn checked)))
      | None \<Rightarrow>
          ibind (ilift (layer_stream (nc_codec C) media (tm_data (the (map_of (nc_blobs C) (blob_of identity)))))) (\<lambda>chunks.
          ibind (get na_rootfs) (\<lambda>total.
          ibind (ilift (count_chunks total [] chunks)) (\<lambda>content.
          let n = int (length content) in
          let checked = ''sha256:'' @ digest L content in
          ibind (update (\<lambda>st. st\<lparr>na_rootfs := na_rootfs st + n, na_layers := ((identity, media), checked, n) # na_layers st\<rparr>)) (\<lambda>_.
          ireturn checked))))))"

section \<open>Images\<close>

definition platform_ok :: "string \<Rightarrow> string \<Rightarrow> pyval \<Rightarrow> jobject \<Rightarrow> bool" where
  "platform_ok os arch platform details \<longleftrightarrow>
     (case platform of
        PDict p \<Rightarrow> dget p ''os'' PNone = PStr os \<and> dget details ''os'' PNone = PStr os
          \<and> dget p ''architecture'' PNone = PStr arch \<and> dget details ''architecture'' PNone = PStr arch
      | _ \<Rightarrow> False)"

definition variant_ok :: "string \<Rightarrow> pyval \<Rightarrow> bool result" where
  "variant_ok arch v = (if v = PNone then Inr True else in_strs v (if arch = ''arm64'' then [''v8''] else []))"

definition labels_ok :: "native_check \<Rightarrow> jobject \<Rightarrow> bool" where
  "labels_ok C body \<longleftrightarrow>
     (case dget body ''Labels'' PNone of
        PDict labels \<Rightarrow> py_eq (dget labels ''org.opencontainers.image.version'' PNone) (nc_version C)
          \<and> dget labels ''org.opencontainers.image.revision'' PNone = PStr (nc_revision C)
      | _ \<Rightarrow> False)"

definition diff_ids :: "pyval \<Rightarrow> nat \<Rightarrow> string list result" where
  "diff_ids rootfs n =
     (case rootfs of
        PDict r \<Rightarrow>
          rbind (value_require (dget r ''type'' PNone = PStr ''layers''
              \<and> (case dget r ''diff_ids'' PNone of PList ids \<Rightarrow> length ids = n \<and> list_all (matches_str digest_rx) ids | _ \<Rightarrow> False))
            ''Invalid OCI root filesystem identity'') (\<lambda>_.
          Inr (map as_str (items_of (dget r ''diff_ids'' PNone))))
      | _ \<Rightarrow> Inl (ValueError ''Invalid OCI root filesystem identity''))"

definition bind_layer :: "pylib \<Rightarrow> native_check \<Rightarrow> pyval \<times> string \<Rightarrow> ('a native_scheme, unit) io" where
  "bind_layer L C entry =
     ibind (layer_digest L C (as_dict (fst entry))) (\<lambda>checked.
     check (checked = snd entry) ''OCI layer content differs from config rootfs diff_id'')"

definition bounded_list :: "pyval \<Rightarrow> nat \<Rightarrow> string \<Rightarrow> pyval list result" where
  "bounded_list v least message =
     (case v of
        PList xs \<Rightarrow> rbind (value_require (least \<le> length xs \<and> length xs \<le> 4096) message) (\<lambda>_. Inr xs)
      | _ \<Rightarrow> Inl (ValueError message))"

definition image_body :: "native_check \<Rightarrow> string \<Rightarrow> string \<Rightarrow> pyval \<Rightarrow> jobject \<Rightarrow> unit result" where
  "image_body C os arch platform details =
     rbind (value_require (platform_ok os arch platform details) ''OCI platform differs from expected native input'') (\<lambda>_.
     let p = as_dict platform in
     rbind (variant_ok arch (dget p ''variant'' PNone)) (\<lambda>a.
     rbind (if a then variant_ok arch (dget details ''variant'' PNone) else Inr False) (\<lambda>b.
     rbind (value_require b ''Unsupported OCI platform variant'') (\<lambda>_.
     rbind (value_require (\<not> list_ex (\<lambda>key. truthy (dget p key PNone) \<or> truthy (dget details key PNone)) [''os.version'', ''os.features'', ''features''])
       ''Unexpected OCI platform requirements'') (\<lambda>_.
     case dget details ''config'' PNone of
       PDict body \<Rightarrow> value_require (labels_ok C body) ''OCI image version or revision label mismatch''
     | _ \<Rightarrow> Inl (ValueError ''Missing OCI runtime config''))))))"

definition native_image :: "pylib \<Rightarrow> native_check \<Rightarrow> string \<Rightarrow> jobject \<Rightarrow> jobject \<Rightarrow> ('a native_scheme, unit) io" where
  "native_image L C expected descriptor data =
     (let parts = split_on (CHR ''/'') expected; os = hd parts; arch = hd (tl parts) in
      ibind (json_blob L C (dget data ''config'' PNone) [CONFIG_TYPE]) (\<lambda>(config, details).
      ibind (ilift (image_body C os arch (dget descriptor ''platform'' PNone) details)) (\<lambda>_.
      ibind (ilift (bounded_list (dget data ''layers'' PNone) 0 ''Invalid OCI layers'')) (\<lambda>layers.
      ibind (iiter (\<lambda>layer. ibind (have_blob C layer LAYER_TYPES) (\<lambda>_. ireturn ())) layers) (\<lambda>_.
      ibind (ilift (diff_ids (dget details ''rootfs'' PNone) (length layers))) (\<lambda>ids.
      ibind (iiter (bind_layer L C) (zip layers ids)) (\<lambda>_.
      update (\<lambda>st. st\<lparr>na_images := na_images st @
        [[(''descriptor'', PDict (descriptor_entry descriptor)), (''config_sha256'', PStr (drop 7 (as_str (dget config ''digest'' PNone))))]]\<rparr>))))))))"

section \<open>Attestations\<close>

definition subject_platform_ok :: "string \<Rightarrow> pyval \<Rightarrow> bool" where
  "subject_platform_ok arch v \<longleftrightarrow>
     (case v of
        PNone \<Rightarrow> True
      | PDict p \<Rightarrow> dget p ''os'' (PStr ''linux'') = PStr ''linux'' \<and> dget p ''architecture'' (PStr arch) = PStr arch
      | _ \<Rightarrow> False)"

definition artifact_subject :: "pylib \<Rightarrow> native_check \<Rightarrow> string \<Rightarrow> jobject \<Rightarrow> jobject \<Rightarrow> pyval \<Rightarrow> ('a native_scheme, jobject) io" where
  "artifact_subject L C arch descriptor data reference =
     ibind (ilift (if dget data ''artifactType'' PNone = PStr attestation_type
       then none_or (dget descriptor ''artifactType'' PNone) attestation_type else Inr False)) (\<lambda>ok.
     ibind (check ok ''Invalid OCI attestation artifact type'') (\<lambda>_.
     ibind (json_blob L C (dget data ''config'' PNone) [empty_config_type]) (\<lambda>(config, details).
     ibind (check (details = [] \<and> dget config ''size'' PNone = PInt 2 \<and> dget config ''digest'' PNone = PStr (empty_config_digest L))
       ''Invalid OCI attestation empty config'') (\<lambda>_.
     ibind (have_blob C (dget data ''subject'' PNone) [oci_manifest_type]) (\<lambda>subject.
     ibind (check (subject_platform_ok arch (dget subject ''platform'' PNone)) ''Attestation subject platform differs from image'') (\<lambda>_.
     ibind (check (reference = PNone \<or> reference = dget subject ''digest'' PNone) ''Attestation reference differs from subject'') (\<lambda>_.
     ireturn (descriptor_entry subject))))))))"

definition legacy_subject :: "pylib \<Rightarrow> native_check \<Rightarrow> jobject \<Rightarrow> jobject \<Rightarrow> pyval \<Rightarrow> ('a native_scheme, jobject) io" where
  "legacy_subject L C descriptor data reference =
     ibind (check (\<not> dhas descriptor ''artifactType'' \<and> \<not> dhas data ''subject'') ''Invalid legacy OCI attestation'') (\<lambda>_.
     ibind (json_blob L C (dget data ''config'' PNone) [CONFIG_TYPE]) (\<lambda>(config, details).
     ibind (check (unknown_platform details) ''Attestation config contains a runnable image'') (\<lambda>_.
     ibind (check (matches_str digest_rx reference) ''Missing attestation reference'') (\<lambda>_.
     ilift
      (case map_of (nc_blobs C) (blob_of (as_str reference)) of
         None \<Rightarrow> Inl (ValueError ''Missing attestation subject blob'')
       | Some entry \<Rightarrow> Inr [(''mediaType'', PStr oci_manifest_type), (''digest'', reference), (''size'', PInt (tm_size entry))])))))"

definition names_subject :: "string \<Rightarrow> pyval \<Rightarrow> bool" where
  "names_subject sha item \<longleftrightarrow>
     (case dget (as_dict item) ''digest'' PNone of PDict d \<Rightarrow> dget d ''sha256'' PNone = PStr sha | _ \<Rightarrow> False)"

definition statement_ok :: "jobject \<Rightarrow> jobject \<Rightarrow> bool result" where
  "statement_ok subject statement =
     rbind (in_strs (dget statement ''_type'' PNone) STATEMENT_TYPES) (\<lambda>ok.
     Inr (ok \<and> is_str (dget statement ''predicateType'' PNone) \<and> truthy (dget statement ''predicateType'' PNone)
       \<and> (case dget statement ''subject'' PNone of
            PList subjects \<Rightarrow> subjects \<noteq> [] \<and> list_all is_dict subjects
              \<and> list_ex (names_subject (drop 7 (as_str (dget subject ''digest'' PNone)))) subjects
          | _ \<Rightarrow> False)))"

definition statement_layer :: "pylib \<Rightarrow> native_check \<Rightarrow> jobject \<Rightarrow> pyval \<Rightarrow> ('a native_scheme, string) io" where
  "statement_layer L C subject layer =
     ibind (have_blob C layer [layer_type]) (\<lambda>d.
     let name = blob_of (as_str (dget d ''digest'' PNone)) in
     ibind (read_json L C MAX_ATTESTATION_JSON name) (\<lambda>statement.
     ibind (ilift (statement_ok subject statement)) (\<lambda>ok.
     ibind (check ok ''Attestation statement subject differs from image'') (\<lambda>_.
     ibind (update (\<lambda>st. st\<lparr>na_attestation_names := na_attestation_names st @ [name]\<rparr>)) (\<lambda>_.
     ireturn (as_str (dget statement ''predicateType'' PNone)))))))"

definition native_attestation :: "pylib \<Rightarrow> native_check \<Rightarrow> string \<Rightarrow> jobject \<Rightarrow> jobject \<Rightarrow> jobject \<Rightarrow> ('a native_scheme, unit) io" where
  "native_attestation L C expected descriptor data annotations =
     (let arch = hd (tl (split_on (CHR ''/'') expected)); reference = dget annotations ''vnd.docker.reference.digest'' PNone in
      ibind (check ((case dget descriptor ''platform'' PNone of PDict p \<Rightarrow> unknown_platform p | _ \<Rightarrow> False)
          \<and> dget annotations REFERENCE_TYPE PNone \<in> {PNone, PStr ''attestation-manifest''}) ''Invalid OCI attestation platform'') (\<lambda>_.
      ibind (if dget data ''artifactType'' PNone \<noteq> PNone then artifact_subject L C arch descriptor data reference
             else legacy_subject L C descriptor data reference) (\<lambda>subject.
      ibind (ilift (bounded_list (dget data ''layers'' PNone) 1 ''Invalid attestation layers'')) (\<lambda>layers.
      ibind (imap (statement_layer L C subject) layers) (\<lambda>predicates.
      update (\<lambda>st. st\<lparr>na_attestations := na_attestations st @
        [\<lparr>at_digest = dget descriptor ''digest'' PNone, at_subject = subject, at_predicates = sort (remdups predicates)\<rparr>]\<rparr>))))))"

section \<open>The walk\<close>

text \<open>The methods a subclass may override.\<close>

record 's hooks =
  hk_image :: "jobject \<Rightarrow> jobject \<Rightarrow> ('s, unit) io"
  hk_attestation :: "jobject \<Rightarrow> jobject \<Rightarrow> jobject \<Rightarrow> ('s, unit) io"

definition native_index :: "jobject \<Rightarrow> pyval list result" where
  "native_index data =
     rbind (value_require (dget data ''schemaVersion'' PNone = PInt 2 \<and> dget data ''mediaType'' (PStr INDEX_TYPE) = PStr INDEX_TYPE)
       ''Invalid OCI index schema'') (\<lambda>_.
     rbind (value_require (\<not> dhas data ''subject'' \<and> \<not> dhas data ''artifactType'') ''Unexpected index artifact'') (\<lambda>_.
     case dget data ''manifests'' PNone of
       PList manifests \<Rightarrow>
         rbind (value_require (manifests \<noteq> [] \<and> length manifests \<le> 1024) ''Invalid OCI index manifest list'') (\<lambda>_. Inr manifests)
     | _ \<Rightarrow> Inl (ValueError ''Invalid OCI index manifest list'')))"

definition annotations_of :: "jobject \<Rightarrow> jobject result" where
  "annotations_of descriptor =
     (case dget descriptor ''annotations'' (PDict []) of
        PDict a \<Rightarrow> rbind (value_require (list_all (is_str \<circ> snd) a) ''Invalid OCI annotations'') (\<lambda>_. Inr a)
      | _ \<Rightarrow> Inl (ValueError ''Invalid OCI annotations''))"

definition native_leaf :: "'a native_scheme hooks \<Rightarrow> jobject \<Rightarrow> jobject \<Rightarrow> ('a native_scheme, unit) io" where
  "native_leaf K descriptor data =
     ibind (ilift (annotations_of descriptor)) (\<lambda>annotations.
     ibind (if dget annotations REFERENCE_TYPE PNone = PStr ''attestation-manifest'' \<or> dget data ''artifactType'' PNone = PStr attestation_type
            then hk_attestation K descriptor data annotations
            else ibind (check (\<not> dhas descriptor ''artifactType'' \<and> \<not> dhas data ''artifactType'' \<and> \<not> dhas data ''subject''
                   \<and> \<not> dhas annotations REFERENCE_TYPE) ''Unexpected OCI image artifact'') (\<lambda>_.
                 hk_image K descriptor data)) (\<lambda>_.
     ibind (get na_leaves) (\<lambda>leaves.
     ibind (check (list_all (\<lambda>item. dget item ''digest'' PNone \<noteq> dget descriptor ''digest'' PNone) leaves) ''Duplicate OCI manifest descriptor'') (\<lambda>_.
     update (\<lambda>st. st\<lparr>na_leaves := na_leaves st @ [descriptor]\<rparr>)))))"

definition native_node :: "pylib \<Rightarrow> native_check \<Rightarrow> 'a native_scheme hooks \<Rightarrow> (pyval \<Rightarrow> ('a native_scheme, unit) io) \<Rightarrow> pyval \<Rightarrow> ('a native_scheme, unit) io" where
  "native_node L C K walk v =
     ibind (json_blob L C v [INDEX_TYPE, oci_manifest_type]) (\<lambda>(descriptor, data).
     let media = dget descriptor ''mediaType'' PNone in
     ibind (check (dget data ''schemaVersion'' PNone = PInt 2 \<and> dget data ''mediaType'' media = media)
       ''OCI manifest schema or media type mismatch'') (\<lambda>_.
     if media = PStr INDEX_TYPE then ibind (ilift (native_index data)) (\<lambda>manifests. iiter walk manifests)
     else native_leaf K descriptor data))"

definition native_visit :: "('a native_scheme, unit) io" where
  "native_visit =
     ibind (update (\<lambda>st. st\<lparr>na_visited := Suc (na_visited st)\<rparr>)) (\<lambda>_.
     ibind (get na_visited) (\<lambda>visited.
     check (visited \<le> 1024) ''OCI graph exceeds limits''))"

text \<open>A walk at depth \<open>d\<close> has \<open>9 - d\<close> levels left.\<close>

primrec native_walk :: "pylib \<Rightarrow> native_check \<Rightarrow> 'a native_scheme hooks \<Rightarrow> nat \<Rightarrow> pyval \<Rightarrow> ('a native_scheme, unit) io" where
  "native_walk L C K 0 v = ibind (update (\<lambda>st. st\<lparr>na_visited := Suc (na_visited st)\<rparr>)) (\<lambda>_.
     ilift (Inl (ValueError ''OCI graph exceeds limits'')))"
| "native_walk L C K (Suc levels) v = ibind native_visit (\<lambda>_. native_node L C K (native_walk L C K levels) v)"

definition native_graph :: "pylib \<Rightarrow> native_check \<Rightarrow> 'a native_scheme hooks \<Rightarrow> ('a native_scheme, unit) io" where
  "native_graph L C K =
     ibind (read_json L C MAX_JSON ''oci-layout'') (\<lambda>layout.
     ibind (check (dget layout ''imageLayoutVersion'' PNone = PStr ''1.0.0'') ''Invalid OCI layout'') (\<lambda>_.
     ibind (read_json L C MAX_JSON ''index.json'') (\<lambda>root.
     ibind (ilift (native_index root)) (\<lambda>manifests.
     iiter (native_walk L C K 9) manifests))))"

text \<open>\<open>validate_complete_graph\<close> of a native input.\<close>

definition complete_native :: "native \<Rightarrow> unit result" where
  "complete_native st =
     rbind (value_require (length (na_images st) = 1) ''Expected exactly one runnable image per input'') (\<lambda>_.
     riter (\<lambda>attestation. value_require (PDict (at_subject attestation) = dget (hd (na_images st)) ''descriptor'' PNone)
       ''OCI attestation subject differs from runnable image'') (na_attestations st))"

definition native_start :: native where
  "native_start = \<lparr>na_leaves = [], na_images = [], na_attestations = [], na_visited = 0, na_bytes = 0, na_names = [],
     na_attestation_names = [], na_layers = [], na_rootfs = 0\<rparr>"

end
