(* ===== verification/OciMerge.thy ===== *)
theory OciMerge
  imports OciArchive
begin

text \<open>
  The constructor of class \<open>Archive\<close> and \<open>merge_archives\<close> of \<open>scripts/merge_oci_archives.py\<close>: two verified native exports
  become one archive with an index of both, whose blobs are the inputs' blobs. Writing the archive is a list of members
  in order; the outside world is what the record \<open>merge_env\<close> answers.
\<close>

section \<open>Opening an input\<close>

text \<open>
  A file that is opened once: what opening it answers, its kind, its bytes, the members \<open>tarfile\<close> reads from them and how
  that ends, and whether its size and times are those of the first look when they are compared, after the validation and
  after the output was written.
\<close>

record oci_input =
  in_symlink :: bool
  in_open :: "unit result"
  in_regular :: bool
  in_name :: string
  in_data :: string
  in_tar :: "tar_member list"
  in_tar_end :: "unit result"
  in_unchanged :: bool
  in_still_unchanged :: bool

record native_archive =
  ar_platform :: string
  ar_input :: oci_input
  ar_check :: native_check
  ar_state :: native

definition native_hooks :: "pylib \<Rightarrow> native_check \<Rightarrow> string \<Rightarrow> native hooks" where
  "native_hooks L C platform = \<lparr>hk_image = native_image L C platform, hk_attestation = native_attestation L C platform\<rparr>"

definition input_unchanged :: "bool \<Rightarrow> unit result" where
  "input_unchanged same = value_require same ''OCI input changed during assembly''"

definition checked_input :: "pylib \<Rightarrow> codec \<Rightarrow> pyval \<Rightarrow> string \<Rightarrow> oci_input \<Rightarrow> native_check result" where
  "checked_input L K ver revision input =
     rbind (value_require (\<not> in_symlink input) ''Input archive must not be a symlink'') (\<lambda>_.
     rbind (in_open input) (\<lambda>_.
     rbind (value_require (in_regular input) ''Input must be a regular file'') (\<lambda>_.
     rbind (take_inventory L (in_tar input) (in_tar_end input)) (\<lambda>iv.
     Inr \<lparr>nc_members = iv_members iv, nc_blobs = iv_blobs iv, nc_version = ver, nc_revision = revision, nc_codec = K\<rparr>))))"

definition open_archive :: "pylib \<Rightarrow> codec \<Rightarrow> string \<Rightarrow> pyval \<Rightarrow> string \<Rightarrow> oci_input \<Rightarrow> native_archive result" where
  "open_archive L K platform ver revision input =
     rbind (checked_input L K ver revision input) (\<lambda>C.
     case native_graph L C (native_hooks L C platform) native_start of
       (Inl e, st) \<Rightarrow> Inl e
     | (Inr u, st) \<Rightarrow>
         rbind (complete_native st) (\<lambda>_.
         rbind (input_unchanged (in_unchanged input)) (\<lambda>_.
         Inr \<lparr>ar_platform = platform, ar_input = input, ar_check = C, ar_state = st\<rparr>)))"

section \<open>Merging\<close>

text \<open>The order of the leaves: images before attestations, then by architecture and digest (stable sorts, last key first).\<close>

definition leaf_platform :: "jobject \<Rightarrow> string \<Rightarrow> string" where
  "leaf_platform leaf key = as_str (dget (as_dict (dget leaf ''platform'' PNone)) key PNone)"

definition sort_leaves :: "jobject list \<Rightarrow> jobject list" where
  "sort_leaves leaves =
     sort_key (\<lambda>leaf. leaf_platform leaf ''os'' = ''unknown'')
       (sort_key (\<lambda>leaf. leaf_platform leaf ''architecture'')
         (sort_key (\<lambda>leaf. as_str (dget leaf ''digest'' PNone)) leaves))"

definition index_json :: "pyval list \<Rightarrow> pyval" where
  "index_json manifests =
     PDict [(''schemaVersion'', PInt 2), (''mediaType'', PStr INDEX_TYPE), (''manifests'', PList manifests)]"

definition index_descriptor :: "pylib \<Rightarrow> string \<Rightarrow> pyval" where
  "index_descriptor L inner =
     PDict [(''mediaType'', PStr INDEX_TYPE), (''digest'', PStr (''sha256:'' @ digest L inner)), (''size'', PInt (int (length inner)))]"

text \<open>The generated members and the digest of the inner index.\<close>

definition generated_index :: "pylib \<Rightarrow> jobject list \<Rightarrow> (files \<times> string) result" where
  "generated_index L leaves =
     rbind (oci_canonical L (index_json (map PDict leaves))) (\<lambda>inner.
     rbind (oci_canonical L (index_json [index_descriptor L inner])) (\<lambda>root.
     rbind (oci_canonical L (PDict [(''imageLayoutVersion'', PStr ''1.0.0'')])) (\<lambda>layout.
     Inr ([(''oci-layout'', layout), (''index.json'', root), (BLOB_PREFIX @ digest L inner, inner)], digest L inner))))"

text \<open>\<open>blobs[name] = ...\<close> of a later archive replaces the entry of an earlier one.\<close>

fun merge_blobs :: "(string \<times> tar_member) list \<Rightarrow> (string \<times> tar_member) list \<Rightarrow> (string \<times> tar_member) list result" where
  "merge_blobs blobs [] = Inr blobs"
| "merge_blobs blobs ((name, entry) # entries) =
     rbind (value_require (case map_of blobs name of None \<Rightarrow> True | Some other \<Rightarrow> tm_size other = tm_size entry)
       ''Conflicting shared OCI blob'') (\<lambda>_.
     merge_blobs ((name, entry) # filter (\<lambda>(n, e). n \<noteq> name) blobs) entries)"

definition output_members :: "files \<Rightarrow> (string \<times> tar_member) list \<Rightarrow> files" where
  "output_members generated blobs =
     map (\<lambda>name. (name, case map_of generated name of Some raw \<Rightarrow> raw | None \<Rightarrow> tm_data (the (map_of blobs name))))
       (sort (remdups (map fst generated @ map fst blobs)))"

definition has_provenance :: "attested \<Rightarrow> bool" where
  "has_provenance a \<longleftrightarrow> list_ex (\<lambda>t. t \<in> set (at_predicates a)) PROVENANCE_TYPES"

definition archive_image :: "native_archive \<Rightarrow> jobject" where
  "archive_image ar = hd (na_images (ar_state ar))"

definition manifest_digest :: "jobject \<Rightarrow> pyval" where
  "manifest_digest img = dget (as_dict (dget img ''descriptor'' PNone)) ''digest'' PNone"

definition merged_image :: "native_archive \<Rightarrow> jobject" where
  "merged_image ar =
     (let img = archive_image ar; attestations = na_attestations (ar_state ar) in
      [(''platform'', PStr (ar_platform ar)),
       (''config_digest'', PStr (''sha256:'' @ as_str (dget img ''config_sha256'' PNone))),
       (''manifest_digest'', manifest_digest img),
       (''provenance_digests'', PList (map at_digest (filter has_provenance attestations))),
       (''attestation_digests'', PList (map at_digest attestations))])"

definition attested_json :: "attested \<Rightarrow> pyval" where
  "attested_json a =
     PDict [(''digest'', at_digest a), (''subject'', PDict (at_subject a)), (''predicate_types'', PList (map PStr (at_predicates a)))]"

definition merged_input :: "pylib \<Rightarrow> native_archive \<Rightarrow> jobject" where
  "merged_input L ar =
     [(''platform'', PStr (ar_platform ar)), (''name'', PStr (in_name (ar_input ar)))] @ stream_sha L (in_data (ar_input ar)) @
     [(''image'', PDict (archive_image ar)), (''attestations'', PList (map attested_json (na_attestations (ar_state ar))))]"

text \<open>
  Whether the destination exists and its directory does, the bytes \<open>tarfile\<close> writes for members with normalised headers
  (an error for one that does not fit its format), and what \<open>os.link\<close> answers.
\<close>

record merge_env =
  me_exists :: bool
  me_parent :: bool
  me_name :: string
  me_tar :: "files \<Rightarrow> string result"
  me_link :: "unit result"

definition version_rx :: rx where
  "version_rx = Seq (Cls (\<lambda>c. is_lower c \<or> is_upper c \<or> is_digit c))
     (UpTo 127 (Cls (\<lambda>c. is_lower c \<or> is_upper c \<or> is_digit c \<or> c \<in> {CHR ''.'', CHR ''+'', CHR ''-''})))"

definition merged_result :: "pylib \<Rightarrow> merge_env \<Rightarrow> pyval \<Rightarrow> string \<Rightarrow> native_archive list \<Rightarrow> string \<Rightarrow> string \<Rightarrow> jobject" where
  "merged_result L E ver revision archives inner_digest written =
     [(''schema'', PInt 1), (''version'', ver), (''revision'', PStr revision),
      (''images'', PDict (map (\<lambda>ar. (ar_platform ar, PDict (merged_image ar))) archives)),
      (''inputs'', PList (map (PDict \<circ> merged_input L) archives)),
      (''output'', PDict ([(''name'', PStr (me_name E))] @ stream_sha L written @ [(''index_sha256'', PStr inner_digest)]))]"

text \<open>The result and the members of the published archive.\<close>

definition merge_archives ::
  "pylib \<Rightarrow> codec \<Rightarrow> merge_env \<Rightarrow> (string \<times> oci_input) list \<Rightarrow> pyval \<Rightarrow> string \<Rightarrow> (jobject \<times> files) result" where
  "merge_archives L K E inputs ver revision =
     rbind (value_require (fst ` set inputs = set PLATFORMS) ''Inputs must contain exactly linux/amd64 and linux/arm64'') (\<lambda>_.
     rbind (value_require (matches_str version_rx ver) ''Invalid image version'') (\<lambda>_.
     rbind (value_require (fullmatch SHA revision) ''Invalid source revision'') (\<lambda>_.
     rbind (value_require (\<not> me_exists E) ''Output already exists'') (\<lambda>_.
     rbind (value_require (me_parent E) ''Output parent must exist'') (\<lambda>_.
     rbind (rmap (\<lambda>platform. open_archive L K platform ver revision (the (map_of inputs platform))) PLATFORMS) (\<lambda>archives.
     rbind (generated_index L (sort_leaves (concat (map (na_leaves \<circ> ar_state) archives)))) (\<lambda>(generated, inner_digest).
     rbind (rfold (\<lambda>blobs ar. merge_blobs blobs (nc_blobs (ar_check ar))) [] archives) (\<lambda>blobs.
     let members = output_members generated blobs in
     rbind (me_tar E members) (\<lambda>written.
     rbind (riter (\<lambda>ar. input_unchanged (in_still_unchanged (ar_input ar))) archives) (\<lambda>_.
     rbind (me_link E) (\<lambda>_.
     Inr (merged_result L E ver revision archives inner_digest written, members))))))))))))"

end
