(* ===== verification/OciArchiveProps.thy ===== *)
theory OciArchiveProps
  imports OciMerge OciProps
begin

text \<open>
  What a validated native OCI archive guarantees. One invariant of the walk, kept by every method of class \<open>Archive\<close>
  for any predicate \<open>Img\<close> the hook for images establishes, ties images, attestations and layers to the archive's blobs.
\<close>

section \<open>Triples\<close>

lemma triple_update_any: "(\<And>st. P st \<Longrightarrow> Q () (f st)) \<Longrightarrow> triple P (update f) Q E"
  by (auto simp: triple_def update_def)

lemma triple_get: "triple P (get f) (\<lambda>x st. P st \<and> x = f st) E"
  by (auto simp: triple_def get_def)

lemma triple_read: "(\<And>x. triple (\<lambda>st. P st \<and> x = f st) (g x) Q E) \<Longrightarrow> triple P (ibind (get f) g) Q E"
  by (rule triple_bind [OF triple_get])

lemma triple_get_free: "(\<And>x. triple P (g x) Q E) \<Longrightarrow> triple P (ibind (get f) g) Q E"
  by (rule triple_read) (auto intro: triple_pre)

lemma triple_imap:
  assumes "\<And>x. triple P (f x) (\<lambda>y st. P st \<and> A x y) E"
  shows "triple P (imap f xs) (\<lambda>ys st. P st \<and> list_all2 A xs ys) E"
proof (induction xs)
  case Nil
  then show ?case by (simp add: triple_def ireturn_def)
next
  case (Cons x xs)
  show ?case
    by (simp, rule triple_then [OF assms], rule triple_then [OF Cons.IH]) (auto simp: triple_def ireturn_def)
qed

lemma triple_iter_set:
  assumes "\<And>x. x \<in> set xs \<Longrightarrow> triple P (f x) (\<lambda>_ st. P st \<and> A x) E"
  shows "triple P (iiter f xs) (\<lambda>_ st. P st \<and> list_all A xs) E"
  using assms
proof (induction xs)
  case Nil
  then show ?case by (simp add: triple_def)
next
  case (Cons x xs)
  have "triple P (f x) (\<lambda>_ st. P st \<and> A x) E" "triple P (iiter f xs) (\<lambda>_ st. P st \<and> list_all A xs) E"
    using Cons by simp_all
  then show ?case
    by (simp, elim triple_bind, intro triple_fact, elim triple_post) auto
qed

section \<open>The inventory\<close>

definition blob_sound :: "pylib \<Rightarrow> string \<times> tar_member \<Rightarrow> bool" where
  "blob_sound L blob \<longleftrightarrow>
     fullmatch blob_path (fst blob) \<and> fst blob = BLOB_PREFIX @ digest L (tm_data (snd blob))
     \<and> tm_size (snd blob) = int (length (tm_data (snd blob))) \<and> tm_kind (snd blob) = TarFile"

definition inventory_sound :: "pylib \<Rightarrow> inventory \<Rightarrow> bool" where
  "inventory_sound L iv \<longleftrightarrow>
     distinct (map fst (iv_members iv)) \<and> (\<forall>name entry. (name, entry) \<in> set (iv_members iv) \<longrightarrow> name \<in> set (iv_seen iv))
     \<and> iv_blobs iv = filter (\<lambda>(name, entry). prefix ''blobs/'' name) (iv_members iv)
     \<and> list_all (blob_sound L) (iv_blobs iv)"

lemma blob_path_prefix: "fullmatch blob_path name \<Longrightarrow> prefix BLOB_PREFIX name"
  unfolding blob_path_def fullmatch_lang by (auto simp: SeqOf_simps BLOB_PREFIX_def)

lemma inventory_member_sound:
  assumes "inventory_member L name entry iv = Inr iv'" "inventory_sound L iv" "name \<notin> set (map fst (iv_members iv))"
    "name \<in> set (iv_seen iv)" "tm_kind entry = TarFile"
  shows "inventory_sound L iv'"
proof -
  have "name = BLOB_PREFIX @ d" if "fullmatch blob_path name" "d = drop (length BLOB_PREFIX) name" for d
    using blob_path_prefix [OF that(1)] that(2) by (auto simp: prefix_def)
  then show ?thesis
    using assms by (auto simp: inventory_member_def inventory_sound_def blob_sound_def Let_def rbind_Inr_iff split: if_splits) blast+
qed

lemma inventory_sound_seen: "inventory_sound L iv \<Longrightarrow> inventory_sound L (iv\<lparr>iv_seen := name # iv_seen iv\<rparr>)"
  by (auto simp: inventory_sound_def)

lemma inventory_entry_sound:
  assumes "inventory_entry L n entry iv = Inr iv'" "inventory_sound L iv"
  shows "inventory_sound L iv'"
proof -
  obtain name where new: "name \<notin> set (iv_seen iv)" and kind: "tm_kind entry \<noteq> TarOther"
    and r: "iv' = iv\<lparr>iv_seen := name # iv_seen iv\<rparr> \<or>
      tm_kind entry \<noteq> TarDirectory \<and> inventory_member L name entry (iv\<lparr>iv_seen := name # iv_seen iv\<rparr>) = Inr iv'"
    using assms(1) by (auto simp: inventory_entry_def Let_def rbind_Inr_iff split: if_splits)
  have "name \<notin> set (map fst (iv_members iv))"
    using new assms(2) by (auto simp: inventory_sound_def)
  moreover have "tm_kind entry = TarFile" if "tm_kind entry \<noteq> TarDirectory"
    using that kind by (cases "tm_kind entry") auto
  ultimately show ?thesis
    using r inventory_sound_seen [OF assms(2), of name] inventory_member_sound by fastforce
qed

lemma inventory_from_sound: "inventory_from L n iv entries = Inr iv' \<Longrightarrow> inventory_sound L iv \<Longrightarrow> inventory_sound L iv'"
  by (induction L n iv entries rule: inventory_from.induct) (auto simp: rbind_Inr_iff intro: inventory_entry_sound)

lemma take_inventory_sound: "take_inventory L entries ended = Inr iv \<Longrightarrow> inventory_sound L iv"
  by (auto simp: take_inventory_def rbind_Inr_iff, erule inventory_from_sound, simp add: inventory_sound_def)


section \<open>Verified documents, layers, images and attestations\<close>

text \<open>The descriptor names a blob of the archive with its digest and its size, whose bytes are \<open>raw\<close>.\<close>

definition blob_named :: "native_check \<Rightarrow> pyval \<Rightarrow> string \<Rightarrow> bool" where
  "blob_named C v raw \<longleftrightarrow>
     (\<exists>d entry. v = PDict d \<and> matches_str digest_rx (dget d ''digest'' PNone)
        \<and> map_of (nc_blobs C) (blob_of (descriptor_digest v)) = Some entry
        \<and> dget d ''size'' PNone = PInt (tm_size entry) \<and> raw = tm_data entry)"

text \<open>That blob is the JSON object \<open>data\<close>.\<close>

definition json_named :: "pylib \<Rightarrow> native_check \<Rightarrow> pyval \<Rightarrow> jobject \<Rightarrow> bool" where
  "json_named L C v data \<longleftrightarrow> (\<exists>raw. blob_named C v raw \<and> loads_bytes L oci_opts raw = Inr (PDict data))"

definition layer_content :: "codec \<Rightarrow> string \<Rightarrow> string \<Rightarrow> string \<Rightarrow> bool" where
  "layer_content K media data content \<longleftrightarrow> (\<exists>chunks. layer_stream K media data = Inr (chunks, False) \<and> content = concat chunks)"

definition layer_hashes :: "pylib \<Rightarrow> native_check \<Rightarrow> string \<Rightarrow> string \<Rightarrow> string \<Rightarrow> int \<Rightarrow> bool" where
  "layer_hashes L C identity media checked n \<longleftrightarrow>
     (\<exists>entry content. map_of (nc_blobs C) (blob_of identity) = Some entry \<and> layer_content (nc_codec C) media (tm_data entry) content
        \<and> checked = ''sha256:'' @ digest L content \<and> n = int (length content))"

definition media_of :: "pyval \<Rightarrow> string" where
  "media_of v = as_str (dget (as_dict v) ''mediaType'' PNone)"

definition layer_bound :: "pylib \<Rightarrow> native_check \<Rightarrow> pyval \<Rightarrow> string \<Rightarrow> bool" where
  "layer_bound L C layer checked \<longleftrightarrow>
     (\<exists>raw n. blob_named C layer raw \<and> media_of layer \<in> set LAYER_TYPES
        \<and> layer_hashes L C (descriptor_digest layer) (media_of layer) checked n)"

text \<open>
  An image: a manifest and a configuration of the archive, with the platform and the labels; the content of every layer,
  decompressed, hashes to the configuration's entry for it.
\<close>

definition native_image_ok :: "pylib \<Rightarrow> native_check \<Rightarrow> string \<Rightarrow> jobject \<Rightarrow> bool" where
  "native_image_ok L C expected img \<longleftrightarrow>
     (\<exists>descriptor data config details body rootfs layers ids.
        json_named L C (PDict descriptor) data \<and> dget data ''config'' PNone = config \<and> json_named L C config details
        \<and> platform_ok (hd (split_on (CHR ''/'') expected)) (hd (tl (split_on (CHR ''/'') expected))) (dget descriptor ''platform'' PNone) details
        \<and> dget details ''config'' PNone = PDict body \<and> labels_ok C body
        \<and> dget data ''layers'' PNone = PList layers \<and> dget details ''rootfs'' PNone = PDict rootfs
        \<and> dget rootfs ''diff_ids'' PNone = PList (map PStr ids) \<and> list_all2 (layer_bound L C) layers ids
        \<and> img = [(''descriptor'', PDict (descriptor_entry descriptor)), (''config_sha256'', PStr (drop 7 (descriptor_digest config)))])"

text \<open>An attestation: its manifest lists statements of the archive, each about the subject.\<close>

definition attestation_ok :: "pylib \<Rightarrow> native_check \<Rightarrow> attested \<Rightarrow> bool" where
  "attestation_ok L C a \<longleftrightarrow>
     (\<exists>descriptor data layers statements.
        json_named L C (PDict descriptor) data \<and> at_digest a = dget descriptor ''digest'' PNone
        \<and> dget data ''layers'' PNone = PList layers \<and> statements \<noteq> [] \<and> list_all2 (json_named L C) layers statements
        \<and> list_all (\<lambda>statement. statement_ok (at_subject a) statement = Inr True) statements
        \<and> at_predicates a = sort (remdups (map (\<lambda>statement. as_str (dget statement ''predicateType'' PNone)) statements)))"

section \<open>The invariant of the walk\<close>

definition nat_inv :: "pylib \<Rightarrow> native_check \<Rightarrow> (jobject \<Rightarrow> bool) \<Rightarrow> 'a native_scheme \<Rightarrow> bool" where
  "nat_inv L C Img st \<longleftrightarrow>
     list_all Img (na_images st) \<and> list_all (attestation_ok L C) (na_attestations st)
     \<and> list_all (\<lambda>leaf. \<exists>data. json_named L C (PDict leaf) data) (na_leaves st)
     \<and> list_all (\<lambda>((identity, media), checked, n). layer_hashes L C identity media checked n) (na_layers st)
     \<and> na_rootfs st \<le> MAX_ROOTFS_BYTES"

text \<open>What an archive's inventory guarantees of its members.\<close>

definition check_sound :: "pylib \<Rightarrow> native_check \<Rightarrow> bool" where
  "check_sound L C \<longleftrightarrow>
     distinct (map fst (nc_members C)) \<and> nc_blobs C = filter (\<lambda>(name, entry). prefix ''blobs/'' name) (nc_members C)
     \<and> list_all (blob_sound L) (nc_blobs C)"

abbreviation native_triple :: "pylib \<Rightarrow> native_check \<Rightarrow> (jobject \<Rightarrow> bool) \<Rightarrow> ('a native_scheme, 'b) io \<Rightarrow> ('b \<Rightarrow> bool) \<Rightarrow> bool" where
  "native_triple L C Img m A \<equiv> triple (nat_inv L C Img) m (\<lambda>x st. nat_inv L C Img st \<and> A x) (\<lambda>_. True)"

lemma native_step: "(\<And>x. r = Inr x \<Longrightarrow> triple P (f x) Q (\<lambda>_. True)) \<Longrightarrow> triple P (ibind (ilift r) f) Q (\<lambda>_. True)"
  by (rule triple_lifted) simp

lemma nat_inv_fields [simp]:
  "nat_inv L C Img (st\<lparr>na_names := x\<rparr>) = nat_inv L C Img st"
  "nat_inv L C Img (st\<lparr>na_attestation_names := x\<rparr>) = nat_inv L C Img st"
  "nat_inv L C Img (st\<lparr>na_bytes := i\<rparr>) = nat_inv L C Img st"
  "nat_inv L C Img (st\<lparr>na_visited := n\<rparr>) = nat_inv L C Img st"
  by (simp_all add: nat_inv_def)

lemma native_update: "(\<And>st. nat_inv L C Img st \<Longrightarrow> nat_inv L C Img (f st)) \<Longrightarrow> native_triple L C Img (update f) (\<lambda>_. True)"
  by (rule triple_update_any) simp

lemma native_then:
  assumes "native_triple L C Img m A" "\<And>x. A x \<Longrightarrow> triple (nat_inv L C Img) (f x) Q (\<lambda>_. True)"
  shows "triple (nat_inv L C Img) (ibind m f) Q (\<lambda>_. True)"
  by (rule triple_then [OF assms])

lemma native_lift: "(\<And>x. r = Inr x \<Longrightarrow> A x) \<Longrightarrow> native_triple L C Img (ilift r) A"
  by (auto simp: triple_def split: sum.splits)

lemma native_return: "A x \<Longrightarrow> native_triple L C Img (ireturn x) A"
  by (simp add: triple_def)

lemma keeps_lift [intro!]: "triple (nat_inv L C Img) (ilift r) (\<lambda>_. nat_inv L C Img) (\<lambda>_. True)"
  by (auto simp: triple_def split: sum.splits)

lemma keeps_return [intro!]: "triple (nat_inv L C Img) (ireturn x) (\<lambda>_. nat_inv L C Img) (\<lambda>_. True)"
  by (simp add: triple_def)

lemma oci_json_Inr: "oci_json L m raw = Inr d \<Longrightarrow> loads_bytes L oci_opts raw = Inr (PDict d)"
proof -
  assume "oci_json L m raw = Inr d"
  then obtain v where "loads_bytes L oci_opts raw = Inr v"
    and "(case v of PDict d \<Rightarrow> Inr d | _ \<Rightarrow> Inl (ValueError ''OCI JSON must be an object'')) = Inr d"
    by (auto simp: oci_json_def rbind_Inr_iff)
  then show ?thesis by (cases v) auto
qed

lemma read_json_triple:
  "native_triple L C Img (read_json L C m name)
     (\<lambda>data. \<exists>entry. map_of (nc_members C) name = Some entry \<and> loads_bytes L oci_opts (tm_data entry) = Inr (PDict data))"
  unfolding read_json_def Let_def
proof (rule native_then [OF native_update [where f = "\<lambda>st. st\<lparr>na_names := na_names st @ [name]\<rparr>"]], simp, cases "map_of (nc_members C) name", goal_cases)
  case 1
  then show ?case by (simp add: triple_def)
next
  case (2 u entry)
  then show ?case
    by (auto intro!: native_step native_then [OF native_update] triple_get_free native_lift dest!: oci_json_Inr split del: if_split)
qed


section \<open>Blobs and layers\<close>

lemma as_dict_PDict [simp]: "as_dict (PDict d) = d"
  by (simp add: as_dict_def)

lemma blob_named_digest:
  "blob_named C (PDict d) raw \<Longrightarrow> dget d ''digest'' PNone = PStr (descriptor_digest (PDict d))"
  by (cases "dget d ''digest'' PNone") (auto simp: blob_named_def descriptor_digest_def matches_str_def as_str_def dget_def split: option.splits)

lemma native_blob_Inr:
  assumes "native_blob C v types = Inr (d, identity)"
  shows "v = PDict d \<and> identity = descriptor_digest v \<and> (\<exists>raw. blob_named C v raw) \<and> in_strs (dget d ''mediaType'' PNone) types = Inr True"
proof -
  obtain e where v: "v = PDict e" using assms by (cases v) (auto simp: native_blob_def)
  show ?thesis
    using assms
    by (auto simp: v native_blob_def Let_def rbind_Inr_iff blob_named_def descriptor_digest_def as_dict_def as_int_def
        matches_str_def dget_def split: option.splits pyval.splits)
qed

lemma blob_members:
  assumes "check_sound L C" "map_of (nc_blobs C) name = Some entry"
  shows "map_of (nc_members C) name = Some entry"
  using assms map_of_SomeD [OF assms(2)] by (auto simp: check_sound_def)

lemma json_blob_triple:
  assumes "check_sound L C"
  shows "native_triple L C Img (json_blob L C v types) (\<lambda>(d, data). v = PDict d \<and> json_named L C v data)"
  unfolding json_blob_def
proof (rule native_step, clarify)
  fix d identity
  assume b: "native_blob C v types = Inr (d, identity)"
  note n = native_blob_Inr [OF b]
  then obtain entry where e: "map_of (nc_blobs C) (blob_of identity) = Some entry" "blob_named C v (tm_data entry)"
    by (auto simp: blob_named_def)
  then show "native_triple L C Img (ibind (read_json L C MAX_JSON (blob_of identity)) (\<lambda>data. ireturn (d, data)))
      (\<lambda>(d, data). v = PDict d \<and> json_named L C v data)"
    using n blob_members [OF assms e(1)]
    by (intro native_then [OF read_json_triple] native_return) (auto simp: json_named_def)
qed

lemma have_blob_triple:
  "native_triple L C Img (have_blob C v types)
     (\<lambda>d. v = PDict d \<and> (\<exists>raw. blob_named C v raw) \<and> in_strs (dget d ''mediaType'' PNone) types = Inr True)"
  unfolding have_blob_def by (rule native_lift) (auto simp: rbind_Inr_iff dest: native_blob_Inr)

lemma count_chunks_Inr:
  "count_chunks used content chunks = Inr b \<Longrightarrow>
     b = content @ concat (fst chunks) \<and> \<not> snd chunks
     \<and> (used + int (length content) \<le> MAX_ROOTFS_BYTES \<longrightarrow> used + int (length b) \<le> MAX_ROOTFS_BYTES)"
  by (induction used content chunks rule: count_chunks.induct) (auto simp: rbind_Inr_iff Let_def algebra_simps)

lemma layer_cached:
  assumes "nat_inv L C Img st" "map_of (na_layers st) (identity, media) = Some (checked, n)"
  shows "layer_hashes L C identity media checked n"
  using assms map_of_SomeD [OF assms(2)] by (auto simp: nat_inv_def list_all_iff)

lemma layer_digest_triple:
  assumes "blob_named C (PDict layer) raw"
  shows "native_triple L C Img (layer_digest L C layer)
     (\<lambda>checked. \<exists>n. layer_hashes L C (descriptor_digest (PDict layer)) (media_of (PDict layer)) checked n)"
proof -
  let ?i = "descriptor_digest (PDict layer)" and ?m = "media_of (PDict layer)"
  have names: "as_str (dget layer ''digest'' PNone) = ?i" "as_str (dget layer ''mediaType'' PNone) = ?m"
    using blob_named_digest [OF assms] by (auto simp: media_of_def as_str_def)
  obtain entry where entry: "map_of (nc_blobs C) (blob_of ?i) = Some entry" using assms by (auto simp: blob_named_def)
  show ?thesis
    unfolding triple_def
  proof (intro allI impI)
    fix st :: "'a native_scheme"
    assume inv: "nat_inv L C Img st"
    show "case layer_digest L C layer st of (Inl e, st') \<Rightarrow> True | (Inr x, st') \<Rightarrow> nat_inv L C Img st' \<and> (\<exists>n. layer_hashes L C ?i ?m x n)"
    proof (cases "map_of (na_layers st) (?i, ?m)")
      case None
      have "layer_hashes L C ?i ?m (''sha256:'' @ digest L b) (int (length b))"
        if "layer_stream (nc_codec C) ?m (tm_data entry) = Inr chunks" "count_chunks t [] chunks = Inr b" for chunks b t
        using that entry count_chunks_Inr [OF that(2)] unfolding layer_hashes_def layer_content_def by (cases chunks) auto
      then show ?thesis
        using None inv entry
        by (auto simp: layer_digest_def names Let_def ibind_def get_def update_def ireturn_def nat_inv_def
            dest: count_chunks_Inr split: sum.splits) (blast intro: exI)
    next
      case (Some found)
      then show ?thesis
        using inv layer_cached [OF inv]
        by (cases found, auto simp: layer_digest_def names Let_def ibind_def get_def update_def ireturn_def nat_inv_def split: sum.splits) blast
    qed
  qed
qed


section \<open>Images\<close>

lemma image_body_Inr:
  assumes "image_body C os arch platform details = Inr u"
  shows "platform_ok os arch platform details \<and> (\<exists>body. dget details ''config'' PNone = PDict body \<and> labels_ok C body)"
proof -
  have "platform_ok os arch platform details"
    and "(case dget details ''config'' PNone of PDict body \<Rightarrow> value_require (labels_ok C body) ''OCI image version or revision label mismatch''
      | _ \<Rightarrow> Inl (ValueError ''Missing OCI runtime config'')) = Inr ()"
    using assms by (auto simp: image_body_def Let_def rbind_Inr_iff)
  then show ?thesis by (cases "dget details ''config'' PNone") auto
qed

lemma bounded_list_Inr: "bounded_list v least m = Inr xs \<Longrightarrow> v = PList xs \<and> least \<le> length xs"
  by (cases v) (auto simp: bounded_list_def rbind_Inr_iff)

lemma diff_ids_Inr:
  assumes "diff_ids rootfs n = Inr ids"
  shows "\<exists>r. rootfs = PDict r \<and> dget r ''diff_ids'' PNone = PList (map PStr ids) \<and> length ids = n"
proof -
  have strs: "map (PStr \<circ> as_str) xs = xs" if "list_all (matches_str digest_rx) xs" for xs
    using that by (induction xs) (auto simp: matches_str_def as_str_def split: pyval.splits)
  obtain r where r: "rootfs = PDict r" using assms by (cases rootfs) (auto simp: diff_ids_def)
  then obtain xs where "dget r ''diff_ids'' PNone = PList xs"
    using assms by (cases "dget r ''diff_ids'' PNone") (auto simp: diff_ids_def rbind_Inr_iff)
  with r assms strs [of xs] show ?thesis by (auto simp: diff_ids_def rbind_Inr_iff items_of_def comp_def)
qed

lemma list_all2_zip: "list_all P (zip xs ys) \<Longrightarrow> length xs = length ys \<Longrightarrow> list_all2 (\<lambda>x y. P (x, y)) xs ys"
  by (induction xs ys rule: list_induct2') auto

lemma bind_layer_triple:
  assumes "\<exists>raw. blob_named C layer raw" "media_of layer \<in> set LAYER_TYPES"
  shows "native_triple L C Img (bind_layer L C (layer, checked)) (\<lambda>_. layer_bound L C layer checked)"
proof -
  obtain d raw where d: "layer = PDict d" "blob_named C (PDict d) raw" using assms(1) by (auto simp: blob_named_def)
  show ?thesis
    unfolding bind_layer_def d(1) fst_conv snd_conv as_dict_PDict
    by (rule native_then [OF layer_digest_triple [OF d(2)]], rule native_lift) (use d assms in \<open>auto simp: layer_bound_def\<close>)
qed

lemma layer_types_str: "in_strs v LAYER_TYPES = Inr True \<Longrightarrow> \<exists>t. v = PStr t \<and> t \<in> set LAYER_TYPES"
  by (cases v) (auto simp: in_strs_def split: if_splits)

lemma layers_triple:
  "native_triple L C Img (iiter (\<lambda>layer. ibind (have_blob C layer LAYER_TYPES) (\<lambda>_. ireturn ())) layers)
     (\<lambda>_. list_all (\<lambda>layer. (\<exists>raw. blob_named C layer raw) \<and> media_of layer \<in> set LAYER_TYPES) layers)"
  by (rule triple_iter, rule native_then [OF have_blob_triple], rule native_return)
     (auto simp: media_of_def as_dict_def as_str_def dest: layer_types_str)

lemma bind_layers_triple:
  assumes "list_all (\<lambda>layer. (\<exists>raw. blob_named C layer raw) \<and> media_of layer \<in> set LAYER_TYPES) layers" "length layers = length ids"
  shows "native_triple L C Img (iiter (bind_layer L C) (zip layers ids)) (\<lambda>_. list_all2 (layer_bound L C) layers ids)"
proof (rule triple_post)
  show "native_triple L C Img (iiter (bind_layer L C) (zip layers ids)) (\<lambda>_. list_all (\<lambda>(layer, checked). layer_bound L C layer checked) (zip layers ids))"
  proof (rule triple_iter_set)
    fix x
    assume "x \<in> set (zip layers ids)"
    then obtain layer checked where "x = (layer, checked)" "layer \<in> set layers" by (metis set_zip_leftD surj_pair)
    then show "native_triple L C Img (bind_layer L C x) (\<lambda>_. (\<lambda>(layer, checked). layer_bound L C layer checked) x)"
      using assms(1) by (auto simp: list_all_iff intro!: bind_layer_triple)
  qed
qed (use assms(2) in \<open>auto simp: list_all2_iff list_all_iff\<close>)

lemma add_native_image:
  assumes "\<And>img. native_image_ok L C expected img \<Longrightarrow> Img img" "native_image_ok L C expected img"
  shows "native_triple L C Img (update (\<lambda>st. st\<lparr>na_images := na_images st @ [img]\<rparr>)) (\<lambda>_. True)"
  using assms by (intro native_update) (simp add: nat_inv_def)

lemma native_image_okI:
  assumes "json_named L C (PDict descriptor) data" "dget data ''config'' PNone = PDict config" "json_named L C (dget data ''config'' PNone) details"
    "platform_ok (hd (split_on (CHR ''/'') expected)) (hd (tl (split_on (CHR ''/'') expected))) (dget descriptor ''platform'' PNone) details"
    "dget details ''config'' PNone = PDict body" "labels_ok C body" "dget data ''layers'' PNone = PList layers"
    "dget details ''rootfs'' PNone = PDict rootfs" "dget rootfs ''diff_ids'' PNone = PList (map PStr ids)" "list_all2 (layer_bound L C) layers ids"
  shows "native_image_ok L C expected
    [(''descriptor'', PDict (descriptor_entry descriptor)), (''config_sha256'', PStr (drop 7 (descriptor_digest (PDict config))))]"
  unfolding native_image_ok_def using assms by metis

lemma native_image_triple:
  assumes C: "check_sound L C" and data: "json_named L C (PDict descriptor) data"
    and Img: "\<And>img. native_image_ok L C expected img \<Longrightarrow> Img img"
  shows "native_triple L C Img (native_image L C expected descriptor data) (\<lambda>_. True)"
  unfolding native_image_def Let_def
proof (rule native_then [OF json_blob_triple [OF C]], clarify, rule native_step, rule native_step,
    rule native_then [OF layers_triple], rule native_step)
  fix config details u layers w ids
  assume config: "dget data ''config'' PNone = PDict config" "json_named L C (dget data ''config'' PNone) details"
    and body: "image_body C (hd (split_on (CHR ''/'') expected)) (hd (tl (split_on (CHR ''/'') expected))) (dget descriptor ''platform'' PNone) details = Inr u"
    and layers: "bounded_list (dget data ''layers'' PNone) 0 ''Invalid OCI layers'' = Inr layers"
      "list_all (\<lambda>layer. (\<exists>raw. blob_named C layer raw) \<and> media_of layer \<in> set LAYER_TYPES) layers"
    and ids: "diff_ids (dget details ''rootfs'' PNone) (length layers) = Inr ids"
  have len: "length layers = length ids" using diff_ids_Inr [OF ids] by auto
  have "drop 7 (as_str (dget config ''digest'' PNone)) = drop 7 (descriptor_digest (PDict config))"
    using config blob_named_digest [of C config] by (auto simp: json_named_def as_str_def)
  moreover obtain conf where "dget details ''config'' PNone = PDict conf" "labels_ok C conf"
    using image_body_Inr [OF body] by blast
  moreover obtain rootfs where "dget details ''rootfs'' PNone = PDict rootfs" "dget rootfs ''diff_ids'' PNone = PList (map PStr ids)"
    using diff_ids_Inr [OF ids] by blast
  ultimately have "native_image_ok L C expected
      [(''descriptor'', PDict (descriptor_entry descriptor)), (''config_sha256'', PStr (drop 7 (as_str (dget config ''digest'' PNone))))]"
    if "list_all2 (layer_bound L C) layers ids"
    using native_image_okI [OF data config _ _ _ _ _ _ that] image_body_Inr [OF body] bounded_list_Inr [OF layers(1)] by metis
  then show "native_triple L C Img (ibind (iiter (bind_layer L C) (zip layers ids)) (\<lambda>_.
      update (\<lambda>st. st\<lparr>na_images := na_images st @
        [[(''descriptor'', PDict (descriptor_entry descriptor)), (''config_sha256'', PStr (drop 7 (as_str (dget config ''digest'' PNone))))]]\<rparr>))) (\<lambda>_. True)"
    by (intro native_then [OF bind_layers_triple [OF layers(2) len]] add_native_image [OF Img])
qed


section \<open>Attestations\<close>

lemma artifact_subject_triple: "check_sound L C \<Longrightarrow> native_triple L C Img (artifact_subject L C arch descriptor data reference) (\<lambda>_. True)"
  unfolding artifact_subject_def
  by (intro native_step native_then [OF json_blob_triple] native_then [OF have_blob_triple])
     (auto intro!: native_step native_then [OF have_blob_triple] native_return)

lemma legacy_subject_triple: "check_sound L C \<Longrightarrow> native_triple L C Img (legacy_subject L C descriptor data reference) (\<lambda>_. True)"
  unfolding legacy_subject_def
  by (intro native_step native_then [OF json_blob_triple]) (auto intro!: native_step native_lift)

lemma statement_layer_triple:
  assumes "check_sound L C"
  shows "native_triple L C Img (statement_layer L C subject layer)
    (\<lambda>predicate. \<exists>statement. json_named L C layer statement \<and> statement_ok subject statement = Inr True
       \<and> predicate = as_str (dget statement ''predicateType'' PNone))"
  unfolding statement_layer_def Let_def
proof (rule native_then [OF have_blob_triple], rule native_then [OF read_json_triple], rule native_step, rule native_step,
    rule native_then [OF native_update], simp, rule native_return, goal_cases)
  case (1 d statement ok u w)
  then obtain raw entry where "layer = PDict d" and n: "blob_named C layer raw"
    and m: "map_of (nc_members C) (blob_of (as_str (dget d ''digest'' PNone))) = Some entry"
      "loads_bytes L oci_opts (tm_data entry) = Inr (PDict statement)"
    by auto
  moreover from this have "as_str (dget d ''digest'' PNone) = descriptor_digest layer"
    using blob_named_digest [of C d raw] by (simp add: as_str_def)
  ultimately have "json_named L C layer statement"
    using blob_members [OF assms] by (fastforce simp: json_named_def blob_named_def)
  with 1 show ?case by auto
qed

lemma attested_statements:
  assumes "list_all2 (\<lambda>layer predicate. \<exists>statement. json_named L C layer statement \<and> statement_ok subject statement = Inr True
       \<and> predicate = as_str (dget statement ''predicateType'' PNone)) layers predicates"
  shows "\<exists>statements. list_all2 (json_named L C) layers statements
    \<and> list_all (\<lambda>statement. statement_ok subject statement = Inr True) statements
    \<and> predicates = map (\<lambda>statement. as_str (dget statement ''predicateType'' PNone)) statements"
  using assms
proof (induction rule: list_all2_induct)
  case (Cons x xs y ys)
  then obtain statement statements where "json_named L C x statement" "statement_ok subject statement = Inr True"
    "y = as_str (dget statement ''predicateType'' PNone)" "list_all2 (json_named L C) xs statements"
    "list_all (\<lambda>statement. statement_ok subject statement = Inr True) statements"
    "ys = map (\<lambda>statement. as_str (dget statement ''predicateType'' PNone)) statements" by blast
  then show ?case by (intro exI [of _ "statement # statements"]) simp
qed simp

lemma native_attestation_triple:
  assumes C: "check_sound L C" and data: "json_named L C (PDict descriptor) data"
  shows "native_triple L C Img (native_attestation L C expected descriptor data annotations) (\<lambda>_. True)"
  unfolding native_attestation_def Let_def
proof (rule native_step, rule native_then [where A = "\<lambda>_. True"], goal_cases)
  case (1 u)
  then show ?case by (simp add: artifact_subject_triple [OF C, simplified] legacy_subject_triple [OF C, simplified])
next
  case (2 u subject)
  show ?case
  proof (rule native_step, rule native_then [OF triple_imap [OF statement_layer_triple [OF C]]], rule native_update)
    fix layers predicates st
    assume layers: "bounded_list (dget data ''layers'' PNone) 1 ''Invalid attestation layers'' = Inr layers"
      and p: "list_all2 (\<lambda>layer predicate. \<exists>statement. json_named L C layer statement \<and> statement_ok subject statement = Inr True
       \<and> predicate = as_str (dget statement ''predicateType'' PNone)) layers predicates"
      and inv: "nat_inv L C Img st"
    have "attestation_ok L C \<lparr>at_digest = dget descriptor ''digest'' PNone, at_subject = subject, at_predicates = sort (remdups predicates)\<rparr>"
    proof -
      obtain statements where st: "list_all2 (json_named L C) layers statements"
        "list_all (\<lambda>statement. statement_ok subject statement = Inr True) statements"
        "predicates = map (\<lambda>statement. as_str (dget statement ''predicateType'' PNone)) statements"
        using attested_statements [OF p] by blast
      moreover have "dget data ''layers'' PNone = PList layers" "statements \<noteq> []"
        using bounded_list_Inr [OF layers] list_all2_lengthD [OF st(1)] by auto
      ultimately show ?thesis using data unfolding attestation_ok_def by auto
    qed
    with inv show "nat_inv L C Img (st\<lparr>na_attestations := na_attestations st @
        [\<lparr>at_digest = dget descriptor ''digest'' PNone, at_subject = subject, at_predicates = sort (remdups predicates)\<rparr>]\<rparr>)"
      by (simp add: nat_inv_def)
  qed
qed


section \<open>The walk\<close>

abbreviation native_keeps :: "pylib \<Rightarrow> native_check \<Rightarrow> (jobject \<Rightarrow> bool) \<Rightarrow> ('a native_scheme, 'b) io \<Rightarrow> bool" where
  "native_keeps L C Img m \<equiv> triple (nat_inv L C Img) m (\<lambda>_. nat_inv L C Img) (\<lambda>_. True)"

text \<open>Hooks that keep the invariant on the manifests of the archive.\<close>

definition hooks_keep :: "pylib \<Rightarrow> native_check \<Rightarrow> (jobject \<Rightarrow> bool) \<Rightarrow> 'a native_scheme hooks \<Rightarrow> bool" where
  "hooks_keep L C Img K \<longleftrightarrow>
     (\<forall>d data annotations. json_named L C (PDict d) data \<longrightarrow>
        native_keeps L C Img (hk_image K d data) \<and> native_keeps L C Img (hk_attestation K d data annotations))"

lemma native_leaf_keeps:
  assumes "hooks_keep L C Img K" "json_named L C (PDict descriptor) data"
  shows "native_keeps L C Img (native_leaf K descriptor data)"
  unfolding native_leaf_def
proof (rule native_step, rule triple_bind [where R = "\<lambda>_. nat_inv L C Img"], goal_cases)
  case (1 annotations)
  then show ?case using assms by (auto simp: hooks_keep_def intro!: native_step)
next
  case (2 annotations u)
  have "nat_inv L C Img (st\<lparr>na_leaves := na_leaves st @ [descriptor]\<rparr>)" if "nat_inv L C Img st" for st :: "'a native_scheme"
    using that assms(2) by (auto simp: nat_inv_def)
  then show ?case
    by (intro triple_get_free native_step triple_update_any)
qed

lemma iter_native: "(\<And>x. native_keeps L C Img (f x)) \<Longrightarrow> native_keeps L C Img (iiter f xs)"
  using triple_iter [of "nat_inv L C Img" f "\<lambda>_. True"] by (simp add: list_all_iff)

lemma native_node_keeps:
  assumes "check_sound L C" "hooks_keep L C Img K" "\<And>v. native_keeps L C Img (walk v)"
  shows "native_keeps L C Img (native_node L C K walk v)"
  unfolding native_node_def Let_def
  by (rule native_then [OF json_blob_triple [OF assms(1)]])
     (auto intro!: native_step iter_native native_leaf_keeps assms)

lemma native_walk_keeps:
  assumes "check_sound L C" "hooks_keep L C Img K"
  shows "native_keeps L C Img (native_walk L C K levels v)"
proof (induction levels arbitrary: v)
  case 0
  show ?case by (simp, rule triple_bind [where R = "\<lambda>_. nat_inv L C Img"]) (auto intro: triple_update_any)
next
  case (Suc levels)
  show ?case
    by (simp add: native_visit_def, rule triple_bind [where R = "\<lambda>_. nat_inv L C Img"], rule triple_bind [where R = "\<lambda>_. nat_inv L C Img"])
       (auto intro!: triple_update_any triple_get_free native_node_keeps [OF assms] Suc.IH)
qed

lemma native_graph_keeps:
  assumes "check_sound L C" "hooks_keep L C Img K"
  shows "native_keeps L C Img (native_graph L C K)"
  unfolding native_graph_def
  by (rule native_then [OF read_json_triple], rule native_step, rule native_then [OF read_json_triple], rule native_step,
      rule iter_native, rule native_walk_keeps [OF assms])

lemma native_hooks_keep: "check_sound L C \<Longrightarrow> hooks_keep L C (native_image_ok L C platform) (native_hooks L C platform)"
  unfolding hooks_keep_def native_hooks_def
  by (auto intro: native_image_triple [simplified] native_attestation_triple [simplified])

lemma checked_input_sound:
  assumes "checked_input L K ver revision input = Inr C"
  shows "check_sound L C \<and> nc_version C = ver \<and> nc_revision C = revision \<and> nc_codec C = K"
proof -
  obtain iv where iv: "take_inventory L (in_tar input) (in_tar_end input) = Inr iv"
    and "C = \<lparr>nc_members = iv_members iv, nc_blobs = iv_blobs iv, nc_version = ver, nc_revision = revision, nc_codec = K\<rparr>"
    using assms by (auto simp: checked_input_def rbind_Inr_iff)
  with take_inventory_sound [OF iv] show ?thesis by (auto simp: inventory_sound_def check_sound_def)
qed

lemma complete_native_Inr:
  "complete_native st = Inr u \<Longrightarrow>
     \<exists>img. na_images st = [img] \<and> list_all (\<lambda>a. PDict (at_subject a) = dget img ''descriptor'' PNone) (na_attestations st)"
  by (auto simp: complete_native_def rbind_Inr_iff list_all_iff length_Suc_conv)

lemma open_archive_Inr:
  assumes "open_archive L K platform ver revision input = Inr ar"
  shows "check_sound L (ar_check ar) \<and> nat_inv L (ar_check ar) (native_image_ok L (ar_check ar) platform) (ar_state ar)
    \<and> checked_input L K ver revision input = Inr (ar_check ar) \<and> complete_native (ar_state ar) = Inr ()
    \<and> ar_platform ar = platform \<and> ar_input ar = input \<and> in_unchanged input"
proof -
  obtain C where C: "checked_input L K ver revision input = Inr C"
    using assms by (auto simp: open_archive_def rbind_Inr_iff)
  obtain r st where g: "native_graph L C (native_hooks L C platform) native_start = (r, st)"
    by (cases "native_graph L C (native_hooks L C platform) native_start")
  have "ar = \<lparr>ar_platform = platform, ar_input = input, ar_check = C, ar_state = st\<rparr>" "complete_native st = Inr ()" "in_unchanged input"
    and u: "r = Inr ()"
    using assms C g by (auto simp: open_archive_def input_unchanged_def rbind_Inr_iff split: sum.splits)
  moreover have "nat_inv L C (native_image_ok L C platform) st"
  proof -
    have "nat_inv L C (native_image_ok L C platform) native_start"
      by (simp add: nat_inv_def native_start_def MAX_ROOTFS_BYTES_def)
    then show ?thesis
      using native_graph_keeps [OF _ native_hooks_keep, of L C platform] checked_input_sound [OF C] g u unfolding triple_def by fastforce
  qed
  ultimately show ?thesis using C checked_input_sound [OF C] by simp
qed


section \<open>Properties\<close>

lemma inventory_from_members:
  "inventory_from L n iv entries = Inr iv' \<Longrightarrow> snd ` set (iv_members iv') \<subseteq> snd ` set (iv_members iv) \<union> set entries"
proof (induction L n iv entries rule: inventory_from.induct)
  case (2 L n iv entry entries)
  then obtain mid where mid: "inventory_entry L n entry iv = Inr mid" "inventory_from L (Suc n) mid entries = Inr iv'"
    by (auto simp: rbind_Inr_iff)
  then have "snd ` set (iv_members mid) \<subseteq> insert entry (snd ` set (iv_members iv))"
    by (auto simp: inventory_entry_def inventory_member_def Let_def rbind_Inr_iff split: if_splits)
  with "2.IH" [OF mid(2)] show ?case by auto
qed simp

lemma checked_input_members:
  assumes "checked_input L K ver revision input = Inr C"
  shows "\<not> in_symlink input \<and> in_regular input \<and> in_tar_end input = Inr () \<and> snd ` set (nc_members C) \<subseteq> set (in_tar input)"
proof -
  obtain iv where iv: "inventory_from L 0 \<lparr>iv_seen = [], iv_members = [], iv_blobs = []\<rparr> (in_tar input) = Inr iv"
    and "in_tar_end input = Inr ()" "\<not> in_symlink input" "in_regular input" "nc_members C = iv_members iv"
    using assms by (auto simp: checked_input_def take_inventory_def rbind_Inr_iff)
  with inventory_from_members [OF iv] show ?thesis by simp
qed

text \<open>
  C37: An input that \<open>Archive\<close> accepts is a regular file, reached by no symbolic link, that did not change. Every blob is a member of it whose
  name is the digest of its bytes. It has exactly one image: a manifest and a configuration among those blobs, for the
  expected platform, labelled with the expected version and revision, and the decompressed bytes of every layer hash to
  the configuration's entry for it. Every attestation lists statements among the blobs and is about that image.
\<close>

theorem native_archive_verified:
  "case open_archive L K platform ver revision input of
     Inl e \<Rightarrow> True
   | Inr ar \<Rightarrow>
       let C = ar_check ar in
       \<not> in_symlink input \<and> in_regular input \<and> in_unchanged input \<and> in_tar_end input = Inr ()
       \<and> snd ` set (nc_members C) \<subseteq> set (in_tar input) \<and> check_sound L C
       \<and> nc_version C = ver \<and> nc_revision C = revision \<and> nc_codec C = K
       \<and> (\<exists>img. na_images (ar_state ar) = [img] \<and> native_image_ok L C platform img
            \<and> list_all (\<lambda>a. attestation_ok L C a \<and> PDict (at_subject a) = dget img ''descriptor'' PNone) (na_attestations (ar_state ar)))
       \<and> na_rootfs (ar_state ar) \<le> MAX_ROOTFS_BYTES"
proof (cases "open_archive L K platform ver revision input")
  case (Inr ar)
  note o = open_archive_Inr [OF Inr]
  then have ci: "checked_input L K ver revision input = Inr (ar_check ar)" and inv: "nat_inv L (ar_check ar) (native_image_ok L (ar_check ar) platform) (ar_state ar)"
    and "complete_native (ar_state ar) = Inr ()" by blast+
  then obtain img where "na_images (ar_state ar) = [img]"
    "list_all (\<lambda>a. PDict (at_subject a) = dget img ''descriptor'' PNone) (na_attestations (ar_state ar))"
    using complete_native_Inr by blast
  with Inr o checked_input_sound [OF ci] checked_input_members [OF ci] inv show ?thesis
    by (simp add: nat_inv_def list_all_iff)
qed simp

end
