(* ===== verification/OciMergeProps.thy ===== *)
theory OciMergeProps
  imports OciArchiveProps
begin

text \<open>
  What \<open>merge_archives\<close> publishes: an archive whose blobs are the blobs of both verified inputs, unchanged, and one index
  of all their manifests.
\<close>

section \<open>Shared blobs\<close>

lemma merge_blobs_sound:
  assumes "merge_blobs blobs entries = Inr merged" "list_all (blob_sound L) blobs" "list_all (blob_sound L) entries"
  shows "list_all (blob_sound L) merged \<and> fst ` set merged = fst ` set blobs \<union> fst ` set entries"
  using assms
proof (induction blobs entries rule: merge_blobs.induct)
  case (2 blobs name entry entries)
  let ?b = "(name, entry) # filter (\<lambda>(n, e). n \<noteq> name) blobs"
  have "fst ` set ?b = fst ` set blobs \<union> {name}" by force
  moreover have "list_all (blob_sound L) ?b" using "2.prems"(2,3) by (auto simp: list_all_iff)
  moreover have "merge_blobs ?b entries = Inr merged" using "2.prems"(1) by (auto simp: rbind_Inr_iff)
  moreover have "list_all (blob_sound L) entries" using "2.prems"(3) by simp
  ultimately have "list_all (blob_sound L) merged \<and> fst ` set merged = (fst ` set blobs \<union> {name}) \<union> fst ` set entries"
    using "2.IH" by metis
  then show ?case by auto
qed simp

lemma merge_two:
  assumes "rfold (\<lambda>blobs ar. merge_blobs blobs (nc_blobs (ar_check ar))) [] [a, b] = Inr blobs"
    and "check_sound L (ar_check a)" "check_sound L (ar_check b)"
  shows "list_all (blob_sound L) blobs \<and> fst ` set blobs = fst ` set (nc_blobs (ar_check a)) \<union> fst ` set (nc_blobs (ar_check b))"
proof -
  obtain first where "merge_blobs [] (nc_blobs (ar_check a)) = Inr first" "merge_blobs first (nc_blobs (ar_check b)) = Inr blobs"
    using assms(1) by (auto simp: rbind_Inr_iff)
  then show ?thesis using merge_blobs_sound [of "[]" _ first L] merge_blobs_sound [of first _ blobs L] assms(2,3)
    unfolding check_sound_def by (metis list.pred_inject(1) Un_empty_left image_empty list.set(1))
qed

section \<open>The index\<close>

lemma stable_sort_snd: "sorted (map f xs) \<Longrightarrow> sorted (map f (filter P xs))"
  by (rule sorted_filter)

lemma sort_leaves_mset [simp]: "mset (sort_leaves leaves) = mset leaves"
  by (simp add: sort_leaves_def)

lemma sort_leaves_images: "sorted (map (\<lambda>leaf. leaf_platform leaf ''os'' = ''unknown'') (sort_leaves leaves))"
  by (simp add: sort_leaves_def)

section \<open>The members\<close>

lemma generated_index_Inr:
  assumes "generated_index L leaves = Inr (generated, inner_digest)"
  shows "\<exists>inner root layout. oci_canonical L (index_json (map PDict leaves)) = Inr inner \<and> inner_digest = digest L inner
    \<and> oci_canonical L (index_json [index_descriptor L inner]) = Inr root
    \<and> oci_canonical L (PDict [(''imageLayoutVersion'', PStr ''1.0.0'')]) = Inr layout
    \<and> generated = [(''oci-layout'', layout), (''index.json'', root), (BLOB_PREFIX @ digest L inner, inner)]"
  using assms by (auto simp: generated_index_def rbind_Inr_iff)

lemma map_of_tabulate: "map_of (map (\<lambda>n. (n, f n)) xs) name = (if name \<in> set xs then Some (f name) else None)"
  by (induction xs) auto

lemma output_members_map_of:
  "map_of (output_members generated blobs) name =
     (case map_of generated name of Some raw \<Rightarrow> Some raw | None \<Rightarrow> map_option tm_data (map_of blobs name))"
proof -
  have "name \<in> fst ` set xs \<longleftrightarrow> map_of xs name \<noteq> None" for xs :: "(string \<times> 'b) list"
    by (simp add: map_of_eq_None_iff)
  then have mem: "name \<in> set (sort (remdups (map fst generated @ map fst blobs))) \<longleftrightarrow> map_of generated name \<noteq> None \<or> map_of blobs name \<noteq> None"
    by (simp add: map_of_eq_None_iff)
  show ?thesis unfolding output_members_def map_of_tabulate mem by (auto split: option.splits)
qed

lemma output_members_sorted: "sorted (map fst (output_members generated blobs)) \<and> distinct (map fst (output_members generated blobs))"
  by (simp add: output_members_def comp_def)


text \<open>Every blob among the members is named by its digest, and the blobs of an input have equal digests there.\<close>

lemma output_blob_name:
  assumes "list_all (blob_sound L) blobs" "generated = [(''oci-layout'', layout), (''index.json'', root), (BLOB_PREFIX @ digest L inner, inner)]"
    and "map_of (output_members generated blobs) name = Some data" "prefix ''blobs/'' name"
  shows "name = BLOB_PREFIX @ digest L data"
proof -
  from assms(3) consider "map_of generated name = Some data" | entry where "map_of blobs name = Some entry" "data = tm_data entry"
    by (auto simp: output_members_map_of split: option.splits)
  then show ?thesis
  proof cases
    case 1
    then show ?thesis using assms(4) by (auto simp: assms(2) split: if_splits)
  next
    case 2
    then show ?thesis using assms(1) by (auto simp: list_all_iff blob_sound_def dest!: map_of_SomeD)
  qed
qed

lemma output_blobs:
  assumes "list_all (blob_sound L) blobs" "generated = [(''oci-layout'', layout), (''index.json'', root), (BLOB_PREFIX @ digest L inner, inner)]"
  shows "list_all (\<lambda>(name, data). name = BLOB_PREFIX @ digest L data) (filter (\<lambda>(name, data). prefix ''blobs/'' name) (output_members generated blobs))"
  using output_blob_name [OF assms] output_members_sorted [of generated blobs] by (auto simp: list_all_iff)

lemma output_has_blobs:
  assumes "list_all (blob_sound L) blobs" "generated = [(''oci-layout'', layout), (''index.json'', root), (BLOB_PREFIX @ digest L inner, inner)]"
    "list_all (blob_sound L) wanted" "fst ` set wanted \<subseteq> fst ` set blobs"
  shows "list_all (\<lambda>(name, entry). \<exists>data. map_of (output_members generated blobs) name = Some data \<and> digest L data = digest L (tm_data entry)) wanted"
  unfolding list_all_iff
proof (clarify)
  fix name entry
  assume w: "(name, entry) \<in> set wanted"
  then have "name \<in> fst ` set blobs" using assms(4) by force
  then have "map_of blobs name \<noteq> None" by (simp add: map_of_eq_None_iff)
  then obtain data where data: "map_of (output_members generated blobs) name = Some data"
    by (cases "map_of generated name") (auto simp: output_members_map_of)
  have n: "name = BLOB_PREFIX @ digest L (tm_data entry)" using w assms(3) by (auto simp: list_all_iff blob_sound_def)
  moreover have "name = BLOB_PREFIX @ digest L data"
    by (rule output_blob_name [OF assms(1,2) data]) (simp add: n BLOB_PREFIX_def)
  ultimately show "\<exists>data. map_of (output_members generated blobs) name = Some data \<and> digest L data = digest L (tm_data entry)"
    using data by simp
qed

section \<open>Properties\<close>

lemma rbind_InrE:
  assumes "rbind m f = Inr y"
  obtains x where "m = Inr x" "f x = Inr y"
  using assms by (auto simp: rbind_Inr_iff)

lemma merge_archives_Inr:
  assumes "merge_archives L K E inputs ver revision = Inr (result, members)"
  shows "\<exists>a b generated inner_digest blobs written.
    open_archive L K ''linux/amd64'' ver revision (the (map_of inputs ''linux/amd64'')) = Inr a
    \<and> open_archive L K ''linux/arm64'' ver revision (the (map_of inputs ''linux/arm64'')) = Inr b
    \<and> generated_index L (sort_leaves (na_leaves (ar_state a) @ na_leaves (ar_state b))) = Inr (generated, inner_digest)
    \<and> rfold (\<lambda>blobs ar. merge_blobs blobs (nc_blobs (ar_check ar))) [] [a, b] = Inr blobs
    \<and> members = output_members generated blobs \<and> me_tar E members = Inr written
    \<and> result = merged_result L E ver revision [a, b] inner_digest written \<and> \<not> me_exists E"
proof -
  let ?archives = "rmap (\<lambda>platform. open_archive L K platform ver revision (the (map_of inputs platform))) PLATFORMS"
  let ?leaves = "\<lambda>archives. sort_leaves (concat (map (na_leaves \<circ> ar_state) archives))"
  obtain archives p where a: "?archives = Inr archives" and p: "generated_index L (?leaves archives) = Inr p"
    and tail: "(\<lambda>(g, i). rbind (rfold (\<lambda>blobs ar. merge_blobs blobs (nc_blobs (ar_check ar))) [] archives) (\<lambda>blobs.
     let members = output_members g blobs in
     rbind (me_tar E members) (\<lambda>written.
     rbind (riter (\<lambda>ar. input_unchanged (in_still_unchanged (ar_input ar))) archives) (\<lambda>_.
     rbind (me_link E) (\<lambda>_. Inr (merged_result L E ver revision archives i written, members)))))) p = Inr (result, members)"
    and new: "value_require (\<not> me_exists E) ''Output already exists'' = Inr ()"
    using assms unfolding merge_archives_def by (elim rbind_InrE) simp
  obtain g i where g: "generated_index L (?leaves archives) = Inr (g, i)" and pair: "p = (g, i)" using p by (cases p) auto
  note rest = tail [unfolded pair prod.case Let_def]
  obtain x y where "archives = [x, y]"
    "open_archive L K ''linux/amd64'' ver revision (the (map_of inputs ''linux/amd64'')) = Inr x"
    "open_archive L K ''linux/arm64'' ver revision (the (map_of inputs ''linux/arm64'')) = Inr y"
    using a by (auto simp: PLATFORMS_def rbind_Inr_iff)
  moreover obtain blobs written where "rfold (\<lambda>blobs ar. merge_blobs blobs (nc_blobs (ar_check ar))) [] archives = Inr blobs"
    "me_tar E (output_members g blobs) = Inr written"
    "merged_result L E ver revision archives i written = result" "output_members g blobs = members"
    using rest by (elim rbind_InrE) simp
  ultimately show ?thesis using g new by (intro exI [of _ x] exI [of _ y]) auto
qed

text \<open>
  C38: When two native archives are merged, each input was verified for its platform. The published members are sorted and
  occur once; every blob is named by the digest of its bytes, and every blob of either input is there with the same digest.
  The index in \<open>index.json\<close> names an inner index, also a blob, that lists the manifests and attestations of both inputs,
  each exactly as often as they do and images first.
\<close>

theorem merge_preserves_inputs:
  "case merge_archives L K E inputs ver revision of
     Inl e \<Rightarrow> True
   | Inr (result, members) \<Rightarrow>
       sorted (map fst members) \<and> distinct (map fst members)
       \<and> list_all (\<lambda>(name, data). name = BLOB_PREFIX @ digest L data) (filter (\<lambda>(name, data). prefix ''blobs/'' name) members)
       \<and> (\<exists>a b inner root leaves.
            open_archive L K ''linux/amd64'' ver revision (the (map_of inputs ''linux/amd64'')) = Inr a
            \<and> open_archive L K ''linux/arm64'' ver revision (the (map_of inputs ''linux/arm64'')) = Inr b
            \<and> list_all (\<lambda>(name, entry). \<exists>data. map_of members name = Some data \<and> digest L data = digest L (tm_data entry))
                (nc_blobs (ar_check a) @ nc_blobs (ar_check b))
            \<and> mset leaves = mset (na_leaves (ar_state a)) + mset (na_leaves (ar_state b))
            \<and> sorted (map (\<lambda>leaf. leaf_platform leaf ''os'' = ''unknown'') leaves)
            \<and> oci_canonical L (index_json (map PDict leaves)) = Inr inner \<and> map_of members (BLOB_PREFIX @ digest L inner) = Some inner
            \<and> oci_canonical L (index_json [index_descriptor L inner]) = Inr root \<and> map_of members ''index.json'' = Some root)"
proof (cases "merge_archives L K E inputs ver revision")
  case (Inr r)
  obtain result members where r: "r = (result, members)" by (cases r)
  obtain a b generated inner_digest blobs
    where a: "open_archive L K ''linux/amd64'' ver revision (the (map_of inputs ''linux/amd64'')) = Inr a"
      and b: "open_archive L K ''linux/arm64'' ver revision (the (map_of inputs ''linux/arm64'')) = Inr b"
      and g: "generated_index L (sort_leaves (na_leaves (ar_state a) @ na_leaves (ar_state b))) = Inr (generated, inner_digest)"
      and m: "rfold (\<lambda>blobs ar. merge_blobs blobs (nc_blobs (ar_check ar))) [] [a, b] = Inr blobs"
      and members: "members = output_members generated blobs"
    using merge_archives_Inr [OF Inr [unfolded r]] by blast
  obtain inner root layout where i: "oci_canonical L (index_json (map PDict (sort_leaves (na_leaves (ar_state a) @ na_leaves (ar_state b))))) = Inr inner"
      "oci_canonical L (index_json [index_descriptor L inner]) = Inr root"
    and gen: "generated = [(''oci-layout'', layout), (''index.json'', root), (BLOB_PREFIX @ digest L inner, inner)]"
    using generated_index_Inr [OF g] by blast
  have sound: "check_sound L (ar_check a)" "check_sound L (ar_check b)"
    using open_archive_Inr [OF a] open_archive_Inr [OF b] by blast+
  note blobs = merge_two [OF m sound]
  have "list_all (\<lambda>(name, entry). \<exists>data. map_of members name = Some data \<and> digest L data = digest L (tm_data entry))
      (nc_blobs (ar_check a) @ nc_blobs (ar_check b))"
    unfolding members using blobs sound
    by (intro output_has_blobs [OF conjunct1 [OF blobs] gen]) (auto simp: check_sound_def)
  moreover have "map_of members (BLOB_PREFIX @ digest L inner) = Some inner" "map_of members ''index.json'' = Some root"
    by (simp_all add: members gen output_members_map_of BLOB_PREFIX_def)
  moreover have "list_all (\<lambda>(name, data). name = BLOB_PREFIX @ digest L data) (filter (\<lambda>(name, data). prefix ''blobs/'' name) members)"
    unfolding members by (rule output_blobs [OF conjunct1 [OF blobs] gen])
  moreover have "mset (sort_leaves (na_leaves (ar_state a) @ na_leaves (ar_state b))) = mset (na_leaves (ar_state a)) + mset (na_leaves (ar_state b))"
    by simp
  ultimately show ?thesis
    using a b i output_members_sorted [of generated blobs] sort_leaves_images
    unfolding Inr r sum.case prod.case members by blast
qed simp

end
