(* ===== verification/Spec2Isabelle.thy ===== *)
theory Spec2Isabelle
  imports ExampleServer ReceiptProps VersionedProps JsonDocProps ArtifactProps VersionEditProps
    VersionSyncProps OciMergeProps
begin

text \<open>
  \<^bold>\<open>The release toolkit of the inverter gateway\<close>

  The Python scripts under \<open>scripts/\<close> turn a merged commit into a release: they freeze a version plan and
  reserve its numbers in a ledger that lives on a branch of the repository, decide which checks a change
  needs, build and attest packages, gate publication on the results of GitHub Actions, publish
  candidates, and promote an accepted release candidate unchanged. GitHub is reached through the \<open>gh\<close> command
  line client. This development models that decision logic and proves what it guarantees.

  \<^bold>\<open>Foundations\<close>

  \<^item> \<open>Prelude\<close>: exceptions as values (\<open>pyerror\<close>, \<open>'a result\<close>), state passing with exceptions
    (\<open>('w, 'a) io\<close>, where \<open>'w\<close> is everything outside the program), string operations.
  \<^item> \<open>Regex\<close>, \<open>Decimal\<close>, \<open>Base64\<close>: \<open>re.fullmatch\<close> by derivatives (proved equal to the language of the
    pattern), \<open>int\<close> and \<open>str\<close>, \<open>base64\<close>.
  \<^item> \<open>PyValue\<close>, \<open>CanonicalJson\<close>, \<open>JsonParse\<close>: JSON values with Python's equality and truth, \<open>json.dumps\<close> in
    the two forms the scripts use, \<open>json.loads\<close> with and without the duplicate check. \<open>pylib\<close> holds what
    is left open: SHA-256, SHA-1, the printing and parsing of floats and Unicode digits.
  Text is its UTF-8 bytes (\<open>string\<close>); where code points matter (\<open>Changelog\<close>) it is split into them.

  \<^bold>\<open>Components\<close>

  \<^item> \<open>VersionPlan\<close>, \<open>VersionPlanProps\<close>, \<open>Projections\<close> model \<open>version_plan.py\<close> up to \<open>projected_value\<close>: the
    policy (\<open>validate_policy\<close>), identities (\<open>identity_of\<close> is \<open>_identity\<close>), plans (\<open>create_plan\<close>, \<open>validate_plan\<close>,
    \<open>plan_digest\<close>) and the package, native and Apple projections.
  \<^item> \<open>JsonDoc\<close>, \<open>JsonDocProps\<close>: the JSON documents of \<open>version_plan.py\<close> with the places of their scalars, and
    \<open>_json_edit\<close>. \<open>VersionEdit\<close>, \<open>VersionEditProps\<close>: the editors of the other formats and \<open>_edit\<close> (\<open>version_edit\<close>).
    \<open>VersionSync\<close>, \<open>VersionSyncProps\<close>: \<open>sync_versions\<close>, \<open>check_base_versions\<close> and \<open>verify_checkout\<close> over a \<open>'w disk\<close>.
  \<^item> \<open>OciMetadata\<close>, \<open>OciProps\<close>: class \<open>_OciMetadata\<close>, the verification of an OCI image archive. \<open>Artifacts\<close>,
    \<open>ArtifactProps\<close>: \<open>verify_artifact\<close> and \<open>verify_declared_artifacts\<close>, the inspection of published packages.
  \<^item> \<open>OciArchive\<close>, \<open>OciArchiveProps\<close>: class \<open>Archive\<close> of \<open>merge_oci_archives.py\<close>, the validation of an image exported by a
    native build. \<open>OciMerge\<close>, \<open>OciMergeProps\<close>: its constructor and \<open>merge_archives\<close>.
  \<^item> \<open>GitHubClient\<close>, \<open>ReleaseTags\<close>: class \<open>GitHub\<close> of \<open>release_control.py\<close> (\<open>check_request\<close> is the allowlist of
    \<open>request\<close>, \<open>read_attempts\<close> the loop of \<open>_read_get\<close>, \<open>gh_request\<close> the whole method) and tag allocation. A
    \<open>'w client\<close> is any object with that \<open>request\<close>; the methods above it are written for every client.
  \<^item> \<open>ReleaseState\<close>, \<open>LedgerProps\<close>, \<open>LedgerCodec\<close>: \<open>release_state.py\<close>, the ledger of reservations, as operations on
    a client, as a step relation over all interleavings of runners, and as bytes.
  \<^item> \<open>ChangeScope\<close>: \<open>change_scope.py\<close>. \<open>ReleaseValidation\<close>: \<open>release_validation.py\<close>.
  \<^item> \<open>ReleaseFuzz\<close>, \<open>FuzzRun\<close>: \<open>release_fuzz.py\<close>, the manifest and evidence checks and the campaign runner.
  \<^item> \<open>ReleasePolicy\<close>, \<open>RunChecks\<close>, \<open>RunWait\<close>: policy snapshots, the provenance of workflow runs, the release gate,
    waiting for the executing run and superseded candidates in \<open>release_control.py\<close>.
  \<^item> \<open>Changelog\<close>: the Markdown scanner of \<open>release_control.py\<close> and \<open>release_notes\<close>.
  \<^item> \<open>ManifestCheck\<close>, \<open>Publication\<close>, \<open>PublicationProps\<close>: \<open>validate_manifest\<close>, \<open>release_snapshot\<close>, \<open>verify_evidence\<close>,
    staging, uploads, \<open>_publish_prepared\<close>, and the commands \<open>candidate\<close> and \<open>promote\<close>. A \<open>'w hub\<close> adds
    downloads, uploads and local files to a client.
  \<^item> \<open>VersionReceipt\<close>, \<open>ReceiptProps\<close>: \<open>version_receipt.py\<close>, the receipts of a build and what the publisher accepts.
  \<^item> \<open>CreateReadback\<close>, \<open>CreateRelease\<close>: class \<open>CreateReadback\<close>, \<open>create_release_once\<close>, \<open>_reconcile_created_release\<close>
    and the token probe of \<open>release_control.py\<close>: one POST that is never repeated, and reads that may find its draft.
  \<^item> \<open>Toolchain\<close>, \<open>Versioned\<close>, \<open>ScheduledReuse\<close>, \<open>VersionedCommands\<close>, \<open>VersionedProps\<close>: \<open>release_versioned.py\<close>, the
    comparison of toolchains, the binding of a create call to its run, the reuse of a qualified release, and the commands
    \<open>prepare\<close> and \<open>publish_versioned\<close>, which compose the ledger, the receipts and the publication.
  \<^item> \<open>ExampleServer\<close>: a server with fixed answers, for concrete runs.

  \<^bold>\<open>Interfaces\<close>

  \<^item> \<open>frame\<close> and \<open>reads\<close> (\<open>Frames\<close>): a relation between the world before and after that GET requests keep is
    kept by every operation that only reads. Interpreted for time (\<open>clock\<close>) and for logs (\<open>logging.quiet\<close>).
  \<^item> \<open>polling\<close> (\<open>RunWait\<close>): a loop that sleeps towards a deadline returns. Interpreted for the wait for a run.
  \<^item> \<open>logging\<close> (\<open>PublicationProps\<close>): a hub whose world records writes, uploads and downloads in order.
    Interpreted for every hub of the model, with time.
  \<^item> \<open>disk_log\<close> (\<open>VersionSyncProps\<close>): a disk whose world records what was opened, written, replaced and removed.
    Interpreted for every disk of the model with a log.
  \<^item> \<open>bounded_reads\<close> (\<open>CreateReadback\<close>): a relation kept by the five steps of an observer is kept by every list and
    reconciliation it reads. Interpreted for the request counter, for the calls sent and for the log of changes.

  \<^bold>\<open>What the theorems show\<close>

  Each property is stated in the theory of its component, right after the text that explains it. In short:
  version strings and digests identify plans; requests retry reads at most twice and never repeat a
  write; under every interleaving the ledger never reuses or lowers a number and every operation of
  \<open>release_state.py\<close> is one step of it; a skipped check means a documentation change; a gate that opens
  means every required job succeeded; waiting terminates; release notes quote the reviewed changelog;
  an edit of a version file changes its field and nothing else, all edits are staged before the first file is
  replaced, and a check after a synchronisation succeeds; a verified package shows the planned version, and the
  images of an OCI archive hash to their digests; merging two verified exports keeps every blob of both;
  a build receipt covers each package once; an ambiguous create is observed and never repeated; and a candidate,
  promotion or versioned release becomes public only after every byte of exactly the accepted files was read back
  from the draft, the versioned one only after its build number is consumed.

  \<^bold>\<open>Bounds and fuel\<close>

  Loops that end by construction are structural or have a measure. The JSON scanner has fuel
  \<open>2 * length + 1\<close>, shown to be enough, and so has the parser of documents. A walk of an OCI archive gets the nine
  levels of the code's depth limit, and visits and bytes are counted as in the code. Polling is a
  \<open>partial_function\<close> and proved to return. The pages of a readback end because one observation has a hundred
  requests. Fixed limits of the code (three attempts, 4 MB ledgers, 2 MB manifests, five minutes of waiting) are
  constants of the model with the code's names.

  \<^bold>\<open>Not modelled\<close>

  In \<open>version_plan.py\<close> the command line. The parsers of the standard library it uses (TOML, Python, property lists,
  e-mail headers, ZIP and TAR) are records of the model, \<open>formats\<close>, \<open>package_lib\<close> and \<open>package_file\<close>, and so are the decompressors of OCI layers
  (\<open>codec\<close>) and what opening an archive and writing the merged one answer (\<open>oci_input\<close>, \<open>merge_env\<close>). The versioned
  commands take what runs on the checked-out files as an argument (record \<open>checkout_env\<close>), \<open>release.resolve_version\<close>
  among them; in \<open>release_control.py\<close> atomic
  local writes and the command line. The
  scripts that only drive tools or containers (\<open>smoke_release_container.py\<close>, \<open>runner_preflight.py\<close>,
  \<open>assemble_native_container.py\<close>, \<open>verified_images.py\<close>, \<open>release.py\<close> and others) and the
  gateway itself, which is written in Rust, are listed in the manifest with the reason. The detached
  provenance check is an argument of \<open>verify_receipts\<close>. The file system is modelled as far as a script looks
  at it: kinds, link counts and bytes.
\<close>

end
